(* ===== verification/Prelude.thy ===== *)
theory Prelude
  imports Main "HOL-Library.AList" "HOL-Library.State_Monad" "HOL-Library.Sublist"
    "HOL-Library.List_Lexorder" "HOL-Library.Char_ord"
begin

text \<open>
  What every component theory shares.

  \<^item> Go errors: \<open>err\<close> keeps the difference between a fresh \<open>errors.New\<close> value, a package
    level sentinel (compared by \<open>errors.Is\<close>), an apimachinery status error and a
    \<open>fmt.Errorf("...: %w")\<close> wrapper.  A fallible Go function returns \<open>err + 'a\<close>.
  \<^item> Go maps: an association list with distinct keys.  The order of the list is the order in
    which one \<open>range\<close> over the map visits the entries; Go leaves that order open, so a statement
    about a function that ranges over a map is made for every list.
  \<^item> Facts about both, and about the state monad in which the effectful code is written.
\<close>

named_theorems gomap_simps "lookup after an operation on a Go map"
named_theorems io_simps "running effectful operations"

section \<open>Errors\<close>

datatype api_reason = NotFound | Conflict | AlreadyExists | OtherReason

datatype err =
    ErrMsg string
  | Sentinel string
  | StatusErr api_reason string
  | ErrWrap string err
  | ErrSuffix err string
  | ErrJoin "err list"
  | ErrFmt string err string
  | ErrBoth err err

text \<open>
  \<open>Error()\<close>: a wrapper prints its prefix, a colon and the wrapped error; \<open>ErrFmt\<close> is a format with
  other text around the wrapped error, \<open>ErrBoth\<close> the format \<open>"%w: %w"\<close>.
\<close>

fun join_with :: "string \<Rightarrow> string list \<Rightarrow> string" where
  "join_with sep [] = []"
| "join_with sep [s] = s"
| "join_with sep (s # t # ts) = s @ sep @ join_with sep (t # ts)"

fun err_string :: "err \<Rightarrow> string" where
  "err_string (ErrMsg s) = s"
| "err_string (Sentinel s) = s"
| "err_string (StatusErr r s) = s"
| "err_string (ErrWrap pre e) = pre @ '': '' @ err_string e"
| "err_string (ErrSuffix e s) = err_string e @ '': '' @ s"
| "err_string (ErrJoin es) = join_with [CHR 0x0A] (map err_string es)"
| "err_string (ErrFmt pre e post) = pre @ err_string e @ post"
| "err_string (ErrBoth d e) = err_string d @ '': '' @ err_string e"

text \<open>\<open>errors.Is\<close> and the apimachinery predicates look through wrappers.\<close>

fun errors_is :: "err \<Rightarrow> err \<Rightarrow> bool" where
  "errors_is (ErrWrap pre e) t = errors_is e t"
| "errors_is (ErrSuffix e s) t = errors_is e t"
| "errors_is (ErrJoin es) t = list_ex (\<lambda>e. errors_is e t) es"
| "errors_is (ErrFmt pre e post) t = errors_is e t"
| "errors_is (ErrBoth d e) t = (errors_is d t \<or> errors_is e t)"
| "errors_is (Sentinel s) t = (t = Sentinel s)"
| "errors_is (ErrMsg s) t = False"
| "errors_is (StatusErr r s) t = False"

fun first_some :: "'a option list \<Rightarrow> 'a option" where
  "first_some [] = None"
| "first_some (x # xs) = (case x of None \<Rightarrow> first_some xs | Some a \<Rightarrow> Some a)"

fun status_reason :: "err \<Rightarrow> api_reason option" where
  "status_reason (StatusErr r s) = Some r"
| "status_reason (ErrWrap pre e) = status_reason e"
| "status_reason (ErrSuffix e s) = status_reason e"
| "status_reason (ErrJoin es) = first_some (map status_reason es)"
| "status_reason (ErrFmt pre e post) = status_reason e"
| "status_reason (ErrBoth d e) = (case status_reason d of None \<Rightarrow> status_reason e | Some r \<Rightarrow> Some r)"
| "status_reason (ErrMsg s) = None"
| "status_reason (Sentinel s) = None"

definition is_not_found :: "err \<Rightarrow> bool" where
  "is_not_found e \<longleftrightarrow> status_reason e = Some NotFound"

definition is_conflict :: "err \<Rightarrow> bool" where
  "is_conflict e \<longleftrightarrow> status_reason e = Some Conflict"

text \<open>\<open>client.IgnoreNotFound\<close> and \<open>errors.Join\<close> (nil when nothing failed).\<close>

definition ignore_not_found :: "err \<Rightarrow> err option" where
  "ignore_not_found e = (if is_not_found e then None else Some e)"

definition errors_join :: "err list \<Rightarrow> err option" where
  "errors_join es = (if es = [] then None else Some (ErrJoin es))"

lemma is_not_found_simps [simp]:
  "is_not_found (StatusErr r s) \<longleftrightarrow> r = NotFound"
  "is_not_found (ErrWrap pre e) = is_not_found e"
  "is_not_found (ErrFmt pre e post) = is_not_found e"
  "\<not> is_not_found (ErrMsg s)"
  "\<not> is_not_found (Sentinel s)"
  by (simp_all add: is_not_found_def)

section \<open>Go maps\<close>

type_synonym 'a gomap = "(string \<times> 'a) list"

abbreviation mget :: "'a gomap \<Rightarrow> string \<Rightarrow> 'a option" where
  "mget \<equiv> map_of"

abbreviation mput :: "string \<Rightarrow> 'a \<Rightarrow> 'a gomap \<Rightarrow> 'a gomap" where
  "mput \<equiv> AList.update"

abbreviation mdel :: "string \<Rightarrow> 'a gomap \<Rightarrow> 'a gomap" where
  "mdel \<equiv> AList.delete"

text \<open>A read of an absent key gives the zero value of the element type.\<close>

definition mget_str :: "string gomap \<Rightarrow> string \<Rightarrow> string" where
  "mget_str m k = (case mget m k of None \<Rightarrow> [] | Some v \<Rightarrow> v)"

definition mget_int :: "int gomap \<Rightarrow> string \<Rightarrow> int" where
  "mget_int m k = (case mget m k of None \<Rightarrow> 0 | Some v \<Rightarrow> v)"

text \<open>\<open>maps.Copy(dst, src)\<close> and the loop \<open>for k, v := range src { dst[k] = v }\<close>.\<close>

definition mcopy :: "'a gomap \<Rightarrow> 'a gomap \<Rightarrow> 'a gomap" where
  "mcopy dst src = fold (\<lambda>(k, v). mput k v) src dst"

definition mkeys :: "'a gomap \<Rightarrow> string list" where
  "mkeys m = map fst m"

text \<open>Two lists are the same Go map when every lookup agrees.\<close>

definition map_eq :: "'a gomap \<Rightarrow> 'a gomap \<Rightarrow> bool" where
  "map_eq m n \<longleftrightarrow> map_of m = map_of n"

lemma map_eq_code [code]:
  "map_eq m n \<longleftrightarrow> list_all (\<lambda>k. mget m k = mget n k) (mkeys m @ mkeys n)"
proof
  assume *: "list_all (\<lambda>k. mget m k = mget n k) (mkeys m @ mkeys n)"
  have "mget m k = mget n k" for k
  proof (cases "k \<in> set (mkeys m @ mkeys n)")
    case False
    then have "mget m k = None" "mget n k = None" by (auto simp: mkeys_def map_of_eq_None_iff)
    then show ?thesis by simp
  qed (use * in \<open>auto simp: list_all_iff\<close>)
  then show "map_eq m n" by (simp add: map_eq_def fun_eq_iff)
qed (simp add: map_eq_def list_all_iff)

lemma mget_mput [gomap_simps]: "mget (mput k v m) k' = (if k' = k then Some v else mget m k')"
  by (simp add: update_conv)

lemma mget_mdel [gomap_simps]: "mget (mdel k m) k' = (if k' = k then None else mget m k')"
  by (simp add: delete_conv')

lemma mget_mput_fun: "mget (mput k v m) = (mget m)(k \<mapsto> v)"
  by (rule update_conv')

lemma distinct_mput: "distinct (map fst m) \<Longrightarrow> distinct (map fst (mput k v m))"
  by (rule distinct_update)

lemma distinct_mdel: "distinct (map fst m) \<Longrightarrow> distinct (map fst (mdel k m))"
  by (rule distinct_delete)

lemma mcopy_Nil [simp]: "mcopy dst [] = dst"
  by (simp add: mcopy_def)

lemma mcopy_Cons [simp]: "mcopy dst ((k, v) # src) = mcopy (mput k v dst) src"
  by (simp add: mcopy_def)

lemma distinct_mcopy: "distinct (map fst dst) \<Longrightarrow> distinct (map fst (mcopy dst src))"
  by (induction src arbitrary: dst) (auto simp: distinct_update)

lemma mget_mcopy [gomap_simps]:
  "distinct (map fst src) \<Longrightarrow>
   mget (mcopy dst src) k = (case mget src k of None \<Rightarrow> mget dst k | Some v \<Rightarrow> Some v)"
proof (induction src arbitrary: dst)
  case Nil
  then show ?case by simp
next
  case (Cons x xs)
  obtain k' v where x: "x = (k', v)" by fastforce
  have k': "mget xs k' = None" using Cons.prems x by (simp add: map_of_eq_None_iff)
  show ?case using Cons.IH [of "mput k' v dst"] Cons.prems x k'
    by (auto simp: mget_mput split: option.splits)
qed

lemma mget_mcopy_absent: "mget src k = None \<Longrightarrow> mget (mcopy dst src) k = mget dst k"
  by (induction src arbitrary: dst) (auto simp: mget_mput split: if_splits)

lemma mget_str_mput [gomap_simps]:
  "mget_str (mput k v m) k' = (if k' = k then v else mget_str m k')"
  by (simp add: mget_str_def mget_mput)

lemma mget_str_Nil [simp]: "mget_str [] k = []"
  by (simp add: mget_str_def)

lemma mget_int_Nil [simp]: "mget_int [] k = 0"
  by (simp add: mget_int_def)

lemma mget_int_mput [gomap_simps]:
  "mget_int (mput k v m) k' = (if k' = k then v else mget_int m k')"
  by (simp add: mget_int_def mget_mput)

text \<open>Two lists with distinct keys are the same map exactly when they hold the same entries.\<close>

lemma map_eq_set_iff:
  assumes "distinct (map fst m)" and "distinct (map fst n)"
  shows "map_eq m n \<longleftrightarrow> set m = set n"
  using assms map_of_inject_set [OF assms] by (simp add: map_eq_def)

lemma length_gomap_dom:
  assumes "distinct (map fst m)"
  shows "length m = card (dom (mget m))"
proof -
  have "card (dom (mget m)) = card (set (map fst m))"
    by (simp add: dom_map_of_conv_image_fst)
  also have "\<dots> = length (map fst m)"
    using assms by (rule distinct_card)
  finally show ?thesis by simp
qed

section \<open>Running the state monad\<close>

lemma run_bind [io_simps]:
  "run_state (State_Monad.bind m f) s = (case run_state m s of (a, s') \<Rightarrow> run_state (f a) s')"
  by simp

lemma run_if [io_simps]:
  "run_state (if b then m else n) s = (if b then run_state m s else run_state n s)"
  by simp

lemma run_case_sum:
  "run_state (case x of Inl a \<Rightarrow> f a | Inr b \<Rightarrow> g b) s
   = (case x of Inl a \<Rightarrow> run_state (f a) s | Inr b \<Rightarrow> run_state (g b) s)"
  by (cases x) simp_all

lemma run_case_option:
  "run_state (case x of None \<Rightarrow> n | Some a \<Rightarrow> f a) s
   = (case x of None \<Rightarrow> run_state n s | Some a \<Rightarrow> run_state (f a) s)"
  by (cases x) simp_all

lemma run_case_prod:
  "run_state (case x of (a, b) \<Rightarrow> f a b) s = (case x of (a, b) \<Rightarrow> run_state (f a b) s)"
  by (cases x) simp

lemmas run_cases [io_simps] = run_case_sum run_case_option run_case_prod

end
