(* ===== verification/Go_Time.thy ===== *)
theory Go_Time
  imports Go_Strings
begin

text \<open>
  Time as the code uses Go's \<open>time\<close> package.  An instant is an \<open>int\<close>, the nanoseconds since the
  Unix epoch; a duration is an \<open>int\<close> of nanoseconds; the zero \<open>metav1.Time\<close> is \<open>None\<close>.
  Formatting and parsing of the RFC 3339 layout are written out, because the force-sync annotation
  carries a time as text: the operator writes it with one-second resolution and reads it back.
  Instants before 1970 or after the year 9999 are not formatted.
\<close>

type_synonym instant = int
type_synonym duration = int

definition nanosecond :: duration where "nanosecond = 1"
definition second :: duration where "second = 1000000000"
definition minute :: duration where "minute = 60 * second"
definition hour :: duration where "hour = 60 * minute"

lemmas duration_units = nanosecond_def second_def minute_def hour_def

section \<open>The calendar\<close>

definition leap :: "nat \<Rightarrow> bool" where
  "leap y \<longleftrightarrow> (4 dvd y \<and> \<not> 100 dvd y) \<or> 400 dvd y"

definition year_len :: "nat \<Rightarrow> nat" where
  "year_len y = (if leap y then 366 else 365)"

definition month_lens :: "nat \<Rightarrow> nat list" where
  "month_lens y = [31, if leap y then 29 else 28, 31, 30, 31, 30, 31, 31, 30, 31, 30, 31]"

definition leaps :: "int \<Rightarrow> int" where
  "leaps n = n div 4 - n div 100 + n div 400"

text \<open>Days from 1 January 1970 to 1 January of the year, negative before 1970.\<close>

definition days_before_year :: "nat \<Rightarrow> int" where
  "days_before_year y = 365 * (int y - 1970) + leaps (int y - 1) - leaps 1969"

definition days_from_civil :: "nat \<Rightarrow> nat \<Rightarrow> nat \<Rightarrow> int" where
  "days_from_civil y m d =
     days_before_year y + int (sum_list (take (m - 1) (month_lens y))) + int d - 1"

text \<open>The inverse: the year by counting up from \<open>y\<close>, then the month along the month lengths.\<close>

function split_year :: "nat \<Rightarrow> nat \<Rightarrow> nat \<times> nat" where
  "split_year y d = (if d < year_len y then (y, d) else split_year (Suc y) (d - year_len y))"
  by pat_completeness auto
termination
  by (relation "measure snd") (auto simp: year_len_def split: if_splits)

declare split_year.simps [simp del]

fun split_month :: "nat list \<Rightarrow> nat \<Rightarrow> nat \<Rightarrow> nat \<times> nat" where
  "split_month [] m d = (m, d)"
| "split_month (l # ls) m d = (if d < l then (m, d) else split_month ls (Suc m) (d - l))"

definition civil_from_days :: "nat \<Rightarrow> nat \<times> nat \<times> nat" where
  "civil_from_days n =
     (let (y, r) = split_year 1970 n; (m, d) = split_month (month_lens y) 1 r in (y, m, Suc d))"

lemma div_pred_int:
  assumes k: "0 < (k :: int)"
  shows "x div k - (x - 1) div k = (if k dvd x then 1 else 0)"
proof (cases "k dvd x")
  case True
  then obtain q where x: "x = k * q" by (rule dvdE)
  have "(x - 1) div k = q - 1"
    by (rule int_div_pos_eq [where r = "k - 1"]) (use k x in \<open>simp_all add: algebra_simps\<close>)
  with True x k show ?thesis by simp
next
  case False
  then have "0 < x mod k" using k by (simp add: dvd_eq_mod_eq_0 order.not_eq_order_implies_strict)
  moreover have "x mod k < k" using k by simp
  ultimately have "(x - 1) div k = x div k"
    by (intro int_div_pos_eq [where r = "x mod k - 1"]) (auto simp: mult_div_mod_eq algebra_simps)
  with False show ?thesis by simp
qed

lemma leap_step: "leaps (int y) - leaps (int y - 1) = (if leap y then 1 else 0)"
proof -
  have i: "leap y \<longleftrightarrow> (4 dvd int y \<and> \<not> 100 dvd int y) \<or> 400 dvd int y"
    by (simp add: leap_def int_dvd_int_iff [symmetric] del: int_dvd_int_iff)
  have k: "400 dvd int y \<Longrightarrow> 100 dvd int y" "100 dvd int y \<Longrightarrow> 4 dvd int y"
    by (auto elim: dvd_trans [rotated])
  have arith: "(a - b + c) - (a' - b' + c') = (if (A \<and> \<not> B) \<or> C then 1 else 0)"
    if "a - a' = (if A then 1 else 0)" "b - b' = (if B then 1 else 0)"
      "c - c' = (if C then 1 else 0)" "C \<Longrightarrow> B" "B \<Longrightarrow> A"
    for a b c a' b' c' :: int and A B C
    using that by (auto split: if_splits)
  show ?thesis
    unfolding leaps_def i by (rule arith) (rule div_pred_int k; simp)+
qed

lemma days_before_year_Suc: "days_before_year (Suc y) = days_before_year y + int (year_len y)"
  using leap_step [of y] by (cases "leap y") (simp_all add: days_before_year_def year_len_def)

lemma days_before_1970 [simp]: "days_before_year 1970 = 0"
  by (simp add: days_before_year_def leaps_def)

lemma split_year_correct:
  "split_year y d = (y', r) \<Longrightarrow>
   y \<le> y' \<and> r < year_len y' \<and> days_before_year y + int d = days_before_year y' + int r"
proof (induction y d rule: split_year.induct)
  case (1 y d)
  show ?case
  proof (cases "d < year_len y")
    case True
    with "1.prems" show ?thesis by (simp add: split_year.simps [of y d])
  next
    case False
    then have "split_year (Suc y) (d - year_len y) = (y', r)"
      using "1.prems" by (simp add: split_year.simps [of y d])
    from "1.IH" [OF False this] False show ?thesis
      by (simp add: days_before_year_Suc of_nat_diff)
  qed
qed

lemma split_month_correct:
  "split_month ls m d = (m', r) \<Longrightarrow> d < sum_list ls \<Longrightarrow>
   m \<le> m' \<and> m' - m < length ls \<and> r < ls ! (m' - m) \<and> d = sum_list (take (m' - m) ls) + r"
proof (induction ls m d rule: split_month.induct)
  case (1 m d)
  then show ?case by simp
next
  case (2 l ls m d)
  show ?case
  proof (cases "d < l")
    case True
    with "2.prems" show ?thesis by simp
  next
    case False
    then have "Suc m \<le> m' \<and> m' - Suc m < length ls \<and> r < ls ! (m' - Suc m)
        \<and> d - l = sum_list (take (m' - Suc m) ls) + r"
      using 2 by auto
    moreover from this have "m' - m = Suc (m' - Suc m)" by linarith
    ultimately show ?thesis using False by auto
  qed
qed

lemma sum_month_lens: "sum_list (month_lens y) = year_len y"
  by (simp add: month_lens_def year_len_def)

lemma length_month_lens [simp]: "length (month_lens y) = 12"
  by (simp add: month_lens_def)

lemma civil_from_days_correct:
  assumes "civil_from_days n = (y, m, d)"
  shows "1970 \<le> y" and "1 \<le> m" and "m \<le> 12" and "1 \<le> d" and "d \<le> month_lens y ! (m - 1)"
    and "days_from_civil y m d = int n"
proof -
  obtain y' r where y: "split_year 1970 n = (y', r)" by fastforce
  obtain m' k where m: "split_month (month_lens y') 1 r = (m', k)" by fastforce
  have eq: "y' = y" "m' = m" "d = Suc k"
    using assms y m by (simp_all add: civil_from_days_def)
  note yc = split_year_correct [OF y, unfolded eq]
  have "r < sum_list (month_lens y)" using yc by (simp add: sum_month_lens)
  note mc = split_month_correct [OF m [unfolded eq] this]
  show "1970 \<le> y" "1 \<le> m" "m \<le> 12" "1 \<le> d" "d \<le> month_lens y ! (m - 1)"
    using yc mc eq by auto
  show "days_from_civil y m d = int n"
    using yc mc eq by (simp add: days_from_civil_def)
qed

section \<open>Decimal fields\<close>

definition digit_char :: "nat \<Rightarrow> char" where
  "digit_char n = char_of (48 + n mod 10)"

definition digit_val :: "char \<Rightarrow> nat option" where
  "digit_val c = (let n = of_char c in if 48 \<le> n \<and> n \<le> 57 then Some (n - 48) else None)"

definition isDigit :: "string \<Rightarrow> bool" where
  "isDigit s = (case s of [] \<Rightarrow> False | c # _ \<Rightarrow> digit_val c \<noteq> None)"

fun digits_val :: "string \<Rightarrow> nat \<Rightarrow> nat option" where
  "digits_val [] acc = Some acc"
| "digits_val (c # cs) acc =
     (case digit_val c of None \<Rightarrow> None | Some d \<Rightarrow> digits_val cs (10 * acc + d))"

definition pad2 :: "nat \<Rightarrow> string" where
  "pad2 n = [digit_char (n div 10), digit_char n]"

definition pad4 :: "nat \<Rightarrow> string" where
  "pad4 n = [digit_char (n div 1000), digit_char (n div 100), digit_char (n div 10), digit_char n]"

lemma digit_val_char [simp]: "digit_val (digit_char n) = Some (n mod 10)"
proof -
  have "48 + n mod 10 < 256" by (rule le_less_trans [of _ 57]) simp_all
  then have "of_char (digit_char n) = (48 + n mod 10 :: nat)"
    by (simp add: digit_char_def)
  moreover have "n mod 10 \<le> 9" by simp
  ultimately show ?thesis by (simp add: digit_val_def Let_def)
qed

lemma isDigit_char [simp]: "isDigit (digit_char n # s)"
  by (simp add: isDigit_def)

section \<open>RFC 3339\<close>

text \<open>
  \<open>time.Format(time.RFC3339)\<close> for a zone \<open>tz\<close> minutes east of UTC, and \<open>time.Parse\<close>: two-digit
  fields, an hour that may have one digit, an optional fraction after a point or a comma of which
  nine digits count, then \<open>Z\<close> or an offset.  Nothing may follow.
\<close>

definition format_zone :: "int \<Rightarrow> string" where
  "format_zone tz = (if tz = 0 then ''Z'' else
     (if tz < 0 then ''-'' else ''+'') @ pad2 (nat (\<bar>tz\<bar> div 60)) @ '':'' @ pad2 (nat (\<bar>tz\<bar> mod 60)))"

definition format_rfc3339 :: "int \<Rightarrow> instant \<Rightarrow> string" where
  "format_rfc3339 tz t =
     (let s = t div second + tz * 60;
          (y, m, d) = civil_from_days (nat (s div 86400));
          r = nat (s mod 86400)
      in pad4 y @ ''-'' @ pad2 m @ ''-'' @ pad2 d @ ''T'' @ pad2 (r div 3600) @ '':''
         @ pad2 (r div 60 mod 60) @ '':'' @ pad2 (r mod 60) @ format_zone tz)"

definition getnum :: "bool \<Rightarrow> string \<Rightarrow> (nat \<times> string) option" where
  "getnum fixed s = (case s of
     [] \<Rightarrow> None
   | c # s' \<Rightarrow> (case digit_val c of
       None \<Rightarrow> None
     | Some a \<Rightarrow> (case s' of
         [] \<Rightarrow> (if fixed then None else Some (a, s'))
       | c' # s'' \<Rightarrow> (case digit_val c' of
           None \<Rightarrow> (if fixed then None else Some (a, s'))
         | Some b \<Rightarrow> Some (10 * a + b, s'')))))"

definition getyear :: "string \<Rightarrow> (nat \<times> string) option" where
  "getyear s = (if length s < 4 then None
     else map_option (\<lambda>y. (y, drop 4 s)) (digits_val (take 4 s) 0))"

definition expect :: "char \<Rightarrow> string \<Rightarrow> string option" where
  "expect c s = (case s of [] \<Rightarrow> None | c' # s' \<Rightarrow> if c = c' then Some s' else None)"

definition in_range :: "nat \<Rightarrow> nat \<Rightarrow> nat \<Rightarrow> unit option" where
  "in_range lo hi n = (if lo \<le> n \<and> n \<le> hi then Some () else None)"

definition getfrac :: "string \<Rightarrow> nat \<times> string" where
  "getfrac s = (case s of
     [] \<Rightarrow> (0, s)
   | c # s' \<Rightarrow> (if (c = CHR ''.'' \<or> c = CHR '','') \<and> isDigit s'
       then (let ds = takeWhile (\<lambda>x. digit_val x \<noteq> None) s'; ns = take 9 ds
             in ((case digits_val ns 0 of None \<Rightarrow> 0 | Some v \<Rightarrow> v) * 10 ^ (9 - length ns), drop (length ds) s'))
       else (0, s)))"

definition getzone :: "string \<Rightarrow> (int \<times> string) option" where
  "getzone s = (case s of
     [] \<Rightarrow> None
   | c # s' \<Rightarrow> (if c = CHR ''Z'' then Some (0, s')
       else if \<not> (c = CHR ''+'' \<or> c = CHR ''-'') then None
       else do {
         (h, s1) \<leftarrow> getnum True s';
         s2 \<leftarrow> expect (CHR '':'') s1;
         (m, s3) \<leftarrow> getnum True s2;
         _ \<leftarrow> in_range 0 24 h;
         _ \<leftarrow> in_range 0 60 m;
         Some ((if c = CHR ''-'' then -1 else 1) * (int h * 60 + int m), s3)
       }))"

definition parse_rfc3339 :: "string \<Rightarrow> instant option" where
  "parse_rfc3339 s = do {
     (y, s) \<leftarrow> getyear s;
     s \<leftarrow> expect (CHR ''-'') s;
     (m, s) \<leftarrow> getnum True s;
     _ \<leftarrow> in_range 1 12 m;
     s \<leftarrow> expect (CHR ''-'') s;
     (d, s) \<leftarrow> getnum True s;
     s \<leftarrow> expect (CHR ''T'') s;
     (hh, s) \<leftarrow> getnum False s;
     _ \<leftarrow> in_range 0 23 hh;
     s \<leftarrow> expect (CHR '':'') s;
     (mm, s) \<leftarrow> getnum True s;
     _ \<leftarrow> in_range 0 59 mm;
     s \<leftarrow> expect (CHR '':'') s;
     (ss, s) \<leftarrow> getnum True s;
     _ \<leftarrow> in_range 0 59 ss;
     (ns, s) \<leftarrow> Some (getfrac s);
     (z, s) \<leftarrow> getzone s;
     _ \<leftarrow> in_range 1 (month_lens y ! (m - 1)) d;
     if s = [] then
       Some ((days_from_civil y m d * 86400 + int hh * 3600 + int mm * 60 + int ss - z * 60) * second
             + int ns)
     else None
   }"

section \<open>Reading back what was written\<close>

lemma getnum_pad2 [simp]: "n < 100 \<Longrightarrow> getnum f (pad2 n @ s) = Some (n, s)"
  by (simp add: getnum_def pad2_def)

lemma getyear_pad4 [simp]:
  assumes "n < 10000"
  shows "getyear (pad4 n @ s) = Some (n, s)"
proof -
  define a where "a = n div 10"
  define b where "b = a div 10"
  define c where "c = b div 10"
  have abc: "n div 100 = b" "n div 1000 = c"
    by (simp_all add: a_def b_def c_def div_mult2_eq [symmetric])
  have "c < 10" using assms abc by linarith
  then have c: "c mod 10 = c" by simp
  have "10 * c + b mod 10 = b" "10 * b + a mod 10 = a" "10 * a + n mod 10 = n"
    by (simp_all add: a_def b_def c_def)
  then have "10 * (10 * (10 * c + b mod 10) + a mod 10) + n mod 10 = n" by (simp only:)
  then show ?thesis by (simp add: getyear_def pad4_def abc a_def [symmetric] c)
qed

lemma expect_Cons [simp]: "expect c (d # s) = (if c = d then Some s else None)"
  by (simp add: expect_def)

lemma in_range_eq [simp]: "in_range lo hi n = (if lo \<le> n \<and> n \<le> hi then Some () else None)"
  by (simp add: in_range_def)

lemma getfrac_zone [simp]: "getfrac (format_zone tz) = (0, format_zone tz)"
  by (simp add: getfrac_def format_zone_def)

lemma getzone_offset:
  assumes "c = CHR ''+'' \<or> c = CHR ''-''" and "h \<le> 24" and "m \<le> 60"
  shows "getzone (c # pad2 h @ CHR '':'' # pad2 m)
       = Some ((if c = CHR ''-'' then -1 else 1) * (int h * 60 + int m), [])"
proof -
  have "getnum True (pad2 m) = Some (m, [])"
    using getnum_pad2 [of m True "[]"] assms(3) by simp
  with assms show ?thesis by (auto simp: getzone_def)
qed

lemma getzone_zone:
  assumes "\<bar>tz\<bar> < 24 * 60"
  shows "getzone (format_zone tz) = Some (tz, [])"
proof -
  define h where "h = nat (\<bar>tz\<bar> div 60)"
  define m where "m = nat (\<bar>tz\<bar> mod 60)"
  have "\<bar>tz\<bar> div 60 < 24" using assms by linarith
  then have b: "h \<le> 24" "m \<le> 60" by (simp_all add: h_def m_def)
  have "0 \<le> \<bar>tz\<bar> div 60" by (simp add: pos_imp_zdiv_nonneg_iff)
  then have "int h * 60 + int m = \<bar>tz\<bar>" by (simp add: h_def m_def)
  then have "tz < 0 \<Longrightarrow> - 1 * (int h * 60 + int m) = tz" "0 < tz \<Longrightarrow> int h * 60 + int m = tz"
    by simp_all
  moreover have "getzone ''Z'' = Some (0, [])" by (simp add: getzone_def)
  ultimately show ?thesis
    using b by (auto simp: format_zone_def getzone_offset simp flip: h_def m_def)
qed

theorem parse_format_rfc3339:
  assumes tz: "\<bar>tz\<bar> < 24 * 60"
    and lo: "0 \<le> t div second + tz * 60"
    and hi: "fst (civil_from_days (nat ((t div second + tz * 60) div 86400))) < 10000"
  shows "parse_rfc3339 (format_rfc3339 tz t) = Some (t div second * second)"
proof -
  define s where "s = t div second + tz * 60"
  obtain y m d where c: "civil_from_days (nat (s div 86400)) = (y, m, d)"
    by (metis prod_cases3)
  note cc = civil_from_days_correct [OF c]
  define r where "r = nat (s mod 86400)"
  have r: "r < 86400" by (simp add: r_def)
  have y: "y < 10000" using hi c by (simp add: s_def)
  have "m - 1 < length (month_lens y)" using cc by simp
  then have "month_lens y ! (m - 1) \<in> set (month_lens y)" by (rule nth_mem)
  then have ml: "month_lens y ! (m - 1) \<le> 31" by (auto simp: month_lens_def)
  define q where "q = r div 60"
  have q: "r div 3600 = q div 60" by (simp add: q_def div_mult2_eq [symmetric])
  have "(q div 60 * 60 + q mod 60) * 60 + r mod 60 = r"
    by (simp only: div_mult_mod_eq q_def)
  moreover have "(a * 60 + b) * 60 + c = a * 3600 + b * 60 + c" for a b c :: nat by simp
  ultimately have "r div 3600 * 3600 + r div 60 mod 60 * 60 + r mod 60 = r"
    by (simp only: q q_def)
  then have "int (r div 3600 * 3600 + r div 60 mod 60 * 60 + r mod 60) = int r"
    by (rule arg_cong)
  moreover have "int r = s mod 86400" by (simp add: r_def)
  ultimately have hms:
    "int (r div 3600) * 3600 + int (r div 60 mod 60) * 60 + int (r mod 60) = s mod 86400"
    by (simp only: of_nat_add of_nat_mult of_nat_numeral)
  have days: "days_from_civil y m d = s div 86400" using cc lo by (simp add: s_def)
  define hh mm ss where "hh = r div 3600" and "mm = r div 60 mod 60" and "ss = r mod 60"
  have b: "hh \<le> 23" "mm \<le> 59" "ss \<le> 59" using r by (auto simp: hh_def mm_def ss_def)
  then have b': "hh < 100" "mm < 100" "ss < 100" by simp_all
  have md: "m < 100" "d < 100" "1 \<le> m" "m \<le> 12" "1 \<le> d" "d \<le> month_lens y ! (m - 1)"
    using cc ml by simp_all
  have f: "format_rfc3339 tz t = pad4 y @ CHR ''-'' # pad2 m @ CHR ''-'' # pad2 d @ CHR ''T'' # pad2 hh
      @ CHR '':'' # pad2 mm @ CHR '':'' # pad2 ss @ format_zone tz"
    by (simp add: format_rfc3339_def Let_def c flip: s_def r_def hh_def mm_def ss_def)
  have "parse_rfc3339 (format_rfc3339 tz t)
      = Some ((days_from_civil y m d * 86400 + int hh * 3600 + int mm * 60 + int ss - tz * 60) * second)"
    unfolding f parse_rfc3339_def
    by (simp only: getyear_pad4 [OF y] getzone_zone [OF tz] Option.bind.bind_lunit prod.case
        expect_Cons getnum_pad2 getnum_pad2 in_range_eq getfrac_zone b b' md if_True simp_thms le0
        of_nat_0 add_0_right)
  also have "days_from_civil y m d * 86400 + int hh * 3600 + int mm * 60 + int ss - tz * 60
      = t div second"
    using hms div_mult_mod_eq [of s 86400] unfolding days hh_def mm_def ss_def s_def by linarith
  finally show ?thesis .
qed

end
