(* ===== verification/Api_Types.thy ===== *)
theory Api_Types
  imports Go_Time
begin

text \<open>
  The data the operator works on: the custom resources of \<open>apis/akeyless/v1alpha1\<close>, the store and
  reference types of \<open>apis/externalsecrets/v1\<close> and \<open>apis/meta/v1\<close> that the Akeyless provider reads,
  and the fields of the Kubernetes objects the code touches.  A pointer is an \<open>option\<close>, a Go
  string type with constants is a \<open>string\<close> with the constants as abbreviations (the API server
  checks the enumeration, the code does not), \<open>[]byte\<close> is a \<open>string\<close>.
\<close>

type_synonym bytes = string

section \<open>Kubernetes objects\<close>

record OwnerReference =
  owr_APIVersion :: string
  owr_Kind :: string
  owr_Name :: string
  owr_UID :: string
  owr_Controller :: "bool option"

text \<open>\<open>FieldsV1\<close> is raw JSON.\<close>

record ManagedFieldsEntry =
  mfe_Manager :: string
  mfe_FieldsV1 :: string

record ObjectMeta =
  om_Name :: string
  om_Namespace :: string
  om_UID :: string
  om_ResourceVersion :: string
  om_Generation :: int
  om_CreationTimestamp :: "instant option"
  om_DeletionTimestamp :: "instant option"
  om_Finalizers :: "string list"
  om_Labels :: "string gomap"
  om_Annotations :: "string gomap"
  om_OwnerReferences :: "OwnerReference list"
  om_ManagedFields :: "ManagedFieldsEntry list"

definition empty_meta :: ObjectMeta where
  "empty_meta = \<lparr>om_Name = [], om_Namespace = [], om_UID = [], om_ResourceVersion = [],
     om_Generation = 0, om_CreationTimestamp = None, om_DeletionTimestamp = None,
     om_Finalizers = [], om_Labels = [], om_Annotations = [], om_OwnerReferences = [], om_ManagedFields = []\<rparr>"

record K8sSecret =
  sec_Meta :: ObjectMeta
  sec_Type :: string
  sec_Data :: "bytes gomap"
  sec_Immutable :: "bool option"

text \<open>A workload is read and written only through its pod template's annotations.\<close>

record Workload =
  wl_Kind :: string
  wl_Meta :: ObjectMeta
  wl_TemplateAnnotations :: "string gomap"

record LabelSelectorRequirement =
  lsr_Key :: string
  lsr_Operator :: string
  lsr_Values :: "string list"

record LabelSelector =
  ls_MatchLabels :: "string gomap"
  ls_MatchExpressions :: "LabelSelectorRequirement list"

record K8sNamespace =
  ns_Name :: string
  ns_Labels :: "string gomap"
  ns_Finalizers :: "string list"
  ns_DeletionTimestamp :: "instant option"

record ServiceAccount =
  sa_Name :: string
  sa_Annotations :: "string gomap"
  sa_Secrets :: "string list"

abbreviation SecretTypeOpaque :: string where "SecretTypeOpaque \<equiv> ''Opaque''"
abbreviation ConditionTrue :: string where "ConditionTrue \<equiv> ''True''"
abbreviation ConditionFalse :: string where "ConditionFalse \<equiv> ''False''"

section \<open>Shared types of \<open>secrets.akeyless.io/v1alpha1\<close>\<close>

abbreviation SyncPolicyCreatedOnce :: string where "SyncPolicyCreatedOnce \<equiv> ''CreatedOnce''"
abbreviation SyncPolicyPeriodic :: string where "SyncPolicyPeriodic \<equiv> ''Periodic''"
abbreviation SyncPolicyOnSpecChange :: string where "SyncPolicyOnSpecChange \<equiv> ''OnSpecChange''"
abbreviation SyncPolicyOnRemoteChange :: string where
  "SyncPolicyOnRemoteChange \<equiv> ''OnRemoteChange''"
abbreviation SyncPolicyOnWebhook :: string where "SyncPolicyOnWebhook \<equiv> ''OnWebhook''"

abbreviation CreationPolicyOwner :: string where "CreationPolicyOwner \<equiv> ''Owner''"
abbreviation CreationPolicyOrphan :: string where "CreationPolicyOrphan \<equiv> ''Orphan''"

abbreviation SecretConditionReady :: string where "SecretConditionReady \<equiv> ''Ready''"
abbreviation StoreConditionReady :: string where "StoreConditionReady \<equiv> ''Ready''"
abbreviation ReasonSecretSynced :: string where "ReasonSecretSynced \<equiv> ''SecretSynced''"
abbreviation ReasonSecretSyncedError :: string where
  "ReasonSecretSyncedError \<equiv> ''SecretSyncedError''"

abbreviation AnnotationDataHash :: string where
  "AnnotationDataHash \<equiv> ''secrets.akeyless.io/data-hash''"
abbreviation AnnotationForceSync :: string where
  "AnnotationForceSync \<equiv> ''secrets.akeyless.io/force-sync''"
abbreviation AnnotationRestarted :: string where
  "AnnotationRestarted \<equiv> ''secrets.akeyless.io/restartedAt''"
abbreviation LabelManaged :: string where "LabelManaged \<equiv> ''secrets.akeyless.io/managed''"
abbreviation LabelManagedValue :: string where "LabelManagedValue \<equiv> ''true''"

abbreviation AkeylessSecretStoreKind :: string where
  "AkeylessSecretStoreKind \<equiv> ''AkeylessSecretStore''"
abbreviation ClusterAkeylessSecretStoreKind :: string where
  "ClusterAkeylessSecretStoreKind \<equiv> ''ClusterAkeylessSecretStore''"

record RolloutRestartTarget =
  rrt_Kind :: string
  rrt_Name :: string

record SecretCondition =
  cond_Type :: string
  cond_Status :: string
  cond_Reason :: string
  cond_Message :: string
  cond_LastTransitionTime :: instant

record SecretStoreRef =
  ssr_Name :: string
  ssr_Kind :: string

record RemoteRef =
  rr_Key :: string
  rr_Property :: string
  rr_Version :: string

record SecretMapping =
  sm_SecretKey :: string
  sm_RemoteRef :: RemoteRef

record TemplateMetadata =
  tm_Labels :: "string gomap"
  tm_Annotations :: "string gomap"

record SecretTemplate =
  st_Type :: string
  st_Metadata :: "TemplateMetadata option"

record Target =
  tgt_Name :: string
  tgt_CreationPolicy :: string
  tgt_Template :: "SecretTemplate option"

record SecretStatus =
  ss_RefreshTime :: "instant option"
  ss_SyncedGeneration :: int
  ss_RemoteVersions :: "int gomap"
  ss_Conditions :: "SecretCondition list"

section \<open>AkeylessSecret and AkeylessDynamicSecret\<close>

record AkeylessSecretSpec =
  asp_StoreRef :: SecretStoreRef
  asp_Target :: Target
  asp_SyncPolicy :: string
  asp_SyncInterval :: "duration option"
  asp_Data :: "SecretMapping list"
  asp_RolloutRestartTargets :: "RolloutRestartTarget list"

record AkeylessSecret =
  as_Meta :: ObjectMeta
  as_Spec :: AkeylessSecretSpec
  as_Status :: SecretStatus

record AkeylessDynamicSecretSpec =
  adp_StoreRef :: SecretStoreRef
  adp_Target :: Target
  adp_Path :: string
  adp_Type :: string
  adp_SecretKey :: string
  adp_Property :: string
  adp_SyncPolicy :: string
  adp_SyncInterval :: "duration option"
  adp_RolloutRestartTargets :: "RolloutRestartTarget list"

record AkeylessDynamicSecret =
  ads_Meta :: ObjectMeta
  ads_Spec :: AkeylessDynamicSecretSpec
  ads_Status :: SecretStatus

section \<open>Stores\<close>

record SecretKeySelector =
  sks_Name :: string
  sks_Namespace :: "string option"
  sks_Key :: string

record ServiceAccountSelector =
  sas_Name :: string
  sas_Namespace :: "string option"
  sas_Audiences :: "string list"

record AkeylessAuthSecretRef =
  aasr_AccessID :: SecretKeySelector
  aasr_AccessType :: SecretKeySelector
  aasr_AccessTypeParam :: SecretKeySelector

record AkeylessKubernetesAuth =
  aka_AccessID :: string
  aka_K8sConfName :: string
  aka_ServiceAccountRef :: "ServiceAccountSelector option"
  aka_SecretRef :: "SecretKeySelector option"

record AkeylessAuth =
  aa_SecretRef :: "AkeylessAuthSecretRef option"
  aa_KubernetesAuth :: "AkeylessKubernetesAuth option"
  aa_ServiceAccountRef :: "ServiceAccountSelector option"

record CAProvider =
  cap_Type :: string
  cap_Name :: string
  cap_Key :: string
  cap_Namespace :: "string option"

record AkeylessSecretStoreSpec =
  assp_GWApiURL :: string
  assp_IgnoreCache :: "bool option"
  assp_Auth :: AkeylessAuth
  assp_CABundle :: bytes
  assp_CAProvider :: "CAProvider option"

text \<open>\<open>AkeylessSecretStoreCondition\<close> has the fields of \<open>SecretCondition\<close>.\<close>

type_synonym StoreCondition = SecretCondition

record AkeylessSecretStore =
  ast_Meta :: ObjectMeta
  ast_Spec :: AkeylessSecretStoreSpec
  ast_Conditions :: "StoreCondition list"

record ClusterStoreNamespaceCondition =
  nsc_NamespaceSelector :: "LabelSelector option"
  nsc_Namespaces :: "string list"

record ClusterAkeylessSecretStore =
  cst_Meta :: ObjectMeta
  cst_Spec :: AkeylessSecretStoreSpec
  cst_NamespaceConditions :: "ClusterStoreNamespaceCondition list"
  cst_Conditions :: "StoreCondition list"

section \<open>Types of \<open>external-secrets.io/v1\<close> the provider reads\<close>

abbreviation SecretStoreKind :: string where "SecretStoreKind \<equiv> ''SecretStore''"
abbreviation ClusterSecretStoreKind :: string where "ClusterSecretStoreKind \<equiv> ''ClusterSecretStore''"

text \<open>In \<open>esv1.AkeylessAuth\<close> the secret reference is a value, not a pointer.\<close>

record EsAkeylessAuth =
  eaa_SecretRef :: AkeylessAuthSecretRef
  eaa_KubernetesAuth :: "AkeylessKubernetesAuth option"
  eaa_ServiceAccountRef :: "ServiceAccountSelector option"

record AkeylessProvider =
  ap_GWApiURL :: "string option"
  ap_IgnoreCache :: "bool option"
  ap_Auth :: "EsAkeylessAuth option"
  ap_CABundle :: bytes
  ap_CAProvider :: "CAProvider option"

text \<open>
  A \<open>GenericStore\<close>: the kind of its type metadata, its object metadata and the two nested
  pointers \<open>Spec.Provider\<close> and \<open>Spec.Provider.Akeyless\<close>.
\<close>

record GenericStore =
  gs_Kind :: string
  gs_Meta :: ObjectMeta
  gs_Provider :: "AkeylessProvider option option"

record DataRemoteRef =
  drr_Key :: string
  drr_Property :: string
  drr_Version :: string

record FindRef =
  fr_Path :: "string option"
  fr_NameRegExp :: "string option"
  fr_Tags :: "string gomap"

text \<open>\<open>PushSecretData\<close> and \<open>PushSecretRemoteRef\<close>, interfaces of three accessors.\<close>

record PushData =
  pd_SecretKey :: string
  pd_RemoteKey :: string
  pd_Property :: string

section \<open>Generator states\<close>

text \<open>
  \<open>GeneratorState\<close> of \<open>apis/generators/v1alpha1\<close>: the resource and the state are raw JSON, of which
  the state manager only ever makes copies.
\<close>

record GeneratorState =
  gst_Meta :: ObjectMeta
  gst_GenerateName :: string
  gst_Resource :: "bytes option"
  gst_State :: bytes
  gst_GarbageCollectionDeadline :: "instant option"
  gst_Conditions :: "SecretCondition list"

datatype ValidationResult = ValidationResultReady | ValidationResultUnknown | ValidationResultError

end
