(* ===== verification/Es_Types.thy ===== *)
theory Es_Types
  imports Api_Types
begin

text \<open>
  The types of \<open>apis/externalsecrets/v1\<close> the inherited controllers work on: ExternalSecret,
  SecretStore and ClusterSecretStore, and the manifest of a generic target.  The conventions are
  those of \<open>Api_Types\<close>; a remote reference of an ExternalSecret extends the part of it that a
  provider reads.
\<close>

section \<open>JSON values\<close>

datatype Json =
    JNull
  | JBool bool
  | JNum string
  | JStr string
  | JArr "Json list"
  | JObj "(string \<times> Json) list"

section \<open>Policies and constants\<close>

abbreviation CreatePolicyOwner :: string where "CreatePolicyOwner \<equiv> ''Owner''"
abbreviation CreatePolicyOrphan :: string where "CreatePolicyOrphan \<equiv> ''Orphan''"
abbreviation CreatePolicyMerge :: string where "CreatePolicyMerge \<equiv> ''Merge''"
abbreviation CreatePolicyNone :: string where "CreatePolicyNone \<equiv> ''None''"
abbreviation DeletionPolicyDelete :: string where "DeletionPolicyDelete \<equiv> ''Delete''"
abbreviation DeletionPolicyMerge :: string where "DeletionPolicyMerge \<equiv> ''Merge''"
abbreviation DeletionPolicyRetain :: string where "DeletionPolicyRetain \<equiv> ''Retain''"
abbreviation RefreshPolicyCreatedOnce :: string where "RefreshPolicyCreatedOnce \<equiv> ''CreatedOnce''"
abbreviation RefreshPolicyPeriodic :: string where "RefreshPolicyPeriodic \<equiv> ''Periodic''"
abbreviation RefreshPolicyOnChange :: string where "RefreshPolicyOnChange \<equiv> ''OnChange''"
abbreviation MergePolicyMerge :: string where "MergePolicyMerge \<equiv> ''Merge''"
abbreviation TemplateScopeValues :: string where "TemplateScopeValues \<equiv> ''Values''"
abbreviation TemplateScopeKeysAndValues :: string where
  "TemplateScopeKeysAndValues \<equiv> ''KeysAndValues''"
abbreviation TemplateTargetData :: string where "TemplateTargetData \<equiv> ''Data''"
abbreviation TemplateTargetLabels :: string where "TemplateTargetLabels \<equiv> ''Labels''"
abbreviation TemplateTargetAnnotations :: string where "TemplateTargetAnnotations \<equiv> ''Annotations''"
abbreviation NullBytePolicyFail :: string where "NullBytePolicyFail \<equiv> ''Fail''"
abbreviation ExternalSecretReady :: string where "ExternalSecretReady \<equiv> ''Ready''"
abbreviation SecretStoreReady :: string where "SecretStoreReady \<equiv> ''Ready''"

abbreviation EsLabelManaged :: string where
  "EsLabelManaged \<equiv> ''reconcile.external-secrets.io/managed''"
abbreviation EsLabelManagedValue :: string where "EsLabelManagedValue \<equiv> ''true''"
abbreviation EsLabelOwner :: string where
  "EsLabelOwner \<equiv> ''reconcile.external-secrets.io/created-by''"
abbreviation EsAnnotationDataHash :: string where
  "EsAnnotationDataHash \<equiv> ''reconcile.external-secrets.io/data-hash''"

definition NoSecretErr :: err where "NoSecretErr = Sentinel ''Secret does not exist''"

section \<open>Templates\<close>

record EsTemplateMetadata =
  etm_Annotations :: "string gomap"
  etm_Labels :: "string gomap"
  etm_Finalizers :: "string list"

record TemplateRefItem =
  tri_Key :: string
  tri_TemplateAs :: string

record TemplateRef =
  tr_Name :: string
  tr_Items :: "TemplateRefItem list"

record TemplateFrom =
  tf_ConfigMap :: "TemplateRef option"
  tf_Secret :: "TemplateRef option"
  tf_Target :: string
  tf_Literal :: "string option"

record EsTemplate =
  et_Type :: string
  et_EngineVersion :: string
  et_Metadata :: EsTemplateMetadata
  et_MergePolicy :: string
  et_Data :: "string gomap"
  et_TemplateFrom :: "TemplateFrom list"

record ManifestReference =
  mr_APIVersion :: string
  mr_Kind :: string

record EsTarget =
  etg_Name :: string
  etg_CreationPolicy :: string
  etg_DeletionPolicy :: string
  etg_Template :: "EsTemplate option"
  etg_Manifest :: "ManifestReference option"
  etg_Immutable :: bool

section \<open>Sources\<close>

record GeneratorRef =
  gr_APIVersion :: string
  gr_Kind :: string
  gr_Name :: string

record StoreSourceRef =
  ssrc_SecretStoreRef :: SecretStoreRef
  ssrc_GeneratorRef :: "GeneratorRef option"

record StoreGeneratorSourceRef =
  sgr_SecretStoreRef :: "SecretStoreRef option"
  sgr_GeneratorRef :: "GeneratorRef option"

record EsDataRemoteRef = DataRemoteRef +
  edr_MetadataPolicy :: string
  edr_ConversionStrategy :: string
  edr_DecodingStrategy :: string
  edr_NullBytePolicy :: string

record EsData =
  ed_SecretKey :: string
  ed_RemoteRef :: EsDataRemoteRef
  ed_SourceRef :: "StoreSourceRef option"

record EsFind = FindRef +
  ef_ConversionStrategy :: string
  ef_DecodingStrategy :: string
  ef_NullBytePolicy :: string

record RewriteMergeOp =
  rm_Into :: string
  rm_Priority :: "string list"
  rm_PriorityPolicy :: string
  rm_ConflictPolicy :: string
  rm_Strategy :: string

record RewriteRegexpOp =
  rx_Source :: string
  rx_Target :: string

record RewriteOp =
  rw_Merge :: "RewriteMergeOp option"
  rw_Regexp :: "RewriteRegexpOp option"
  rw_Transform :: "string option"

record EsDataFrom =
  edf_Extract :: "EsDataRemoteRef option"
  edf_Find :: "EsFind option"
  edf_Rewrite :: "RewriteOp list"
  edf_SourceRef :: "StoreGeneratorSourceRef option"

section \<open>ExternalSecret\<close>

record EsSpec =
  esp_SecretStoreRef :: SecretStoreRef
  esp_Target :: EsTarget
  esp_RefreshPolicy :: string
  esp_RefreshInterval :: "duration option"
  esp_Data :: "EsData list"
  esp_DataFrom :: "EsDataFrom list"

text \<open>\<open>ExternalSecretStatusCondition\<close> has the fields of \<open>SecretCondition\<close>.\<close>

record EsStatus =
  est_RefreshTime :: "instant option"
  est_SyncedResourceVersion :: string
  est_Conditions :: "SecretCondition list"
  est_Binding :: string

text \<open>\<open>es_Kind\<close> is the kind of the type metadata, which depends on how the object was read.\<close>

record ExternalSecret =
  es_Kind :: string
  es_Meta :: ObjectMeta
  es_Spec :: EsSpec
  es_Status :: EsStatus

section \<open>SecretStore and ClusterSecretStore\<close>

record StoreNamespaceCondition =
  snc_NamespaceSelector :: "LabelSelector option"
  snc_Namespaces :: "string list"
  snc_NamespaceRegexes :: "string list"

text \<open>
  The store's kind and provider settings are those of the interface \<open>GenericStore\<close>; the list
  \<open>eso_Backends\<close> holds the JSON names of the backends that are set in \<open>spec.provider\<close>.
\<close>

record EsStore = GenericStore +
  eso_Backends :: "string list"
  eso_Controller :: string
  eso_RefreshInterval :: int
  eso_SpecConditions :: "StoreNamespaceCondition list"
  eso_Conditions :: "SecretCondition list"
  eso_Capabilities :: string

section \<open>Generic targets\<close>

text \<open>
  An unstructured object: its type, its metadata and its other top-level fields as JSON.
\<close>

record GroupVersionKind =
  gvk_Group :: string
  gvk_Version :: string
  gvk_Kind :: string

record Manifest =
  man_GVK :: GroupVersionKind
  man_Meta :: ObjectMeta
  man_Fields :: "Json gomap"

end
