(* ===== verification/Ps_Types.thy ===== *)
theory Ps_Types
  imports Es_Types
begin

text \<open>
  The types of \<open>apis/externalsecrets/v1alpha1/pushsecret_types.go\<close>, \<open>clusterpushsecret_types.go\<close>
  and of \<open>apis/externalsecrets/v1/clusterexternalsecret_types.go\<close>.  The conditions of the first
  two have the fields of \<open>SecretCondition\<close>.
\<close>

section \<open>Constants\<close>

abbreviation PushSecretUpdatePolicyReplace :: string where "PushSecretUpdatePolicyReplace \<equiv> ''Replace''"
abbreviation PushSecretUpdatePolicyIfNotExists :: string where
  "PushSecretUpdatePolicyIfNotExists \<equiv> ''IfNotExists''"
abbreviation PushSecretDeletionPolicyDelete :: string where "PushSecretDeletionPolicyDelete \<equiv> ''Delete''"
abbreviation PushSecretDeletionPolicyNone :: string where "PushSecretDeletionPolicyNone \<equiv> ''None''"
abbreviation PushSecretConversionNone :: string where "PushSecretConversionNone \<equiv> ''None''"
abbreviation PushSecretReady :: string where "PushSecretReady \<equiv> ''Ready''"
abbreviation ReasonSynced :: string where "ReasonSynced \<equiv> ''Synced''"
abbreviation ReasonErrored :: string where "ReasonErrored \<equiv> ''Errored''"
abbreviation ReasonSourceDeleted :: string where "ReasonSourceDeleted \<equiv> ''SourceDeleted''"

section \<open>PushSecret\<close>

record PushSecretStoreRef =
  psr_Name :: string
  psr_LabelSelector :: "LabelSelector option"
  psr_Kind :: string

record PushSecretData = PushData +
  psd_Metadata :: "bytes option"
  psd_ConversionStrategy :: string

record PushSecretRewrite =
  prw_Regexp :: "RewriteRegexpOp option"
  prw_Transform :: "string option"

text \<open>\<open>pdt_Match\<close> is the pointer to the struct of the one field \<open>regexp\<close>.\<close>

record PushSecretDataTo =
  pdt_StoreRef :: "PushSecretStoreRef option"
  pdt_RemoteKey :: string
  pdt_Match :: "string option"
  pdt_Rewrite :: "PushSecretRewrite list"
  pdt_Metadata :: "bytes option"
  pdt_ConversionStrategy :: string

record PushSecretSecret =
  pss_Name :: string
  pss_Selector :: "LabelSelector option"

record PushSecretSelector =
  psl_Secret :: "PushSecretSecret option"
  psl_GeneratorRef :: "GeneratorRef option"

record PushSecretSpec =
  psp_RefreshInterval :: "duration option"
  psp_SecretStoreRefs :: "PushSecretStoreRef list"
  psp_UpdatePolicy :: string
  psp_DeletionPolicy :: string
  psp_Selector :: PushSecretSelector
  psp_Data :: "PushSecretData list"
  psp_DataTo :: "PushSecretDataTo list"
  psp_Template :: "EsTemplate option"

text \<open>For every store, printed as kind and name, what was pushed under which remote location.\<close>

type_synonym SyncedPushSecretsMap = "PushSecretData gomap gomap"

record PushSecretStatus =
  pst_RefreshTime :: "instant option"
  pst_SyncedResourceVersion :: string
  pst_SyncedPushSecrets :: SyncedPushSecretsMap
  pst_Conditions :: "SecretCondition list"

record PushSecret =
  ps_Kind :: string
  ps_Meta :: ObjectMeta
  ps_Spec :: PushSecretSpec
  ps_Status :: PushSecretStatus

section \<open>The cluster-wide resources\<close>

record NamespaceFailure =
  nf_Namespace :: string
  nf_Reason :: string

record ChildMetadata =
  chm_Annotations :: "string gomap"
  chm_Labels :: "string gomap"

record ClusterPushSecretSpec =
  cpp_PushSecretSpec :: PushSecretSpec
  cpp_RefreshInterval :: "duration option"
  cpp_PushSecretName :: string
  cpp_PushSecretMetadata :: ChildMetadata
  cpp_NamespaceSelectors :: "LabelSelector list"

record ClusterPushSecretStatus =
  cpt_FailedNamespaces :: "NamespaceFailure list"
  cpt_ProvisionedNamespaces :: "string list"
  cpt_PushSecretName :: string
  cpt_Conditions :: "SecretCondition list"

record ClusterPushSecret =
  cps_Meta :: ObjectMeta
  cps_Spec :: ClusterPushSecretSpec
  cps_Status :: ClusterPushSecretStatus

record ClusterExternalSecretSpec =
  cep_ExternalSecretSpec :: EsSpec
  cep_ExternalSecretName :: string
  cep_ExternalSecretMetadata :: ChildMetadata
  cep_NamespaceSelector :: "LabelSelector option"
  cep_NamespaceSelectors :: "LabelSelector list"
  cep_Namespaces :: "string list"
  cep_RefreshInterval :: "duration option"

record CesCondition =
  cec_Type :: string
  cec_Status :: string
  cec_Message :: string

record ClusterExternalSecretStatus =
  cet_ExternalSecretName :: string
  cet_FailedNamespaces :: "NamespaceFailure list"
  cet_ProvisionedNamespaces :: "string list"
  cet_Conditions :: "CesCondition list"

record ClusterExternalSecret =
  ces_Meta :: ObjectMeta
  ces_Spec :: ClusterExternalSecretSpec
  ces_Status :: ClusterExternalSecretStatus

end
