(* ===== verification/Crd_Types.thy ===== *)
theory Crd_Types
  imports Api_Types
begin

text \<open>
  The objects of the certificate controllers: a CustomResourceDefinition and a
  ValidatingWebhookConfiguration, with the parts of them that the controllers read or write.
  Pointers that may be nil are options.
\<close>

abbreviation NoneConverter :: string where "NoneConverter \<equiv> ''None''"

record ServiceReference =
  svr_Name :: string
  svr_Namespace :: string

record WebhookClientConfig =
  wcc_Service :: "ServiceReference option"
  wcc_CABundle :: bytes

text \<open>\<open>spec.conversion\<close>: its strategy, and \<open>webhook\<close>, whose only part used is \<open>clientConfig\<close>.\<close>

record CustomResourceConversion =
  crc_Strategy :: string
  crc_Webhook :: "WebhookClientConfig option option"

record CustomResourceDefinition =
  crd_Meta :: ObjectMeta
  crd_Conversion :: "CustomResourceConversion option"

record ValidatingWebhook =
  vw_Name :: string
  vw_ClientConfig :: WebhookClientConfig

record ValidatingWebhookConfiguration =
  vwc_Meta :: ObjectMeta
  vwc_Webhooks :: "ValidatingWebhook list"

end
