(* ===== verification/Kube.thy ===== *)
theory Kube
  imports Ps_Types Crd_Types
begin

text \<open>
  The world outside the program.  Everything the code asks of the Kubernetes API server, of the
  Akeyless gateway, of the cloud SDKs and of the process environment is a \<open>Call\<close>; the state
  threaded through the effectful code is the list of the calls made so far, the newest first.
  The answers come from an environment \<open>Env\<close> whose fields are functions of that list: an answer
  may depend on everything that happened before it, so any server, any cache staleness, any fault
  and any interleaving with other writers is some environment.  Nothing is assumed about an
  environment here; a theorem that needs a law of the API server states it.

  \<open>performs P m\<close> says that the program \<open>m\<close> makes only calls that satisfy \<open>P\<close> and never takes a
  call back; its rules follow the structure of the program.
\<close>

section \<open>Requests to the Akeyless gateway\<close>

datatype BodyToken = BodyToken string | BodyUidToken string

record AuthBody =
  ab_AccessId :: string
  ab_AccessType :: "string option"
  ab_AccessKey :: "string option"
  ab_K8sServiceAccountToken :: "string option"
  ab_K8sAuthConfigName :: "string option"
  ab_CloudId :: "string option"

datatype RestRequest =
    RAuth AuthBody
  | RDescribeItem string BodyToken
  | RGetSecretValue "string list" int bool BodyToken
  | RGetRotatedSecretValue string int bool BodyToken
  | RGetDynamicSecretValue string BodyToken
  | RGetCertificateValue string int bool BodyToken
  | RListItems string "string list" bool string BodyToken
  | RCreateSecret string string "string list" BodyToken
  | RUpdateSecretVal string string BodyToken
  | RDeleteItem string BodyToken

text \<open>
  What an SDK call comes back with: a value; an error the SDK decoded as an API error, with the
  response body (the returned value is then the zero one); any other error, with or without an
  HTTP response object.
\<close>

datatype 'a RestResult = RestOk 'a | RestApiErr bytes err | RestErr err bool

record RemoteItem =
  ri_ItemName :: "string option"
  ri_ItemType :: "string option"
  ri_LastVersion :: "int option"
  ri_ItemTags :: "string list option"

definition zero_item :: RemoteItem where
  "zero_item = \<lparr>ri_ItemName = None, ri_ItemType = None, ri_LastVersion = None, ri_ItemTags = None\<rparr>"

text \<open>The provider's client object: the fields of \<open>akeylessBase\<close> and \<open>Akeyless\<close> that are data.\<close>

record AkeylessClient =
  ac_Store :: GenericStore
  ac_StoreKind :: string
  ac_Namespace :: string
  ac_GwAPIURL :: string
  ac_IgnoreCache :: bool
  ac_CACert :: "bytes option"

record CacheKey =
  ck_Name :: string
  ck_Namespace :: string
  ck_Kind :: string

section \<open>Calls and environments\<close>

datatype KObj =
    OSecret K8sSecret
  | OAS AkeylessSecret
  | OADS AkeylessDynamicSecret
  | OStore AkeylessSecretStore
  | OCStore ClusterAkeylessSecretStore
  | OWorkload Workload
  | OState GeneratorState
  | OES ExternalSecret
  | OEsStore EsStore
  | OSecretMeta ObjectMeta
  | OManifest Manifest
  | OPS PushSecret
  | OCES ClusterExternalSecret
  | OCPS ClusterPushSecret
  | ONamespace K8sNamespace
  | OCRD CustomResourceDefinition
  | OVWC ValidatingWebhookConfiguration

datatype Call =
    CGet string string string
  | CList string
  | CCreate KObj
  | CUpdate KObj
  | CPatch KObj
  | CDelete KObj
  | CAs string Call
  | CInformer string GroupVersionKind string string
  | CStatusUpdate KObj
  | CStatusPatch KObj
  | CEvent string string string
  | CCreateToken string string "string list" int
  | CReadFile string
  | CRest string RestRequest
  | CDial string
  | CProbe string
  | CCloudId string string
  | CAzureToken string string string
  | CKubeConfig string
  | CLruGet CacheKey
  | CLruAdd CacheKey string AkeylessClient
  | CLruRemove CacheKey

type_synonym history = "Call list"
type_synonym 'a io = "(history, 'a) state"

record Env =
  clock :: "history \<Rightarrow> instant"
  tz_offset :: int
  getSecretObj :: "history \<Rightarrow> string \<Rightarrow> string \<Rightarrow> err + K8sSecret"
  getAS :: "history \<Rightarrow> string \<Rightarrow> string \<Rightarrow> err + AkeylessSecret"
  getADS :: "history \<Rightarrow> string \<Rightarrow> string \<Rightarrow> err + AkeylessDynamicSecret"
  getStore :: "history \<Rightarrow> string \<Rightarrow> string \<Rightarrow> err + AkeylessSecretStore"
  getCStore :: "history \<Rightarrow> string \<Rightarrow> err + ClusterAkeylessSecretStore"
  getNamespace :: "history \<Rightarrow> string \<Rightarrow> err + K8sNamespace"
  getWorkload :: "history \<Rightarrow> string \<Rightarrow> string \<Rightarrow> string \<Rightarrow> err + Workload"
  getServiceAccount :: "history \<Rightarrow> string \<Rightarrow> string \<Rightarrow> err + ServiceAccount"
  getConfigMap :: "history \<Rightarrow> string \<Rightarrow> string \<Rightarrow> err + string gomap"
  listNamespaces :: "history \<Rightarrow> err + K8sNamespace list"
  listAS :: "history \<Rightarrow> err + AkeylessSecret list"
  listADS :: "history \<Rightarrow> err + AkeylessDynamicSecret list"
  writeErr :: "history \<Rightarrow> err option"
  answeredAS :: "history \<Rightarrow> AkeylessSecret \<Rightarrow> AkeylessSecret"
  answeredADS :: "history \<Rightarrow> AkeylessDynamicSecret \<Rightarrow> AkeylessDynamicSecret"
  setControllerReference :: "ObjectMeta \<Rightarrow> K8sSecret \<Rightarrow> err + K8sSecret"
  selectorOf :: "LabelSelector \<Rightarrow> err + (string gomap \<Rightarrow> bool)"
  sha3_224 :: "string \<Rightarrow> string"
  jsonParse :: "bytes \<Rightarrow> Json option"
  jsonPrint :: "Json \<Rightarrow> bytes"
  jsonPrintNoEscape :: "Json \<Rightarrow> bytes"
  jsonRawObject :: "bytes \<Rightarrow> bytes gomap option"
  gjsonGet :: "bytes \<Rightarrow> string \<Rightarrow> string option"
  regexpCompile :: "string \<Rightarrow> err + (string \<Rightarrow> bool)"
  regexpReplaceAll :: "string \<Rightarrow> string \<Rightarrow> string \<Rightarrow> string"
  templateParse :: "string \<Rightarrow> err + (string \<Rightarrow> err + string)"
  isLetter :: "nat \<Rightarrow> bool"
  isNumber :: "nat \<Rightarrow> bool"
  formatFloat :: "string \<Rightarrow> string"
  printFloat :: "string \<Rightarrow> string"
  authDefaults :: AuthBody
  urlParse :: "string \<Rightarrow> (string \<times> string) option"
  certPool :: "bytes \<Rightarrow> bool"
  pemDecode :: "bytes \<Rightarrow> bytes option"
  x509Parse :: "bytes \<Rightarrow> err option"
  envVar :: "string \<Rightarrow> string option"
  restAuth :: "history \<Rightarrow> string RestResult"
  restDescribe :: "history \<Rightarrow> RemoteItem RestResult"
  restValues :: "history \<Rightarrow> Json gomap RestResult"
  restCertificate :: "history \<Rightarrow> Json RestResult"
  restList :: "history \<Rightarrow> string list option RestResult"
  restUnit :: "history \<Rightarrow> unit RestResult"
  createToken :: "history \<Rightarrow> err + string"
  readFile :: "history \<Rightarrow> err + bytes"
  dial :: "history \<Rightarrow> err option"
  probe :: "history \<Rightarrow> string"
  cloudId :: "history \<Rightarrow> err + string"
  azureToken :: "history \<Rightarrow> err + string"
  azureAsserts :: "history \<Rightarrow> bool"
  azurePublicScope :: string
  azureCredential :: "string \<Rightarrow> string \<Rightarrow> err option"
  kubeConfig :: "history \<Rightarrow> err option"
  listEndpointSlices :: "history \<Rightarrow> string \<Rightarrow> string \<Rightarrow> err + (bool option \<times> string list) list list"
  listStates :: "history \<Rightarrow> string \<Rightarrow> string \<Rightarrow> err + GeneratorState list"
  lruGet :: "history \<Rightarrow> (string \<times> AkeylessClient) option"

section \<open>Operations\<close>

text \<open>\<open>ask c f\<close> records the call \<open>c\<close>; the environment answers knowing that it was made.\<close>

definition ask :: "Call \<Rightarrow> (history \<Rightarrow> 'a) \<Rightarrow> 'a io" where
  "ask c f = State (\<lambda>h. (f (c # h), c # h))"

definition now :: "Env \<Rightarrow> instant io" where
  "now E = State (\<lambda>h. (clock E h, h))"

abbreviation ret :: "'a \<Rightarrow> 'a io" where
  "ret \<equiv> State_Monad.return"

definition k_get_secret :: "Env \<Rightarrow> string \<Rightarrow> string \<Rightarrow> (err + K8sSecret) io" where
  "k_get_secret E ns n = ask (CGet ''Secret'' ns n) (\<lambda>h. getSecretObj E h ns n)"

definition k_get_as :: "Env \<Rightarrow> string \<Rightarrow> string \<Rightarrow> (err + AkeylessSecret) io" where
  "k_get_as E ns n = ask (CGet ''AkeylessSecret'' ns n) (\<lambda>h. getAS E h ns n)"

definition k_get_ads :: "Env \<Rightarrow> string \<Rightarrow> string \<Rightarrow> (err + AkeylessDynamicSecret) io" where
  "k_get_ads E ns n = ask (CGet ''AkeylessDynamicSecret'' ns n) (\<lambda>h. getADS E h ns n)"

definition k_get_store :: "Env \<Rightarrow> string \<Rightarrow> string \<Rightarrow> (err + AkeylessSecretStore) io" where
  "k_get_store E ns n = ask (CGet AkeylessSecretStoreKind ns n) (\<lambda>h. getStore E h ns n)"

definition k_get_cstore :: "Env \<Rightarrow> string \<Rightarrow> (err + ClusterAkeylessSecretStore) io" where
  "k_get_cstore E n = ask (CGet ClusterAkeylessSecretStoreKind [] n) (\<lambda>h. getCStore E h n)"

definition k_get_namespace :: "Env \<Rightarrow> string \<Rightarrow> (err + K8sNamespace) io" where
  "k_get_namespace E n = ask (CGet ''Namespace'' [] n) (\<lambda>h. getNamespace E h n)"

definition k_get_workload :: "Env \<Rightarrow> string \<Rightarrow> string \<Rightarrow> string \<Rightarrow> (err + Workload) io" where
  "k_get_workload E k ns n = ask (CGet k ns n) (\<lambda>h. getWorkload E h k ns n)"

definition k_get_sa :: "Env \<Rightarrow> string \<Rightarrow> string \<Rightarrow> (err + ServiceAccount) io" where
  "k_get_sa E ns n = ask (CGet ''ServiceAccount'' ns n) (\<lambda>h. getServiceAccount E h ns n)"

definition k_get_configmap :: "Env \<Rightarrow> string \<Rightarrow> string \<Rightarrow> (err + string gomap) io" where
  "k_get_configmap E ns n = ask (CGet ''ConfigMap'' ns n) (\<lambda>h. getConfigMap E h ns n)"

definition k_list_namespaces :: "Env \<Rightarrow> (err + K8sNamespace list) io" where
  "k_list_namespaces E = ask (CList ''Namespace'') (listNamespaces E)"

definition k_list_slices :: "Env \<Rightarrow> string \<Rightarrow> string \<Rightarrow> (err + (bool option \<times> string list) list list) io" where
  "k_list_slices E ns svc = ask (CList ''EndpointSlice'') (\<lambda>h. listEndpointSlices E h ns svc)"

definition k_kube_config :: "Env \<Rightarrow> string \<Rightarrow> err option io" where
  "k_kube_config E step = ask (CKubeConfig step) (kubeConfig E)"

definition k_create_token :: "Env \<Rightarrow> string \<Rightarrow> string \<Rightarrow> string list \<Rightarrow> int \<Rightarrow> (err + string) io" where
  "k_create_token E ns sa audiences expiration = ask (CCreateToken ns sa audiences expiration) (createToken E)"

definition k_list_as :: "Env \<Rightarrow> (err + AkeylessSecret list) io" where
  "k_list_as E = ask (CList ''AkeylessSecret'') (listAS E)"

definition k_list_ads :: "Env \<Rightarrow> (err + AkeylessDynamicSecret list) io" where
  "k_list_ads E = ask (CList ''AkeylessDynamicSecret'') (listADS E)"

text \<open>A write answers with an error or none.\<close>

definition k_write :: "Env \<Rightarrow> Call \<Rightarrow> err option io" where
  "k_write E c = ask c (writeErr E)"

text \<open>
  \<open>Update\<close> and \<open>Status().Update\<close> decode the server's answer into the object they were given, so
  after a successful write the program holds the server's version of it.
\<close>

definition k_write_as :: "Env \<Rightarrow> (KObj \<Rightarrow> Call) \<Rightarrow> AkeylessSecret \<Rightarrow> (err option \<times> AkeylessSecret) io" where
  "k_write_as E c a = ask (c (OAS a))
     (\<lambda>h. case writeErr E h of Some e \<Rightarrow> (Some e, a) | None \<Rightarrow> (None, answeredAS E h a))"

definition k_write_ads ::
  "Env \<Rightarrow> (KObj \<Rightarrow> Call) \<Rightarrow> AkeylessDynamicSecret \<Rightarrow> (err option \<times> AkeylessDynamicSecret) io" where
  "k_write_ads E c a = ask (c (OADS a))
     (\<lambda>h. case writeErr E h of Some e \<Rightarrow> (Some e, a) | None \<Rightarrow> (None, answeredADS E h a))"

definition k_event :: "string \<Rightarrow> string \<Rightarrow> string \<Rightarrow> unit io" where
  "k_event ty reason msg = ask (CEvent ty reason msg) (\<lambda>_. ())"

lemma run_ask [simp]: "run_state (ask c f) h = (f (c # h), c # h)"
  by (simp add: ask_def)

lemma run_now [simp]: "run_state (now E) h = (clock E h, h)"
  by (simp add: now_def)

lemmas k_defs [io_simps] =
  k_get_secret_def k_get_as_def k_get_ads_def k_get_store_def k_get_cstore_def
  k_get_namespace_def k_get_workload_def k_get_sa_def k_get_configmap_def
  k_list_namespaces_def k_list_slices_def k_kube_config_def k_create_token_def k_list_as_def k_list_ads_def k_write_def k_write_as_def k_write_ads_def
  k_event_def

section \<open>What a program may do\<close>

named_theorems performs_intros "rules that bound the calls of a program"

definition performs :: "(Call \<Rightarrow> bool) \<Rightarrow> 'a io \<Rightarrow> bool" where
  "performs P m \<longleftrightarrow> (\<forall>h. \<exists>cs. snd (run_state m h) = cs @ h \<and> list_all P cs)"

lemma performsI: "(\<And>h. \<exists>cs. snd (run_state m h) = cs @ h \<and> list_all P cs) \<Longrightarrow> performs P m"
  by (simp add: performs_def)

lemma performsE:
  assumes "performs P m" and "run_state m h = (a, h')"
  obtains cs where "h' = cs @ h" and "list_all P cs"
  using assms unfolding performs_def by (metis snd_conv)

lemma performs_mono: "performs P m \<Longrightarrow> (\<And>c. P c \<Longrightarrow> Q c) \<Longrightarrow> performs Q m"
  unfolding performs_def by (metis list.pred_mono_strong)

lemma performs_ret [performs_intros]: "performs P (ret x)"
  by (simp add: performs_def)

lemma performs_now [performs_intros]: "performs P (now E)"
  by (simp add: performs_def)

lemma performs_ask [performs_intros]: "P c \<Longrightarrow> performs P (ask c f)"
  unfolding performs_def by (intro allI exI [of _ "[c]"]) simp

lemma performs_bind [performs_intros]:
  assumes "performs P m" and "\<And>a. performs P (f a)"
  shows "performs P (State_Monad.bind m f)"
proof (rule performsI)
  fix h
  obtain a h1 where m: "run_state m h = (a, h1)" by fastforce
  obtain b h2 where f: "run_state (f a) h1 = (b, h2)" by fastforce
  obtain cs where cs: "h1 = cs @ h" "list_all P cs" using performsE [OF assms(1) m] .
  obtain ds where ds: "h2 = ds @ h1" "list_all P ds" using performsE [OF assms(2) f] .
  show "\<exists>es. snd (run_state (State_Monad.bind m f) h) = es @ h \<and> list_all P es"
    using m f cs ds by (intro exI [of _ "ds @ cs"]) simp
qed

lemma performs_if [performs_intros]:
  "(b \<Longrightarrow> performs P m) \<Longrightarrow> (\<not> b \<Longrightarrow> performs P n) \<Longrightarrow> performs P (if b then m else n)"
  by simp

lemma performs_case_sum [performs_intros]:
  "(\<And>a. x = Inl a \<Longrightarrow> performs P (f a)) \<Longrightarrow> (\<And>b. x = Inr b \<Longrightarrow> performs P (g b)) \<Longrightarrow>
   performs P (case x of Inl a \<Rightarrow> f a | Inr b \<Rightarrow> g b)"
  by (cases x) simp_all

lemma performs_case_option [performs_intros]:
  "(x = None \<Longrightarrow> performs P m) \<Longrightarrow> (\<And>a. x = Some a \<Longrightarrow> performs P (f a)) \<Longrightarrow>
   performs P (case x of None \<Rightarrow> m | Some a \<Rightarrow> f a)"
  by (cases x) simp_all

lemma performs_case_prod [performs_intros]:
  "(\<And>a b. x = (a, b) \<Longrightarrow> performs P (f a b)) \<Longrightarrow> performs P (case x of (a, b) \<Rightarrow> f a b)"
  by (cases x) simp

lemma performs_Let [performs_intros]: "performs P (f x) \<Longrightarrow> performs P (let y = x in f y)"
  by simp

section \<open>Kinds of calls\<close>

text \<open>A write to the API server, other than recording an event.\<close>

fun is_k8s_write :: "Call \<Rightarrow> bool" where
  "is_k8s_write (CCreate ob) = True"
| "is_k8s_write (CUpdate ob) = True"
| "is_k8s_write (CPatch ob) = True"
| "is_k8s_write (CDelete ob) = True"
| "is_k8s_write (CAs fieldOwner c) = is_k8s_write c"
| "is_k8s_write (CStatusUpdate ob) = True"
| "is_k8s_write (CStatusPatch ob) = True"
| "is_k8s_write c = False"

fun is_secret_write :: "Call \<Rightarrow> bool" where
  "is_secret_write (CCreate (OSecret s)) = True"
| "is_secret_write (CUpdate (OSecret s)) = True"
| "is_secret_write c = False"

text \<open>A request that changes items in Akeyless.\<close>

fun is_remote_write :: "Call \<Rightarrow> bool" where
  "is_remote_write (CRest u (RCreateSecret n v tags tok)) = True"
| "is_remote_write (CRest u (RUpdateSecretVal n v tok)) = True"
| "is_remote_write (CRest u (RDeleteItem n tok)) = True"
| "is_remote_write c = False"

text \<open>A request that reads a secret value.\<close>

fun is_value_read :: "Call \<Rightarrow> bool" where
  "is_value_read (CRest u (RGetSecretValue ns v ic tok)) = True"
| "is_value_read (CRest u (RGetRotatedSecretValue n v ic tok)) = True"
| "is_value_read (CRest u (RGetDynamicSecretValue n tok)) = True"
| "is_value_read (CRest u (RGetCertificateValue n v ic tok)) = True"
| "is_value_read c = False"

definition secret_writes :: "history \<Rightarrow> K8sSecret list" where
  "secret_writes h = concat (map (\<lambda>c. case c of CCreate (OSecret s) \<Rightarrow> [s]
                                     | CUpdate (OSecret s) \<Rightarrow> [s] | _ \<Rightarrow> []) h)"

definition k8s_writes :: "history \<Rightarrow> Call list" where
  "k8s_writes h = filter is_k8s_write h"

lemma k8s_writes_simps [simp]:
  "k8s_writes [] = []"
  "k8s_writes (c # h) = (if is_k8s_write c then c # k8s_writes h else k8s_writes h)"
  "k8s_writes (g @ h) = k8s_writes g @ k8s_writes h"
  by (simp_all add: k8s_writes_def)

lemma performs_k8s_writes:
  assumes "performs (\<lambda>c. \<not> is_k8s_write c) m" and "run_state m h = (a, h')"
  shows "k8s_writes h' = k8s_writes h"
proof -
  obtain cs where cs: "h' = cs @ h" "list_all (\<lambda>c. \<not> is_k8s_write c) cs"
    using performsE [OF assms] .
  then have "filter is_k8s_write cs = []" by (simp add: list_all_iff)
  with cs show ?thesis by (simp add: k8s_writes_def)
qed

end
