(* ===== verification/Provider_Interface.thy ===== *)
theory Provider_Interface
  imports Kube
begin

text \<open>
  The interfaces \<open>esv1.Provider\<close> and \<open>esv1.SecretsClient\<close> of
  \<open>apis/externalsecrets/v1/provider.go\<close>, as the reconcilers use them: a Go interface value is a
  record of its methods.  Whether a client also implements \<open>RemoteVersionClient\<close>, which the
  reconcilers find out with a type assertion, is the \<open>option\<close> of its field.

  The locale \<open>secrets_provider\<close> is the contract the reconcilers rely on: no operation of a provider
  or of its clients writes to the Kubernetes API server, and reading changes nothing in Akeyless.
\<close>

record SecretsClient =
  sc_GetSecret :: "DataRemoteRef \<Rightarrow> (err + bytes) io"
  sc_GetRemoteItemVersion :: "(string \<Rightarrow> (err + int) io) option"
  sc_Validate :: "(ValidationResult \<times> err option) io"
  sc_Close :: "err option io"

record SecretProvider =
  pr_NewClient :: "GenericStore \<Rightarrow> string \<Rightarrow> (err + SecretsClient) io"
  pr_ValidateStore :: "GenericStore \<Rightarrow> err option"

definition quiet :: "Call \<Rightarrow> bool" where
  "quiet c \<longleftrightarrow> \<not> is_k8s_write c \<and> \<not> is_remote_write c"

text \<open>The results a program can return, whatever the history it starts from.\<close>

definition results :: "'a io \<Rightarrow> 'a set" where
  "results m = {a. \<exists>h h'. run_state m h = (a, h')}"

lemma resultsI: "run_state m h = (a, h') \<Longrightarrow> a \<in> results m"
  by (auto simp: results_def)

definition quiet_client :: "SecretsClient \<Rightarrow> bool" where
  "quiet_client c \<longleftrightarrow>
     (\<forall>ref. performs quiet (sc_GetSecret c ref))
     \<and> (\<forall>f n. sc_GetRemoteItemVersion c = Some f \<longrightarrow> performs quiet (f n))
     \<and> performs quiet (sc_Validate c) \<and> performs quiet (sc_Close c)"

locale secrets_provider =
  fixes P :: SecretProvider
  assumes NewClient_quiet: "performs quiet (pr_NewClient P store ns)"
    and client_quiet: "Inr c \<in> results (pr_NewClient P store ns) \<Longrightarrow> quiet_client c"
begin

lemma GetSecret_quiet:
  "Inr c \<in> results (pr_NewClient P store ns) \<Longrightarrow> performs quiet (sc_GetSecret c ref)"
  using client_quiet by (auto simp: quiet_client_def)

lemma GetRemoteItemVersion_quiet:
  "Inr c \<in> results (pr_NewClient P store ns) \<Longrightarrow> sc_GetRemoteItemVersion c = Some f \<Longrightarrow>
   performs quiet (f n)"
  using client_quiet by (auto simp: quiet_client_def)

lemma Close_quiet: "Inr c \<in> results (pr_NewClient P store ns) \<Longrightarrow> performs quiet (sc_Close c)"
  using client_quiet by (auto simp: quiet_client_def)

lemma Validate_quiet: "Inr c \<in> results (pr_NewClient P store ns) \<Longrightarrow> performs quiet (sc_Validate c)"
  using client_quiet by (auto simp: quiet_client_def)

end

text \<open>
  Bounding a program that binds the result of another one may use that the result is one the
  first program can return.
\<close>

lemma performs_bind_results:
  assumes "performs P m" and "\<And>a. a \<in> results m \<Longrightarrow> performs P (f a)"
  shows "performs P (State_Monad.bind m f)"
proof (rule performsI)
  fix h
  obtain a h1 where m: "run_state m h = (a, h1)" by fastforce
  obtain b h2 where f: "run_state (f a) h1 = (b, h2)" by fastforce
  obtain cs where cs: "h1 = cs @ h" "list_all P cs" using performsE [OF assms(1) m] .
  obtain ds where ds: "h2 = ds @ h1" "list_all P ds"
    using performsE [OF assms(2) [OF resultsI [OF m]] f] .
  show "\<exists>es. snd (run_state (State_Monad.bind m f) h) = es @ h \<and> list_all P es"
    using m f cs ds by (intro exI [of _ "ds @ cs"]) simp
qed

end
