(* ===== verification/Traces.thy ===== *)
theory Traces
  imports Provider_Interface
begin

text \<open>
  A Hoare logic for effectful programs.  \<open>traces m Q\<close> says that whatever the environment answers
  and whatever happened before, \<open>m\<close> returns some \<open>a\<close> after making calls \<open>cs\<close> (the newest first)
  with \<open>Q a cs\<close>.  Its rules follow the program, so a property of a reconciler is proved by applying
  them and simplifying what is left.
\<close>

named_theorems trace_intros "rules of the trace logic"

definition traces :: "'a io \<Rightarrow> ('a \<Rightarrow> history \<Rightarrow> bool) \<Rightarrow> bool" where
  "traces m Q \<longleftrightarrow> (\<forall>h. \<exists>a cs. run_state m h = (a, cs @ h) \<and> Q a cs)"

lemma tracesI: "(\<And>h. \<exists>a cs. run_state m h = (a, cs @ h) \<and> Q a cs) \<Longrightarrow> traces m Q"
  by (simp add: traces_def)

lemma tracesE:
  assumes "traces m Q" and "run_state m h = (a, h')"
  obtains cs where "h' = cs @ h" and "Q a cs"
  using assms unfolding traces_def by (metis prod.inject)

lemma traces_mono: "traces m Q \<Longrightarrow> (\<And>a cs. Q a cs \<Longrightarrow> R a cs) \<Longrightarrow> traces m R"
  unfolding traces_def by blast

lemma traces_conj: "traces m Q \<Longrightarrow> traces m R \<Longrightarrow> traces m (\<lambda>a cs. Q a cs \<and> R a cs)"
  unfolding traces_def by (metis Pair_inject append_same_eq)

lemma performs_traces: "performs P m \<Longrightarrow> traces m (\<lambda>_ cs. list_all P cs)"
  unfolding performs_def traces_def by (metis prod.collapse)

lemma traces_performs: "traces m (\<lambda>_ cs. list_all P cs) \<Longrightarrow> performs P m"
  unfolding performs_def traces_def by (metis snd_conv)

lemma traces_ret [trace_intros]: "Q x [] \<Longrightarrow> traces (ret x) Q"
  by (simp add: traces_def)

lemma traces_now [trace_intros]: "(\<And>t. Q t []) \<Longrightarrow> traces (now E) Q"
  by (simp add: traces_def)

lemma traces_ask [trace_intros]: "(\<And>x. Q x [c]) \<Longrightarrow> traces (ask c f) Q"
  by (simp add: traces_def)

lemma traces_bind [trace_intros]:
  assumes "traces m (\<lambda>a cs. traces (f a) (\<lambda>b ds. Q b (ds @ cs)))"
  shows "traces (State_Monad.bind m f) Q"
proof (rule tracesI)
  fix h
  obtain a cs where m: "run_state m h = (a, cs @ h)"
    and f: "traces (f a) (\<lambda>b ds. Q b (ds @ cs))"
    using assms unfolding traces_def by blast
  obtain b ds where "run_state (f a) (cs @ h) = (b, ds @ cs @ h)" "Q b (ds @ cs)"
    using f unfolding traces_def by blast
  with m show "\<exists>b es. run_state (State_Monad.bind m f) h = (b, es @ h) \<and> Q b es"
    by (intro exI [of _ b] exI [of _ "ds @ cs"]) simp
qed

lemma traces_if [trace_intros]:
  "(b \<Longrightarrow> traces m Q) \<Longrightarrow> (\<not> b \<Longrightarrow> traces n Q) \<Longrightarrow> traces (if b then m else n) Q"
  by simp

lemma traces_case_sum [trace_intros]:
  "(\<And>a. x = Inl a \<Longrightarrow> traces (f a) Q) \<Longrightarrow> (\<And>b. x = Inr b \<Longrightarrow> traces (g b) Q) \<Longrightarrow>
   traces (case x of Inl a \<Rightarrow> f a | Inr b \<Rightarrow> g b) Q"
  by (cases x) simp_all

lemma traces_case_option [trace_intros]:
  "(x = None \<Longrightarrow> traces m Q) \<Longrightarrow> (\<And>a. x = Some a \<Longrightarrow> traces (f a) Q) \<Longrightarrow>
   traces (case x of None \<Rightarrow> m | Some a \<Rightarrow> f a) Q"
  by (cases x) simp_all

lemma traces_case_prod [trace_intros]:
  "(\<And>a b. x = (a, b) \<Longrightarrow> traces (f a b) Q) \<Longrightarrow> traces (case x of (a, b) \<Rightarrow> f a b) Q"
  by (cases x) simp

lemma traces_Let [trace_intros]: "traces (f x) Q \<Longrightarrow> traces (let y = x in f y) Q"
  by simp

text \<open>The calls of a program that is only known to be bounded.\<close>

lemma traces_performs_bind:
  assumes "performs P m" and "\<And>a cs. list_all P cs \<Longrightarrow> traces (f a) (\<lambda>b ds. Q b (ds @ cs))"
  shows "traces (State_Monad.bind m f) Q"
  by (rule traces_bind) (rule traces_mono [OF performs_traces [OF assms(1)] assms(2)])

section \<open>Calls within a bound, results with a property\<close>

text \<open>\<open>keeps P Q m\<close>: every call of \<open>m\<close> satisfies \<open>P\<close> and its result satisfies \<open>Q\<close>.\<close>

named_theorems keeps_intros "rules that bound the calls of a program and say what it returns"

definition keeps :: "(Call \<Rightarrow> bool) \<Rightarrow> ('a \<Rightarrow> bool) \<Rightarrow> 'a io \<Rightarrow> bool" where
  "keeps P Q m \<longleftrightarrow> traces m (\<lambda>a cs. list_all P cs \<and> Q a)"

lemma keeps_performs: "keeps P Q m \<Longrightarrow> performs P m"
  unfolding keeps_def by (rule traces_performs) (auto elim: traces_mono)

lemma performs_keeps: "performs P m \<Longrightarrow> keeps P (\<lambda>_. True) m"
  unfolding keeps_def by (rule traces_mono [OF performs_traces]) auto

lemma keeps_mono:
  "keeps P Q m \<Longrightarrow> (\<And>c. P c \<Longrightarrow> P' c) \<Longrightarrow> (\<And>a. Q a \<Longrightarrow> Q' a) \<Longrightarrow> keeps P' Q' m"
  unfolding keeps_def by (erule traces_mono) (auto simp: list_all_iff)

lemma keeps_weaken: "keeps P Q m \<Longrightarrow> (\<And>a. Q a \<Longrightarrow> Q' a) \<Longrightarrow> keeps P Q' m"
  by (erule keeps_mono)

lemma keeps_conj: "keeps P Q m \<Longrightarrow> keeps P R m \<Longrightarrow> keeps P (\<lambda>a. Q a \<and> R a) m"
  unfolding keeps_def by (drule (1) traces_conj) (auto elim: traces_mono)

lemma keeps_ret [keeps_intros]: "Q x \<Longrightarrow> keeps P Q (ret x)"
  by (simp add: keeps_def traces_ret)

lemma keeps_now [keeps_intros]: "(\<And>t. Q t) \<Longrightarrow> keeps P Q (now E)"
  by (simp add: keeps_def traces_now)

lemma keeps_ask [keeps_intros]: "P c \<Longrightarrow> (\<And>x. Q x) \<Longrightarrow> keeps P Q (ask c f)"
  by (simp add: keeps_def traces_ask)

lemma keeps_bind:
  assumes "keeps P Q m" and "\<And>a. Q a \<Longrightarrow> keeps P R (f a)"
  shows "keeps P R (State_Monad.bind m f)"
  unfolding keeps_def
  by (rule traces_bind, rule traces_mono [OF assms(1) [unfolded keeps_def]], elim conjE,
      drule assms(2), unfold keeps_def, erule traces_mono) simp

lemma keeps_bind_performs:
  "performs P m \<Longrightarrow> (\<And>a. keeps P R (f a)) \<Longrightarrow> keeps P R (State_Monad.bind m f)"
  by (rule keeps_bind [OF performs_keeps])

lemma keeps_if [keeps_intros]:
  "(b \<Longrightarrow> keeps P Q m) \<Longrightarrow> (\<not> b \<Longrightarrow> keeps P Q n) \<Longrightarrow> keeps P Q (if b then m else n)"
  by simp

lemma keeps_case_sum [keeps_intros]:
  "(\<And>a. x = Inl a \<Longrightarrow> keeps P Q (f a)) \<Longrightarrow> (\<And>b. x = Inr b \<Longrightarrow> keeps P Q (g b)) \<Longrightarrow>
   keeps P Q (case x of Inl a \<Rightarrow> f a | Inr b \<Rightarrow> g b)"
  by (cases x) simp_all

lemma keeps_case_option [keeps_intros]:
  "(x = None \<Longrightarrow> keeps P Q m) \<Longrightarrow> (\<And>a. x = Some a \<Longrightarrow> keeps P Q (f a)) \<Longrightarrow>
   keeps P Q (case x of None \<Rightarrow> m | Some a \<Rightarrow> f a)"
  by (cases x) simp_all

lemma keeps_case_prod [keeps_intros]:
  "(\<And>a b. x = (a, b) \<Longrightarrow> keeps P Q (f a b)) \<Longrightarrow> keeps P Q (case x of (a, b) \<Rightarrow> f a b)"
  by (cases x) simp

lemma keeps_Let [keeps_intros]: "keeps P Q (f x) \<Longrightarrow> keeps P Q (let y = x in f y)"
  by simp

lemma keepsE:
  assumes "keeps P Q m" and "run_state m h = (a, h')"
  obtains cs where "h' = cs @ h" and "list_all P cs" and "Q a"
  using tracesE [OF assms(1) [unfolded keeps_def] assms(2)] by blast

end
