(* ===== verification/Refresh.thy ===== *)
theory Refresh
  imports Api_Types
begin

text \<open>
  When a resource is synchronised: \<open>pkg/akeyless/sync/refresh.go\<close>.  The clock is an argument; the
  successive readings of one call are taken to be the same instant.
\<close>

definition defaultSyncInterval :: duration where
  "defaultSyncInterval = hour"

record RefreshConfig =
  rc_Policy :: string
  rc_SyncInterval :: "duration option"
  rc_DefaultPoll :: duration
  rc_Generation :: int
  rc_SyncedGen :: int
  rc_RefreshTime :: "instant option"
  rc_Annotations :: "string gomap"

definition normalizedPolicy :: "RefreshConfig \<Rightarrow> string" where
  "normalizedPolicy cfg =
     (if rc_Policy cfg = [] then SyncPolicyOnRemoteChange else rc_Policy cfg)"

definition interval :: "RefreshConfig \<Rightarrow> duration" where
  "interval cfg =
     (case rc_SyncInterval cfg of
        Some d \<Rightarrow> if d > 0 then d
                  else if rc_DefaultPoll cfg > 0 then rc_DefaultPoll cfg
                  else if normalizedPolicy cfg = SyncPolicyOnRemoteChange
                       \<or> normalizedPolicy cfg = SyncPolicyOnWebhook then 5 * minute
                  else defaultSyncInterval
      | None \<Rightarrow> if rc_DefaultPoll cfg > 0 then rc_DefaultPoll cfg
                else if normalizedPolicy cfg = SyncPolicyOnRemoteChange
                     \<or> normalizedPolicy cfg = SyncPolicyOnWebhook then 5 * minute
                else defaultSyncInterval)"

definition Interval :: "RefreshConfig \<Rightarrow> duration" where
  "Interval cfg = interval cfg"

definition shouldSyncPeriodic :: "instant \<Rightarrow> RefreshConfig \<Rightarrow> bool" where
  "shouldSyncPeriodic now cfg =
     (case rc_RefreshTime cfg of
        None \<Rightarrow> True
      | Some rt \<Rightarrow>
          if rc_SyncedGen cfg = 0 then True
          else if rc_SyncedGen cfg \<noteq> rc_Generation cfg then True
          else if rt > now then True
          else rt + interval cfg < now)"

text \<open>
  A timestamp that does not parse counts as pending; the zero refresh time is before every
  timestamp.
\<close>

definition ForceSyncPending :: "string gomap \<Rightarrow> instant option \<Rightarrow> bool" where
  "ForceSyncPending annotations refreshTime =
     (case mget annotations AnnotationForceSync of
        None \<Rightarrow> False
      | Some ts \<Rightarrow>
          if ts = [] then False
          else (case parse_rfc3339 ts of
                  None \<Rightarrow> True
                | Some t \<Rightarrow> (case refreshTime of None \<Rightarrow> True | Some rt \<Rightarrow> t > rt)))"

definition ShouldSync :: "instant \<Rightarrow> RefreshConfig \<Rightarrow> bool" where
  "ShouldSync now cfg =
     (if ForceSyncPending (rc_Annotations cfg) (rc_RefreshTime cfg)
         \<and> rc_Policy cfg \<noteq> SyncPolicyCreatedOnce then True
      else if normalizedPolicy cfg = SyncPolicyCreatedOnce then
        rc_SyncedGen cfg = 0 \<or> rc_RefreshTime cfg = None
      else if normalizedPolicy cfg = SyncPolicyOnSpecChange then
        rc_SyncedGen cfg \<noteq> rc_Generation cfg
      else if normalizedPolicy cfg = SyncPolicyOnWebhook then shouldSyncPeriodic now cfg
      else if normalizedPolicy cfg = SyncPolicyPeriodic
           \<or> normalizedPolicy cfg = SyncPolicyOnRemoteChange then shouldSyncPeriodic now cfg
      else shouldSyncPeriodic now cfg)"

definition RequeueAfter :: "instant \<Rightarrow> RefreshConfig \<Rightarrow> duration" where
  "RequeueAfter now cfg =
     (case rc_RefreshTime cfg of
        None \<Rightarrow> interval cfg
      | Some rt \<Rightarrow>
          (let d = rt + interval cfg - now in if d > 0 then d else interval cfg))"

text \<open>Ranging over \<open>current\<close>, a missing key of \<open>observed\<close> reads as version 0.\<close>

definition RemoteVersionsChanged :: "int gomap \<Rightarrow> int gomap \<Rightarrow> bool" where
  "RemoteVersionsChanged current observed =
     (if length current \<noteq> length observed then True
      else list_ex (\<lambda>(k, v). mget_int observed k \<noteq> v) current)"

section \<open>The interval and the requeue delay\<close>

lemma duration_pos [simp]: "0 < minute" "0 < hour" "0 < second"
  by (simp_all add: duration_units)

lemma interval_pos: "0 < interval cfg"
  by (auto simp: interval_def defaultSyncInterval_def split: option.splits)

lemma RequeueAfter_pos: "0 < RequeueAfter now cfg"
  using interval_pos [of cfg] by (auto simp: RequeueAfter_def Let_def split: option.splits)

lemma RequeueAfter_le:
  "rc_RefreshTime cfg = None \<or> (\<exists>rt. rc_RefreshTime cfg = Some rt \<and> rt \<le> now) \<Longrightarrow>
   RequeueAfter now cfg \<le> interval cfg"
  by (auto simp: RequeueAfter_def Let_def)

section \<open>When a synchronisation is due\<close>

definition polls :: "RefreshConfig \<Rightarrow> bool" where
  "polls cfg \<longleftrightarrow> normalizedPolicy cfg \<notin> {SyncPolicyCreatedOnce, SyncPolicyOnSpecChange}"

lemma polls_ShouldSync: "polls cfg \<Longrightarrow> shouldSyncPeriodic now cfg \<Longrightarrow> ShouldSync now cfg"
  by (simp add: ShouldSync_def polls_def)

lemma normalizedPolicy_CreatedOnce [simp]:
  "normalizedPolicy cfg = SyncPolicyCreatedOnce \<longleftrightarrow> rc_Policy cfg = SyncPolicyCreatedOnce"
  by (simp add: normalizedPolicy_def)

text \<open>Once due, a synchronisation stays due as time passes.\<close>

lemma shouldSyncPeriodic_mono:
  assumes "shouldSyncPeriodic now cfg" and "now \<le> later"
    and "\<And>rt. rc_RefreshTime cfg = Some rt \<Longrightarrow> rt \<le> now"
  shows "shouldSyncPeriodic later cfg"
  using assms by (fastforce simp: shouldSyncPeriodic_def split: option.splits if_splits)

section \<open>Remote versions\<close>

lemma RemoteVersionsChanged_iff:
  "RemoteVersionsChanged current observed \<longleftrightarrow>
   length current \<noteq> length observed \<or> (\<exists>(k, v) \<in> set current. mget_int observed k \<noteq> v)"
  by (auto simp: RemoteVersionsChanged_def list_ex_iff)

lemma RemoteVersionsChanged_same:
  assumes "distinct (map fst current)" "map_eq current observed" "distinct (map fst observed)"
  shows "\<not> RemoteVersionsChanged current observed"
proof -
  have "length current = length observed"
    using assms by (simp add: length_gomap_dom map_eq_def)
  moreover have "mget_int observed k = v" if "(k, v) \<in> set current" for k v
  proof -
    have "mget observed k = Some v"
      using that assms by (metis map_eq_def map_of_is_SomeI)
    then show ?thesis by (simp add: mget_int_def)
  qed
  ultimately show ?thesis by (auto simp: RemoteVersionsChanged_iff)
qed

text \<open>
  The comparison is exact as long as no recorded version is 0: then every recorded key has to be
  observed, and as many keys are observed as are recorded.
\<close>

lemma RemoteVersionsChanged_exact:
  assumes dc: "distinct (map fst current)" and dob: "distinct (map fst observed)"
    and nz: "\<And>k v. (k, v) \<in> set current \<Longrightarrow> v \<noteq> 0"
  shows "RemoteVersionsChanged current observed \<longleftrightarrow> \<not> map_eq current observed"
proof
  assume "RemoteVersionsChanged current observed"
  then show "\<not> map_eq current observed"
    using RemoteVersionsChanged_same [OF dc _ dob] by blast
next
  assume ne: "\<not> map_eq current observed"
  show "RemoteVersionsChanged current observed"
  proof (rule ccontr)
    assume "\<not> RemoteVersionsChanged current observed"
    then have len: "length current = length observed"
      and all: "\<And>k v. (k, v) \<in> set current \<Longrightarrow> mget_int observed k = v"
      by (auto simp: RemoteVersionsChanged_iff)
    have sub: "set current \<subseteq> set observed"
    proof
      fix x assume x: "x \<in> set current"
      obtain k v where kv: "x = (k, v)" by fastforce
      have "mget_int observed k = v" "v \<noteq> 0" using x kv all nz by auto
      then have "mget observed k = Some v" by (auto simp: mget_int_def split: option.splits)
      then show "x \<in> set observed" using kv by (auto dest: map_of_SomeD)
    qed
    have "card (set current) = card (set observed)"
      using len dc dob by (simp add: distinct_card distinct_map)
    then have "set current = set observed" using sub by (simp add: card_subset_eq)
    then have "map_eq current observed" using dc dob by (simp add: map_eq_set_iff)
    with ne show False by simp
  qed
qed

section \<open>The polling window\<close>

lemma not_due:
  assumes "polls cfg" "\<not> ShouldSync now cfg"
  obtains rt where "rc_RefreshTime cfg = Some rt" "rt \<le> now" "now \<le> rt + interval cfg"
    "rc_SyncedGen cfg \<noteq> 0" "rc_SyncedGen cfg = rc_Generation cfg"
    "\<not> (ForceSyncPending (rc_Annotations cfg) (rc_RefreshTime cfg) \<and> rc_Policy cfg \<noteq> SyncPolicyCreatedOnce)"
proof -
  have "\<not> shouldSyncPeriodic now cfg" using assms polls_ShouldSync by blast
  then obtain rt where rt: "rc_RefreshTime cfg = Some rt" "rt \<le> now" "now \<le> rt + interval cfg"
    "rc_SyncedGen cfg \<noteq> 0" "rc_SyncedGen cfg = rc_Generation cfg"
    by (auto simp: shouldSyncPeriodic_def not_less split: option.splits if_splits)
  have "\<not> (ForceSyncPending (rc_Annotations cfg) (rc_RefreshTime cfg) \<and> rc_Policy cfg \<noteq> SyncPolicyCreatedOnce)"
    using assms(2) unfolding ShouldSync_def by presburger
  then show thesis by (rule that [OF rt])
qed

lemma polls_ShouldSync_iff:
  assumes "polls cfg"
    "\<not> (ForceSyncPending (rc_Annotations cfg) (rc_RefreshTime cfg) \<and> rc_Policy cfg \<noteq> SyncPolicyCreatedOnce)"
  shows "ShouldSync t cfg \<longleftrightarrow> shouldSyncPeriodic t cfg"
  using assms by (auto simp: ShouldSync_def polls_def)

text \<open>
  C7: a resource that is polled and not due becomes due right after the delay it is requeued with,
  and not before, except when its interval ends at the very instant it is looked at: then it waits
  for one more whole interval.
\<close>

theorem polling_window:
  assumes "polls cfg" and "\<not> ShouldSync now cfg" and "now \<le> t"
  shows "if rc_RefreshTime cfg = Some (now - interval cfg)
         then ShouldSync (now + 1) cfg \<and> RequeueAfter now cfg = interval cfg
         else (ShouldSync t cfg \<longleftrightarrow> now + RequeueAfter now cfg < t)"
proof -
  obtain rt where rt: "rc_RefreshTime cfg = Some rt" "rt \<le> now" "now \<le> rt + interval cfg"
    and gen: "rc_SyncedGen cfg \<noteq> 0" "rc_SyncedGen cfg = rc_Generation cfg"
    and nf: "\<not> (ForceSyncPending (rc_Annotations cfg) (rc_RefreshTime cfg) \<and> rc_Policy cfg \<noteq> SyncPolicyCreatedOnce)"
    using not_due [OF assms(1,2)] .
  have due: "ShouldSync u cfg \<longleftrightarrow> rt > u \<or> rt + interval cfg < u" for u
    using polls_ShouldSync_iff [OF assms(1) nf] rt gen by (simp add: shouldSyncPeriodic_def)
  show ?thesis
    using rt assms(3) interval_pos [of cfg] by (auto simp: due RequeueAfter_def Let_def)
qed

definition sample_cfg :: RefreshConfig where
  "sample_cfg = \<lparr>rc_Policy = SyncPolicyPeriodic, rc_SyncInterval = Some 10, rc_DefaultPoll = 0,
     rc_Generation = 1, rc_SyncedGen = 1, rc_RefreshTime = Some 100, rc_Annotations = []\<rparr>"

theorem polling_window_example:
  "ShouldSync 111 sample_cfg \<and> \<not> ShouldSync 110 sample_cfg"
  using polling_window [of sample_cfg 104 111] polling_window [of sample_cfg 104 110]
  by (simp add: sample_cfg_def polls_def normalizedPolicy_def ShouldSync_def ForceSyncPending_def
      shouldSyncPeriodic_def interval_def RequeueAfter_def)

text \<open>
  Whatever the state of a polled resource, it is due one instant after the delay it is requeued
  with: no resource is starved.
\<close>

theorem poll_not_starved:
  assumes "polls cfg"
  shows "ShouldSync (now + RequeueAfter now cfg + 1) cfg"
proof (rule polls_ShouldSync [OF assms])
  show "shouldSyncPeriodic (now + RequeueAfter now cfg + 1) cfg"
    using interval_pos [of cfg]
    by (auto simp: shouldSyncPeriodic_def RequeueAfter_def Let_def split: option.splits)
qed

theorem poll_not_starved_example: "ShouldSync 111 sample_cfg"
  using poll_not_starved [of sample_cfg 104]
  by (simp add: sample_cfg_def polls_def normalizedPolicy_def interval_def RequeueAfter_def)

section \<open>Comparing versions\<close>

text \<open>
  Comparing recorded with observed versions tells exactly whether the two maps differ, as long
  as no recorded version is 0.
\<close>

theorem versions_compared_exactly:
  assumes "distinct (map fst current)" and "distinct (map fst observed)"
    and "\<forall>(k, v) \<in> set current. v \<noteq> 0"
  shows "RemoteVersionsChanged current observed \<longleftrightarrow> \<not> map_eq current observed"
  using assms by (intro RemoteVersionsChanged_exact) auto

theorem versions_compared_exactly_example:
  "RemoteVersionsChanged [(''/a'', 3)] [(''/b'', 3)] \<longleftrightarrow> \<not> map_eq [(''/a'', 3 :: int)] [(''/b'', 3)]"
  by (rule versions_compared_exactly) simp_all

text \<open>With a recorded version 0 an item can be replaced by another one unnoticed.\<close>

lemma version_zero_gap: "\<not> RemoteVersionsChanged [(''/a'', 0)] [(''/b'', 5)]"
  by (simp add: RemoteVersionsChanged_def mget_int_def)

end
