(* ===== verification/Sample_Env.thy ===== *)
theory Sample_Env
  imports Kube
begin

text \<open>
  A small concrete environment and objects.  The examples that show a theorem's hypotheses can hold
  run the model in it, with single answers replaced.
\<close>

definition not_found :: err where "not_found = StatusErr NotFound ''not found''"

definition sample_env :: Env where
  "sample_env =
     \<lparr>clock = (\<lambda>h. second * int (length h)),
      tz_offset = 0,
      getSecretObj = (\<lambda>h ns n. Inl not_found),
      getAS = (\<lambda>h ns n. Inl not_found),
      getADS = (\<lambda>h ns n. Inl not_found),
      getStore = (\<lambda>h ns n. Inl not_found),
      getCStore = (\<lambda>h n. Inl not_found),
      getNamespace = (\<lambda>h n. Inl not_found),
      getWorkload = (\<lambda>h k ns n. Inl not_found),
      getServiceAccount = (\<lambda>h ns n. Inl not_found),
      getConfigMap = (\<lambda>h ns n. Inl not_found),
      listNamespaces = (\<lambda>h. Inr []),
      listAS = (\<lambda>h. Inr []),
      listADS = (\<lambda>h. Inr []),
      writeErr = (\<lambda>h. None),
      answeredAS = (\<lambda>h a. a),
      answeredADS = (\<lambda>h d. d),
      setControllerReference = (\<lambda>owner s. Inr s),
      selectorOf = (\<lambda>sel. Inr (\<lambda>labels. True)),
      sha3_224 = (\<lambda>s. s),
      jsonParse = (\<lambda>b. if b = ''{}'' then Some (JObj []) else if b = ''null'' then Some JNull else None),
      jsonPrint = (\<lambda>j. if j = JNull then ''null'' else ''{}''),
      jsonPrintNoEscape = (\<lambda>j. if j = JNull then ''null'' else ''{}''),
      jsonRawObject = (\<lambda>b. if b = ''{}'' then Some [] else None),
      gjsonGet = (\<lambda>b p. None),
      regexpCompile = (\<lambda>r. Inr (\<lambda>s. True)),
      regexpReplaceAll = (\<lambda>r s t. s),
      templateParse = (\<lambda>t. Inr (\<lambda>k. Inr k)),
      isLetter = (\<lambda>r. 97 \<le> r \<and> r \<le> 122),
      isNumber = (\<lambda>r. 48 \<le> r \<and> r \<le> 57),
      formatFloat = (\<lambda>n. n),
      printFloat = (\<lambda>n. n),
      authDefaults = \<lparr>ab_AccessId = [], ab_AccessType = None, ab_AccessKey = None,
        ab_K8sServiceAccountToken = None, ab_K8sAuthConfigName = None, ab_CloudId = None\<rparr>,
      urlParse = (\<lambda>u. Some (''https'', u)),
      certPool = (\<lambda>b. True),
      pemDecode = (\<lambda>b. Some b),
      x509Parse = (\<lambda>b. None),
      envVar = (\<lambda>v. None),
      restAuth = (\<lambda>h. RestOk ''t-1''),
      restDescribe = (\<lambda>h. RestOk zero_item),
      restValues = (\<lambda>h. RestOk []),
      restCertificate = (\<lambda>h. RestOk JNull),
      restList = (\<lambda>h. RestOk None),
      restUnit = (\<lambda>h. RestOk ()),
      createToken = (\<lambda>h. Inr ''jwt''),
      readFile = (\<lambda>h. Inr ''jwt''),
      dial = (\<lambda>h. None),
      probe = (\<lambda>h. []),
      cloudId = (\<lambda>h. Inr ''cloud''),
      azureToken = (\<lambda>h. Inr ''azure''),
      azureAsserts = (\<lambda>h. True),
      azurePublicScope = ''scope'',
      azureCredential = (\<lambda>t c. None),
      kubeConfig = (\<lambda>h. None),
      listEndpointSlices = (\<lambda>h ns n. Inr []),
      listStates = (\<lambda>h ns k. Inr []),
      lruGet = (\<lambda>h. None)\<rparr>"

definition sample_target :: Target where
  "sample_target = \<lparr>tgt_Name = [], tgt_CreationPolicy = [], tgt_Template = None\<rparr>"

definition sample_meta :: ObjectMeta where
  "sample_meta = empty_meta\<lparr>om_Name := ''db'', om_Namespace := ''app'', om_Generation := 1\<rparr>"

definition sample_status :: SecretStatus where
  "sample_status = \<lparr>ss_RefreshTime = None, ss_SyncedGeneration = 0, ss_RemoteVersions = [],
     ss_Conditions = []\<rparr>"

definition sample_mapping :: SecretMapping where
  "sample_mapping = \<lparr>sm_SecretKey = ''password'',
     sm_RemoteRef = \<lparr>rr_Key = ''/db/password'', rr_Property = [], rr_Version = []\<rparr>\<rparr>"

definition sample_as :: AkeylessSecret where
  "sample_as = \<lparr>as_Meta = sample_meta,
     as_Spec = \<lparr>asp_StoreRef = \<lparr>ssr_Name = ''store'', ssr_Kind = []\<rparr>, asp_Target = sample_target,
       asp_SyncPolicy = [], asp_SyncInterval = None, asp_Data = [sample_mapping],
       asp_RolloutRestartTargets = []\<rparr>,
     as_Status = sample_status\<rparr>"

definition sample_secret :: K8sSecret where
  "sample_secret = \<lparr>sec_Meta = sample_meta, sec_Type = SecretTypeOpaque, sec_Data = [], sec_Immutable = None\<rparr>"

definition sample_store_spec :: AkeylessSecretStoreSpec where
  "sample_store_spec = \<lparr>assp_GWApiURL = [], assp_IgnoreCache = None,
     assp_Auth = \<lparr>aa_SecretRef = Some
         \<lparr>aasr_AccessID = \<lparr>sks_Name = ''creds'', sks_Namespace = None, sks_Key = ''id''\<rparr>,
          aasr_AccessType = \<lparr>sks_Name = ''creds'', sks_Namespace = None, sks_Key = ''type''\<rparr>,
          aasr_AccessTypeParam = \<lparr>sks_Name = ''creds'', sks_Namespace = None, sks_Key = ''param''\<rparr>\<rparr>,
       aa_KubernetesAuth = None, aa_ServiceAccountRef = None\<rparr>,
     assp_CABundle = [], assp_CAProvider = None\<rparr>"

definition sample_store :: AkeylessSecretStore where
  "sample_store = \<lparr>ast_Meta = sample_meta, ast_Spec = sample_store_spec, ast_Conditions = []\<rparr>"

end
