(* ===== verification/Managed_Secret.thy ===== *)
theory Managed_Secret
  imports Traces Sample_Env
begin

text \<open>
  The Kubernetes Secret the operator owns: \<open>pkg/akeyless/sync/secret.go\<close>, with
  \<open>esutils.ObjectHash\<close>.  A managed Secret carries a label and, as an annotation, the hash of its
  data; the annotation is how a later reconcile notices that the data was edited by someone else.
\<close>

section \<open>The data hash\<close>

text \<open>
  \<open>fmt.Sprintf("%+v", m)\<close> of a \<open>map[string][]byte\<close>: the entries in key order, each value as its
  bytes in decimal.
\<close>

definition bytes_text :: "bytes \<Rightarrow> string" where
  "bytes_text b = ''['' @ join_with '' '' (map (\<lambda>c. show_nat (of_char c)) b) @ '']''"

fun entries_text :: "bytes gomap \<Rightarrow> string" where
  "entries_text [] = []"
| "entries_text [(k, v)] = k @ CHR '':'' # bytes_text v"
| "entries_text ((k, v) # e # es) = k @ CHR '':'' # bytes_text v @ CHR '' '' # entries_text (e # es)"

definition data_text :: "bytes gomap \<Rightarrow> string" where
  "data_text d = ''map['' @ entries_text (sort_key fst d) @ '']''"

definition ObjectHash :: "Env \<Rightarrow> string \<Rightarrow> string" where
  "ObjectHash E textualVersion = hex_encode (sha3_224 E textualVersion)"

definition data_hash :: "Env \<Rightarrow> bytes gomap \<Rightarrow> string" where
  "data_hash E d = ObjectHash E (data_text d)"

section \<open>Applying and checking\<close>

definition template_labels :: "Target \<Rightarrow> string gomap" where
  "template_labels t = (case tgt_Template t of None \<Rightarrow> []
     | Some tpl \<Rightarrow> (case st_Metadata tpl of None \<Rightarrow> [] | Some m \<Rightarrow> tm_Labels m))"

definition template_annotations :: "Target \<Rightarrow> string gomap" where
  "template_annotations t = (case tgt_Template t of None \<Rightarrow> []
     | Some tpl \<Rightarrow> (case st_Metadata tpl of None \<Rightarrow> [] | Some m \<Rightarrow> tm_Annotations m))"

definition template_type :: "Target \<Rightarrow> string" where
  "template_type t = (case tgt_Template t of None \<Rightarrow> SecretTypeOpaque
     | Some tpl \<Rightarrow> if st_Type tpl \<noteq> [] then st_Type tpl else SecretTypeOpaque)"

definition desiredSecret :: "Env \<Rightarrow> string \<Rightarrow> string \<Rightarrow> Target \<Rightarrow> bytes gomap \<Rightarrow> K8sSecret" where
  "desiredSecret E ns name target data =
     \<lparr>sec_Meta = empty_meta\<lparr>
        om_Name := name, om_Namespace := ns,
        om_Labels := mcopy [(LabelManaged, LabelManagedValue)] (template_labels target),
        om_Annotations := mcopy [(AnnotationDataHash, data_hash E data)] (template_annotations target)\<rparr>,
      sec_Type = template_type target,
      sec_Data = data,
      sec_Immutable = None\<rparr>"

definition refreshedSecret :: "Env \<Rightarrow> K8sSecret \<Rightarrow> bytes gomap \<Rightarrow> K8sSecret" where
  "refreshedSecret E existing data = existing\<lparr>
     sec_Data := data,
     sec_Meta := (sec_Meta existing)\<lparr>
       om_Annotations := mput AnnotationDataHash (data_hash E data) (om_Annotations (sec_Meta existing)),
       om_Labels := mput LabelManaged LabelManagedValue (om_Labels (sec_Meta existing))\<rparr>\<rparr>"

definition ApplyManagedSecret ::
  "Env \<Rightarrow> ObjectMeta \<Rightarrow> string \<Rightarrow> string \<Rightarrow> Target \<Rightarrow> bytes gomap \<Rightarrow> err option io" where
  "ApplyManagedSecret E owner ns name target data =
     (let secret = desiredSecret E ns name target data in
      do {
        r \<leftarrow> k_get_secret E ns name;
        case r of
          Inl e \<Rightarrow>
            if is_not_found e then
              (if tgt_CreationPolicy target = CreationPolicyOwner \<or> tgt_CreationPolicy target = [] then
                 (case setControllerReference E owner secret of
                    Inl e' \<Rightarrow> ret (Some e')
                  | Inr owned \<Rightarrow> k_write E (CCreate (OSecret owned)))
               else k_write E (CCreate (OSecret secret)))
            else ret (Some e)
        | Inr existing \<Rightarrow> k_write E (CUpdate (OSecret (refreshedSecret E existing data)))
      })"

definition IsManagedSecretValid :: "Env \<Rightarrow> K8sSecret option \<Rightarrow> bool" where
  "IsManagedSecretValid E s =
     (case s of
        None \<Rightarrow> False
      | Some s \<Rightarrow>
          if mget_str (om_Labels (sec_Meta s)) LabelManaged \<noteq> LabelManagedValue then False
          else mget_str (om_Annotations (sec_Meta s)) AnnotationDataHash = data_hash E (sec_Data s))"

section \<open>The text determines the data\<close>

lemma join_with_Nil_iff: "(\<And>s. s \<in> set ss \<Longrightarrow> s \<noteq> []) \<Longrightarrow> join_with sep ss = [] \<longleftrightarrow> ss = []"
  by (induction sep ss rule: join_with.induct) auto

lemma set_join_with: "set (join_with sep ss) \<subseteq> set sep \<union> (\<Union>s \<in> set ss. set s)"
  by (induction sep ss rule: join_with.induct) auto

lemma join_with_inj:
  assumes "\<And>s. s \<in> set xs \<Longrightarrow> c \<notin> set s \<and> s \<noteq> []"
    and "\<And>s. s \<in> set ys \<Longrightarrow> c \<notin> set s \<and> s \<noteq> []"
    and "join_with [c] xs = join_with [c] ys"
  shows "xs = ys"
  using assms
proof (induction "[c]" xs arbitrary: ys rule: join_with.induct)
  case 1
  then have "join_with [c] ys = []" by simp
  with 1 show ?case by (auto simp: join_with_Nil_iff)
next
  case (2 s)
  show ?case
  proof (cases ys)
    case Nil
    then show ?thesis using 2 by auto
  next
    case y: (Cons y ys')
    show ?thesis
    proof (cases ys')
      case Nil
      then show ?thesis using 2 y by simp
    next
      case (Cons z zs)
      then have "c \<in> set s" using 2 y by simp
      with 2 show ?thesis by auto
    qed
  qed
next
  case (3 s t ts)
  show ?case
  proof (cases ys)
    case Nil
    then show ?thesis using 3 by auto
  next
    case y: (Cons y ys')
    show ?thesis
    proof (cases ys')
      case Nil
      then have "c \<in> set y" using 3(4) y by (metis append_Cons in_set_conv_decomp join_with.simps(2,3))
      with 3 y show ?thesis by auto
    next
      case (Cons z zs)
      have e: "s @ c # join_with [c] (t # ts) = y @ c # join_with [c] (z # zs)"
        using 3 y Cons by simp
      have "s = y \<and> join_with [c] (t # ts) = join_with [c] (z # zs)"
        by (rule split_at_char [OF _ _ e]) (use 3 y in auto)
      moreover from this have "t # ts = z # zs"
        using 3 y Cons by (intro "3.hyps") auto
      ultimately show ?thesis using y Cons by simp
    qed
  qed
qed

lemma show_nat_no_space [simp]: "CHR '' '' \<notin> set (show_nat n)" "CHR '']'' \<notin> set (show_nat n)"
  using show_nat_digits [of "CHR '' ''" n] show_nat_digits [of "CHR '']''" n]
  by (auto simp: is_digit_char_def)

lemma bytes_text_inj:
  assumes "bytes_text a @ r = bytes_text b @ r'"
  shows "a = b \<and> r = r'"
proof -
  let ?t = "\<lambda>b. join_with '' '' (map (\<lambda>c. show_nat (of_char c)) b)"
  have "?t a @ CHR '']'' # r = ?t b @ CHR '']'' # r'"
    using assms by (simp add: bytes_text_def)
  moreover have "CHR '']'' \<notin> set (?t b)" for b :: bytes
    using set_join_with [of "'' ''" "map (\<lambda>c. show_nat (of_char c)) b"] by auto
  ultimately have e: "?t a = ?t b" and r: "r = r'" by (auto dest: split_at_char)
  have "map (\<lambda>c. show_nat (of_char c)) a = map (\<lambda>c. show_nat (of_char c)) b"
    by (rule join_with_inj [OF _ _ e]) auto
  moreover have "inj (\<lambda>c :: char. show_nat (of_char c))"
    by (auto intro!: injI dest: show_nat_inj)
  ultimately show ?thesis using r by (simp add: inj_map_eq_map)
qed

definition plain_keys :: "'a gomap \<Rightarrow> bool" where
  "plain_keys d \<longleftrightarrow> (\<forall>k \<in> set (mkeys d). CHR '':'' \<notin> set k)"

lemma entries_text_Cons:
  "entries_text ((k, v) # es)
   = k @ CHR '':'' # bytes_text v @ (if es = [] then [] else CHR '' '' # entries_text es)"
  by (cases es) simp_all

lemma entries_text_inj:
  assumes "plain_keys xs" "plain_keys ys" "entries_text xs = entries_text ys"
  shows "xs = ys"
  using assms
proof (induction xs arbitrary: ys)
  case Nil
  then show ?case by (cases ys) (auto simp: entries_text_Cons)
next
  case (Cons x xs)
  obtain k v where x: "x = (k, v)" by fastforce
  obtain l w ys' where ys: "ys = (l, w) # ys'"
    using Cons.prems x by (cases ys) (auto simp: entries_text_Cons)
  let ?r = "\<lambda>es. if es = [] then [] else CHR '' '' # entries_text es"
  have "k = l \<and> bytes_text v @ ?r xs = bytes_text w @ ?r ys'"
    by (rule split_at_char [where c = "CHR '':''"])
      (use Cons.prems x ys in \<open>auto simp: plain_keys_def mkeys_def entries_text_Cons\<close>)
  moreover from this have "v = w \<and> ?r xs = ?r ys'" by (blast dest: bytes_text_inj)
  moreover from this have "xs = ys'"
    using Cons.IH [of ys'] Cons.prems x ys
    by (auto simp: plain_keys_def mkeys_def split: if_splits)
  ultimately show ?case using x ys by simp
qed

lemma plain_keys_sort [simp]: "plain_keys (sort_key fst d) = plain_keys d"
  by (simp add: plain_keys_def mkeys_def)

lemma data_text_eq_iff:
  assumes "plain_keys a" "plain_keys b"
    and "distinct (map fst a)" "distinct (map fst b)"
  shows "data_text a = data_text b \<longleftrightarrow> map_eq a b"
proof
  assume "data_text a = data_text b"
  then have "sort_key fst a = sort_key fst b"
    using assms by (auto simp: data_text_def intro: entries_text_inj)
  then have "set a = set b" by (metis set_sort)
  then show "map_eq a b" using assms by (simp add: map_eq_set_iff)
next
  assume "map_eq a b"
  then have s: "set a = set b" using assms by (simp add: map_eq_set_iff)
  have "sort_key fst a = sort_key fst b"
  proof (rule map_sorted_distinct_set_unique [where f = fst])
    show "inj_on fst (set (sort_key fst a) \<union> set (sort_key fst b))"
      using assms(3) s by (simp add: distinct_map)
  qed (use assms s in \<open>simp_all add: distinct_map\<close>)
  then show "data_text a = data_text b" by (simp add: data_text_def)
qed

section \<open>What is applied is valid\<close>

lemma ObjectHash_eq_iff: "inj (sha3_224 E) \<Longrightarrow> ObjectHash E s = ObjectHash E t \<longleftrightarrow> s = t"
  unfolding ObjectHash_def by (auto dest!: hex_encode_inj injD)

lemma refreshedSecret_valid: "IsManagedSecretValid E (Some (refreshedSecret E s d))"
  by (simp add: IsManagedSecretValid_def refreshedSecret_def mget_str_mput)

text \<open>The template's maps win over the two entries the operator relies on.\<close>

definition template_respects :: "Env \<Rightarrow> Target \<Rightarrow> bytes gomap \<Rightarrow> bool" where
  "template_respects E t d \<longleftrightarrow>
     mget (template_labels t) LabelManaged \<in> {None, Some LabelManagedValue}
     \<and> mget (template_annotations t) AnnotationDataHash \<in> {None, Some (data_hash E d)}"

definition go_maps :: "Target \<Rightarrow> bool" where
  "go_maps t \<longleftrightarrow> distinct (map fst (template_labels t)) \<and> distinct (map fst (template_annotations t))"

lemma overlay_keeps:
  assumes "distinct (map fst src)"
  shows "mget_str (mcopy [(k, v)] src) k = v \<longleftrightarrow> mget src k \<in> {None, Some v}"
proof -
  have "mget_str (mcopy [(k, v)] src) k = (case mget src k of None \<Rightarrow> v | Some w \<Rightarrow> w)"
    unfolding mget_str_def mget_mcopy [OF assms] by (simp split: option.split)
  then show ?thesis by (metis insert_iff option.case_eq_if option.collapse option.inject option.simps(5) singletonD)
qed

lemma desiredSecret_valid_iff:
  assumes "go_maps t"
  shows "IsManagedSecretValid E (Some (desiredSecret E ns n t d)) \<longleftrightarrow> template_respects E t d"
  using assms
  unfolding IsManagedSecretValid_def desiredSecret_def template_respects_def go_maps_def
  by (simp add: overlay_keeps del: map_of_eq_Some_iff)

lemma performs_ApplyManagedSecret [performs_intros]:
  assumes "\<And>s. P (CCreate (OSecret s))" "\<And>s. P (CUpdate (OSecret s))"
    and "P (CGet ''Secret'' ns name)"
  shows "performs P (ApplyManagedSecret E owner ns name target data)"
  unfolding ApplyManagedSecret_def Let_def k_defs
  by (intro performs_intros assms)

section \<open>Drift\<close>

text \<open>
  When the operator has written a Secret and someone then replaces its data, the Secret counts
  as valid exactly if the data is the same map as before, provided keys contain no colon (the API
  server allows none) and the hash has no collision between the two printed maps.
\<close>

theorem drift_detected:
  assumes "plain_keys d" "plain_keys d'" "distinct (map fst d)" "distinct (map fst d')"
    and "sha3_224 E (data_text d) = sha3_224 E (data_text d') \<Longrightarrow> data_text d = data_text d'"
  shows "IsManagedSecretValid E (Some ((refreshedSecret E s d)\<lparr>sec_Data := d'\<rparr>)) \<longleftrightarrow> map_eq d d'"
proof -
  have "data_hash E d = data_hash E d' \<longleftrightarrow> data_text d = data_text d'"
    using assms(5) by (auto simp: data_hash_def ObjectHash_def dest: hex_encode_inj)
  then show ?thesis
    using data_text_eq_iff [OF assms(1-4)]
    by (simp add: IsManagedSecretValid_def refreshedSecret_def mget_str_mput)
qed

theorem drift_detected_example:
  "\<not> IsManagedSecretValid sample_env (Some ((refreshedSecret sample_env sample_secret
       [(''user'', ''a''), (''pw'', ''b'')])\<lparr>sec_Data := [(''pw'', ''x''), (''user'', ''a'')]\<rparr>))"
proof -
  let ?d = "[(''user'', ''a''), (''pw'', ''b'')]" and ?d' = "[(''pw'', ''x''), (''user'', ''a'')]"
  have "\<not> map_eq ?d ?d'"
    unfolding map_eq_def by (auto dest!: fun_cong [where x = "''pw''"])
  then show ?thesis
    using drift_detected [of ?d ?d' sample_env sample_secret]
    by (simp add: plain_keys_def mkeys_def sample_env_def)
qed

section \<open>What is applied\<close>

text \<open>What the code relies on when it makes the resource the owner of the Secret it creates.\<close>

definition sets_owner_only :: "Env \<Rightarrow> bool" where
  "sets_owner_only E \<longleftrightarrow> (\<forall>owner s s'. setControllerReference E owner s = Inr s' \<longrightarrow>
     sec_Data s' = sec_Data s \<and> om_Name (sec_Meta s') = om_Name (sec_Meta s)
     \<and> om_Namespace (sec_Meta s') = om_Namespace (sec_Meta s)
     \<and> om_Labels (sec_Meta s') = om_Labels (sec_Meta s)
     \<and> om_Annotations (sec_Meta s') = om_Annotations (sec_Meta s))"

fun written_secret :: "Call \<Rightarrow> K8sSecret option" where
  "written_secret (CCreate (OSecret s)) = Some s"
| "written_secret (CUpdate (OSecret s)) = Some s"
| "written_secret _ = None"

text \<open>
  Right for an application: the Secret has exactly the given data; an updated one is valid, a created one
  exactly if the template gives the label and the annotation of the operator no other value.
\<close>

fun applied_right :: "Env \<Rightarrow> Target \<Rightarrow> bytes gomap \<Rightarrow> Call \<Rightarrow> bool" where
  "applied_right E t d (CGet kind ns n) = True"
| "applied_right E t d (CUpdate (OSecret s)) = (sec_Data s = d \<and> IsManagedSecretValid E (Some s))"
| "applied_right E t d (CCreate (OSecret s)) = (sec_Data s = d
     \<and> (IsManagedSecretValid E (Some s)
        \<longleftrightarrow> mget (template_labels t) LabelManaged \<in> {None, Some LabelManagedValue}
          \<and> mget (template_annotations t) AnnotationDataHash \<in> {None, Some (data_hash E d)}))"
| "applied_right E t d c = False"

text \<open>
  C6: \<open>ApplyManagedSecret\<close> reads, and creates or updates a Secret with exactly the given data.  The Secret it
  updates counts as valid; the Secret it creates counts as valid exactly if the template of the target, which
  is copied over the operator's own label and annotation, does not give them another value.  This needs of
  \<open>SetControllerReference\<close> only that it leaves name, data, labels and annotations alone.
\<close>

theorem applied_secret_valid:
  assumes "sets_owner_only E" and "go_maps target"
  shows "performs (applied_right E target data) (ApplyManagedSecret E owner ns name target data)"
proof -
  let ?s = "desiredSecret E ns name target data"
  note valid = desiredSecret_valid_iff [OF assms(2), of E ns name data, unfolded template_respects_def]
  have "sec_Data ?s = data" by (simp add: desiredSecret_def)
  with valid have new: "applied_right E target data (CCreate (OSecret ?s))" by simp
  have own: "applied_right E target data (CCreate (OSecret s'))" if "setControllerReference E owner ?s = Inr s'" for s'
  proof -
    have e: "sec_Data s' = sec_Data ?s" "om_Labels (sec_Meta s') = om_Labels (sec_Meta ?s)"
      "om_Annotations (sec_Meta s') = om_Annotations (sec_Meta ?s)"
      using assms(1) that unfolding sets_owner_only_def by blast+
    then have "IsManagedSecretValid E (Some s') = IsManagedSecretValid E (Some ?s)"
      by (simp add: IsManagedSecretValid_def)
    with e new show ?thesis by simp
  qed
  have "applied_right E target data (CUpdate (OSecret (refreshedSecret E s data)))" for s
    using refreshedSecret_valid by (simp add: refreshedSecret_def)
  with new own show ?thesis
    unfolding ApplyManagedSecret_def Let_def k_defs by (intro performs_intros) simp_all
qed

text \<open>A template that gives the annotation a value of its own: the Secret that is created is not valid.\<close>

definition stale_target :: Target where
  "stale_target = sample_target\<lparr>tgt_Template := Some \<lparr>st_Type = [],
     st_Metadata = Some \<lparr>tm_Labels = [], tm_Annotations = [(AnnotationDataHash, ''old'')]\<rparr>\<rparr>\<rparr>"

theorem applied_secret_valid_example:
  "\<not> IsManagedSecretValid sample_env (Some (desiredSecret sample_env ''app'' ''db'' stale_target [(''k'', ''v'')]))
   \<and> performs (applied_right sample_env stale_target [(''k'', ''v'')])
       (ApplyManagedSecret sample_env sample_meta ''app'' ''db'' stale_target [(''k'', ''v'')])"
proof
  show "\<not> IsManagedSecretValid sample_env (Some (desiredSecret sample_env ''app'' ''db'' stale_target [(''k'', ''v'')]))"
    by code_simp
  show "performs (applied_right sample_env stale_target [(''k'', ''v'')])
       (ApplyManagedSecret sample_env sample_meta ''app'' ''db'' stale_target [(''k'', ''v'')])"
    by (rule applied_secret_valid)
      (auto simp: sets_owner_only_def sample_env_def go_maps_def stale_target_def template_labels_def
        template_annotations_def)
qed

text \<open>
  Updating an existing Secret replaces its data and touches of its metadata only the label and
  the annotation of the operator: every other label and annotation, the type and the identity stay.
\<close>

lemma refreshed_secret_frame:
  "sec_Data (refreshedSecret E s d) = d \<and> sec_Type (refreshedSecret E s d) = sec_Type s
   \<and> om_Name (sec_Meta (refreshedSecret E s d)) = om_Name (sec_Meta s)
   \<and> om_Finalizers (sec_Meta (refreshedSecret E s d)) = om_Finalizers (sec_Meta s)
   \<and> mget (om_Labels (sec_Meta (refreshedSecret E s d)))
       = (mget (om_Labels (sec_Meta s)))(LabelManaged \<mapsto> LabelManagedValue)
   \<and> mget (om_Annotations (sec_Meta (refreshedSecret E s d)))
       = (mget (om_Annotations (sec_Meta s)))(AnnotationDataHash \<mapsto> data_hash E d)"
  by (simp add: refreshedSecret_def mget_mput_fun)

end
