(* ===== verification/Rollout.thy ===== *)
theory Rollout
  imports Kube
begin

text \<open>
  \<open>pkg/akeyless/sync/rollout.go\<close>: workloads are restarted by stamping an annotation on their pod
  template.
\<close>

definition workload_type :: "string \<Rightarrow> string" where
  "workload_type kind = ''*v1.'' @ kind"

definition patchPodTemplateRestart :: "Env \<Rightarrow> Workload \<Rightarrow> string \<Rightarrow> err option io" where
  "patchPodTemplateRestart E obj restartedAt =
     (let obj' = obj\<lparr>wl_TemplateAnnotations :=
                   mput AnnotationRestarted restartedAt (wl_TemplateAnnotations obj)\<rparr> in
      do {
        r \<leftarrow> k_write E (CUpdate (OWorkload obj'));
        ret (case r of
               Some e \<Rightarrow> if is_conflict e then
                   Some (ErrWrap (''conflict restarting '' @ workload_type (wl_Kind obj) @ '' ''
                     @ go_quote (om_Name (wl_Meta obj))) e)
                 else Some e
             | None \<Rightarrow> None)
      })"

definition restartKind :: "Env \<Rightarrow> string \<Rightarrow> string \<Rightarrow> string \<Rightarrow> string \<Rightarrow> err option io" where
  "restartKind E kind namespace name restartedAt = do {
     r \<leftarrow> k_get_workload E kind namespace name;
     case r of
       Inl e \<Rightarrow> ret (Some (ErrWrap (''get '' @ kind @ '' '' @ go_quote name) e))
     | Inr w \<Rightarrow> patchPodTemplateRestart E w restartedAt
   }"

definition restartTarget :: "Env \<Rightarrow> string \<Rightarrow> RolloutRestartTarget \<Rightarrow> err option io" where
  "restartTarget E namespace target = do {
     t \<leftarrow> now E;
     let restartedAt = format_rfc3339 (tz_offset E) t;
     if rrt_Kind target = ''Deployment'' \<or> rrt_Kind target = [] then
       restartKind E ''Deployment'' namespace (rrt_Name target) restartedAt
     else if rrt_Kind target = ''StatefulSet'' then
       restartKind E ''StatefulSet'' namespace (rrt_Name target) restartedAt
     else if rrt_Kind target = ''DaemonSet'' then
       restartKind E ''DaemonSet'' namespace (rrt_Name target) restartedAt
     else ret (Some (ErrMsg (''unsupported rollout restart kind '' @ go_quote (rrt_Kind target))))
   }"

fun TriggerRolloutRestarts :: "Env \<Rightarrow> string \<Rightarrow> RolloutRestartTarget list \<Rightarrow> err option io" where
  "TriggerRolloutRestarts E namespace [] = ret None"
| "TriggerRolloutRestarts E namespace (target # targets) = do {
     r \<leftarrow> restartTarget E namespace target;
     case r of
       Some e \<Rightarrow> ret (Some e)
     | None \<Rightarrow> TriggerRolloutRestarts E namespace targets
   }"

lemma performs_restartTarget [performs_intros]:
  assumes "\<And>w. P (CUpdate (OWorkload w))" "\<And>k ns n. P (CGet k ns n)"
  shows "performs P (restartTarget E namespace target)"
  unfolding restartTarget_def restartKind_def patchPodTemplateRestart_def Let_def k_defs
  by (intro performs_intros assms)

lemma performs_TriggerRolloutRestarts [performs_intros]:
  assumes "\<And>w. P (CUpdate (OWorkload w))" "\<And>k ns n. P (CGet k ns n)"
  shows "performs P (TriggerRolloutRestarts E namespace targets)"
  using assms
  by (induction E namespace targets rule: TriggerRolloutRestarts.induct)
    (auto intro!: performs_intros)

end
