(* ===== verification/Adapter.thy ===== *)
theory Adapter
  imports Api_Types
begin

text \<open>
  \<open>pkg/akeyless/adapter/store.go\<close>: the operator's own store resources are turned into the
  \<open>SecretStore\<close> and \<open>ClusterSecretStore\<close> objects the provider was written for.
\<close>

definition empty_selector :: SecretKeySelector where
  "empty_selector = \<lparr>sks_Name = [], sks_Namespace = None, sks_Key = []\<rparr>"

definition empty_secret_ref :: AkeylessAuthSecretRef where
  "empty_secret_ref = \<lparr>aasr_AccessID = empty_selector, aasr_AccessType = empty_selector,
     aasr_AccessTypeParam = empty_selector\<rparr>"

definition authFromSpec :: "AkeylessAuth \<Rightarrow> EsAkeylessAuth" where
  "authFromSpec auth =
     \<lparr>eaa_SecretRef = (case aa_SecretRef auth of None \<Rightarrow> empty_secret_ref
        | Some r \<Rightarrow> \<lparr>aasr_AccessID = aasr_AccessID r, aasr_AccessType = aasr_AccessType r,
                     aasr_AccessTypeParam = aasr_AccessTypeParam r\<rparr>),
      eaa_KubernetesAuth = (case aa_KubernetesAuth auth of None \<Rightarrow> None
        | Some k \<Rightarrow> Some \<lparr>aka_AccessID = aka_AccessID k, aka_K8sConfName = aka_K8sConfName k,
            aka_ServiceAccountRef = aka_ServiceAccountRef k, aka_SecretRef = aka_SecretRef k\<rparr>),
      eaa_ServiceAccountRef = aa_ServiceAccountRef auth\<rparr>"

definition providerFromSpec :: "AkeylessSecretStoreSpec \<Rightarrow> AkeylessProvider" where
  "providerFromSpec spec =
     \<lparr>ap_GWApiURL = Some (assp_GWApiURL spec),
      ap_IgnoreCache = assp_IgnoreCache spec,
      ap_Auth = Some (authFromSpec (assp_Auth spec)),
      ap_CABundle = assp_CABundle spec,
      ap_CAProvider = (case assp_CAProvider spec of None \<Rightarrow> None
        | Some c \<Rightarrow> Some \<lparr>cap_Type = cap_Type c, cap_Name = cap_Name c, cap_Key = cap_Key c,
            cap_Namespace = cap_Namespace c\<rparr>)\<rparr>"

definition SecretStoreFromNamespaced :: "AkeylessSecretStore \<Rightarrow> GenericStore" where
  "SecretStoreFromNamespaced store =
     \<lparr>gs_Kind = SecretStoreKind, gs_Meta = ast_Meta store,
      gs_Provider = Some (Some (providerFromSpec (ast_Spec store)))\<rparr>"

definition SecretStoreFromCluster :: "ClusterAkeylessSecretStore \<Rightarrow> GenericStore" where
  "SecretStoreFromCluster store =
     \<lparr>gs_Kind = ClusterSecretStoreKind, gs_Meta = cst_Meta store,
      gs_Provider = Some (Some (providerFromSpec (cst_Spec store)))\<rparr>"

definition adaptRemoteRef :: "RemoteRef \<Rightarrow> DataRemoteRef" where
  "adaptRemoteRef r =
     \<lparr>drr_Key = rr_Key r, drr_Property = rr_Property r, drr_Version = rr_Version r\<rparr>"

section \<open>What the adapter keeps\<close>

text \<open>
  Apart from a missing secret reference, which becomes one with empty names, the authentication
  section is copied field by field, so it can be read back.
\<close>

definition auth_back :: "EsAkeylessAuth \<Rightarrow> AkeylessAuth" where
  "auth_back a = \<lparr>aa_SecretRef = Some (eaa_SecretRef a), aa_KubernetesAuth = eaa_KubernetesAuth a,
     aa_ServiceAccountRef = eaa_ServiceAccountRef a\<rparr>"

lemma auth_back_authFromSpec:
  "auth_back (authFromSpec a)
   = a\<lparr>aa_SecretRef := Some (case aa_SecretRef a of None \<Rightarrow> empty_secret_ref | Some r \<Rightarrow> r)\<rparr>"
  by (auto simp: auth_back_def authFromSpec_def split: option.splits)

lemma providerFromSpec_simps [simp]:
  "ap_GWApiURL (providerFromSpec s) = Some (assp_GWApiURL s)"
  "ap_IgnoreCache (providerFromSpec s) = assp_IgnoreCache s"
  "ap_Auth (providerFromSpec s) = Some (authFromSpec (assp_Auth s))"
  "ap_CABundle (providerFromSpec s) = assp_CABundle s"
  "ap_CAProvider (providerFromSpec s) = assp_CAProvider s"
  by (simp_all add: providerFromSpec_def split: option.splits)

lemma adapted_store_simps [simp]:
  "gs_Kind (SecretStoreFromNamespaced s) = SecretStoreKind"
  "gs_Meta (SecretStoreFromNamespaced s) = ast_Meta s"
  "gs_Provider (SecretStoreFromNamespaced s) = Some (Some (providerFromSpec (ast_Spec s)))"
  "gs_Kind (SecretStoreFromCluster c) = ClusterSecretStoreKind"
  "gs_Meta (SecretStoreFromCluster c) = cst_Meta c"
  "gs_Provider (SecretStoreFromCluster c) = Some (Some (providerFromSpec (cst_Spec c)))"
  by (simp_all add: SecretStoreFromNamespaced_def SecretStoreFromCluster_def)

end
