(* ===== verification/Store.thy ===== *)
theory Store
  imports Adapter Provider_Interface
begin

text \<open>
  Stores: \<open>pkg/controllers/akeylessstore\<close> (the two reconcilers that validate a store against
  Akeyless and record the outcome as a condition, and the readiness checks) and
  \<open>pkg/akeyless/sync/store.go\<close> (how a synchronised resource finds its store).

  The result of a reconcile is the pair of a \<open>ctrl.Result\<close> and an error.
\<close>

record CtrlResult =
  cr_Requeue :: bool
  cr_RequeueAfter :: duration

definition no_requeue :: CtrlResult where
  "no_requeue = \<lparr>cr_Requeue = False, cr_RequeueAfter = 0\<rparr>"

definition requeue_after :: "duration \<Rightarrow> CtrlResult" where
  "requeue_after d = \<lparr>cr_Requeue = False, cr_RequeueAfter = d\<rparr>"

type_synonym outcome = "CtrlResult \<times> err option"

section \<open>Readiness\<close>

definition storeIsReady :: "StoreCondition list \<Rightarrow> bool" where
  "storeIsReady conditions =
     list_ex (\<lambda>c. cond_Type c = StoreConditionReady \<and> cond_Status c = ConditionTrue) conditions"

definition clusterStoreIsReady :: "StoreCondition list \<Rightarrow> bool" where
  "clusterStoreIsReady conditions = storeIsReady conditions"

definition IsNamespacedStoreReady :: "Env \<Rightarrow> string \<Rightarrow> string \<Rightarrow> (err + bool) io" where
  "IsNamespacedStoreReady E ns name = do {
     r \<leftarrow> k_get_store E ns name;
     case r of
       Inl e \<Rightarrow>
         if is_not_found e then
           ret (Inl (ErrMsg (''AkeylessSecretStore '' @ go_quote name @ '' not found'')))
         else ret (Inl e)
     | Inr store \<Rightarrow>
         if \<not> storeIsReady (ast_Conditions store) then
           ret (Inl (ErrMsg (''AkeylessSecretStore '' @ go_quote name @ '' is not ready'')))
         else ret (Inr True)
   }"

text \<open>A selector that cannot be built is skipped.\<close>

fun conditionAllows :: "Env \<Rightarrow> K8sNamespace \<Rightarrow> string \<Rightarrow> ClusterStoreNamespaceCondition \<Rightarrow> bool" where
  "conditionAllows E nsObj namespace cond =
     (if list_ex (\<lambda>name. name = namespace) (nsc_Namespaces cond) then True
      else (case nsc_NamespaceSelector cond of
              None \<Rightarrow> False
            | Some sel \<Rightarrow> (case selectorOf E sel of
                Inl _ \<Rightarrow> False
              | Inr matches \<Rightarrow> matches (ns_Labels nsObj))))"

definition clusterStoreAllowed :: "Env \<Rightarrow> ClusterAkeylessSecretStore \<Rightarrow> string \<Rightarrow> (err + bool) io" where
  "clusterStoreAllowed E store namespace =
     (if cst_NamespaceConditions store = [] then ret (Inr True)
      else do {
        r \<leftarrow> k_get_namespace E namespace;
        case r of
          Inl e \<Rightarrow> ret (Inl e)
        | Inr nsObj \<Rightarrow>
            ret (Inr (list_ex (conditionAllows E nsObj namespace) (cst_NamespaceConditions store)))
      })"

definition IsClusterStoreReady :: "Env \<Rightarrow> string \<Rightarrow> string \<Rightarrow> (err + bool) io" where
  "IsClusterStoreReady E name namespace = do {
     r \<leftarrow> k_get_cstore E name;
     case r of
       Inl e \<Rightarrow>
         if is_not_found e then
           ret (Inl (ErrMsg (''ClusterAkeylessSecretStore '' @ go_quote name @ '' not found'')))
         else ret (Inl e)
     | Inr store \<Rightarrow>
         if \<not> clusterStoreIsReady (cst_Conditions store) then
           ret (Inl (ErrMsg (''ClusterAkeylessSecretStore '' @ go_quote name @ '' is not ready'')))
         else do {
           a \<leftarrow> clusterStoreAllowed E store namespace;
           case a of
             Inl e \<Rightarrow> ret (Inl e)
           | Inr allowed \<Rightarrow>
               if \<not> allowed then
                 ret (Inl (ErrMsg (''namespace '' @ go_quote namespace
                   @ '' is not allowed by ClusterAkeylessSecretStore '' @ go_quote name)))
               else ret (Inr True)
         }
   }"

section \<open>Finding the store of a synchronised resource\<close>

definition storeKind :: "SecretStoreRef \<Rightarrow> string" where
  "storeKind ref = (if ssr_Kind ref = [] then AkeylessSecretStoreKind else ssr_Kind ref)"

definition EnsureStoreReady :: "Env \<Rightarrow> string \<Rightarrow> SecretStoreRef \<Rightarrow> err option io" where
  "EnsureStoreReady E namespace ref =
     (let kind = storeKind ref in
      if kind = AkeylessSecretStoreKind then do {
        r \<leftarrow> IsNamespacedStoreReady E namespace (ssr_Name ref);
        ret (case r of Inl e \<Rightarrow> Some e | Inr _ \<Rightarrow> None)
      } else if kind = ClusterAkeylessSecretStoreKind then do {
        r \<leftarrow> IsClusterStoreReady E (ssr_Name ref) namespace;
        ret (case r of Inl e \<Rightarrow> Some e | Inr _ \<Rightarrow> None)
      } else ret (Some (ErrMsg (''unsupported store kind '' @ go_quote kind))))"

definition ResolveStore :: "Env \<Rightarrow> string \<Rightarrow> SecretStoreRef \<Rightarrow> (err + GenericStore \<times> string) io" where
  "ResolveStore E namespace ref =
     (let kind = storeKind ref in
      if kind = AkeylessSecretStoreKind then do {
        r \<leftarrow> k_get_store E namespace (ssr_Name ref);
        case r of
          Inl e \<Rightarrow> ret (Inl (ErrWrap (''get AkeylessSecretStore '' @ go_quote (ssr_Name ref)) e))
        | Inr store \<Rightarrow> ret (Inr (SecretStoreFromNamespaced store, SecretStoreKind))
      } else if kind = ClusterAkeylessSecretStoreKind then do {
        r \<leftarrow> k_get_cstore E (ssr_Name ref);
        case r of
          Inl e \<Rightarrow> ret (Inl (ErrWrap (''get ClusterAkeylessSecretStore '' @ go_quote (ssr_Name ref)) e))
        | Inr store \<Rightarrow> ret (Inr (SecretStoreFromCluster store, ClusterSecretStoreKind))
      } else ret (Inl (ErrMsg (''unsupported store kind '' @ go_quote kind))))"

section \<open>Validating a store\<close>

definition reasonStoreValid :: string where "reasonStoreValid = ''Valid''"
definition reasonStoreInvalid :: string where "reasonStoreInvalid = ''Invalid''"
definition msgStoreValid :: string where "msgStoreValid = ''Akeyless store validated''"

definition store_condition :: "instant \<Rightarrow> err option \<Rightarrow> StoreCondition" where
  "store_condition t validateErr =
     (case validateErr of
        Some e \<Rightarrow> \<lparr>cond_Type = StoreConditionReady, cond_Status = ConditionFalse,
          cond_Reason = reasonStoreInvalid, cond_Message = err_string e, cond_LastTransitionTime = t\<rparr>
      | None \<Rightarrow> \<lparr>cond_Type = StoreConditionReady, cond_Status = ConditionTrue,
          cond_Reason = reasonStoreValid, cond_Message = msgStoreValid, cond_LastTransitionTime = t\<rparr>)"

definition setStoreCondition :: "instant \<Rightarrow> AkeylessSecretStore \<Rightarrow> err option \<Rightarrow> AkeylessSecretStore" where
  "setStoreCondition t store validateErr = store\<lparr>ast_Conditions := [store_condition t validateErr]\<rparr>"

definition clusterSetStoreCondition ::
  "instant \<Rightarrow> ClusterAkeylessSecretStore \<Rightarrow> err option \<Rightarrow> ClusterAkeylessSecretStore" where
  "clusterSetStoreCondition t store validateErr =
     store\<lparr>cst_Conditions := [store_condition t validateErr]\<rparr>"

text \<open>Validating through a client, which is closed when the function returns.\<close>

definition validate_client :: "SecretProvider \<Rightarrow> GenericStore \<Rightarrow> string \<Rightarrow> err option io" where
  "validate_client P generic namespace = do {
     r \<leftarrow> pr_NewClient P generic namespace;
     case r of
       Inl e \<Rightarrow> ret (Some (ErrWrap ''create client'' e))
     | Inr c \<Rightarrow> do {
         (result, verr) \<leftarrow> sc_Validate c;
         _ \<leftarrow> sc_Close c;
         ret (case verr of
                Some e \<Rightarrow> if result \<noteq> ValidationResultUnknown
                          then Some (ErrWrap ''validate connectivity'' e) else None
              | None \<Rightarrow> None)
       }
   }"

definition validateNamespacedStore ::
  "SecretProvider \<Rightarrow> AkeylessSecretStore \<Rightarrow> string \<Rightarrow> err option io" where
  "validateNamespacedStore P store namespace =
     (let generic = SecretStoreFromNamespaced store in
      case pr_ValidateStore P generic of
        Some e \<Rightarrow> ret (Some (ErrWrap ''invalid store spec'' e))
      | None \<Rightarrow> validate_client P generic namespace)"

text \<open>The first condition that names or matches a namespace decides.\<close>

fun validationNamespaceLoop ::
  "Env \<Rightarrow> ClusterStoreNamespaceCondition list \<Rightarrow> (err + string option) io" where
  "validationNamespaceLoop E [] = ret (Inr None)"
| "validationNamespaceLoop E (cond # conds) =
     (case nsc_Namespaces cond of
        name # _ \<Rightarrow> ret (Inr (Some name))
      | [] \<Rightarrow> (case nsc_NamespaceSelector cond of
          None \<Rightarrow> validationNamespaceLoop E conds
        | Some sel \<Rightarrow> do {
            r \<leftarrow> k_list_namespaces E;
            case r of
              Inl e \<Rightarrow> ret (Inl e)
            | Inr items \<Rightarrow> (case selectorOf E sel of
                Inl e \<Rightarrow> ret (Inl e)
              | Inr matches \<Rightarrow> (case find (\<lambda>ns. matches (ns_Labels ns)) items of
                  Some ns \<Rightarrow> ret (Inr (Some (ns_Name ns)))
                | None \<Rightarrow> validationNamespaceLoop E conds))
          }))"

definition validationNamespace :: "Env \<Rightarrow> ClusterAkeylessSecretStore \<Rightarrow> (err + string) io" where
  "validationNamespace E store = do {
     r \<leftarrow> validationNamespaceLoop E (cst_NamespaceConditions store);
     case r of
       Inl e \<Rightarrow> ret (Inl e)
     | Inr (Some name) \<Rightarrow> ret (Inr name)
     | Inr None \<Rightarrow> do {
         l \<leftarrow> k_list_namespaces E;
         case l of
           Inl e \<Rightarrow> ret (Inl e)
         | Inr [] \<Rightarrow> ret (Inl (ErrMsg ''no namespaces available for cluster store validation''))
         | Inr (ns # _) \<Rightarrow> ret (Inr (ns_Name ns))
       }
   }"

definition validateClusterStore ::
  "Env \<Rightarrow> SecretProvider \<Rightarrow> ClusterAkeylessSecretStore \<Rightarrow> err option io" where
  "validateClusterStore E P store =
     (let generic = SecretStoreFromCluster store in
      case pr_ValidateStore P generic of
        Some e \<Rightarrow> ret (Some (ErrWrap ''invalid store spec'' e))
      | None \<Rightarrow> do {
          r \<leftarrow> validationNamespace E store;
          case r of
            Inl e \<Rightarrow> ret (Some e)
          | Inr namespace \<Rightarrow> validate_client P generic namespace
        })"

text \<open>A patch of the status that fails is logged only.\<close>

definition StoreReconcile ::
  "Env \<Rightarrow> SecretProvider \<Rightarrow> duration \<Rightarrow> string \<Rightarrow> string \<Rightarrow> outcome io" where
  "StoreReconcile E P RequeueInterval ns name = do {
     r \<leftarrow> k_get_store E ns name;
     case r of
       Inl e \<Rightarrow> ret (no_requeue, ignore_not_found e)
     | Inr store \<Rightarrow> do {
         verr \<leftarrow> validateNamespacedStore P store ns;
         t \<leftarrow> now E;
         _ \<leftarrow> k_write E (CStatusPatch (OStore (setStoreCondition t store verr)));
         case verr of
           Some e \<Rightarrow> do {
             _ \<leftarrow> k_event ''Warning'' reasonStoreInvalid (err_string e);
             ret (requeue_after RequeueInterval, None)
           }
         | None \<Rightarrow> do {
             _ \<leftarrow> k_event ''Normal'' reasonStoreValid msgStoreValid;
             ret (requeue_after RequeueInterval, None)
           }
       }
   }"

definition ClusterStoreReconcile ::
  "Env \<Rightarrow> SecretProvider \<Rightarrow> duration \<Rightarrow> string \<Rightarrow> outcome io" where
  "ClusterStoreReconcile E P RequeueInterval name = do {
     r \<leftarrow> k_get_cstore E name;
     case r of
       Inl e \<Rightarrow> ret (no_requeue, ignore_not_found e)
     | Inr store \<Rightarrow> do {
         verr \<leftarrow> validateClusterStore E P store;
         t \<leftarrow> now E;
         _ \<leftarrow> k_write E (CStatusPatch (OCStore (clusterSetStoreCondition t store verr)));
         case verr of
           Some e \<Rightarrow> do {
             _ \<leftarrow> k_event ''Warning'' reasonStoreInvalid (err_string e);
             ret (requeue_after RequeueInterval, None)
           }
         | None \<Rightarrow> do {
             _ \<leftarrow> k_event ''Normal'' reasonStoreValid msgStoreValid;
             ret (requeue_after RequeueInterval, None)
           }
       }
   }"

end
