(* ===== verification/Secret_Controller.thy ===== *)
theory Secret_Controller
  imports Refresh Managed_Secret Rollout Store
begin

text \<open>
  \<open>pkg/controllers/akeylesssecret\<close>: the reconciler of AkeylessSecret.  \<open>Reconcile\<close> is written as
  the code has it and split at its early returns: \<open>reconcileLive\<close> is the part after the finalizer,
  \<open>syncSecret\<close> the part after the decision to fetch.  The provider is an argument, as the
  reconciler's field of interface type is.
\<close>

definition finalizer :: string where
  "finalizer = ''secrets.akeyless.io/finalizer''"

text \<open>\<open>controllerutil.AddFinalizer\<close>: appends the finalizer unless it is there.\<close>

definition with_finalizer :: "ObjectMeta \<Rightarrow> ObjectMeta" where
  "with_finalizer m = (if finalizer \<in> set (om_Finalizers m) then m
     else m\<lparr>om_Finalizers := om_Finalizers m @ [finalizer]\<rparr>)"

section \<open>Conditions\<close>

text \<open>Both reconcilers keep one condition per type: an existing one is overwritten in place.\<close>

fun set_condition ::
  "instant \<Rightarrow> string \<Rightarrow> string \<Rightarrow> string \<Rightarrow> string \<Rightarrow> SecretCondition list \<Rightarrow> SecretCondition list" where
  "set_condition t ty status reason message [] =
     [\<lparr>cond_Type = ty, cond_Status = status, cond_Reason = reason, cond_Message = message,
       cond_LastTransitionTime = t\<rparr>]"
| "set_condition t ty status reason message (c # cs) =
     (if cond_Type c = ty then
        c\<lparr>cond_Status := status, cond_Reason := reason, cond_Message := message,
          cond_LastTransitionTime := t\<rparr> # cs
      else c # set_condition t ty status reason message cs)"

definition setCondition ::
  "instant \<Rightarrow> AkeylessSecret \<Rightarrow> string \<Rightarrow> string \<Rightarrow> string \<Rightarrow> string \<Rightarrow> AkeylessSecret" where
  "setCondition t as ty status reason message = as\<lparr>as_Status := (as_Status as)\<lparr>
     ss_Conditions := set_condition t ty status reason message (ss_Conditions (as_Status as))\<rparr>\<rparr>"

definition markReady :: "Env \<Rightarrow> AkeylessSecret \<Rightarrow> AkeylessSecret io" where
  "markReady E as = do {
     t \<leftarrow> now E;
     ret (setCondition t as SecretConditionReady ConditionTrue ReasonSecretSynced ''secret synced'')
   }"

definition markFailed :: "Env \<Rightarrow> AkeylessSecret \<Rightarrow> err \<Rightarrow> AkeylessSecret io" where
  "markFailed E as e = do {
     t \<leftarrow> now E;
     _ \<leftarrow> k_event ''Warning'' ReasonSecretSyncedError (err_string e);
     ret (setCondition t as SecretConditionReady ConditionFalse ReasonSecretSyncedError (err_string e))
   }"

text \<open>The recurring pair: mark the resource failed, write its status, ignore a write error.\<close>

definition failStatus :: "Env \<Rightarrow> AkeylessSecret \<Rightarrow> err \<Rightarrow> unit io" where
  "failStatus E as e = do {
     as' \<leftarrow> markFailed E as e;
     _ \<leftarrow> k_write_as E CStatusUpdate as';
     ret ()
   }"

section \<open>Refresh decisions\<close>

definition refreshConfig :: "AkeylessSecret \<Rightarrow> RefreshConfig" where
  "refreshConfig as =
     \<lparr>rc_Policy = asp_SyncPolicy (as_Spec as),
      rc_SyncInterval = asp_SyncInterval (as_Spec as),
      rc_DefaultPoll = 0,
      rc_Generation = om_Generation (as_Meta as),
      rc_SyncedGen = ss_SyncedGeneration (as_Status as),
      rc_RefreshTime = ss_RefreshTime (as_Status as),
      rc_Annotations = om_Annotations (as_Meta as)\<rparr>"

definition shouldSync :: "instant \<Rightarrow> AkeylessSecret \<Rightarrow> bool" where
  "shouldSync t as = ShouldSync t (refreshConfig as)"

definition requeueAfter :: "instant \<Rightarrow> AkeylessSecret \<Rightarrow> duration" where
  "requeueAfter t as = RequeueAfter t (refreshConfig as)"

definition remoteVersionsChanged :: "int gomap \<Rightarrow> int gomap \<Rightarrow> bool" where
  "remoteVersionsChanged current observed = RemoteVersionsChanged current observed"

text \<open>Which update events reach the reconciler besides those that change the generation.\<close>

definition forceSyncChanged :: "ObjectMeta option \<Rightarrow> ObjectMeta option \<Rightarrow> bool" where
  "forceSyncChanged oldObj newObj = (case (oldObj, newObj) of
     (Some ob, Some n) \<Rightarrow>
       mget_str (om_Annotations ob) AnnotationForceSync \<noteq> mget_str (om_Annotations n) AnnotationForceSync
   | _ \<Rightarrow> True)"

section \<open>Looking at remote versions\<close>

fun observeVersions ::
  "(string \<Rightarrow> (err + int) io) \<Rightarrow> SecretMapping list \<Rightarrow> int gomap \<Rightarrow> (err + int gomap) io" where
  "observeVersions getVersion [] observed = ret (Inr observed)"
| "observeVersions getVersion (m # ms) observed = do {
     r \<leftarrow> getVersion (rr_Key (sm_RemoteRef m));
     case r of
       Inl e \<Rightarrow> ret (Inl (ErrWrap (''describe '' @ go_quote (rr_Key (sm_RemoteRef m))) e))
     | Inr version \<Rightarrow> observeVersions getVersion ms (mput (rr_Key (sm_RemoteRef m)) version observed)
   }"

definition checkRemoteVersions ::
  "Env \<Rightarrow> SecretProvider \<Rightarrow> AkeylessSecret \<Rightarrow> (err + bool \<times> int gomap) io" where
  "checkRemoteVersions E P as = do {
     r \<leftarrow> ResolveStore E (om_Namespace (as_Meta as)) (asp_StoreRef (as_Spec as));
     case r of
       Inl e \<Rightarrow> ret (Inl e)
     | Inr (store, _) \<Rightarrow> do {
         c \<leftarrow> pr_NewClient P store (om_Namespace (as_Meta as));
         case c of
           Inl e \<Rightarrow> ret (Inl e)
         | Inr client \<Rightarrow> do {
             res \<leftarrow> (case sc_GetRemoteItemVersion client of
                 None \<Rightarrow> ret (Inr (True, []))
               | Some getVersion \<Rightarrow> do {
                   ob \<leftarrow> observeVersions getVersion (asp_Data (as_Spec as)) [];
                   ret (case ob of
                     Inl e \<Rightarrow> Inl e
                   | Inr observed \<Rightarrow>
                       Inr (remoteVersionsChanged (ss_RemoteVersions (as_Status as)) observed, observed))
                 });
             _ \<leftarrow> sc_Close client;
             ret res
           }
       }
   }"

section \<open>Fetching\<close>

text \<open>
  The loop over \<open>spec.data\<close>: an error of \<open>GetSecret\<close> ends it, an error of
  \<open>GetRemoteItemVersion\<close> is logged only.  The error case carries the mapping's key.
\<close>

fun fetchSecretData ::
  "SecretsClient \<Rightarrow> SecretMapping list \<Rightarrow> bytes gomap \<Rightarrow> int gomap
   \<Rightarrow> (string \<times> err + bytes gomap \<times> int gomap) io" where
  "fetchSecretData client [] secretData remoteVersions = ret (Inr (secretData, remoteVersions))"
| "fetchSecretData client (m # ms) secretData remoteVersions = do {
     r \<leftarrow> sc_GetSecret client (adaptRemoteRef (sm_RemoteRef m));
     case r of
       Inl getErr \<Rightarrow> ret (Inl (rr_Key (sm_RemoteRef m), getErr))
     | Inr val \<Rightarrow> (case sc_GetRemoteItemVersion client of
         None \<Rightarrow> fetchSecretData client ms (mput (sm_SecretKey m) val secretData) remoteVersions
       | Some getVersion \<Rightarrow> do {
           v \<leftarrow> getVersion (rr_Key (sm_RemoteRef m));
           fetchSecretData client ms (mput (sm_SecretKey m) val secretData)
             (case v of
                Inl _ \<Rightarrow> remoteVersions
              | Inr version \<Rightarrow> mput (rr_Key (sm_RemoteRef m)) version remoteVersions)
         })
   }"

text \<open>What is done with the fetched data: apply it, restart workloads, record the success.\<close>

definition recordSynced :: "Env \<Rightarrow> AkeylessSecret \<Rightarrow> int gomap \<Rightarrow> outcome io" where
  "recordSynced E as remoteVersions = do {
     t \<leftarrow> now E;
     let status = (as_Status as)\<lparr>
           ss_RefreshTime := Some t,
           ss_SyncedGeneration := om_Generation (as_Meta as),
           ss_RemoteVersions := (if length remoteVersions > 0 then remoteVersions
                                 else ss_RemoteVersions (as_Status as))\<rparr>;
     as' \<leftarrow> markReady E (as\<lparr>as_Status := status\<rparr>);
     (werr, as'') \<leftarrow> k_write_as E CStatusUpdate as';
     case werr of
       Some e \<Rightarrow> ret (no_requeue, Some e)
     | None \<Rightarrow> do {
         _ \<leftarrow> k_event ''Normal'' ReasonSecretSynced ''secret synced'';
         t' \<leftarrow> now E;
         ret (requeue_after (requeueAfter t' as''), None)
       }
   }"

definition applyFetched ::
  "Env \<Rightarrow> AkeylessSecret \<Rightarrow> string \<Rightarrow> string \<Rightarrow> bytes gomap \<Rightarrow> int gomap \<Rightarrow> outcome io" where
  "applyFetched E as targetName oldHash secretData remoteVersions = do {
     aerr \<leftarrow> ApplyManagedSecret E (as_Meta as) (om_Namespace (as_Meta as)) targetName
               (asp_Target (as_Spec as)) secretData;
     case aerr of
       Some e \<Rightarrow> do { _ \<leftarrow> failStatus E as e; ret (no_requeue, Some e) }
     | None \<Rightarrow>
         (let newHash = data_hash E secretData;
              targets = asp_RolloutRestartTargets (as_Spec as) in
          if length targets > 0 \<and> oldHash \<noteq> newHash then do {
            rerr \<leftarrow> TriggerRolloutRestarts E (om_Namespace (as_Meta as)) targets;
            case rerr of
              Some e \<Rightarrow> do { _ \<leftarrow> failStatus E as e; ret (no_requeue, Some e) }
            | None \<Rightarrow> recordSynced E as remoteVersions
          } else recordSynced E as remoteVersions)
   }"

definition syncSecret ::
  "Env \<Rightarrow> SecretProvider \<Rightarrow> AkeylessSecret \<Rightarrow> string \<Rightarrow> string \<Rightarrow> outcome io" where
  "syncSecret E P as targetName oldHash = do {
     r \<leftarrow> ResolveStore E (om_Namespace (as_Meta as)) (asp_StoreRef (as_Spec as));
     case r of
       Inl e \<Rightarrow> do { _ \<leftarrow> failStatus E as e; ret (no_requeue, Some e) }
     | Inr (store, _) \<Rightarrow> do {
         c \<leftarrow> pr_NewClient P store (om_Namespace (as_Meta as));
         case c of
           Inl e \<Rightarrow> do { _ \<leftarrow> failStatus E as e; ret (no_requeue, Some e) }
         | Inr client \<Rightarrow> do {
             f \<leftarrow> fetchSecretData client (asp_Data (as_Spec as)) [] [];
             res \<leftarrow> (case f of
                 Inl (key, getErr) \<Rightarrow> do {
                   _ \<leftarrow> failStatus E as (ErrWrap (''fetch '' @ go_quote key) getErr);
                   ret (no_requeue, Some getErr)
                 }
               | Inr (secretData, remoteVersions) \<Rightarrow>
                   applyFetched E as targetName oldHash secretData remoteVersions);
             _ \<leftarrow> sc_Close client;
             ret res
           }
       }
   }"

section \<open>Reconcile\<close>

definition targetNameOf :: "AkeylessSecret \<Rightarrow> string" where
  "targetNameOf as = (if tgt_Name (asp_Target (as_Spec as)) = [] then om_Name (as_Meta as)
     else tgt_Name (asp_Target (as_Spec as)))"

definition policyOf :: "AkeylessSecret \<Rightarrow> string" where
  "policyOf as = (if asp_SyncPolicy (as_Spec as) = [] then SyncPolicyOnRemoteChange
     else asp_SyncPolicy (as_Spec as))"

definition mergeVersions :: "AkeylessSecret \<Rightarrow> int gomap \<Rightarrow> AkeylessSecret" where
  "mergeVersions as versions = as\<lparr>as_Status := (as_Status as)\<lparr>
     ss_RemoteVersions := mcopy (ss_RemoteVersions (as_Status as)) versions\<rparr>\<rparr>"

definition reconcileExisting ::
  "Env \<Rightarrow> SecretProvider \<Rightarrow> AkeylessSecret \<Rightarrow> K8sSecret option \<Rightarrow> outcome io" where
  "reconcileExisting E P as existing =
     (let oldHash = (case existing of None \<Rightarrow> []
                     | Some s \<Rightarrow> mget_str (om_Annotations (sec_Meta s)) AnnotationDataHash) in
      do {
        ready \<leftarrow> EnsureStoreReady E (om_Namespace (as_Meta as)) (asp_StoreRef (as_Spec as));
        case ready of
          Some e \<Rightarrow> do { _ \<leftarrow> failStatus E as e; ret (requeue_after minute, None) }
        | None \<Rightarrow> do {
            t \<leftarrow> now E;
            if \<not> shouldSync t as \<and> existing \<noteq> None \<and> IsManagedSecretValid E existing then
              (if policyOf as = SyncPolicyOnRemoteChange \<or> policyOf as = SyncPolicyOnWebhook then do {
                 chk \<leftarrow> checkRemoteVersions E P as;
                 case chk of
                   Inl e \<Rightarrow> do { _ \<leftarrow> failStatus E as e; ret (no_requeue, Some e) }
                 | Inr (changed, versions) \<Rightarrow>
                     if \<not> changed then do {
                       t' \<leftarrow> now E;
                       ret (requeue_after (requeueAfter t' as), None)
                     } else syncSecret E P (mergeVersions as versions) (targetNameOf as) oldHash
               } else do {
                 t' \<leftarrow> now E;
                 ret (requeue_after (requeueAfter t' as), None)
               })
            else syncSecret E P as (targetNameOf as) oldHash
          }
      })"

definition reconcileLive :: "Env \<Rightarrow> SecretProvider \<Rightarrow> AkeylessSecret \<Rightarrow> outcome io" where
  "reconcileLive E P as = do {
     g \<leftarrow> k_get_secret E (om_Namespace (as_Meta as)) (targetNameOf as);
     case g of
       Inl e \<Rightarrow> if \<not> is_not_found e then ret (no_requeue, Some e)
                else reconcileExisting E P as None
     | Inr existing \<Rightarrow> reconcileExisting E P as (Some existing)
   }"

definition Reconcile :: "Env \<Rightarrow> SecretProvider \<Rightarrow> string \<Rightarrow> string \<Rightarrow> outcome io" where
  "Reconcile E P ns name = do {
     r \<leftarrow> k_get_as E ns name;
     case r of
       Inl e \<Rightarrow> ret (no_requeue, ignore_not_found e)
     | Inr as \<Rightarrow>
         if om_DeletionTimestamp (as_Meta as) \<noteq> None then ret (no_requeue, None)
         else if with_finalizer (as_Meta as) = as_Meta as then reconcileLive E P as
         else do {
           (werr, as') \<leftarrow> k_write_as E CUpdate (as\<lparr>as_Meta := with_finalizer (as_Meta as)\<rparr>);
           case werr of
             Some e \<Rightarrow> ret (no_requeue, Some e)
           | None \<Rightarrow> reconcileLive E P as'
         }
   }"

end
