(* ===== verification/Reconcile_Laws.thy ===== *)
theory Reconcile_Laws
  imports Traces Secret_Controller
begin

text \<open>
  What the two reconcilers of synchronised resources have in common: which calls a run makes, in
  which order and with which outcome, for every provider that keeps the contract
  \<open>secrets_provider\<close> and every environment.  The locale \<open>reconciler\<close> takes the two reports a
  resource makes of itself, a failure and a success, and proves the shared program text correct;
  each reconciler is an interpretation of it.  Calls are listed the newest first.
\<close>

section \<open>Kinds of calls a reconciler makes\<close>

definition ready_true :: "SecretCondition list \<Rightarrow> bool" where
  "ready_true conds = (case find (\<lambda>c. cond_Type c = SecretConditionReady) conds of
     None \<Rightarrow> False
   | Some c \<Rightarrow> cond_Status c = ConditionTrue)"

fun ready_status :: "Call \<Rightarrow> bool" where
  "ready_status (CStatusUpdate (OAS a)) = ready_true (ss_Conditions (as_Status a))"
| "ready_status (CStatusUpdate (OADS d)) = ready_true (ss_Conditions (ads_Status d))"
| "ready_status _ = False"

fun restarts :: "Call \<Rightarrow> bool" where
  "restarts (CUpdate (OWorkload w)) = True"
| "restarts _ = False"

text \<open>Every call of kind \<open>q\<close> comes after one of kind \<open>p\<close>.\<close>

fun follows :: "(Call \<Rightarrow> bool) \<Rightarrow> (Call \<Rightarrow> bool) \<Rightarrow> history \<Rightarrow> bool" where
  "follows p q [] = True"
| "follows p q (c # cs) = ((q c \<longrightarrow> list_ex p cs) \<and> follows p q cs)"

lemma follows_append:
  "follows p q (ds @ cs) \<longleftrightarrow> follows p q cs \<and> (list_ex p cs \<or> follows p q ds)"
  by (induction ds) auto

lemma follows_none: "list_all (\<lambda>c. \<not> q c) cs \<Longrightarrow> follows p q cs"
  by (induction cs) auto

text \<open>The writes a reconciler may make: its finalizer, its status, the Secret, restarted workloads.\<close>

definition restarted :: "Workload \<Rightarrow> bool" where
  "restarted w \<longleftrightarrow> mget (wl_TemplateAnnotations w) AnnotationRestarted \<noteq> None"

fun reconcile_write :: "Call \<Rightarrow> bool" where
  "reconcile_write (CUpdate (OAS a)) = (finalizer \<in> set (om_Finalizers (as_Meta a)))"
| "reconcile_write (CUpdate (OADS d)) = (finalizer \<in> set (om_Finalizers (ads_Meta d)))"
| "reconcile_write (CStatusUpdate (OAS a)) = True"
| "reconcile_write (CStatusUpdate (OADS d)) = True"
| "reconcile_write (CCreate (OSecret s)) = True"
| "reconcile_write (CUpdate (OSecret s)) = True"
| "reconcile_write (CUpdate (OWorkload w)) = restarted w"
| "reconcile_write _ = False"

definition reconcile_call :: "Call \<Rightarrow> bool" where
  "reconcile_call c \<longleftrightarrow> quiet c \<or> reconcile_write c"

text \<open>A call of a failed attempt: nothing written but a status that is not ready.\<close>

definition fail_call :: "Call \<Rightarrow> bool" where
  "fail_call c \<longleftrightarrow> quiet c
     \<or> ((\<exists>a. c = CStatusUpdate (OAS a)) \<or> (\<exists>d. c = CStatusUpdate (OADS d))) \<and> \<not> ready_status c"

definition secret_count :: "history \<Rightarrow> nat" where
  "secret_count cs = length (filter is_secret_write cs)"

lemma secret_count_simps [simp]:
  "secret_count [] = 0"
  "secret_count (c # cs) = (if is_secret_write c then Suc (secret_count cs) else secret_count cs)"
  "secret_count (ds @ cs) = secret_count ds + secret_count cs"
  by (simp_all add: secret_count_def)

lemma secret_count_pos: "0 < secret_count cs \<longleftrightarrow> list_ex is_secret_write cs"
  by (induction cs) auto

lemma quiet_simps [simp]:
  "quiet (CGet k ns n)" "quiet (CList k)" "quiet (CEvent x y z)"
  "\<not> quiet (CCreate ob)" "\<not> quiet (CUpdate ob)" "\<not> quiet (CStatusUpdate ob)"
  "\<not> quiet (CPatch ob)" "\<not> quiet (CStatusPatch ob)"
  by (simp_all add: quiet_def)

lemma quiet_kinds:
  assumes "quiet c"
  shows "\<not> is_secret_write c" "\<not> restarts c" "\<not> ready_status c"
  using assms by (auto simp: quiet_def elim: is_secret_write.elims restarts.elims ready_status.elims)

lemma fail_kinds:
  assumes "fail_call c"
  shows "\<not> is_secret_write c" "\<not> restarts c" "\<not> ready_status c" "reconcile_call c"
  using assms by (auto simp: fail_call_def reconcile_call_def quiet_kinds)

lemma quiet_fail: "quiet c \<Longrightarrow> fail_call c"
  by (simp add: fail_call_def)

text \<open>What one run of a reconciler looks like.\<close>

definition orderly :: "history \<Rightarrow> bool" where
  "orderly cs \<longleftrightarrow> list_all reconcile_call cs \<and> secret_count cs \<le> 1
     \<and> follows is_secret_write restarts cs \<and> follows is_secret_write ready_status cs"

lemma fail_calls:
  assumes "list_all fail_call ds"
  shows "secret_count ds = 0" "list_all reconcile_call ds" "follows p restarts ds"
    "follows p ready_status ds" "\<not> list_ex is_secret_write ds"
  using assms by (induction ds) (auto simp: fail_kinds)

lemma orderly_fail: "list_all fail_call ds \<Longrightarrow> orderly cs \<Longrightarrow> orderly (ds @ cs)"
  by (simp add: orderly_def fail_calls follows_append)

lemma orderly_fail_only: "list_all fail_call cs \<Longrightarrow> orderly cs"
  using orderly_fail [of cs "[]"] by (simp add: orderly_def)

section \<open>Conditions\<close>

lemma set_condition_ready:
  "ready_true (set_condition t SecretConditionReady status reason msg conds) \<longleftrightarrow> status = ConditionTrue"
  by (induction t SecretConditionReady status reason msg conds rule: set_condition.induct)
    (auto simp: ready_true_def)

section \<open>The parts of a run\<close>

lemma performs_EnsureStoreReady_quiet: "performs quiet (EnsureStoreReady E ns ref)"
  unfolding EnsureStoreReady_def IsNamespacedStoreReady_def IsClusterStoreReady_def
    clusterStoreAllowed_def Let_def k_defs
  by (intro performs_intros) simp_all

lemma performs_ResolveStore_quiet: "performs quiet (ResolveStore E ns ref)"
  unfolding ResolveStore_def Let_def k_defs by (intro performs_intros) simp_all

text \<open>A successful application has written the Secret, and nothing else was written.\<close>

lemma traces_Apply:
  "traces (ApplyManagedSecret E owner ns name target data)
     (\<lambda>r cs. list_all reconcile_call cs \<and> secret_count cs \<le> 1 \<and> (r = None \<longrightarrow> list_ex is_secret_write cs)
        \<and> list_all (\<lambda>c. \<not> restarts c \<and> \<not> ready_status c) cs)"
  unfolding ApplyManagedSecret_def Let_def k_defs
  by (intro trace_intros) (auto simp: reconcile_call_def)

lemma performs_Rollout_restarts:
  "performs (\<lambda>c. quiet c \<or> restarts c \<and> reconcile_write c) (TriggerRolloutRestarts E ns targets)"
proof (induction E ns targets rule: TriggerRolloutRestarts.induct)
  case (2 E ns target targets)
  have "performs (\<lambda>c. quiet c \<or> restarts c \<and> reconcile_write c) (restartTarget E ns target)"
    unfolding restartTarget_def restartKind_def patchPodTemplateRestart_def Let_def k_defs
    by (intro performs_intros) (auto simp: restarted_def mget_mput)
  then show ?case using 2 by (auto intro!: performs_intros)
qed (auto intro: performs_intros)

text \<open>The report of a success: a status, ready when the report returns no error.\<close>

definition record_post :: "outcome \<Rightarrow> history \<Rightarrow> bool" where
  "record_post out cs \<longleftrightarrow>
     list_all (\<lambda>c. quiet c \<or> (\<exists>a. c = CStatusUpdate (OAS a)) \<or> (\<exists>d. c = CStatusUpdate (OADS d))) cs
     \<and> (snd out = None \<longrightarrow> 0 < cr_RequeueAfter (fst out) \<and> list_ex ready_status cs)"

lemma orderly_record:
  assumes "record_post out ds" and "orderly cs" and "list_ex is_secret_write cs"
  shows "orderly (ds @ cs)"
proof -
  have "list_all (\<lambda>c. quiet c \<or> (\<exists>a. c = CStatusUpdate (OAS a)) \<or> (\<exists>d. c = CStatusUpdate (OADS d))) ds"
    using assms(1) by (simp add: record_post_def)
  then have "secret_count ds = 0" "list_all reconcile_call ds"
    by (induction ds) (auto simp: quiet_kinds reconcile_call_def)
  then show ?thesis using assms(2,3) by (simp add: orderly_def follows_append)
qed

lemma orderly_restarted:
  assumes "list_all (\<lambda>c. quiet c \<or> restarts c \<and> reconcile_write c) ds"
    and "orderly cs" and "list_ex is_secret_write cs"
  shows "orderly (ds @ cs)"
proof -
  have "secret_count ds = 0" "list_all reconcile_call ds"
    using assms(1)
    by (induction ds) (auto simp: quiet_kinds reconcile_call_def elim: restarts.elims)
  then show ?thesis using assms(2,3) by (simp add: orderly_def follows_append)
qed

lemma orderly_applied:
  assumes "list_all reconcile_call cs" "secret_count cs \<le> 1"
    "list_all (\<lambda>c. \<not> restarts c \<and> \<not> ready_status c) cs"
  shows "orderly cs"
  using assms by (auto simp: orderly_def intro!: follows_none elim: list.pred_mono_strong)

text \<open>A run that returns no error and wrote the Secret also recorded the success.\<close>

definition synced_post :: "outcome \<Rightarrow> history \<Rightarrow> bool" where
  "synced_post out cs \<longleftrightarrow> orderly cs
     \<and> (snd out = None \<longrightarrow> 0 < cr_RequeueAfter (fst out)
         \<and> list_ex is_secret_write cs \<and> list_ex ready_status cs)"

lemma synced_prefix:
  assumes "list_all fail_call cs" "synced_post out us"
  shows "synced_post out (us @ cs)"
proof -
  have "orderly (us @ cs)"
    using assms by (auto simp: synced_post_def orderly_def fail_calls follows_append)
  then show ?thesis using assms by (auto simp: synced_post_def)
qed

lemma quiet_list_fail: "list_all quiet cs \<Longrightarrow> list_all fail_call cs"
  by (auto elim: list.pred_mono_strong simp: quiet_fail)

text \<open>What a whole run may end with, besides a synchronisation.\<close>

definition reconcile_post :: "outcome \<Rightarrow> history \<Rightarrow> bool" where
  "reconcile_post out cs \<longleftrightarrow> orderly cs
     \<and> (snd out = None \<longrightarrow> 0 < cr_RequeueAfter (fst out))
     \<and> (list_ex is_secret_write cs \<and> snd out = None \<longrightarrow> list_ex ready_status cs)"

lemma synced_reconcile: "synced_post out cs \<Longrightarrow> reconcile_post out cs"
  by (simp add: synced_post_def reconcile_post_def)

lemma reconcile_prefix:
  assumes "reconcile_post out ds" "list_all reconcile_call cs" "secret_count cs = 0"
    "list_all (\<lambda>c. \<not> restarts c \<and> \<not> ready_status c) cs"
  shows "reconcile_post out (ds @ cs)"
proof -
  have "\<not> list_ex is_secret_write cs" using assms(3) secret_count_pos [of cs] by simp
  moreover have "follows is_secret_write restarts cs" "follows is_secret_write ready_status cs"
    using assms(4) by (auto intro!: follows_none elim: list.pred_mono_strong)
  ultimately show ?thesis
    using assms(1-3) by (auto simp: reconcile_post_def orderly_def follows_append)
qed

lemma fail_prefix: "reconcile_post out ds \<Longrightarrow> list_all fail_call cs \<Longrightarrow> reconcile_post out (ds @ cs)"
  by (rule reconcile_prefix) (auto simp: fail_calls fail_kinds elim: list.pred_mono_strong)

lemma reconcile_failed:
  "list_all fail_call cs \<Longrightarrow> snd out = None \<longrightarrow> 0 < cr_RequeueAfter (fst out) \<Longrightarrow> reconcile_post out cs"
  by (auto simp: reconcile_post_def orderly_fail_only fail_calls)

section \<open>The shared program\<close>

context secrets_provider
begin

lemma traces_NewClient:
  "traces (pr_NewClient P store ns)
     (\<lambda>r cs. list_all quiet cs \<and> (\<forall>c. r = Inr c \<longrightarrow> quiet_client c))"
proof (rule tracesI)
  fix h
  obtain r h' where run: "run_state (pr_NewClient P store ns) h = (r, h')" by fastforce
  obtain cs where "h' = cs @ h" "list_all quiet cs" using performsE [OF NewClient_quiet run] .
  moreover have "r = Inr c \<Longrightarrow> quiet_client c" for c
    using client_quiet resultsI [OF run] by blast
  ultimately show "\<exists>r cs. run_state (pr_NewClient P store ns) h = (r, cs @ h)
      \<and> list_all quiet cs \<and> (\<forall>c. r = Inr c \<longrightarrow> quiet_client c)"
    using run by blast
qed

end

locale reconciler = secrets_provider P for P :: SecretProvider +
  fixes failS :: "err \<Rightarrow> unit io"
    and recordS :: "int gomap \<Rightarrow> outcome io"
  assumes failS_calls: "performs fail_call (failS e)"
    and recordS_calls: "traces (recordS versions) record_post"
begin

lemma fail_synced:
  assumes "orderly cs"
  shows "traces (do { _ \<leftarrow> failS e; ret (r, Some e') }) (\<lambda>out ds. synced_post out (ds @ cs))"
  by (rule traces_performs_bind [OF failS_calls], rule traces_ret)
    (use assms in \<open>auto simp: synced_post_def orderly_fail\<close>)

lemma record_synced:
  assumes "orderly cs" "list_ex is_secret_write cs"
  shows "traces (recordS v) (\<lambda>out ds. synced_post out (ds @ cs))"
proof (rule traces_mono [OF recordS_calls], goal_cases)
  case (1 out ds)
  then show ?case using orderly_record [OF 1 assms] assms
    by (simp add: synced_post_def record_post_def)
qed

text \<open>Applying fetched data, restarting workloads, reporting.\<close>

lemma traces_apply:
  "traces (do {
     aerr \<leftarrow> ApplyManagedSecret E owner ns name target data;
     case aerr of
       Some e \<Rightarrow> do { _ \<leftarrow> failS e; ret (no_requeue, Some e) }
     | None \<Rightarrow>
         if restart then do {
           rerr \<leftarrow> TriggerRolloutRestarts E ns targets;
           case rerr of
             Some e \<Rightarrow> do { _ \<leftarrow> failS e; ret (no_requeue, Some e) }
           | None \<Rightarrow> recordS v
         } else recordS v }) synced_post"
proof (rule traces_bind, rule traces_mono [OF traces_Apply], goal_cases)
  case (1 aerr cs)
  then have o: "orderly cs" by (intro orderly_applied) auto
  show ?case
  proof (cases aerr)
    case (Some e)
    then show ?thesis using fail_synced [OF o] by simp
  next
    case None
    then have w: "list_ex is_secret_write cs" using 1 by simp
    have roll: "traces (case rerr of Some e \<Rightarrow> do { _ \<leftarrow> failS e; ret (no_requeue, Some e) }
         | None \<Rightarrow> recordS v) (\<lambda>out ds. synced_post out ((ds @ es) @ cs))"
      if "list_all (\<lambda>c. quiet c \<or> restarts c \<and> reconcile_write c) es" for rerr es
      using fail_synced [OF orderly_restarted [OF that o w]] record_synced [OF orderly_restarted [OF that o w]] w
      by (cases rerr) simp_all
    show ?thesis
      using None record_synced [OF o w]
      by (auto intro!: traces_if traces_performs_bind [OF performs_Rollout_restarts] roll)
  qed
qed

text \<open>Resolving the store, making a client, fetching, and closing the client.\<close>

lemma traces_sync:
  assumes fetch: "\<And>client. quiet_client client \<Longrightarrow> performs quiet (fetch client)"
    and use: "\<And>f. traces (use_fetched f) synced_post"
  shows "traces (do {
     r \<leftarrow> ResolveStore E ns ref;
     case r of
       Inl e \<Rightarrow> do { _ \<leftarrow> failS e; ret (no_requeue, Some e) }
     | Inr (store, _) \<Rightarrow> do {
         c \<leftarrow> pr_NewClient P store ns';
         case c of
           Inl e \<Rightarrow> do { _ \<leftarrow> failS e; ret (no_requeue, Some e) }
         | Inr client \<Rightarrow> do {
             f \<leftarrow> fetch client;
             res \<leftarrow> use_fetched f;
             _ \<leftarrow> sc_Close client;
             ret res
           }
       }
   }) synced_post"
proof (rule traces_performs_bind [OF performs_ResolveStore_quiet], goal_cases)
  case (1 r cs)
  then have c: "list_all fail_call cs" by (rule quiet_list_fail)
  show ?case
  proof (cases r)
    case (Inl e)
    then show ?thesis using fail_synced [OF orderly_fail_only [OF c]] by simp
  next
    case (Inr sk)
    obtain store k where sk: "sk = (store, k)" by fastforce
    show ?thesis
      unfolding Inr sk sum.case prod.case
    proof (rule traces_bind, rule traces_mono [OF traces_NewClient], goal_cases)
      case (1 cl ds)
      then have dc: "list_all fail_call (ds @ cs)" using c by (simp add: quiet_list_fail)
      show ?case
      proof (cases cl)
        case (Inl e)
        then show ?thesis using fail_synced [OF orderly_fail_only [OF dc]] by simp
      next
        case (Inr client)
        then have q: "quiet_client client" using 1 by simp
        have close: "traces (do { _ \<leftarrow> sc_Close client; ret out }) (\<lambda>out vs. synced_post out (vs @ us))"
          if "synced_post out us" for out us
          by (rule traces_performs_bind [where P = quiet], use q in \<open>simp add: quiet_client_def\<close>,
              rule traces_ret)
            (use that in \<open>auto simp: synced_post_def orderly_fail quiet_list_fail\<close>)
        show ?thesis
          unfolding Inr sum.case
        proof (rule traces_performs_bind [OF fetch [OF q]], goal_cases)
          case (1 f es)
          then have "list_all fail_call (es @ ds @ cs)" using dc by (simp add: quiet_list_fail)
          note closed = close [OF synced_prefix [OF this]]
          show ?case
            by (rule traces_bind, rule traces_mono [OF use]) (use closed in \<open>simp only: append_assoc\<close>)
        qed
      qed
    qed
  qed
qed

text \<open>Looking at remote versions.\<close>

lemma traces_check:
  assumes "\<And>client. quiet_client client \<Longrightarrow> performs quiet (look client)"
  shows "traces (do {
     r \<leftarrow> ResolveStore E ns ref;
     case r of
       Inl e \<Rightarrow> ret (Inl e)
     | Inr (store, _) \<Rightarrow> do {
         c \<leftarrow> pr_NewClient P store ns';
         case c of
           Inl e \<Rightarrow> ret (Inl e)
         | Inr client \<Rightarrow> do { res \<leftarrow> look client; _ \<leftarrow> sc_Close client; ret res }
       }
   }) (\<lambda>_ cs. list_all quiet cs)"
proof (rule traces_performs_bind [OF performs_ResolveStore_quiet], goal_cases)
  case (1 r cs)
  then show ?case
  proof (intro traces_case_sum traces_case_prod traces_ret traces_bind, goal_cases)
    case (2 _ store _)
    show ?case
    proof (rule traces_mono [OF traces_NewClient], goal_cases)
      case (1 c ds)
      show ?case
      proof (cases c)
        case (Inl e)
        then show ?thesis using 1 2 by (auto intro: traces_ret)
      next
        case (Inr client)
        then have "quiet_client client" using 1 by simp
        then have p: "performs quiet (do { res \<leftarrow> look client; _ \<leftarrow> sc_Close client; ret res })"
          using assms by (auto intro!: performs_intros simp: quiet_client_def)
        show ?thesis using Inr 1 2
          by (auto intro!: traces_mono [OF performs_traces [OF p]])
      qed
    qed
  qed simp
qed

text \<open>Deciding whether to synchronise.\<close>

lemma traces_existing:
  assumes check: "traces check (\<lambda>_ cs. list_all quiet cs)"
    and sync: "\<And>versions. traces (syncV versions) synced_post" "traces sync synced_post"
    and delay: "\<And>t. 0 < delay t"
  shows "traces (do {
     ready \<leftarrow> EnsureStoreReady E ns ref;
     case ready of
       Some e \<Rightarrow> do { _ \<leftarrow> failS e; ret (requeue_after minute, None) }
     | None \<Rightarrow> do {
         t \<leftarrow> now E;
         if current t then
           (if looks then do {
              chk \<leftarrow> check;
              case chk of
                Inl e \<Rightarrow> do { _ \<leftarrow> failS e; ret (no_requeue, Some e) }
              | Inr (changed, versions) \<Rightarrow>
                  if \<not> changed then do { t' \<leftarrow> now E; ret (requeue_after (delay t'), None) }
                  else syncV versions
            } else do { t' \<leftarrow> now E; ret (requeue_after (delay t'), None) })
         else sync
       } }) reconcile_post"
proof -
  have syncs: "traces m (\<lambda>out ds. reconcile_post out (ds @ cs))"
    if "traces m synced_post" "list_all fail_call cs" for m cs
    by (rule traces_mono [OF that(1)]) (simp add: that(2) fail_prefix synced_reconcile)
  have fail: "traces (do { _ \<leftarrow> failS e; ret out }) (\<lambda>out ds. reconcile_post out (ds @ cs))"
    if "list_all fail_call cs" "snd out = None \<longrightarrow> 0 < cr_RequeueAfter (fst out)" for e out cs
    by (rule traces_performs_bind [OF failS_calls], rule traces_ret)
      (use that in \<open>auto intro!: reconcile_failed\<close>)
  have wait: "traces (do { t' \<leftarrow> now E; ret (requeue_after (delay t'), None) })
      (\<lambda>out ds. reconcile_post out (ds @ cs))" if "list_all fail_call cs" for cs
    by (intro trace_intros)
      (use that in \<open>auto intro!: reconcile_failed simp: delay requeue_after_def\<close>)
  show ?thesis
  proof (rule traces_performs_bind [OF performs_EnsureStoreReady_quiet], goal_cases)
    case (1 ready cs)
    then have c: "list_all fail_call cs" by (rule quiet_list_fail)
    show ?case
    proof (cases ready)
      case (Some e)
      then show ?thesis using fail [OF c, of "(requeue_after minute, None)" e]
        by (simp add: requeue_after_def)
    next
      case None
      have looked: "traces (do {
             chk \<leftarrow> check;
             case chk of
               Inl e \<Rightarrow> do { _ \<leftarrow> failS e; ret (no_requeue, Some e) }
             | Inr (changed, versions) \<Rightarrow>
                 if \<not> changed then do { t' \<leftarrow> now E; ret (requeue_after (delay t'), None) }
                 else syncV versions }) (\<lambda>out ds. reconcile_post out (ds @ cs))"
      proof (rule traces_bind, rule traces_mono [OF check], goal_cases)
        case (1 chk ds)
        then have dc: "list_all fail_call (ds @ cs)" using c by (simp add: quiet_list_fail)
        show ?case
          using fail [OF dc, of "(no_requeue, Some e)" e for e] wait [OF dc] syncs [OF sync(1) dc]
          by (auto split: sum.splits)
      qed
      show ?thesis
        unfolding None option.case
        by (rule traces_bind, rule traces_now)
          (use looked wait [OF c] syncs [OF sync(2) c] in \<open>auto intro!: traces_if\<close>)
    qed
  qed
qed

end

lemma with_finalizer_in: "finalizer \<in> set (om_Finalizers (with_finalizer m))"
  by (simp add: with_finalizer_def)

text \<open>Looking for the Secret before anything is decided.\<close>

lemma traces_live:
  assumes "\<And>existing. traces (go existing) reconcile_post"
  shows "traces (do {
     g \<leftarrow> k_get_secret E ns name;
     case g of
       Inl e \<Rightarrow> if \<not> is_not_found e then ret (no_requeue, Some e) else go None
     | Inr existing \<Rightarrow> go (Some existing) }) reconcile_post"
  unfolding k_get_secret_def
proof (rule traces_bind, rule traces_ask, goal_cases)
  case (1 g)
  have q: "list_all fail_call [CGet ''Secret'' ns name]" by (simp add: quiet_fail)
  show ?case
    by (intro traces_case_sum traces_if traces_ret traces_mono [OF assms])
      (use q in \<open>auto intro: fail_prefix reconcile_failed\<close>)
qed

text \<open>Adding the finalizer to a resource that is not being deleted.\<close>

lemma traces_started:
  assumes live: "\<And>a. traces (live a) reconcile_post"
    and upd: "reconcile_call upd \<and> \<not> is_secret_write upd \<and> \<not> restarts upd \<and> \<not> ready_status upd"
  shows "traces (if fin then live a
      else do {
        (werr, a') \<leftarrow> ask upd g;
        case werr of Some e \<Rightarrow> ret (no_requeue, Some e) | None \<Rightarrow> live a' }) reconcile_post"
proof -
  have live': "traces (live a') (\<lambda>out ds. reconcile_post out (ds @ [upd]))" for a'
    by (rule traces_mono [OF live]) (use upd in \<open>auto intro: reconcile_prefix\<close>)
  have "reconcile_post (no_requeue, Some e) [upd]" for e
    using upd by (simp add: reconcile_post_def orderly_def)
  with live' show ?thesis
    by (intro traces_if live traces_bind traces_ask traces_case_prod traces_case_option traces_ret) simp_all
qed

text \<open>
  Reading the resource first.  A run in which only the resource was read may end without an error and
  without a requeue: the resource is gone or being deleted.
\<close>

lemma traces_finalized:
  assumes live: "\<And>a. traces (live a) reconcile_post"
    and upd: "\<And>a. reconcile_call (upd a) \<and> \<not> is_secret_write (upd a) \<and> \<not> restarts (upd a)
                \<and> \<not> ready_status (upd a)"
  shows "traces (do {
     r \<leftarrow> ask (CGet kind ns name) f;
     case r of
       Inl e \<Rightarrow> ret (no_requeue, ignore_not_found e)
     | Inr a \<Rightarrow>
         if deleted a then ret (no_requeue, None)
         else if has_finalizer a then live a
         else do {
           (werr, a') \<leftarrow> ask (upd a) (g a);
           case werr of Some e \<Rightarrow> ret (no_requeue, Some e) | None \<Rightarrow> live a' } })
    (\<lambda>out cs. reconcile_post out cs \<or> cs = [CGet kind ns name])"
proof -
  have "reconcile_post out (cs @ [CGet kind ns name])" if "reconcile_post out cs" for out cs
    by (rule reconcile_prefix [OF that]) (simp_all add: reconcile_call_def)
  then show ?thesis
    by (intro traces_bind traces_ask traces_case_sum traces_if [where b = "deleted a" for a] traces_ret
        traces_mono [OF traces_started [OF live upd]]) auto
qed

end
