(* ===== verification/Step_Logic.thy ===== *)
theory Step_Logic
  imports Traces
begin

text \<open>
  A logic for calls that depend on the answers to earlier ones.  \<open>steps R h m\<close> says that the program
  \<open>m\<close>, started after the calls \<open>h\<close>, makes only calls \<open>c\<close> with \<open>R g c\<close>, where \<open>g\<close> is everything that was
  called before \<open>c\<close>.  As an answer is a function of the calls made so far, \<open>R\<close> can speak of the very
  object that was read, not only of its kind.
\<close>

named_theorems steps_intros "rules that bound each call by the calls before it"

fun each :: "(history \<Rightarrow> Call \<Rightarrow> bool) \<Rightarrow> history \<Rightarrow> history \<Rightarrow> bool" where
  "each R h [] = True"
| "each R h (c # cs) = (R (cs @ h) c \<and> each R h cs)"

lemma each_append: "each R h (ds @ cs) \<longleftrightarrow> each R h cs \<and> each R (cs @ h) ds"
  by (induction ds) auto

lemma each_all: "list_all P cs \<Longrightarrow> (\<And>g c. P c \<Longrightarrow> R g c) \<Longrightarrow> each R h cs"
  by (induction cs) auto

lemma each_mono: "each R h cs \<Longrightarrow> (\<And>g c. R g c \<Longrightarrow> R' g c) \<Longrightarrow> each R' h cs"
  by (induction cs) auto

definition steps :: "(history \<Rightarrow> Call \<Rightarrow> bool) \<Rightarrow> history \<Rightarrow> 'a io \<Rightarrow> bool" where
  "steps R h m \<longleftrightarrow> (\<exists>a cs. run_state m h = (a, cs @ h) \<and> each R h cs)"

text \<open>\<open>runs_on R h h'\<close>: from \<open>h\<close> on, every call up to \<open>h'\<close> satisfied \<open>R\<close>.\<close>

definition runs_on :: "(history \<Rightarrow> Call \<Rightarrow> bool) \<Rightarrow> history \<Rightarrow> history \<Rightarrow> bool" where
  "runs_on R h h' \<longleftrightarrow> (\<exists>cs. h' = cs @ h \<and> each R h cs)"

lemma steps_runs_on: "steps R h m \<Longrightarrow> run_state m h = (a, h') \<Longrightarrow> runs_on R h h'"
  unfolding steps_def runs_on_def by auto

lemma stepsE:
  assumes "steps R h m" and "run_state m h = (a, h')"
  obtains cs where "h' = cs @ h" and "each R h cs"
  using assms unfolding steps_def by auto

lemma steps_mono: "steps R h m \<Longrightarrow> (\<And>g c. R g c \<Longrightarrow> R' g c) \<Longrightarrow> steps R' h m"
  unfolding steps_def by (blast intro: each_mono)

lemma performs_steps: "performs P m \<Longrightarrow> (\<And>g c. P c \<Longrightarrow> R g c) \<Longrightarrow> steps R h m"
  unfolding steps_def performs_def by (metis each_all prod.collapse)

lemma steps_performs: "(\<And>h. steps R h m) \<Longrightarrow> (\<And>g c. R g c \<Longrightarrow> P c) \<Longrightarrow> performs P m"
proof (rule performsI)
  fix h
  assume s: "\<And>h. steps R h m" and p: "\<And>g c. R g c \<Longrightarrow> P c"
  obtain a cs where r: "run_state m h = (a, cs @ h)" "each R h cs" using s unfolding steps_def by blast
  have "list_all P cs" using r(2) p by (induction cs) auto
  with r show "\<exists>cs. snd (run_state m h) = cs @ h \<and> list_all P cs" by auto
qed

text \<open>A run bounded in both logics.\<close>

lemma traces_steps:
  assumes "traces m Q" and "steps R h m" and "run_state m h = (a, h')"
  obtains cs where "h' = cs @ h" and "Q a cs" and "each R h cs"
proof -
  obtain cs where cs: "h' = cs @ h" "Q a cs" using tracesE [OF assms(1,3)] .
  obtain ds where ds: "h' = ds @ h" "each R h ds" using stepsE [OF assms(2,3)] .
  have "cs = ds" using cs(1) ds(1) by simp
  with cs ds that show thesis by blast
qed

lemma steps_ret [steps_intros]: "steps R h (ret x)"
  by (simp add: steps_def)

lemma steps_now [steps_intros]: "steps R h (now E)"
  by (simp add: steps_def)

lemma steps_ask [steps_intros]: "R h c \<Longrightarrow> steps R h (ask c f)"
  by (simp add: steps_def)

lemma steps_run_bind:
  assumes "run_state m h = (a, cs @ h)" and "each R h cs" and "steps R (cs @ h) (f a)"
  shows "steps R h (State_Monad.bind m f)"
proof -
  obtain b ds where "run_state (f a) (cs @ h) = (b, ds @ cs @ h)" "each R (cs @ h) ds"
    using assms(3) unfolding steps_def by blast
  then show ?thesis
    using assms(1,2) unfolding steps_def
    by (intro exI [of _ b] exI [of _ "ds @ cs"]) (simp add: each_append)
qed

text \<open>The continuation of a call may use what was answered to it.\<close>

lemma steps_ask_bind:
  "R h c \<Longrightarrow> steps R (c # h) (k (f (c # h))) \<Longrightarrow> steps R h (State_Monad.bind (ask c f) k)"
  by (rule steps_run_bind [where cs = "[c]"]) simp_all

lemma steps_bind [steps_intros]:
  assumes "steps R h m" and "\<And>a g. steps R g (f a)"
  shows "steps R h (State_Monad.bind m f)"
proof -
  obtain a cs where "run_state m h = (a, cs @ h)" "each R h cs" using assms(1) unfolding steps_def by blast
  then show ?thesis by (rule steps_run_bind) (rule assms(2))
qed

lemma steps_bind_results:
  assumes "steps R h m" and "\<And>a g. a \<in> results m \<Longrightarrow> steps R g (f a)"
  shows "steps R h (State_Monad.bind m f)"
proof -
  obtain a cs where r: "run_state m h = (a, cs @ h)" "each R h cs" using assms(1) unfolding steps_def by blast
  have "steps R (cs @ h) (f a)" by (rule assms(2)) (rule resultsI [OF r(1)])
  with r show ?thesis by (rule steps_run_bind)
qed

lemma steps_if [steps_intros]:
  "(b \<Longrightarrow> steps R h m) \<Longrightarrow> (\<not> b \<Longrightarrow> steps R h n) \<Longrightarrow> steps R h (if b then m else n)"
  by simp

lemma steps_case_sum [steps_intros]:
  "(\<And>a. x = Inl a \<Longrightarrow> steps R h (f a)) \<Longrightarrow> (\<And>b. x = Inr b \<Longrightarrow> steps R h (g b)) \<Longrightarrow>
   steps R h (case x of Inl a \<Rightarrow> f a | Inr b \<Rightarrow> g b)"
  by (cases x) simp_all

lemma steps_case_option [steps_intros]:
  "(x = None \<Longrightarrow> steps R h m) \<Longrightarrow> (\<And>a. x = Some a \<Longrightarrow> steps R h (f a)) \<Longrightarrow>
   steps R h (case x of None \<Rightarrow> m | Some a \<Rightarrow> f a)"
  by (cases x) simp_all

lemma steps_case_prod [steps_intros]:
  "(\<And>a b. x = (a, b) \<Longrightarrow> steps R h (f a b)) \<Longrightarrow> steps R h (case x of (a, b) \<Rightarrow> f a b)"
  by (cases x) simp

lemma steps_Let [steps_intros]: "steps R h (f x) \<Longrightarrow> steps R h (let y = x in f y)"
  by simp

end
