(* ===== verification/Write_Laws.thy ===== *)
theory Write_Laws
  imports Reconcile_Laws Step_Logic
begin

text \<open>
  Which objects the reconcilers of synchronised resources write, and to what: the Secret by the name
  and namespace the resource gives, as it was read immediately before, the workloads of its restart
  targets, as they were read immediately before, and nothing of the resource itself but its status.
\<close>

section \<open>The Secret\<close>

definition secret_name :: "Target \<Rightarrow> ObjectMeta \<Rightarrow> string" where
  "secret_name target meta = (if tgt_Name target = [] then om_Name meta else tgt_Name target)"

text \<open>
  An update keeps everything of the Secret that was read but the data, one label and one annotation.
  \<open>D\<close> is what is required of the data.
\<close>

definition updated_from :: "Env \<Rightarrow> (bytes gomap \<Rightarrow> bool) \<Rightarrow> K8sSecret \<Rightarrow> Call \<Rightarrow> bool" where
  "updated_from E D s c \<longleftrightarrow> (\<exists>d. D d \<and> c = CUpdate (OSecret (s\<lparr>sec_Data := d, sec_Meta := (sec_Meta s)\<lparr>
     om_Annotations := mput AnnotationDataHash (data_hash E d) (om_Annotations (sec_Meta s)),
     om_Labels := mput LabelManaged LabelManagedValue (om_Labels (sec_Meta s))\<rparr>\<rparr>)))"

text \<open>
  A Secret is created with the target's name in the resource's namespace, and, unless the creation policy
  says otherwise, as \<open>SetControllerReference\<close> makes it for the resource.
\<close>

definition created_for :: "Env \<Rightarrow> ObjectMeta \<Rightarrow> Target \<Rightarrow> (bytes gomap \<Rightarrow> bool) \<Rightarrow> Call \<Rightarrow> bool" where
  "created_for E meta target D c \<longleftrightarrow> (\<exists>s s'. c = CCreate (OSecret s')
     \<and> om_Name (sec_Meta s) = secret_name target meta \<and> om_Namespace (sec_Meta s) = om_Namespace meta
     \<and> om_Finalizers (sec_Meta s) = [] \<and> D (sec_Data s)
     \<and> (if tgt_CreationPolicy target = CreationPolicyOwner \<or> tgt_CreationPolicy target = []
        then setControllerReference E meta s = Inr s' else s' = s))"

text \<open>The Secret is written right after it was read: created if it was not found, updated if it was.\<close>

definition secret_step ::
  "Env \<Rightarrow> ObjectMeta \<Rightarrow> Target \<Rightarrow> (bytes gomap \<Rightarrow> bool) \<Rightarrow> history \<Rightarrow> Call \<Rightarrow> bool" where
  "secret_step E meta target D g c \<longleftrightarrow>
     (\<exists>g'. g = CGet ''Secret'' (om_Namespace meta) (secret_name target meta) # g')
     \<and> (case getSecretObj E g (om_Namespace meta) (secret_name target meta) of
          Inl e \<Rightarrow> is_not_found e \<and> created_for E meta target D c
        | Inr s \<Rightarrow> updated_from E D s c)"

section \<open>Workloads\<close>

definition target_kind :: "RolloutRestartTarget \<Rightarrow> string" where
  "target_kind t = (if rrt_Kind t = [] then ''Deployment'' else rrt_Kind t)"

text \<open>A workload is written right after it was read, with one annotation of its pod template changed.\<close>

definition restart_step :: "Env \<Rightarrow> string \<Rightarrow> RolloutRestartTarget list \<Rightarrow> history \<Rightarrow> Call \<Rightarrow> bool" where
  "restart_step E ns targets g c \<longleftrightarrow> (\<exists>t g' w stamp. t \<in> set targets
     \<and> target_kind t \<in> {''Deployment'', ''StatefulSet'', ''DaemonSet''}
     \<and> g = CGet (target_kind t) ns (rrt_Name t) # g'
     \<and> getWorkload E g (target_kind t) ns (rrt_Name t) = Inr w
     \<and> c = CUpdate (OWorkload (w\<lparr>wl_TemplateAnnotations :=
              mput AnnotationRestarted stamp (wl_TemplateAnnotations w)\<rparr>)))"

section \<open>A whole run\<close>

text \<open>
  A step of a reconciler that holds a resource with metadata \<open>meta\<close>, the given target and restart
  targets; \<open>own\<close> are the status updates of that resource.
\<close>

definition resource_step :: "Env \<Rightarrow> ObjectMeta \<Rightarrow> Target \<Rightarrow> (bytes gomap \<Rightarrow> bool)
    \<Rightarrow> RolloutRestartTarget list \<Rightarrow> (Call \<Rightarrow> bool) \<Rightarrow> history \<Rightarrow> Call \<Rightarrow> bool" where
  "resource_step E meta target D targets own g c \<longleftrightarrow> quiet c \<or> own c
     \<or> secret_step E meta target D g c \<or> restart_step E (om_Namespace meta) targets g c"

lemma resource_quiet: "quiet c \<Longrightarrow> resource_step E meta target D targets own g c"
  and resource_own: "own c \<Longrightarrow> resource_step E meta target D targets own g c"
  by (simp_all add: resource_step_def)

lemma steps_ApplyManagedSecret:
  assumes "D data" and "name = secret_name target meta"
  shows "steps (\<lambda>g c. quiet c \<or> secret_step E meta target D g c) h
    (ApplyManagedSecret E meta (om_Namespace meta) name target data)"
proof -
  let ?get = "CGet ''Secret'' (om_Namespace meta) name"
  let ?s = "desiredSecret E (om_Namespace meta) name target data"
  have new: "om_Name (sec_Meta ?s) = secret_name target meta" "om_Namespace (sec_Meta ?s) = om_Namespace meta"
    "om_Finalizers (sec_Meta ?s) = []" "D (sec_Data ?s)"
    using assms by (simp_all add: desiredSecret_def empty_meta_def)
  have created: "secret_step E meta target D (?get # h) (CCreate (OSecret s'))"
    if "getSecretObj E (?get # h) (om_Namespace meta) name = Inl e" "is_not_found e"
      "(if tgt_CreationPolicy target = CreationPolicyOwner \<or> tgt_CreationPolicy target = []
        then setControllerReference E meta ?s = Inr s' else s' = ?s)" for e s'
    using that new assms(2) unfolding secret_step_def created_for_def by auto
  have updated: "secret_step E meta target D (?get # h) (CUpdate (OSecret (refreshedSecret E s data)))"
    if "getSecretObj E (?get # h) (om_Namespace meta) name = Inr s" for s
    using that assms unfolding secret_step_def updated_from_def refreshedSecret_def by auto
  show ?thesis
    unfolding ApplyManagedSecret_def Let_def k_get_secret_def k_write_def
    by (rule steps_ask_bind, simp, intro steps_intros disjI2; (rule created updated)?; simp)
qed

lemma steps_restartTarget:
  assumes "t \<in> set targets"
  shows "steps (\<lambda>g c. quiet c \<or> restart_step E ns targets g c) h (restartTarget E ns t)"
proof -
  have kind: "steps (\<lambda>g c. quiet c \<or> restart_step E ns targets g c) g (restartKind E k ns (rrt_Name t) stamp)"
    if "k = target_kind t" "k \<in> {''Deployment'', ''StatefulSet'', ''DaemonSet''}" for k stamp g
  proof -
    let ?get = "CGet k ns (rrt_Name t)"
    have "restart_step E ns targets (?get # g) (CUpdate (OWorkload (w\<lparr>wl_TemplateAnnotations :=
        mput AnnotationRestarted stamp (wl_TemplateAnnotations w)\<rparr>)))"
      if "getWorkload E (?get # g) k ns (rrt_Name t) = Inr w" for w
      using assms that \<open>k = target_kind t\<close> \<open>k \<in> _\<close> unfolding restart_step_def by blast
    then show ?thesis
      unfolding restartKind_def patchPodTemplateRestart_def Let_def k_get_workload_def k_write_def
      by (intro steps_ask_bind) (auto intro!: steps_intros)
  qed
  show ?thesis
    unfolding restartTarget_def Let_def
    by (intro steps_intros kind) (auto simp: target_kind_def)
qed

lemma steps_Rollout:
  "set ts \<subseteq> set targets \<Longrightarrow>
   steps (\<lambda>g c. quiet c \<or> restart_step E ns targets g c) h (TriggerRolloutRestarts E ns ts)"
proof (induction ts arbitrary: h)
  case (Cons t ts)
  then show ?case by (auto intro!: steps_intros steps_restartTarget)
qed (simp add: steps_ret)

text \<open>A client of a provider that keeps the contract is used, and closed, without a write.\<close>

context secrets_provider
begin

lemma steps_client_then:
  assumes "\<And>g c. quiet c \<Longrightarrow> R g c" and "\<And>e g. steps R g (f (Inl e))"
    and "\<And>c g. quiet_client c \<Longrightarrow> steps R g (f (Inr c))"
  shows "steps R h (State_Monad.bind (pr_NewClient P store ns) f)"
proof (rule steps_bind_results [OF performs_steps [OF NewClient_quiet assms(1)]], assumption)
  fix a g
  assume "a \<in> results (pr_NewClient P store ns)"
  with assms client_quiet show "steps R g (f a)" by (cases a) blast+
qed

text \<open>Using the store of a resource: resolve it, make a client, fetch, use what was fetched, close the client.\<close>

lemma steps_with_client:
  assumes "\<And>g c. quiet c \<Longrightarrow> R g c" and "\<And>e g. steps R g (bad e)"
    and "\<And>client. quiet_client client \<Longrightarrow> performs quiet (fetch client)"
    and "\<And>client f g. f \<in> results (fetch client) \<Longrightarrow> steps R g (use f)"
  shows "steps R h (do {
     r \<leftarrow> ResolveStore E ns ref;
     case r of
       Inl e \<Rightarrow> bad e
     | Inr (store, k) \<Rightarrow> do {
         c \<leftarrow> pr_NewClient P store ns';
         case c of
           Inl e \<Rightarrow> bad e
         | Inr client \<Rightarrow> do { f \<leftarrow> fetch client; res \<leftarrow> use f; _ \<leftarrow> sc_Close client; ret res }
       }
   })"
proof -
  have close: "steps R g (sc_Close c)" if "quiet_client c" for c g
    using that by (auto simp: quiet_client_def intro!: performs_steps [OF _ assms(1)])
  have used: "steps R g (do { f \<leftarrow> fetch c; res \<leftarrow> use f; _ \<leftarrow> sc_Close c; ret res })"
    if "quiet_client c" for c g
    by (rule steps_bind_results [OF performs_steps [OF assms(3) [OF that] assms(1)]], assumption,
        intro steps_bind assms(4) close [OF that] steps_ret)
  show ?thesis
    by (intro steps_bind [OF performs_steps [OF performs_ResolveStore_quiet assms(1)]] steps_case_sum
        steps_case_prod steps_client_then assms(2)) (auto intro!: used assms(2) assms(1))
qed

end

section \<open>The AkeylessSecret\<close>

lemma with_finalizer_id: "with_finalizer m = m \<longleftrightarrow> finalizer \<in> set (om_Finalizers m)"
  by (auto simp: with_finalizer_def dest: arg_cong [where f = om_Finalizers])

lemma with_finalizer_new:
  "finalizer \<notin> set (om_Finalizers m) \<Longrightarrow> with_finalizer m = m\<lparr>om_Finalizers := om_Finalizers m @ [finalizer]\<rparr>"
  by (simp add: with_finalizer_def)

text \<open>The data has a value for every mapping and no other key.\<close>

definition mapped_keys :: "AkeylessSecret \<Rightarrow> bytes gomap \<Rightarrow> bool" where
  "mapped_keys a d \<longleftrightarrow> set (mkeys d) = sm_SecretKey ` set (asp_Data (as_Spec a))"

definition as_step :: "Env \<Rightarrow> AkeylessSecret \<Rightarrow> history \<Rightarrow> Call \<Rightarrow> bool" where
  "as_step E a = resource_step E (as_Meta a) (asp_Target (as_Spec a)) (mapped_keys a)
     (asp_RolloutRestartTargets (as_Spec a)) (\<lambda>c. \<exists>s. c = CStatusUpdate (OAS (a\<lparr>as_Status := s\<rparr>)))"

lemma as_step_status [simp]: "as_step E (a\<lparr>as_Status := s\<rparr>) = as_step E a"
  by (simp add: as_step_def mapped_keys_def [abs_def])

lemma as_quiet: "quiet c \<Longrightarrow> as_step E a g c"
  by (simp add: as_step_def resource_step_def)

lemma as_own: "as_step E a g (CStatusUpdate (OAS (a\<lparr>as_Status := s\<rparr>)))"
  by (auto simp: as_step_def resource_step_def)

lemma performs_fetchSecretData:
  "quiet_client c \<Longrightarrow> performs quiet (fetchSecretData c ms d v)"
  by (induction c ms d v rule: fetchSecretData.induct)
    (auto intro!: performs_intros simp: quiet_client_def)

lemma set_mkeys_mput: "set (mkeys (mput k v m)) = insert k (set (mkeys m))"
  by (simp add: mkeys_def dom_update)

lemma fetch_keys:
  "Inr (d', v') \<in> results (fetchSecretData client ms d v) \<Longrightarrow>
   set (mkeys d') = set (mkeys d) \<union> sm_SecretKey ` set ms"
proof (induction ms arbitrary: d v)
  case Nil
  then show ?case by (auto simp: results_def)
next
  case (Cons m ms)
  then obtain h h' where "run_state (fetchSecretData client (m # ms) d v) h = (Inr (d', v'), h')"
    by (auto simp: results_def)
  then obtain x v1 g where "run_state (fetchSecretData client ms (mput (sm_SecretKey m) x d) v1) g = (Inr (d', v'), h')"
    by (auto simp: run_cases split: sum.splits option.splits prod.splits)
  then show ?case using Cons.IH [OF resultsI] by (auto simp: set_mkeys_mput)
qed

lemma steps_failStatus [steps_intros]: "steps (as_step E a) h (failStatus E a e)"
  unfolding failStatus_def markFailed_def setCondition_def k_defs bind_assoc bind_left_identity
  by (intro steps_intros) (auto intro: as_own as_quiet)

lemma steps_recordSynced [steps_intros]: "steps (as_step E a) h (recordSynced E a v)"
  unfolding recordSynced_def markReady_def setCondition_def Let_def k_defs bind_assoc
    bind_left_identity
  by (intro steps_intros) (auto intro: as_own [where s = "ss" for ss, simplified] as_own as_quiet)

lemma steps_applyFetched:
  "mapped_keys a d \<Longrightarrow> steps (as_step E a) h (applyFetched E a (secret_name (asp_Target (as_Spec a)) (as_Meta a)) oh d v)"
  unfolding applyFetched_def Let_def
  by (intro steps_intros steps_mono [OF steps_ApplyManagedSecret [where D = "mapped_keys a"]]
      steps_mono [OF steps_Rollout])
    (auto simp: as_step_def resource_step_def)

lemma target_secret_name: "targetNameOf a = secret_name (asp_Target (as_Spec a)) (as_Meta a)"
  by (simp add: targetNameOf_def secret_name_def)

context secrets_provider
begin

lemma steps_syncSecret: "steps (as_step E a) h (syncSecret E P a (targetNameOf a) oh)"
  unfolding syncSecret_def
proof (rule steps_with_client [OF as_quiet _ performs_fetchSecretData], goal_cases)
  case (4 client f g)
  then show ?case
    by (cases f) (auto intro!: steps_intros steps_applyFetched dest: fetch_keys
        simp: target_secret_name mapped_keys_def mkeys_def)
qed (simp_all add: steps_intros)

end

end
