(* ===== verification/Go_Encoding.thy ===== *)
theory Go_Encoding
  imports Go_Strings
begin

text \<open>
  The encodings of the standard library the code uses: \<open>encoding/base64\<close> (both alphabets, padded
  and raw), \<open>encoding/base32\<close>, UTF-8 as Go reads it when a string is turned into runes, and
  \<open>strconv.ParseInt\<close>.  A Go string or byte slice is a \<open>string\<close> of bytes.  Each encoder has a
  decoder here with the round trip as a lemma.
\<close>

section \<open>Bytes as numbers\<close>

definition byte :: "nat \<Rightarrow> char" where
  "byte n = char_of n"

definition ord :: "char \<Rightarrow> nat" where
  "ord c = of_char c"

lemma ord_less [simp]: "ord c < 256"
  by (simp add: ord_def)

lemma byte_ord [simp]: "byte (ord c) = c"
  by (simp add: byte_def ord_def)

lemma ord_byte: "n < 256 \<Longrightarrow> ord (byte n) = n"
  by (simp add: byte_def ord_def)

section \<open>Base64\<close>

definition b64_common :: string where
  "b64_common = ''ABCDEFGHIJKLMNOPQRSTUVWXYZabcdefghijklmnopqrstuvwxyz0123456789''"

definition b64_std :: string where "b64_std = b64_common @ ''+/''"
definition b64_url :: string where "b64_url = b64_common @ ''-_''"

fun index_of :: "char \<Rightarrow> string \<Rightarrow> nat option" where
  "index_of c [] = None"
| "index_of c (d # s) = (if c = d then Some 0 else map_option Suc (index_of c s))"

fun b64_encode :: "string \<Rightarrow> string \<Rightarrow> string" where
  "b64_encode al [] = []"
| "b64_encode al [a] =
     [al ! (ord a div 4), al ! (ord a mod 4 * 16), CHR ''='', CHR ''='']"
| "b64_encode al [a, b] =
     [al ! (ord a div 4), al ! (ord a mod 4 * 16 + ord b div 16), al ! (ord b mod 16 * 4), CHR ''='']"
| "b64_encode al (a # b # c # s) =
     al ! (ord a div 4) # al ! (ord a mod 4 * 16 + ord b div 16)
     # al ! (ord b mod 16 * 4 + ord c div 64) # al ! (ord c mod 64) # b64_encode al s"

text \<open>
  The decoder drops carriage returns and line feeds, insists on the padding (or, raw, on its
  absence) and ignores the unused low bits of the last character.
\<close>

definition b64_two :: "string \<Rightarrow> char \<Rightarrow> char \<Rightarrow> string option" where
  "b64_two al a b = do {
     x \<leftarrow> index_of a al; y \<leftarrow> index_of b al;
     Some [byte (x * 4 + y div 16)] }"

definition b64_three :: "string \<Rightarrow> char \<Rightarrow> char \<Rightarrow> char \<Rightarrow> string option" where
  "b64_three al a b c = do {
     x \<leftarrow> index_of a al; y \<leftarrow> index_of b al; z \<leftarrow> index_of c al;
     Some [byte (x * 4 + y div 16), byte (y mod 16 * 16 + z div 4)] }"

definition b64_four :: "string \<Rightarrow> char \<Rightarrow> char \<Rightarrow> char \<Rightarrow> char \<Rightarrow> string option" where
  "b64_four al a b c d = do {
     x \<leftarrow> index_of a al; y \<leftarrow> index_of b al; z \<leftarrow> index_of c al; w \<leftarrow> index_of d al;
     Some [byte (x * 4 + y div 16), byte (y mod 16 * 16 + z div 4), byte (z mod 4 * 64 + w)] }"

fun b64_quanta :: "bool \<Rightarrow> string \<Rightarrow> string \<Rightarrow> string option" where
  "b64_quanta padded al [] = Some []"
| "b64_quanta padded al [a] = None"
| "b64_quanta padded al [a, b] = (if padded then None else b64_two al a b)"
| "b64_quanta padded al [a, b, c] = (if padded then None else b64_three al a b c)"
| "b64_quanta padded al (a # b # c # d # s) =
     (if padded \<and> d = CHR ''='' then
        (if s \<noteq> [] then None
         else if c = CHR ''='' then b64_two al a b else b64_three al a b c)
      else do { q \<leftarrow> b64_four al a b c d; r \<leftarrow> b64_quanta padded al s; Some (q @ r) })"

definition is_newline :: "char \<Rightarrow> bool" where
  "is_newline c \<longleftrightarrow> c = CHR 0x0A \<or> c = CHR 0x0D"

definition b64_decode :: "bool \<Rightarrow> string \<Rightarrow> string \<Rightarrow> string option" where
  "b64_decode padded al s = b64_quanta padded al (filter (\<lambda>c. \<not> is_newline c) s)"

text \<open>What the round trip needs of an alphabet; both alphabets of the library have it.\<close>

definition good_alphabet :: "string \<Rightarrow> bool" where
  "good_alphabet al \<longleftrightarrow> length al = 64
     \<and> list_all (\<lambda>i. index_of (al ! i) al = Some i \<and> al ! i \<noteq> CHR ''='' \<and> \<not> is_newline (al ! i)) [0..<64]"

lemma good_std [simp]: "good_alphabet b64_std"
  by code_simp

lemma good_url [simp]: "good_alphabet b64_url"
  by code_simp

lemma good_alphabetD:
  assumes "good_alphabet al" "i < 64"
  shows "index_of (al ! i) al = Some i" "al ! i \<noteq> CHR ''=''" "\<not> is_newline (al ! i)"
  using assms by (auto simp: good_alphabet_def list_all_iff)

lemma pack:
  fixes a b n :: nat
  assumes "b < n"
  shows "(a * n + b) div n = a" "(a * n + b) mod n = b"
  using assms by simp_all

lemma b64_bound:
  "ord a div 4 < 64" "ord a mod 4 * 16 < 64" "ord a mod 4 * 16 + ord b div 16 < 64"
  "ord a mod 16 * 4 < 64" "ord a mod 16 * 4 + ord b div 64 < 64" "ord a mod 64 < 64"
proof -
  have d: "ord a div 4 < 64" "ord a mod 4 < 4" "ord b div 16 < 16" "ord a mod 16 < 16" "ord b div 64 < 4"
    using ord_less [of a] ord_less [of b] by (simp_all add: less_mult_imp_div_less)
  then show "ord a div 4 < 64" "ord a mod 4 * 16 < 64" "ord a mod 4 * 16 + ord b div 16 < 64"
    "ord a mod 16 * 4 < 64" "ord a mod 16 * 4 + ord b div 64 < 64" "ord a mod 64 < 64"
    by linarith+
qed

lemma b64_unpack:
  "ord a div 4 * 4 + (ord a mod 4 * 16) div 16 = ord a"
  "ord a div 4 * 4 + (ord a mod 4 * 16 + ord b div 16) div 16 = ord a"
  "(ord a mod 4 * 16 + ord b div 16) mod 16 * 16 + (ord b mod 16 * 4) div 4 = ord b"
  "(ord a mod 4 * 16 + ord b div 16) mod 16 * 16 + (ord b mod 16 * 4 + ord c div 64) div 4 = ord b"
  "(ord b mod 16 * 4 + ord c div 64) mod 4 * 64 + ord c mod 64 = ord c"
proof -
  have d: "ord b div 16 < 16" "ord c div 64 < 4"
    using ord_less [of b] ord_less [of c] by (simp_all add: less_mult_imp_div_less)
  show "ord a div 4 * 4 + (ord a mod 4 * 16) div 16 = ord a" by simp
  show "ord a div 4 * 4 + (ord a mod 4 * 16 + ord b div 16) div 16 = ord a"
    by (simp only: pack [OF d(1)]) simp
  show "(ord a mod 4 * 16 + ord b div 16) mod 16 * 16 + (ord b mod 16 * 4) div 4 = ord b"
    by (simp only: pack [OF d(1)]) simp
  show "(ord a mod 4 * 16 + ord b div 16) mod 16 * 16 + (ord b mod 16 * 4 + ord c div 64) div 4 = ord b"
    by (simp only: pack [OF d(1)] pack [OF d(2)]) simp
  show "(ord b mod 16 * 4 + ord c div 64) mod 4 * 64 + ord c mod 64 = ord c"
    by (simp only: pack [OF d(2)]) simp
qed

lemma b64_encode_no_newline:
  assumes al: "good_alphabet al"
  shows "filter (\<lambda>c. \<not> is_newline c) (b64_encode al s) = b64_encode al s"
proof -
  have "\<not> is_newline (CHR ''='')" by (simp add: is_newline_def)
  then have "\<forall>c \<in> set (b64_encode al s). \<not> is_newline c"
    using al
    by (induction al s rule: b64_encode.induct)
      (simp_all add: good_alphabetD(3) b64_bound)
  then show ?thesis by (simp add: filter_id_conv)
qed

lemma b64_quanta_encode:
  assumes "good_alphabet al"
  shows "b64_quanta True al (b64_encode al s) = Some s"
proof -
  have "good_alphabet al \<Longrightarrow> ?thesis"
  proof (induction al s rule: b64_encode.induct)
    case (2 al a)
    note [simp] = good_alphabetD [OF 2]
    show ?case by (simp add: b64_two_def b64_bound b64_unpack del: mult_div_mod_eq)
  next
    case (3 al a b)
    note [simp] = good_alphabetD [OF 3]
    have "b64_three al (al ! (ord a div 4)) (al ! (ord a mod 4 * 16 + ord b div 16))
        (al ! (ord b mod 16 * 4)) = Some [a, b]"
      unfolding b64_three_def good_alphabetD(1) [OF 3 b64_bound(1)]
        good_alphabetD(1) [OF 3 b64_bound(3)] good_alphabetD(1) [OF 3 b64_bound(4)]
      by (simp only: b64_unpack byte_ord Option.bind.simps)
    then show ?case by (simp add: b64_bound)
  next
    case (4 al a b c s)
    note al = good_alphabetD(1) [OF 4(2)]
    have "b64_four al (al ! (ord a div 4)) (al ! (ord a mod 4 * 16 + ord b div 16))
        (al ! (ord b mod 16 * 4 + ord c div 64)) (al ! (ord c mod 64)) = Some [a, b, c]"
      unfolding b64_four_def al [OF b64_bound(1)] al [OF b64_bound(3)] al [OF b64_bound(5)]
        al [OF b64_bound(6)]
      by (simp only: b64_unpack byte_ord Option.bind.simps)
    then show ?case using 4 good_alphabetD(2) [OF 4(2) b64_bound(6)] by simp
  qed simp
  with assms show ?thesis by simp
qed

lemma b64_roundtrip:
  "good_alphabet al \<Longrightarrow> b64_decode True al (b64_encode al s) = Some s"
  by (simp add: b64_decode_def b64_encode_no_newline b64_quanta_encode)

section \<open>Base32\<close>

definition b32_std :: string where "b32_std = ''ABCDEFGHIJKLMNOPQRSTUVWXYZ234567''"

text \<open>A block of five bytes, completed with zero bytes, as eight digits of five bits.\<close>

definition b32_block :: "string \<Rightarrow> string" where
  "b32_block s =
     (let b = (\<lambda>i. if i < length s then ord (s ! i) else 0);
          n = b 0 * 2 ^ 32 + b 1 * 2 ^ 24 + b 2 * 2 ^ 16 + b 3 * 2 ^ 8 + b 4;
          used = (8 * length s + 4) div 5 in
      map (\<lambda>i. if i < used then b32_std ! (n div 32 ^ (7 - i) mod 32) else CHR ''='') [0..<8])"

fun b32_encode :: "string \<Rightarrow> string" where
  "b32_encode [] = []"
| "b32_encode (a # s) = b32_block (take 5 (a # s)) @ b32_encode (drop 4 s)"

section \<open>UTF-8\<close>

definition cont :: "char \<Rightarrow> bool" where
  "cont c \<longleftrightarrow> 128 \<le> ord c \<and> ord c < 192"

text \<open>
  \<open>utf8.DecodeRune\<close>: a rune and the bytes after it; an invalid sequence gives the replacement
  character and is one byte long.  Overlong forms, surrogates and values above 0x10FFFF are
  invalid.
\<close>

definition rune_error :: nat where "rune_error = 0xFFFD"

fun decode_rune :: "char \<Rightarrow> string \<Rightarrow> nat \<times> string" where
  "decode_rune a s =
     (let x = ord a in
      if x < 0x80 then (x, s)
      else if x < 0xC2 then (rune_error, s)
      else if x < 0xE0 then
        (case s of b # s1 \<Rightarrow> if cont b then ((x - 0xC0) * 64 + (ord b - 128), s1) else (rune_error, s)
         | [] \<Rightarrow> (rune_error, s))
      else if x < 0xF0 then
        (case s of b # c # s1 \<Rightarrow>
           (let r = (x - 0xE0) * 4096 + (ord b - 128) * 64 + (ord c - 128) in
            if cont b \<and> cont c \<and> 0x800 \<le> r \<and> \<not> (0xD800 \<le> r \<and> r < 0xE000) then (r, s1)
            else (rune_error, s))
         | _ \<Rightarrow> (rune_error, s))
      else if x < 0xF5 then
        (case s of b # c # d # s1 \<Rightarrow>
           (let r = (x - 0xF0) * 262144 + (ord b - 128) * 4096 + (ord c - 128) * 64 + (ord d - 128) in
            if cont b \<and> cont c \<and> cont d \<and> 0x10000 \<le> r \<and> r < 0x110000 then (r, s1)
            else (rune_error, s))
         | _ \<Rightarrow> (rune_error, s))
      else (rune_error, s))"

lemma decode_rune_shorter: "length (snd (decode_rune a s)) \<le> length s"
  by (auto simp: Let_def split: list.splits)

declare decode_rune.simps [simp del]

function runes :: "string \<Rightarrow> nat list" where
  "runes [] = []"
| "runes (a # s) = fst (decode_rune a s) # runes (snd (decode_rune a s))"
  by pat_completeness auto
termination
  by (relation "measure length") (auto simp: le_imp_less_Suc decode_rune_shorter)

text \<open>\<open>string(r)\<close> of a rune; a number that is no scalar value prints as the replacement character.\<close>

definition scalar :: "nat \<Rightarrow> bool" where
  "scalar r \<longleftrightarrow> r < 0x110000 \<and> \<not> (0xD800 \<le> r \<and> r < 0xE000)"

definition encode_rune :: "nat \<Rightarrow> string" where
  "encode_rune r' =
     (let r = (if scalar r' then r' else rune_error) in
      if r < 0x80 then [byte r]
      else if r < 0x800 then [byte (0xC0 + r div 64), byte (128 + r mod 64)]
      else if r < 0x10000 then
        [byte (0xE0 + r div 4096), byte (128 + r div 64 mod 64), byte (128 + r mod 64)]
      else [byte (0xF0 + r div 262144), byte (128 + r div 4096 mod 64), byte (128 + r div 64 mod 64),
            byte (128 + r mod 64)])"

text \<open>The digits of a rune to base 64.\<close>

lemma digits64:
  obtains q m where "r = q * 64 + m" "m < (64 :: nat)" "r div 64 = q" "r mod 64 = m"
  by (rule that [of "r div 64" "r mod 64"]) simp_all

lemma decode_encode_rune:
  assumes "scalar r"
  shows "\<exists>a t. encode_rune r = a # t \<and> decode_rune a (t @ s) = (r, s)"
proof -
  have r: "r < 0x110000" "\<not> (0xD800 \<le> r \<and> r < 0xE000)" using assms by (auto simp: scalar_def)
  obtain q m where q: "r = q * 64 + m" "m < 64" "r div 64 = q" "r mod 64 = m" by (rule digits64)
  obtain p n where p: "q = p * 64 + n" "n < 64" "q div 64 = p" "q mod 64 = n" by (rule digits64)
  obtain k l where k: "p = k * 64 + l" "l < 64" "p div 64 = k" "p mod 64 = l" by (rule digits64)
  have d: "r div 4096 = p" "r div 262144 = k"
    using q p k by (simp_all flip: div_mult2_eq add: div_mult2_eq [of r 64 64, simplified]
        div_mult2_eq [of r 64 4096, simplified] div_mult2_eq [of q 64 64, simplified])
  consider "r < 0x80" | "0x80 \<le> r" "r < 0x800" | "0x800 \<le> r" "r < 0x10000" | "0x10000 \<le> r"
    by linarith
  then show ?thesis
  proof cases
    case 1
    then show ?thesis using assms
      by (simp add: encode_rune_def decode_rune.simps ord_byte)
  next
    case 2
    have "encode_rune r = [byte (192 + q), byte (128 + m)]"
      using 2 assms by (simp add: encode_rune_def q(3,4))
    moreover have "2 \<le> q" "q < 32" using 2 q by linarith+
    ultimately show ?thesis using q(1,2)
      by (simp add: decode_rune.simps ord_byte cont_def)
  next
    case 3
    have "encode_rune r = [byte (224 + p), byte (128 + n), byte (128 + m)]"
      using 3 assms by (simp add: encode_rune_def q(3,4) p(3,4) d)
    moreover have "p < 16" using 3 q p by linarith
    moreover have "p * 4096 + n * 64 + m = r" using q(1) p(1) by simp
    ultimately show ?thesis using q(2) p(2) r 3
      by (simp add: decode_rune.simps ord_byte cont_def Let_def)
  next
    case 4
    have "encode_rune r = [byte (240 + k), byte (128 + l), byte (128 + n), byte (128 + m)]"
      using 4 assms by (simp add: encode_rune_def q(3,4) p(3,4) k(3,4) d)
    moreover have "k < 5" using r q p k by linarith
    moreover have "k * 262144 + l * 4096 + n * 64 + m = r" using q(1) p(1) k(1) by simp
    ultimately show ?thesis using q(2) p(2) k(2) r 4
      by (simp add: decode_rune.simps ord_byte cont_def Let_def)
  qed
qed

definition utf8 :: "nat list \<Rightarrow> string" where
  "utf8 rs = concat (map encode_rune rs)"

lemma runes_utf8: "list_all scalar rs \<Longrightarrow> runes (utf8 rs) = rs"
proof (induction rs)
  case Nil
  then show ?case by (simp add: utf8_def)
next
  case (Cons r rs)
  obtain a t where at: "encode_rune r = a # t" "decode_rune a (t @ utf8 rs) = (r, utf8 rs)"
    using decode_encode_rune [of r "utf8 rs"] Cons.prems by auto
  then show ?case using Cons by (simp add: utf8_def)
qed

lemma scalar_rune_error [simp]: "scalar rune_error"
  by (simp add: scalar_def rune_error_def)

lemma decode_rune_fst:
  "fst (decode_rune a s) = rune_error \<or> fst (decode_rune a s) < 0x800
   \<or> 0x800 \<le> fst (decode_rune a s) \<and> fst (decode_rune a s) < 0x110000
     \<and> \<not> (0xD800 \<le> fst (decode_rune a s) \<and> fst (decode_rune a s) < 0xE000)"
proof -
  consider "ord a < 0x80" | "0x80 \<le> ord a" "ord a < 0xC2" | "0xC2 \<le> ord a" "ord a < 0xE0"
    | "0xE0 \<le> ord a" "ord a < 0xF0" | "0xF0 \<le> ord a" "ord a < 0xF5" | "0xF5 \<le> ord a"
    by linarith
  then show ?thesis
  proof cases
    case 3
    have "(ord a - 192) * 64 + (ord b - 128) < 0x800" if "cont b" for b
      using 3 that by (auto simp: cont_def)
    then show ?thesis using 3 by (auto simp: decode_rune.simps Let_def split: list.splits)
  next
    case 4
    have "(ord a - 224) * 4096 + (ord b - 128) * 64 + (ord c - 128) < 0x110000"
      if "cont b" "cont c" for b c
      using 4 that by (auto simp: cont_def)
    then show ?thesis using 4
      by (cases s rule: remdups_adj.cases) (simp_all add: decode_rune.simps Let_def)
  next
    case 5
    show ?thesis
    proof (cases "\<exists>b c d t. s = b # c # d # t")
      case True
      then show ?thesis using 5 by (elim exE) (simp add: decode_rune.simps Let_def)
    next
      case False
      then have "fst (decode_rune a s) = rune_error"
        using 5 by (auto simp: decode_rune.simps Let_def split: list.splits)
      then show ?thesis by simp
    qed
  qed (simp_all add: decode_rune.simps Let_def)
qed

lemma decode_rune_scalar: "scalar (fst (decode_rune a s))"
  using decode_rune_fst [of a s] by (auto simp: scalar_def rune_error_def)

lemma runes_scalar: "list_all scalar (runes s)"
  by (induction s rule: runes.induct) (simp_all add: decode_rune_scalar)

section \<open>\<open>strconv.ParseInt\<close>\<close>

text \<open>Base 10, with an optional sign, bounded by the number of bits.\<close>

fun decimal :: "string \<Rightarrow> nat \<Rightarrow> nat option" where
  "decimal [] acc = Some acc"
| "decimal (c # s) acc = (if is_digit_char c then decimal s (acc * 10 + (ord c - 48)) else None)"

definition in_bits :: "nat \<Rightarrow> int \<Rightarrow> int option" where
  "in_bits bits i = (if - (2 ^ (bits - 1)) \<le> i \<and> i < 2 ^ (bits - 1) then Some i else None)"

definition ParseInt :: "string \<Rightarrow> nat \<Rightarrow> int option" where
  "ParseInt s bits =
     (let neg = HasPrefix s ''-'';
          digits = (if neg \<or> HasPrefix s ''+'' then tl s else s) in
      if digits = [] then None
      else (case decimal digits 0 of
              None \<Rightarrow> None
            | Some n \<Rightarrow> in_bits bits (if neg then - int n else int n)))"

end
