(* ===== verification/Secret_Keys.thy ===== *)
theory Secret_Keys
  imports Kube Go_Encoding
begin

text \<open>
  The pure part of \<open>runtime/esutils/utils.go\<close>: what is done with the keys and values of a fetched
  secret map.  Maps are rewritten (merge, regular expression, template), values are decoded, keys
  are converted to valid Kubernetes keys and back.  A function that ranges over a map visits it in
  the order of the association list.  The regular expression and template engines, the JSON
  printer and the Unicode tables are parameters of the environment.
\<close>

section \<open>JSON values as bytes\<close>

text \<open>A JSON document read into \<open>map[string]any\<close>; \<open>null\<close> leaves the map nil.\<close>

definition json_object :: "Env \<Rightarrow> bytes \<Rightarrow> Json gomap option" where
  "json_object E b = (case jsonParse E b of
     Some (JObj kvs) \<Rightarrow> Some kvs
   | Some JNull \<Rightarrow> Some []
   | _ \<Rightarrow> None)"

definition ErrUnexpectedKey :: err where "ErrUnexpectedKey = Sentinel ''unexpected key in data''"

fun GetByteValue :: "Env \<Rightarrow> Json \<Rightarrow> err + bytes" where
  "GetByteValue E (JStr t) = Inr t"
| "GetByteValue E (JObj t) = Inr (jsonPrint E (JObj t))"
| "GetByteValue E (JNum t) = Inr (formatFloat E t)"
| "GetByteValue E (JArr t) = Inr (jsonPrint E (JArr t))"
| "GetByteValue E (JBool t) = Inr (if t then ''true'' else ''false'')"
| "GetByteValue E JNull = Inr []"

definition GetByteValueFromMap :: "Env \<Rightarrow> Json gomap \<Rightarrow> string \<Rightarrow> err + bytes" where
  "GetByteValueFromMap E data key = (case mget data key of
     None \<Rightarrow> Inl (ErrSuffix ErrUnexpectedKey key)
   | Some v \<Rightarrow> GetByteValue E v)"

text \<open>A value that unmarshals into a Go string (\<open>null\<close> does, to the empty one) is unquoted.\<close>

definition JSONToSecretDataMap :: "Env \<Rightarrow> bytes \<Rightarrow> err + bytes gomap" where
  "JSONToSecretDataMap E data = (case jsonRawObject E data of
     None \<Rightarrow> Inl (ErrMsg ''invalid JSON object'')
   | Some kv \<Rightarrow> Inr (map (\<lambda>(k, v). (k, case jsonParse E v of
         Some (JStr s) \<Rightarrow> s
       | Some JNull \<Rightarrow> []
       | _ \<Rightarrow> v)) kv))"

section \<open>Rewriting\<close>

definition MergeByteMap :: "bytes gomap \<Rightarrow> bytes gomap \<Rightarrow> bytes gomap" where
  "MergeByteMap dst src = mcopy dst src"

definition sortKeysWithPriority :: "RewriteMergeOp \<Rightarrow> bytes gomap \<Rightarrow> string list" where
  "sortKeysWithPriority op input =
     sort (filter (\<lambda>k. k \<notin> set (rm_Priority op)) (mkeys input)) @ rm_Priority op"

fun merge_object :: "Json gomap \<Rightarrow> Json gomap \<times> string list \<Rightarrow> Json gomap \<times> string list" where
  "merge_object [] acc = acc"
| "merge_object ((k, v) # kvs) (mergedMap, conflicts) =
     merge_object kvs
       (mput k v mergedMap, if mget mergedMap k \<noteq> None then conflicts @ [k] else conflicts)"

fun merge_keys ::
  "Env \<Rightarrow> RewriteMergeOp \<Rightarrow> bytes gomap \<Rightarrow> string list \<Rightarrow> Json gomap \<times> string list
   \<Rightarrow> err + Json gomap \<times> string list" where
  "merge_keys E op input [] acc = Inr acc"
| "merge_keys E op input (key # keys) acc =
     (case mget input key of
        None \<Rightarrow> if rm_PriorityPolicy op = ''IgnoreNotFound'' then merge_keys E op input keys acc
                else Inl (ErrMsg (''merge failed with key '' @ go_quote key @ '' not found in input map''))
      | Some value \<Rightarrow> (case json_object E value of
          None \<Rightarrow> Inl (ErrMsg ''merge failed with failed to unmarshal JSON'')
        | Some jsonMap \<Rightarrow> merge_keys E op input keys (merge_object jsonMap acc)))"

definition merge_maps ::
  "Env \<Rightarrow> RewriteMergeOp \<Rightarrow> bytes gomap \<Rightarrow> err + Json gomap \<times> string list" where
  "merge_maps E op input = merge_keys E op input (sortKeysWithPriority op input) ([], [])"

fun byte_values :: "Env \<Rightarrow> Json gomap \<Rightarrow> bytes gomap \<Rightarrow> err + bytes gomap" where
  "byte_values E [] out = Inr out"
| "byte_values E ((k, v) # kvs) out = (case GetByteValue E v of
     Inl e \<Rightarrow> Inl (ErrWrap ''merge failed with failed to convert value to []byte'' e)
   | Inr byteValue \<Rightarrow> byte_values E kvs (mput k byteValue out))"

text \<open>An unknown strategy returns the nil map.\<close>

definition RewriteMerge :: "Env \<Rightarrow> RewriteMergeOp \<Rightarrow> bytes gomap \<Rightarrow> err + bytes gomap" where
  "RewriteMerge E op input = (case merge_maps E op input of
     Inl e \<Rightarrow> Inl e
   | Inr (mergedMap, conflicts) \<Rightarrow>
       if rm_ConflictPolicy op \<noteq> ''Ignore'' \<and> length conflicts > 0 then
         Inl (ErrMsg (''merge failed with conflicts: '' @ join_with '', '' conflicts))
       else if rm_Strategy op = ''Extract'' \<or> rm_Strategy op = [] then byte_values E mergedMap []
       else if rm_Strategy op = ''JSON'' then
         (if rm_Into op = [] then Inl (ErrMsg ''merge failed with missing 'into' field'')
          else Inr (mput (rm_Into op) (jsonPrintNoEscape E (JObj mergedMap)) (mcopy [] input)))
       else Inr [])"

fun rename_keys :: "(string \<Rightarrow> string) \<Rightarrow> bytes gomap \<Rightarrow> bytes gomap \<Rightarrow> bytes gomap" where
  "rename_keys f [] out = out"
| "rename_keys f ((k, v) # kvs) out = rename_keys f kvs (mput (f k) v out)"

definition RewriteRegexp :: "Env \<Rightarrow> RewriteRegexpOp \<Rightarrow> bytes gomap \<Rightarrow> err + bytes gomap" where
  "RewriteRegexp E op input = (case regexpCompile E (rx_Source op) of
     Inl e \<Rightarrow> Inl (ErrWrap ''regexp failed with failed to compile'' e)
   | Inr _ \<Rightarrow> Inr (rename_keys (\<lambda>k. regexpReplaceAll E (rx_Source op) k (rx_Target op)) input []))"

fun transform_keys :: "(string \<Rightarrow> err + string) \<Rightarrow> bytes gomap \<Rightarrow> bytes gomap \<Rightarrow> err + bytes gomap" where
  "transform_keys f [] out = Inr out"
| "transform_keys f ((k, v) # kvs) out = (case f k of
     Inl e \<Rightarrow> Inl (ErrWrap (''transform failed with failed to execute template for key '' @ go_quote k) e)
   | Inr k' \<Rightarrow> transform_keys f kvs (mput k' v out))"

definition RewriteTransform :: "Env \<Rightarrow> string \<Rightarrow> bytes gomap \<Rightarrow> err + bytes gomap" where
  "RewriteTransform E tmpl input = (case templateParse E tmpl of
     Inl e \<Rightarrow> Inl (ErrWrap ''transform failed with failed to parse template'' e)
   | Inr execute \<Rightarrow> transform_keys execute input [])"

definition handleRewriteOperation :: "Env \<Rightarrow> RewriteOp \<Rightarrow> bytes gomap \<Rightarrow> err + bytes gomap" where
  "handleRewriteOperation E op input =
     (case rw_Merge op of Some m \<Rightarrow> RewriteMerge E m input
      | None \<Rightarrow> (case rw_Regexp op of Some r \<Rightarrow> RewriteRegexp E r input
        | None \<Rightarrow> (case rw_Transform op of Some t \<Rightarrow> RewriteTransform E t input
          | None \<Rightarrow> Inr input)))"

fun rewrite_from :: "Env \<Rightarrow> nat \<Rightarrow> RewriteOp list \<Rightarrow> bytes gomap \<Rightarrow> err + bytes gomap" where
  "rewrite_from E i [] out = Inr out"
| "rewrite_from E i (op # ops) out = (case handleRewriteOperation E op out of
     Inl e \<Rightarrow> Inl (ErrWrap (''failed rewrite operation['' @ show_nat i @ '']'') e)
   | Inr out' \<Rightarrow> rewrite_from E (Suc i) ops out')"

definition RewriteMap :: "Env \<Rightarrow> RewriteOp list \<Rightarrow> bytes gomap \<Rightarrow> err + bytes gomap" where
  "RewriteMap E operations input = rewrite_from E 0 operations input"

section \<open>Decoding values\<close>

text \<open>The offset in the error of the base64 decoder is left out.\<close>

definition b64_error :: err where "b64_error = ErrMsg ''illegal base64 data''"

definition Decode :: "string \<Rightarrow> bytes \<Rightarrow> err + bytes" where
  "Decode strategy input =
     (let base64 = (case b64_decode True b64_std input of Some out \<Rightarrow> Inr out | None \<Rightarrow> Inl b64_error);
          base64url = (case b64_decode True b64_url input of Some out \<Rightarrow> Inr out | None \<Rightarrow> Inl b64_error) in
      if strategy = ''Base64'' then base64
      else if strategy = ''Base64URL'' then base64url
      else if strategy = ''None'' then Inr input
      else if strategy = [] then Inr input
      else if strategy = ''Auto'' then
        (case base64 of
           Inr out \<Rightarrow> Inr out
         | Inl _ \<Rightarrow> (case base64url of Inr out \<Rightarrow> Inr out | Inl _ \<Rightarrow> Inr input))
      else Inl (ErrMsg (''decoding strategy '' @ strategy @ '' is not supported'')))"

fun decode_entries :: "string \<Rightarrow> bytes gomap \<Rightarrow> bytes gomap \<Rightarrow> err + bytes gomap" where
  "decode_entries strategy [] out = Inr out"
| "decode_entries strategy ((k, v) # kvs) out = (case Decode strategy v of
     Inl e \<Rightarrow> Inl (ErrWrap (''failure decoding key '' @ k) e)
   | Inr val \<Rightarrow> decode_entries strategy kvs (mput k val out))"

definition DecodeMap :: "string \<Rightarrow> bytes gomap \<Rightarrow> err + bytes gomap" where
  "DecodeMap strategy input = decode_entries strategy input []"

section \<open>Valid keys\<close>

definition valid_rune :: "Env \<Rightarrow> nat \<Rightarrow> bool" where
  "valid_rune E c \<longleftrightarrow> isLetter E c \<or> isNumber E c
     \<or> c = ord (CHR ''-'') \<or> c = ord (CHR ''.'') \<or> c = ord (CHR ''_'')"

text \<open>The map is changed in place: empty keys are deleted up to the first error.\<close>

fun validate_keys :: "Env \<Rightarrow> bytes gomap \<Rightarrow> string list \<Rightarrow> bytes gomap \<times> err option" where
  "validate_keys E m [] = (m, None)"
| "validate_keys E m (key # keys) =
     (if length key = 0 then validate_keys E (mdel key m) keys
      else if length key > 253 then
        (m, Some (ErrMsg (''key has length '' @ show_nat (length key)
           @ '' but max is 253: (following is truncated): '' @ take 253 key)))
      else (case find (\<lambda>c. \<not> valid_rune E c) (runes key) of
          Some c \<Rightarrow> (m, Some (ErrMsg (''key has invalid character '' @ encode_rune c
              @ '', only alphanumeric, '-', '.' and '_' are allowed: '' @ key)))
        | None \<Rightarrow> validate_keys E m keys))"

definition ValidateKeys :: "Env \<Rightarrow> bytes gomap \<Rightarrow> bytes gomap \<times> err option" where
  "ValidateKeys E input = validate_keys E input (mkeys input)"

section \<open>Converting keys and back\<close>

fun hex_nat :: "nat \<Rightarrow> string" where
  "hex_nat n = (if n < 16 then [hex_digit n] else hex_nat (n div 16) @ [hex_digit (n mod 16)])"

declare hex_nat.simps [simp del]

definition hex4 :: "nat \<Rightarrow> string" where
  "hex4 n = replicate (4 - length (hex_nat n)) (CHR ''0'') @ hex_nat n"

definition convert_rune :: "Env \<Rightarrow> string \<Rightarrow> nat \<Rightarrow> string" where
  "convert_rune E strategy rv =
     (if \<not> valid_rune E rv then
        (if strategy = ''Default'' then ''_''
         else if strategy = ''Unicode'' then ''_U'' @ hex4 rv @ ''_''
         else encode_rune rv)
      else encode_rune rv)"

definition convert :: "Env \<Rightarrow> string \<Rightarrow> string \<Rightarrow> string" where
  "convert E strategy str = concat (map (convert_rune E strategy) (runes str))"

fun collect_keys :: "(string \<Rightarrow> string) \<Rightarrow> bytes gomap \<Rightarrow> bytes gomap \<Rightarrow> err + bytes gomap" where
  "collect_keys f [] out = Inr out"
| "collect_keys f ((k, v) # kvs) out =
     (if mget out (f k) \<noteq> None then
        Inl (ErrMsg (''secret name collision during conversion: '' @ f k))
      else collect_keys f kvs (mput (f k) v out))"

definition ConvertKeys :: "Env \<Rightarrow> string \<Rightarrow> bytes gomap \<Rightarrow> err + bytes gomap" where
  "ConvertKeys E strategy input = collect_keys (convert E strategy) input []"

definition hex_value :: "char \<Rightarrow> nat option" where
  "hex_value c =
     (let n = ord c in
      if 48 \<le> n \<and> n \<le> 57 then Some (n - 48)
      else if 97 \<le> n \<and> n \<le> 102 then Some (n - 87)
      else if 65 \<le> n \<and> n \<le> 70 then Some (n - 55)
      else None)"

definition hex_read :: "string \<Rightarrow> nat" where
  "hex_read s = fold (\<lambda>c acc. acc * 16 + the (hex_value c)) s 0"

text \<open>A match of \<open>_U([0-9a-fA-F]{4,5})_\<close> at the front of a string: its digits and what follows.\<close>

definition escape_at :: "string \<Rightarrow> (string \<times> string) option" where
  "escape_at s =
     (if HasPrefix s ''_U'' then
        (let digits = takeWhile (\<lambda>c. hex_value c \<noteq> None) (drop 2 s);
             rest = drop (2 + length digits) s in
         if (length digits = 4 \<or> length digits = 5) \<and> HasPrefix rest ''_''
         then Some (digits, tl rest) else None)
      else None)"

lemma escape_at_shorter: "escape_at s = Some (d, r) \<Longrightarrow> length r < length s"
proof -
  assume "escape_at s = Some (d, r)"
  then obtain n where "HasPrefix s ''_U''" "r = tl (drop (2 + n) s)"
    by (auto simp: escape_at_def Let_def split: if_splits)
  moreover from this have "s \<noteq> []" by (auto simp: HasPrefix_prefix)
  ultimately show "length r < length s" by (cases s) auto
qed

text \<open>
  The matches do not overlap and are replaced from the last to the first, which is the same as
  copying the string from the left and replacing each match.
\<close>

function unescape :: "string \<Rightarrow> string" where
  "unescape s = (case s of [] \<Rightarrow> []
     | c # t \<Rightarrow> (case escape_at s of
         Some (digits, rest) \<Rightarrow> encode_rune (hex_read digits) @ unescape rest
       | None \<Rightarrow> c # unescape t))"
  by pat_completeness auto
termination
  by (relation "measure length") (auto dest: escape_at_shorter)

declare unescape.simps [simp del]

definition reverse :: "string \<Rightarrow> string \<Rightarrow> string" where
  "reverse strategy str = (if strategy = ''ReverseUnicode'' then unescape str else str)"

definition ReverseKey :: "string \<Rightarrow> string \<Rightarrow> string" where
  "ReverseKey strategy key = reverse strategy key"

definition ReverseKeys :: "string \<Rightarrow> bytes gomap \<Rightarrow> err + bytes gomap" where
  "ReverseKeys strategy input = collect_keys (reverse strategy) input []"

section \<open>Values out of metadata and Secrets\<close>

definition errKeyNotFound :: err where "errKeyNotFound = Sentinel ''key not found''"

text \<open>
  \<open>dig\<close> looks a key up and otherwise descends into the first nested object it meets, and only
  into that one.  The element type is given by its type assertion and its zero value.
\<close>

function (sequential) dig :: "(Json \<Rightarrow> 'a option) \<Rightarrow> string \<Rightarrow> Json gomap \<Rightarrow> err + 'a"
  and dig_nested :: "(Json \<Rightarrow> 'a option) \<Rightarrow> string \<Rightarrow> Json gomap \<Rightarrow> err + 'a" where
  "dig conv key data = (case mget data key of
     Some v \<Rightarrow> (case conv v of
         Some c \<Rightarrow> Inr c
       | None \<Rightarrow> Inl (ErrMsg ''failed to convert value to the desired type''))
   | None \<Rightarrow> dig_nested conv key data)"
| "dig_nested conv key [] = Inl errKeyNotFound"
| "dig_nested conv key ((k, JObj ty) # data) = dig conv key ty"
| "dig_nested conv key (_ # data) = dig_nested conv key data"
  by pat_completeness auto
termination
  by (relation "measure (\<lambda>x. case x of
       Inl (_, _, d) \<Rightarrow> 2 * size_list (size_prod (\<lambda>_. 0) size) d + 1
     | Inr (_, _, d) \<Rightarrow> 2 * size_list (size_prod (\<lambda>_. 0) size) d)") auto

definition FetchValueFromMetadata ::
  "Env \<Rightarrow> (Json \<Rightarrow> 'a option) \<Rightarrow> 'a \<Rightarrow> string \<Rightarrow> bytes option \<Rightarrow> 'a \<Rightarrow> err + 'a" where
  "FetchValueFromMetadata E conv zero key data deflt = (case data of
     None \<Rightarrow> Inr deflt
   | Some raw \<Rightarrow> (case json_object E raw of
       None \<Rightarrow> Inl (ErrMsg ''failed to parse JSON raw data'')
     | Some m \<Rightarrow> (case dig conv key m of
         Inl e \<Rightarrow> if errors_is e errKeyNotFound then Inr deflt else Inr zero
       | Inr v \<Rightarrow> Inr v)))"

definition CompareStringAndByteSlices :: "string option \<Rightarrow> bytes \<Rightarrow> bool" where
  "CompareStringAndByteSlices valueString valueByte =
     (case valueString of None \<Rightarrow> False | Some s \<Rightarrow> valueByte = s)"

definition ExtractSecretData :: "Env \<Rightarrow> PushData \<Rightarrow> K8sSecret \<Rightarrow> err + bytes" where
  "ExtractSecretData E data secret =
     (if pd_SecretKey data = [] then
        Inr (jsonPrintNoEscape E (JObj (map (\<lambda>(k, v). (k, JStr v)) (sec_Data secret))))
      else (case mget (sec_Data secret) (pd_SecretKey data) of
        None \<Rightarrow> Inl (ErrMsg (''failed to find secret key in secret with key: '' @ pd_SecretKey data))
      | Some value \<Rightarrow> Inr value))"

end
