(* ===== verification/Resolvers.thy ===== *)
theory Resolvers
  imports Secret_Keys
begin

text \<open>
  The part of \<open>runtime/esutils\<close> that looks things up: \<open>resolvers.SecretKeyRef\<close>, the namespace
  rules for references, certificates from a bundle, a Secret or a ConfigMap, namespaces by
  selector, endpoint readiness, the network check and JSON web tokens.
\<close>

section \<open>References to Secrets\<close>

text \<open>Only a reference of a cluster store may name another namespace.\<close>

definition ref_namespace :: "string \<Rightarrow> string \<Rightarrow> string option \<Rightarrow> string" where
  "ref_namespace storeKind esNamespace refNamespace =
     (if storeKind = ClusterSecretStoreKind then
        (case refNamespace of Some n \<Rightarrow> n | None \<Rightarrow> esNamespace)
      else esNamespace)"

definition SecretKeyRef :: "Env \<Rightarrow> string \<Rightarrow> string \<Rightarrow> SecretKeySelector \<Rightarrow> (err + string) io" where
  "SecretKeyRef E storeKind esNamespace ref =
     (let ns = ref_namespace storeKind esNamespace (sks_Namespace ref) in
      do {
        r \<leftarrow> k_get_secret E ns (sks_Name ref);
        ret (case r of
          Inl e \<Rightarrow> Inl (ErrWrap (''cannot get Kubernetes secret '' @ go_quote (sks_Name ref)
                     @ '' from namespace '' @ go_quote ns) e)
        | Inr secret \<Rightarrow> (case mget (sec_Data secret) (sks_Key ref) of
            None \<Rightarrow> Inl (ErrMsg (''cannot find secret data for key: '' @ go_quote (sks_Key ref)))
          | Some val \<Rightarrow> Inr val))
      })"

definition errNamespaceNotAllowed :: err where
  "errNamespaceNotAllowed = Sentinel (''namespace should either be empty or match the namespace of ''
     @ ''the SecretStore for a namespaced SecretStore'')"

definition errRequireNamespace :: err where
  "errRequireNamespace = Sentinel ''cluster scope requires namespace''"

definition selector_error :: "GenericStore \<Rightarrow> string option \<Rightarrow> err option" where
  "selector_error store refNamespace =
     (let clusterScope = (gs_Kind store = ClusterSecretStoreKind) in
      if clusterScope \<and> refNamespace = None then Some errRequireNamespace
      else if \<not> clusterScope \<and> refNamespace \<noteq> None \<and> refNamespace \<noteq> Some (om_Namespace (gs_Meta store))
      then Some errNamespaceNotAllowed else None)"

definition referent_error :: "GenericStore \<Rightarrow> string option \<Rightarrow> err option" where
  "referent_error store refNamespace =
     (let clusterScope = (gs_Kind store = ClusterSecretStoreKind) in
      if \<not> clusterScope \<and> refNamespace \<noteq> None \<and> refNamespace \<noteq> Some (om_Namespace (gs_Meta store))
      then Some errNamespaceNotAllowed else None)"

definition ValidateSecretSelector :: "GenericStore \<Rightarrow> SecretKeySelector \<Rightarrow> err option" where
  "ValidateSecretSelector store ref = selector_error store (sks_Namespace ref)"

definition ValidateReferentSecretSelector :: "GenericStore \<Rightarrow> SecretKeySelector \<Rightarrow> err option" where
  "ValidateReferentSecretSelector store ref = referent_error store (sks_Namespace ref)"

definition ValidateServiceAccountSelector :: "GenericStore \<Rightarrow> ServiceAccountSelector \<Rightarrow> err option" where
  "ValidateServiceAccountSelector store ref = selector_error store (sas_Namespace ref)"

definition ValidateReferentServiceAccountSelector ::
  "GenericStore \<Rightarrow> ServiceAccountSelector \<Rightarrow> err option" where
  "ValidateReferentServiceAccountSelector store ref = referent_error store (sas_Namespace ref)"

section \<open>Hosts and ports\<close>

fun last_colon :: "string \<Rightarrow> nat option" where
  "last_colon [] = None"
| "last_colon (c # s) = (case last_colon s of
     Some i \<Rightarrow> Some (Suc i)
   | None \<Rightarrow> if c = CHR '':'' then Some 0 else None)"

definition validOptionalPort :: "string \<Rightarrow> bool" where
  "validOptionalPort port =
     (port = [] \<or> (hd port = CHR '':'' \<and> list_all is_digit_char (tl port)))"

text \<open>\<open>net/url\<close>: the two halves of \<open>URL.Host\<close>.\<close>

definition splitHostPort :: "string \<Rightarrow> string \<times> string" where
  "splitHostPort hostPort =
     (let (host, port) = (case last_colon hostPort of
            Some i \<Rightarrow> if validOptionalPort (drop i hostPort) then (take i hostPort, drop (Suc i) hostPort)
                      else (hostPort, [])
          | None \<Rightarrow> (hostPort, [])) in
      (if HasPrefix host ''['' \<and> HasSuffix host '']'' then butlast (tl host) else host, port))"

definition NetworkValidate :: "Env \<Rightarrow> string \<Rightarrow> err option io" where
  "NetworkValidate E endpoint = (case urlParse E endpoint of
     None \<Rightarrow> ret (Some (ErrMsg ''could not parse url''))
   | Some (_, urlHost) \<Rightarrow>
       (let (host, port) = splitHostPort urlHost;
            port' = (if port = [] then ''443'' else port) in
        do {
          r \<leftarrow> ask (CDial (host @ '':'' @ port')) (dial E);
          ret (case r of Some e \<Rightarrow> Some (ErrWrap ''error accessing external store'' e) | None \<Rightarrow> None)
        }))"

section \<open>Certificates\<close>

definition parseCertificateBytes :: "Env \<Rightarrow> bytes \<Rightarrow> err + bytes" where
  "parseCertificateBytes E certBytes = (case pemDecode E certBytes of
     None \<Rightarrow> Inl (ErrMsg ''failed to parse the new certificate, not valid pem data'')
   | Some block \<Rightarrow> (case x509Parse E block of
       Some e \<Rightarrow> Inl (ErrWrap ''failed to validate certificate'' e)
     | None \<Rightarrow> Inr certBytes))"

definition base64decode :: "Env \<Rightarrow> bytes \<Rightarrow> err + bytes" where
  "base64decode E cert = (case parseCertificateBytes E cert of
     Inr c \<Rightarrow> Inr c
   | Inl _ \<Rightarrow> (case Decode ''Auto'' cert of
       Inl e \<Rightarrow> Inl (ErrWrap ''failed to decode base64'' e)
     | Inr certificate \<Rightarrow> parseCertificateBytes E certificate))"

definition getCertFromSecret :: "Env \<Rightarrow> CAProvider \<Rightarrow> string \<Rightarrow> string \<Rightarrow> (err + bytes) io" where
  "getCertFromSecret E provider storeKind namespace = do {
     r \<leftarrow> SecretKeyRef E storeKind namespace
            \<lparr>sks_Name = cap_Name provider, sks_Namespace = cap_Namespace provider, sks_Key = cap_Key provider\<rparr>;
     ret (case r of
       Inl e \<Rightarrow> Inl (ErrWrap ''failed to resolve secret key ref'' e)
     | Inr cert \<Rightarrow> Inr cert)
   }"

definition getCertFromConfigMap :: "Env \<Rightarrow> string \<Rightarrow> CAProvider \<Rightarrow> string \<Rightarrow> (err + bytes) io" where
  "getCertFromConfigMap E namespace provider storeKind = do {
     r \<leftarrow> k_get_configmap E (ref_namespace storeKind namespace (cap_Namespace provider)) (cap_Name provider);
     ret (case r of
       Inl e \<Rightarrow> Inl (ErrWrap (''failed to get caProvider secret '' @ cap_Name provider) e)
     | Inr cmData \<Rightarrow> (case mget cmData (cap_Key provider) of
         None \<Rightarrow> Inl (ErrMsg (''failed to get caProvider configMap '' @ cap_Name provider @ '' -> ''
                   @ cap_Key provider))
       | Some val \<Rightarrow> Inr val))
   }"

record CreateCertOpts =
  cco_CABundle :: bytes
  cco_CAProvider :: "CAProvider option"
  cco_StoreKind :: string
  cco_Namespace :: string

definition FetchCACertFromSource :: "Env \<Rightarrow> CreateCertOpts \<Rightarrow> (err + bytes option) io" where
  "FetchCACertFromSource E opts =
     (if length (cco_CABundle opts) > 0 then
        ret (case base64decode E (cco_CABundle opts) of
          Inl e \<Rightarrow> Inl (ErrWrap ''failed to decode ca bundle'' e)
        | Inr pem \<Rightarrow> Inr (Some pem))
      else (case cco_CAProvider opts of
        None \<Rightarrow> ret (Inr None)
      | Some p \<Rightarrow>
          if cco_StoreKind opts \<noteq> ClusterSecretStoreKind \<and> cap_Namespace p \<noteq> None
             \<and> cap_Namespace p \<noteq> Some (cco_Namespace opts) then ret (Inl errNamespaceNotAllowed)
          else if cco_StoreKind opts = ClusterSecretStoreKind \<and> cap_Namespace p = None then
            ret (Inl (ErrMsg ''missing namespace on caProvider secret''))
          else if cap_Type p = ''Secret'' then do {
            r \<leftarrow> getCertFromSecret E p (cco_StoreKind opts) (cco_Namespace opts);
            ret (case r of
              Inl e \<Rightarrow> Inl (ErrWrap ''failed to get cert from secret'' e)
            | Inr cert \<Rightarrow> Inr (Some cert))
          } else if cap_Type p = ''ConfigMap'' then do {
            r \<leftarrow> getCertFromConfigMap E (cco_Namespace opts) p (cco_StoreKind opts);
            ret (case r of
              Inl e \<Rightarrow> Inl (ErrWrap ''failed to get cert from configmap'' e)
            | Inr cert \<Rightarrow> Inr (Some cert))
          } else ret (Inl (ErrMsg (''unsupported CA provider type: '' @ cap_Type p)))))"

section \<open>Namespaces by selector\<close>

definition name_selector :: "string \<Rightarrow> LabelSelector" where
  "name_selector ns = \<lparr>ls_MatchLabels = [(''kubernetes.io/metadata.name'', ns)], ls_MatchExpressions = []\<rparr>"

text \<open>The namespaces of one list that were not collected before.\<close>

fun add_new :: "K8sNamespace list \<Rightarrow> K8sNamespace list \<Rightarrow> K8sNamespace list" where
  "add_new acc [] = acc"
| "add_new acc (n # ns) =
     (if list_ex (\<lambda>m. ns_Name m = ns_Name n) acc then add_new acc ns else add_new (acc @ [n]) ns)"

text \<open>The server answers a list with a selector by the namespaces whose labels match.\<close>

fun target_namespaces ::
  "Env \<Rightarrow> LabelSelector list \<Rightarrow> K8sNamespace list \<Rightarrow> (err + K8sNamespace list) io" where
  "target_namespaces E [] acc = ret (Inr acc)"
| "target_namespaces E (selector # selectors) acc =
     (case selectorOf E selector of
        Inl e \<Rightarrow> ret (Inl (ErrWrap ''failed to convert label selector'' e))
      | Inr matches \<Rightarrow> do {
          r \<leftarrow> k_list_namespaces E;
          case r of
            Inl e \<Rightarrow> ret (Inl (ErrWrap ''failed to list namespaces by label selector'' e))
          | Inr items \<Rightarrow>
              target_namespaces E selectors (add_new acc (filter (\<lambda>n. matches (ns_Labels n)) items))
        })"

definition GetTargetNamespaces ::
  "Env \<Rightarrow> string list \<Rightarrow> LabelSelector list \<Rightarrow> (err + K8sNamespace list) io" where
  "GetTargetNamespaces E namespaceList lbs =
     target_namespaces E (map name_selector namespaceList @ lbs) []"

text \<open>Which namespace updates are watched.\<close>

definition namespaceLabelsChanged :: "string gomap option \<Rightarrow> string gomap option \<Rightarrow> bool" where
  "namespaceLabelsChanged objectOld objectNew = (case (objectOld, objectNew) of
     (Some ob, Some n) \<Rightarrow> set ob \<noteq> set n
   | _ \<Rightarrow> False)"

section \<open>Endpoints\<close>

definition errEndpointSlicesNotReady :: err where
  "errEndpointSlicesNotReady = Sentinel ''endpointSlice objects not ready''"

definition errAddressesNotReady :: err where
  "errAddressesNotReady = Sentinel ''addresses not ready''"

text \<open>An endpoint is its readiness condition and its addresses, a slice a list of endpoints.\<close>

definition ready_addresses :: "(bool option \<times> string list) list list \<Rightarrow> nat" where
  "ready_addresses slices = sum_list (map (\<lambda>slice. sum_list (map (\<lambda>(ready, addresses).
     if ready = Some True then length addresses else 0) slice)) slices)"

definition CheckEndpointSlicesReady :: "Env \<Rightarrow> string \<Rightarrow> string \<Rightarrow> err option io" where
  "CheckEndpointSlicesReady E svcName svcNamespace = do {
     r \<leftarrow> k_list_slices E svcNamespace svcName;
     ret (case r of
       Inl e \<Rightarrow> Some e
     | Inr items \<Rightarrow>
         if length items = 0 then Some errEndpointSlicesNotReady
         else if ready_addresses items = 0 then Some errAddressesNotReady
         else None)
   }"

section \<open>Tokens\<close>

text \<open>\<open>strings.Split\<close> at one character.\<close>

fun split_on :: "char \<Rightarrow> string \<Rightarrow> string list" where
  "split_on c [] = [[]]"
| "split_on c (d # s) = (if d = c then [] # split_on c s
     else (case split_on c s of [] \<Rightarrow> [[d]] | p # ps \<Rightarrow> (d # p) # ps))"

definition ParseJWTClaims :: "Env \<Rightarrow> string \<Rightarrow> err + Json gomap" where
  "ParseJWTClaims E tokenString =
     (let parts = split_on (CHR ''.'') tokenString in
      if length parts \<noteq> 3 then Inl (ErrMsg ''invalid token format'')
      else (case b64_decode False b64_url (parts ! 1) of
        None \<Rightarrow> Inl (ErrWrap ''error decoding payload'' b64_error)
      | Some payload \<Rightarrow> (case json_object E payload of
          None \<Rightarrow> Inl (ErrMsg ''error un-marshaling claims'')
        | Some claims \<Rightarrow> Inr claims)))"

definition ExtractJWTExpiration :: "Env \<Rightarrow> string \<Rightarrow> err + string" where
  "ExtractJWTExpiration E tokenString = (case ParseJWTClaims E tokenString of
     Inl e \<Rightarrow> Inl (ErrWrap ''error getting claims'' e)
   | Inr claims \<Rightarrow> (case mget claims ''exp'' of
       Some (JNum n) \<Rightarrow> Inr (formatFloat E n)
     | _ \<Rightarrow> Inl (ErrMsg ''exp claim not found or wrong type'')))"

definition FetchServiceAccountToken ::
  "Env \<Rightarrow> ServiceAccountSelector \<Rightarrow> string \<Rightarrow> (err + string) io" where
  "FetchServiceAccountToken E saRef namespace = do {
     c \<leftarrow> k_kube_config E ''config'';
     case c of
       Some e \<Rightarrow> ret (Inl e)
     | None \<Rightarrow> do {
         k \<leftarrow> k_kube_config E ''clientset'';
         case k of
           Some e \<Rightarrow> ret (Inl (ErrWrap ''failed to create kubernetes client'' e))
         | None \<Rightarrow> do {
             t \<leftarrow> k_create_token E namespace (sas_Name saRef) (sas_Audiences saRef) 0;
             ret (case t of
               Inl e \<Rightarrow> Inl (ErrWrap ''failed to create token'' e)
             | Inr token \<Rightarrow> Inr token)
           }
       }
   }"

end
