(* ===== verification/Cache.thy ===== *)
theory Cache
  imports Kube
begin

text \<open>
  \<open>runtime/cache\<close>, the cache of clients, and \<open>runtime/util/locks\<close>.  The LRU library is a
  parameter: its answers come from the environment, and what the cache relies on is
  \<open>lru_faithful\<close>: an entry that is found is the one added last under its key and not removed
  since.  The library may drop entries at any time.
\<close>

section \<open>The cache\<close>

definition cacheGet :: "Env \<Rightarrow> string \<Rightarrow> CacheKey \<Rightarrow> AkeylessClient option io" where
  "cacheGet E version key = do {
     r \<leftarrow> ask (CLruGet key) (lruGet E);
     case r of
       None \<Rightarrow> ret None
     | Some (cachedVersion, client) \<Rightarrow>
         if cachedVersion = version then ret (Some client)
         else do { _ \<leftarrow> ask (CLruRemove key) (\<lambda>_. ()); ret None }
   }"

definition cacheAdd :: "string \<Rightarrow> CacheKey \<Rightarrow> AkeylessClient \<Rightarrow> unit io" where
  "cacheAdd version key client = ask (CLruAdd key version client) (\<lambda>_. ())"

text \<open>The entry of a key, from the history alone.\<close>

fun last_added :: "CacheKey \<Rightarrow> history \<Rightarrow> (string \<times> AkeylessClient) option" where
  "last_added k [] = None"
| "last_added k (CLruAdd k' v c # h) = (if k' = k then Some (v, c) else last_added k h)"
| "last_added k (CLruRemove k' # h) = (if k' = k then None else last_added k h)"
| "last_added k (_ # h) = last_added k h"

definition lru_faithful :: "Env \<Rightarrow> bool" where
  "lru_faithful E \<longleftrightarrow> (\<forall>h k e. lruGet E (CLruGet k # h) = Some e \<longrightarrow> last_added k h = Some e)"

lemma cacheGet_run:
  "run_state (cacheGet E v k) h = (case lruGet E (CLruGet k # h) of
     None \<Rightarrow> (None, CLruGet k # h)
   | Some (v', c) \<Rightarrow> if v' = v then (Some c, CLruGet k # h) else (None, CLruRemove k # CLruGet k # h))"
  by (auto simp: cacheGet_def split: option.splits prod.splits)

lemma cacheGet_added:
  assumes "lru_faithful E" and "run_state (cacheGet E v k) h = (Some c, h')"
  shows "last_added k h = Some (v, c)"
  using assms by (auto simp: cacheGet_run lru_faithful_def split: option.splits if_splits)

text \<open>An entry of another version is gone afterwards.\<close>

lemma cacheGet_miss:
  assumes "lru_faithful E" and "run_state (cacheGet E v k) h = (None, h')"
  shows "last_added k h' = None \<or> last_added k h' = last_added k h"
  using assms by (auto simp: cacheGet_run split: option.splits if_splits)

lemma performs_cacheGet [performs_intros]:
  "P (CLruGet k) \<Longrightarrow> P (CLruRemove k) \<Longrightarrow> performs P (cacheGet E v k)"
  unfolding cacheGet_def by (intro performs_intros)

lemma performs_cacheAdd [performs_intros]: "P (CLruAdd k v c) \<Longrightarrow> performs P (cacheAdd v k c)"
  unfolding cacheAdd_def by (intro performs_intros)

section \<open>Locks\<close>

text \<open>
  \<open>sharedLocks\<close> as the set of keys whose mutex is held; \<open>TryLock\<close> gives the key back in place of
  the function that unlocks it.
\<close>

type_synonym secretLocks = "string list"

definition ErrConflict :: err where
  "ErrConflict = Sentinel ''unable to access secret since it is locked''"

definition tryLock :: "string \<Rightarrow> secretLocks \<Rightarrow> bool \<times> secretLocks" where
  "tryLock key locks = (if key \<in> set locks then (False, locks) else (True, key # locks))"

definition unlock :: "string \<Rightarrow> secretLocks \<Rightarrow> secretLocks" where
  "unlock key locks = removeAll key locks"

definition TryLock :: "string \<Rightarrow> string \<Rightarrow> secretLocks \<Rightarrow> (err + string) \<times> secretLocks" where
  "TryLock providerName secretName locks =
     (let key = providerName @ ''#'' @ secretName in
      case tryLock key locks of
        (False, locks') \<Rightarrow>
          (Inl (ErrWrap (''failed to acquire lock: provider: '' @ providerName @ '', secret: ''
             @ secretName) ErrConflict), locks')
      | (True, locks') \<Rightarrow> (Inr key, locks'))"

text \<open>
  Steps of concurrent users of the locks: a user that holds nothing tries to lock, a user that
  holds a key unlocks it.  A state is the table with the keys each user holds.
\<close>

inductive lock_step ::
  "secretLocks \<times> (nat \<Rightarrow> string option) \<Rightarrow> secretLocks \<times> (nat \<Rightarrow> string option) \<Rightarrow> bool" where
  acquire: "held u = None \<Longrightarrow> TryLock p s locks = (Inr key, locks') \<Longrightarrow>
            lock_step (locks, held) (locks', held(u := Some key))"
| refused: "held u = None \<Longrightarrow> TryLock p s locks = (Inl e, locks') \<Longrightarrow>
            lock_step (locks, held) (locks', held)"
| release: "held u = Some key \<Longrightarrow> lock_step (locks, held) (unlock key locks, held(u := None))"

definition lock_inv :: "secretLocks \<times> (nat \<Rightarrow> string option) \<Rightarrow> bool" where
  "lock_inv st \<longleftrightarrow> (case st of (locks, held) \<Rightarrow>
     (\<forall>k. k \<in> set locks \<longleftrightarrow> (\<exists>u. held u = Some k))
     \<and> (\<forall>u v k. held u = Some k \<and> held v = Some k \<longrightarrow> u = v))"

lemma TryLock_Inr:
  "TryLock p s locks = (Inr key, locks') \<longleftrightarrow>
   key = p @ ''#'' @ s \<and> key \<notin> set locks \<and> locks' = key # locks"
  by (auto simp: TryLock_def tryLock_def Let_def)

lemma TryLock_Inl:
  "TryLock p s locks = (Inl e, locks') \<Longrightarrow> p @ ''#'' @ s \<in> set locks \<and> locks' = locks"
  by (auto simp: TryLock_def tryLock_def Let_def split: if_splits)

lemma lock_invD: "lock_inv (locks, held) \<Longrightarrow> k \<in> set locks \<longleftrightarrow> (\<exists>u. held u = Some k)"
  by (simp add: lock_inv_def)

lemma lock_inv_unique: "lock_inv (locks, held) \<Longrightarrow> held u = Some k \<Longrightarrow> held v = Some k \<Longrightarrow> u = v"
  unfolding lock_inv_def by blast

lemma lock_invI:
  "(\<And>k. k \<in> set locks \<longleftrightarrow> (\<exists>u. held u = Some k)) \<Longrightarrow>
   (\<And>u v k. held u = Some k \<Longrightarrow> held v = Some k \<Longrightarrow> u = v) \<Longrightarrow> lock_inv (locks, held)"
  unfolding lock_inv_def by blast

lemma lock_inv_step: "lock_step st st' \<Longrightarrow> lock_inv st \<Longrightarrow> lock_inv st'"
proof (induction rule: lock_step.induct)
  case (acquire held u p s locks key locks')
  then have k: "key \<notin> set locks" "locks' = key # locks" by (auto simp: TryLock_Inr)
  then have free: "held w \<noteq> Some key" for w using acquire by (auto simp: lock_inv_def)
  have upd: "(\<exists>w. (held(u := Some key)) w = Some x) \<longleftrightarrow> x = key \<or> (\<exists>w. held w = Some x)" for x
    using acquire(1) by (metis fun_upd_apply option.distinct(1) option.inject)
  have "x \<in> set locks' \<longleftrightarrow> (\<exists>w. (held(u := Some key)) w = Some x)" for x
    unfolding upd k(2) by (simp add: lock_invD [OF acquire(3)])
  moreover have "v = w" if "(held(u := Some key)) v = Some x" "(held(u := Some key)) w = Some x" for v w x
    using that free lock_inv_unique [OF acquire(3)] by (cases "v = u"; cases "w = u") auto
  ultimately show ?case by (rule lock_invI)
next
  case (refused held u p s locks e locks')
  then show ?case by (auto dest: TryLock_Inl)
next
  case (release held u key locks)
  have "(held(u := None)) w = Some x \<longleftrightarrow> x \<noteq> key \<and> held w = Some x" for w x
    using release(1) lock_inv_unique [OF release(2), of w key u] by (cases "w = u") auto
  then have "(\<exists>w. (held(u := None)) w = Some x) \<longleftrightarrow> x \<noteq> key \<and> (\<exists>w. held w = Some x)" for x
    by simp
  then have "x \<in> set (unlock key locks) \<longleftrightarrow> (\<exists>w. (held(u := None)) w = Some x)" for x
    by (auto simp: unlock_def lock_invD [OF release(2)])
  moreover have "v = w" if "(held(u := None)) v = Some x" "(held(u := None)) w = Some x" for v w x
    using that lock_inv_unique [OF release(2)] by (cases "v = u"; cases "w = u") auto
  ultimately show ?case by (rule lock_invI)
qed

lemma lock_inv_reachable: "lock_step\<^sup>*\<^sup>* st st' \<Longrightarrow> lock_inv st \<Longrightarrow> lock_inv st'"
  by (induction rule: rtranclp_induct) (auto intro: lock_inv_step)

lemma lock_inv_init: "lock_inv ([], \<lambda>_. None)"
  by (simp add: lock_inv_def)

lemma lock_inv_ex1:
  assumes "lock_inv (locks, held)"
  shows "k \<in> set locks \<longleftrightarrow> (\<exists>!u. held u = Some k)"
  using lock_invD [OF assms, of k] lock_inv_unique [OF assms, of _ k] by blast

lemma TryLock_refused:
  "(\<exists>e. fst (TryLock p s locks) = Inl e \<and> errors_is e ErrConflict) \<longleftrightarrow> p @ ''#'' @ s \<in> set locks"
  by (auto simp: TryLock_def tryLock_def Let_def ErrConflict_def)

text \<open>
  C18: whatever concurrent users did with an initially empty table, a lock is refused, with the
  conflict error, exactly if one single user holds the key of that provider and secret.
\<close>

theorem locks_exclusive:
  assumes "lock_step\<^sup>*\<^sup>* ([], \<lambda>_. None) (locks, held)"
  shows "(\<exists>e. fst (TryLock p s locks) = Inl e \<and> errors_is e ErrConflict)
     \<longleftrightarrow> (\<exists>!u. held u = Some (p @ ''#'' @ s))"
  unfolding TryLock_refused by (rule lock_inv_ex1 [OF lock_inv_reachable [OF assms lock_inv_init]])

theorem locks_exclusive_example:
  "(\<exists>e. fst (TryLock ''akeyless'' ''s'' [''akeyless#s'']) = Inl e \<and> errors_is e ErrConflict)
     \<longleftrightarrow> (\<exists>!u. ((\<lambda>_. None)(7 := Some ''akeyless#s'')) (u::nat) = Some (''akeyless'' @ ''#'' @ ''s''))"
proof (rule locks_exclusive)
  have "lock_step ([], \<lambda>_. None) ([''akeyless#s''], (\<lambda>_. None)(7 := Some ''akeyless#s''))"
    by (rule lock_step.acquire [of _ _ "''akeyless''" "''s''"]) (simp_all add: TryLock_Inr)
  then show "lock_step\<^sup>*\<^sup>* ([], \<lambda>_. None) ([''akeyless#s''], (\<lambda>_. None)(7 := Some ''akeyless#s''))"
    by (rule r_into_rtranclp)
qed

text \<open>The key joins provider and secret with a separator that may occur in both.\<close>

lemma lock_key_ambiguous:
  assumes "TryLock p (q @ ''#'' @ s) locks = (Inr key, locks')"
  shows "\<exists>e. fst (TryLock (p @ ''#'' @ q) s locks') = Inl e \<and> errors_is e ErrConflict"
  using assms unfolding TryLock_refused TryLock_Inr by simp

end
