(* ===== verification/Akeyless_Api.thy ===== *)
theory Akeyless_Api
  imports Resolvers Cache
begin

text \<open>
  \<open>providers/v1/akeyless/akeyless_api.go\<close>, \<open>auth.go\<close> and \<open>azure_cloud_id.go\<close>: the requests the
  provider makes.  The token of the Go context is an \<open>option\<close>.  The generated SDK and the cloud
  identity libraries are parameters: a request is recorded with its body, its answer comes from the
  environment.  A nil dereference that the program can reach is the value \<open>GoPanic\<close>.
\<close>

datatype 'a guarded = GoPanic | GoRet 'a

definition ErrItemNotExists :: err where "ErrItemNotExists = Sentinel ''item does not exist''"
definition ErrTokenNotExists :: err where "ErrTokenNotExists = Sentinel ''token does not exist''"

definition extSecretManagedTag :: string where "extSecretManagedTag = ''k8s-external-secrets''"

definition k_rest :: "AkeylessClient \<Rightarrow> RestRequest \<Rightarrow> (history \<Rightarrow> 'a) \<Rightarrow> 'a io" where
  "k_rest a request answer = ask (CRest (ac_GwAPIURL a) request) answer"

section \<open>Tokens in request bodies\<close>

definition SetBodyToken :: "string option \<Rightarrow> err + BodyToken" where
  "SetBodyToken ctxToken = (case ctxToken of
     None \<Rightarrow> Inl ErrTokenNotExists
   | Some token \<Rightarrow> Inr (if HasPrefix token ''u-'' then BodyUidToken token else BodyToken token))"

section \<open>Describing an item\<close>

text \<open>Struct fields are matched without regard to case.\<close>

definition lower :: "char \<Rightarrow> char" where
  "lower c = (if 65 \<le> ord c \<and> ord c \<le> 90 then byte (ord c + 32) else c)"

definition field_is :: "string \<Rightarrow> string \<Rightarrow> bool" where
  "field_is name k \<longleftrightarrow> map lower k = name"

fun string_or_null :: "Json \<Rightarrow> bool" where
  "string_or_null (JStr s) = True"
| "string_or_null JNull = True"
| "string_or_null _ = False"

fun int32_or_null :: "Json \<Rightarrow> bool" where
  "int32_or_null (JNum n) = (ParseInt n 32 \<noteq> None)"
| "int32_or_null JNull = True"
| "int32_or_null _ = False"

text \<open>Whether \<open>json.Unmarshal\<close> into an \<open>*Item\<close> succeeds.\<close>

definition unmarshals_item :: "Env \<Rightarrow> bytes \<Rightarrow> bool" where
  "unmarshals_item E body = (case jsonParse E body of
     Some JNull \<Rightarrow> True
   | Some (JObj kvs) \<Rightarrow> list_all (\<lambda>(k, v).
       (field_is ''item_name'' k \<or> field_is ''item_type'' k \<longrightarrow> string_or_null v)
       \<and> (field_is ''last_version'' k \<longrightarrow> int32_or_null v)) kvs
   | _ \<Rightarrow> False)"

definition DescribeItem :: "Env \<Rightarrow> AkeylessClient \<Rightarrow> string option \<Rightarrow> string \<Rightarrow> (err + RemoteItem) io" where
  "DescribeItem E a ctxToken itemName = (case SetBodyToken ctxToken of
     Inl e \<Rightarrow> ret (Inl e)
   | Inr tok \<Rightarrow> do {
       r \<leftarrow> k_rest a (RDescribeItem itemName tok) (restDescribe E);
       ret (case r of
         RestOk gsvOut \<Rightarrow> Inr gsvOut
       | RestApiErr body _ \<Rightarrow>
           if unmarshals_item E body then Inr zero_item
           else Inl (ErrMsg (''can't describe item: '' @ itemName @ '', error: '' @ body))
       | RestErr e _ \<Rightarrow> Inl (ErrWrap ''can't describe item'' e))
     })"

section \<open>Reading values\<close>

text \<open>\<open>%v\<close> of a JSON value; floats are printed by the environment.\<close>

fun format_v :: "Env \<Rightarrow> Json \<Rightarrow> string" where
  "format_v E JNull = ''<nil>''"
| "format_v E (JBool b) = (if b then ''true'' else ''false'')"
| "format_v E (JNum n) = printFloat E n"
| "format_v E (JStr s) = s"
| "format_v E (JArr js) = ''['' @ join_with '' '' (map (format_v E) js) @ '']''"
| "format_v E (JObj kvs) = ''map['' @ join_with '' ''
     (map (\<lambda>(k, t). k @ '':'' @ t) (sort_key fst (map (\<lambda>(k, v). (k, format_v E v)) kvs))) @ '']''"

definition GetCertificate ::
  "Env \<Rightarrow> AkeylessClient \<Rightarrow> string option \<Rightarrow> string \<Rightarrow> int \<Rightarrow> (err + string) io" where
  "GetCertificate E a ctxToken certificateName version = (case SetBodyToken ctxToken of
     Inl e \<Rightarrow> ret (Inl e)
   | Inr tok \<Rightarrow> do {
       r \<leftarrow> k_rest a (RGetCertificateValue certificateName version (ac_IgnoreCache a) tok) (restCertificate E);
       ret (case r of
         RestOk gcvOut \<Rightarrow> Inr (jsonPrint E gcvOut)
       | RestApiErr body _ \<Rightarrow> Inl (ErrMsg (''can't get certificate value: '' @ body))
       | RestErr e _ \<Rightarrow> Inl (ErrWrap ''can't get certificate value'' e))
     })"

definition rotated_value :: "Env \<Rightarrow> Json gomap \<Rightarrow> err + string" where
  "rotated_value E gsvOut = (case mget gsvOut ''value'' of
     None \<Rightarrow> Inr (jsonPrint E (JObj gsvOut))
   | Some (JObj val) \<Rightarrow> (case mget val ''payload'' of
         Some p \<Rightarrow> Inr (format_v E p)
       | None \<Rightarrow> (case mget val ''target_value'' of
           Some t \<Rightarrow> Inr (jsonPrint E t)
         | None \<Rightarrow> Inr (jsonPrint E (JObj val))))
   | Some _ \<Rightarrow> Inl (ErrMsg ''failure converting key from gsvOut''))"

definition GetRotatedSecrets ::
  "Env \<Rightarrow> AkeylessClient \<Rightarrow> string option \<Rightarrow> string \<Rightarrow> int \<Rightarrow> (err + string) io" where
  "GetRotatedSecrets E a ctxToken secretName version = (case SetBodyToken ctxToken of
     Inl e \<Rightarrow> ret (Inl e)
   | Inr tok \<Rightarrow> do {
       r \<leftarrow> k_rest a (RGetRotatedSecretValue secretName version (ac_IgnoreCache a) tok) (restValues E);
       ret (case r of
         RestOk gsvOut \<Rightarrow> rotated_value E gsvOut
       | RestApiErr body _ \<Rightarrow> Inl (ErrMsg (''can't get rotated secret value: '' @ body))
       | RestErr e _ \<Rightarrow> Inl (ErrWrap ''can't get rotated secret value'' e))
     })"

definition GetDynamicSecrets ::
  "Env \<Rightarrow> AkeylessClient \<Rightarrow> string option \<Rightarrow> string \<Rightarrow> (err + string) io" where
  "GetDynamicSecrets E a ctxToken secretName = (case SetBodyToken ctxToken of
     Inl e \<Rightarrow> ret (Inl e)
   | Inr tok \<Rightarrow> do {
       r \<leftarrow> k_rest a (RGetDynamicSecretValue secretName tok) (restValues E);
       ret (case r of
         RestOk gsvOut \<Rightarrow> Inr (jsonPrint E (JObj gsvOut))
       | RestApiErr body _ \<Rightarrow> Inl (ErrMsg (''can't get dynamic secret value: '' @ body))
       | RestErr e _ \<Rightarrow> Inl (ErrWrap ''can't get dynamic secret value'' e))
     })"

definition static_value :: "Env \<Rightarrow> string \<Rightarrow> Json gomap \<Rightarrow> err + string" where
  "static_value E secretName gsvOut = (case mget gsvOut secretName of
     None \<Rightarrow> Inl (ErrMsg (''can't get secret: '' @ secretName))
   | Some (JStr valStr) \<Rightarrow> Inr valStr
   | Some val \<Rightarrow> Inl (ErrMsg (''can't convert secret value to string: '' @ format_v E val)))"

definition GetStaticSecret ::
  "Env \<Rightarrow> AkeylessClient \<Rightarrow> string option \<Rightarrow> string \<Rightarrow> int \<Rightarrow> (err + string) io" where
  "GetStaticSecret E a ctxToken secretName version = (case SetBodyToken ctxToken of
     Inl e \<Rightarrow> ret (Inl e)
   | Inr tok \<Rightarrow> do {
       r \<leftarrow> k_rest a (RGetSecretValue [secretName] version (ac_IgnoreCache a) tok) (restValues E);
       ret (case r of
         RestOk gsvOut \<Rightarrow> static_value E secretName gsvOut
       | RestApiErr body _ \<Rightarrow> Inl (ErrMsg (''can't get secret value: '' @ body))
       | RestErr e _ \<Rightarrow> Inl (ErrWrap ''can't get secret value'' e))
     })"

definition item_type :: "RemoteItem \<Rightarrow> string" where
  "item_type item = (case ri_ItemType item of None \<Rightarrow> [] | Some t \<Rightarrow> t)"

definition GetSecretByType ::
  "Env \<Rightarrow> AkeylessClient \<Rightarrow> string option \<Rightarrow> string \<Rightarrow> int \<Rightarrow> (err + string) io" where
  "GetSecretByType E a ctxToken secretName version = do {
     d \<leftarrow> DescribeItem E a ctxToken secretName;
     case d of
       Inl e \<Rightarrow> ret (Inl e)
     | Inr item \<Rightarrow>
         if ri_ItemName item = None then ret (Inl ErrItemNotExists)
         else if item_type item = ''STATIC_SECRET'' then GetStaticSecret E a ctxToken secretName version
         else if item_type item = ''DYNAMIC_SECRET'' then GetDynamicSecrets E a ctxToken secretName
         else if item_type item = ''ROTATED_SECRET'' then GetRotatedSecrets E a ctxToken secretName version
         else if item_type item = ''CERTIFICATE'' then GetCertificate E a ctxToken secretName version
         else ret (Inl (ErrMsg (''invalid item type: '' @ item_type item)))
   }"

section \<open>Listing and writing\<close>

text \<open>The items of a listing are given by their names; a response without items is \<open>None\<close>.\<close>

definition ListSecrets ::
  "Env \<Rightarrow> AkeylessClient \<Rightarrow> string option \<Rightarrow> string \<Rightarrow> string \<Rightarrow> (err + string list) io" where
  "ListSecrets E a ctxToken path tag =
     (let MinimalView = (tag = []) in
      case SetBodyToken ctxToken of
        Inl e \<Rightarrow> ret (Inl e)
      | Inr tok \<Rightarrow> do {
          r \<leftarrow> k_rest a (RListItems path [''static-secret'', ''dynamic-secret'', ''rotated-secret'']
                 MinimalView tag tok) (restList E);
          ret (case r of
            RestOk None \<Rightarrow> Inr []
          | RestOk (Some items) \<Rightarrow> Inr (filter (\<lambda>v. path = [] \<or> HasPrefix v path) items)
          | RestApiErr body _ \<Rightarrow> Inl (ErrMsg (''can't get secrets list: '' @ body))
          | RestErr e _ \<Rightarrow> Inl (ErrWrap ''error on get secrets list'' e))
        })"

text \<open>
  The three writers close the body of the response before they look at the error, so an error
  without a response is a nil dereference.
\<close>

fun rest_written :: "unit RestResult \<Rightarrow> err option guarded" where
  "rest_written (RestOk u) = GoRet None"
| "rest_written (RestApiErr body e) = GoRet (Some e)"
| "rest_written (RestErr e responded) = (if responded then GoRet (Some e) else GoPanic)"

definition CreateSecret ::
  "Env \<Rightarrow> AkeylessClient \<Rightarrow> string option \<Rightarrow> string \<Rightarrow> bytes \<Rightarrow> err option guarded io" where
  "CreateSecret E a ctxToken remoteKey data = (case SetBodyToken ctxToken of
     Inl e \<Rightarrow> ret (GoRet (Some e))
   | Inr tok \<Rightarrow> do {
       r \<leftarrow> k_rest a (RCreateSecret remoteKey data [extSecretManagedTag] tok) (restUnit E);
       ret (rest_written r)
     })"

definition UpdateSecret ::
  "Env \<Rightarrow> AkeylessClient \<Rightarrow> string option \<Rightarrow> string \<Rightarrow> bytes \<Rightarrow> err option guarded io" where
  "UpdateSecret E a ctxToken remoteKey data = (case SetBodyToken ctxToken of
     Inl e \<Rightarrow> ret (GoRet (Some e))
   | Inr tok \<Rightarrow> do {
       r \<leftarrow> k_rest a (RUpdateSecretVal remoteKey data tok) (restUnit E);
       ret (rest_written r)
     })"

definition DeleteRemote ::
  "Env \<Rightarrow> AkeylessClient \<Rightarrow> string option \<Rightarrow> string \<Rightarrow> err option guarded io" where
  "DeleteRemote E a ctxToken remoteKey = (case SetBodyToken ctxToken of
     Inl e \<Rightarrow> ret (GoRet (Some e))
   | Inr tok \<Rightarrow> do {
       r \<leftarrow> k_rest a (RDeleteItem remoteKey tok) (restUnit E);
       ret (rest_written r)
     })"

end
