(* ===== verification/Akeyless_Auth.thy ===== *)
theory Akeyless_Auth
  imports Akeyless_Api
begin

text \<open>
  How the provider gets a token: \<open>auth.go\<close>, the authentication part of \<open>akeyless_api.go\<close>, and
  \<open>azure_cloud_id.go\<close>.
\<close>

section \<open>Service account tokens\<close>

definition DefServiceAccountFile :: string where
  "DefServiceAccountFile = ''/var/run/secrets/kubernetes.io/serviceaccount/token''"

definition readK8SServiceAccountJWT :: "Env \<Rightarrow> (err + string) io" where
  "readK8SServiceAccountJWT E = do {
     r \<leftarrow> ask (CReadFile DefServiceAccountFile) (readFile E);
     ret (case r of Inl e \<Rightarrow> Inl e | Inr contentBytes \<Rightarrow> Inr (TrimSpace contentBytes))
   }"

text \<open>The first secret of the service account that has a token.\<close>

fun first_token :: "Env \<Rightarrow> AkeylessClient \<Rightarrow> string \<Rightarrow> string \<Rightarrow> string list \<Rightarrow> (err + string) io" where
  "first_token E a name refNamespace [] =
     ret (Inl (ErrMsg (''cannot find token in secrets bound to service account: '' @ go_quote name)))"
| "first_token E a name refNamespace (tokenRef # refs) = do {
     r \<leftarrow> SecretKeyRef E (ac_StoreKind a) (ac_Namespace a)
            \<lparr>sks_Name = tokenRef, sks_Namespace = Some refNamespace, sks_Key = ''token''\<rparr>;
     case r of
       Inl _ \<Rightarrow> first_token E a name refNamespace refs
     | Inr token \<Rightarrow> ret (Inr token)
   }"

definition getJWTFromServiceAccount ::
  "Env \<Rightarrow> AkeylessClient \<Rightarrow> ServiceAccountSelector \<Rightarrow> (err + string) io" where
  "getJWTFromServiceAccount E a ref =
     (let ns = ref_namespace (ac_StoreKind a) (ac_Namespace a) (sas_Namespace ref) in
      do {
        r \<leftarrow> k_get_sa E ns (sas_Name ref);
        case r of
          Inl e \<Rightarrow> ret (Inl (ErrWrap (''cannot get Kubernetes service account '' @ go_quote (sas_Name ref)) e))
        | Inr sa \<Rightarrow>
            if length (sa_Secrets sa) = 0 then
              ret (Inl (ErrMsg (''cannot find secrets bound to service account: '' @ go_quote (sas_Name ref))))
            else first_token E a (sas_Name ref) ns (sa_Secrets sa)
      })"

definition getJWTfromServiceAccountToken ::
  "Env \<Rightarrow> AkeylessClient \<Rightarrow> ServiceAccountSelector \<Rightarrow> string list \<Rightarrow> int \<Rightarrow> (err + string) io" where
  "getJWTfromServiceAccountToken E a ref additionalAud expirationSeconds =
     (let audiences = sas_Audiences ref @ additionalAud;
          ns = ref_namespace (ac_StoreKind a) (ac_Namespace a) (sas_Namespace ref) in
      do {
        r \<leftarrow> k_create_token E ns (sas_Name ref) audiences expirationSeconds;
        ret (case r of
          Inl e \<Rightarrow> Inl (ErrWrap (''cannot request Kubernetes service account token for service account ''
                     @ go_quote (sas_Name ref)) e)
        | Inr token \<Rightarrow> Inr token)
      })"

definition with_token_key :: "SecretKeySelector \<Rightarrow> SecretKeySelector" where
  "with_token_key ref = (if sks_Key ref = [] then ref\<lparr>sks_Key := ''token''\<rparr> else ref)"

definition getK8SServiceAccountJWT ::
  "Env \<Rightarrow> AkeylessClient \<Rightarrow> AkeylessKubernetesAuth option \<Rightarrow> (err + string) io" where
  "getK8SServiceAccountJWT E a kubernetesAuth = (case kubernetesAuth of
     None \<Rightarrow> readK8SServiceAccountJWT E
   | Some k \<Rightarrow> (case aka_ServiceAccountRef k of
       Some ref \<Rightarrow> do {
         r \<leftarrow> getJWTFromServiceAccount E a ref;
         case r of
           Inr jwt \<Rightarrow> if jwt \<noteq> [] then ret (Inr jwt)
                      else getJWTfromServiceAccountToken E a ref [] 600
         | Inl _ \<Rightarrow> getJWTfromServiceAccountToken E a ref [] 600
       }
     | None \<Rightarrow> (case aka_SecretRef k of
         Some tokenRef \<Rightarrow> SecretKeyRef E (ac_StoreKind a) (ac_Namespace a) (with_token_key tokenRef)
       | None \<Rightarrow> ret (Inl (ErrMsg ''can't determine k8s service account jwt'')))))"

section \<open>Azure workload identity\<close>

definition azureDefaultAudience :: string where
  "azureDefaultAudience = ''api://AzureADTokenExchange''"

definition annotationClientID :: string where
  "annotationClientID = ''azure.workload.identity/client-id''"

definition annotationTenantID :: string where
  "annotationTenantID = ''azure.workload.identity/tenant-id''"

definition azureClientID :: "ServiceAccount \<Rightarrow> string \<Rightarrow> err + string" where
  "azureClientID sa accTypeParam =
     (if mget_str (sa_Annotations sa) annotationClientID \<noteq> [] then
        Inr (mget_str (sa_Annotations sa) annotationClientID)
      else if accTypeParam \<noteq> [] then Inr accTypeParam
      else Inl (ErrMsg (''missing Azure client ID: set accessTypeParam or annotate the service account with ''
             @ annotationClientID)))"

definition azureTenantID :: "Env \<Rightarrow> ServiceAccount \<Rightarrow> err + string" where
  "azureTenantID E sa =
     (if mget_str (sa_Annotations sa) annotationTenantID \<noteq> [] then
        Inr (mget_str (sa_Annotations sa) annotationTenantID)
      else (case envVar E ''AZURE_TENANT_ID'' of
          Some tenantID \<Rightarrow> if tenantID \<noteq> [] then Inr tenantID
            else Inl (ErrMsg (''missing Azure tenant ID: annotate the service account with ''
                   @ annotationTenantID @ '' or set AZURE_TENANT_ID''))
        | None \<Rightarrow> Inl (ErrMsg (''missing Azure tenant ID: annotate the service account with ''
                   @ annotationTenantID @ '' or set AZURE_TENANT_ID''))))"

datatype azureCloud = AzurePublic | AzureGovernment | AzureChina

text \<open>The scope of the public cloud is a constant of the cloud identity library.\<close>

definition azureScope :: "Env \<Rightarrow> azureCloud \<Rightarrow> string" where
  "azureScope E c = (case c of
     AzurePublic \<Rightarrow> azurePublicScope E
   | AzureGovernment \<Rightarrow> ''https://management.usgovcloudapi.net/.default''
   | AzureChina \<Rightarrow> ''https://management.chinacloudapi.cn/.default'')"

definition azureCloudSettingsFromName :: "string \<Rightarrow> azureCloud option" where
  "azureCloudSettingsFromName raw =
     (let name = map lower (TrimSpace raw) in
      if name \<in> {''azurecloud'', ''azurepubliccloud''} then Some AzurePublic
      else if name \<in> {''azureusgovernment'', ''azureusgovernmentcloud''} then Some AzureGovernment
      else if name \<in> {''azurechinacloud'', ''azurechinacloud21vianet''} then Some AzureChina
      else None)"

fun azure_cloud_from :: "Env \<Rightarrow> string list \<Rightarrow> azureCloud" where
  "azure_cloud_from E [] = AzurePublic"
| "azure_cloud_from E (key # keys) = (case envVar E key of
     None \<Rightarrow> azure_cloud_from E keys
   | Some v \<Rightarrow> (case azureCloudSettingsFromName v of
       Some cfg \<Rightarrow> cfg
     | None \<Rightarrow> azure_cloud_from E keys))"

definition azureCloudSettingsFromEnv :: "Env \<Rightarrow> azureCloud" where
  "azureCloudSettingsFromEnv E = azure_cloud_from E [''AZURE_ENVIRONMENT'', ''AZURE_CLOUD'']"

text \<open>
  The credential object calls the assertion function back when the SDK wants it; whether it does
  is the environment's choice, and an error of the callback ends the request.
\<close>

definition azure_access_token ::
  "Env \<Rightarrow> AkeylessClient \<Rightarrow> ServiceAccountSelector \<Rightarrow> string \<Rightarrow> string \<Rightarrow> (err + string) io" where
  "azure_access_token E a ref tenantID clientID =
     (let scope = azureScope E (azureCloudSettingsFromEnv E);
          request = ask (CAzureToken tenantID clientID scope) (azureToken E) in
      do {
        wanted \<leftarrow> State (\<lambda>h. (azureAsserts E h, h));
        if wanted then do {
          assertion \<leftarrow> getJWTfromServiceAccountToken E a ref [azureDefaultAudience] 600;
          case assertion of
            Inl e \<Rightarrow> ret (Inl e)
          | Inr _ \<Rightarrow> request
        } else request
      })"

definition getAzureCloudIDFromServiceAccount ::
  "Env \<Rightarrow> AkeylessClient \<Rightarrow> ServiceAccountSelector option \<Rightarrow> string \<Rightarrow> (err + string) io" where
  "getAzureCloudIDFromServiceAccount E a refOpt accTypeParam = (case refOpt of
     None \<Rightarrow> ret (Inl (ErrMsg ''serviceAccountRef is required''))
   | Some ref \<Rightarrow> do {
       r \<leftarrow> k_get_sa E (ref_namespace (ac_StoreKind a) (ac_Namespace a) (sas_Namespace ref)) (sas_Name ref);
       case r of
         Inl e \<Rightarrow> ret (Inl (ErrWrap (''failed to get service account '' @ go_quote (sas_Name ref)) e))
       | Inr sa \<Rightarrow> (case azureClientID sa accTypeParam of
           Inl e \<Rightarrow> ret (Inl e)
         | Inr clientID \<Rightarrow> (case azureTenantID E sa of
             Inl e \<Rightarrow> ret (Inl e)
           | Inr tenantID \<Rightarrow> (case azureCredential E tenantID clientID of
               Some e \<Rightarrow> ret (Inl (ErrWrap ''failed to create Azure client assertion credential'' e))
             | None \<Rightarrow> do {
                 t \<leftarrow> azure_access_token E a ref tenantID clientID;
                 ret (case t of
                   Inl e \<Rightarrow> Inl (ErrWrap ''failed to get Azure access token'' e)
                 | Inr accessToken \<Rightarrow> Inr (b64_encode b64_std accessToken))
               })))
     })"

definition getAzureCloudID ::
  "Env \<Rightarrow> AkeylessClient \<Rightarrow> string \<Rightarrow> EsAkeylessAuth option \<Rightarrow> (err + string) io" where
  "getAzureCloudID E a accTypeParam auth = (case auth of
     None \<Rightarrow> ask (CCloudId ''azure_ad'' accTypeParam) (cloudId E)
   | Some au \<Rightarrow> (case eaa_ServiceAccountRef au of
       None \<Rightarrow> ask (CCloudId ''azure_ad'' accTypeParam) (cloudId E)
     | Some ref \<Rightarrow> getAzureCloudIDFromServiceAccount E a (Some ref) accTypeParam))"

definition getCloudID ::
  "Env \<Rightarrow> AkeylessClient \<Rightarrow> string \<Rightarrow> string \<Rightarrow> EsAkeylessAuth option \<Rightarrow> (err + string) io" where
  "getCloudID E a provider accTypeParam auth =
     (if provider = ''azure_ad'' then getAzureCloudID E a accTypeParam auth
      else if provider = ''aws_iam'' then ask (CCloudId ''aws_iam'' []) (cloudId E)
      else if provider = ''gcp'' then ask (CCloudId ''gcp'' accTypeParam) (cloudId E)
      else ret (Inl (ErrMsg (''unable to determine provider: '' @ provider))))"

section \<open>Tokens\<close>

definition send_auth :: "Env \<Rightarrow> AkeylessClient \<Rightarrow> AuthBody \<Rightarrow> (err + string) io" where
  "send_auth E a authBody = do {
     r \<leftarrow> k_rest a (RAuth authBody) (restAuth E);
     ret (case r of
       RestOk token \<Rightarrow> Inr token
     | RestApiErr body _ \<Rightarrow> Inl (ErrMsg (''authentication failed: '' @ body))
     | RestErr e _ \<Rightarrow> Inl (ErrWrap ''authentication failed'' e))
   }"

definition GetToken ::
  "Env \<Rightarrow> AkeylessClient \<Rightarrow> string \<Rightarrow> string \<Rightarrow> string \<Rightarrow> EsAkeylessAuth option \<Rightarrow> (err + string) io" where
  "GetToken E a accessID accType accTypeParam auth =
     (let authBody = (authDefaults E)\<lparr>ab_AccessId := accessID\<rparr> in
      if accType = ''api_key'' \<or> accType = ''access_key'' then
        send_auth E a (authBody\<lparr>ab_AccessKey := Some accTypeParam\<rparr>)
      else if accType = ''k8s'' then
        (case Option.bind auth eaa_KubernetesAuth of
           None \<Rightarrow> ret (Inl (ErrMsg ''kubernetes auth configuration is required''))
         | Some k \<Rightarrow> do {
             r \<leftarrow> getK8SServiceAccountJWT E a (Some k);
             case r of
               Inl e \<Rightarrow> ret (Inl (ErrWrap (''failed to read JWT with Kubernetes Auth from ''
                          @ DefServiceAccountFile @ ''. error'') e))
             | Inr jwtString \<Rightarrow> send_auth E a (authBody\<lparr>
                   ab_AccessType := Some accType,
                   ab_K8sServiceAccountToken := Some (b64_encode b64_std jwtString),
                   ab_K8sAuthConfigName := Some accTypeParam\<rparr>)
           })
      else do {
        r \<leftarrow> getCloudID E a accType accTypeParam auth;
        case r of
          Inl e \<Rightarrow> ret (Inl (ErrMsg (''Require Cloud ID '' @ err_string e)))
        | Inr cloudID \<Rightarrow> send_auth E a (authBody\<lparr>ab_AccessType := Some accType, ab_CloudId := Some cloudID\<rparr>)
      })"

text \<open>In the message the object metadata is abbreviated to the name.\<close>

definition GetAKeylessProvider :: "GenericStore \<Rightarrow> err + AkeylessProvider" where
  "GetAKeylessProvider store = (case gs_Provider store of
     None \<Rightarrow> Inl (ErrMsg ''store is missing spec'')
   | Some None \<Rightarrow> Inl (ErrMsg (''invalid provider spec. Missing Akeyless field in store ''
                  @ om_Name (gs_Meta store)))
   | Some (Some prov) \<Rightarrow> Inr prov)"

text \<open>
  A client is only made for a store with an \<open>Auth\<close> section, so its absence here, which would be a
  nil dereference, does not occur (lemma \<open>newClient_auth\<close> of the client theory).
\<close>

definition nil_dereference :: err where
  "nil_dereference = Sentinel ''runtime error: invalid memory address or nil pointer dereference''"

definition checked_token ::
  "Env \<Rightarrow> AkeylessClient \<Rightarrow> EsAkeylessAuth \<Rightarrow> string \<Rightarrow> string \<Rightarrow> string \<Rightarrow> (err + string) io" where
  "checked_token E a auth accessID accessType accessTypeParam =
     (if accessID = [] then ret (Inl (ErrMsg ''missing SecretAccessKey''))
      else if accessType = [] then ret (Inl (ErrMsg ''missing AccessKeyID''))
      else if (accessType = ''api_key'' \<or> accessType = ''access_key'') \<and> accessTypeParam = [] then
        ret (Inl (ErrMsg ''missing AccessTypeParam for Akeyless access key auth''))
      else GetToken E a accessID accessType accessTypeParam (Some auth))"

definition token_from_refs :: "Env \<Rightarrow> AkeylessClient \<Rightarrow> EsAkeylessAuth \<Rightarrow> (err + string) io" where
  "token_from_refs E a auth =
     (let secretRef = eaa_SecretRef auth;
          fetch = SecretKeyRef E (ac_StoreKind a) (ac_Namespace a) in
      do {
        r1 \<leftarrow> fetch (aasr_AccessID secretRef);
        case r1 of
          Inl e \<Rightarrow> ret (Inl (ErrWrap ''could not fetch accessID secret'' e))
        | Inr accessID \<Rightarrow> do {
            r2 \<leftarrow> fetch (aasr_AccessType secretRef);
            case r2 of
              Inl e \<Rightarrow> ret (Inl (ErrWrap ''could not fetch AccessType secret'' e))
            | Inr accessType \<Rightarrow>
                if sks_Name (aasr_AccessTypeParam secretRef) \<noteq> [] then do {
                  r3 \<leftarrow> fetch (aasr_AccessTypeParam secretRef);
                  case r3 of
                    Inl e \<Rightarrow> ret (Inl (ErrWrap ''could not fetch AccessTypeParam secret'' e))
                  | Inr accessTypeParam \<Rightarrow> checked_token E a auth accessID accessType accessTypeParam
                } else checked_token E a auth accessID accessType []
          }
      })"

definition TokenFromSecretRef :: "Env \<Rightarrow> AkeylessClient \<Rightarrow> (err + string) io" where
  "TokenFromSecretRef E a = (case GetAKeylessProvider (ac_Store a) of
     Inl e \<Rightarrow> ret (Inl e)
   | Inr prov \<Rightarrow> (case ap_Auth prov of
       None \<Rightarrow> ret (Inl nil_dereference)
     | Some auth \<Rightarrow> (case eaa_KubernetesAuth auth of
         Some k \<Rightarrow> GetToken E a (aka_AccessID k) ''k8s'' (aka_K8sConfName k) (Some auth)
       | None \<Rightarrow> token_from_refs E a auth)))"

end
