(* ===== verification/Akeyless_Client.thy ===== *)
theory Akeyless_Client
  imports Akeyless_Auth Provider_Interface Adapter
begin

text \<open>
  \<open>providers/v1/akeyless/akeyless.go\<close>, \<open>utils.go\<close> and \<open>version.go\<close>, with \<open>runtime/find\<close>: the
  client the reconcilers use and the provider that makes and caches it.  The check that the
  client's API field is not nil is left out: \<open>newClient\<close> always sets it.
\<close>

section \<open>Utilities\<close>

fun contains :: "string \<Rightarrow> string \<Rightarrow> bool" where
  "contains [] sub = (sub = [])"
| "contains (c # s) sub = (HasPrefix (c # s) sub \<or> contains s sub)"

definition ignoreCacheEnabled :: "AkeylessProvider option \<Rightarrow> bool" where
  "ignoreCacheEnabled prov = (case prov of
     None \<Rightarrow> False
   | Some p \<Rightarrow> (case ap_IgnoreCache p of None \<Rightarrow> False | Some b \<Rightarrow> b))"

definition sendReq :: "Env \<Rightarrow> string \<Rightarrow> string io" where
  "sendReq E url = ask (CProbe url) (probe E)"

definition v2_host_url :: "string \<times> string \<Rightarrow> string \<Rightarrow> string" where
  "v2_host_url = (\<lambda>(scheme, urlHost) path.
     if HasSuffix urlHost ''/v2'' then path
     else (let host' = urlHost @ ''/v2'';
               p = scheme @ ''://'' @ host' in
           if snd (splitHostPort host') \<noteq> [] then p @ '':'' @ snd (splitHostPort host') else p))"

definition getV2Url :: "Env \<Rightarrow> string \<Rightarrow> string io" where
  "getV2Url E path = do {
     rebody \<leftarrow> sendReq E path;
     ret (if contains rebody ''unknown command'' then path
          else if HasSuffix path ''/v2'' then path
          else (case urlParse E path of
              None \<Rightarrow> path
            | Some u \<Rightarrow> v2_host_url u path))
   }"

section \<open>Validating a store\<close>

definition url_error :: "Env \<Rightarrow> AkeylessProvider \<Rightarrow> err option" where
  "url_error E spec = (case ap_GWApiURL spec of
     None \<Rightarrow> None
   | Some u \<Rightarrow>
       if u = [] then None
       else (case urlParse E u of
           None \<Rightarrow> Some (ErrMsg ''invalid akeyless GW API URL'')
         | Some (_, host) \<Rightarrow>
             if host = [] then Some (ErrMsg ''invalid akeyless GW API URL'') else None))"

definition kubernetes_auth_error :: "GenericStore \<Rightarrow> AkeylessKubernetesAuth \<Rightarrow> err option" where
  "kubernetes_auth_error store k =
     (case Option.bind (aka_ServiceAccountRef k) (ValidateReferentServiceAccountSelector store) of
        Some e \<Rightarrow> Some (ErrWrap ''invalid Auth.Kubernetes.ServiceAccountRef'' e)
      | None \<Rightarrow> (case Option.bind (aka_SecretRef k) (ValidateSecretSelector store) of
          Some e \<Rightarrow> Some e
        | None \<Rightarrow>
            if aka_AccessID k = [] then Some (ErrMsg ''missing kubernetes auth-method access-id'')
            else if aka_K8sConfName k = [] then Some (ErrMsg ''missing kubernetes config name'')
            else None))"

definition secret_ref_error :: "GenericStore \<Rightarrow> EsAkeylessAuth \<Rightarrow> err option" where
  "secret_ref_error store auth =
     (let accessID = aasr_AccessID (eaa_SecretRef auth);
          accessType = aasr_AccessType (eaa_SecretRef auth);
          accessTypeParam = aasr_AccessTypeParam (eaa_SecretRef auth) in
      case ValidateSecretSelector store accessID of
        Some e \<Rightarrow> Some e
      | None \<Rightarrow>
          if sks_Name accessID = [] then Some (ErrMsg ''missing akeyless accessID name'')
          else if sks_Key accessID = [] then Some (ErrMsg ''missing akeyless accessID key'')
          else (case ValidateSecretSelector store accessType of
              Some e \<Rightarrow> Some e
            | None \<Rightarrow> (case (if sks_Name accessTypeParam \<noteq> []
                            then ValidateSecretSelector store accessTypeParam else None) of
                Some e \<Rightarrow> Some e
              | None \<Rightarrow> (case Option.bind (eaa_ServiceAccountRef auth)
                              (ValidateReferentServiceAccountSelector store) of
                  Some e \<Rightarrow> Some (ErrWrap ''invalid Auth.ServiceAccountRef'' e)
                | None \<Rightarrow> None))))"

text \<open>No provider, or no \<open>Auth\<close>, is a nil dereference.\<close>

definition ValidateStore :: "Env \<Rightarrow> GenericStore \<Rightarrow> err option guarded" where
  "ValidateStore E store = (case gs_Provider store of
     Some (Some spec) \<Rightarrow> (case url_error E spec of
         Some e \<Rightarrow> GoRet (Some e)
       | None \<Rightarrow> (case ap_Auth spec of
           None \<Rightarrow> GoPanic
         | Some auth \<Rightarrow> (case eaa_KubernetesAuth auth of
             Some k \<Rightarrow> GoRet (kubernetes_auth_error store k)
           | None \<Rightarrow> GoRet (secret_ref_error store auth))))
   | _ \<Rightarrow> GoPanic)"

section \<open>Making a client\<close>

definition defaultAPIUrl :: string where "defaultAPIUrl = ''https://api.akeyless.io''"

text \<open>The certificates of the HTTP client, if it gets a pool of its own.\<close>

definition getAkeylessHTTPClient ::
  "Env \<Rightarrow> string \<Rightarrow> string \<Rightarrow> AkeylessProvider \<Rightarrow> (err + bytes option) io" where
  "getAkeylessHTTPClient E storeKind namespace provider =
     (if length (ap_CABundle provider) = 0 \<and> ap_CAProvider provider = None then ret (Inr None)
      else do {
        r \<leftarrow> FetchCACertFromSource E \<lparr>cco_CABundle = ap_CABundle provider,
               cco_CAProvider = ap_CAProvider provider, cco_StoreKind = storeKind,
               cco_Namespace = namespace\<rparr>;
        ret (case r of
          Inl e \<Rightarrow> Inl e
        | Inr cert \<Rightarrow>
            (let pem = (case cert of None \<Rightarrow> [] | Some c \<Rightarrow> c) in
             if certPool E pem then Inr (Some pem) else Inl (ErrMsg ''failed to append caBundle'')))
      })"

definition newClient :: "Env \<Rightarrow> GenericStore \<Rightarrow> string \<Rightarrow> (err + AkeylessClient) io" where
  "newClient E store namespace = (case GetAKeylessProvider store of
     Inl e \<Rightarrow> ret (Inl e)
   | Inr spec \<Rightarrow> do {
       gwURL \<leftarrow> (case ap_GWApiURL spec of
           Some u \<Rightarrow> if u \<noteq> [] then getV2Url E u else ret defaultAPIUrl
         | None \<Rightarrow> ret defaultAPIUrl);
       if ap_Auth spec = None then ret (Inl (ErrMsg ''missing Auth in store config''))
       else do {
         c \<leftarrow> getAkeylessHTTPClient E (gs_Kind store) namespace spec;
         ret (case c of
           Inl e \<Rightarrow> Inl e
         | Inr ca \<Rightarrow> Inr \<lparr>ac_Store = store, ac_StoreKind = gs_Kind store, ac_Namespace = namespace,
               ac_GwAPIURL = gwURL, ac_IgnoreCache = ignoreCacheEnabled (Some spec), ac_CACert = ca\<rparr>)
       }
     })"

section \<open>Reading\<close>

text \<open>The context with a token: the one it has, or a new one.\<close>

definition contextWithToken :: "Env \<Rightarrow> AkeylessClient \<Rightarrow> string option \<Rightarrow> (err + string option) io" where
  "contextWithToken E a ctxToken = (case ctxToken of
     Some v \<Rightarrow> ret (Inr (Some v))
   | None \<Rightarrow> do {
       r \<leftarrow> TokenFromSecretRef E a;
       ret (case r of Inl e \<Rightarrow> Inl e | Inr token \<Rightarrow> Inr (Some token))
     })"

definition escape_dots :: "string \<Rightarrow> string" where
  "escape_dots s = concat (map (\<lambda>c. if c = CHR ''.'' then [CHR 0x5C, CHR ''.''] else [c]) s)"

definition select_property :: "Env \<Rightarrow> DataRemoteRef \<Rightarrow> string \<Rightarrow> err + bytes" where
  "select_property E ref value =
     (if drr_Property ref = [] then
        (if value \<noteq> [] then Inr value
         else Inl (ErrMsg (''invalid value received, found no value string : '' @ drr_Key ref)))
      else (case (if CHR ''.'' \<in> set (drr_Property ref)
                  then gjsonGet E value (escape_dots (drr_Property ref)) else None) of
          Some s \<Rightarrow> Inr s
        | None \<Rightarrow> (case gjsonGet E value (drr_Property ref) of
            Some s \<Rightarrow> Inr s
          | None \<Rightarrow> Inl (ErrMsg (''key '' @ drr_Property ref @ '' does not exist in value '' @ drr_Key ref)))))"

definition ref_version :: "DataRemoteRef \<Rightarrow> int" where
  "ref_version ref = (if drr_Version ref = [] then 0
     else (case ParseInt (drr_Version ref) 32 of Some i \<Rightarrow> i | None \<Rightarrow> 0))"

definition GetSecret ::
  "Env \<Rightarrow> AkeylessClient \<Rightarrow> string option \<Rightarrow> DataRemoteRef \<Rightarrow> (err + bytes) io" where
  "GetSecret E a ctxToken ref = do {
     r \<leftarrow> contextWithToken E a ctxToken;
     case r of
       Inl e \<Rightarrow> ret (Inl e)
     | Inr ctx \<Rightarrow> do {
         v \<leftarrow> GetSecretByType E a ctx (drr_Key ref) (ref_version ref);
         ret (case v of Inl e \<Rightarrow> Inl e | Inr value \<Rightarrow> select_property E ref value)
       }
   }"

definition GetRemoteItemVersion ::
  "Env \<Rightarrow> AkeylessClient \<Rightarrow> string option \<Rightarrow> string \<Rightarrow> (err + int) io" where
  "GetRemoteItemVersion E a ctxToken itemName = do {
     r \<leftarrow> DescribeItem E a ctxToken itemName;
     ret (case r of
       Inl e \<Rightarrow> Inl e
     | Inr item \<Rightarrow> Inr (case ri_LastVersion item of None \<Rightarrow> 0 | Some v \<Rightarrow> v))
   }"

definition Validate :: "Env \<Rightarrow> AkeylessClient \<Rightarrow> (ValidationResult \<times> err option) io" where
  "Validate E a = do {
     r \<leftarrow> NetworkValidate E (ac_GwAPIURL a);
     ret (case r of
       Some e \<Rightarrow> (ValidationResultError, Some e)
     | None \<Rightarrow> (ValidationResultReady, None))
   }"

definition Close :: "AkeylessClient \<Rightarrow> err option io" where
  "Close a = ret None"

subsection \<open>Finding secrets\<close>

text \<open>The values of the named items; an empty value is left out.\<close>

fun fetch_values ::
  "Env \<Rightarrow> AkeylessClient \<Rightarrow> string option \<Rightarrow> string list \<Rightarrow> bytes gomap \<Rightarrow> (err + bytes gomap) io" where
  "fetch_values E a ctx [] secrets = ret (Inr secrets)"
| "fetch_values E a ctx (name # names) secrets = do {
     r \<leftarrow> GetSecretByType E a ctx name 0;
     case r of
       Inl e \<Rightarrow> ret (Inl e)
     | Inr secretValue \<Rightarrow> fetch_values E a ctx names
         (if secretValue \<noteq> [] then mput name secretValue secrets else secrets)
   }"

text \<open>The tags are ranged over: one listing for each tag value.\<close>

fun list_by_tags ::
  "Env \<Rightarrow> AkeylessClient \<Rightarrow> string option \<Rightarrow> string \<Rightarrow> string gomap \<Rightarrow> string list
   \<Rightarrow> (err + string list) io" where
  "list_by_tags E a ctx searchPath [] acc = ret (Inr acc)"
| "list_by_tags E a ctx searchPath ((k, v) # tags) acc = do {
     r \<leftarrow> ListSecrets E a ctx searchPath v;
     case r of
       Inl e \<Rightarrow> ret (Inl e)
     | Inr potentialSecrets \<Rightarrow> list_by_tags E a ctx searchPath tags (acc @ potentialSecrets)
   }"

definition getSecrets ::
  "Env \<Rightarrow> AkeylessClient \<Rightarrow> string option \<Rightarrow> string \<Rightarrow> string gomap \<Rightarrow> (err + bytes gomap) io" where
  "getSecrets E a ctx searchPath tags = do {
     r \<leftarrow> list_by_tags E a ctx searchPath tags [];
     case r of
       Inl e \<Rightarrow> ret (Inl e)
     | Inr potentialSecretsName \<Rightarrow>
         if length potentialSecretsName = 0 then ret (Inr [])
         else fetch_values E a ctx potentialSecretsName []
   }"

definition findNew :: "Env \<Rightarrow> string \<Rightarrow> err + (string \<Rightarrow> bool)" where
  "findNew E regExp = (case regexpCompile E regExp of
     Inl e \<Rightarrow> Inl (ErrWrap (''could not compile find.name.regexp ['' @ regExp @ '']'') e)
   | Inr re \<Rightarrow> Inr re)"

definition findSecretsFromName ::
  "Env \<Rightarrow> AkeylessClient \<Rightarrow> string option \<Rightarrow> string \<Rightarrow> string \<Rightarrow> (err + bytes gomap) io" where
  "findSecretsFromName E a ctx searchPath regExp = do {
     r \<leftarrow> ListSecrets E a ctx searchPath [];
     case r of
       Inl e \<Rightarrow> ret (Inl e)
     | Inr potentialSecrets \<Rightarrow>
         if length potentialSecrets = 0 then ret (Inr [])
         else (case findNew E regExp of
             Inl e \<Rightarrow> ret (Inl e)
           | Inr matchName \<Rightarrow> fetch_values E a ctx (filter matchName potentialSecrets) [])
   }"

definition search_path :: "string option \<Rightarrow> string" where
  "search_path path = (case path of
     None \<Rightarrow> []
   | Some p \<Rightarrow>
       (let p1 = (if \<not> HasPrefix p ''/'' then ''/'' @ p else p) in
        if \<not> HasSuffix p1 ''/'' then p1 @ ''/'' else p1))"

definition GetAllSecrets ::
  "Env \<Rightarrow> AkeylessClient \<Rightarrow> string option \<Rightarrow> FindRef \<Rightarrow> (err + bytes gomap) io" where
  "GetAllSecrets E a ctxToken ref = do {
     r \<leftarrow> contextWithToken E a ctxToken;
     case r of
       Inl e \<Rightarrow> ret (Inl e)
     | Inr ctx \<Rightarrow> (case fr_NameRegExp ref of
         Some n \<Rightarrow> findSecretsFromName E a ctx (search_path (fr_Path ref)) n
       | None \<Rightarrow>
           if length (fr_Tags ref) > 0 then getSecrets E a ctx (search_path (fr_Path ref)) (fr_Tags ref)
           else ret (Inl (ErrMsg ''unexpected find operator'')))
   }"

definition GetSecretMap ::
  "Env \<Rightarrow> AkeylessClient \<Rightarrow> string option \<Rightarrow> DataRemoteRef \<Rightarrow> (err + bytes gomap) io" where
  "GetSecretMap E a ctxToken ref = do {
     r \<leftarrow> GetSecret E a ctxToken ref;
     ret (case r of
       Inl e \<Rightarrow> Inl e
     | Inr data \<Rightarrow> (case JSONToSecretDataMap E data of
         Inl _ \<Rightarrow> Inl (ErrMsg ''unable to unmarshal secret from JSON'')
       | Inr secretData \<Rightarrow> Inr secretData))
   }"

section \<open>Pushing and deleting\<close>

definition key_ref :: "PushData \<Rightarrow> DataRemoteRef" where
  "key_ref psd = \<lparr>drr_Key = pd_RemoteKey psd, drr_Property = [], drr_Version = []\<rparr>"

definition SecretExists ::
  "Env \<Rightarrow> AkeylessClient \<Rightarrow> string option \<Rightarrow> PushData \<Rightarrow> (err + bool) io" where
  "SecretExists E a ctxToken ref = do {
     r \<leftarrow> GetSecret E a ctxToken (key_ref ref);
     ret (case r of
       Inl e \<Rightarrow> if errors_is e ErrItemNotExists then Inr False else Inl e
     | Inr secret \<Rightarrow>
         if pd_Property ref = [] then Inr True
         else (case json_object E secret of
             None \<Rightarrow> Inl (ErrMsg ''failed to unmarshal secret: invalid JSON format'')
           | Some secretMap \<Rightarrow> Inr (mget secretMap (pd_Property ref) \<noteq> None)))
   }"

text \<open>What the remote value unmarshals to: an error, the nil map, or a map.\<close>

datatype remote_map = NotAnObject | NilMap | RemoteMap "Json gomap"

definition read_remote :: "Env \<Rightarrow> bytes \<Rightarrow> remote_map" where
  "read_remote E b = (case jsonParse E b of
     Some (JObj kvs) \<Rightarrow> RemoteMap kvs
   | Some JNull \<Rightarrow> NilMap
   | _ \<Rightarrow> NotAnObject)"

text \<open>The entries of the Kubernetes Secret that are assigned to the remote map.\<close>

definition pushed_entries :: "K8sSecret \<Rightarrow> PushData \<Rightarrow> Json gomap" where
  "pushed_entries secret psd =
     (if pd_Property psd = [] then map (\<lambda>(k, v). (k, JStr v)) (sec_Data secret)
      else (case mget (sec_Data secret) (pd_SecretKey psd) of
          Some v \<Rightarrow> [(pd_Property psd, JStr v)]
        | None \<Rightarrow> []))"

definition PushSecret ::
  "Env \<Rightarrow> AkeylessClient \<Rightarrow> string option \<Rightarrow> K8sSecret \<Rightarrow> PushData \<Rightarrow> err option guarded io" where
  "PushSecret E a ctxToken secret psd = do {
     c \<leftarrow> contextWithToken E a ctxToken;
     case c of
       Inl e \<Rightarrow> ret (GoRet (Some e))
     | Inr ctx \<Rightarrow> do {
         r \<leftarrow> GetSecret E a ctx (key_ref psd);
         case r of
           Inl e \<Rightarrow>
             if errors_is e ErrItemNotExists then
               CreateSecret E a ctx (pd_RemoteKey psd)
                 (jsonPrint E (JObj (mcopy [] (pushed_entries secret psd))))
             else ret (GoRet (Some e))
         | Inr secretRemote \<Rightarrow> (case read_remote E secretRemote of
             NotAnObject \<Rightarrow>
               ret (GoRet (Some (ErrMsg ''failed to unmarshal remote secret: invalid JSON format'')))
           | NilMap \<Rightarrow>
               if pushed_entries secret psd \<noteq> [] then ret GoPanic
               else if jsonPrint E JNull = secretRemote then ret (GoRet None)
               else UpdateSecret E a ctx (pd_RemoteKey psd) (jsonPrint E JNull)
           | RemoteMap data \<Rightarrow>
               (let dataByte = jsonPrint E (JObj (mcopy data (pushed_entries secret psd))) in
                if dataByte = secretRemote then ret (GoRet None)
                else UpdateSecret E a ctx (pd_RemoteKey psd) dataByte))
       }
   }"

definition managed_tag :: "RemoteItem \<Rightarrow> bool" where
  "managed_tag item = (case ri_ItemTags item of
     None \<Rightarrow> False
   | Some tags \<Rightarrow> extSecretManagedTag \<in> set tags)"

definition delete_property ::
  "Env \<Rightarrow> AkeylessClient \<Rightarrow> string option \<Rightarrow> PushData \<Rightarrow> err option guarded io" where
  "delete_property E a ctx psr = do {
     s \<leftarrow> GetSecret E a ctx (key_ref psr);
     case s of
       Inl e \<Rightarrow> ret (GoRet (Some e))
     | Inr secret \<Rightarrow> (case json_object E secret of
         None \<Rightarrow> ret (GoRet (Some (ErrMsg ''failed to unmarshal secret for deletion: invalid JSON format'')))
       | Some m \<Rightarrow>
           (let secretMap = mdel (pd_Property psr) m in
            if length secretMap = 0 then DeleteRemote E a ctx (pd_RemoteKey psr)
            else UpdateSecret E a ctx (pd_RemoteKey psr) (jsonPrint E (JObj secretMap))))
   }"

definition DeleteSecret ::
  "Env \<Rightarrow> AkeylessClient \<Rightarrow> string option \<Rightarrow> PushData \<Rightarrow> err option guarded io" where
  "DeleteSecret E a ctxToken psr = do {
     c \<leftarrow> contextWithToken E a ctxToken;
     case c of
       Inl e \<Rightarrow> ret (GoRet (Some e))
     | Inr ctx \<Rightarrow> do {
         d \<leftarrow> DescribeItem E a ctx (pd_RemoteKey psr);
         case d of
           Inl e \<Rightarrow> ret (GoRet (Some e))
         | Inr item \<Rightarrow>
             if \<not> managed_tag item then ret (GoRet None)
             else if pd_Property psr = [] then DeleteRemote E a ctx (pd_RemoteKey psr)
             else delete_property E a ctx psr
       }
   }"

section \<open>The provider\<close>

text \<open>The methods of a client as the reconcilers call them, with a context without a token.\<close>

definition akeyless_client :: "Env \<Rightarrow> AkeylessClient \<Rightarrow> SecretsClient" where
  "akeyless_client E a =
     \<lparr>sc_GetSecret = GetSecret E a None,
      sc_GetRemoteItemVersion = Some (GetRemoteItemVersion E a None),
      sc_Validate = Validate E a,
      sc_Close = Close a\<rparr>"

definition cache_key :: "GenericStore \<Rightarrow> string \<Rightarrow> CacheKey" where
  "cache_key store namespace =
     \<lparr>ck_Name = om_Name (gs_Meta store), ck_Namespace = namespace, ck_Kind = gs_Kind store\<rparr>"

definition NewClient :: "Env \<Rightarrow> GenericStore \<Rightarrow> string \<Rightarrow> (err + AkeylessClient) io" where
  "NewClient E store namespace = do {
     let key = cache_key store namespace;
     cached \<leftarrow> cacheGet E (om_ResourceVersion (gs_Meta store)) key;
     case cached of
       Some client \<Rightarrow> ret (Inr client)
     | None \<Rightarrow> do {
         c \<leftarrow> k_kube_config E ''config'';
         case c of
           Some e \<Rightarrow> ret (Inl e)
         | None \<Rightarrow> do {
             k \<leftarrow> k_kube_config E ''clientset'';
             case k of
               Some e \<Rightarrow> ret (Inl e)
             | None \<Rightarrow> do {
                 n \<leftarrow> newClient E store namespace;
                 case n of
                   Inl e \<Rightarrow> ret (Inl e)
                 | Inr client \<Rightarrow> do {
                     _ \<leftarrow> cacheAdd (om_ResourceVersion (gs_Meta store)) key client;
                     ret (Inr client)
                   }
               }
           }
       }
   }"

text \<open>
  The provider as an interface value.  A store that \<open>ValidateStore\<close> cannot look at is never passed
  to it by the reconcilers (lemma \<open>ValidateStore_adapted\<close>).
\<close>

definition akeyless_provider :: "Env \<Rightarrow> SecretProvider" where
  "akeyless_provider E =
     \<lparr>pr_NewClient = (\<lambda>store ns. do {
        r \<leftarrow> NewClient E store ns;
        ret (case r of Inl e \<Rightarrow> Inl e | Inr a \<Rightarrow> Inr (akeyless_client E a))
      }),
      pr_ValidateStore = (\<lambda>store. case ValidateStore E store of
        GoRet r \<Rightarrow> r | GoPanic \<Rightarrow> Some nil_dereference)\<rparr>"

end
