(* ===== verification/Akeyless_Reads.thy ===== *)
theory Akeyless_Reads
  imports Akeyless_Client Sample_Env
begin

text \<open>
  What the Akeyless provider may do.  \<open>may_read a\<close> is the set of calls a client \<open>a\<close> makes when it
  reads: Secrets, service accounts and tokens of the namespaces it is allowed, requests to its own
  gateway that change nothing, the file and cloud lookups of the authentication methods.  With it
  the provider is an instance of the contract \<open>secrets_provider\<close> of the reconcilers.
\<close>

definition own_ns :: "AkeylessClient \<Rightarrow> string \<Rightarrow> bool" where
  "own_ns a ns \<longleftrightarrow> (ac_StoreKind a \<noteq> ClusterSecretStoreKind \<longrightarrow> ns = ac_Namespace a)"

lemma own_ns_ref [simp]: "own_ns a (ref_namespace (ac_StoreKind a) (ac_Namespace a) r)"
  by (simp add: own_ns_def ref_namespace_def)

fun rest_reads :: "RestRequest \<Rightarrow> bool" where
  "rest_reads (RCreateSecret n v tags tok) = False"
| "rest_reads (RUpdateSecretVal n v tok) = False"
| "rest_reads (RDeleteItem n tok) = False"
| "rest_reads _ = True"

fun may_read :: "AkeylessClient \<Rightarrow> Call \<Rightarrow> bool" where
  "may_read a (CGet kind ns n) = (kind \<in> {''Secret'', ''ServiceAccount''} \<and> own_ns a ns)"
| "may_read a (CCreateToken ns sa auds ex) = own_ns a ns"
| "may_read a (CRest u req) = (u = ac_GwAPIURL a \<and> rest_reads req)"
| "may_read a (CReadFile f) = True"
| "may_read a (CDial addr) = True"
| "may_read a (CCloudId p x) = True"
| "may_read a (CAzureToken t c s) = True"
| "may_read a _ = False"

lemma may_read_quiet: "may_read a c \<Longrightarrow> quiet c"
proof (cases c)
  case (CRest u req)
  assume "may_read a c"
  then show ?thesis using CRest by (cases req) (simp_all add: quiet_def)
qed (simp_all add: quiet_def)

section \<open>Requests\<close>

lemma performs_k_rest [performs_intros]: "P (CRest (ac_GwAPIURL a) req) \<Longrightarrow> performs P (k_rest a req f)"
  by (simp add: k_rest_def performs_ask)

lemma performs_DescribeItem [performs_intros]: "performs (may_read a) (DescribeItem E a ctx n)"
  unfolding DescribeItem_def by (intro performs_intros) simp

lemma performs_GetCertificate [performs_intros]: "performs (may_read a) (GetCertificate E a ctx n v)"
  unfolding GetCertificate_def by (intro performs_intros) simp

lemma performs_GetRotatedSecrets [performs_intros]: "performs (may_read a) (GetRotatedSecrets E a ctx n v)"
  unfolding GetRotatedSecrets_def by (intro performs_intros) simp

lemma performs_GetDynamicSecrets [performs_intros]: "performs (may_read a) (GetDynamicSecrets E a ctx n)"
  unfolding GetDynamicSecrets_def by (intro performs_intros) simp

lemma performs_GetStaticSecret [performs_intros]: "performs (may_read a) (GetStaticSecret E a ctx n v)"
  unfolding GetStaticSecret_def by (intro performs_intros) simp

lemma performs_GetSecretByType [performs_intros]: "performs (may_read a) (GetSecretByType E a ctx n v)"
  unfolding GetSecretByType_def by (intro performs_intros)

lemma performs_ListSecrets [performs_intros]: "performs (may_read a) (ListSecrets E a ctx p t)"
  unfolding ListSecrets_def Let_def by (intro performs_intros) simp

section \<open>Authentication\<close>

text \<open>Looking credentials up makes no request to the gateway.\<close>

fun may_lookup :: "AkeylessClient \<Rightarrow> Call \<Rightarrow> bool" where
  "may_lookup a (CRest u req) = False"
| "may_lookup a c = may_read a c"

lemma may_lookup_read: "may_lookup a c \<Longrightarrow> may_read a c"
  by (cases c) simp_all

lemma performs_SecretKeyRef [performs_intros]:
  "performs (may_lookup a) (SecretKeyRef E (ac_StoreKind a) (ac_Namespace a) ref)"
  unfolding SecretKeyRef_def Let_def k_defs by (intro performs_intros) simp

lemma performs_first_token [performs_intros]: "performs (may_lookup a) (first_token E a name ns refs)"
  by (induction E a name ns refs rule: first_token.induct) (auto intro!: performs_intros)

lemma performs_getJWTFromServiceAccount [performs_intros]:
  "performs (may_lookup a) (getJWTFromServiceAccount E a ref)"
  unfolding getJWTFromServiceAccount_def Let_def k_defs by (intro performs_intros) simp

lemma performs_getJWTfromServiceAccountToken [performs_intros]:
  "performs (may_lookup a) (getJWTfromServiceAccountToken E a ref auds ex)"
  unfolding getJWTfromServiceAccountToken_def Let_def k_defs by (intro performs_intros) simp

lemma performs_getK8SServiceAccountJWT [performs_intros]:
  "performs (may_lookup a) (getK8SServiceAccountJWT E a k)"
  unfolding getK8SServiceAccountJWT_def readK8SServiceAccountJWT_def
  by (intro performs_intros) simp

lemma performs_peek [performs_intros]: "performs P (State (\<lambda>h. (f h, h)))"
  by (simp add: performs_def)

lemma performs_azure_access_token [performs_intros]:
  "performs (may_lookup a) (azure_access_token E a ref t c)"
  unfolding azure_access_token_def Let_def by (intro performs_intros) simp_all

lemma performs_getCloudID [performs_intros]: "performs (may_lookup a) (getCloudID E a p x auth)"
  unfolding getCloudID_def getAzureCloudID_def getAzureCloudIDFromServiceAccount_def k_defs
  by (intro performs_intros) simp_all

text \<open>A bound of the token requests, for any predicate that allows the lookups.\<close>

lemma performs_GetToken:
  assumes "\<And>c. may_lookup a c \<Longrightarrow> P c"
    and "\<And>b. ab_AccessId b = i \<Longrightarrow> P (CRest (ac_GwAPIURL a) (RAuth b))"
  shows "performs P (GetToken E a i t p auth)"
  unfolding GetToken_def Let_def send_auth_def
  by (intro performs_intros performs_mono [OF performs_getK8SServiceAccountJWT]
      performs_mono [OF performs_getCloudID] assms) simp_all

lemma performs_token_from_refs:
  assumes "\<And>c. may_lookup a c \<Longrightarrow> P c"
    and "\<And>b. ab_AccessId b \<noteq> [] \<Longrightarrow> P (CRest (ac_GwAPIURL a) (RAuth b))"
  shows "performs P (token_from_refs E a auth)"
  unfolding token_from_refs_def checked_token_def Let_def
  by (intro performs_intros performs_mono [OF performs_SecretKeyRef] performs_GetToken assms) simp_all

lemma performs_TokenFromSecretRef [performs_intros]: "performs (may_read a) (TokenFromSecretRef E a)"
  unfolding TokenFromSecretRef_def
  by (intro performs_intros performs_GetToken performs_token_from_refs) (simp_all add: may_lookup_read)

section \<open>The client\<close>

lemma performs_contextWithToken [performs_intros]: "performs (may_read a) (contextWithToken E a ctx)"
  unfolding contextWithToken_def by (intro performs_intros)

lemma performs_GetSecret [performs_intros]: "performs (may_read a) (GetSecret E a ctx ref)"
  unfolding GetSecret_def by (intro performs_intros)

lemma performs_GetRemoteItemVersion [performs_intros]:
  "performs (may_read a) (GetRemoteItemVersion E a ctx n)"
  unfolding GetRemoteItemVersion_def by (intro performs_intros)

lemma performs_NetworkValidate [performs_intros]:
  "(\<And>x. P (CDial x)) \<Longrightarrow> performs P (NetworkValidate E endpoint)"
  unfolding NetworkValidate_def Let_def by (intro performs_intros) simp

lemma performs_Validate [performs_intros]: "performs (may_read a) (Validate E a)"
  unfolding Validate_def by (intro performs_intros) simp

lemma performs_fetch_values [performs_intros]: "performs (may_read a) (fetch_values E a ctx ns m)"
  by (induction E a ctx ns m rule: fetch_values.induct) (auto intro!: performs_intros)

lemma performs_list_by_tags [performs_intros]: "performs (may_read a) (list_by_tags E a ctx p tags acc)"
  by (induction E a ctx p tags acc rule: list_by_tags.induct) (auto intro!: performs_intros)

lemma performs_GetAllSecrets [performs_intros]: "performs (may_read a) (GetAllSecrets E a ctx ref)"
  unfolding GetAllSecrets_def findSecretsFromName_def getSecrets_def by (intro performs_intros)

lemma performs_GetSecretMap [performs_intros]: "performs (may_read a) (GetSecretMap E a ctx ref)"
  unfolding GetSecretMap_def by (intro performs_intros)

lemma performs_SecretExists [performs_intros]: "performs (may_read a) (SecretExists E a ctx ref)"
  unfolding SecretExists_def by (intro performs_intros)

lemma akeyless_client_quiet: "quiet_client (akeyless_client E a)"
  unfolding quiet_client_def akeyless_client_def Close_def
  by (auto intro: performs_mono [OF performs_GetSecret] performs_mono [OF performs_Validate]
      performs_mono [OF performs_GetRemoteItemVersion] performs_ret may_read_quiet)

section \<open>The provider\<close>

lemma performs_FetchCACert_quiet [performs_intros]: "performs quiet (FetchCACertFromSource E opts)"
  unfolding FetchCACertFromSource_def getCertFromSecret_def getCertFromConfigMap_def
    SecretKeyRef_def Let_def k_defs
  by (intro performs_intros) (simp_all add: quiet_def)

lemma performs_getV2Url_quiet [performs_intros]: "performs quiet (getV2Url E u)"
  unfolding getV2Url_def sendReq_def by (intro performs_intros) (simp add: quiet_def)

lemma performs_newClient_quiet [performs_intros]: "performs quiet (newClient E store ns)"
  unfolding newClient_def getAkeylessHTTPClient_def by (intro performs_intros)

lemma performs_NewClient_quiet [performs_intros]: "performs quiet (NewClient E store ns)"
  unfolding NewClient_def Let_def k_defs by (intro performs_intros) (simp_all add: quiet_def)

lemma results_provider:
  assumes "Inr c \<in> results (pr_NewClient (akeyless_provider E) store ns)"
  obtains a where "c = akeyless_client E a"
proof -
  obtain h h' where run: "run_state (pr_NewClient (akeyless_provider E) store ns) h = (Inr c, h')"
    using assms by (auto simp: results_def)
  obtain r h1 where r: "run_state (NewClient E store ns) h = (r, h1)" by fastforce
  with run that show thesis by (cases r) (auto simp: akeyless_provider_def)
qed

interpretation akl: secrets_provider "akeyless_provider E" for E
proof (unfold_locales, goal_cases)
  case (1 store ns)
  show ?case by (simp add: akeyless_provider_def) (intro performs_intros)
next
  case (2 c store ns)
  then show ?case by (auto elim!: results_provider simp: akeyless_client_quiet)
qed

lemma newClient_fields:
  assumes "run_state (newClient E store ns) h = (Inr a, h')"
  shows "ac_Store a = store \<and> ac_StoreKind a = gs_Kind store \<and> ac_Namespace a = ns"
  using assms
  by (auto simp: newClient_def run_cases split: sum.splits option.splits prod.splits if_splits)

text \<open>A client exists only for a store with an \<open>Auth\<close> section.\<close>

lemma newClient_auth:
  assumes "run_state (newClient E store ns) h = (Inr a, h')"
  shows "\<exists>prov. GetAKeylessProvider (ac_Store a) = Inr prov \<and> ap_Auth prov \<noteq> None"
  using assms newClient_fields [OF assms]
  by (auto simp: newClient_def run_cases split: sum.splits option.splits prod.splits if_splits)

lemma ValidateStore_adapted:
  "ValidateStore E (SecretStoreFromNamespaced s) \<noteq> GoPanic"
  "ValidateStore E (SecretStoreFromCluster c) \<noteq> GoPanic"
  by (auto simp: ValidateStore_def split: option.splits)

definition sample_client :: AkeylessClient where
  "sample_client = \<lparr>ac_Store = SecretStoreFromNamespaced sample_store, ac_StoreKind = SecretStoreKind,
     ac_Namespace = ''app'', ac_GwAPIURL = ''https://api.akeyless.io'', ac_IgnoreCache = False,
     ac_CACert = None\<rparr>"

end
