(* ===== verification/Secret_Laws.thy ===== *)
theory Secret_Laws
  imports Write_Laws Akeyless_Reads Sample_Env
begin

text \<open>
  The AkeylessSecret reconciler run with the Akeyless provider: its reports interpret the locale
  \<open>reconciler\<close>, its program is the shared one, so every run is orderly.  Then the facts about
  single steps: what is fetched, what remote versions are worth, and what a failed attempt leaves
  in the status.
\<close>

lemma performs_failStatus: "performs fail_call (failStatus E a e)"
  unfolding failStatus_def markFailed_def setCondition_def k_defs
  by (rule traces_performs, intro trace_intros) (auto simp: fail_call_def set_condition_ready)

lemma traces_recordSynced: "traces (recordSynced E a versions) record_post"
  unfolding recordSynced_def markReady_def setCondition_def Let_def k_defs
  by (intro trace_intros)
    (auto simp: record_post_def set_condition_ready requeueAfter_def RequeueAfter_pos
      requeue_after_def no_requeue_def)

interpretation as_run: reconciler "akeyless_provider E" "failStatus E a" "recordSynced E a" for E a
  by unfold_locales (rule performs_failStatus, rule traces_recordSynced)

section \<open>The program is the shared one\<close>

lemma traces_applyFetched: "traces (applyFetched E a tn oh data versions) synced_post"
  unfolding applyFetched_def Let_def by (rule as_run.traces_apply)

lemma performs_observeVersions:
  "(\<And>n. performs Q (f n)) \<Longrightarrow> performs Q (observeVersions f ms obs)"
  by (induction f ms obs rule: observeVersions.induct) (auto intro!: performs_intros)

lemma traces_syncSecret: "traces (syncSecret E (akeyless_provider E) a tn oh) synced_post"
  unfolding syncSecret_def
proof (rule as_run.traces_sync [OF performs_fetchSecretData], assumption, goal_cases)
  case (1 f)
  show ?case
    using as_run.fail_synced [of "[]"] traces_applyFetched
    by (auto split: sum.splits simp: orderly_def)
qed

lemma traces_checkRemoteVersions:
  "traces (checkRemoteVersions E (akeyless_provider E) a) (\<lambda>_ cs. list_all quiet cs)"
  unfolding checkRemoteVersions_def
  by (rule as_run.traces_check)
    (auto intro!: performs_intros performs_observeVersions simp: quiet_client_def)

lemma traces_reconcileExisting:
  "traces (reconcileExisting E (akeyless_provider E) a existing) reconcile_post"
  unfolding reconcileExisting_def Let_def
  by (rule as_run.traces_existing [OF traces_checkRemoteVersions traces_syncSecret traces_syncSecret])
    (simp add: requeueAfter_def RequeueAfter_pos)

lemma traces_reconcileLive: "traces (reconcileLive E (akeyless_provider E) a) reconcile_post"
  unfolding reconcileLive_def by (rule traces_live) (rule traces_reconcileExisting)

lemma traces_Reconcile:
  "traces (Reconcile E (akeyless_provider E) ns name)
     (\<lambda>out cs. reconcile_post out cs \<or> cs = [CGet ''AkeylessSecret'' ns name])"
  unfolding Reconcile_def k_get_as_def k_write_as_def
  by (rule traces_finalized [OF traces_reconcileLive])
    (simp add: reconcile_call_def with_finalizer_in)

section \<open>Runs of the AkeylessSecret reconciler\<close>

lemma steps_checkRemoteVersions: "steps (as_step E a) h (checkRemoteVersions E (akeyless_provider E) a)"
  by (rule performs_steps [OF traces_performs [OF traces_checkRemoteVersions] as_quiet])

lemma steps_reconcileLive: "steps (as_step E a) h (reconcileLive E (akeyless_provider E) a)"
proof -
  have sync: "steps (as_step E a) g (syncSecret E (akeyless_provider E) a (targetNameOf a) oh)" for oh g
    by (rule secrets_provider.steps_syncSecret [OF akl.secrets_provider_axioms])
  have merged: "steps (as_step E a) g
      (syncSecret E (akeyless_provider E) (mergeVersions a v) (targetNameOf a) oh)" for v oh g
  proof -
    have "as_step E (mergeVersions a v) = as_step E a" by (simp add: mergeVersions_def)
    moreover have "targetNameOf (mergeVersions a v) = targetNameOf a"
      by (simp add: mergeVersions_def targetNameOf_def)
    ultimately show ?thesis
      by (metis secrets_provider.steps_syncSecret [OF akl.secrets_provider_axioms])
  qed
  have ready: "steps (as_step E a) g (EnsureStoreReady E ns ref)" for ns ref g
    by (rule performs_steps [OF performs_EnsureStoreReady_quiet as_quiet])
  show ?thesis
    unfolding reconcileLive_def reconcileExisting_def Let_def k_get_secret_def
    by (intro steps_intros sync merged ready steps_checkRemoteVersions) (simp add: as_quiet)
qed

text \<open>
  C1: a reconcile of an AkeylessSecret reads the resource and, unless it is gone or being deleted, makes
  no other write to the API server than these: it appends its finalizer to the resource it read when it
  is not there and changes nothing else of it; it updates the status of that resource, as the server
  returned it, and nothing else of it; it creates the Secret with the target's name in the resource's
  namespace when that was just not found, or updates the one that was just read, keeping all but the
  data, one label and one annotation; and it stamps workloads its restart targets name in that namespace,
  as they were just read.  The data of the Secret has a key for every mapping and no other.  It changes
  nothing in Akeyless.  This holds whatever the answers are.
\<close>

theorem reconcile_writes:
  "case run_state (Reconcile E (akeyless_provider E) ns name) h of (out, h') \<Rightarrow>
     let h1 = CGet ''AkeylessSecret'' ns name # h in
     (case getAS E h1 ns name of
        Inl e \<Rightarrow> h' = h1
      | Inr a \<Rightarrow>
          if om_DeletionTimestamp (as_Meta a) \<noteq> None then h' = h1
          else if finalizer \<in> set (om_Finalizers (as_Meta a)) then runs_on (as_step E a) h1 h'
          else let b = a\<lparr>as_Meta := (as_Meta a)\<lparr>om_Finalizers := om_Finalizers (as_Meta a) @ [finalizer]\<rparr>\<rparr>;
                   h2 = CUpdate (OAS b) # h1 in
               if writeErr E h2 \<noteq> None then h' = h2
               else runs_on (as_step E (answeredAS E h2 b)) h2 h')"
  using steps_runs_on [OF steps_reconcileLive]
  by (auto simp: Reconcile_def k_get_as_def k_write_as_def with_finalizer_id with_finalizer_new Let_def
      split: sum.splits option.splits prod.splits)

text \<open>
  C2: one reconcile writes the Secret at most once; no workload is restarted and no status with a
  true Ready condition is written before the Secret was written in the same run.
\<close>

theorem reconcile_order:
  "traces (Reconcile E (akeyless_provider E) ns name)
     (\<lambda>_ cs. secret_count cs \<le> 1 \<and> follows is_secret_write restarts cs
        \<and> follows is_secret_write ready_status cs)"
  by (rule traces_mono [OF traces_Reconcile]) (auto simp: reconcile_post_def orderly_def)

text \<open>
  C4: a reconcile that returns no error asks to be run again after a positive delay, unless the
  resource was gone or being deleted and nothing but the resource itself was read; and when it
  wrote the Secret it also wrote a status with a true Ready condition.
\<close>

theorem reconcile_reschedules:
  "traces (Reconcile E (akeyless_provider E) ns name)
     (\<lambda>out cs. case snd out of Some e \<Rightarrow> True
        | None \<Rightarrow> cs = [CGet ''AkeylessSecret'' ns name]
            \<or> 0 < cr_RequeueAfter (fst out)
              \<and> (if list_ex is_secret_write cs then list_ex ready_status cs else True))"
  by (rule traces_mono [OF traces_Reconcile]) (auto simp: reconcile_post_def split: option.splits)

text \<open>
  A resource that is being deleted is left alone: the run reads it and returns, so the
  finalizer the reconciler added stays on it.
\<close>

theorem deleted_untouched:
  assumes "getAS E (CGet ''AkeylessSecret'' ns name # h) ns name = Inr a"
    and "om_DeletionTimestamp (as_Meta a) \<noteq> None"
  shows "run_state (Reconcile E P ns name) h
    = ((no_requeue, None), CGet ''AkeylessSecret'' ns name # h)"
  using assms by (simp add: Reconcile_def k_get_as_def)

definition sample_deleted :: AkeylessSecret where
  "sample_deleted = sample_as\<lparr>as_Meta := sample_meta\<lparr>om_DeletionTimestamp := Some 5,
     om_Finalizers := [finalizer]\<rparr>\<rparr>"

theorem deleted_untouched_example:
  "run_state (Reconcile (sample_env\<lparr>getAS := \<lambda>h ns n. Inr sample_deleted\<rparr>)
     (akeyless_provider sample_env) ''app'' ''db'') []
   = ((no_requeue, None), [CGet ''AkeylessSecret'' ''app'' ''db''])"
  by (rule deleted_untouched [where a = sample_deleted]) (simp_all add: sample_deleted_def)

section \<open>Fetching\<close>

text \<open>The client looks the version up with a context that has no token.\<close>

lemma version_no_token: "GetRemoteItemVersion E a None n = ret (Inl ErrTokenNotExists)"
  by (simp add: GetRemoteItemVersion_def DescribeItem_def SetBodyToken_def)

text \<open>The mappings read in order by the client alone, up to the first one that fails.\<close>

fun read_all ::
  "(DataRemoteRef \<Rightarrow> (err + bytes) io) \<Rightarrow> SecretMapping list \<Rightarrow> (string \<times> err + bytes list) io" where
  "read_all get [] = ret (Inr [])"
| "read_all get (m # ms) = do {
     r \<leftarrow> get (adaptRemoteRef (sm_RemoteRef m));
     case r of
       Inl e \<Rightarrow> ret (Inl (rr_Key (sm_RemoteRef m), e))
     | Inr val \<Rightarrow> do {
         rest \<leftarrow> read_all get ms;
         ret (case rest of Inl e \<Rightarrow> Inl e | Inr vals \<Rightarrow> Inr (val # vals))
       }
   }"

definition collected :: "SecretMapping list \<Rightarrow> bytes gomap \<Rightarrow> int gomap
    \<Rightarrow> string \<times> err + bytes list \<Rightarrow> string \<times> err + bytes gomap \<times> int gomap" where
  "collected ms data versions r = (case r of
     Inl e \<Rightarrow> Inl e
   | Inr vals \<Rightarrow> Inr (mcopy data (zip (map sm_SecretKey ms) vals), versions))"

lemma fetch_read_all:
  "run_state (fetchSecretData (akeyless_client E a) ms data versions) h
   = apfst (collected ms data versions) (run_state (read_all (GetSecret E a None) ms) h)"
proof (induction ms arbitrary: data h)
  case Nil
  then show ?case by (simp add: collected_def)
next
  case (Cons m ms)
  show ?case
  proof (cases "run_state (GetSecret E a None (adaptRemoteRef (sm_RemoteRef m))) h")
    case (Pair r h')
    show ?thesis
    proof (cases r)
      case (Inl e)
      then show ?thesis using Pair by (simp add: akeyless_client_def collected_def)
    next
      case (Inr val)
      have "run_state (fetchSecretData (akeyless_client E a) (m # ms) data versions) h
          = run_state (fetchSecretData (akeyless_client E a) ms (mput (sm_SecretKey m) val data) versions) h'"
        using Pair Inr by (simp add: akeyless_client_def version_no_token)
      then show ?thesis
        using Pair Inr Cons.IH [of "mput (sm_SecretKey m) val data" h']
        by (cases "run_state (read_all (GetSecret E a None) ms) h'")
          (auto simp: collected_def split: sum.splits)
    qed
  qed
qed

text \<open>
  C5: fetching is all or nothing: it makes exactly the reads of the mappings in their order up to
  the first that fails, whose key and error are the result; when all succeed the data is the
  mappings' keys with the values read, a later mapping of a key winning, and no version is
  recorded.
\<close>

theorem fetch_all_or_nothing:
  "run_state (fetchSecretData (akeyless_client E a) ms [] []) h =
     (case run_state (read_all (GetSecret E a None) ms) h of
        (Inl (key, e), h') \<Rightarrow> (Inl (key, e), h')
      | (Inr vals, h') \<Rightarrow> (Inr (mcopy [] (zip (map sm_SecretKey ms) vals), []), h'))"
  unfolding fetch_read_all by (auto simp: collected_def split: prod.splits sum.splits)

section \<open>Remote versions\<close>

lemma traces_akl_client:
  "traces (pr_NewClient (akeyless_provider E) store ns)
     (\<lambda>r _. \<forall>c. r = Inr c \<longrightarrow> (\<exists>a. c = akeyless_client E a))"
  unfolding akeyless_provider_def
  by (auto intro!: trace_intros traces_mono [OF performs_traces [OF performs_NewClient_quiet]]
      split: sum.splits)

lemma observe_no_token:
  "observeVersions (GetRemoteItemVersion E a None) (m # ms) observed
   = ret (Inl (ErrWrap (''describe '' @ go_quote (rr_Key (sm_RemoteRef m))) ErrTokenNotExists))"
  by (simp add: version_no_token)

text \<open>
  C8: with the Akeyless provider the check for changed remote versions fails for every resource
  with a mapping, as \<open>GetRemoteItemVersion\<close> asks without a token.  A resource with one of the two
  policies that rely on it ends every run that is not due in an error.
\<close>

theorem remote_check_fails:
  "traces (checkRemoteVersions E (akeyless_provider E) a)
     (\<lambda>r _. asp_Data (as_Spec a) = [] \<or> (\<exists>e. r = Inl e))"
proof (cases "asp_Data (as_Spec a)")
  case Nil
  then show ?thesis by (intro traces_mono [OF traces_checkRemoteVersions]) simp
next
  case (Cons m ms)
  have close: "traces (do { _ \<leftarrow> sc_Close (akeyless_client E b); ret r }) (\<lambda>r' _. r' = r)" for b r
    by (simp add: akeyless_client_def Close_def traces_ret)
  show ?thesis
    unfolding checkRemoteVersions_def Cons
  proof (rule traces_performs_bind [OF performs_ResolveStore_quiet], intro traces_case_sum
      traces_case_prod traces_ret, goal_cases)
    case (2 r cs x store k)
    show ?case
      by (rule traces_bind, rule traces_mono [OF traces_akl_client], intro traces_case_sum traces_ret)
        (auto simp: akeyless_client_def version_no_token Close_def intro!: traces_ret)
  qed simp
qed

fun status_versions :: "Call \<Rightarrow> int gomap option" where
  "status_versions (CStatusUpdate (OAS a)) = Some (ss_RemoteVersions (as_Status a))"
| "status_versions _ = None"

lemma quiet_versions: "quiet c \<Longrightarrow> status_versions c = None"
  by (cases c rule: status_versions.cases) simp_all

lemma fetch_versions:
  "traces (fetchSecretData (akeyless_client E a) ms d v)
     (\<lambda>r cs. list_all quiet cs \<and> (\<forall>d' v'. r = Inr (d', v') \<longrightarrow> v' = v))"
proof (rule traces_conj [OF performs_traces [OF performs_fetchSecretData [OF akeyless_client_quiet]]])
  show "traces (fetchSecretData (akeyless_client E a) ms d v) (\<lambda>r _. \<forall>d' v'. r = Inr (d', v') \<longrightarrow> v' = v)"
  proof (induction ms arbitrary: d)
    case Nil
    then show ?case by (auto intro: traces_ret)
  next
    case (Cons m ms)
    show ?case
      using Cons
      by (auto simp: akeyless_client_def version_no_token split: sum.splits
          intro!: traces_bind traces_ret traces_mono [OF performs_traces [OF performs_GetSecret]])
  qed
qed

lemma performs_failStatus_versions:
  "performs (\<lambda>c. status_versions c \<in> {None, Some (ss_RemoteVersions (as_Status a))}) (failStatus E a e)"
  unfolding failStatus_def markFailed_def setCondition_def k_defs
  by (rule traces_performs, intro trace_intros) auto

lemma performs_recordSynced_versions:
  "performs (\<lambda>c. status_versions c \<in> {None, Some (ss_RemoteVersions (as_Status a))}) (recordSynced E a [])"
  unfolding recordSynced_def markReady_def setCondition_def Let_def k_defs
  by (rule traces_performs, intro trace_intros) auto

lemma performs_Apply_versions:
  "performs (\<lambda>c. status_versions c = None) (ApplyManagedSecret E owner ns name target data)"
  by (rule performs_ApplyManagedSecret) simp_all

lemma performs_Rollout_versions:
  "performs (\<lambda>c. status_versions c = None) (TriggerRolloutRestarts E ns targets)"
  by (rule performs_TriggerRolloutRestarts) simp_all

definition keeps_versions :: "AkeylessSecret \<Rightarrow> Call \<Rightarrow> bool" where
  "keeps_versions a c \<longleftrightarrow> status_versions c \<in> {None, Some (ss_RemoteVersions (as_Status a))}"

lemma quiet_keeps: "list_all quiet cs \<Longrightarrow> list_all (keeps_versions a) cs"
  by (auto elim: list.pred_mono_strong simp: quiet_versions keeps_versions_def)

lemma performs_failStatus_keeps [performs_intros]: "performs (keeps_versions a) (failStatus E a e)"
  by (rule performs_mono [OF performs_failStatus_versions]) (simp add: keeps_versions_def)

lemma performs_applyFetched_keeps: "performs (keeps_versions a) (applyFetched E a tn oh d [])"
  unfolding applyFetched_def Let_def
  by (intro performs_intros performs_mono [OF performs_recordSynced_versions]
      performs_mono [OF performs_Apply_versions] performs_mono [OF performs_Rollout_versions])
    (simp_all add: keeps_versions_def)

lemma performs_syncSecret_keeps:
  "performs (keeps_versions a) (syncSecret E (akeyless_provider E) a tn oh)"
  unfolding syncSecret_def
proof (rule traces_performs, rule traces_performs_bind [OF performs_ResolveStore_quiet], goal_cases)
  case (1 r cs)
  then have c: "list_all (keeps_versions a) cs" by (rule quiet_keeps)
  have fail: "traces (do { _ \<leftarrow> failStatus E a e; ret out }) (\<lambda>_ ds. list_all (keeps_versions a) (ds @ es))"
    if "list_all (keeps_versions a) es" for e es and out :: outcome
    by (rule traces_performs_bind [OF performs_failStatus_keeps], rule traces_ret) (simp add: that)
  show ?case
  proof (intro traces_case_sum traces_case_prod fail [OF c] traces_bind, goal_cases)
    case (1 x store k)
    show ?case
    proof (rule traces_mono [OF traces_conj [OF secrets_provider.traces_NewClient [OF akl.secrets_provider_axioms] traces_akl_client]], goal_cases)
      case (1 cl ds)
      then have dc: "list_all (keeps_versions a) (ds @ cs)" using c by (simp add: quiet_keeps)
      show ?case
      proof (cases cl)
        case (Inl e)
        then show ?thesis using fail [OF dc] by simp
      next
        case (Inr client)
        then obtain b where b: "client = akeyless_client E b" using 1 by blast
        have close: "sc_Close (akeyless_client E b) = ret None"
          by (simp add: akeyless_client_def Close_def)
        show ?thesis
          unfolding Inr b sum.case close bind_left_identity
        proof (rule traces_bind, rule traces_mono [OF fetch_versions], goal_cases)
          case (1 f es)
          then have edc: "list_all (keeps_versions a) (es @ ds @ cs)" using dc by (simp add: quiet_keeps)
          have "traces (applyFetched E a tn oh d []) (\<lambda>_ us. list_all (keeps_versions a) (us @ es @ ds @ cs))"
            for d
            by (rule traces_mono [OF performs_traces [OF performs_applyFetched_keeps]]) (use edc in simp)
          then show ?case
            using 1 fail [OF edc] by (auto simp del: list_all_append split: sum.splits)
        qed
      qed
    qed
  qed
qed

text \<open>
  A synchronisation never changes the versions recorded in the status: as they cannot be read,
  every status it writes has the versions it started from.
\<close>

theorem versions_never_recorded:
  "performs (\<lambda>c. status_versions c \<in> {None, Some (ss_RemoteVersions (as_Status a))})
     (syncSecret E (akeyless_provider E) a targetName oldHash)"
  using performs_syncSecret_keeps [of a E targetName oldHash] by (simp add: keeps_versions_def [abs_def])

text \<open>
  The versions a check observed are merged into the status before the values are fetched.
  Whatever happens then, also when the fetch fails, no status written by the run differs from the
  observed versions any more: the next check sees no change, and the new value is not fetched
  before it is due for another reason.
\<close>

theorem failed_fetch_hides_change:
  assumes "distinct (map fst (ss_RemoteVersions (as_Status a)))" "distinct (map fst observed)"
    and "fst ` set (ss_RemoteVersions (as_Status a)) \<subseteq> fst ` set observed"
  shows "performs (\<lambda>c. case status_versions c of None \<Rightarrow> True | Some v \<Rightarrow> \<not> RemoteVersionsChanged v observed)
     (syncSecret E (akeyless_provider E) (mergeVersions a observed) targetName oldHash)"
proof -
  let ?m = "mcopy (ss_RemoteVersions (as_Status a)) observed"
  have "mget ?m k = mget observed k" for k
  proof (cases "mget observed k")
    case None
    then have "k \<notin> fst ` set (ss_RemoteVersions (as_Status a))"
      using assms(3) by (auto simp: map_of_eq_None_iff)
    then have "mget (ss_RemoteVersions (as_Status a)) k = None" by (simp add: map_of_eq_None_iff)
    then show ?thesis using None assms(2) by (simp add: mget_mcopy)
  next
    case (Some v)
    then show ?thesis using assms(2) by (simp add: mget_mcopy)
  qed
  then have "\<not> RemoteVersionsChanged ?m observed"
    using assms by (intro RemoteVersionsChanged_same) (auto simp: map_eq_def distinct_mcopy)
  then show ?thesis
    by (intro performs_mono [OF performs_syncSecret_keeps]) (auto simp: mergeVersions_def keeps_versions_def)
qed

theorem failed_fetch_hides_change_example:
  "performs (\<lambda>c. case status_versions c of None \<Rightarrow> True
       | Some v \<Rightarrow> \<not> RemoteVersionsChanged v [(''/db/password'', 7)])
     (syncSecret sample_env (akeyless_provider sample_env)
        (mergeVersions sample_as [(''/db/password'', 7)]) ''db'' [])"
  by (rule failed_fetch_hides_change) (simp_all add: sample_as_def sample_status_def)

end
