(* ===== verification/Dynamic_Controller.thy ===== *)
theory Dynamic_Controller
  imports Secret_Controller
begin

text \<open>
  \<open>pkg/controllers/akeylessdynamicsecret\<close>: the reconciler of AkeylessDynamicSecret.  It has the
  shape of the AkeylessSecret reconciler with one remote item instead of a list of mappings; it
  differs in polling every minute by default, in computing the requeue delay from the
  configuration it captured before the synchronisation, and in comparing a single version.
\<close>

section \<open>Conditions and refresh configuration\<close>

definition dynSetCondition ::
  "instant \<Rightarrow> AkeylessDynamicSecret \<Rightarrow> string \<Rightarrow> string \<Rightarrow> string \<Rightarrow> string \<Rightarrow> AkeylessDynamicSecret" where
  "dynSetCondition t d ty status reason message = d\<lparr>ads_Status := (ads_Status d)\<lparr>
     ss_Conditions := set_condition t ty status reason message (ss_Conditions (ads_Status d))\<rparr>\<rparr>"

definition dynMarkReady :: "Env \<Rightarrow> AkeylessDynamicSecret \<Rightarrow> AkeylessDynamicSecret io" where
  "dynMarkReady E d = do {
     t \<leftarrow> now E;
     ret (dynSetCondition t d SecretConditionReady ConditionTrue ReasonSecretSynced
            ''dynamic secret synced'')
   }"

definition dynMarkFailed :: "Env \<Rightarrow> AkeylessDynamicSecret \<Rightarrow> err \<Rightarrow> AkeylessDynamicSecret io" where
  "dynMarkFailed E d e = do {
     t \<leftarrow> now E;
     _ \<leftarrow> k_event ''Warning'' ReasonSecretSyncedError (err_string e);
     ret (dynSetCondition t d SecretConditionReady ConditionFalse ReasonSecretSyncedError (err_string e))
   }"

definition dynFailStatus :: "Env \<Rightarrow> AkeylessDynamicSecret \<Rightarrow> err \<Rightarrow> unit io" where
  "dynFailStatus E d e = do {
     d' \<leftarrow> dynMarkFailed E d e;
     _ \<leftarrow> k_write_ads E CStatusUpdate d';
     ret ()
   }"

definition dynRefreshConfig :: "AkeylessDynamicSecret \<Rightarrow> RefreshConfig" where
  "dynRefreshConfig d =
     \<lparr>rc_Policy = adp_SyncPolicy (ads_Spec d),
      rc_SyncInterval = adp_SyncInterval (ads_Spec d),
      rc_DefaultPoll = minute,
      rc_Generation = om_Generation (ads_Meta d),
      rc_SyncedGen = ss_SyncedGeneration (ads_Status d),
      rc_RefreshTime = ss_RefreshTime (ads_Status d),
      rc_Annotations = om_Annotations (ads_Meta d)\<rparr>"

text \<open>The reconciler's own copy of the update predicate.\<close>

definition dynForceSyncChanged :: "ObjectMeta option \<Rightarrow> ObjectMeta option \<Rightarrow> bool" where
  "dynForceSyncChanged oldObj newObj = (case (oldObj, newObj) of
     (Some ob, Some n) \<Rightarrow>
       mget_str (om_Annotations ob) AnnotationForceSync \<noteq> mget_str (om_Annotations n) AnnotationForceSync
   | _ \<Rightarrow> True)"

section \<open>Looking at the remote version\<close>

definition dynCheckRemoteVersion ::
  "Env \<Rightarrow> SecretProvider \<Rightarrow> AkeylessDynamicSecret \<Rightarrow> (err + bool \<times> int) io" where
  "dynCheckRemoteVersion E P d = do {
     r \<leftarrow> ResolveStore E (om_Namespace (ads_Meta d)) (adp_StoreRef (ads_Spec d));
     case r of
       Inl e \<Rightarrow> ret (Inl e)
     | Inr (store, _) \<Rightarrow> do {
         c \<leftarrow> pr_NewClient P store (om_Namespace (ads_Meta d));
         case c of
           Inl e \<Rightarrow> ret (Inl e)
         | Inr client \<Rightarrow> do {
             res \<leftarrow> (case sc_GetRemoteItemVersion client of
                 None \<Rightarrow> ret (Inr (True, 0))
               | Some getVersion \<Rightarrow> do {
                   v \<leftarrow> getVersion (adp_Path (ads_Spec d));
                   ret (case v of
                     Inl e \<Rightarrow> Inl (ErrWrap (''describe '' @ go_quote (adp_Path (ads_Spec d))) e)
                   | Inr version \<Rightarrow>
                       Inr (mget_int (ss_RemoteVersions (ads_Status d)) (adp_Path (ads_Spec d)) \<noteq> version,
                            version))
                 });
             _ \<leftarrow> sc_Close client;
             ret res
           }
       }
   }"

section \<open>Synchronising\<close>

definition dynSecretKey :: "AkeylessDynamicSecret \<Rightarrow> string" where
  "dynSecretKey d = (if adp_SecretKey (ads_Spec d) = [] then ''value'' else adp_SecretKey (ads_Spec d))"

definition dynRemoteRef :: "AkeylessDynamicSecret \<Rightarrow> RemoteRef" where
  "dynRemoteRef d =
     \<lparr>rr_Key = adp_Path (ads_Spec d), rr_Property = adp_Property (ads_Spec d), rr_Version = []\<rparr>"

definition dynRecordSynced ::
  "Env \<Rightarrow> RefreshConfig \<Rightarrow> AkeylessDynamicSecret \<Rightarrow> int gomap \<Rightarrow> outcome io" where
  "dynRecordSynced E cfg d remoteVersions = do {
     t \<leftarrow> now E;
     let status = (ads_Status d)\<lparr>
           ss_RefreshTime := Some t,
           ss_SyncedGeneration := om_Generation (ads_Meta d),
           ss_RemoteVersions := (if length remoteVersions > 0 then remoteVersions
                                 else ss_RemoteVersions (ads_Status d))\<rparr>;
     d' \<leftarrow> dynMarkReady E (d\<lparr>ads_Status := status\<rparr>);
     (werr, d'') \<leftarrow> k_write_ads E CStatusUpdate d';
     case werr of
       Some e \<Rightarrow> ret (no_requeue, Some e)
     | None \<Rightarrow> do {
         _ \<leftarrow> k_event ''Normal'' ReasonSecretSynced ''dynamic secret synced'';
         t' \<leftarrow> now E;
         ret (requeue_after (RequeueAfter t' cfg), None)
       }
   }"

definition dynApplyFetched ::
  "Env \<Rightarrow> RefreshConfig \<Rightarrow> AkeylessDynamicSecret \<Rightarrow> string \<Rightarrow> string \<Rightarrow> bytes gomap \<Rightarrow> int gomap
   \<Rightarrow> outcome io" where
  "dynApplyFetched E cfg d targetName oldHash secretData remoteVersions = do {
     aerr \<leftarrow> ApplyManagedSecret E (ads_Meta d) (om_Namespace (ads_Meta d)) targetName
               (adp_Target (ads_Spec d)) secretData;
     case aerr of
       Some e \<Rightarrow> do { _ \<leftarrow> dynFailStatus E d e; ret (no_requeue, Some e) }
     | None \<Rightarrow>
         (let newHash = data_hash E secretData;
              targets = adp_RolloutRestartTargets (ads_Spec d) in
          if length targets > 0 \<and> oldHash \<noteq> newHash then do {
            rerr \<leftarrow> TriggerRolloutRestarts E (om_Namespace (ads_Meta d)) targets;
            case rerr of
              Some e \<Rightarrow> do { _ \<leftarrow> dynFailStatus E d e; ret (no_requeue, Some e) }
            | None \<Rightarrow> dynRecordSynced E cfg d remoteVersions
          } else dynRecordSynced E cfg d remoteVersions)
   }"

definition dynFetch ::
  "SecretsClient \<Rightarrow> AkeylessDynamicSecret \<Rightarrow> (err + bytes \<times> int gomap) io" where
  "dynFetch client d = do {
     r \<leftarrow> sc_GetSecret client (adaptRemoteRef (dynRemoteRef d));
     case r of
       Inl getErr \<Rightarrow> ret (Inl getErr)
     | Inr val \<Rightarrow> (case sc_GetRemoteItemVersion client of
         None \<Rightarrow> ret (Inr (val, []))
       | Some getVersion \<Rightarrow> do {
           v \<leftarrow> getVersion (adp_Path (ads_Spec d));
           ret (Inr (val, case v of Inl _ \<Rightarrow> [] | Inr version \<Rightarrow> [(adp_Path (ads_Spec d), version)]))
         })
   }"

definition dynSync ::
  "Env \<Rightarrow> SecretProvider \<Rightarrow> RefreshConfig \<Rightarrow> AkeylessDynamicSecret \<Rightarrow> string \<Rightarrow> string \<Rightarrow> outcome io" where
  "dynSync E P cfg d targetName oldHash = do {
     r \<leftarrow> ResolveStore E (om_Namespace (ads_Meta d)) (adp_StoreRef (ads_Spec d));
     case r of
       Inl e \<Rightarrow> do { _ \<leftarrow> dynFailStatus E d e; ret (no_requeue, Some e) }
     | Inr (store, _) \<Rightarrow> do {
         c \<leftarrow> pr_NewClient P store (om_Namespace (ads_Meta d));
         case c of
           Inl e \<Rightarrow> do { _ \<leftarrow> dynFailStatus E d e; ret (no_requeue, Some e) }
         | Inr client \<Rightarrow> do {
             f \<leftarrow> dynFetch client d;
             res \<leftarrow> (case f of
                 Inl getErr \<Rightarrow> do {
                   _ \<leftarrow> dynFailStatus E d (ErrWrap (''fetch '' @ go_quote (adp_Path (ads_Spec d))) getErr);
                   ret (no_requeue, Some getErr)
                 }
               | Inr (val, remoteVersions) \<Rightarrow>
                   dynApplyFetched E cfg d targetName oldHash [(dynSecretKey d, val)] remoteVersions);
             _ \<leftarrow> sc_Close client;
             ret res
           }
       }
   }"

section \<open>Reconcile\<close>

definition dynTargetName :: "AkeylessDynamicSecret \<Rightarrow> string" where
  "dynTargetName d = (if tgt_Name (adp_Target (ads_Spec d)) = [] then om_Name (ads_Meta d)
     else tgt_Name (adp_Target (ads_Spec d)))"

definition dynRecordVersion :: "AkeylessDynamicSecret \<Rightarrow> int \<Rightarrow> AkeylessDynamicSecret" where
  "dynRecordVersion d version = d\<lparr>ads_Status := (ads_Status d)\<lparr>
     ss_RemoteVersions := mput (adp_Path (ads_Spec d)) version (ss_RemoteVersions (ads_Status d))\<rparr>\<rparr>"

definition dynReconcileExisting ::
  "Env \<Rightarrow> SecretProvider \<Rightarrow> AkeylessDynamicSecret \<Rightarrow> K8sSecret option \<Rightarrow> outcome io" where
  "dynReconcileExisting E P d existing =
     (let oldHash = (case existing of None \<Rightarrow> []
                     | Some s \<Rightarrow> mget_str (om_Annotations (sec_Meta s)) AnnotationDataHash);
          cfg = dynRefreshConfig d;
          policy = (if rc_Policy cfg = [] then SyncPolicyOnRemoteChange else rc_Policy cfg) in
      do {
        ready \<leftarrow> EnsureStoreReady E (om_Namespace (ads_Meta d)) (adp_StoreRef (ads_Spec d));
        case ready of
          Some e \<Rightarrow> do { _ \<leftarrow> dynFailStatus E d e; ret (requeue_after minute, None) }
        | None \<Rightarrow> do {
            t \<leftarrow> now E;
            if \<not> ShouldSync t cfg \<and> existing \<noteq> None \<and> IsManagedSecretValid E existing then
              (if policy = SyncPolicyOnRemoteChange \<or> policy = SyncPolicyOnWebhook then do {
                 chk \<leftarrow> dynCheckRemoteVersion E P d;
                 case chk of
                   Inl e \<Rightarrow> do { _ \<leftarrow> dynFailStatus E d e; ret (no_requeue, Some e) }
                 | Inr (changed, version) \<Rightarrow>
                     if \<not> changed then do {
                       t' \<leftarrow> now E;
                       ret (requeue_after (RequeueAfter t' cfg), None)
                     } else dynSync E P cfg (dynRecordVersion d version) (dynTargetName d) oldHash
               } else do {
                 t' \<leftarrow> now E;
                 ret (requeue_after (RequeueAfter t' cfg), None)
               })
            else dynSync E P cfg d (dynTargetName d) oldHash
          }
      })"

definition dynReconcileLive :: "Env \<Rightarrow> SecretProvider \<Rightarrow> AkeylessDynamicSecret \<Rightarrow> outcome io" where
  "dynReconcileLive E P d = do {
     g \<leftarrow> k_get_secret E (om_Namespace (ads_Meta d)) (dynTargetName d);
     case g of
       Inl e \<Rightarrow> if \<not> is_not_found e then ret (no_requeue, Some e)
                else dynReconcileExisting E P d None
     | Inr existing \<Rightarrow> dynReconcileExisting E P d (Some existing)
   }"

definition dynReconcile :: "Env \<Rightarrow> SecretProvider \<Rightarrow> string \<Rightarrow> string \<Rightarrow> outcome io" where
  "dynReconcile E P ns name = do {
     r \<leftarrow> k_get_ads E ns name;
     case r of
       Inl e \<Rightarrow> ret (no_requeue, ignore_not_found e)
     | Inr d \<Rightarrow>
         if om_DeletionTimestamp (ads_Meta d) \<noteq> None then ret (no_requeue, None)
         else if with_finalizer (ads_Meta d) = ads_Meta d then dynReconcileLive E P d
         else do {
           (werr, d') \<leftarrow> k_write_ads E CUpdate (d\<lparr>ads_Meta := with_finalizer (ads_Meta d)\<rparr>);
           case werr of
             Some e \<Rightarrow> ret (no_requeue, Some e)
           | None \<Rightarrow> dynReconcileLive E P d'
         }
   }"

end
