(* ===== verification/Dynamic_Laws.thy ===== *)
theory Dynamic_Laws
  imports Secret_Laws Dynamic_Controller
begin

text \<open>
  The AkeylessDynamicSecret reconciler run with the Akeyless provider, the second interpretation of
  the locale \<open>reconciler\<close>.
\<close>

lemma performs_dynFailStatus: "performs fail_call (dynFailStatus E d e)"
  unfolding dynFailStatus_def dynMarkFailed_def dynSetCondition_def k_defs
  by (rule traces_performs, intro trace_intros) (auto simp: fail_call_def set_condition_ready)

lemma traces_dynRecordSynced: "traces (dynRecordSynced E cfg d versions) record_post"
  unfolding dynRecordSynced_def dynMarkReady_def dynSetCondition_def Let_def k_defs
  by (intro trace_intros)
    (auto simp: record_post_def set_condition_ready RequeueAfter_pos requeue_after_def no_requeue_def)

interpretation dyn_run: reconciler "akeyless_provider E" "dynFailStatus E d" "dynRecordSynced E cfg d"
  for E d cfg
  by unfold_locales (rule performs_dynFailStatus, rule traces_dynRecordSynced)

lemma traces_dynApplyFetched: "traces (dynApplyFetched E cfg d tn oh data versions) synced_post"
  unfolding dynApplyFetched_def Let_def by (rule dyn_run.traces_apply)

lemma performs_dynFetch: "quiet_client c \<Longrightarrow> performs quiet (dynFetch c d)"
  unfolding dynFetch_def by (auto intro!: performs_intros simp: quiet_client_def)

lemma traces_dynSync: "traces (dynSync E (akeyless_provider E) cfg d tn oh) synced_post"
  unfolding dynSync_def
proof (rule dyn_run.traces_sync [OF performs_dynFetch], assumption, goal_cases)
  case (1 f)
  show ?case
    using dyn_run.fail_synced [of "[]"] traces_dynApplyFetched
    by (auto split: sum.splits simp: orderly_def)
qed

lemma traces_dynCheck:
  "traces (dynCheckRemoteVersion E (akeyless_provider E) d) (\<lambda>_ cs. list_all quiet cs)"
  unfolding dynCheckRemoteVersion_def
  by (rule dyn_run.traces_check) (auto intro!: performs_intros simp: quiet_client_def)

lemma traces_dynReconcileExisting:
  "traces (dynReconcileExisting E (akeyless_provider E) d existing) reconcile_post"
  unfolding dynReconcileExisting_def Let_def
  by (rule dyn_run.traces_existing [OF traces_dynCheck traces_dynSync traces_dynSync])
    (rule RequeueAfter_pos)

lemma traces_dynReconcileLive: "traces (dynReconcileLive E (akeyless_provider E) d) reconcile_post"
  unfolding dynReconcileLive_def by (rule traces_live) (rule traces_dynReconcileExisting)

section \<open>What it writes\<close>

text \<open>The data has the one key the resource names.\<close>

definition ads_step :: "Env \<Rightarrow> AkeylessDynamicSecret \<Rightarrow> history \<Rightarrow> Call \<Rightarrow> bool" where
  "ads_step E d = resource_step E (ads_Meta d) (adp_Target (ads_Spec d)) (\<lambda>data. \<exists>v. data = [(dynSecretKey d, v)])
     (adp_RolloutRestartTargets (ads_Spec d)) (\<lambda>c. \<exists>s. c = CStatusUpdate (OADS (d\<lparr>ads_Status := s\<rparr>)))"

lemma ads_step_status [simp]: "ads_step E (d\<lparr>ads_Status := s\<rparr>) = ads_step E d"
  by (simp add: ads_step_def dynSecretKey_def)

lemma ads_quiet: "quiet c \<Longrightarrow> ads_step E d g c"
  by (simp add: ads_step_def resource_step_def)

lemma ads_own: "ads_step E d g (CStatusUpdate (OADS (d\<lparr>ads_Status := s\<rparr>)))"
  by (auto simp: ads_step_def resource_step_def)

lemma steps_dynFailStatus [steps_intros]: "steps (ads_step E d) h (dynFailStatus E d e)"
  unfolding dynFailStatus_def dynMarkFailed_def dynSetCondition_def k_defs bind_assoc bind_left_identity
  by (intro steps_intros) (auto intro: ads_own ads_quiet)

lemma steps_dynRecordSynced [steps_intros]: "steps (ads_step E d) h (dynRecordSynced E cfg d v)"
  unfolding dynRecordSynced_def dynMarkReady_def dynSetCondition_def Let_def k_defs bind_assoc bind_left_identity
  by (intro steps_intros) (auto intro: ads_own [where s = "ss" for ss, simplified] ads_own ads_quiet)

lemma dyn_secret_name: "dynTargetName d = secret_name (adp_Target (ads_Spec d)) (ads_Meta d)"
  by (simp add: dynTargetName_def secret_name_def)

lemma steps_dynApplyFetched [steps_intros]:
  "steps (ads_step E d) h (dynApplyFetched E cfg d (dynTargetName d) oh [(dynSecretKey d, v)] vs)"
  unfolding dynApplyFetched_def Let_def
  by (intro steps_intros steps_mono [OF steps_Rollout]
      steps_mono [OF steps_ApplyManagedSecret [where D = "\<lambda>data. \<exists>v. data = [(dynSecretKey d, v)]"]])
    (auto simp: ads_step_def resource_step_def dyn_secret_name)

lemma steps_dynSync [steps_intros]:
  "steps (ads_step E d) h (dynSync E (akeyless_provider E) cfg d (dynTargetName d) oh)"
  unfolding dynSync_def
proof (rule secrets_provider.steps_with_client [OF akl.secrets_provider_axioms ads_quiet _ performs_dynFetch],
    goal_cases)
  case (4 client f g)
  then show ?case by (auto intro!: steps_intros split: sum.splits prod.splits)
qed (simp_all add: steps_intros)

lemma steps_dynReconcileLive: "steps (ads_step E d) h (dynReconcileLive E (akeyless_provider E) d)"
proof -
  have recorded: "steps (ads_step E d) g
      (dynSync E (akeyless_provider E) cfg (dynRecordVersion d v) (dynTargetName d) oh)" for cfg v oh g
  proof -
    have "ads_step E (dynRecordVersion d v) = ads_step E d" by (simp add: dynRecordVersion_def)
    moreover have "dynTargetName (dynRecordVersion d v) = dynTargetName d"
      by (simp add: dynRecordVersion_def dynTargetName_def)
    ultimately show ?thesis by (metis steps_dynSync)
  qed
  have ready: "steps (ads_step E d) g (EnsureStoreReady E ns ref)" for ns ref g
    by (rule performs_steps [OF performs_EnsureStoreReady_quiet ads_quiet])
  have check: "steps (ads_step E d) g (dynCheckRemoteVersion E (akeyless_provider E) d)" for g
    by (rule performs_steps [OF traces_performs [OF traces_dynCheck] ads_quiet])
  show ?thesis
    unfolding dynReconcileLive_def dynReconcileExisting_def Let_def k_get_secret_def
    by (intro steps_intros recorded ready check) (simp add: ads_quiet)
qed

section \<open>Runs of the AkeylessDynamicSecret reconciler\<close>

text \<open>The part of a run after the resource was read, as one program.\<close>

definition dyn_rest :: "Env \<Rightarrow> AkeylessDynamicSecret \<Rightarrow> outcome io" where
  "dyn_rest E d = (if with_finalizer (ads_Meta d) = ads_Meta d then dynReconcileLive E (akeyless_provider E) d
     else do {
       (werr, d') \<leftarrow> k_write_ads E CUpdate (d\<lparr>ads_Meta := with_finalizer (ads_Meta d)\<rparr>);
       case werr of
         Some e \<Rightarrow> ret (no_requeue, Some e)
       | None \<Rightarrow> dynReconcileLive E (akeyless_provider E) d'
     })"

lemma traces_dyn_rest: "traces (dyn_rest E d) reconcile_post"
  unfolding dyn_rest_def k_write_ads_def
  by (rule traces_started [OF traces_dynReconcileLive]) (simp add: reconcile_call_def with_finalizer_in)

lemma dynReconcile_run:
  "run_state (dynReconcile E (akeyless_provider E) ns name) h =
     (let h1 = CGet ''AkeylessDynamicSecret'' ns name # h in
      case getADS E h1 ns name of
        Inl e \<Rightarrow> ((no_requeue, ignore_not_found e), h1)
      | Inr d \<Rightarrow> if om_DeletionTimestamp (ads_Meta d) \<noteq> None then ((no_requeue, None), h1)
          else run_state (dyn_rest E d) h1)"
  by (simp add: dynReconcile_def k_get_ads_def dyn_rest_def Let_def split: sum.splits)

text \<open>The writes of that part.\<close>

definition dyn_writes :: "Env \<Rightarrow> AkeylessDynamicSecret \<Rightarrow> history \<Rightarrow> history \<Rightarrow> bool" where
  "dyn_writes E d h1 h' \<longleftrightarrow>
     (if finalizer \<in> set (om_Finalizers (ads_Meta d)) then runs_on (ads_step E d) h1 h'
      else let b = d\<lparr>ads_Meta := (ads_Meta d)\<lparr>om_Finalizers := om_Finalizers (ads_Meta d) @ [finalizer]\<rparr>\<rparr>;
               h2 = CUpdate (OADS b) # h1 in
           if writeErr E h2 \<noteq> None then h' = h2
           else runs_on (ads_step E (answeredADS E h2 b)) h2 h')"

lemma dyn_rest_writes: "run_state (dyn_rest E d) h = (out, h') \<Longrightarrow> dyn_writes E d h h'"
  using steps_runs_on [OF steps_dynReconcileLive]
  by (auto simp: dyn_rest_def dyn_writes_def k_write_ads_def with_finalizer_id with_finalizer_new Let_def
      split: option.splits if_splits prod.splits)

text \<open>
  C9: a reconcile of an AkeylessDynamicSecret only reads it when it is gone or being deleted.  Otherwise it
  writes only what the static reconciler may write: its finalizer, appended to the resource it read, the
  status of that resource, the Secret the resource names in its namespace, as it was just read or if it was
  not found, with the resource's key as the only one, and the workloads of its restart targets; the Secret
  at most once, restarts and a Ready report only after it; and without an error it is to be run again after
  a positive delay and reported Ready if it wrote the Secret.
\<close>

theorem dynamic_reconcile_run:
  "case run_state (dynReconcile E (akeyless_provider E) ns name) h of (out, h') \<Rightarrow>
     let h1 = CGet ''AkeylessDynamicSecret'' ns name # h in
     (case getADS E h1 ns name of
        Inl e \<Rightarrow> h' = h1 \<and> out = (no_requeue, ignore_not_found e)
      | Inr d \<Rightarrow>
          if om_DeletionTimestamp (ads_Meta d) \<noteq> None then h' = h1 \<and> out = (no_requeue, None)
          else dyn_writes E d h1 h'
            \<and> (\<exists>cs. h' = cs @ h1 \<and> secret_count cs \<le> 1
                \<and> follows is_secret_write restarts cs \<and> follows is_secret_write ready_status cs
                \<and> (case snd out of Some e \<Rightarrow> True
                   | None \<Rightarrow> 0 < cr_RequeueAfter (fst out)
                       \<and> (if list_ex is_secret_write cs then list_ex ready_status cs else True))))"
proof (cases "getADS E (CGet ''AkeylessDynamicSecret'' ns name # h) ns name")
  case (Inl e)
  then show ?thesis by (simp add: dynReconcile_run)
next
  case (Inr d)
  let ?h1 = "CGet ''AkeylessDynamicSecret'' ns name # h"
  obtain out h' where run: "run_state (dyn_rest E d) ?h1 = (out, h')" by fastforce
  obtain cs where "h' = cs @ ?h1" "reconcile_post out cs" using tracesE [OF traces_dyn_rest run] .
  with Inr run dyn_rest_writes [OF run] show ?thesis
    by (cases "om_DeletionTimestamp (ads_Meta d)"; cases "snd out")
      (auto simp: dynReconcile_run Let_def reconcile_post_def orderly_def)
qed

text \<open>
  For a dynamic secret, too, the check of the remote version fails whenever it is made with the
  Akeyless provider.
\<close>

lemma dynamic_check_fails:
  "traces (dynCheckRemoteVersion E (akeyless_provider E) d) (\<lambda>r _. \<exists>e. r = Inl e)"
  unfolding dynCheckRemoteVersion_def
proof (rule traces_performs_bind [OF performs_ResolveStore_quiet], intro traces_case_sum
    traces_case_prod traces_ret, goal_cases)
  case (2 r cs x store k)
  show ?case
    by (rule traces_bind, rule traces_mono [OF traces_akl_client], intro traces_case_sum traces_ret)
      (auto simp: akeyless_client_def version_no_token Close_def intro!: traces_ret)
qed simp

end
