(* ===== verification/Store_Laws.thy ===== *)
theory Store_Laws
  imports Store Akeyless_Reads Step_Logic
begin

text \<open>
  When a store can be used, and what the reconcilers of stores record about it.
\<close>

section \<open>Readiness\<close>

text \<open>
  \<open>EnsureStoreReady\<close> accepts a store reference exactly if it names a store that exists and has
  a true Ready condition and, for a cluster store with namespace conditions, the namespace can be
  read and one of the conditions lists it or selects it by its labels.
\<close>

theorem store_ready_iff:
  "fst (run_state (EnsureStoreReady E ns ref) h) = None \<longleftrightarrow>
     (storeKind ref = AkeylessSecretStoreKind
        \<and> (\<exists>s. getStore E (CGet AkeylessSecretStoreKind ns (ssr_Name ref) # h) ns (ssr_Name ref) = Inr s
              \<and> storeIsReady (ast_Conditions s)))
     \<or> (storeKind ref = ClusterAkeylessSecretStoreKind
        \<and> (\<exists>s. getCStore E (CGet ClusterAkeylessSecretStoreKind [] (ssr_Name ref) # h) (ssr_Name ref) = Inr s
              \<and> storeIsReady (cst_Conditions s)
              \<and> (cst_NamespaceConditions s = []
                 \<or> (\<exists>n. getNamespace E (CGet ''Namespace'' [] ns
                           # CGet ClusterAkeylessSecretStoreKind [] (ssr_Name ref) # h) ns = Inr n
                      \<and> (\<exists>c \<in> set (cst_NamespaceConditions s). ns \<in> set (nsc_Namespaces c)
                          \<or> (\<exists>sel f. nsc_NamespaceSelector c = Some sel \<and> selectorOf E sel = Inr f
                                \<and> f (ns_Labels n)))))))"
proof -
  have allows: "conditionAllows E n ns c \<longleftrightarrow> ns \<in> set (nsc_Namespaces c)
      \<or> (\<exists>sel f. nsc_NamespaceSelector c = Some sel \<and> selectorOf E sel = Inr f \<and> f (ns_Labels n))" for n c
    by (auto simp: list_ex_iff split: option.splits sum.splits)
  consider (ns) "storeKind ref = AkeylessSecretStoreKind"
    | (cluster) "storeKind ref = ClusterAkeylessSecretStoreKind"
    | (other) "storeKind ref \<noteq> AkeylessSecretStoreKind" "storeKind ref \<noteq> ClusterAkeylessSecretStoreKind"
    by blast
  then show ?thesis
  proof cases
    case ns
    then show ?thesis
      by (cases "getStore E (CGet AkeylessSecretStoreKind ns (ssr_Name ref) # h) ns (ssr_Name ref)")
        (simp_all add: EnsureStoreReady_def IsNamespacedStoreReady_def k_get_store_def)
  next
    case cluster
    then show ?thesis
      by (cases "getCStore E (CGet ClusterAkeylessSecretStoreKind [] (ssr_Name ref) # h) (ssr_Name ref)";
          cases "getNamespace E (CGet ''Namespace'' [] ns
              # CGet ClusterAkeylessSecretStoreKind [] (ssr_Name ref) # h) ns")
        (simp_all add: EnsureStoreReady_def IsClusterStoreReady_def clusterStoreAllowed_def
          clusterStoreIsReady_def k_get_cstore_def k_get_namespace_def list_ex_iff allows
          del: conditionAllows.simps, blast)
  next
    case other
    then show ?thesis by (simp add: EnsureStoreReady_def)
  qed
qed

section \<open>Reconciling stores\<close>

lemma storeIsReady_set [simp]:
  "storeIsReady (ast_Conditions (setStoreCondition t s e)) \<longleftrightarrow> e = None"
  "storeIsReady (cst_Conditions (clusterSetStoreCondition t c e)) \<longleftrightarrow> e = None"
  by (auto simp: setStoreCondition_def clusterSetStoreCondition_def store_condition_def
      storeIsReady_def split: option.splits)

text \<open>The address that is dialled for the host of a URL: the port is 443 unless the host has one.\<close>

definition dial_address :: "string \<Rightarrow> string" where
  "dial_address hostPort = fst (splitHostPort hostPort) @ '':''
     @ (if snd (splitHostPort hostPort) = [] then ''443'' else snd (splitHostPort hostPort))"

text \<open>
  \<open>validated E g ns h h'\<close>: from \<open>h\<close> on the specification of \<open>g\<close> passed, a client was made for the namespace,
  and the last call, which leads to \<open>h'\<close>, dialled the host of that client's gateway without an error.
\<close>

definition validated :: "Env \<Rightarrow> GenericStore \<Rightarrow> string \<Rightarrow> history \<Rightarrow> history \<Rightarrow> bool" where
  "validated E g ns h h' \<longleftrightarrow> ValidateStore E g = GoRet None
     \<and> (\<exists>a h1 scheme host. run_state (NewClient E g ns) h = (Inr a, h1)
         \<and> urlParse E (ac_GwAPIURL a) = Some (scheme, host)
         \<and> h' = CDial (dial_address host) # h1 \<and> dial E h' = None)"

lemma NetworkValidate_dials:
  "NetworkValidate E u = (case urlParse E u of
     None \<Rightarrow> ret (Some (ErrMsg ''could not parse url''))
   | Some (scheme, host) \<Rightarrow> do {
       r \<leftarrow> ask (CDial (dial_address host)) (dial E);
       ret (case r of Some e \<Rightarrow> Some (ErrWrap ''error accessing external store'' e) | None \<Rightarrow> None)
     })"
  by (simp add: NetworkValidate_def dial_address_def Let_def prod.case_eq_if cong: option.case_cong)

lemma NetworkValidate_run:
  "run_state (NetworkValidate E u) h = (r, h') \<Longrightarrow>
   r = None \<longleftrightarrow> (\<exists>scheme host. urlParse E u = Some (scheme, host)
      \<and> h' = CDial (dial_address host) # h \<and> dial E h' = None)"
  by (auto simp: NetworkValidate_dials split: option.splits prod.splits)

lemma validate_client_run:
  assumes "run_state (validate_client (akeyless_provider E) g ns) h = (r, h')"
  shows "r = None \<longleftrightarrow> (\<exists>a h1 scheme host. run_state (NewClient E g ns) h = (Inr a, h1)
      \<and> urlParse E (ac_GwAPIURL a) = Some (scheme, host)
      \<and> h' = CDial (dial_address host) # h1 \<and> dial E h' = None)"
proof (cases "run_state (NewClient E g ns) h")
  case (Pair c h1)
  show ?thesis
  proof (cases c)
    case (Inl e)
    then show ?thesis using assms Pair by (auto simp: validate_client_def akeyless_provider_def)
  next
    case (Inr a)
    obtain n h2 where n: "run_state (NetworkValidate E (ac_GwAPIURL a)) h1 = (n, h2)" by fastforce
    have "h' = h2 \<and> (r = None \<longleftrightarrow> n = None)"
      using assms Pair Inr n
      by (cases n) (auto simp: validate_client_def akeyless_provider_def akeyless_client_def Validate_def Close_def)
    then show ?thesis using Pair Inr NetworkValidate_run [OF n] by auto
  qed
qed

lemma performs_validate_client: "performs quiet (validate_client (akeyless_provider E) g ns)"
  unfolding validate_client_def
  by (rule performs_bind_results [OF akl.NewClient_quiet])
    (auto intro!: performs_intros dest: akl.client_quiet simp: quiet_client_def split: sum.splits)

lemma performs_validationNamespace: "performs quiet (validationNamespace E store)"
proof -
  have "performs quiet (validationNamespaceLoop E conds)" for conds
    by (induction E conds rule: validationNamespaceLoop.induct)
      (auto split: list.splits intro!: performs_intros simp: k_list_namespaces_def quiet_def)
  then show ?thesis
    unfolding validationNamespace_def k_list_namespaces_def
    by (auto intro!: performs_intros simp: quiet_def split: sum.splits option.splits list.splits)
qed

lemma validateNamespacedStore_run:
  assumes "run_state (validateNamespacedStore (akeyless_provider E) s ns) h = (r, h')"
  shows "\<exists>cs. h' = cs @ h \<and> list_all quiet cs
    \<and> (r = None \<longleftrightarrow> validated E (SecretStoreFromNamespaced s) ns h h')"
proof (cases "ValidateStore E (SecretStoreFromNamespaced s)")
  case GoPanic
  then show ?thesis by (simp add: ValidateStore_adapted)
next
  case (GoRet e)
  show ?thesis
  proof (cases e)
    case None
    then have run: "run_state (validate_client (akeyless_provider E) (SecretStoreFromNamespaced s) ns) h = (r, h')"
      using assms GoRet by (simp add: validateNamespacedStore_def akeyless_provider_def)
    obtain cs where "h' = cs @ h" "list_all quiet cs" using performsE [OF performs_validate_client run] .
    with validate_client_run [OF run] GoRet None show ?thesis by (simp add: validated_def)
  next
    case (Some x)
    then show ?thesis using assms GoRet
      by (auto simp: validateNamespacedStore_def akeyless_provider_def validated_def)
  qed
qed

text \<open>A cluster store is validated in the namespace its conditions give.\<close>

definition cluster_validated :: "Env \<Rightarrow> ClusterAkeylessSecretStore \<Rightarrow> history \<Rightarrow> history \<Rightarrow> bool" where
  "cluster_validated E c h h' \<longleftrightarrow> (\<exists>ns h1. run_state (validationNamespace E c) h = (Inr ns, h1)
     \<and> validated E (SecretStoreFromCluster c) ns h1 h')"

lemma validateClusterStore_run:
  assumes "run_state (validateClusterStore E (akeyless_provider E) c) h = (r, h')"
  shows "\<exists>cs. h' = cs @ h \<and> list_all quiet cs \<and> (r = None \<longleftrightarrow> cluster_validated E c h h')"
proof (cases "ValidateStore E (SecretStoreFromCluster c)")
  case GoPanic
  then show ?thesis by (simp add: ValidateStore_adapted)
next
  case (GoRet e)
  obtain n h1 where n: "run_state (validationNamespace E c) h = (n, h1)" by fastforce
  obtain ds where ds: "h1 = ds @ h" "list_all quiet ds" using performsE [OF performs_validationNamespace n] .
  show ?thesis
  proof (cases e)
    case (Some x)
    then show ?thesis using assms GoRet
      by (auto simp: validateClusterStore_def akeyless_provider_def cluster_validated_def validated_def)
  next
    case None
    show ?thesis
    proof (cases n)
      case (Inl x)
      then show ?thesis using assms GoRet None n ds
        by (auto simp: validateClusterStore_def akeyless_provider_def cluster_validated_def)
    next
      case (Inr ns)
      then have run: "run_state (validate_client (akeyless_provider E) (SecretStoreFromCluster c) ns) h1 = (r, h')"
        using assms GoRet None n by (simp add: validateClusterStore_def akeyless_provider_def)
      obtain cs where "h' = cs @ h1" "list_all quiet cs" using performsE [OF performs_validate_client run] .
      with validate_client_run [OF run] GoRet None n Inr ds show ?thesis
        by (auto simp: validated_def cluster_validated_def)
    qed
  qed
qed

text \<open>The one condition a validation leaves on a store.\<close>

definition ready_condition :: "bool \<Rightarrow> StoreCondition \<Rightarrow> bool" where
  "ready_condition ok c \<longleftrightarrow> cond_Type c = ''Ready'' \<and> cond_Status c = (if ok then ''True'' else ''False'')"

text \<open>
  \<open>patched\<close>: after \<open>h1\<close> only reads and requests that write nothing were made up to \<open>g\<close>, then the status was
  patched once with the given object, then an event was recorded.
\<close>

definition patched :: "(bool \<Rightarrow> KObj \<Rightarrow> bool) \<Rightarrow> (history \<Rightarrow> bool) \<Rightarrow> history \<Rightarrow> history \<Rightarrow> bool" where
  "patched obj ok h1 h' \<longleftrightarrow> (\<exists>cs x y z ob. h' = CEvent x y z # CStatusPatch ob # cs @ h1
     \<and> list_all quiet cs \<and> obj (ok (cs @ h1)) ob)"

lemma ready_store_condition: "ready_condition (verr = None) (store_condition t verr)"
  by (simp add: ready_condition_def store_condition_def split: option.split)

text \<open>
  C10: a reconcile of a store or of a cluster store that does not find the object only reads.  Otherwise it
  patches the status of the object it read exactly once, changing nothing of it but the conditions, writes
  nothing else, returns no error and asks to be run again after the configured interval.  The status it
  patches has one condition, Ready, which is true exactly if the specification passed, a client could be made
  (for a cluster store in the namespace its conditions give) and dialling the host of the client's gateway
  succeeded, in this run, and false otherwise.
\<close>

theorem store_reconcile_run:
  "(case run_state (StoreReconcile E (akeyless_provider E) interval ns name) h of (out, h') \<Rightarrow>
     let h1 = CGet AkeylessSecretStoreKind ns name # h in
     (case getStore E h1 ns name of
        Inl e \<Rightarrow> h' = h1 \<and> out = (no_requeue, ignore_not_found e)
      | Inr s \<Rightarrow> out = (requeue_after interval, None)
          \<and> patched (\<lambda>ok ob. \<exists>c. ready_condition ok c \<and> ob = OStore (s\<lparr>ast_Conditions := [c]\<rparr>))
              (validated E (SecretStoreFromNamespaced s) ns h1) h1 h'))
   \<and> (case run_state (ClusterStoreReconcile E (akeyless_provider E) interval name) h of (out, h') \<Rightarrow>
     let h1 = CGet ClusterAkeylessSecretStoreKind [] name # h in
     (case getCStore E h1 name of
        Inl e \<Rightarrow> h' = h1 \<and> out = (no_requeue, ignore_not_found e)
      | Inr s \<Rightarrow> out = (requeue_after interval, None)
          \<and> patched (\<lambda>ok ob. \<exists>c. ready_condition ok c \<and> ob = OCStore (s\<lparr>cst_Conditions := [c]\<rparr>))
              (cluster_validated E s h1) h1 h'))"
  (is "?store \<and> ?cluster")
proof
  show ?store
  proof (cases "getStore E (CGet AkeylessSecretStoreKind ns name # h) ns name")
    case (Inl e)
    then show ?thesis by (simp add: StoreReconcile_def k_get_store_def)
  next
    case (Inr s)
    let ?h1 = "CGet AkeylessSecretStoreKind ns name # h"
    obtain r g where run: "run_state (validateNamespacedStore (akeyless_provider E) s ns) ?h1 = (r, g)" by fastforce
    obtain cs where cs: "g = cs @ ?h1" "list_all quiet cs"
      "r = None \<longleftrightarrow> validated E (SecretStoreFromNamespaced s) ns ?h1 g"
      using validateNamespacedStore_run [OF run] by blast
    have "patched (\<lambda>ok ob. \<exists>c. ready_condition ok c \<and> ob = OStore (s\<lparr>ast_Conditions := [c]\<rparr>))
        (validated E (SecretStoreFromNamespaced s) ns ?h1) ?h1
        (CEvent x y z # CStatusPatch (OStore (setStoreCondition (clock E g) s r)) # g)" for x y z
      using cs ready_store_condition [of r "clock E g"] unfolding patched_def setStoreCondition_def by auto
    then show ?thesis using Inr run
      by (cases r) (simp_all add: StoreReconcile_def k_get_store_def k_write_def k_event_def Let_def)
  qed
  show ?cluster
  proof (cases "getCStore E (CGet ClusterAkeylessSecretStoreKind [] name # h) name")
    case (Inl e)
    then show ?thesis by (simp add: ClusterStoreReconcile_def k_get_cstore_def)
  next
    case (Inr s)
    let ?h1 = "CGet ClusterAkeylessSecretStoreKind [] name # h"
    obtain r g where run: "run_state (validateClusterStore E (akeyless_provider E) s) ?h1 = (r, g)" by fastforce
    obtain cs where cs: "g = cs @ ?h1" "list_all quiet cs" "r = None \<longleftrightarrow> cluster_validated E s ?h1 g"
      using validateClusterStore_run [OF run] by blast
    have "patched (\<lambda>ok ob. \<exists>c. ready_condition ok c \<and> ob = OCStore (s\<lparr>cst_Conditions := [c]\<rparr>))
        (cluster_validated E s ?h1) ?h1
        (CEvent x y z # CStatusPatch (OCStore (clusterSetStoreCondition (clock E g) s r)) # g)" for x y z
      using cs ready_store_condition [of r "clock E g"] unfolding patched_def clusterSetStoreCondition_def by auto
    then show ?thesis using Inr run
      by (cases r) (simp_all add: ClusterStoreReconcile_def k_get_cstore_def k_write_def k_event_def Let_def)
  qed
qed

section \<open>Validation of the specification\<close>

text \<open>
  A store resource of the operator, adapted to the provider's store type, never makes
  \<open>ValidateStore\<close> dereference nil.
\<close>

lemma adapted_store_no_panic:
  "ValidateStore E (SecretStoreFromNamespaced s) \<noteq> GoPanic
   \<and> ValidateStore E (SecretStoreFromCluster c) \<noteq> GoPanic"
  by (simp add: ValidateStore_adapted)

text \<open>
  The references of a namespaced store may leave their namespace open or name the store's own; the
  authentication with Kubernetes needs an access id and a configuration, the one with secret references an
  access id whose Secret and key are named.
\<close>

definition stays :: "AkeylessSecretStore \<Rightarrow> string option \<Rightarrow> bool" where
  "stays s ns \<longleftrightarrow> ns = None \<or> ns = Some (om_Namespace (ast_Meta s))"

definition url_fine :: "Env \<Rightarrow> string \<Rightarrow> bool" where
  "url_fine E u \<longleftrightarrow> u = [] \<or> (\<exists>scheme host. urlParse E u = Some (scheme, host) \<and> host \<noteq> [])"

definition kubernetes_auth_fine :: "AkeylessSecretStore \<Rightarrow> AkeylessKubernetesAuth \<Rightarrow> bool" where
  "kubernetes_auth_fine s k \<longleftrightarrow> aka_AccessID k \<noteq> [] \<and> aka_K8sConfName k \<noteq> []
     \<and> pred_option (\<lambda>r. stays s (sas_Namespace r)) (aka_ServiceAccountRef k)
     \<and> pred_option (\<lambda>r. stays s (sks_Namespace r)) (aka_SecretRef k)"

definition secret_auth_fine :: "AkeylessSecretStore \<Rightarrow> AkeylessAuth \<Rightarrow> bool" where
  "secret_auth_fine s auth \<longleftrightarrow> (\<exists>r. aa_SecretRef auth = Some r
     \<and> sks_Name (aasr_AccessID r) \<noteq> [] \<and> sks_Key (aasr_AccessID r) \<noteq> []
     \<and> stays s (sks_Namespace (aasr_AccessID r)) \<and> stays s (sks_Namespace (aasr_AccessType r))
     \<and> (sks_Name (aasr_AccessTypeParam r) = [] \<or> stays s (sks_Namespace (aasr_AccessTypeParam r)))
     \<and> pred_option (\<lambda>a. stays s (sas_Namespace a)) (aa_ServiceAccountRef auth))"

lemma selector_stays:
  "selector_error (SecretStoreFromNamespaced s) ns = None \<longleftrightarrow> stays s ns"
  "referent_error (SecretStoreFromNamespaced s) ns = None \<longleftrightarrow> stays s ns"
  by (auto simp: selector_error_def referent_error_def stays_def Let_def)

lemma url_error_iff: "url_error E (providerFromSpec spec) = None \<longleftrightarrow> url_fine E (assp_GWApiURL spec)"
  by (auto simp: url_error_def url_fine_def split: option.splits prod.splits)

text \<open>A chain of checks passes if each of them does.\<close>

lemma check_chain:
  "(case x of None \<Rightarrow> y | Some e \<Rightarrow> Some (f e)) = None \<longleftrightarrow> x = None \<and> y = None"
  "(if b then Some e else y) = None \<longleftrightarrow> \<not> b \<and> y = None"
  "(if b then x else None) = None \<longleftrightarrow> \<not> b \<or> x = None"
  "Option.bind z g = None \<longleftrightarrow> pred_option (\<lambda>a. g a = None) z"
  by (cases z; auto split: option.split)+

lemma kubernetes_auth_iff:
  "kubernetes_auth_error (SecretStoreFromNamespaced s) k = None \<longleftrightarrow> kubernetes_auth_fine s k"
  unfolding kubernetes_auth_error_def kubernetes_auth_fine_def ValidateReferentServiceAccountSelector_def
    ValidateSecretSelector_def check_chain selector_stays by auto

lemma secret_auth_iff:
  "secret_ref_error (SecretStoreFromNamespaced s) (authFromSpec auth) = None \<longleftrightarrow> secret_auth_fine s auth"
proof (cases "aa_SecretRef auth")
  case None
  then show ?thesis
    unfolding secret_ref_error_def secret_auth_fine_def Let_def check_chain
    by (simp add: authFromSpec_def empty_secret_ref_def empty_selector_def)
next
  case (Some r)
  have f: "eaa_SecretRef (authFromSpec auth) = r" "eaa_ServiceAccountRef (authFromSpec auth) = aa_ServiceAccountRef auth"
    using Some by (simp_all add: authFromSpec_def)
  show ?thesis
    unfolding secret_ref_error_def secret_auth_fine_def Let_def check_chain f Some
      ValidateReferentServiceAccountSelector_def ValidateSecretSelector_def selector_stays
    by auto
qed

text \<open>
  C11: \<open>ValidateStore\<close> accepts a namespaced store exactly if its gateway URL is empty or parses with a host,
  and: with Kubernetes authentication, access id and configuration name are given and the references to a
  service account and a Secret, where given, stay in the store's namespace; otherwise there is a secret
  reference, its access id names a Secret and a key, its access id, access type and (if named) parameter stay
  in the store's namespace and so does the reference to a service account, where given.  Nothing else is
  looked at: not the CA, not the names and keys of the other references.
\<close>

theorem validated_store_refs:
  "ValidateStore E (SecretStoreFromNamespaced s) = GoRet None \<longleftrightarrow>
     url_fine E (assp_GWApiURL (ast_Spec s))
     \<and> (case aa_KubernetesAuth (assp_Auth (ast_Spec s)) of
          Some k \<Rightarrow> kubernetes_auth_fine s k
        | None \<Rightarrow> secret_auth_fine s (assp_Auth (ast_Spec s)))"
proof -
  have k: "eaa_KubernetesAuth (authFromSpec auth) = aa_KubernetesAuth auth" for auth
    by (cases "aa_KubernetesAuth auth") (simp_all add: authFromSpec_def)
  show ?thesis
  proof (cases "url_error E (providerFromSpec (ast_Spec s))")
    case None
    then have "url_fine E (assp_GWApiURL (ast_Spec s))" by (simp add: url_error_iff)
    then show ?thesis
      unfolding ValidateStore_def adapted_store_simps option.case None providerFromSpec_simps k
      by (cases "aa_KubernetesAuth (assp_Auth (ast_Spec s))") (simp_all add: kubernetes_auth_iff secret_auth_iff)
  next
    case (Some e)
    then have "\<not> url_fine E (assp_GWApiURL (ast_Spec s))" by (simp flip: url_error_iff)
    then show ?thesis by (simp add: ValidateStore_def Some)
  qed
qed

end
