(* ===== verification/Akeyless_Laws.thy ===== *)
theory Akeyless_Laws
  imports Akeyless_Reads Traces
begin

text \<open>
  Properties of the Akeyless provider: what it may read, what it writes to Akeyless, what its cache
  gives back, and how it takes errors.
\<close>

section \<open>Reading\<close>

text \<open>
  C12: a client made for a namespaced store reads Secrets and service accounts, and requests
  tokens, only in its own namespace; every request goes to its own gateway, and no read changes
  anything in the cluster or in Akeyless.
\<close>

theorem client_reads_only:
  "performs (may_read a) (GetSecret E a ctx ref)
   \<and> performs (may_read a) (GetSecretMap E a ctx ref)
   \<and> performs (may_read a) (GetAllSecrets E a ctx finder)
   \<and> performs (may_read a) (SecretExists E a ctx psd)
   \<and> performs (may_read a) (GetRemoteItemVersion E a ctx name)
   \<and> performs (may_read a) (Validate E a)"
  by (intro conjI performs_intros)

text \<open>
  Making a client, cached or new, writes nothing to the cluster and nothing to Akeyless, and
  neither does any method of the client the reconcilers call.
\<close>

lemma provider_quiet:
  "performs quiet (pr_NewClient (akeyless_provider E) store ns) \<and> quiet_client (akeyless_client E a)"
  using akl.NewClient_quiet akeyless_client_quiet by blast

fun empty_access_id :: "Call \<Rightarrow> bool" where
  "empty_access_id (CRest u (RAuth b)) = (ab_AccessId b = [])"
| "empty_access_id _ = False"

text \<open>
  No request for a token is sent with an empty access id when the credentials come from a
  secret reference.
\<close>

theorem access_id_not_empty:
  "performs (\<lambda>c. \<not> empty_access_id c) (token_from_refs E a auth)"
proof (rule performs_token_from_refs)
  show "may_lookup a c \<Longrightarrow> \<not> empty_access_id c" for c
    by (cases c) simp_all
qed simp

section \<open>The gateway address\<close>

lemma last_colon_append: "CHR '':'' \<notin> set t \<Longrightarrow> last_colon (s @ t) = last_colon s"
proof (induction s)
  case Nil
  then show ?case by (induction t) auto
next
  case (Cons c s)
  then show ?case by simp
qed

lemma last_colon_less: "last_colon s = Some i \<Longrightarrow> i < length s"
  by (induction s arbitrary: i) (auto split: option.splits if_splits)

lemma no_port_v2: "snd (splitHostPort (h @ ''/v2'')) = []"
proof (cases "last_colon h")
  case None
  then show ?thesis by (simp add: splitHostPort_def last_colon_append)
next
  case (Some i)
  then have "i < length h" by (rule last_colon_less)
  then obtain c t where "drop i h = c # t" by (metis Cons_nth_drop_Suc)
  then have "\<not> validOptionalPort (drop i (h @ ''/v2''))"
    using \<open>i < length h\<close> by (simp add: validOptionalPort_def is_digit_char_def)
  then show ?thesis
    using Some by (simp add: splitHostPort_def last_colon_append)
qed

text \<open>
  The address the client uses is the configured one, or the scheme and host of the configured
  one followed by \<open>/v2\<close>: a path in the configured address is dropped, and the port is never added
  a second time.
\<close>

theorem gateway_url:
  "traces (getV2Url E path)
     (\<lambda>u _. u = path \<or> (\<exists>scheme host. urlParse E path = Some (scheme, host)
        \<and> u = scheme @ ''://'' @ host @ ''/v2''))"
  unfolding getV2Url_def sendReq_def
  by (intro trace_intros) (auto simp: v2_host_url_def no_port_v2 Let_def split: option.splits)

section \<open>The cache of clients\<close>

definition made_for :: "CacheKey \<Rightarrow> string \<Rightarrow> AkeylessClient \<Rightarrow> bool" where
  "made_for k v c \<longleftrightarrow> ck_Name k = om_Name (gs_Meta (ac_Store c)) \<and> ck_Namespace k = ac_Namespace c
     \<and> ck_Kind k = ac_StoreKind c \<and> v = om_ResourceVersion (gs_Meta (ac_Store c))"

definition cache_ok :: "history \<Rightarrow> bool" where
  "cache_ok h \<longleftrightarrow> (\<forall>k v c. last_added k h = Some (v, c) \<longrightarrow> made_for k v c)"

fun lru_op :: "Call \<Rightarrow> bool" where
  "lru_op (CLruAdd k v c) = True"
| "lru_op (CLruRemove k) = True"
| "lru_op _ = False"

lemma last_added_skip: "\<not> lru_op c \<Longrightarrow> last_added k (c # h) = last_added k h"
  by (cases c) simp_all

lemma last_added_append: "list_all (\<lambda>c. \<not> lru_op c) cs \<Longrightarrow> last_added k (cs @ h) = last_added k h"
  by (induction cs) (simp_all add: last_added_skip)

lemma performs_newClient_lru: "performs (\<lambda>c. \<not> lru_op c) (newClient E store ns)"
  unfolding newClient_def getAkeylessHTTPClient_def FetchCACertFromSource_def getCertFromSecret_def
    getCertFromConfigMap_def SecretKeyRef_def getV2Url_def sendReq_def Let_def k_defs
  by (intro performs_intros) simp_all

lemma cache_ok_remove: "cache_ok h \<Longrightarrow> cache_ok (CLruRemove k # CLruGet k # h)"
  by (auto simp: cache_ok_def)

lemma cacheGet_ok:
  assumes "lru_faithful E" "cache_ok h" "run_state (cacheGet E v k) h = (r, h')"
  shows "cache_ok h' \<and> (\<forall>c. r = Some c \<longrightarrow> made_for k v c)"
proof
  show "cache_ok h'"
    using assms cache_ok_remove [OF assms(2)]
    by (auto simp: cacheGet_run cache_ok_def split: option.splits if_splits)
  show "\<forall>c. r = Some c \<longrightarrow> made_for k v c"
    using assms cacheGet_added [OF assms(1)] by (auto simp: cache_ok_def)
qed

text \<open>
  C13: the client a reconciler gets was made for a store of the same name, kind and resource version
  and for the same namespace as it asks for, also when it comes from the cache; provided the cache
  held only such clients before, which is kept, and the LRU library returns what was added.
\<close>

theorem right_client:
  assumes "lru_faithful E" and "cache_ok h" and "run_state (NewClient E store ns) h = (Inr c, h')"
  shows "cache_ok h' \<and> made_for (cache_key store ns) (om_ResourceVersion (gs_Meta store)) c"
proof -
  let ?k = "cache_key store ns" and ?v = "om_ResourceVersion (gs_Meta store)"
  obtain r h1 where get: "run_state (cacheGet E ?v ?k) h = (r, h1)" by fastforce
  note ok = cacheGet_ok [OF assms(1,2) get]
  show ?thesis
  proof (cases r)
    case (Some c')
    then show ?thesis using assms(3) get ok by (simp add: NewClient_def Let_def)
  next
    case None
    let ?h2 = "CKubeConfig ''clientset'' # CKubeConfig ''config'' # h1"
    obtain n h3 where new: "run_state (newClient E store ns) ?h2 = (n, h3)" by fastforce
    have n: "n = Inr c \<and> h' = CLruAdd ?k ?v c # h3"
      using assms(3) get None new
      by (auto simp: NewClient_def Let_def k_kube_config_def cacheAdd_def run_cases
          split: option.splits sum.splits)
    obtain cs where cs: "h3 = cs @ ?h2" "list_all (\<lambda>c. \<not> lru_op c) cs"
      using performsE [OF performs_newClient_lru new] .
    have made: "made_for ?k ?v c"
      using newClient_fields [of E store ns ?h2 c h3] new n
      by (simp add: made_for_def cache_key_def)
    have "last_added k h3 = last_added k h1" for k
      using cs by (simp add: last_added_append)
    then have "cache_ok h'"
      using ok n made by (auto simp: cache_ok_def)
    then show ?thesis using made by simp
  qed
qed

theorem right_client_example:
  "\<exists>c h'. run_state (NewClient sample_env (SecretStoreFromNamespaced sample_store) ''app'') []
       = (Inr c, h')
     \<and> made_for (cache_key (SecretStoreFromNamespaced sample_store) ''app'') [] c"
proof -
  let ?s = "SecretStoreFromNamespaced sample_store"
  obtain c h' where run: "run_state (NewClient sample_env ?s ''app'') [] = (Inr c, h')"
    by (simp add: NewClient_def Let_def cacheGet_run k_kube_config_def cacheAdd_def newClient_def
        GetAKeylessProvider_def getAkeylessHTTPClient_def sample_store_def sample_store_spec_def
        sample_env_def)
  have "om_ResourceVersion (gs_Meta ?s) = []"
    by (simp add: sample_store_def sample_meta_def empty_meta_def)
  then show ?thesis
    using run right_client [of sample_env "[]" ?s "''app''" c h']
    by (auto simp: lru_faithful_def sample_env_def cache_ok_def)
qed

section \<open>Writing to Akeyless\<close>

lemma may_read_no_write: "may_read a c \<Longrightarrow> \<not> is_remote_write c"
  using may_read_quiet by (auto simp: quiet_def)

text \<open>The calls a push or a delete may make besides reading.\<close>

fun push_call :: "AkeylessClient \<Rightarrow> string \<Rightarrow> Call \<Rightarrow> bool" where
  "push_call a key (CRest u (RCreateSecret n v tags tok)) =
     (u = ac_GwAPIURL a \<and> n = key \<and> tags = [extSecretManagedTag])"
| "push_call a key (CRest u (RUpdateSecretVal n v tok)) = (u = ac_GwAPIURL a \<and> n = key)"
| "push_call a key c = may_read a c"

fun delete_call :: "AkeylessClient \<Rightarrow> string \<Rightarrow> Call \<Rightarrow> bool" where
  "delete_call a key (CRest u (RDeleteItem n tok)) = (u = ac_GwAPIURL a \<and> n = key)"
| "delete_call a key (CRest u (RUpdateSecretVal n v tok)) = (u = ac_GwAPIURL a \<and> n = key)"
| "delete_call a key c = may_read a c"

lemma may_read_push: "may_read a c \<Longrightarrow> push_call a key c"
  by (cases "(a, key, c)" rule: push_call.cases) simp_all

lemma may_read_delete: "may_read a c \<Longrightarrow> delete_call a key c"
  by (cases "(a, key, c)" rule: delete_call.cases) simp_all

lemma performs_PushSecret: "performs (push_call a (pd_RemoteKey psd)) (PushSecret E a ctx secret psd)"
proof -
  note pushing = performs_mono [OF performs_contextWithToken may_read_push]
    performs_mono [OF performs_GetSecret may_read_push]
  show ?thesis
    unfolding PushSecret_def CreateSecret_def UpdateSecret_def
    by (auto intro!: performs_intros pushing simp: Let_def split: remote_map.splits)
qed

lemma performs_DeleteSecret: "performs (delete_call a (pd_RemoteKey psd)) (DeleteSecret E a ctx psd)"
proof -
  note deleting = performs_mono [OF performs_contextWithToken may_read_delete]
    performs_mono [OF performs_GetSecret may_read_delete]
    performs_mono [OF performs_DescribeItem may_read_delete]
  show ?thesis
    unfolding DeleteSecret_def delete_property_def DeleteRemote_def UpdateSecret_def
    by (auto intro!: performs_intros deleting simp: Let_def)
qed

text \<open>
  C14: a push writes only to its own remote key: it creates it with the operator's tag or updates
  its value.  A delete only deletes or updates its own remote key.
\<close>

theorem pushes_own_key:
  "performs (push_call a (pd_RemoteKey psd)) (PushSecret E a ctx secret psd)
   \<and> performs (delete_call a (pd_RemoteKey psd)) (DeleteSecret E a ctx psd)"
  using performs_PushSecret performs_DeleteSecret by blast

text \<open>What describing an item can answer.\<close>

lemma DescribeItem_results:
  "Inr item \<in> results (DescribeItem E a ctx n) \<Longrightarrow>
   item = zero_item \<or> (\<exists>h. restDescribe E h = RestOk item)"
proof -
  assume "Inr item \<in> results (DescribeItem E a ctx n)"
  then obtain h h' where run: "run_state (DescribeItem E a ctx n) h = (Inr item, h')"
    by (auto simp: results_def)
  then obtain tok where tok: "SetBodyToken ctx = Inr tok"
    by (cases "SetBodyToken ctx") (auto simp: DescribeItem_def)
  let ?h = "CRest (ac_GwAPIURL a) (RDescribeItem n tok) # h"
  show ?thesis
    using run tok
    by (cases "restDescribe E ?h") (auto simp: DescribeItem_def k_rest_def split: if_splits)
qed

text \<open>
  C15: nothing is deleted or changed in Akeyless by a delete as long as no item the gateway
  describes carries the operator's tag.
\<close>

theorem deletes_only_managed:
  assumes "\<And>h item. restDescribe E h = RestOk item \<Longrightarrow> \<not> managed_tag item"
  shows "performs (\<lambda>c. \<not> is_remote_write c) (DeleteSecret E a ctx psr)"
  unfolding DeleteSecret_def
proof (rule performs_bind)
  show "performs (\<lambda>c. \<not> is_remote_write c) (contextWithToken E a ctx)"
    by (rule performs_mono [OF performs_contextWithToken may_read_no_write])
next
  fix c
  have rest: "performs (\<lambda>c. \<not> is_remote_write c) (do {
         d \<leftarrow> DescribeItem E a b (pd_RemoteKey psr);
         case d of
           Inl e \<Rightarrow> ret (GoRet (Some e))
         | Inr item \<Rightarrow>
             if \<not> managed_tag item then ret (GoRet None)
             else if pd_Property psr = [] then DeleteRemote E a b (pd_RemoteKey psr)
             else delete_property E a b psr })" for b
  proof (rule performs_bind_results)
    show "performs (\<lambda>c. \<not> is_remote_write c) (DescribeItem E a b (pd_RemoteKey psr))"
      by (rule performs_mono [OF performs_DescribeItem may_read_no_write])
    fix d assume d: "d \<in> results (DescribeItem E a b (pd_RemoteKey psr))"
    have "\<not> managed_tag item" if "d = Inr item" for item
      using DescribeItem_results [of item E a b "pd_RemoteKey psr"] d that assms
      by (auto simp: managed_tag_def zero_item_def)
    then show "performs (\<lambda>c. \<not> is_remote_write c) (case d of
         Inl e \<Rightarrow> ret (GoRet (Some e))
       | Inr item \<Rightarrow>
           if \<not> managed_tag item then ret (GoRet None)
           else if pd_Property psr = [] then DeleteRemote E a b (pd_RemoteKey psr)
           else delete_property E a b psr)"
      by (auto split: sum.splits intro!: performs_ret)
  qed
  then show "performs (\<lambda>c. \<not> is_remote_write c) (case c of
       Inl e \<Rightarrow> ret (GoRet (Some e))
     | Inr ctx \<Rightarrow> do {
         d \<leftarrow> DescribeItem E a ctx (pd_RemoteKey psr);
         case d of
           Inl e \<Rightarrow> ret (GoRet (Some e))
         | Inr item \<Rightarrow>
             if \<not> managed_tag item then ret (GoRet None)
             else if pd_Property psr = [] then DeleteRemote E a ctx (pd_RemoteKey psr)
             else delete_property E a ctx psr })"
    by (auto split: sum.splits intro!: performs_ret)
qed

definition sample_push :: PushData where
  "sample_push = \<lparr>pd_SecretKey = [], pd_RemoteKey = ''/db'', pd_Property = []\<rparr>"

theorem deletes_only_managed_example:
  "performs (\<lambda>c. \<not> is_remote_write c) (DeleteSecret sample_env sample_client (Some ''t'') sample_push)"
  by (rule deletes_only_managed) (auto simp: sample_env_def managed_tag_def zero_item_def)

text \<open>
  Pushing a property keeps every other key of the remote object, and pushing a whole Secret
  keeps the remote keys the Secret does not have.
\<close>

theorem push_merges:
  assumes "distinct (map fst (sec_Data secret))"
  shows "mget (mcopy data (pushed_entries secret psd)) k =
    (if pd_Property psd = [] then
       (case mget (sec_Data secret) k of Some v \<Rightarrow> Some (JStr v) | None \<Rightarrow> mget data k)
     else if k = pd_Property psd then
       (case mget (sec_Data secret) (pd_SecretKey psd) of Some v \<Rightarrow> Some (JStr v) | None \<Rightarrow> mget data k)
     else mget data k)"
proof -
  have keys: "map fst (map (\<lambda>(k, v). (k, JStr v)) m) = map fst m" for m :: "bytes gomap"
    by (induction m) auto
  have look: "mget (map (\<lambda>(k, v). (k, JStr v)) m) k = map_option JStr (mget m k)" for m :: "bytes gomap"
    by (induction m) auto
  have "mget (mcopy data (map (\<lambda>(k, v). (k, JStr v)) (sec_Data secret))) k
      = (case mget (sec_Data secret) k of Some v \<Rightarrow> Some (JStr v) | None \<Rightarrow> mget data k)"
    using assms by (subst mget_mcopy) (simp_all only: keys look, simp split: option.splits)
  then show ?thesis
    by (cases "mget (sec_Data secret) (pd_SecretKey psd)") (simp_all add: pushed_entries_def mget_mput)
qed

theorem push_merges_example:
  "mget (mcopy [(''a'', JBool True)] (pushed_entries (sample_secret\<lparr>sec_Data := [(''b'', ''x'')]\<rparr>) sample_push)) ''a''
   = Some (JBool True)"
  by (subst push_merges) (simp_all add: sample_push_def)

lemma mcopy_absorb: "(\<And>k v. (k, v) \<in> set e \<Longrightarrow> mget m k = Some v) \<Longrightarrow> mcopy m e = m"
  by (induction e) (auto simp: update_triv)

text \<open>
  C16: pushing again is without effect: when the remote value is what a push printed, and the
  printed object reads back as it was, the next push makes no write.
\<close>

theorem push_idempotent:
  assumes "distinct (map fst (pushed_entries secret psd))"
    and "merged = mcopy data (pushed_entries secret psd)"
    and "jsonParse E (jsonPrint E (JObj merged)) = Some (JObj merged)"
    and "run_state (GetSecret E a (Some tok) (key_ref psd)) h = (Inr (jsonPrint E (JObj merged)), h')"
  shows "run_state (PushSecret E a (Some tok) secret psd) h = (GoRet None, h')"
proof -
  have "mget merged k = Some v" if "(k, v) \<in> set (pushed_entries secret psd)" for k v
    using that assms(1,2) by (simp add: mget_mcopy)
  then have "mcopy merged (pushed_entries secret psd) = merged" by (rule mcopy_absorb)
  then show ?thesis
    using assms(3,4)
    by (simp add: PushSecret_def contextWithToken_def read_remote_def Let_def)
qed

definition push_env :: Env where
  "push_env = sample_env\<lparr>
     jsonParse := \<lambda>b. Some (JObj [(''b'', JStr ''x'')]),
     jsonPrint := \<lambda>j. ''obj'',
     restDescribe := \<lambda>h. RestOk \<lparr>ri_ItemName = Some ''/db'', ri_ItemType = Some ''STATIC_SECRET'',
        ri_LastVersion = Some 1, ri_ItemTags = None\<rparr>,
     restValues := \<lambda>h. RestOk [(''/db'', JStr ''obj'')]\<rparr>"

theorem push_idempotent_example:
  "fst (run_state (PushSecret push_env sample_client (Some ''t'')
      (sample_secret\<lparr>sec_Data := [(''b'', ''x'')]\<rparr>) sample_push) []) = GoRet None"
  by (subst push_idempotent [where data = "[]" and merged = "[(''b'', JStr ''x'')]"])
    (auto simp: pushed_entries_def sample_push_def push_env_def GetSecret_def contextWithToken_def
      GetSecretByType_def DescribeItem_def SetBodyToken_def k_rest_def item_type_def GetStaticSecret_def
      static_value_def key_ref_def select_property_def ref_version_def HasPrefix_prefix)

section \<open>Errors of the gateway\<close>

text \<open>
  An API error of the gateway whose body is a JSON object without wrongly typed item fields,
  whatever the error was, counts as an item that does not exist: a push goes on to create it.
\<close>

theorem api_error_creates:
  assumes "SetBodyToken (Some tok) = Inr t"
    and "restDescribe E (CRest (ac_GwAPIURL a) (RDescribeItem (pd_RemoteKey psd) t) # h) = RestApiErr body e"
    and "unmarshals_item E body"
  shows "\<exists>v. snd (run_state (PushSecret E a (Some tok) secret psd) h)
    = CRest (ac_GwAPIURL a) (RCreateSecret (pd_RemoteKey psd) v [extSecretManagedTag] t)
      # CRest (ac_GwAPIURL a) (RDescribeItem (pd_RemoteKey psd) t) # h"
  using assms
  by (simp add: PushSecret_def contextWithToken_def GetSecret_def GetSecretByType_def DescribeItem_def
      k_rest_def key_ref_def zero_item_def ErrItemNotExists_def CreateSecret_def)

theorem api_error_creates_example:
  "\<exists>v. snd (run_state (PushSecret (sample_env\<lparr>restDescribe := \<lambda>h. RestApiErr ''{}'' not_found\<rparr>)
       sample_client (Some ''t'') sample_secret sample_push) [])
    = [CRest ''https://api.akeyless.io'' (RCreateSecret ''/db'' v [extSecretManagedTag] (BodyToken ''t'')),
       CRest ''https://api.akeyless.io'' (RDescribeItem ''/db'' (BodyToken ''t''))]"
  using api_error_creates [of "''t''" "BodyToken ''t''"
      "sample_env\<lparr>restDescribe := \<lambda>h. RestApiErr ''{}'' not_found\<rparr>" sample_client sample_push "[]"
      "''{}''" not_found sample_secret]
  by (simp add: SetBodyToken_def HasPrefix_prefix sample_client_def sample_push_def
      unmarshals_item_def sample_env_def)

text \<open>
  A network error while writing, one without a response, makes the three writers dereference
  nil.
\<close>

theorem write_without_response_panics:
  assumes "\<And>h. restUnit E h = RestErr e False" and "SetBodyToken ctx = Inr t"
  shows "fst (run_state (CreateSecret E a ctx key v) h) = GoPanic
    \<and> fst (run_state (UpdateSecret E a ctx key v) h) = GoPanic
    \<and> fst (run_state (DeleteRemote E a ctx key) h) = GoPanic"
  using assms by (simp add: CreateSecret_def UpdateSecret_def DeleteRemote_def k_rest_def)

theorem write_without_response_panics_example:
  "fst (run_state (CreateSecret (sample_env\<lparr>restUnit := \<lambda>h. RestErr not_found False\<rparr>)
      sample_client (Some ''t'') ''/db'' ''v'') []) = GoPanic"
  using write_without_response_panics [of "sample_env\<lparr>restUnit := \<lambda>h. RestErr not_found False\<rparr>"
      not_found "Some ''t''" "BodyToken ''t''" sample_client "''/db''" "''v''" "[]"]
  by (simp add: SetBodyToken_def HasPrefix_prefix)

end
