(* ===== verification/Webhook.thy ===== *)
theory Webhook
  imports Akeyless_Api Refresh
begin

text \<open>
  \<open>pkg/akeyless/webhook/server.go\<close>: the HTTP endpoint that Akeyless notifies.  An event names an
  item; every resource that refers to the item gets a force-sync annotation, which makes its next
  reconcile fetch.  Listening and shutting down are left out.
\<close>

record Event =
  ev_ItemName :: string
  ev_Path :: string
  ev_ItemPath :: string
  ev_EventType :: string
  ev_LastVersion :: int

record Server =
  srv_Token :: string
  srv_Path :: string

text \<open>A request: its method, its \<open>Authorization\<close> header and what reading its body gives.\<close>

record HttpRequest =
  rq_Method :: string
  rq_Authorization :: string
  rq_Body :: "err + bytes"

datatype HttpResponse = HttpError nat string | HttpOk nat string

section \<open>Paths\<close>

definition normalizePath :: "string \<Rightarrow> string" where
  "normalizePath p' =
     (let p = TrimSpace p' in
      if p = [] then p
      else TrimSuffix (if \<not> HasPrefix p ''/'' then ''/'' @ p else p) ''/'')"

definition pathsEqual :: "string \<Rightarrow> string \<Rightarrow> bool" where
  "pathsEqual a b \<longleftrightarrow> normalizePath a = normalizePath b"

definition referencesPath :: "SecretMapping list \<Rightarrow> string \<Rightarrow> bool" where
  "referencesPath data itemPath = list_ex (\<lambda>m. pathsEqual (rr_Key (sm_RemoteRef m)) itemPath) data"

section \<open>Reading the event\<close>

definition zero_event :: Event where
  "zero_event = \<lparr>ev_ItemName = [], ev_Path = [], ev_ItemPath = [], ev_EventType = [], ev_LastVersion = 0\<rparr>"

fun string_field :: "Json \<Rightarrow> string \<Rightarrow> string option" where
  "string_field (JStr s) cur = Some s"
| "string_field JNull cur = Some cur"
| "string_field _ cur = None"

fun int32_field :: "Json \<Rightarrow> int \<Rightarrow> int option" where
  "int32_field (JNum n) cur = ParseInt n 32"
| "int32_field JNull cur = Some cur"
| "int32_field _ cur = None"

text \<open>\<open>json.Unmarshal\<close> into the struct: fields by name, unknown fields ignored.\<close>

fun read_event :: "Json gomap \<Rightarrow> Event \<Rightarrow> Event option" where
  "read_event [] ev = Some ev"
| "read_event ((k, v) # kvs) ev =
     (if field_is ''item_name'' k then do {
        s \<leftarrow> string_field v (ev_ItemName ev); read_event kvs (ev\<lparr>ev_ItemName := s\<rparr>) }
      else if field_is ''path'' k then do {
        s \<leftarrow> string_field v (ev_Path ev); read_event kvs (ev\<lparr>ev_Path := s\<rparr>) }
      else if field_is ''item_path'' k then do {
        s \<leftarrow> string_field v (ev_ItemPath ev); read_event kvs (ev\<lparr>ev_ItemPath := s\<rparr>) }
      else if field_is ''event_type'' k then do {
        s \<leftarrow> string_field v (ev_EventType ev); read_event kvs (ev\<lparr>ev_EventType := s\<rparr>) }
      else if field_is ''last_version'' k then do {
        i \<leftarrow> int32_field v (ev_LastVersion ev); read_event kvs (ev\<lparr>ev_LastVersion := i\<rparr>) }
      else read_event kvs ev)"

definition parse_event :: "Env \<Rightarrow> bytes \<Rightarrow> Event option" where
  "parse_event E body = (case jsonParse E body of
     Some (JObj kvs) \<Rightarrow> read_event kvs zero_event
   | Some JNull \<Rightarrow> Some zero_event
   | _ \<Rightarrow> None)"

definition event_path :: "Event \<Rightarrow> string" where
  "event_path ev =
     (if ev_ItemName ev \<noteq> [] then ev_ItemName ev
      else if ev_Path ev \<noteq> [] then ev_Path ev
      else ev_ItemPath ev)"

section \<open>Marking the resources\<close>

definition force_sync_meta :: "Env \<Rightarrow> instant \<Rightarrow> ObjectMeta \<Rightarrow> ObjectMeta" where
  "force_sync_meta E t m =
     m\<lparr>om_Annotations := mput AnnotationForceSync (format_rfc3339 (tz_offset E) t) (om_Annotations m)\<rparr>"

definition patchForceSync :: "Env \<Rightarrow> (instant \<Rightarrow> KObj) \<Rightarrow> err option io" where
  "patchForceSync E patched = do {
     t \<leftarrow> now E;
     k_write E (CPatch (patched t))
   }"

definition force_sync_as :: "Env \<Rightarrow> AkeylessSecret \<Rightarrow> instant \<Rightarrow> KObj" where
  "force_sync_as E a t = OAS (a\<lparr>as_Meta := force_sync_meta E t (as_Meta a)\<rparr>)"

definition force_sync_ads :: "Env \<Rightarrow> AkeylessDynamicSecret \<Rightarrow> instant \<Rightarrow> KObj" where
  "force_sync_ads E d t = OADS (d\<lparr>ads_Meta := force_sync_meta E t (ads_Meta d)\<rparr>)"

text \<open>The loop over one list of resources: those that match are patched and counted.\<close>

fun enqueue_items ::
  "Env \<Rightarrow> ('a \<Rightarrow> bool) \<Rightarrow> ('a \<Rightarrow> instant \<Rightarrow> KObj) \<Rightarrow> 'a list \<Rightarrow> nat \<Rightarrow> (nat \<times> err option) io" where
  "enqueue_items E matches patched [] count = ret (count, None)"
| "enqueue_items E matches patched (x # xs) count =
     (if \<not> matches x then enqueue_items E matches patched xs count
      else do {
        r \<leftarrow> patchForceSync E (patched x);
        case r of
          Some e \<Rightarrow> ret (count, Some e)
        | None \<Rightarrow> enqueue_items E matches patched xs (count + 1)
      })"

definition as_matches :: "string \<Rightarrow> AkeylessSecret \<Rightarrow> bool" where
  "as_matches itemPath a = referencesPath (asp_Data (as_Spec a)) itemPath"

definition ads_matches :: "string \<Rightarrow> AkeylessDynamicSecret \<Rightarrow> bool" where
  "ads_matches itemPath d = pathsEqual (adp_Path (ads_Spec d)) itemPath"

definition enqueueMatching :: "Env \<Rightarrow> string \<Rightarrow> (nat \<times> err option) io" where
  "enqueueMatching E itemPath = do {
     r \<leftarrow> k_list_as E;
     case r of
       Inl e \<Rightarrow> ret (0, Some (ErrWrap ''list AkeylessSecret'' e))
     | Inr secrets \<Rightarrow> do {
         (count, err) \<leftarrow> enqueue_items E (as_matches itemPath) (force_sync_as E) secrets 0;
         case err of
           Some e \<Rightarrow> ret (count, Some e)
         | None \<Rightarrow> do {
             r' \<leftarrow> k_list_ads E;
             case r' of
               Inl e \<Rightarrow> ret (count, Some (ErrWrap ''list AkeylessDynamicSecret'' e))
             | Inr dynamics \<Rightarrow> enqueue_items E (ads_matches itemPath) (force_sync_ads E) dynamics count
           }
       }
   }"

section \<open>The handler\<close>

definition authorized :: "Server \<Rightarrow> HttpRequest \<Rightarrow> bool" where
  "authorized s rq \<longleftrightarrow> srv_Token s = [] \<or> rq_Authorization rq = ''Bearer '' @ srv_Token s"

definition defaultPath :: string where "defaultPath = ''/webhook/akeyless''"

definition server_path :: "Server \<Rightarrow> string" where
  "server_path s = (if srv_Path s = [] then defaultPath else srv_Path s)"

text \<open>At most one mebibyte of the body is read.\<close>

definition handleEvent :: "Env \<Rightarrow> Server \<Rightarrow> HttpRequest \<Rightarrow> HttpResponse io" where
  "handleEvent E s rq =
     (if rq_Method rq \<noteq> ''POST'' then ret (HttpError 405 ''method not allowed'')
      else if \<not> authorized s rq then ret (HttpError 401 ''unauthorized'')
      else (case rq_Body rq of
          Inl _ \<Rightarrow> ret (HttpError 400 ''bad request'')
        | Inr full \<Rightarrow> (case parse_event E (take (2 ^ 20) full) of
            None \<Rightarrow> ret (HttpError 400 ''invalid json'')
          | Some event \<Rightarrow>
              if event_path event = [] then ret (HttpError 400 ''missing item path'')
              else do {
                (count, err) \<leftarrow> enqueueMatching E (event_path event);
                ret (case err of
                  Some _ \<Rightarrow> HttpError 500 ''internal error''
                | None \<Rightarrow> HttpOk count (event_path event))
              })))"

end
