(* ===== verification/Webhook_Laws.thy ===== *)
theory Webhook_Laws
  imports Webhook Traces Sample_Env
begin

text \<open>
  The webhook: who is let in, which resources are marked, and that a marked resource is fetched.
\<close>

section \<open>Letting requests in\<close>

text \<open>
  C17: the webhook makes no call at all unless the request is a POST, carries the configured bearer
  token and has a readable body with an event that names an item.
\<close>

theorem webhook_guarded:
  "traces (handleEvent E s rq)
     (\<lambda>r cs. cs = [] \<or>
        (rq_Method rq = ''POST'' \<and> (srv_Token s = [] \<or> rq_Authorization rq = ''Bearer '' @ srv_Token s)
         \<and> (\<exists>body ev. rq_Body rq = Inr body \<and> parse_event E (take (2 ^ 20) body) = Some ev
               \<and> event_path ev \<noteq> [])))"
proof (rule tracesI)
  fix h
  have "\<exists>r cs. run_state (handleEvent E s rq) h = (r, cs @ h)"
  proof -
    have items: "performs (\<lambda>_. True) (enqueue_items E m p xs n)" for m p n and xs :: "'x list"
      by (induction E m p xs n rule: enqueue_items.induct)
        (auto intro!: performs_intros simp: patchForceSync_def k_write_def)
    have "performs (\<lambda>_. True) (handleEvent E s rq)"
      unfolding handleEvent_def enqueueMatching_def k_list_as_def k_list_ads_def
      by (intro performs_intros items) simp_all
    then show ?thesis unfolding performs_def by (metis prod.collapse)
  qed
  then show "\<exists>r cs. run_state (handleEvent E s rq) h = (r, cs @ h) \<and> (cs = [] \<or>
        (rq_Method rq = ''POST'' \<and> (srv_Token s = [] \<or> rq_Authorization rq = ''Bearer '' @ srv_Token s)
         \<and> (\<exists>body ev. rq_Body rq = Inr body \<and> parse_event E (take (2 ^ 20) body) = Some ev
               \<and> event_path ev \<noteq> [])))"
    by (auto simp: handleEvent_def authorized_def split: sum.splits option.splits if_splits)
qed

section \<open>Marking\<close>

fun marks :: "string \<Rightarrow> Call \<Rightarrow> bool" where
  "marks itemPath (CPatch (OAS a)) =
     (as_matches itemPath a \<and> mget (om_Annotations (as_Meta a)) AnnotationForceSync \<noteq> None)"
| "marks itemPath (CPatch (OADS d)) =
     (ads_matches itemPath d \<and> mget (om_Annotations (ads_Meta d)) AnnotationForceSync \<noteq> None)"
| "marks itemPath (CList kind) = True"
| "marks itemPath _ = False"

lemma performs_enqueue_items:
  assumes "\<And>x t. m x \<Longrightarrow> P (CPatch (p x t))"
  shows "performs P (enqueue_items E m p xs n)"
  using assms
proof (induction E m p xs n rule: enqueue_items.induct)
  case (2 E m p x xs n)
  have "performs P (patchForceSync E (p x))" if "m x"
    unfolding patchForceSync_def k_write_def by (intro performs_intros 2(3) that)
  then show ?case using 2 by (auto intro!: performs_intros)
qed (auto intro: performs_intros)

text \<open>
  For an item the webhook patches only resources that refer to it, and every patch sets the
  force-sync annotation; it makes no other write.
\<close>

theorem webhook_marks_only_references:
  "performs (marks itemPath) (enqueueMatching E itemPath)"
  unfolding enqueueMatching_def k_list_as_def k_list_ads_def
  by (intro performs_intros performs_enqueue_items)
    (simp_all add: force_sync_as_def force_sync_ads_def force_sync_meta_def as_matches_def
      ads_matches_def mget_mput)

lemma enqueue_items_all:
  "traces (enqueue_items E m p xs n)
     (\<lambda>r cs. snd r \<noteq> None
        \<or> fst r = n + length (filter m xs)
          \<and> list_all2 (\<lambda>c x. \<exists>t. c = CPatch (p x t)) (rev cs) (filter m xs))"
proof (induction E m p xs n rule: enqueue_items.induct)
  case (1 E m p n)
  then show ?case by (auto intro: traces_ret)
next
  case (2 E m p x xs n)
  show ?case
  proof (cases "m x")
    case False
    then show ?thesis using 2(1) by simp
  next
    case True
    show ?thesis
      using True
      by (auto simp: patchForceSync_def k_write_def intro!: trace_intros
          traces_mono [OF 2(2) [simplified]])
  qed
qed

definition patched_at :: "('a \<Rightarrow> instant \<Rightarrow> KObj) \<Rightarrow> Call \<Rightarrow> 'a \<Rightarrow> bool" where
  "patched_at patched c x \<longleftrightarrow> (\<exists>t. c = CPatch (patched x t))"

lemma enqueue_items_run:
  obtains k err cs where "run_state (enqueue_items E m p xs n) h = ((k, err), cs @ h)"
    and "err = None \<Longrightarrow> k = n + length (filter m xs) \<and> list_all2 (patched_at p) (rev cs) (filter m xs)"
proof -
  obtain r cs where "run_state (enqueue_items E m p xs n) h = (r, cs @ h)"
      "snd r \<noteq> None \<or> fst r = n + length (filter m xs)
        \<and> list_all2 (\<lambda>c x. \<exists>t. c = CPatch (p x t)) (rev cs) (filter m xs)"
    using enqueue_items_all [of E m p xs n] unfolding traces_def by blast
  then show ?thesis using that [of "fst r" "snd r" cs] by (auto simp: patched_at_def [abs_def])
qed

text \<open>
  When the webhook's marking ends without an error, both lists were read, every listed resource
  that matches is patched, in the order of the lists, and the count is their number.
\<close>

theorem webhook_marks_every_match:
  "case run_state (enqueueMatching E p) h of
     ((count, Some e), h') \<Rightarrow> True
   | ((count, None), h') \<Rightarrow> \<exists>secrets dynamics cs ds.
       listAS E (CList ''AkeylessSecret'' # h) = Inr secrets
       \<and> listADS E (CList ''AkeylessDynamicSecret'' # cs @ CList ''AkeylessSecret'' # h) = Inr dynamics
       \<and> h' = ds @ CList ''AkeylessDynamicSecret'' # cs @ CList ''AkeylessSecret'' # h
       \<and> count = length (filter (as_matches p) secrets) + length (filter (ads_matches p) dynamics)
       \<and> list_all2 (patched_at (force_sync_as E)) (rev cs) (filter (as_matches p) secrets)
       \<and> list_all2 (patched_at (force_sync_ads E)) (rev ds) (filter (ads_matches p) dynamics)"
proof (cases "listAS E (CList ''AkeylessSecret'' # h)")
  case (Inl e)
  then show ?thesis by (simp add: enqueueMatching_def k_list_as_def)
next
  case as: (Inr secrets)
  let ?h = "CList ''AkeylessSecret'' # h"
  obtain n err cs where r: "run_state (enqueue_items E (as_matches p) (force_sync_as E) secrets 0) ?h
      = ((n, err), cs @ ?h)" and n: "err = None \<Longrightarrow> n = length (filter (as_matches p) secrets)
      \<and> list_all2 (patched_at (force_sync_as E)) (rev cs) (filter (as_matches p) secrets)"
    by (rule enqueue_items_run [of E "as_matches p" "force_sync_as E" secrets 0 ?h]) auto
  show ?thesis
  proof (cases err)
    case (Some e)
    then show ?thesis using as r by (simp add: enqueueMatching_def k_list_as_def)
  next
    case None
    let ?h' = "CList ''AkeylessDynamicSecret'' # cs @ ?h"
    show ?thesis
    proof (cases "listADS E ?h'")
      case (Inl e)
      then show ?thesis using as r None by (simp add: enqueueMatching_def k_list_as_def k_list_ads_def)
    next
      case ads: (Inr dynamics)
      obtain k err' ds where r': "run_state (enqueue_items E (ads_matches p) (force_sync_ads E) dynamics n) ?h'
          = ((k, err'), ds @ ?h')" and k: "err' = None \<Longrightarrow> k = n + length (filter (ads_matches p) dynamics)
          \<and> list_all2 (patched_at (force_sync_ads E)) (rev ds) (filter (ads_matches p) dynamics)"
        by (rule enqueue_items_run [of E "ads_matches p" "force_sync_ads E" dynamics n ?h']) auto
      have "run_state (enqueueMatching E p) h = ((k, err'), ds @ ?h')"
        using as ads r r' None by (simp add: enqueueMatching_def k_list_as_def k_list_ads_def)
      then show ?thesis using as ads n [OF None] k by (cases err') auto
    qed
  qed
qed

section \<open>The effect of a mark\<close>

lemma format_parses:
  assumes "\<bar>tz\<bar> < 24 * 60" "0 \<le> t div second + tz * 60"
    "fst (civil_from_days (nat ((t div second + tz * 60) div 86400))) < 10000"
  shows "format_rfc3339 tz t \<noteq> []" "parse_rfc3339 (format_rfc3339 tz t) = Some (t div second * second)"
proof -
  show p: "parse_rfc3339 (format_rfc3339 tz t) = Some (t div second * second)"
    by (rule parse_format_rfc3339 [OF assms])
  show "format_rfc3339 tz t \<noteq> []"
    using p by (auto simp: parse_rfc3339_def getyear_def)
qed

text \<open>
  A resource marked at \<open>t\<close> has a pending force-sync exactly if it was last refreshed before the
  second in which it was marked: the mark has whole seconds, so a change that is notified in the
  second of the last refresh is lost.  The year has to have four digits.
\<close>

theorem mark_pending_iff:
  assumes "\<bar>tz_offset E\<bar> < 24 * 60" and "0 \<le> t div second + tz_offset E * 60"
    and "fst (civil_from_days (nat ((t div second + tz_offset E * 60) div 86400))) < 10000"
  shows "ForceSyncPending (om_Annotations (force_sync_meta E t m)) refreshTime
    \<longleftrightarrow> (case refreshTime of None \<Rightarrow> True | Some rt \<Rightarrow> rt < t div second * second)"
  using format_parses [OF assms]
  by (simp add: ForceSyncPending_def force_sync_meta_def mget_mput split: option.splits)

theorem mark_pending_iff_example:
  "ForceSyncPending (om_Annotations (force_sync_meta sample_env (5 * second) sample_meta)) (Some second)
   \<and> \<not> ForceSyncPending (om_Annotations (force_sync_meta sample_env (5 * second + 999) sample_meta))
        (Some (5 * second + 1))"
proof -
  have c: "fst (civil_from_days 0) < 10000" by code_simp
  then show ?thesis
    using mark_pending_iff [of sample_env "5 * second" sample_meta "Some second"]
      mark_pending_iff [of sample_env "5 * second + 999" sample_meta "Some (5 * second + 1)"]
    by (simp add: sample_env_def second_def)
qed

text \<open>
  A marked resource with a pending mark is synchronised at its next reconcile whatever its
  policy says about time, unless the policy is \<open>CreatedOnce\<close>.
\<close>

lemma pending_mark_syncs:
  assumes "ForceSyncPending (rc_Annotations cfg) (rc_RefreshTime cfg)"
    and "rc_Policy cfg \<noteq> SyncPolicyCreatedOnce"
  shows "ShouldSync t cfg"
  using assms by (simp add: ShouldSync_def)

section \<open>Paths\<close>

definition no_slash_ws :: "string list \<Rightarrow> bool" where
  "no_slash_ws ws \<longleftrightarrow> list_all (\<lambda>w. CHR ''/'' \<notin> set w) ws"

lemma no_slash_white_space: "no_slash_ws white_space" "no_slash_ws (map rev white_space)"
  by (simp_all add: no_slash_ws_def white_space_def)

lemma no_ws_front_snoc:
  assumes "no_slash_ws ws" "no_ws_front ws s"
  shows "no_ws_front ws (s @ ''/'')"
  using assms
  by (auto simp: no_ws_front_def find_None_iff HasPrefix_prefix no_slash_ws_def list_all_iff)

lemma no_ws_front_slash:
  assumes "no_slash_ws ws"
  shows "no_ws_front ws (CHR ''/'' # s)"
  using assms
  by (auto simp: no_ws_front_def find_None_iff HasPrefix_prefix no_slash_ws_def list_all_iff
      prefix_Cons)

text \<open>
  A path is recognised however it is spelled: with or without a leading and a trailing slash it
  normalises to the same absolute path.
\<close>

theorem path_spellings:
  assumes "TrimSpace s = s" and "s \<noteq> []" and "hd s \<noteq> CHR ''/''" and "last s \<noteq> CHR ''/''"
  shows "normalizePath s = CHR ''/'' # s
    \<and> pathsEqual (CHR ''/'' # s) s \<and> pathsEqual (s @ ''/'') s \<and> pathsEqual (CHR ''/'' # s @ ''/'') s"
proof -
  have ws: "no_ws_front white_space s" "no_ws_front (map rev white_space) (rev s)"
    using TrimSpace_no_ws [of s] assms(1) by simp_all
  note slash = no_ws_front_slash [OF no_slash_white_space(1)] no_ws_front_slash [OF no_slash_white_space(2)]
    no_ws_front_snoc [OF no_slash_white_space(1)] no_ws_front_snoc [OF no_slash_white_space(2)]
  have t: "TrimSpace (CHR ''/'' # s) = CHR ''/'' # s" "TrimSpace (s @ ''/'') = s @ ''/''"
    "TrimSpace (CHR ''/'' # s @ ''/'') = CHR ''/'' # s @ ''/''"
    by (rule TrimSpace_id; use ws slash in simp)+
  have n: "normalizePath s = CHR ''/'' # s" "normalizePath (CHR ''/'' # s) = CHR ''/'' # s"
    "normalizePath (s @ ''/'') = CHR ''/'' # s" "normalizePath (CHR ''/'' # s @ ''/'') = CHR ''/'' # s"
    using assms t
    by (simp_all add: normalizePath_def Let_def HasPrefix_single TrimSuffix_single butlast_append)
  then show ?thesis by (simp add: pathsEqual_def)
qed

theorem path_spellings_example:
  "pathsEqual ''/db/password/'' ''db/password''"
proof -
  have "TrimSpace ''db/password'' = ''db/password''"
    by (rule TrimSpace_id) (simp_all add: no_ws_front_def white_space_def HasPrefix_def)
  then show ?thesis using path_spellings [of "''db/password''"] by simp
qed

end
