(* ===== verification/Keys_Laws.thy ===== *)
theory Keys_Laws
  imports Secret_Keys Sample_Env
begin

text \<open>
  Properties of the key and value transformations of a fetched secret map.
\<close>

section \<open>Hexadecimal numbers\<close>

lemma hex_value_digit [simp]: "n < 16 \<Longrightarrow> hex_value (hex_digit n) = Some n"
proof -
  assume n: "n < 16"
  have "list_all (\<lambda>n. hex_value (hex_digit n) = Some n) [0..<16]" by code_simp
  then show ?thesis using n by (simp add: list_all_iff del: upt_rec_numeral)
qed

definition is_hex :: "char \<Rightarrow> bool" where
  "is_hex c \<longleftrightarrow> hex_value c \<noteq> None"

lemma is_hex_digit [simp]: "n < 16 \<Longrightarrow> is_hex (hex_digit n)"
  by (simp add: is_hex_def)

lemma hex_nat_digits: "list_all is_hex (hex_nat n)"
proof (induction n rule: hex_nat.induct)
  case (1 n)
  then show ?case by (subst hex_nat.simps) simp
qed

lemma hex_nat_nonempty: "hex_nat n \<noteq> []"
  by (subst hex_nat.simps) simp

lemma hex_read_snoc: "hex_read (s @ [c]) = hex_read s * 16 + the (hex_value c)"
  by (simp add: hex_read_def)

lemma hex_read_nat: "hex_read (hex_nat n) = n"
proof (induction n rule: hex_nat.induct)
  case (1 n)
  show ?case
  proof (cases "n < 16")
    case True
    then show ?thesis by (subst hex_nat.simps) (simp add: hex_read_def)
  next
    case False
    then show ?thesis using 1 by (subst hex_nat.simps) (simp add: hex_read_snoc)
  qed
qed

lemma hex_read_zeros: "hex_read (replicate k (CHR ''0'') @ s) = hex_read s"
proof -
  have "fold (\<lambda>c acc. acc * 16 + the (hex_value c)) (replicate k (CHR ''0'')) 0 = 0"
    by (induction k) (simp_all add: hex_value_def ord_def)
  then show ?thesis by (simp add: hex_read_def)
qed

lemma hex_nat_length: "n < 16 ^ Suc k \<Longrightarrow> length (hex_nat n) \<le> Suc k"
proof (induction k arbitrary: n)
  case 0
  then show ?case by (subst hex_nat.simps) simp
next
  case (Suc k)
  then have "n div 16 < 16 ^ Suc k" by (simp add: less_mult_imp_div_less mult.commute)
  then show ?case using Suc.IH [of "n div 16"] by (subst hex_nat.simps) simp
qed

lemma hex4_facts:
  assumes "n < 0x100000"
  shows "hex_read (hex4 n) = n" "list_all is_hex (hex4 n)" "length (hex4 n) = 4 \<or> length (hex4 n) = 5"
proof -
  show "hex_read (hex4 n) = n" by (simp add: hex4_def hex_read_zeros hex_read_nat)
  have "is_hex (CHR ''0'')" by (simp add: is_hex_def hex_value_def ord_def)
  then show "list_all is_hex (hex4 n)" 
    using hex_nat_digits [of n] by (auto simp: hex4_def list_all_iff)
  have "length (hex_nat n) \<le> 5" using hex_nat_length [of n 4] assms by simp
  then show "length (hex4 n) = 4 \<or> length (hex4 n) = 5" by (auto simp: hex4_def)
qed

section \<open>Converting and reversing\<close>

abbreviation underscore :: char where "underscore \<equiv> CHR ''_''"

lemma escape_at_other: "c \<noteq> underscore \<Longrightarrow> escape_at (c # s) = None"
  by (simp add: escape_at_def HasPrefix_prefix)

lemma unescape_Nil [simp]: "unescape [] = []"
  by (simp add: unescape.simps)

lemma unescape_plain: "underscore \<notin> set s \<Longrightarrow> unescape (s @ t) = s @ unescape t"
  by (induction s) (auto simp: unescape.simps [of "_ # _"] escape_at_other)

lemma takeWhile_hex: "list_all is_hex ds \<Longrightarrow> takeWhile (\<lambda>c. hex_value c \<noteq> None) (ds @ underscore # t) = ds"
  by (induction ds) (auto simp: is_hex_def hex_value_def ord_def)

lemma escape_at_escape:
  assumes "list_all is_hex ds" "length ds = 4 \<or> length ds = 5"
  shows "escape_at (''_U'' @ ds @ underscore # t) = Some (ds, t)"
proof -
  have "drop (2 + length ds) (''_U'' @ ds @ underscore # t) = underscore # t" by simp
  then show ?thesis
    using assms(2) takeWhile_hex [OF assms(1), of t] by (simp add: escape_at_def Let_def HasPrefix_prefix)
qed

lemma unescape_escape:
  assumes "r < 0x100000"
  shows "unescape (''_U'' @ hex4 r @ underscore # t) = encode_rune r @ unescape t"
  using escape_at_escape [OF hex4_facts(2,3) [OF assms], of t] hex4_facts(1) [OF assms]
  by (subst unescape.simps) simp

lemma byte_eq_underscore: "n < 256 \<Longrightarrow> underscore = byte n \<longleftrightarrow> n = ord underscore"
  by (metis byte_ord ord_byte)

lemma high_byte [simp]: "128 \<le> n \<Longrightarrow> n < 256 \<Longrightarrow> byte n \<noteq> underscore"
proof -
  assume "128 \<le> n" "n < 256"
  moreover have "ord underscore = 95" by (simp add: ord_def)
  ultimately show ?thesis using byte_eq_underscore [of n] by simp
qed

lemma small_mod_64: "128 + r mod 64 < (256::nat)"
proof -
  have "r mod 64 < (64::nat)" by simp
  then show ?thesis by linarith
qed

lemma encode_rune_no_underscore:
  assumes "scalar r" "r \<noteq> ord underscore"
  shows "underscore \<notin> set (encode_rune r)"
proof -
  have u: "ord underscore = 95" by (simp add: ord_def)
  have b: "r < 0x110000" using assms by (simp add: scalar_def)
  consider "r < 0x80" | "0x80 \<le> r" "r < 0x800" | "0x800 \<le> r" "r < 0x10000" | "0x10000 \<le> r"
    by linarith
  then show ?thesis
  proof cases
    case 1
    then show ?thesis using assms u byte_eq_underscore [of r] by (auto simp: encode_rune_def)
  next
    case 2
    then have "r div 64 < 32" by (simp add: less_mult_imp_div_less)
    then have "192 + r div 64 < 256" by linarith
    from high_byte [OF _ this] show ?thesis
      using 2 assms(1) high_byte [OF le_add1 small_mod_64] by (simp add: encode_rune_def eq_commute [of underscore])
  next
    case 3
    then have "r div 4096 < 16" by (simp add: less_mult_imp_div_less)
    then have "224 + r div 4096 < 256" by linarith
    from high_byte [OF _ this] show ?thesis
      using 3 assms(1) high_byte [OF le_add1 small_mod_64] by (simp add: encode_rune_def eq_commute [of underscore])
  next
    case 4
    then have "r div 262144 < 5" using b by (simp add: less_mult_imp_div_less)
    then have "240 + r div 262144 < 256" by linarith
    from high_byte [OF _ this] show ?thesis
      using 4 assms(1) high_byte [OF le_add1 small_mod_64] by (simp add: encode_rune_def eq_commute [of underscore])
  qed
qed

lemma unescape_converted:
  assumes "list_all (\<lambda>r. scalar r \<and> r < 0x100000 \<and> r \<noteq> ord underscore) rs"
  shows "unescape (concat (map (convert_rune E ''Unicode'') rs)) = utf8 rs"
  using assms
proof (induction rs)
  case Nil
  then show ?case by (simp add: utf8_def)
next
  case (Cons r rs)
  let ?t = "concat (map (convert_rune E ''Unicode'') rs)"
  have "unescape (convert_rune E ''Unicode'' r @ ?t) = encode_rune r @ unescape ?t"
    using Cons.prems unescape_plain [OF encode_rune_no_underscore, of r ?t] unescape_escape [of r ?t]
    by (simp add: convert_rune_def)
  then show ?case using Cons by (simp add: utf8_def)
qed

text \<open>
  Converting a key with the Unicode strategy and reversing it gives the key back, for every key
  in UTF-8 without an underscore whose characters are below U+100000, whatever the tables of
  letters and numbers are.
\<close>

theorem reverse_convert:
  assumes "list_all (\<lambda>r. scalar r \<and> r < 0x100000 \<and> r \<noteq> ord underscore) rs"
  shows "reverse ''ReverseUnicode'' (convert E ''Unicode'' (utf8 rs)) = utf8 rs"
proof -
  have "list_all scalar rs" using assms by (auto elim: list.pred_mono_strong)
  then show ?thesis using unescape_converted [OF assms] by (simp add: reverse_def convert_def runes_utf8)
qed

theorem reverse_convert_example:
  "reverse ''ReverseUnicode'' (convert sample_env ''Unicode'' (utf8 [97, 47, 8364])) = utf8 [97, 47, 8364]"
  by (rule reverse_convert) (simp add: scalar_def ord_def)

text \<open>
  A key converted with the default strategy consists of letters, numbers, dashes, dots and
  underscores only.
\<close>

lemma converted_key_valid:
  "list_all (valid_rune E) (runes (convert E ''Default'' key))"
proof -
  let ?g = "\<lambda>r. if valid_rune E r then r else ord underscore"
  have o: "ord underscore = 95" by (simp add: ord_def)
  have u: "scalar (ord underscore)" "encode_rune (ord underscore) = ''_''"
    using o byte_ord [of underscore] by (simp_all add: scalar_def encode_rune_def)
  have "convert E ''Default'' key = utf8 (map ?g (runes key))"
    unfolding convert_def utf8_def map_map comp_def
    by (rule arg_cong [where f = concat], rule map_cong [OF refl]) (simp add: convert_rune_def u)
  moreover have "list_all scalar (map ?g (runes key))"
    using runes_scalar [of key] u(1) by (auto simp: list_all_iff)
  ultimately have "runes (convert E ''Default'' key) = map ?g (runes key)" by (simp add: runes_utf8)
  then show ?thesis by (auto simp: list_all_iff valid_rune_def)
qed

lemma collect_keys_Inr:
  "collect_keys f input acc = Inr out \<longleftrightarrow>
   distinct (map (\<lambda>x. f (fst x)) input) \<and> (\<lambda>x. f (fst x)) ` set input \<inter> fst ` set acc = {}
   \<and> out = acc @ map (\<lambda>(k, v). (f k, v)) input"
proof (induction f input acc rule: collect_keys.induct)
  case (2 f k v kvs acc)
  show ?case
  proof (cases "mget acc (f k)")
    case None
    then have n: "f k \<notin> fst ` set acc" by (simp add: map_of_eq_None_iff)
    have "mput (f k) v acc = acc @ [(f k, v)]"
      using n by (induction acc) auto
    then show ?thesis using 2 None n by auto
  next
    case (Some w)
    then have "f k \<in> fst ` set acc" by (metis map_of_eq_None_iff option.distinct(1))
    then show ?thesis using Some by auto
  qed
qed auto

text \<open>
  Converting or reversing the keys of a map succeeds exactly if no two keys become the same,
  and then every value is kept under its new key.
\<close>

theorem keys_converted_iff:
  "(ConvertKeys E strategy input = Inr out \<longleftrightarrow>
     distinct (map (\<lambda>x. convert E strategy (fst x)) input)
     \<and> out = map (\<lambda>(k, v). (convert E strategy k, v)) input)
   \<and> (ReverseKeys strategy input = Inr out \<longleftrightarrow>
     distinct (map (\<lambda>x. reverse strategy (fst x)) input)
     \<and> out = map (\<lambda>(k, v). (reverse strategy k, v)) input)"
  by (simp add: ConvertKeys_def ReverseKeys_def collect_keys_Inr)

section \<open>Validating keys\<close>

definition key_ok :: "Env \<Rightarrow> string \<Rightarrow> bool" where
  "key_ok E k \<longleftrightarrow> k = [] \<or> length k \<le> 253 \<and> list_all (valid_rune E) (runes k)"

lemma validate_keys_None:
  "validate_keys E m keys = (m', None) \<longleftrightarrow>
   list_all (key_ok E) keys \<and> m' = (if [] \<in> set keys then mdel [] m else m)"
proof (induction E m keys rule: validate_keys.induct)
  case (2 E m key keys)
  have "find (\<lambda>c. \<not> valid_rune E c) (runes key) = None \<longleftrightarrow> list_all (valid_rune E) (runes key)"
    by (auto simp: find_None_iff list_all_iff)
  then show ?case
    using 2 by (auto simp: key_ok_def delete_idem split: option.splits)
qed auto

text \<open>
  The keys of a map are accepted exactly if each is empty, or at most 253 bytes long and made of
  valid characters; what is left is the map without the empty key.
\<close>

theorem keys_validated_iff:
  "ValidateKeys E m = (m', None) \<longleftrightarrow> list_all (key_ok E) (mkeys m) \<and> m' = mdel [] m"
proof -
  have "[] \<notin> set (mkeys m) \<Longrightarrow> mdel [] m = m"
    by (simp add: mkeys_def delete_id)
  then show ?thesis by (auto simp: ValidateKeys_def validate_keys_None)
qed

section \<open>Decoding\<close>

text \<open>
  Decoding undoes the base64 encodings, also with automatic detection for the standard
  alphabet, and automatic detection never fails.
\<close>

theorem decode_roundtrip:
  "Decode ''Base64'' (b64_encode b64_std s) = Inr s
   \<and> Decode ''Base64URL'' (b64_encode b64_url s) = Inr s
   \<and> Decode ''Auto'' (b64_encode b64_std s) = Inr s
   \<and> (\<exists>out. Decode ''Auto'' t = Inr out)"
  by (simp add: Decode_def b64_roundtrip split: option.splits)

section \<open>Merging\<close>

lemma mget_mcopy_last:
  "mget (mcopy dst src) k = (case mget (mcopy [] src) k of None \<Rightarrow> mget dst k | Some v \<Rightarrow> Some v)"
proof (induction src arbitrary: dst rule: rev_induct)
  case Nil
  then show ?case by simp
next
  case (snoc x xs)
  obtain l v where "x = (l, v)" by fastforce
  then have "mcopy d (xs @ [x]) = mput l v (mcopy d xs)" for d
    by (simp add: mcopy_def)
  then show ?case using snoc [of dst] by (simp add: mget_mput)
qed

lemma merge_object_mcopy: "fst (merge_object kvs acc) = mcopy (fst acc) kvs"
  by (induction kvs acc rule: merge_object.induct) auto

text \<open>The value that one entry of the input gives to a key of the merged object.\<close>

definition entry_value :: "Env \<Rightarrow> bytes gomap \<Rightarrow> string \<Rightarrow> string \<Rightarrow> Json option" where
  "entry_value E input key k = (case mget input key of
     None \<Rightarrow> None
   | Some v \<Rightarrow> (case json_object E v of None \<Rightarrow> None | Some m \<Rightarrow> mget (mcopy [] m) k))"

lemma merge_keys_value:
  "merge_keys E op input keys acc = Inr res \<Longrightarrow>
   mget (fst res) k = (case find (\<lambda>key. entry_value E input key k \<noteq> None) (rev keys) of
     None \<Rightarrow> mget (fst acc) k
   | Some key \<Rightarrow> entry_value E input key k)"
proof (induction E op input keys acc rule: merge_keys.induct)
  case (1 E op input acc)
  then show ?case by simp
next
  case (2 E op input key keys acc)
  have find_snoc: "find P (xs @ [x]) = (case find P xs of Some y \<Rightarrow> Some y | None \<Rightarrow> if P x then Some x else None)"
    for P :: "string \<Rightarrow> bool" and xs x
    by (induction xs) auto
  show ?case
  proof (cases "mget input key")
    case None
    then show ?thesis using 2
      by (auto simp: find_snoc entry_value_def split: if_splits option.splits)
  next
    case (Some v)
    then obtain m where m: "json_object E v = Some m"
      using 2(3) by (cases "json_object E v") auto
    then have "mget (fst (merge_object m acc)) k = (case entry_value E input key k of
        None \<Rightarrow> mget (fst acc) k | Some x \<Rightarrow> Some x)"
      using Some by (simp add: merge_object_mcopy entry_value_def mget_mcopy_last [of "fst acc" m])
    then show ?thesis
      using 2(2) [OF Some m] 2(3) Some m
      by (auto simp: find_snoc split: option.splits)
  qed
qed

text \<open>
  When a merge succeeds, a key of the merged object has the value given by the last input that
  has the key, inputs being taken in alphabetical order with the priority list at the end: the last
  of the priority list wins.
\<close>

theorem merge_last_wins:
  assumes "merge_maps E op input = Inr (merged, conflicts)"
  shows "mget merged k =
    (case find (\<lambda>key. entry_value E input key k \<noteq> None) (rev (sortKeysWithPriority op input)) of
       None \<Rightarrow> None
     | Some key \<Rightarrow> entry_value E input key k)"
  using merge_keys_value [of E op input "sortKeysWithPriority op input" "([], [])" "(merged, conflicts)" k]
    assms unfolding merge_maps_def by (simp split: option.splits)

definition merge_env :: Env where
  "merge_env = sample_env\<lparr>jsonParse := \<lambda>b. Some (JObj [(''k'', JStr b)])\<rparr>"

definition merge_op :: RewriteMergeOp where
  "merge_op = \<lparr>rm_Into = [], rm_Priority = [''a''], rm_PriorityPolicy = [], rm_ConflictPolicy = ''Ignore'',
     rm_Strategy = []\<rparr>"

theorem merge_last_wins_example:
  "\<exists>merged conflicts. merge_maps merge_env merge_op [(''a'', ''1''), (''b'', ''2'')] = Inr (merged, conflicts)
     \<and> mget merged ''k'' = Some (JStr ''1'')"
proof -
  let ?i = "[(''a'', ''1''), (''b'', ''2'')]"
  have keys: "sortKeysWithPriority merge_op ?i = [''b'', ''a'']"
    by (simp add: sortKeysWithPriority_def merge_op_def mkeys_def)
  then obtain merged conflicts where m: "merge_maps merge_env merge_op ?i = Inr (merged, conflicts)"
    by (simp add: merge_maps_def json_object_def merge_env_def)
  then show ?thesis
    using merge_last_wins [OF m, of "''k''"] keys
    by (simp add: entry_value_def json_object_def merge_env_def)
qed

end
