(* ===== verification/State_Manager.thy ===== *)
theory State_Manager
  imports Managed_Secret
begin

text \<open>
  \<open>runtime/statemanager\<close>: the states of generators are kept as GeneratorState objects.  Changes are
  queued while a resource is reconciled and committed or rolled back at the end; older states are
  flagged for a garbage collector with a deadline.  The closures of the queue are represented by
  what they close over.  A generator's cleanup and \<open>controllerutil.SetOwnerReference\<close> are
  parameters.
\<close>

definition gcGracePeriod :: duration where "gcGracePeriod = 2 * minute"

definition GeneratorStateLabelOwnerKey :: string where
  "GeneratorStateLabelOwnerKey = ''generators.external-secrets.io/owner-key''"

record StatefulResource =
  sr_Kind :: string
  sr_Namespace :: string
  sr_Name :: string

record Generator =
  gen_Cleanup :: "bytes option \<Rightarrow> bytes \<Rightarrow> string \<Rightarrow> err option io"

datatype QueueItem =
    FlagForGC string
  | SetLatest string string "bytes option" Generator bytes

record Manager =
  mgr_Namespace :: string
  mgr_Resource :: StatefulResource
  mgr_SetOwner :: "GeneratorState \<Rightarrow> err + GeneratorState"
  mgr_Queue :: "QueueItem list"

definition New :: "string \<Rightarrow> StatefulResource \<Rightarrow> (GeneratorState \<Rightarrow> err + GeneratorState) \<Rightarrow> Manager" where
  "New namespace resource setOwner =
     \<lparr>mgr_Namespace = namespace, mgr_Resource = resource, mgr_SetOwner = setOwner, mgr_Queue = []\<rparr>"

section \<open>Queueing\<close>

definition enqueue :: "QueueItem \<Rightarrow> Manager \<Rightarrow> Manager" where
  "enqueue item m = m\<lparr>mgr_Queue := mgr_Queue m @ [item]\<rparr>"

definition EnqueueFlagLatestStateForGC :: "string \<Rightarrow> Manager \<Rightarrow> Manager" where
  "EnqueueFlagLatestStateForGC stateKey m = enqueue (FlagForGC stateKey) m"

definition EnqueueMoveStateToGC :: "string \<Rightarrow> Manager \<Rightarrow> Manager" where
  "EnqueueMoveStateToGC stateKey m = enqueue (FlagForGC stateKey) m"

definition EnqueueSetLatest ::
  "string \<Rightarrow> string \<Rightarrow> bytes option \<Rightarrow> Generator \<Rightarrow> bytes option \<Rightarrow> Manager \<Rightarrow> Manager" where
  "EnqueueSetLatest stateKey namespace resource gen state m = (case state of
     None \<Rightarrow> m
   | Some st \<Rightarrow> enqueue (SetLatest stateKey namespace resource gen st) m)"

section \<open>States\<close>

definition ownerKey :: "Env \<Rightarrow> StatefulResource \<Rightarrow> string \<Rightarrow> string" where
  "ownerKey E resource key = ObjectHash E (sr_Kind resource @ ''-'' @ sr_Namespace resource @ ''-''
     @ sr_Name resource @ ''-'' @ key)"

definition ascii_lower :: "char \<Rightarrow> char" where
  "ascii_lower c = (let n = of_char c :: nat in if 65 \<le> n \<and> n \<le> 90 then char_of (n + 32) else c)"

definition createGeneratorState ::
  "Env \<Rightarrow> Manager \<Rightarrow> bytes option \<Rightarrow> bytes \<Rightarrow> string \<Rightarrow> string \<Rightarrow> err + GeneratorState" where
  "createGeneratorState E m resource state namespace stateKey =
     mgr_SetOwner m
       \<lparr>gst_Meta = empty_meta\<lparr>om_Namespace := namespace,
           om_Labels := [(GeneratorStateLabelOwnerKey, ownerKey E (mgr_Resource m) stateKey)]\<rparr>,
        gst_GenerateName = ''gen-'' @ map ascii_lower (sr_Kind (mgr_Resource m)) @ ''-''
          @ sr_Name (mgr_Resource m) @ ''-'',
        gst_Resource = resource,
        gst_State = state,
        gst_GarbageCollectionDeadline = None, gst_Conditions = []\<rparr>"

text \<open>\<open>After\<close> of two timestamps; a missing one is the zero time, before every other.\<close>

definition later :: "instant option \<Rightarrow> instant option \<Rightarrow> bool" where
  "later a b = (case (a, b) of
     (None, _) \<Rightarrow> False
   | (Some _, None) \<Rightarrow> True
   | (Some s, Some t) \<Rightarrow> t < s)"

fun latest_from :: "GeneratorState option \<Rightarrow> GeneratorState list \<Rightarrow> GeneratorState option" where
  "latest_from latest [] = latest"
| "latest_from latest (state # states) =
     (if gst_GarbageCollectionDeadline state \<noteq> None then latest_from latest states
      else (case latest of
          None \<Rightarrow> latest_from (Some state) states
        | Some l \<Rightarrow>
            if later (om_CreationTimestamp (gst_Meta state)) (om_CreationTimestamp (gst_Meta l))
            then latest_from (Some state) states
            else latest_from (Some l) states))"

definition getLatest :: "GeneratorState list \<Rightarrow> GeneratorState option" where
  "getLatest stateList = latest_from None stateList"

definition GetAllStates :: "Env \<Rightarrow> Manager \<Rightarrow> string \<Rightarrow> (err + GeneratorState list) io" where
  "GetAllStates E m key = ask (CList ''GeneratorState'')
     (\<lambda>h. listStates E h (mgr_Namespace m) (ownerKey E (mgr_Resource m) key))"

definition GetLatestState :: "Env \<Rightarrow> Manager \<Rightarrow> string \<Rightarrow> (err + GeneratorState option) io" where
  "GetLatestState E m key = do {
     r \<leftarrow> GetAllStates E m key;
     ret (case r of Inl e \<Rightarrow> Inl e | Inr states \<Rightarrow> Inr (getLatest states))
   }"

section \<open>Disposing\<close>

definition flagged :: "instant \<Rightarrow> GeneratorState \<Rightarrow> GeneratorState" where
  "flagged t state = state\<lparr>gst_GarbageCollectionDeadline := Some t\<rparr>"

fun flag_all_but :: "Env \<Rightarrow> string \<Rightarrow> GeneratorState list \<Rightarrow> err list \<Rightarrow> err list io" where
  "flag_all_but E latestName [] errs = ret errs"
| "flag_all_but E latestName (state # states) errs =
     (if om_Name (gst_Meta state) = latestName then flag_all_but E latestName states errs
      else if gst_GarbageCollectionDeadline state \<noteq> None then flag_all_but E latestName states errs
      else do {
        t \<leftarrow> now E;
        r \<leftarrow> k_write E (CUpdate (OState (flagged (t + gcGracePeriod) state)));
        flag_all_but E latestName states (case r of None \<Rightarrow> errs | Some e \<Rightarrow> errs @ [e])
      })"

definition disposeState :: "Env \<Rightarrow> Manager \<Rightarrow> string \<Rightarrow> err option io" where
  "disposeState E m key = do {
     r \<leftarrow> GetAllStates E m key;
     case r of
       Inl e \<Rightarrow> ret (Some e)
     | Inr allStates \<Rightarrow> (case getLatest allStates of
         None \<Rightarrow> ret None
       | Some latest \<Rightarrow> do {
           errs \<leftarrow> flag_all_but E (om_Name (gst_Meta latest)) allStates [];
           ret (errors_join errs)
         })
   }"

section \<open>Commit and rollback\<close>

fun commit_item :: "Env \<Rightarrow> Manager \<Rightarrow> QueueItem \<Rightarrow> err option io" where
  "commit_item E m (FlagForGC stateKey) = disposeState E m stateKey"
| "commit_item E m (SetLatest stateKey namespace resource gen state) =
     (case createGeneratorState E m resource state namespace stateKey of
        Inl e \<Rightarrow> ret (Some e)
      | Inr genState \<Rightarrow> k_write E (CCreate (OState genState)))"

text \<open>An item without a rollback function is skipped; a failed cleanup leaves a state that is due.\<close>

fun rollback_item :: "Env \<Rightarrow> Manager \<Rightarrow> QueueItem \<Rightarrow> err option io" where
  "rollback_item E m (FlagForGC stateKey) = ret None"
| "rollback_item E m (SetLatest stateKey namespace resource gen state) = do {
     r \<leftarrow> gen_Cleanup gen resource state namespace;
     case r of
       None \<Rightarrow> ret None
     | Some _ \<Rightarrow> (case createGeneratorState E m resource state namespace stateKey of
         Inl e \<Rightarrow> ret (Some e)
       | Inr genState \<Rightarrow> do {
           t \<leftarrow> now E;
           k_write E (CCreate (OState (flagged t genState)))
         })
   }"

fun run_queue :: "(QueueItem \<Rightarrow> err option io) \<Rightarrow> QueueItem list \<Rightarrow> err list \<Rightarrow> err list io" where
  "run_queue f [] errs = ret errs"
| "run_queue f (item # queue) errs = do {
     r \<leftarrow> f item;
     run_queue f queue (case r of None \<Rightarrow> errs | Some e \<Rightarrow> errs @ [e])
   }"

definition Commit :: "Env \<Rightarrow> Manager \<Rightarrow> err option io" where
  "Commit E m = do { errs \<leftarrow> run_queue (commit_item E m) (mgr_Queue m) []; ret (errors_join errs) }"

definition Rollback :: "Env \<Rightarrow> Manager \<Rightarrow> err option io" where
  "Rollback E m = do { errs \<leftarrow> run_queue (rollback_item E m) (mgr_Queue m) []; ret (errors_join errs) }"

section \<open>The latest state\<close>

definition unflagged :: "GeneratorState list \<Rightarrow> GeneratorState list" where
  "unflagged states = filter (\<lambda>s. gst_GarbageCollectionDeadline s = None) states"

definition created :: "GeneratorState \<Rightarrow> instant option" where
  "created s = om_CreationTimestamp (gst_Meta s)"

lemma later_irrefl [simp]: "\<not> later a a"
  by (simp add: later_def split: option.splits)

lemma later_trans: "\<not> later a b \<Longrightarrow> \<not> later b c \<Longrightarrow> \<not> later a c"
  by (auto simp: later_def split: option.splits)

lemma later_asym: "later a b \<Longrightarrow> \<not> later b a"
  by (auto simp: later_def split: option.splits)

lemma latest_from_Some:
  "\<exists>r. latest_from (Some l) states = Some r \<and> r \<in> insert l (set (unflagged states))
     \<and> (\<forall>s \<in> insert l (set (unflagged states)). \<not> later (created s) (created r))"
proof (induction states arbitrary: l)
  case Nil
  then show ?case by (simp add: unflagged_def)
next
  case (Cons s states)
  consider (flagged) "gst_GarbageCollectionDeadline s \<noteq> None"
    | (newer) "gst_GarbageCollectionDeadline s = None" "later (created s) (created l)"
    | (older) "gst_GarbageCollectionDeadline s = None" "\<not> later (created s) (created l)"
    by blast
  then show ?case
  proof cases
    case flagged
    then show ?thesis using Cons.IH [of l] by (auto simp: unflagged_def)
  next
    case newer
    then show ?thesis using Cons.IH [of s] later_trans [OF later_asym [OF newer(2)]]
      by (auto simp: unflagged_def created_def)
  next
    case older
    then show ?thesis using Cons.IH [of l] later_trans [OF older(2)]
      by (auto simp: unflagged_def created_def)
  qed
qed

lemma getLatest_None: "getLatest states = None \<longleftrightarrow> unflagged states = []"
proof (induction states)
  case Nil
  then show ?case by (simp add: getLatest_def unflagged_def)
next
  case (Cons s states)
  show ?case
  proof (cases "gst_GarbageCollectionDeadline s")
    case None
    then show ?thesis using latest_from_Some [of s states] by (auto simp: getLatest_def unflagged_def)
  next
    case (Some t)
    then show ?thesis using Cons by (simp add: getLatest_def unflagged_def)
  qed
qed

lemma getLatest_Some:
  assumes "getLatest states = Some r"
  shows "r \<in> set (unflagged states) \<and> (\<forall>s \<in> set (unflagged states). \<not> later (created s) (created r))"
  using assms
proof (induction states)
  case Nil
  then show ?case by (simp add: getLatest_def)
next
  case (Cons s states)
  show ?case
  proof (cases "gst_GarbageCollectionDeadline s")
    case None
    then show ?thesis using Cons.prems latest_from_Some [of s states]
      by (auto simp: getLatest_def unflagged_def)
  next
    case (Some t)
    then show ?thesis using Cons by (simp add: getLatest_def unflagged_def)
  qed
qed

section \<open>What disposing writes\<close>

text \<open>The states that are flagged are those other than the latest that were not flagged yet.\<close>

definition to_flag :: "string \<Rightarrow> GeneratorState list \<Rightarrow> GeneratorState list" where
  "to_flag latestName states =
     filter (\<lambda>s. om_Name (gst_Meta s) \<noteq> latestName \<and> gst_GarbageCollectionDeadline s = None) states"

definition flag_call :: "Env \<Rightarrow> Call \<Rightarrow> GeneratorState \<Rightarrow> bool" where
  "flag_call E c s \<longleftrightarrow> (\<exists>h. c = CUpdate (OState (flagged (clock E h + gcGracePeriod) s)))"

lemma flag_all_but_writes:
  "\<exists>cs. snd (run_state (flag_all_but E n states errs) h) = cs @ h
     \<and> list_all2 (flag_call E) (rev cs) (to_flag n states)"
proof (induction E n states errs arbitrary: h rule: flag_all_but.induct)
  case (1 E n errs)
  then show ?case by (simp add: to_flag_def)
next
  case (2 E n s states errs)
  show ?case
  proof (cases "om_Name (gst_Meta s) = n \<or> gst_GarbageCollectionDeadline s \<noteq> None")
    case True
    then show ?thesis using 2(1,2) by (auto simp: to_flag_def)
  next
    case False
    define c where "c = CUpdate (OState (flagged (clock E h + gcGracePeriod) s))"
    obtain cs where cs:
      "snd (run_state (flag_all_but E n states
         (case writeErr E (c # h) of None \<Rightarrow> errs | Some e \<Rightarrow> errs @ [e])) (c # h)) = cs @ c # h"
      "list_all2 (flag_call E) (rev cs) (to_flag n states)"
      using 2(3) False by blast
    have "snd (run_state (flag_all_but E n (s # states) errs) h) = (cs @ [c]) @ h"
      using False cs(1) by (simp add: k_write_def c_def)
    moreover have "list_all2 (flag_call E) (rev (cs @ [c]))
        (to_flag n (s # states))"
      using False cs(2) by (auto simp: to_flag_def c_def flag_call_def)
    ultimately show ?thesis by blast
  qed
qed

text \<open>
  Disposing the states of a key writes nothing when every state is flagged already; otherwise
  it gives a deadline to each unflagged state except the latest, one update per state, the latest
  being an unflagged state that no unflagged state was created after.
\<close>

theorem dispose_keeps_latest:
  assumes "listStates E (CList ''GeneratorState'' # h) (mgr_Namespace m)
    (ownerKey E (mgr_Resource m) key) = Inr states"
  shows "case getLatest states of
      None \<Rightarrow> unflagged states = []
        \<and> run_state (disposeState E m key) h = (None, CList ''GeneratorState'' # h)
    | Some r \<Rightarrow> r \<in> set (unflagged states)
        \<and> \<not> list_ex (\<lambda>s. later (created s) (created r)) (unflagged states)
        \<and> (\<exists>cs. snd (run_state (disposeState E m key) h) = cs @ CList ''GeneratorState'' # h
            \<and> list_all2 (flag_call E) (rev cs) (to_flag (om_Name (gst_Meta r)) states))"
proof (cases "getLatest states")
  case None
  then show ?thesis using assms getLatest_None [of states] by (simp add: disposeState_def GetAllStates_def)
next
  case (Some r)
  obtain cs where "snd (run_state (flag_all_but E (om_Name (gst_Meta r)) states [])
        (CList ''GeneratorState'' # h)) = cs @ CList ''GeneratorState'' # h"
      "list_all2 (flag_call E) (rev cs) (to_flag (om_Name (gst_Meta r)) states)"
    using flag_all_but_writes [of E "om_Name (gst_Meta r)" states "[]" "CList ''GeneratorState'' # h"]
    by blast
  then show ?thesis using assms Some getLatest_Some [OF Some]
    by (auto simp: disposeState_def GetAllStates_def list_ex_iff split: prod.splits)
qed

definition sample_state :: "string \<Rightarrow> instant \<Rightarrow> GeneratorState" where
  "sample_state n t = \<lparr>gst_Meta = empty_meta\<lparr>om_Name := n, om_CreationTimestamp := Some t\<rparr>,
     gst_GenerateName = [], gst_Resource = None, gst_State = [], gst_GarbageCollectionDeadline = None, gst_Conditions = []\<rparr>"

definition sample_manager :: Manager where
  "sample_manager = New ''ns'' \<lparr>sr_Kind = ''ExternalSecret'', sr_Namespace = ''ns'', sr_Name = ''db''\<rparr> Inr"

theorem dispose_keeps_latest_example:
  "\<exists>cs. snd (run_state (disposeState
        (sample_env\<lparr>listStates := \<lambda>_ _ _. Inr [sample_state ''a'' 1, sample_state ''b'' 2]\<rparr>)
        sample_manager ''k'') []) = cs @ [CList ''GeneratorState'']
     \<and> length cs = 1"
proof -
  let ?E = "sample_env\<lparr>listStates := \<lambda>_ _ _. Inr [sample_state ''a'' 1, sample_state ''b'' 2]\<rparr>"
  have l: "getLatest [sample_state ''a'' 1, sample_state ''b'' 2] = Some (sample_state ''b'' 2)"
    by (simp add: getLatest_def sample_state_def later_def)
  have f: "to_flag (om_Name (gst_Meta (sample_state ''b'' 2))) [sample_state ''a'' 1, sample_state ''b'' 2]
      = [sample_state ''a'' 1]"
    by (simp add: to_flag_def sample_state_def)
  have "listStates ?E [CList ''GeneratorState''] (mgr_Namespace sample_manager)
      (ownerKey ?E (mgr_Resource sample_manager) ''k'') = Inr [sample_state ''a'' 1, sample_state ''b'' 2]"
    by simp
  from dispose_keeps_latest [OF this] show ?thesis
    unfolding l option.case f by (auto dest: list_all2_lengthD)
qed

end
