(* ===== verification/Password.thy ===== *)
theory Password
  imports Go_Encoding Api_Types
begin

text \<open>
  \<open>generators/v1/password\<close>: passwords for a list of keys.  The YAML decoder and the password
  library are parameters; the library's calls are numbered, as two calls need not answer alike.
\<close>

record PasswordSpec =
  ps_Length :: int
  ps_Digits :: "int option"
  ps_Symbols :: "int option"
  ps_SymbolCharacters :: "string option"
  ps_NoUpper :: bool
  ps_AllowRepeat :: bool
  ps_SecretKeys :: "string list"
  ps_Encoding :: "string option"

record passwordConfig =
  pc_length :: int
  pc_digits :: int
  pc_symbols :: int
  pc_symbolCharacters :: string
  pc_encoding :: string
  pc_noUpper :: bool
  pc_allowRepeat :: bool

type_synonym generateFunc = "nat \<Rightarrow> int \<Rightarrow> int \<Rightarrow> string \<Rightarrow> int \<Rightarrow> bool \<Rightarrow> bool \<Rightarrow> err + string"

definition defaultSymbolChars :: string where
  "defaultSymbolChars = ''~!@#$%^&*()_+`-={}|[]'' @ [CHR 0x5C] @ '':'' @ [CHR 0x22] @ ''<>?,./''"

text \<open>\<open>float32(n)\<close> of an integer: rounded to 24 bits, halves to even.\<close>

fun bit_length :: "nat \<Rightarrow> nat" where
  "bit_length n = (if n = 0 then 0 else Suc (bit_length (n div 2)))"

declare bit_length.simps [simp del]

definition float32_int :: "nat \<Rightarrow> nat" where
  "float32_int n =
     (let e = bit_length n - 24; u = 2 ^ e; q = n div u; r = n mod u in
      if 2 * r > u \<or> (2 * r = u \<and> odd q) then (q + 1) * u else q * u)"

text \<open>\<open>int(float32(n) * 0.25)\<close>; scaling by a power of two is exact.\<close>

definition quarter :: "int \<Rightarrow> int" where
  "quarter n = int (float32_int (nat n) div 4)"

definition extractPasswordConfig :: "PasswordSpec \<Rightarrow> passwordConfig" where
  "extractPasswordConfig spec =
     (let len = (if ps_Length spec > 0 then ps_Length spec else 24) in
      \<lparr>pc_length = len,
       pc_digits = (case ps_Digits spec of Some d \<Rightarrow> d | None \<Rightarrow> quarter len),
       pc_symbols = (case ps_Symbols spec of Some s \<Rightarrow> s | None \<Rightarrow> quarter len),
       pc_symbolCharacters = (case ps_SymbolCharacters spec of Some s \<Rightarrow> s | None \<Rightarrow> defaultSymbolChars),
       pc_encoding = (case ps_Encoding spec of Some e \<Rightarrow> e | None \<Rightarrow> ''raw''),
       pc_noUpper = ps_NoUpper spec,
       pc_allowRepeat = ps_AllowRepeat spec\<rparr>)"

definition errSecretKey :: err where
  "errSecretKey = ErrMsg ''secretKeys must be non-empty and unique''"

fun check_keys :: "string list \<Rightarrow> string list \<Rightarrow> bool" where
  "check_keys [] seen = True"
| "check_keys (key # keys) seen = (key \<noteq> [] \<and> key \<notin> set seen \<and> check_keys keys (key # seen))"

definition validateSecretKeys :: "string list \<Rightarrow> err + string list" where
  "validateSecretKeys keys =
     (let keys' = (if length keys = 0 then [''password''] else keys) in
      if check_keys keys' [] then Inr keys' else Inl errSecretKey)"

definition encodePassword :: "bytes \<Rightarrow> string \<Rightarrow> bytes" where
  "encodePassword b encoding =
     (if encoding = ''base64url'' then b64_encode b64_url b
      else if encoding = ''raw'' then b
      else if encoding = ''base32'' then b32_encode b
      else if encoding = ''hex'' then hex_encode b
      else if encoding = ''base64'' then b64_encode b64_std b
      else b)"

fun generate_from ::
  "nat \<Rightarrow> string list \<Rightarrow> passwordConfig \<Rightarrow> generateFunc \<Rightarrow> bytes gomap \<Rightarrow> err + bytes gomap" where
  "generate_from i [] config passGen passwords = Inr passwords"
| "generate_from i (key # keys) config passGen passwords =
     (case passGen i (pc_length config) (pc_symbols config) (pc_symbolCharacters config)
             (pc_digits config) (pc_noUpper config) (pc_allowRepeat config) of
        Inl e \<Rightarrow> Inl e
      | Inr pass \<Rightarrow> generate_from (Suc i) keys config passGen
          (mput key (encodePassword pass (pc_encoding config)) passwords))"

definition generatePasswords ::
  "string list \<Rightarrow> passwordConfig \<Rightarrow> generateFunc \<Rightarrow> err + bytes gomap" where
  "generatePasswords keys config passGen = generate_from 0 keys config passGen []"

definition generate ::
  "(bytes \<Rightarrow> err + PasswordSpec) \<Rightarrow> bytes option \<Rightarrow> generateFunc \<Rightarrow> err + bytes gomap" where
  "generate parseSpec jsonSpec passGen = (case jsonSpec of
     None \<Rightarrow> Inl (ErrMsg ''no config spec provided'')
   | Some raw \<Rightarrow> (case parseSpec raw of
       Inl e \<Rightarrow> Inl (ErrWrap ''unable to parse spec'' e)
     | Inr spec \<Rightarrow> (case validateSecretKeys (ps_SecretKeys spec) of
         Inl e \<Rightarrow> Inl e
       | Inr keys \<Rightarrow> generatePasswords keys (extractPasswordConfig spec) passGen)))"

section \<open>Keys and defaults\<close>

lemma check_keys_iff: "check_keys keys seen \<longleftrightarrow> [] \<notin> set keys \<and> distinct keys \<and> set keys \<inter> set seen = {}"
  by (induction keys seen rule: check_keys.induct) auto

lemma validateSecretKeys_Inr:
  "validateSecretKeys keys = Inr ks \<longleftrightarrow>
   ks = (if keys = [] then [''password''] else keys) \<and> [] \<notin> set keys \<and> distinct keys"
  by (auto simp: validateSecretKeys_def check_keys_iff)

lemma generate_from_keys:
  "generate_from i keys config passGen m = Inr ps \<Longrightarrow>
   fst ` set ps = fst ` set m \<union> set keys \<and> (distinct (map fst m) \<longrightarrow> distinct (map fst ps))"
proof (induction i keys config passGen m rule: generate_from.induct)
  case (2 i key keys config passGen m)
  then show ?case
    by (auto split: sum.splits simp: dom_update distinct_update)
qed auto

lemma quarter_small:
  assumes "0 \<le> n" "n < 2 ^ 24"
  shows "quarter n = n div 4"
proof -
  have bl: "m < 2 ^ k \<Longrightarrow> bit_length m \<le> k" for m k
  proof (induction k arbitrary: m)
    case 0
    then show ?case by (simp add: bit_length.simps)
  next
    case (Suc k)
    then have "m div 2 < 2 ^ k" by simp
    then show ?case using Suc.IH [of "m div 2"] by (subst bit_length.simps) simp
  qed
  have "nat n < 2 ^ 24" using assms by simp
  then have "bit_length (nat n) - 24 = 0" using bl [of "nat n" 24] by simp
  then show ?thesis using assms by (simp add: quarter_def float32_int_def Let_def zdiv_int)
qed

text \<open>A value that was made for some call of the password library.\<close>

definition made_by :: "passwordConfig \<Rightarrow> generateFunc \<Rightarrow> bytes \<Rightarrow> bool" where
  "made_by config passGen v \<longleftrightarrow> (\<exists>i pass.
     passGen i (pc_length config) (pc_symbols config) (pc_symbolCharacters config)
       (pc_digits config) (pc_noUpper config) (pc_allowRepeat config) = Inr pass
     \<and> v = encodePassword pass (pc_encoding config))"

lemma made_by_encode:
  "passGen i (pc_length config) (pc_symbols config) (pc_symbolCharacters config)
     (pc_digits config) (pc_noUpper config) (pc_allowRepeat config) = Inr pass \<Longrightarrow>
   made_by config passGen (encodePassword pass (pc_encoding config))"
  by (auto simp: made_by_def)

lemma set_mput: "set (mput k v m) \<subseteq> insert (k, v) (set m)"
  by (induction m) auto

lemma generate_from_values:
  "generate_from i keys config passGen m = Inr ps \<Longrightarrow>
   (\<And>x. x \<in> set m \<Longrightarrow> made_by config passGen (snd x)) \<Longrightarrow> x \<in> set ps \<Longrightarrow>
   made_by config passGen (snd x)"
proof (induction i keys config passGen m rule: generate_from.induct)
  case (2 i key keys config passGen m)
  then obtain pass where p: "passGen i (pc_length config) (pc_symbols config)
      (pc_symbolCharacters config) (pc_digits config) (pc_noUpper config) (pc_allowRepeat config) = Inr pass"
      "generate_from (Suc i) keys config passGen
        (mput key (encodePassword pass (pc_encoding config)) m) = Inr ps"
    by (auto split: sum.splits)
  have "made_by config passGen (snd y)"
    if "y \<in> set (mput key (encodePassword pass (pc_encoding config)) m)" for y
    using subsetD [OF set_mput that] made_by_encode [of passGen i config pass, OF p(1)] 2(3) [of y] by auto
  then show ?case using 2(1) [OF p] 2(4) by blast
qed auto

text \<open>
  When passwords are generated, the keys asked for were non-empty and different, there is one
  password for each of them (for the key password when none was named), and each is the encoding of
  an answer of the password library for the configured length, digits and symbols.
\<close>

theorem generated_passwords:
  assumes "parseSpec raw = Inr spec"
  shows "generate parseSpec (Some raw) passGen = Inr ps \<Longrightarrow>
    [] \<notin> set (ps_SecretKeys spec) \<and> distinct (ps_SecretKeys spec)
    \<and> set (mkeys ps) = (if ps_SecretKeys spec = [] then {''password''} else set (ps_SecretKeys spec))
    \<and> distinct (mkeys ps)
    \<and> (\<forall>v \<in> snd ` set ps. made_by (extractPasswordConfig spec) passGen v)"
proof -
  assume "generate parseSpec (Some raw) passGen = Inr ps"
  then obtain keys where k: "validateSecretKeys (ps_SecretKeys spec) = Inr keys"
      "generate_from 0 keys (extractPasswordConfig spec) passGen [] = Inr ps"
    using assms by (auto simp: generate_def generatePasswords_def split: sum.splits)
  show ?thesis
    using k(1) generate_from_keys [OF k(2)] generate_from_values [OF k(2)]
    by (auto simp: validateSecretKeys_Inr mkeys_def)
qed

definition sample_password_spec :: PasswordSpec where
  "sample_password_spec = \<lparr>ps_Length = 8, ps_Digits = None, ps_Symbols = Some 0, ps_SymbolCharacters = None,
     ps_NoUpper = False, ps_AllowRepeat = True, ps_SecretKeys = [''user'', ''admin''], ps_Encoding = Some ''hex''\<rparr>"

theorem generated_passwords_example:
  "\<exists>ps. generate (\<lambda>_. Inr sample_password_spec) (Some []) (\<lambda>i _ _ _ _ _ _. Inr ''ab'') = Inr ps
     \<and> set (mkeys ps) = {''user'', ''admin''}"
proof -
  obtain ps where ps: "generate (\<lambda>_. Inr sample_password_spec) (Some []) (\<lambda>i _ _ _ _ _ _. Inr ''ab'') = Inr ps"
    by (simp add: generate_def generatePasswords_def validateSecretKeys_def sample_password_spec_def)
  show ?thesis
    using ps generated_passwords [where parseSpec = "\<lambda>_. Inr sample_password_spec", OF refl ps]
    by (auto simp: sample_password_spec_def)
qed

end
