(* ===== verification/Es_World.thy ===== *)
theory Es_World
  imports Sample_Env State_Manager Akeyless_Client
begin

text \<open>
  The world of the inherited controllers: the environment of the operator extended by the objects
  of \<open>external-secrets.io\<close>, the registry of providers, the generator references, the template
  engine and controller-runtime's owner reference functions.  Answers again depend on the whole
  history.  The interfaces are \<open>esv1.SecretsClient\<close> and \<open>esv1.Provider\<close> with the methods these
  controllers call.
\<close>

section \<open>Interfaces\<close>

record EsSecretsClient = SecretsClient +
  esc_GetSecretMap :: "DataRemoteRef \<Rightarrow> (err + bytes gomap) io"
  esc_GetAllSecrets :: "FindRef \<Rightarrow> (err + bytes gomap) io"
  esc_PushSecret :: "K8sSecret \<Rightarrow> PushSecretData \<Rightarrow> err option guarded io"
  esc_DeleteSecret :: "PushData \<Rightarrow> err option guarded io"
  esc_SecretExists :: "PushData \<Rightarrow> (err + bool) io"

text \<open>\<open>epr_Type\<close> is what \<open>%T\<close> prints for the provider.\<close>

record EsProvider =
  epr_Type :: string
  epr_NewClient :: "EsStore \<Rightarrow> string \<Rightarrow> (err + EsSecretsClient) io"
  epr_ValidateStore :: "EsStore \<Rightarrow> string list \<times> err option"
  epr_Capabilities :: string

record EsGenerator = Generator +
  egen_Generate :: "bytes \<Rightarrow> string \<Rightarrow> (err + bytes gomap \<times> bytes option) io"

text \<open>
  What a template engine is called with: the templates, the data, the scope, the target and the object to change.  An
  object that was changed in part before the engine failed is dropped by every caller.
\<close>

type_synonym 'a exec = "bytes gomap \<Rightarrow> bytes gomap \<Rightarrow> string \<Rightarrow> string \<Rightarrow> 'a \<Rightarrow> err + 'a"

section \<open>The environment\<close>

record EsEnv =
  world :: Env
  providers :: "EsProvider gomap"
  maintenance :: "string gomap"
  getES :: "history \<Rightarrow> string \<Rightarrow> string \<Rightarrow> err + ExternalSecret"
  getSecretMeta :: "history \<Rightarrow> string \<Rightarrow> string \<Rightarrow> err + ObjectMeta"
  getManagedSecret :: "history \<Rightarrow> string \<Rightarrow> string \<Rightarrow> err + K8sSecret"
  getSecretDirect :: "history \<Rightarrow> string \<Rightarrow> string \<Rightarrow> err + K8sSecret"
  listSecretMetas :: "history \<Rightarrow> string \<Rightarrow> string \<Rightarrow> err + ObjectMeta list"
  listES :: "history \<Rightarrow> string \<Rightarrow> string \<Rightarrow> err + ExternalSecret list"
  getEsStore :: "history \<Rightarrow> string \<Rightarrow> string \<Rightarrow> err + EsStore"
  getEsClusterStore :: "history \<Rightarrow> string \<Rightarrow> err + EsStore"
  getManifest :: "history \<Rightarrow> GroupVersionKind \<Rightarrow> string \<Rightarrow> string \<Rightarrow> err + Manifest"
  answeredES :: "history \<Rightarrow> ExternalSecret \<Rightarrow> ExternalSecret"
  generatorRef :: "history \<Rightarrow> string \<Rightarrow> GeneratorRef \<Rightarrow> err + EsGenerator \<times> bytes"
  generatorClass :: "bytes \<Rightarrow> err + string"
  stateOwner :: "ExternalSecret \<Rightarrow> GeneratorState \<Rightarrow> err + GeneratorState"
  setCtrlRef :: "ObjectMeta \<Rightarrow> ObjectMeta \<Rightarrow> err + ObjectMeta"
  removeCtrlRef :: "ObjectMeta \<Rightarrow> ObjectMeta \<Rightarrow> err + ObjectMeta"
  renderText :: "string \<Rightarrow> string \<Rightarrow> bytes gomap \<Rightarrow> err + bytes"
  yamlParse :: "bytes \<Rightarrow> err + Json"
  yamlStrings :: "bytes \<Rightarrow> err + string gomap"
  secretToUnstructured :: "K8sSecret \<Rightarrow> err + Json gomap"
  secretFromUnstructured :: "Json gomap \<Rightarrow> K8sSecret \<Rightarrow> err + K8sSecret"
  manifestToUnstructured :: "Manifest \<Rightarrow> err + Json gomap"
  manifestFromUnstructured :: "Json gomap \<Rightarrow> Manifest \<Rightarrow> err + Manifest"
  informerErr :: "history \<Rightarrow> err option"
  printAny :: "Json \<Rightarrow> string"

text \<open>The fields of the \<open>Reconciler\<close> that configure it.\<close>

record EsReconciler =
  rcl_ControllerClass :: string
  rcl_RequeueInterval :: duration
  rcl_ClusterSecretStoreEnabled :: bool
  rcl_EnableFloodGate :: bool
  rcl_EnableGeneratorState :: bool
  rcl_AllowGenericTargets :: bool
  rcl_EnableSecretAPIReadOnCacheMismatch :: bool
  rcl_HasAPIReader :: bool

section \<open>Operations\<close>

definition es_get :: "EsEnv \<Rightarrow> string \<Rightarrow> string \<Rightarrow> (err + ExternalSecret) io" where
  "es_get W ns n = ask (CGet ''ExternalSecret'' ns n) (\<lambda>h. getES W h ns n)"

definition es_get_meta :: "EsEnv \<Rightarrow> string \<Rightarrow> string \<Rightarrow> (err + ObjectMeta) io" where
  "es_get_meta W ns n = ask (CGet ''Secret'' ns n) (\<lambda>h. getSecretMeta W h ns n)"

definition es_get_managed :: "EsEnv \<Rightarrow> string \<Rightarrow> string \<Rightarrow> (err + K8sSecret) io" where
  "es_get_managed W ns n = ask (CGet ''Secret'' ns n) (\<lambda>h. getManagedSecret W h ns n)"

definition es_get_direct :: "EsEnv \<Rightarrow> string \<Rightarrow> string \<Rightarrow> (err + K8sSecret) io" where
  "es_get_direct W ns n = ask (CGet ''Secret'' ns n) (\<lambda>h. getSecretDirect W h ns n)"

definition es_list_metas :: "EsEnv \<Rightarrow> string \<Rightarrow> string \<Rightarrow> (err + ObjectMeta list) io" where
  "es_list_metas W ns owner = ask (CList ''Secret'') (\<lambda>h. listSecretMetas W h ns owner)"

definition es_list :: "EsEnv \<Rightarrow> string \<Rightarrow> string \<Rightarrow> (err + ExternalSecret list) io" where
  "es_list W ns target = ask (CList ''ExternalSecret'') (\<lambda>h. listES W h ns target)"

definition es_get_store :: "EsEnv \<Rightarrow> string \<Rightarrow> string \<Rightarrow> (err + EsStore) io" where
  "es_get_store W ns n = ask (CGet SecretStoreKind ns n) (\<lambda>h. getEsStore W h ns n)"

definition es_get_cstore :: "EsEnv \<Rightarrow> string \<Rightarrow> (err + EsStore) io" where
  "es_get_cstore W n = ask (CGet ClusterSecretStoreKind [] n) (\<lambda>h. getEsClusterStore W h n)"

definition es_get_manifest ::
  "EsEnv \<Rightarrow> GroupVersionKind \<Rightarrow> string \<Rightarrow> string \<Rightarrow> (err + Manifest) io" where
  "es_get_manifest W gvk ns n = ask (CGet (gvk_Kind gvk) ns n) (\<lambda>h. getManifest W h gvk ns n)"

definition es_generator ::
  "EsEnv \<Rightarrow> string \<Rightarrow> GeneratorRef \<Rightarrow> (err + EsGenerator \<times> bytes) io" where
  "es_generator W ns ref = ask (CGet (gr_Kind ref) ns (gr_Name ref)) (\<lambda>h. generatorRef W h ns ref)"

definition es_write :: "EsEnv \<Rightarrow> Call \<Rightarrow> err option io" where
  "es_write W c = k_write (world W) c"

text \<open>A patch or update of the resource itself decodes the server's answer into it.\<close>

definition es_write_es ::
  "EsEnv \<Rightarrow> (KObj \<Rightarrow> Call) \<Rightarrow> ExternalSecret \<Rightarrow> (err option \<times> ExternalSecret) io" where
  "es_write_es W c es = ask (c (OES es)) (\<lambda>h. case writeErr (world W) h of
     Some e \<Rightarrow> (Some e, es) | None \<Rightarrow> (None, answeredES W h es))"

text \<open>Calls of the informer manager, which the reconciler knows as an interface.\<close>

definition es_informer ::
  "EsEnv \<Rightarrow> string \<Rightarrow> GroupVersionKind \<Rightarrow> ExternalSecret \<Rightarrow> err option io" where
  "es_informer W what gvk es =
     ask (CInformer what gvk (om_Namespace (es_Meta es)) (om_Name (es_Meta es))) (informerErr W)"

definition es_now :: "EsEnv \<Rightarrow> instant io" where
  "es_now W = now (world W)"

lemmas es_defs [io_simps] =
  es_get_def es_get_meta_def es_get_managed_def es_get_direct_def es_list_metas_def es_list_def
  es_get_store_def es_get_cstore_def es_get_manifest_def es_generator_def es_write_def
  es_write_es_def es_informer_def es_now_def

section \<open>Loops\<close>

text \<open>A loop over a list that ends at the first error, threading a value.\<close>

fun fold_io :: "('a \<Rightarrow> 'b \<Rightarrow> (err + 'b) io) \<Rightarrow> 'a list \<Rightarrow> 'b \<Rightarrow> (err + 'b) io" where
  "fold_io f [] b = ret (Inr b)"
| "fold_io f (x # xs) b = do {
     r \<leftarrow> f x b;
     case r of Inl e \<Rightarrow> ret (Inl e) | Inr b' \<Rightarrow> fold_io f xs b'
   }"

lemma performs_fold_io [performs_intros]:
  "(\<And>x b. performs P (f x b)) \<Longrightarrow> performs P (fold_io f xs b)"
  by (induction xs arbitrary: b) (auto intro!: performs_intros)

section \<open>A sample environment\<close>

text \<open>A converter for Secrets that knows the name, the namespace, the type and the data.\<close>

definition secret_json :: "K8sSecret \<Rightarrow> Json gomap" where
  "secret_json s = [(''metadata'', JObj [(''name'', JStr (om_Name (sec_Meta s))),
      (''namespace'', JStr (om_Namespace (sec_Meta s)))]),
    (''type'', JStr (sec_Type s)),
    (''data'', JObj (map (\<lambda>(k, v). (k, JStr (b64_encode b64_std v))) (sec_Data s)))]"

definition json_str :: "Json option \<Rightarrow> string" where
  "json_str j = (case j of Some (JStr t) \<Rightarrow> t | _ \<Rightarrow> [])"

definition json_field :: "string \<Rightarrow> Json option \<Rightarrow> Json option" where
  "json_field k j = (case j of Some (JObj m) \<Rightarrow> mget m k | _ \<Rightarrow> None)"

definition json_secret :: "Json gomap \<Rightarrow> K8sSecret \<Rightarrow> K8sSecret" where
  "json_secret j s = s\<lparr>
     sec_Meta := (sec_Meta s)\<lparr>om_Name := json_str (json_field ''name'' (mget j ''metadata'')),
       om_Namespace := json_str (json_field ''namespace'' (mget j ''metadata''))\<rparr>,
     sec_Type := json_str (mget j ''type''),
     sec_Data := (case mget j ''data'' of
       Some (JObj d) \<Rightarrow> map (\<lambda>(k, v). (k, case b64_decode True b64_std (json_str (Some v)) of
           Some b \<Rightarrow> b | None \<Rightarrow> [])) d
     | _ \<Rightarrow> [])\<rparr>"

definition sample_es_env :: EsEnv where
  "sample_es_env =
     \<lparr>world = sample_env,
      providers = [],
      maintenance = [],
      getES = (\<lambda>h ns n. Inl not_found),
      getSecretMeta = (\<lambda>h ns n. Inl not_found),
      getManagedSecret = (\<lambda>h ns n. Inl not_found),
      getSecretDirect = (\<lambda>h ns n. Inl not_found),
      listSecretMetas = (\<lambda>h ns l. Inr []),
      listES = (\<lambda>h ns n. Inr []),
      getEsStore = (\<lambda>h ns n. Inl not_found),
      getEsClusterStore = (\<lambda>h n. Inl not_found),
      getManifest = (\<lambda>h g ns n. Inl not_found),
      answeredES = (\<lambda>h es. es),
      generatorRef = (\<lambda>h ns r. Inl not_found),
      generatorClass = (\<lambda>b. Inr []),
      stateOwner = (\<lambda>es s. Inr s),
      setCtrlRef = (\<lambda>owner m. Inr m),
      removeCtrlRef = (\<lambda>owner m. Inr m),
      renderText = (\<lambda>name text data. Inr text),
      yamlParse = (\<lambda>b. Inr (JStr b)),
      yamlStrings = (\<lambda>b. Inr []),
      secretToUnstructured = (\<lambda>s. Inr (secret_json s)),
      secretFromUnstructured = (\<lambda>j s. Inr (json_secret j s)),
      manifestToUnstructured = (\<lambda>m. Inr (man_Fields m)),
      manifestFromUnstructured = (\<lambda>j m. Inr (m\<lparr>man_Fields := j\<rparr>)),
      informerErr = (\<lambda>h. None),
      printAny = (\<lambda>j. ''object'')\<rparr>"

definition sample_es_target :: EsTarget where
  "sample_es_target = \<lparr>etg_Name = [], etg_CreationPolicy = CreatePolicyOwner,
     etg_DeletionPolicy = DeletionPolicyRetain, etg_Template = None, etg_Manifest = None,
     etg_Immutable = False\<rparr>"

definition sample_es :: ExternalSecret where
  "sample_es = \<lparr>es_Kind = ''ExternalSecret'', es_Meta = sample_meta,
     es_Spec = \<lparr>esp_SecretStoreRef = \<lparr>ssr_Name = ''store'', ssr_Kind = []\<rparr>,
       esp_Target = sample_es_target, esp_RefreshPolicy = [], esp_RefreshInterval = Some hour,
       esp_Data = [], esp_DataFrom = []\<rparr>,
     es_Status = \<lparr>est_RefreshTime = None, est_SyncedResourceVersion = [], est_Conditions = [],
       est_Binding = []\<rparr>\<rparr>"

definition sample_es_reconciler :: EsReconciler where
  "sample_es_reconciler = \<lparr>rcl_ControllerClass = ''default'', rcl_RequeueInterval = hour,
     rcl_ClusterSecretStoreEnabled = True, rcl_EnableFloodGate = False,
     rcl_EnableGeneratorState = False, rcl_AllowGenericTargets = False,
     rcl_EnableSecretAPIReadOnCacheMismatch = False, rcl_HasAPIReader = False\<rparr>"

end
