(* ===== verification/Es_Refresh.thy ===== *)
theory Es_Refresh
  imports Es_World Store
begin

text \<open>
  When an ExternalSecret is refreshed and what is recorded about it:
  \<open>pkg/controllers/util/util.go\<close>, \<open>pkg/controllers/externalsecret/util.go\<close>, and the refresh,
  requeue, validity and event-filter functions of \<open>externalsecret_controller.go\<close>.  The functions
  that read the clock take the instant as an argument.  A nil dereference is \<open>GoPanic\<close>.
\<close>

section \<open>The version of a resource\<close>

text \<open>\<open>fmt.Sprintf("%+v", ...)\<close> of a \<open>map[string]string\<close> and of the struct of two maps.\<close>

definition map_text :: "string gomap \<Rightarrow> string" where
  "map_text m = ''map['' @ join_with '' '' (map (\<lambda>(k, v). k @ CHR '':'' # v) (sort_key fst m)) @ '']''"

definition meta_text :: "ObjectMeta \<Rightarrow> string" where
  "meta_text m = ''{annotations:'' @ map_text (om_Annotations m) @ '' labels:''
     @ map_text (om_Labels m) @ ''}''"

definition HashMeta :: "Env \<Rightarrow> ObjectMeta \<Rightarrow> string" where
  "HashMeta E m = ObjectHash E (meta_text m)"

definition GetResourceVersion :: "Env \<Rightarrow> ObjectMeta \<Rightarrow> string" where
  "GetResourceVersion E m = show_int (om_Generation m) @ CHR ''-'' # HashMeta E m"

section \<open>Conditions\<close>

definition NewExternalSecretCondition ::
  "instant \<Rightarrow> string \<Rightarrow> string \<Rightarrow> string \<Rightarrow> string \<Rightarrow> SecretCondition" where
  "NewExternalSecretCondition t condType status reason message =
     \<lparr>cond_Type = condType, cond_Status = status, cond_Reason = reason, cond_Message = message,
      cond_LastTransitionTime = t\<rparr>"

definition get_condition :: "SecretCondition list \<Rightarrow> string \<Rightarrow> SecretCondition option" where
  "get_condition conditions condType = find (\<lambda>c. cond_Type c = condType) conditions"

definition filterOutCondition :: "SecretCondition list \<Rightarrow> string \<Rightarrow> SecretCondition list" where
  "filterOutCondition conditions condType = filter (\<lambda>c. cond_Type c \<noteq> condType) conditions"

text \<open>The two setters of conditions, for an ExternalSecret and for a store, have the same body.\<close>

definition put_condition :: "SecretCondition list \<Rightarrow> SecretCondition \<Rightarrow> SecretCondition list" where
  "put_condition conditions condition =
     (case get_condition conditions (cond_Type condition) of
        None \<Rightarrow> filterOutCondition conditions (cond_Type condition) @ [condition]
      | Some current \<Rightarrow>
          if cond_Status current = cond_Status condition \<and> cond_Reason current = cond_Reason condition
             \<and> cond_Message current = cond_Message condition then conditions
          else filterOutCondition conditions (cond_Type condition) @
            [if cond_Status current = cond_Status condition then
               condition\<lparr>cond_LastTransitionTime := cond_LastTransitionTime current\<rparr>
             else condition])"

definition SetExternalSecretCondition :: "ExternalSecret \<Rightarrow> SecretCondition \<Rightarrow> ExternalSecret" where
  "SetExternalSecretCondition es condition = es\<lparr>es_Status := (es_Status es)\<lparr>
     est_Conditions := put_condition (est_Conditions (es_Status es)) condition\<rparr>\<rparr>"

definition es_markAsDone ::
  "EsEnv \<Rightarrow> ExternalSecret \<Rightarrow> instant \<Rightarrow> string \<Rightarrow> string \<Rightarrow> ExternalSecret io" where
  "es_markAsDone W es start reason msg = do {
     t \<leftarrow> es_now W;
     let es' = SetExternalSecretCondition es
           (NewExternalSecretCondition t ExternalSecretReady ConditionTrue reason msg);
     ret (es'\<lparr>es_Status := (es_Status es')\<lparr>est_RefreshTime := Some start,
       est_SyncedResourceVersion := GetResourceVersion (world W) (es_Meta es')\<rparr>\<rparr>)
   }"

definition es_markAsFailed ::
  "EsEnv \<Rightarrow> string \<Rightarrow> err \<Rightarrow> ExternalSecret \<Rightarrow> string \<Rightarrow> ExternalSecret io" where
  "es_markAsFailed W msg e es reason = do {
     _ \<leftarrow> k_event ''Warning'' ''UpdateFailed'' (err_string e);
     t \<leftarrow> es_now W;
     ret (SetExternalSecretCondition es
       (NewExternalSecretCondition t ExternalSecretReady ConditionFalse reason msg))
   }"

section \<open>Refreshing\<close>

definition synced_before :: "ExternalSecret \<Rightarrow> bool" where
  "synced_before es \<longleftrightarrow> est_SyncedResourceVersion (es_Status es) \<noteq> []
     \<and> est_RefreshTime (es_Status es) \<noteq> None"

definition es_shouldRefreshPeriodic :: "Env \<Rightarrow> instant \<Rightarrow> ExternalSecret \<Rightarrow> bool guarded" where
  "es_shouldRefreshPeriodic E t es =
     (case esp_RefreshInterval (es_Spec es) of
        None \<Rightarrow> GoPanic
      | Some interval \<Rightarrow> GoRet
          (if interval \<le> 0 \<and> est_SyncedResourceVersion (es_Status es) \<noteq> [] then False
           else if est_SyncedResourceVersion (es_Status es) \<noteq> GetResourceVersion E (es_Meta es) then True
           else (case est_RefreshTime (es_Status es) of
               None \<Rightarrow> True
             | Some refreshTime \<Rightarrow>
                 if t < refreshTime then True else refreshTime + interval < t)))"

definition es_shouldRefresh :: "Env \<Rightarrow> instant \<Rightarrow> ExternalSecret \<Rightarrow> bool guarded" where
  "es_shouldRefresh E t es =
     (if esp_RefreshPolicy (es_Spec es) = RefreshPolicyCreatedOnce then
        GoRet (\<not> synced_before es)
      else if esp_RefreshPolicy (es_Spec es) = RefreshPolicyOnChange then
        GoRet (if \<not> synced_before es then True
               else est_SyncedResourceVersion (es_Status es) \<noteq> GetResourceVersion E (es_Meta es))
      else es_shouldRefreshPeriodic E t es)"

definition requeue_now :: CtrlResult where
  "requeue_now = \<lparr>cr_Requeue = True, cr_RequeueAfter = 0\<rparr>"

definition getRequeueResult :: "EsReconciler \<Rightarrow> instant \<Rightarrow> ExternalSecret \<Rightarrow> CtrlResult" where
  "getRequeueResult R t es =
     (let refreshInterval = (case esp_RefreshInterval (es_Spec es) of
            None \<Rightarrow> rcl_RequeueInterval R | Some interval \<Rightarrow> interval) in
      if refreshInterval \<le> 0 then no_requeue
      else (case est_RefreshTime (es_Status es) of
          None \<Rightarrow> requeue_after refreshInterval
        | Some refreshTime \<Rightarrow>
            (let timeSinceLastRefresh = t - refreshTime in
             if timeSinceLastRefresh < 0 then requeue_now
             else if timeSinceLastRefresh < refreshInterval then
               requeue_after (refreshInterval - timeSinceLastRefresh)
             else requeue_now)))"

section \<open>Validity of the target\<close>

definition isSecretValid :: "Env \<Rightarrow> K8sSecret \<Rightarrow> ExternalSecret \<Rightarrow> bool" where
  "isSecretValid E existingSecret es =
     (if etg_CreationPolicy (esp_Target (es_Spec es)) = CreatePolicyOrphan then True
      else if om_UID (sec_Meta existingSecret) = [] then False
      else if mget_str (om_Labels (sec_Meta existingSecret)) EsLabelManaged \<noteq> EsLabelManagedValue then False
      else if mget_str (om_Annotations (sec_Meta existingSecret)) EsAnnotationDataHash
              \<noteq> data_hash E (sec_Data existingSecret) then False
      else True)"

section \<open>Names and keys\<close>

definition fieldOwnerPrefix :: string where
  "fieldOwnerPrefix = ''externalsecrets.external-secrets.io/''"

definition fqdnFor :: "Env \<Rightarrow> string \<Rightarrow> string" where
  "fqdnFor E name =
     (let fqdn = fieldOwnerPrefix @ name in
      if length fqdn > 63 then fieldOwnerPrefix @ ''sha3/'' @ hex_encode (sha3_224 E name) else fqdn)"

text \<open>The lists added, updated and emptied after the loop over the new data.\<close>

fun diff_new ::
  "bytes gomap \<Rightarrow> bytes gomap \<Rightarrow> string list \<times> string list \<times> string list
   \<Rightarrow> string list \<times> string list \<times> string list" where
  "diff_new oldData [] acc = acc"
| "diff_new oldData ((key, newVal) # kvs) (added, updated, emptied) =
     (let emptied' = (if length newVal = 0 then emptied @ [key] else emptied) in
      case mget oldData key of
        None \<Rightarrow> diff_new oldData kvs (added @ [key], updated, emptied')
      | Some oldVal \<Rightarrow>
          if oldVal \<noteq> newVal then diff_new oldData kvs (added, updated @ [key], emptied')
          else diff_new oldData kvs (added, updated, emptied))"

definition diffSecretDataKeys ::
  "bytes gomap \<Rightarrow> bytes gomap \<Rightarrow> string list \<times> string list \<times> string list \<times> string list" where
  "diffSecretDataKeys oldData newData =
     (let (added, updated, emptied) = diff_new oldData newData ([], [], []);
          removed = filter (\<lambda>key. mget newData key = None) (mkeys oldData)
      in (sort added, sort updated, sort removed, sort emptied))"

section \<open>Events that reach the reconciler\<close>

definition deletion_changed :: "instant option \<Rightarrow> instant option \<Rightarrow> bool" where
  "deletion_changed oldDeletion newDeletion = (case (oldDeletion, newDeletion) of
     (None, None) \<Rightarrow> False
   | (Some s, Some t) \<Rightarrow> s \<noteq> t
   | _ \<Rightarrow> True)"

definition shouldEnqueueExternalSecretUpdate ::
  "ExternalSecret option \<Rightarrow> ExternalSecret option \<Rightarrow> bool" where
  "shouldEnqueueExternalSecretUpdate oldObj newObj = (case (oldObj, newObj) of
     (Some oldES, Some newES) \<Rightarrow>
       if om_Generation (es_Meta oldES) \<noteq> om_Generation (es_Meta newES) then True
       else if \<not> map_eq (om_Labels (es_Meta oldES)) (om_Labels (es_Meta newES)) then True
       else if \<not> map_eq (om_Annotations (es_Meta oldES)) (om_Annotations (es_Meta newES)) then True
       else if om_Finalizers (es_Meta oldES) \<noteq> om_Finalizers (es_Meta newES) then True
       else deletion_changed (om_DeletionTimestamp (es_Meta oldES)) (om_DeletionTimestamp (es_Meta newES))
   | _ \<Rightarrow> True)"

definition target_name :: "ExternalSecret \<Rightarrow> string" where
  "target_name es = (if etg_Name (esp_Target (es_Spec es)) = [] then om_Name (es_Meta es)
     else etg_Name (esp_Target (es_Spec es)))"

definition isGenericTarget :: "ExternalSecret \<Rightarrow> bool" where
  "isGenericTarget es \<longleftrightarrow> etg_Manifest (esp_Target (es_Spec es)) \<noteq> None"

text \<open>The index by target name, and the resources that are reconciled when a Secret changes.\<close>

definition indexTargetName :: "ExternalSecret \<Rightarrow> string list" where
  "indexTargetName es = (if isGenericTarget es then [] else [target_name es])"

definition findObjectsForSecret :: "EsEnv \<Rightarrow> ObjectMeta \<Rightarrow> (string \<times> string) list io" where
  "findObjectsForSecret W secret = do {
     r \<leftarrow> es_list W (om_Namespace secret) (om_Name secret);
     ret (case r of
       Inl _ \<Rightarrow> []
     | Inr items \<Rightarrow> map (\<lambda>es. (om_Name (es_Meta es), om_Namespace (es_Meta es))) items)
   }"

end
