(* ===== verification/Client_Manager.thy ===== *)
theory Client_Manager
  imports Es_Refresh
begin

text \<open>
  \<open>pkg/controllers/secretstore/client_manager.go\<close> and the provider registry of
  \<open>apis/externalsecrets/v1\<close>: while a resource is reconciled there is at most one open client per
  provider type.  The manager's map is an association list from the provider's type name; as the
  code changes it through a pointer, the operations return the changed manager.  A store's Go type,
  from which the code derives its group, version and kind, is \<open>gs_Kind\<close>.
\<close>

section \<open>The registry\<close>

definition getProviderName :: "EsStore \<Rightarrow> err + string" where
  "getProviderName store = (case eso_Backends store of
     [k] \<Rightarrow> Inr k
   | backends \<Rightarrow> Inl (ErrMsg (''secret stores must only have exactly one backend specified, found ''
       @ show_nat (length backends))))"

definition lookup_backend :: "'a gomap \<Rightarrow> EsStore \<Rightarrow> err + 'a" where
  "lookup_backend registry store = (case getProviderName store of
     Inl e \<Rightarrow> Inl (ErrWrap (''store error for '' @ om_Name (gs_Meta store)) e)
   | Inr storeName \<Rightarrow> (case mget registry storeName of
       None \<Rightarrow> Inl (ErrMsg (''failed to find registered store backend for type: '' @ storeName
         @ '', name: '' @ om_Name (gs_Meta store)))
     | Some f \<Rightarrow> Inr f))"

definition GetProvider :: "EsEnv \<Rightarrow> EsStore \<Rightarrow> err + EsProvider" where
  "GetProvider W store = lookup_backend (providers W) store"

definition GetMaintenanceStatus :: "EsEnv \<Rightarrow> EsStore \<Rightarrow> err + string" where
  "GetMaintenanceStatus W store = lookup_backend (maintenance W) store"

section \<open>The manager\<close>

record ClientManager =
  cm_ControllerClass :: string
  cm_EnableFloodgate :: bool
  cm_Clients :: "(EsSecretsClient \<times> EsStore) gomap"

definition NewManager :: "string \<Rightarrow> bool \<Rightarrow> ClientManager" where
  "NewManager controllerClass enableFloodgate =
     \<lparr>cm_ControllerClass = controllerClass, cm_EnableFloodgate = enableFloodgate, cm_Clients = []\<rparr>"

definition storeKey :: "EsProvider \<Rightarrow> string" where
  "storeKey storeProvider = epr_Type storeProvider"

definition same_store :: "EsStore \<Rightarrow> EsStore \<Rightarrow> bool" where
  "same_store a b \<longleftrightarrow> om_Generation (gs_Meta a) = om_Generation (gs_Meta b)
     \<and> gs_Kind a = gs_Kind b
     \<and> om_Name (gs_Meta a) = om_Name (gs_Meta b)
     \<and> om_Namespace (gs_Meta a) = om_Namespace (gs_Meta b)"

definition getStoredClient ::
  "ClientManager \<Rightarrow> EsProvider \<Rightarrow> EsStore \<Rightarrow> (EsSecretsClient option \<times> ClientManager) io" where
  "getStoredClient m storeProvider store = (case mget (cm_Clients m) (storeKey storeProvider) of
     None \<Rightarrow> ret (None, m)
   | Some (client, valStore) \<Rightarrow>
       if same_store valStore store then ret (Some client, m)
       else do {
         _ \<leftarrow> sc_Close client;
         ret (None, m\<lparr>cm_Clients := mdel (storeKey storeProvider) (cm_Clients m)\<rparr>)
       })"

definition GetFromStore ::
  "EsEnv \<Rightarrow> ClientManager \<Rightarrow> EsStore \<Rightarrow> string \<Rightarrow> ((err + EsSecretsClient) \<times> ClientManager) io" where
  "GetFromStore W m store namespace = (case GetProvider W store of
     Inl e \<Rightarrow> ret (Inl e, m)
   | Inr storeProvider \<Rightarrow> do {
       (stored, m1) \<leftarrow> getStoredClient m storeProvider store;
       case stored of
         Some client \<Rightarrow> ret (Inr client, m1)
       | None \<Rightarrow> do {
           r \<leftarrow> epr_NewClient storeProvider store namespace;
           case r of
             Inl e \<Rightarrow> ret (Inl e, m1)
           | Inr client \<Rightarrow> ret (Inr client,
               m1\<lparr>cm_Clients := mput (storeKey storeProvider) (client, store) (cm_Clients m1)\<rparr>)
         }
     })"

section \<open>Finding the store\<close>

definition cm_getStore :: "EsEnv \<Rightarrow> SecretStoreRef \<Rightarrow> string \<Rightarrow> (err + EsStore) io" where
  "cm_getStore W storeRef namespace =
     (if ssr_Kind storeRef = ClusterSecretStoreKind then do {
        r \<leftarrow> es_get_cstore W (ssr_Name storeRef);
        ret (case r of
          Inl e \<Rightarrow> Inl (ErrFmt (''could not get ClusterSecretStore '' @ go_quote (ssr_Name storeRef) @ '', '') e [])
        | Inr store \<Rightarrow> Inr store)
      } else do {
        r \<leftarrow> es_get_store W namespace (ssr_Name storeRef);
        ret (case r of
          Inl e \<Rightarrow> Inl (ErrFmt (''could not get SecretStore '' @ go_quote (ssr_Name storeRef) @ '', '') e [])
        | Inr store \<Rightarrow> Inr store)
      })"

definition ShouldProcessStore :: "EsStore \<Rightarrow> string \<Rightarrow> bool" where
  "ShouldProcessStore store class \<longleftrightarrow> eso_Controller store = [] \<or> eso_Controller store = class"

text \<open>The printed selector is left out of the error.\<close>

fun any_selector :: "Env \<Rightarrow> LabelSelector list \<Rightarrow> string gomap \<Rightarrow> err + bool" where
  "any_selector E [] nsLabels = Inr False"
| "any_selector E (ls # lss) nsLabels = (case selectorOf E ls of
     Inl e \<Rightarrow> Inl (ErrWrap ''failed to convert label selector into selector'' e)
   | Inr matches \<Rightarrow> if matches nsLabels then Inr True else any_selector E lss nsLabels)"

text \<open>\<open>regexp.MatchString\<close> compiles, then matches.\<close>

fun any_regexp :: "EsEnv \<Rightarrow> string list \<Rightarrow> string \<Rightarrow> err + bool" where
  "any_regexp W [] ns = Inr False"
| "any_regexp W (reg # regs) ns = (case regexpCompile (world W) reg of
     Inl e \<Rightarrow> Inl (ErrWrap (''failed to compile regex '' @ reg) e)
   | Inr matches \<Rightarrow> if matches ns then Inr True else any_regexp W regs ns)"

definition condition_selectors :: "StoreNamespaceCondition \<Rightarrow> LabelSelector list" where
  "condition_selectors c = (case snc_NamespaceSelector c of None \<Rightarrow> [] | Some s \<Rightarrow> [s])
     @ map name_selector (snc_Namespaces c)"

fun any_condition ::
  "EsEnv \<Rightarrow> StoreNamespaceCondition list \<Rightarrow> string gomap \<Rightarrow> string \<Rightarrow> err + bool" where
  "any_condition W [] nsLabels ns = Inr False"
| "any_condition W (c # cs) nsLabels ns =
     (case any_selector (world W) (condition_selectors c) nsLabels of
        Inl e \<Rightarrow> Inl e
      | Inr True \<Rightarrow> Inr True
      | Inr False \<Rightarrow> (case any_regexp W (snc_NamespaceRegexes c) ns of
          Inl e \<Rightarrow> Inl e
        | Inr True \<Rightarrow> Inr True
        | Inr False \<Rightarrow> any_condition W cs nsLabels ns))"

definition cm_shouldProcessSecret :: "EsEnv \<Rightarrow> EsStore \<Rightarrow> string \<Rightarrow> (err + bool) io" where
  "cm_shouldProcessSecret W store ns =
     (if gs_Kind store \<noteq> ClusterSecretStoreKind then ret (Inr True)
      else if length (eso_SpecConditions store) = 0 then ret (Inr True)
      else do {
        r \<leftarrow> k_get_namespace (world W) ns;
        ret (case r of
          Inl e \<Rightarrow> Inl (ErrWrap (''failed to get a namespace '' @ go_quote ns) e)
        | Inr namespace \<Rightarrow> any_condition W (eso_SpecConditions store) (ns_Labels namespace) ns)
      })"

definition assertStoreIsUsable :: "EsStore \<Rightarrow> err option" where
  "assertStoreIsUsable store =
     (let notReady = Some (ErrMsg (gs_Kind store @ '' '' @ go_quote (om_Name (gs_Meta store))
            @ '' is not ready'')) in
      case get_condition (eso_Conditions store) SecretStoreReady of
        None \<Rightarrow> notReady
      | Some c \<Rightarrow> if cond_Status c \<noteq> ConditionTrue then notReady else None)"

definition effective_ref :: "SecretStoreRef \<Rightarrow> StoreGeneratorSourceRef option \<Rightarrow> SecretStoreRef" where
  "effective_ref storeRef sourceRef = (case sourceRef of
     None \<Rightarrow> storeRef
   | Some s \<Rightarrow> (case sgr_SecretStoreRef s of None \<Rightarrow> storeRef | Some ref \<Rightarrow> ref))"

definition cm_Get ::
  "EsEnv \<Rightarrow> ClientManager \<Rightarrow> SecretStoreRef \<Rightarrow> string \<Rightarrow> StoreGeneratorSourceRef option
   \<Rightarrow> ((err + EsSecretsClient) \<times> ClientManager) io" where
  "cm_Get W m storeRef namespace sourceRef = do {
     r \<leftarrow> cm_getStore W (effective_ref storeRef sourceRef) namespace;
     case r of
       Inl e \<Rightarrow> ret (Inl e, m)
     | Inr store \<Rightarrow>
         if \<not> ShouldProcessStore store (cm_ControllerClass m) then
           ret (Inl (ErrMsg ''can not reference unmanaged store''), m)
         else do {
           sp \<leftarrow> cm_shouldProcessSecret W store namespace;
           case sp of
             Inl e \<Rightarrow> ret (Inl e, m)
           | Inr shouldProcess \<Rightarrow>
               if \<not> shouldProcess then
                 ret (Inl (ErrMsg (''using cluster store '' @ go_quote (om_Name (gs_Meta store))
                   @ '' is not allowed from namespace '' @ go_quote namespace
                   @ '': denied by spec.condition'')), m)
               else (case (if cm_EnableFloodgate m then assertStoreIsUsable store else None) of
                   Some e \<Rightarrow> ret (Inl e, m)
                 | None \<Rightarrow> GetFromStore W m store namespace)
         }
   }"

section \<open>Closing\<close>

fun close_clients :: "(EsSecretsClient \<times> EsStore) gomap \<Rightarrow> string list \<Rightarrow> string list io" where
  "close_clients [] errs = ret errs"
| "close_clients ((key, client, store) # vals) errs = do {
     r \<leftarrow> sc_Close client;
     close_clients vals (case r of None \<Rightarrow> errs | Some e \<Rightarrow> errs @ [err_string e])
   }"

definition cm_Close :: "ClientManager \<Rightarrow> (err option \<times> ClientManager) io" where
  "cm_Close m = do {
     errs \<leftarrow> close_clients (cm_Clients m) [];
     ret (if length errs \<noteq> 0
          then Some (ErrMsg (''errors while closing clients: '' @ join_with '', '' errs)) else None,
          m\<lparr>cm_Clients := []\<rparr>)
   }"

end
