(* ===== verification/Template_Engine.thy ===== *)
theory Template_Engine
  imports Es_World Secret_Keys
begin

text \<open>
  \<open>runtime/template\<close>: templates are rendered and the result is put into the target object, at one of
  the known places or at a path.  Rendering (\<open>text/template\<close> with its function map), YAML and the
  conversion of an object to its unstructured form are parameters; paths and what is written where
  are modelled.  An object is known through the methods of \<open>client.Object\<close>.
\<close>

record 'a ObjectIface =
  ob_Meta :: "'a \<Rightarrow> ObjectMeta"
  ob_SetMeta :: "ObjectMeta \<Rightarrow> 'a \<Rightarrow> 'a"
  ob_ToUnstructured :: "'a \<Rightarrow> err + Json gomap"
  ob_FromUnstructured :: "Json gomap \<Rightarrow> 'a \<Rightarrow> err + 'a"
  ob_IsSecret :: bool

section \<open>Paths\<close>

datatype pathToken = TokenKey string | TokenIndex nat

definition maxArrayIndex :: int where "maxArrayIndex = 10000"

definition path_error :: "string \<Rightarrow> string \<Rightarrow> err" where
  "path_error target what = ErrMsg (''invalid path '' @ go_quote target @ '': '' @ what)"

text \<open>The loop over the indices of a segment; \<open>strconv.Atoi\<close> is \<open>ParseInt\<close> with 64 bits.\<close>

function parse_indices :: "string \<Rightarrow> string \<Rightarrow> pathToken list \<Rightarrow> err + pathToken list" where
  "parse_indices target rest tokens = (case rest of
     [] \<Rightarrow> Inr tokens
   | c # cs \<Rightarrow>
       if c \<noteq> CHR ''['' then
         Inl (path_error target (''expected '' @ [CHR 0x27] @ ''['' @ [CHR 0x27] @ '' near '' @ go_quote rest))
       else (let digits = takeWhile (\<lambda>x. x \<noteq> CHR '']'') cs in
         if length digits = length cs then Inl (path_error target (''unterminated '' @ [CHR 0x27] @ ''[''))
         else (case ParseInt digits 64 of
             None \<Rightarrow> Inl (path_error target (''bad index '' @ go_quote digits))
           | Some idx \<Rightarrow>
               if idx < 0 then Inl (path_error target (''negative index '' @ show_int idx))
               else if idx > maxArrayIndex then
                 Inl (path_error target (''index '' @ show_int idx @ '' exceeds maximum (10000)''))
               else parse_indices target (drop (Suc (length digits)) cs) (tokens @ [TokenIndex (nat idx)]))))"
  by pat_completeness auto
termination
  by (relation "measure (\<lambda>(target, rest, tokens). length rest)") auto

declare parse_indices.simps [simp del]

fun parse_segments :: "string \<Rightarrow> string list \<Rightarrow> pathToken list \<Rightarrow> err + pathToken list" where
  "parse_segments target [] tokens = Inr tokens"
| "parse_segments target (seg # segs) tokens =
     (if seg = [] then Inl (path_error target ''empty segment'')
      else (let name = takeWhile (\<lambda>x. x \<noteq> CHR ''['') seg;
                rest = drop (length name) seg in
        case parse_indices target rest (if name \<noteq> [] then tokens @ [TokenKey name] else tokens) of
          Inl e \<Rightarrow> Inl e
        | Inr tokens' \<Rightarrow> parse_segments target segs tokens'))"

definition parseTargetPath :: "string \<Rightarrow> err + pathToken list" where
  "parseTargetPath target = (case parse_segments target (split_on (CHR ''.'') target) [] of
     Inl e \<Rightarrow> Inl e
   | Inr tokens \<Rightarrow> (case tokens of
       [] \<Rightarrow> Inl (ErrMsg (''invalid path: '' @ target))
     | TokenKey k # ts \<Rightarrow> Inr tokens
     | TokenIndex i # ts \<Rightarrow> Inl (path_error target ''path must start with a key'')))"

section \<open>Writing at a path\<close>

text \<open>Go's nil and a missing element are \<open>JNull\<close>.\<close>

definition child :: "Json gomap \<Rightarrow> string \<Rightarrow> Json" where
  "child m name = (case mget m name of None \<Rightarrow> JNull | Some j \<Rightarrow> j)"

definition as_map :: "string \<Rightarrow> Json \<Rightarrow> err + Json gomap" where
  "as_map name node = (case node of
     JObj m \<Rightarrow> Inr m
   | JNull \<Rightarrow> Inr []
   | _ \<Rightarrow> Inl (ErrMsg (''expected map at key '' @ go_quote name @ '' but found another type'')))"

definition as_array :: "nat \<Rightarrow> Json \<Rightarrow> err + Json list" where
  "as_array idx node = (case node of
     JArr xs \<Rightarrow> Inr xs
   | JNull \<Rightarrow> Inr []
   | _ \<Rightarrow> Inl (ErrMsg (''expected array at index '' @ show_nat idx @ '' but found another type'')))"

definition grown :: "nat \<Rightarrow> Json list \<Rightarrow> Json list" where
  "grown idx xs = xs @ replicate (Suc idx - length xs) JNull"

text \<open>
  \<open>setAtPath\<close>, \<open>setMap\<close>, \<open>setIndex\<close> and \<open>setLeaf\<close> in one recursion: \<open>setLeaf\<close> applies the leaf function
  when no token is left.
\<close>

fun setAtPath :: "(Json \<Rightarrow> Json) \<Rightarrow> pathToken list \<Rightarrow> Json \<Rightarrow> err + Json" where
  "setAtPath leaf [] node = Inr (leaf node)"
| "setAtPath leaf (TokenKey name # toks) node = (case as_map name node of
     Inl e \<Rightarrow> Inl e
   | Inr m \<Rightarrow> (case setAtPath leaf toks (child m name) of
       Inl e \<Rightarrow> Inl e
     | Inr v \<Rightarrow> Inr (JObj (mput name v m))))"
| "setAtPath leaf (TokenIndex idx # toks) node = (case as_array idx node of
     Inl e \<Rightarrow> Inl e
   | Inr xs \<Rightarrow> (case setAtPath leaf toks (grown idx xs ! idx) of
       Inl e \<Rightarrow> Inl e
     | Inr v \<Rightarrow> Inr (JArr ((grown idx xs)[idx := v]))))"

definition applyAtPath ::
  "'a ObjectIface \<Rightarrow> 'a \<Rightarrow> string \<Rightarrow> pathToken list \<Rightarrow> (Json \<Rightarrow> Json) \<Rightarrow> err + 'a" where
  "applyAtPath ob obj target tokens leaf = (case ob_ToUnstructured ob obj of
     Inl e \<Rightarrow> Inl (ErrWrap ''failed to convert object to unstructured'' e)
   | Inr unstructured \<Rightarrow> (case setAtPath leaf tokens (JObj unstructured) of
       Inl e \<Rightarrow> Inl (ErrWrap (''failed to set path '' @ target) e)
     | Inr (JObj updated) \<Rightarrow> (case ob_FromUnstructured ob updated obj of
         Inl e \<Rightarrow> Inl (ErrWrap ''failed to convert unstructured to object'' e)
       | Inr obj' \<Rightarrow> Inr obj')
     | Inr _ \<Rightarrow> Inl (ErrMsg (''failed to set path '' @ target @ '': expected object root''))))"

definition merge_leaf :: "Json \<Rightarrow> Json \<Rightarrow> Json" where
  "merge_leaf parsed existing = (case (existing, parsed) of
     (JObj e, JObj p) \<Rightarrow> JObj (mcopy e p)
   | _ \<Rightarrow> parsed)"

definition applyParsedToPath ::
  "'a ObjectIface \<Rightarrow> Json \<Rightarrow> string \<Rightarrow> 'a \<Rightarrow> err + 'a" where
  "applyParsedToPath ob parsed target obj = (case parseTargetPath target of
     Inl e \<Rightarrow> Inl e
   | Inr tokens \<Rightarrow> applyAtPath ob obj target tokens
       (case tokens of [TokenKey k] \<Rightarrow> (\<lambda>_. parsed) | _ \<Rightarrow> merge_leaf parsed))"

section \<open>Targets\<close>

text \<open>A Secret's data is base64 text in unstructured form.\<close>

definition setField :: "'a ObjectIface \<Rightarrow> 'a \<Rightarrow> string \<Rightarrow> string \<Rightarrow> bytes \<Rightarrow> err + 'a" where
  "setField ob obj field k val = (case ob_ToUnstructured ob obj of
     Inl e \<Rightarrow> Inl (ErrWrap ''failed to convert object to unstructured'' e)
   | Inr m \<Rightarrow> (case (case mget m field of None \<Rightarrow> JObj [] | Some j \<Rightarrow> j) of
       JObj specMap \<Rightarrow>
         (case ob_FromUnstructured ob (mput field (JObj (mput k
                 (JStr (if ob_IsSecret ob then b64_encode b64_std val else val)) specMap)) m) obj of
            Inl e \<Rightarrow> Inl (ErrWrap ''failed to convert unstructured to object'' e)
          | Inr obj' \<Rightarrow> Inr obj')
     | _ \<Rightarrow> Inl (ErrMsg ''failed to convert data to map[string][]byte'')))"

definition tryParseYAML :: "EsEnv \<Rightarrow> bytes \<Rightarrow> Json" where
  "tryParseYAML W val = (case yamlParse W val of Inr parsed \<Rightarrow> parsed | Inl _ \<Rightarrow> JStr val)"

text \<open>
  \<open>strings.ToLower\<close> as far as it gives ASCII: beside the ASCII letters, U+0130 becomes i and the
  Kelvin sign becomes k.
\<close>

fun ToLower :: "string \<Rightarrow> string" where
  "ToLower [] = []"
| "ToLower (a # s) =
     (if a = CHR 0xC4 \<and> HasPrefix s [CHR 0xB0] then CHR ''i'' # ToLower (tl s)
      else if a = CHR 0xE2 \<and> HasPrefix s [CHR 0x84, CHR 0xAA] then CHR ''k'' # ToLower (drop 2 s)
      else ascii_lower a # ToLower s)"

definition applyToTarget ::
  "EsEnv \<Rightarrow> 'a ObjectIface \<Rightarrow> string \<Rightarrow> bytes \<Rightarrow> string \<Rightarrow> 'a \<Rightarrow> err + 'a" where
  "applyToTarget W ob k val target obj =
     (let m = ob_Meta ob obj in
      if ToLower target = ''annotations'' then
        Inr (ob_SetMeta ob (m\<lparr>om_Annotations := mput k val (om_Annotations m)\<rparr>) obj)
      else if ToLower target = ''labels'' then
        Inr (ob_SetMeta ob (m\<lparr>om_Labels := mput k val (om_Labels m)\<rparr>) obj)
      else if ToLower target = ''data'' then (case setField ob obj ''data'' k val of
          Inl e \<Rightarrow> Inl (ErrWrap ''failed to set data field on object'' e) | Inr obj' \<Rightarrow> Inr obj')
      else if ToLower target = ''spec'' then (case setField ob obj ''spec'' k val of
          Inl e \<Rightarrow> Inl (ErrWrap ''failed to set spec field on object'' e) | Inr obj' \<Rightarrow> Inr obj')
      else (case parseTargetPath target of
          Inl e \<Rightarrow> Inl e
        | Inr tokens \<Rightarrow> applyAtPath ob obj target tokens (\<lambda>_. tryParseYAML W val)))"

section \<open>Execution\<close>

text \<open>The error of the renderer is part of the text of the error, not wrapped.\<close>

definition execute_error :: "string \<Rightarrow> err \<Rightarrow> err" where
  "execute_error k e = ErrMsg (''unable to execute template at key '' @ k @ '': '' @ err_string e)"

fun valueScopeApply ::
  "EsEnv \<Rightarrow> 'a ObjectIface \<Rightarrow> bytes gomap \<Rightarrow> bytes gomap \<Rightarrow> string \<Rightarrow> 'a \<Rightarrow> err + 'a" where
  "valueScopeApply W ob [] data target obj = Inr obj"
| "valueScopeApply W ob ((k, v) # tplMap) data target obj = (case renderText W k v data of
     Inl e \<Rightarrow> Inl (execute_error k e)
   | Inr val \<Rightarrow> (case applyToTarget W ob k val target obj of
       Inl e \<Rightarrow> Inl (ErrWrap ''failed to apply to target'' e)
     | Inr obj' \<Rightarrow> valueScopeApply W ob tplMap data target obj'))"

fun apply_entries :: "EsEnv \<Rightarrow> 'a ObjectIface \<Rightarrow> string gomap \<Rightarrow> string \<Rightarrow> 'a \<Rightarrow> err + 'a" where
  "apply_entries W ob [] target obj = Inr obj"
| "apply_entries W ob ((k, val) # src) target obj = (case applyToTarget W ob k val target obj of
     Inl e \<Rightarrow> Inl (ErrWrap ''failed to apply to target'' e)
   | Inr obj' \<Rightarrow> apply_entries W ob src target obj')"

definition known_target :: "string \<Rightarrow> bool" where
  "known_target target \<longleftrightarrow> ToLower target \<in> {''annotations'', ''labels'', ''data''}"

definition mapScopeApply ::
  "EsEnv \<Rightarrow> 'a ObjectIface \<Rightarrow> string \<Rightarrow> bytes gomap \<Rightarrow> string \<Rightarrow> 'a \<Rightarrow> err + 'a" where
  "mapScopeApply W ob tpl data target obj = (case renderText W tpl tpl data of
     Inl e \<Rightarrow> Inl (execute_error tpl e)
   | Inr val \<Rightarrow>
       if known_target target then (case yamlStrings W val of
           Inl e \<Rightarrow> Inl (ErrWrap (''could not unmarshal template to '' @ [CHR 0x27] @ ''map[string][]byte'' @ [CHR 0x27]) e)
         | Inr src \<Rightarrow> apply_entries W ob src target obj)
       else (case yamlParse W val of
           Inl e \<Rightarrow> Inl (ErrWrap ''could not unmarshal template YAML'' e)
         | Inr parsed \<Rightarrow> applyParsedToPath ob parsed target obj))"

fun map_scope_all ::
  "EsEnv \<Rightarrow> 'a ObjectIface \<Rightarrow> bytes gomap \<Rightarrow> bytes gomap \<Rightarrow> string \<Rightarrow> 'a \<Rightarrow> err + 'a" where
  "map_scope_all W ob [] data target obj = Inr obj"
| "map_scope_all W ob ((k, v) # tpls) data target obj = (case mapScopeApply W ob v data target obj of
     Inl e \<Rightarrow> Inl e
   | Inr obj' \<Rightarrow> map_scope_all W ob tpls data target obj')"

definition template_Execute :: "EsEnv \<Rightarrow> 'a ObjectIface \<Rightarrow> 'a exec" where
  "template_Execute W ob tpl data scope target obj =
     (if scope = TemplateScopeKeysAndValues then map_scope_all W ob tpl data target obj
      else if scope = TemplateScopeValues then valueScopeApply W ob tpl data target obj
      else Inl (ErrMsg (''unknown scope '' @ scope)))"

definition EngineForVersion :: "EsEnv \<Rightarrow> 'a ObjectIface \<Rightarrow> string \<Rightarrow> err + 'a exec" where
  "EngineForVersion W ob version =
     (if version = ''v2'' then Inr (template_Execute W ob)
      else Inl (ErrMsg (''unsupported template engine version: '' @ version)))"

section \<open>The two kinds of objects\<close>

definition secret_iface :: "EsEnv \<Rightarrow> K8sSecret ObjectIface" where
  "secret_iface W = \<lparr>ob_Meta = sec_Meta, ob_SetMeta = (\<lambda>m s. s\<lparr>sec_Meta := m\<rparr>),
     ob_ToUnstructured = secretToUnstructured W, ob_FromUnstructured = secretFromUnstructured W,
     ob_IsSecret = True\<rparr>"

definition manifest_iface :: "EsEnv \<Rightarrow> Manifest ObjectIface" where
  "manifest_iface W = \<lparr>ob_Meta = man_Meta, ob_SetMeta = (\<lambda>m o'. o'\<lparr>man_Meta := m\<rparr>),
     ob_ToUnstructured = manifestToUnstructured W, ob_FromUnstructured = manifestFromUnstructured W,
     ob_IsSecret = False\<rparr>"

definition secretEngine :: "EsEnv \<Rightarrow> string \<Rightarrow> err + K8sSecret exec" where
  "secretEngine W version = EngineForVersion W (secret_iface W) version"

definition manifestEngine :: "EsEnv \<Rightarrow> string \<Rightarrow> err + Manifest exec" where
  "manifestEngine W version = EngineForVersion W (manifest_iface W) version"

end
