(* ===== verification/Es_Validators.thy ===== *)
theory Es_Validators
  imports Client_Manager Template_Engine
begin

text \<open>
  The validating webhooks of \<open>apis/externalsecrets/v1\<close>: \<open>externalsecret_validator.go\<close> and
  \<open>secretstore_validator.go\<close>.  Errors are collected with \<open>errors.Join\<close>.
\<close>

definition join_err :: "err option \<Rightarrow> err \<Rightarrow> err option" where
  "join_err errs e = Some (ErrJoin (case errs of None \<Rightarrow> [e] | Some d \<Rightarrow> [d, e]))"

definition join_opt :: "err option \<Rightarrow> err option \<Rightarrow> err option" where
  "join_opt errs e = (case e of None \<Rightarrow> errs | Some e' \<Rightarrow> join_err errs e')"

section \<open>ExternalSecret\<close>

abbreviation SecretTypeServiceAccountToken :: string where
  "SecretTypeServiceAccountToken \<equiv> ''kubernetes.io/service-account-token''"
abbreviation SecretTypeBootstrapToken :: string where
  "SecretTypeBootstrapToken \<equiv> ''bootstrap.kubernetes.io/token''"
abbreviation ServiceAccountNameKey :: string where
  "ServiceAccountNameKey \<equiv> ''kubernetes.io/service-account.name''"

text \<open>
  \<open>strings.EqualFold\<close> with an ASCII word: two letters outside ASCII fold to ASCII ones, the long s
  and the Kelvin sign.
\<close>

fun fold_ascii :: "string \<Rightarrow> string" where
  "fold_ascii [] = []"
| "fold_ascii (a # s) =
     (if a = CHR 0xC5 \<and> HasPrefix s [CHR 0xBF] then CHR ''s'' # fold_ascii (tl s)
      else if a = CHR 0xE2 \<and> HasPrefix s [CHR 0x84, CHR 0xAA] then CHR ''k'' # fold_ascii (drop 2 s)
      else ascii_lower a # fold_ascii s)"

definition EqualFold :: "string \<Rightarrow> string \<Rightarrow> bool" where
  "EqualFold s t \<longleftrightarrow> fold_ascii s = fold_ascii t"

definition validatePolicies :: "ExternalSecret \<Rightarrow> err option" where
  "validatePolicies es =
     (let deletion = etg_DeletionPolicy (esp_Target (es_Spec es));
          creation = etg_CreationPolicy (esp_Target (es_Spec es));
          errs = (if deletion = DeletionPolicyDelete \<and> creation = CreatePolicyMerge
                     \<or> deletion = DeletionPolicyDelete \<and> creation = CreatePolicyNone
            then join_err None (ErrMsg (''deletionPolicy=Delete must not be used when the controller doesn''
              @ [CHR 0x27] @ ''t own the secret. Please set creationPolicy=Owner''))
            else None) in
      if deletion = DeletionPolicyMerge \<and> creation = CreatePolicyNone
      then join_err errs (ErrMsg ''deletionPolicy=Merge must not be used with creationPolicy=None. There is no Secret to merge with'')
      else errs)"

definition validatePrivilegedTemplate :: "ExternalSecret \<Rightarrow> err option" where
  "validatePrivilegedTemplate es = (case etg_Template (esp_Target (es_Spec es)) of
     None \<Rightarrow> None
   | Some tpl \<Rightarrow>
       if et_Type tpl = SecretTypeServiceAccountToken then
         (if mget (etm_Annotations (et_Metadata tpl)) ServiceAccountNameKey \<noteq> None then
            Some (ErrMsg (''template.type='' @ go_quote SecretTypeServiceAccountToken @ '' with annotation ''
              @ go_quote ServiceAccountNameKey @ '' is not allowed''))
          else if list_ex (\<lambda>tf. EqualFold (tf_Target tf) TemplateTargetAnnotations) (et_TemplateFrom tpl) then
            Some (ErrMsg (''template.type='' @ go_quote SecretTypeServiceAccountToken
              @ '' with templateFrom target='' @ go_quote TemplateTargetAnnotations @ '' is not allowed''))
          else None)
       else if et_Type tpl = SecretTypeBootstrapToken then
         Some (ErrMsg (''template.type='' @ go_quote SecretTypeBootstrapToken @ '' is not allowed''))
       else None)"

definition has_generator :: "EsDataFrom \<Rightarrow> bool" where
  "has_generator ref \<longleftrightarrow> Option.bind (edf_SourceRef ref) sgr_GeneratorRef \<noteq> None"

definition validateExtractFindGenerator :: "EsDataFrom \<Rightarrow> err option" where
  "validateExtractFindGenerator ref =
     (let gen = has_generator ref; fnd = edf_Find ref \<noteq> None; ext = edf_Extract ref \<noteq> None in
      if fnd \<and> (ext \<or> gen) \<or> ext \<and> (fnd \<or> gen) \<or> gen \<and> (fnd \<or> ext)
      then Some (ErrMsg ''extract, find, or generatorRef cannot be set at the same time'') else None)"

definition validateFindExtractSourceRef :: "EsDataFrom \<Rightarrow> err option" where
  "validateFindExtractSourceRef ref =
     (if edf_Find ref = None \<and> edf_Extract ref = None \<and> edf_SourceRef ref = None
      then Some (ErrMsg ''either extract, find, or sourceRef must be set to dataFrom'') else None)"

definition validateSourceRef :: "EsDataFrom \<Rightarrow> err option" where
  "validateSourceRef ref = (case edf_SourceRef ref of
     None \<Rightarrow> None
   | Some s \<Rightarrow> if sgr_GeneratorRef s = None \<and> sgr_SecretStoreRef s = None
       then Some (ErrMsg ''generatorRef or storeRef must be set when using sourceRef in dataFrom'') else None)"

definition validate_dataFrom :: "EsDataFrom \<Rightarrow> err option \<Rightarrow> err option" where
  "validate_dataFrom ref errs = join_opt (join_opt (join_opt errs (validateExtractFindGenerator ref))
     (validateFindExtractSourceRef ref)) (validateSourceRef ref)"

fun duplicate_keys :: "EsData list \<Rightarrow> string set \<Rightarrow> err option \<Rightarrow> err option" where
  "duplicate_keys [] seenKeys errs = errs"
| "duplicate_keys (d # ds) seenKeys errs = duplicate_keys ds (insert (ed_SecretKey d) seenKeys)
     (if ed_SecretKey d \<in> seenKeys
      then join_err errs (ErrMsg (''duplicate secretKey found: '' @ ed_SecretKey d)) else errs)"

definition validateDuplicateKeys :: "ExternalSecret \<Rightarrow> err option \<Rightarrow> err option" where
  "validateDuplicateKeys es errs =
     (if etg_DeletionPolicy (esp_Target (es_Spec es)) = DeletionPolicyRetain
      then duplicate_keys (esp_Data (es_Spec es)) {} errs else errs)"

definition validateExternalSecret :: "ExternalSecret option \<Rightarrow> err option" where
  "validateExternalSecret obj = (case obj of
     None \<Rightarrow> Some (ErrMsg ''external secret cannot be nil during validation'')
   | Some es \<Rightarrow>
       (let errs1 = join_opt None (validatePolicies es);
            errs2 = (if length (esp_Data (es_Spec es)) = 0 \<and> length (esp_DataFrom (es_Spec es)) = 0
              then join_err errs1 (ErrMsg ''either data or dataFrom should be specified'') else errs1);
            errs3 = join_opt errs2 (validatePrivilegedTemplate es);
            errs4 = fold validate_dataFrom (esp_DataFrom (es_Spec es)) errs3 in
        validateDuplicateKeys es errs4))"

section \<open>SecretStore and ClusterSecretStore\<close>

fun regex_errors :: "EsEnv \<Rightarrow> nat \<Rightarrow> nat \<Rightarrow> string list \<Rightarrow> err option \<Rightarrow> err option" where
  "regex_errors W ci ri [] errs = errs"
| "regex_errors W ci ri (r # rs) errs = regex_errors W ci (Suc ri) rs
     (case regexpCompile (world W) r of
        Inr _ \<Rightarrow> errs
      | Inl e \<Rightarrow> join_err errs (ErrWrap (''failed to compile '' @ show_nat ri @ ''th namespace regex in ''
          @ show_nat ci @ ''th condition'') e))"

fun condition_errors :: "EsEnv \<Rightarrow> nat \<Rightarrow> StoreNamespaceCondition list \<Rightarrow> err option \<Rightarrow> err option" where
  "condition_errors W ci [] errs = errs"
| "condition_errors W ci (c # cs) errs =
     condition_errors W (Suc ci) cs (regex_errors W ci 0 (snc_NamespaceRegexes c) errs)"

definition validateConditions :: "EsEnv \<Rightarrow> EsStore \<Rightarrow> err option" where
  "validateConditions W store = condition_errors W 0 (eso_SpecConditions store) None"

definition maintenance_warning :: "string \<Rightarrow> EsStore \<Rightarrow> string list" where
  "maintenance_warning status store =
     (let name = om_Name (gs_Meta store) in
      if status = ''NotMaintained'' then
        [''store '' @ name @ '' isn'' @ [CHR 0x27] @ ''t currently maintained. Please plan and prepare accordingly.'']
      else if status = ''Deprecated'' then
        [''store '' @ name @ '' is deprecated and will stop working on the next major version. Please plan and prepare accordingly.'']
      else [])"

definition es_validateStore :: "EsEnv \<Rightarrow> EsStore \<Rightarrow> string list \<times> err option" where
  "es_validateStore W store = (case validateConditions W store of
     Some e \<Rightarrow> ([], Some e)
   | None \<Rightarrow> (case GetProvider W store of
       Inl e \<Rightarrow> ([], Some e)
     | Inr provider \<Rightarrow> (case GetMaintenanceStatus W store of
         Inl e \<Rightarrow> ([], Some e)
       | Inr status \<Rightarrow> (case epr_ValidateStore provider store of
           (warns, r) \<Rightarrow> (warns @ maintenance_warning status store, r)))))"

section \<open>What is accepted\<close>

lemma join_err_Some [simp]: "join_err errs e \<noteq> None"
  by (simp add: join_err_def)

lemma join_opt_None [simp]: "join_opt errs e = None \<longleftrightarrow> errs = None \<and> e = None"
  by (simp add: join_opt_def split: option.splits)

lemma fold_validate_dataFrom:
  "fold validate_dataFrom refs errs = None \<longleftrightarrow> errs = None \<and> list_all (\<lambda>r. validate_dataFrom r None = None) refs"
  by (induction refs arbitrary: errs) (auto simp: validate_dataFrom_def)

lemma duplicate_keys_None:
  "duplicate_keys ds seen errs = None \<longleftrightarrow>
   errs = None \<and> distinct (map ed_SecretKey ds) \<and> ed_SecretKey ` set ds \<inter> seen = {}"
  by (induction ds arbitrary: seen errs) auto

definition one_source :: "EsDataFrom \<Rightarrow> bool" where
  "one_source ref \<longleftrightarrow>
     length (filter id [edf_Find ref \<noteq> None, edf_Extract ref \<noteq> None, has_generator ref]) \<le> 1
     \<and> (edf_Find ref \<noteq> None \<or> edf_Extract ref \<noteq> None \<or> edf_SourceRef ref \<noteq> None)
     \<and> (case edf_SourceRef ref of None \<Rightarrow> True
        | Some s \<Rightarrow> sgr_GeneratorRef s \<noteq> None \<or> sgr_SecretStoreRef s \<noteq> None)"

lemma validate_dataFrom_iff: "validate_dataFrom ref None = None \<longleftrightarrow> one_source ref"
  by (auto simp: validate_dataFrom_def one_source_def validateExtractFindGenerator_def
      validateFindExtractSourceRef_def validateSourceRef_def Let_def split: option.splits)

text \<open>
  Admission of an ExternalSecret.  It is accepted exactly if its policies fit together, it has a
  source, every element of \<open>spec.dataFrom\<close> names one source, keys of \<open>spec.data\<close> are different when
  the data is retained, and its template is not one of the two privileged kinds.
\<close>

theorem es_validated_iff:
  "validateExternalSecret (Some es) = None \<longleftrightarrow>
     (let t = esp_Target (es_Spec es) in
      \<not> (etg_DeletionPolicy t = DeletionPolicyDelete \<and> etg_CreationPolicy t \<in> {CreatePolicyMerge, CreatePolicyNone})
      \<and> \<not> (etg_DeletionPolicy t = DeletionPolicyMerge \<and> etg_CreationPolicy t = CreatePolicyNone)
      \<and> \<not> (esp_Data (es_Spec es) = [] \<and> esp_DataFrom (es_Spec es) = [])
      \<and> list_all one_source (esp_DataFrom (es_Spec es))
      \<and> \<not> (etg_DeletionPolicy t = DeletionPolicyRetain \<and> \<not> distinct (map ed_SecretKey (esp_Data (es_Spec es))))
      \<and> validatePrivilegedTemplate es = None)"
proof -
  have "validatePolicies es = None \<longleftrightarrow> \<not> (etg_DeletionPolicy (esp_Target (es_Spec es)) = DeletionPolicyDelete
        \<and> etg_CreationPolicy (esp_Target (es_Spec es)) \<in> {CreatePolicyMerge, CreatePolicyNone})
      \<and> \<not> (etg_DeletionPolicy (esp_Target (es_Spec es)) = DeletionPolicyMerge
        \<and> etg_CreationPolicy (esp_Target (es_Spec es)) = CreatePolicyNone)"
    by (simp add: validatePolicies_def Let_def)
  then show ?thesis
    by (simp add: validateExternalSecret_def validateDuplicateKeys_def Let_def fold_validate_dataFrom
        duplicate_keys_None validate_dataFrom_iff) blast
qed

text \<open>The regular expressions of an accepted store never make a client fail.\<close>

lemma regex_errors_None:
  "regex_errors W ci ri rs errs = None \<longleftrightarrow>
   errs = None \<and> list_all (\<lambda>r. \<exists>f. regexpCompile (world W) r = Inr f) rs"
  by (induction rs arbitrary: ri errs) (auto split: sum.splits)

lemma condition_errors_None:
  "condition_errors W ci cs errs = None \<longleftrightarrow> errs = None
   \<and> list_all (\<lambda>c. list_all (\<lambda>r. \<exists>f. regexpCompile (world W) r = Inr f) (snc_NamespaceRegexes c)) cs"
  by (induction cs arbitrary: ci errs) (auto simp: regex_errors_None)

lemma any_regexp_total:
  "list_all (\<lambda>r. \<exists>f. regexpCompile (world W) r = Inr f) rs \<Longrightarrow> \<exists>b. any_regexp W rs ns = Inr b"
  by (induction rs) auto

lemma accepted_store_regexes:
  assumes "es_validateStore W store = (warns, None)"
  shows "list_all (\<lambda>c. \<exists>b. any_regexp W (snc_NamespaceRegexes c) ns = Inr b) (eso_SpecConditions store)"
proof -
  have "validateConditions W store = None"
    using assms by (auto simp: es_validateStore_def split: option.splits)
  then show ?thesis
    by (auto simp: validateConditions_def condition_errors_None list_all_iff intro: any_regexp_total)
qed

end
