(* ===== verification/Template_Laws.thy ===== *)
theory Template_Laws
  imports Template_Engine
begin

text \<open>
  Paths of the template engine: a printed path parses back, what the parser accepts is bounded, and
  writing at a path changes the value there and nothing beside it.
\<close>

section \<open>Printing and parsing\<close>

definition index_text :: "nat \<Rightarrow> string" where
  "index_text i = CHR ''['' # show_nat i @ '']''"

definition segment_text :: "string \<times> nat list \<Rightarrow> string" where
  "segment_text s = fst s @ concat (map index_text (snd s))"

definition segment_tokens :: "string \<times> nat list \<Rightarrow> pathToken list" where
  "segment_tokens s = TokenKey (fst s) # map TokenIndex (snd s)"

definition path_text :: "(string \<times> nat list) list \<Rightarrow> string" where
  "path_text segs = join_with ''.'' (map segment_text segs)"

definition plain_segment :: "string \<times> nat list \<Rightarrow> bool" where
  "plain_segment s \<longleftrightarrow> fst s \<noteq> [] \<and> CHR ''.'' \<notin> set (fst s) \<and> CHR ''['' \<notin> set (fst s)
     \<and> list_all (\<lambda>i. i \<le> 10000) (snd s)"

lemma decimal_read_nat: "list_all is_digit_char s \<Longrightarrow> decimal s acc = Some (read_nat s acc)"
  by (induction s arbitrary: acc) (simp_all add: mult.commute ord_def)

lemma decimal_show_nat: "decimal (show_nat n) 0 = Some n"
  by (simp add: decimal_read_nat read_show_nat list_all_iff show_nat_digits)

lemma show_nat_no: "\<not> is_digit_char c \<Longrightarrow> c \<notin> set (show_nat n)"
  using show_nat_digits by blast

lemma ParseInt_show_nat: "int n < 2 ^ 63 \<Longrightarrow> ParseInt (show_nat n) 64 = Some (int n)"
proof -
  have "\<not> HasPrefix (show_nat n) [c]" if "\<not> is_digit_char c" for c
    using show_nat_no [OF that, of n] by (cases "show_nat n") (auto simp: HasPrefix_def)
  moreover assume "int n < 2 ^ 63"
  ultimately show ?thesis by (simp add: ParseInt_def in_bits_def decimal_show_nat is_digit_char_def)
qed

lemma takeWhile_show_nat: "takeWhile (\<lambda>x. x \<noteq> CHR '']'') (show_nat i @ CHR '']'' # cs) = show_nat i"
proof -
  have "\<forall>x \<in> set (show_nat i). x \<noteq> CHR '']''"
    using show_nat_no [of "CHR '']''" i] by (auto simp: is_digit_char_def)
  then show ?thesis by (simp add: takeWhile_append2)
qed

lemma parse_index:
  assumes "i \<le> 10000"
  shows "parse_indices target (index_text i @ rest) tokens = parse_indices target rest (tokens @ [TokenIndex i])"
proof -
  have "ParseInt (show_nat i) 64 = Some (int i)" using assms by (intro ParseInt_show_nat) simp
  with assms takeWhile_show_nat [of i rest] show ?thesis
    by (subst parse_indices.simps) (simp add: index_text_def maxArrayIndex_def)
qed

lemma parse_indices_text:
  "list_all (\<lambda>i. i \<le> 10000) is \<Longrightarrow>
   parse_indices target (concat (map index_text is)) tokens = Inr (tokens @ map TokenIndex is)"
proof (induction "is" arbitrary: tokens)
  case Nil
  then show ?case by (simp add: parse_indices.simps)
qed (simp add: parse_index)

lemma segment_name:
  assumes "plain_segment s"
  shows "takeWhile (\<lambda>x. x \<noteq> CHR ''['') (segment_text s) = fst s"
proof -
  have "\<forall>x \<in> set (fst s). x \<noteq> CHR ''[''" using assms by (auto simp: plain_segment_def)
  then show ?thesis
    by (cases "snd s") (auto simp: segment_text_def index_text_def takeWhile_append2 takeWhile_eq_all_conv)
qed

lemma parse_segments_text:
  "list_all plain_segment segs \<Longrightarrow>
   parse_segments target (map segment_text segs) tokens = Inr (tokens @ concat (map segment_tokens segs))"
proof (induction segs arbitrary: tokens)
  case (Cons s segs)
  then have s: "plain_segment s" and "list_all plain_segment segs" by simp_all
  have "segment_text s \<noteq> []" "drop (length (fst s)) (segment_text s) = concat (map index_text (snd s))"
    using s by (simp_all add: segment_text_def plain_segment_def)
  with s segment_name [OF s] Cons show ?case
    by (simp add: parse_indices_text plain_segment_def segment_tokens_def)
qed simp

lemma split_on_append:
  "c \<notin> set a \<Longrightarrow> split_on c (a @ c # b) = a # split_on c b"
  by (induction a) auto

lemma split_on_plain: "c \<notin> set a \<Longrightarrow> split_on c a = [a]"
  by (induction a) auto

lemma split_on_join:
  "ts \<noteq> [] \<Longrightarrow> list_all (\<lambda>t. c \<notin> set t) ts \<Longrightarrow> split_on c (join_with [c] ts) = ts"
  by (induction "[c]" ts rule: join_with.induct) (simp_all add: split_on_plain split_on_append)

lemma segment_no_dot: "plain_segment s \<Longrightarrow> CHR ''.'' \<notin> set (segment_text s)"
  using show_nat_no [of "CHR ''.''"]
  by (auto simp: segment_text_def plain_segment_def index_text_def is_digit_char_def)

text \<open>What the parser accepts.\<close>

fun good_token :: "pathToken \<Rightarrow> bool" where
  "good_token (TokenKey k) = (k \<noteq> [] \<and> CHR ''['' \<notin> set k)"
| "good_token (TokenIndex i) = (i \<le> 10000)"

lemma parse_indices_good:
  "parse_indices target rest tokens = Inr tokens' \<Longrightarrow> list_all good_token tokens \<Longrightarrow>
   list_all good_token tokens'"
proof (induction target rest tokens rule: parse_indices.induct)
  case (1 target rest tokens)
  show ?case
  proof (cases rest)
    case Nil
    with 1(2,3) show ?thesis by (simp add: parse_indices.simps)
  next
    case (Cons c cs)
    let ?digits = "takeWhile (\<lambda>x. x \<noteq> CHR '']'') cs"
    from 1(2) Cons obtain idx where idx: "ParseInt ?digits 64 = Some idx" "0 \<le> idx" "idx \<le> 10000"
      and c: "c = CHR ''[''" and len: "length ?digits \<noteq> length cs"
      and p: "parse_indices target (drop (Suc (length ?digits)) cs) (tokens @ [TokenIndex (nat idx)]) = Inr tokens'"
      by (subst (asm) parse_indices.simps)
        (auto simp: Let_def maxArrayIndex_def split: if_splits option.splits)
    from 1(1) [OF Cons _ refl len idx(1) _ _ p] c idx 1(3) show ?thesis
      by (auto simp: maxArrayIndex_def)
  qed
qed

lemma parse_segments_good:
  "parse_segments target segs tokens = Inr tokens' \<Longrightarrow> list_all good_token tokens \<Longrightarrow>
   list_all good_token tokens'"
proof (induction segs arbitrary: tokens)
  case (Cons seg segs)
  have "CHR ''['' \<notin> set (takeWhile (\<lambda>x. x \<noteq> CHR ''['') seg)" by (auto dest: set_takeWhileD)
  with Cons show ?case
    by (auto simp: Let_def split: if_splits sum.splits dest!: parse_indices_good)
qed simp

text \<open>
  Target paths.  A path printed from keys and indices parses to them; whatever is accepted
  starts with a key, has no empty key and no index above 10000, the bound up to which an array is
  grown.
\<close>

theorem paths_roundtrip:
  "(segs \<noteq> [] \<and> list_all plain_segment segs \<longrightarrow>
      parseTargetPath (path_text segs) = Inr (concat (map segment_tokens segs)))
   \<and> (parseTargetPath target = Inr tokens \<longrightarrow>
      (\<exists>k ts. tokens = TokenKey k # ts) \<and> list_all good_token tokens)"
proof (intro conjI impI)
  assume *: "segs \<noteq> [] \<and> list_all plain_segment segs"
  then have "list_all (\<lambda>t. CHR ''.'' \<notin> set t) (map segment_text segs)"
    by (auto simp: list_all_iff segment_no_dot)
  with * have "split_on (CHR ''.'') (path_text segs) = map segment_text segs"
    by (simp add: path_text_def split_on_join)
  moreover have "parse_segments (path_text segs) (map segment_text segs) [] = Inr (concat (map segment_tokens segs))"
    using * by (simp only: parse_segments_text append_Nil)
  moreover obtain k ts where "concat (map segment_tokens segs) = TokenKey k # ts"
    using * by (cases segs) (simp_all add: segment_tokens_def)
  ultimately show "parseTargetPath (path_text segs) = Inr (concat (map segment_tokens segs))"
    by (simp add: parseTargetPath_def)
next
  assume "parseTargetPath target = Inr tokens"
  then show "\<exists>k ts. tokens = TokenKey k # ts" and "list_all good_token tokens"
    by (auto simp: parseTargetPath_def split: sum.splits list.splits pathToken.splits
        dest: parse_segments_good)
qed

theorem paths_roundtrip_example:
  "parseTargetPath ''spec.rules[12].host'' = Inr [TokenKey ''spec'', TokenKey ''rules'', TokenIndex 12, TokenKey ''host'']"
proof -
  have "path_text [(''spec'', []), (''rules'', [12]), (''host'', [])] = ''spec.rules[12].host''" by code_simp
  moreover have "list_all plain_segment [(''spec'', []), (''rules'', [12]), (''host'', [])]" by code_simp
  ultimately show ?thesis
    using paths_roundtrip [THEN conjunct1, of "[(''spec'', []), (''rules'', [12]), (''host'', [])]"]
    by (simp add: segment_tokens_def)
qed


section \<open>Reading and writing at a path\<close>

text \<open>
  What is at a path, \<open>JNull\<close> where nothing is; and whether a path can be written: every node on it is
  missing or of the kind its token needs.
\<close>

fun json_at :: "pathToken list \<Rightarrow> Json \<Rightarrow> Json" where
  "json_at [] j = j"
| "json_at (TokenKey k # ts) j = (case j of JObj m \<Rightarrow> json_at ts (child m k) | _ \<Rightarrow> JNull)"
| "json_at (TokenIndex i # ts) j =
     (case j of JArr xs \<Rightarrow> json_at ts (if i < length xs then xs ! i else JNull) | _ \<Rightarrow> JNull)"

fun fits :: "pathToken list \<Rightarrow> Json \<Rightarrow> bool" where
  "fits [] j = True"
| "fits (TokenKey k # ts) j =
     (case j of JObj m \<Rightarrow> fits ts (child m k) | JNull \<Rightarrow> fits ts JNull | _ \<Rightarrow> False)"
| "fits (TokenIndex i # ts) j = (case j of JArr xs \<Rightarrow> fits ts (if i < length xs then xs ! i else JNull)
     | JNull \<Rightarrow> fits ts JNull | _ \<Rightarrow> False)"

text \<open>Two paths that part at some node.\<close>

fun apart :: "pathToken list \<Rightarrow> pathToken list \<Rightarrow> bool" where
  "apart (x # xs) (y # ys) = (if x = y then apart xs ys else True)"
| "apart _ _ = False"

lemma json_at_JNull [simp]: "json_at ts JNull = JNull"
  by (induction ts "JNull" rule: json_at.induct) simp_all

lemma grown_nth: "j < length (grown i xs) \<Longrightarrow> grown i xs ! j = (if j < length xs then xs ! j else JNull)"
  by (auto simp: grown_def nth_append)

lemma grown_bound: "i < length (grown i xs)" "length (grown i xs) = max (length xs) (Suc i)"
  by (auto simp: grown_def)

lemma child_mput: "child (mput k v m) k' = (if k' = k then v else child m k')"
  by (simp add: child_def mget_mput)

lemma child_simps [simp]: "child [] k = JNull" "child [(k', v)] k = (if k = k' then v else JNull)"
  by (simp_all add: child_def)

lemma setAtPath_ok: "(\<exists>j'. setAtPath leaf ts j = Inr j') \<longleftrightarrow> fits ts j"
proof (induction leaf ts j rule: setAtPath.induct)
  case (2 leaf name toks node)
  then show ?case
    by (cases node) (force simp: as_map_def split: sum.splits)+
next
  case (3 leaf idx toks node)
  then show ?case
    by (cases node) (force simp: as_array_def grown_nth grown_bound split: sum.splits)+
qed simp

lemma setAtPath_get: "setAtPath leaf ts j = Inr j' \<Longrightarrow> json_at ts j' = leaf (json_at ts j)"
proof (induction leaf ts j arbitrary: j' rule: setAtPath.induct)
  case (2 leaf name toks node)
  then show ?case
    by (cases node) (auto simp: as_map_def child_mput split: sum.splits)
next
  case (3 leaf idx toks node)
  then show ?case
    by (cases node) (auto simp: as_array_def grown_nth grown_bound split: sum.splits)
qed simp

lemma setAtPath_frame:
  "setAtPath leaf ts j = Inr j' \<Longrightarrow> apart ts qs \<Longrightarrow> json_at qs j' = json_at qs j"
proof (induction leaf ts j arbitrary: j' qs rule: setAtPath.induct)
  case (2 leaf name toks node)
  then obtain q qs' where qs: "qs = q # qs'" by (cases qs) auto
  from 2 qs show ?case
    by (cases q; cases node)
      (auto simp: as_map_def child_mput split: sum.splits if_splits)
next
  case (3 leaf idx toks node)
  then obtain q qs' where qs: "qs = q # qs'" by (cases qs) auto
  from 3 qs show ?case
    by (cases q; cases node)
      (auto simp: as_array_def grown_nth grown_bound nth_list_update split: sum.splits if_splits)
qed simp

text \<open>
  C39: Writing at a path.  It succeeds exactly if every node on the path is missing or of the kind
  the path needs; then the value there is the new one, made from the old one, and what is at any
  path that parts from it is as before.
\<close>

theorem set_at_path:
  "((\<exists>j'. setAtPath leaf ts j = Inr j') \<longleftrightarrow> fits ts j)
   \<and> (setAtPath leaf ts j = Inr j' \<longrightarrow>
        json_at ts j' = leaf (json_at ts j) \<and> (apart ts qs \<longrightarrow> json_at qs j' = json_at qs j))"
  using setAtPath_ok setAtPath_get setAtPath_frame by blast

theorem set_at_path_example:
  "json_at [TokenKey ''spec'', TokenKey ''a''] (JObj [(''spec'', JObj [(''b'', JNull), (''a'', JStr ''v'')])]) = JStr ''v''"
proof -
  have "setAtPath (\<lambda>_. JStr ''v'') [TokenKey ''spec'', TokenKey ''a''] (JObj [(''spec'', JObj [(''b'', JNull)])])
      = Inr (JObj [(''spec'', JObj [(''b'', JNull), (''a'', JStr ''v'')])])" by code_simp
  with set_at_path [THEN conjunct2] show ?thesis by blast
qed

end
