(* ===== verification/Es_Template.thy ===== *)
theory Es_Template
  imports Es_Refresh Template_Engine
begin

text \<open>
  \<open>pkg/controllers/templating/parser.go\<close> and \<open>externalsecret_controller_template.go\<close>: which keys of
  a Secret an ExternalSecret manages, according to the Secret's managed fields, and how the target
  Secret is filled from the provider's data and the templates.  The template engine is a parameter.
\<close>

section \<open>Managed fields\<close>

definition TrimPrefix :: "string \<Rightarrow> string \<Rightarrow> string" where
  "TrimPrefix s p = (if HasPrefix s p then drop (length p) s else s)"

text \<open>The loop of both \<open>getManagedFieldKeys\<close> functions, for the field manager \<open>fqdn\<close>.\<close>

fun managed_keys ::
  "Env \<Rightarrow> string \<Rightarrow> (Json gomap \<Rightarrow> string list) \<Rightarrow> ManagedFieldsEntry list \<Rightarrow> string list
   \<Rightarrow> err + string list" where
  "managed_keys E fqdn process [] keys = Inr keys"
| "managed_keys E fqdn process (v # vs) keys =
     (if mfe_Manager v \<noteq> fqdn then managed_keys E fqdn process vs keys
      else (case json_object E (mfe_FieldsV1 v) of
          None \<Rightarrow> Inl (ErrMsg ''error unmarshaling managed fields'')
        | Some flds \<Rightarrow> managed_keys E fqdn process vs
            (keys @ map (\<lambda>key. TrimPrefix key ''f:'') (filter (\<lambda>key. key \<noteq> ''.'') (process flds)))))"

definition object_keys :: "Json option \<Rightarrow> string list" where
  "object_keys j = (case j of Some (JObj m) \<Rightarrow> mkeys m | _ \<Rightarrow> [])"

definition metadata_keys :: "string \<Rightarrow> Json gomap \<Rightarrow> string list" where
  "metadata_keys part flds = (case mget flds ''f:metadata'' of
     Some (JObj mf) \<Rightarrow> object_keys (mget mf part) | _ \<Rightarrow> [])"

definition getManagedDataKeys :: "Env \<Rightarrow> K8sSecret \<Rightarrow> string \<Rightarrow> err + string list" where
  "getManagedDataKeys E secret fieldOwner =
     managed_keys E (fqdnFor E fieldOwner) (\<lambda>flds. object_keys (mget flds ''f:data''))
       (om_ManagedFields (sec_Meta secret)) []"

text \<open>The templating package computes the manager's name by the length of the owner's name alone.\<close>

definition templating_fqdn :: "Env \<Rightarrow> string \<Rightarrow> string" where
  "templating_fqdn E fieldOwner =
     (if length fieldOwner > 63 then fieldOwnerPrefix @ ''sha3/'' @ hex_encode (sha3_224 E fieldOwner)
      else fieldOwnerPrefix @ fieldOwner)"

definition templating_getManagedFieldKeys ::
  "Env \<Rightarrow> K8sSecret \<Rightarrow> string \<Rightarrow> (Json gomap \<Rightarrow> string list) \<Rightarrow> err + string list" where
  "templating_getManagedFieldKeys E secret fieldOwner process =
     managed_keys E (templating_fqdn E fieldOwner) process (om_ManagedFields (sec_Meta secret)) []"

definition GetManagedLabelKeys :: "Env \<Rightarrow> K8sSecret \<Rightarrow> string \<Rightarrow> err + string list" where
  "GetManagedLabelKeys E secret fieldOwner =
     templating_getManagedFieldKeys E secret fieldOwner (metadata_keys ''f:labels'')"

definition GetManagedAnnotationKeys :: "Env \<Rightarrow> K8sSecret \<Rightarrow> string \<Rightarrow> err + string list" where
  "GetManagedAnnotationKeys E secret fieldOwner =
     templating_getManagedFieldKeys E secret fieldOwner (metadata_keys ''f:annotations'')"

section \<open>The parser\<close>

record Parser =
  pa_Exec :: "K8sSecret exec"
  pa_DataMap :: "bytes gomap"
  pa_TemplateFromConfigMap :: "string gomap option"
  pa_TemplateFromSecret :: "K8sSecret option"

definition template_out :: "TemplateRefItem \<Rightarrow> bytes \<Rightarrow> bytes gomap" where
  "template_out k val = (if tri_TemplateAs k = TemplateScopeValues then [(tri_Key k, val)]
     else if tri_TemplateAs k = TemplateScopeKeysAndValues then [(val, val)]
     else [])"

text \<open>The loop over the items, the same for both kinds of source.\<close>

fun merge_items ::
  "Parser \<Rightarrow> string \<Rightarrow> string \<Rightarrow> string \<Rightarrow> bytes gomap \<Rightarrow> TemplateRefItem list \<Rightarrow> K8sSecret
   \<Rightarrow> err + K8sSecret" where
  "merge_items p kind name target source [] secret = Inr secret"
| "merge_items p kind name target source (k # ks) secret = (case mget source (tri_Key k) of
     None \<Rightarrow> Inl (ErrMsg (''error in '' @ kind @ '' '' @ name @ '': missing key '' @ tri_Key k))
   | Some val \<Rightarrow>
       (case pa_Exec p (template_out k val) (pa_DataMap p) (tri_TemplateAs k) target secret of
          Inl e \<Rightarrow> Inl e
        | Inr secret' \<Rightarrow> merge_items p kind name target source ks secret'))"

definition MergeConfigMap ::
  "Env \<Rightarrow> Parser \<Rightarrow> string \<Rightarrow> TemplateFrom \<Rightarrow> K8sSecret \<Rightarrow> (err + K8sSecret) io" where
  "MergeConfigMap E p namespace tpl secret = (case tf_ConfigMap tpl of
     None \<Rightarrow> ret (Inr secret)
   | Some ref \<Rightarrow> do {
       cm \<leftarrow> (case pa_TemplateFromConfigMap p of
           Some cm \<Rightarrow> ret (Inr cm)
         | None \<Rightarrow> k_get_configmap E namespace (tr_Name ref));
       ret (case cm of
         Inl e \<Rightarrow> Inl e
       | Inr m \<Rightarrow> merge_items p ''configmap'' (tr_Name ref) (tf_Target tpl) m (tr_Items ref) secret)
     })"

definition MergeSecret ::
  "Env \<Rightarrow> Parser \<Rightarrow> string \<Rightarrow> TemplateFrom \<Rightarrow> K8sSecret \<Rightarrow> (err + K8sSecret) io" where
  "MergeSecret E p namespace tpl secret = (case tf_Secret tpl of
     None \<Rightarrow> ret (Inr secret)
   | Some ref \<Rightarrow> do {
       sec \<leftarrow> (case pa_TemplateFromSecret p of
           Some sec \<Rightarrow> ret (Inr sec)
         | None \<Rightarrow> k_get_secret E namespace (tr_Name ref));
       ret (case sec of
         Inl e \<Rightarrow> Inl e
       | Inr s \<Rightarrow> merge_items p ''secret'' (tr_Name ref) (tf_Target tpl) (sec_Data s) (tr_Items ref) secret)
     })"

definition MergeLiteral :: "Parser \<Rightarrow> TemplateFrom \<Rightarrow> K8sSecret \<Rightarrow> err + K8sSecret" where
  "MergeLiteral p tpl secret = (case tf_Literal tpl of
     None \<Rightarrow> Inr secret
   | Some literal \<Rightarrow> pa_Exec p [(literal, literal)] (pa_DataMap p) TemplateScopeKeysAndValues
       (tf_Target tpl) secret)"

fun MergeTemplateFrom ::
  "Env \<Rightarrow> Parser \<Rightarrow> string \<Rightarrow> TemplateFrom list \<Rightarrow> K8sSecret \<Rightarrow> (err + K8sSecret) io" where
  "MergeTemplateFrom E p namespace [] secret = ret (Inr secret)"
| "MergeTemplateFrom E p namespace (tpl # tpls) secret = do {
     r1 \<leftarrow> MergeConfigMap E p namespace tpl secret;
     case r1 of
       Inl e \<Rightarrow> ret (Inl e)
     | Inr s1 \<Rightarrow> do {
         r2 \<leftarrow> MergeSecret E p namespace tpl s1;
         case r2 of
           Inl e \<Rightarrow> ret (Inl e)
         | Inr s2 \<Rightarrow> (case MergeLiteral p tpl s2 of
             Inl e \<Rightarrow> ret (Inl e)
           | Inr s3 \<Rightarrow> MergeTemplateFrom E p namespace tpls s3)
       }
   }"

definition MergeMap :: "Parser \<Rightarrow> string gomap \<Rightarrow> string \<Rightarrow> K8sSecret \<Rightarrow> err + K8sSecret" where
  "MergeMap p tplMap target secret =
     (case pa_Exec p tplMap (pa_DataMap p) TemplateScopeValues target secret of
        Inl e \<Rightarrow> Inl (ErrWrap ''could not execute template'' e)
      | Inr s \<Rightarrow> Inr s)"

section \<open>The target Secret\<close>

definition upd_meta :: "(ObjectMeta \<Rightarrow> ObjectMeta) \<Rightarrow> K8sSecret \<Rightarrow> K8sSecret" where
  "upd_meta f secret = secret\<lparr>sec_Meta := f (sec_Meta secret)\<rparr>"

definition MergeStringMap :: "string gomap \<Rightarrow> string gomap \<Rightarrow> string gomap" where
  "MergeStringMap dest src = mcopy dest src"

definition delete_keys :: "string list \<Rightarrow> 'a gomap \<Rightarrow> 'a gomap" where
  "delete_keys keys m = fold mdel keys m"

fun add_finalizers :: "string list \<Rightarrow> string list \<Rightarrow> string list" where
  "add_finalizers [] finalizers = finalizers"
| "add_finalizers (f # fs) finalizers =
     add_finalizers fs (if f \<in> set finalizers then finalizers else finalizers @ [f])"

definition setMetadata :: "Env \<Rightarrow> K8sSecret \<Rightarrow> ExternalSecret \<Rightarrow> err + K8sSecret" where
  "setMetadata E secret es =
     (case GetManagedLabelKeys E secret (om_Name (es_Meta es)) of
        Inl e \<Rightarrow> Inl e
      | Inr labelKeys \<Rightarrow>
        (let s1 = upd_meta (om_Labels_update (delete_keys labelKeys)) secret in
         case GetManagedAnnotationKeys E s1 (om_Name (es_Meta es)) of
           Inl e \<Rightarrow> Inl e
         | Inr annotationKeys \<Rightarrow>
           (let s2 = upd_meta (om_Annotations_update (delete_keys annotationKeys)) s1;
                merged = (\<lambda>ls as. upd_meta (\<lambda>m. m\<lparr>om_Labels := MergeStringMap (om_Labels m) ls,
                  om_Annotations := MergeStringMap (om_Annotations m) as\<rparr>) s2) in
            case etg_Template (esp_Target (es_Spec es)) of
              None \<Rightarrow> Inr (merged (om_Labels (es_Meta es)) (om_Annotations (es_Meta es)))
            | Some tpl \<Rightarrow>
              (let s3 = merged (etm_Labels (et_Metadata tpl)) (etm_Annotations (et_Metadata tpl)) in
               Inr (if om_DeletionTimestamp (sec_Meta s3) = None
                 then upd_meta (om_Finalizers_update (add_finalizers (etm_Finalizers (et_Metadata tpl)))) s3
                 else s3)))))"

definition upd_data :: "(bytes gomap \<Rightarrow> bytes gomap) \<Rightarrow> K8sSecret \<Rightarrow> K8sSecret" where
  "upd_data f secret = secret\<lparr>sec_Data := f (sec_Data secret)\<rparr>"

text \<open>What is done with a template once its engine is found.\<close>

definition run_template ::
  "EsEnv \<Rightarrow> Parser \<Rightarrow> string \<Rightarrow> EsTemplate \<Rightarrow> K8sSecret \<Rightarrow> (err + K8sSecret) io" where
  "run_template W p namespace tpl secret = do {
     r \<leftarrow> MergeTemplateFrom (world W) p namespace (et_TemplateFrom tpl) secret;
     ret (case r of
       Inl e \<Rightarrow> Inl (ErrWrap ''error fetching templateFrom data'' e)
     | Inr s1 \<Rightarrow> (case MergeMap p (et_Data tpl) TemplateTargetData s1 of
         Inl e \<Rightarrow> Inl (ErrWrap ''could not execute template'' e)
       | Inr s2 \<Rightarrow> (case MergeMap p (etm_Labels (et_Metadata tpl)) TemplateTargetLabels s2 of
           Inl e \<Rightarrow> Inl (ErrWrap ''could not execute template'' e)
         | Inr s3 \<Rightarrow> (case MergeMap p (etm_Annotations (et_Metadata tpl)) TemplateTargetAnnotations s3 of
             Inl e \<Rightarrow> Inl (ErrWrap ''could not execute template'' e)
           | Inr s4 \<Rightarrow> Inr s4))))
   }"

definition ApplyTemplate ::
  "EsEnv \<Rightarrow> ExternalSecret \<Rightarrow> K8sSecret \<Rightarrow> bytes gomap \<Rightarrow> (err + K8sSecret) io" where
  "ApplyTemplate W es secret dataMap = (case setMetadata (world W) secret es of
     Inl e \<Rightarrow> ret (Inl e)
   | Inr s0 \<Rightarrow>
       (let target = esp_Target (es_Spec es);
            s1 = (if etg_CreationPolicy target \<noteq> CreatePolicyMerge then s0\<lparr>sec_Data := []\<rparr> else s0) in
        case etg_Template target of
          None \<Rightarrow> ret (Inr (upd_data (\<lambda>d. mcopy d dataMap) s1))
        | Some tpl \<Rightarrow>
            (let s2 = (if et_Type tpl \<noteq> [] then s1\<lparr>sec_Type := et_Type tpl\<rparr> else s1);
                 noTemplate = (length (et_Data tpl) = 0 \<and> length (et_TemplateFrom tpl) = 0);
                 s3 = (if et_MergePolicy tpl = MergePolicyMerge \<or> noTemplate
                       then upd_data (\<lambda>d. mcopy d dataMap) s2 else s2) in
             case secretEngine W (et_EngineVersion tpl) of
               Inl e \<Rightarrow> ret (Inl e)
             | Inr execute \<Rightarrow> run_template W
                 \<lparr>pa_Exec = execute, pa_DataMap = dataMap, pa_TemplateFromConfigMap = None,
                  pa_TemplateFromSecret = None\<rparr> (om_Namespace (es_Meta es)) tpl s3)))"

end
