(* ===== verification/Es_Target.thy ===== *)
theory Es_Target
  imports Es_Template
begin

text \<open>
  The target of an ExternalSecret, from \<open>externalsecret_controller.go\<close>: who owns it, how a Secret is
  created, updated and deleted.  A write made with a field owner is \<open>CAs\<close> of the write.
  \<open>metav1.GetControllerOf\<close> and \<open>IsControlledBy\<close> look at the first owner reference that is marked as
  the controller.
\<close>

section \<open>Ownership\<close>

definition ErrSecretImmutable :: err where "ErrSecretImmutable = Sentinel ''secret is immutable''"
definition ErrSecretIsOwned :: err where
  "ErrSecretIsOwned = Sentinel ''secret is owned by another ExternalSecret''"
definition ErrSecretSetCtrlRef :: err where
  "ErrSecretSetCtrlRef = Sentinel ''could not set controller reference on secret''"
definition ErrSecretRemoveCtrlRef :: err where
  "ErrSecretRemoveCtrlRef = Sentinel ''could not remove controller reference on secret''"

definition GetControllerOf :: "ObjectMeta \<Rightarrow> OwnerReference option" where
  "GetControllerOf m = find (\<lambda>r. owr_Controller r = Some True) (om_OwnerReferences m)"

definition IsControlledBy :: "ObjectMeta \<Rightarrow> ObjectMeta \<Rightarrow> bool" where
  "IsControlledBy m owner = (case GetControllerOf m of
     None \<Rightarrow> False | Some r \<Rightarrow> owr_UID r = om_UID owner)"

text \<open>The group of an API version: what is before its only slash.\<close>

definition api_group :: "string \<Rightarrow> string" where
  "api_group apiVersion = (case split_on (CHR ''/'') apiVersion of
     [grp, version] \<Rightarrow> grp
   | _ \<Rightarrow> [])"

definition group_kind :: "OwnerReference \<Rightarrow> string" where
  "group_kind r = (let grp = api_group (owr_APIVersion r) in
     if grp = [] then owr_Kind r else owr_Kind r @ CHR ''.'' # grp)"

definition ExtSecretGroupKind :: string where
  "ExtSecretGroupKind = ''ExternalSecret.external-secrets.io''"

definition owner_label :: "Env \<Rightarrow> ObjectMeta \<Rightarrow> string" where
  "owner_label E m = ObjectHash E (om_Namespace m @ CHR ''/'' # om_Name m)"

definition applyOwnership :: "EsEnv \<Rightarrow> ExternalSecret \<Rightarrow> ObjectMeta \<Rightarrow> err + ObjectMeta" where
  "applyOwnership W es m =
     (let currentOwner = GetControllerOf m;
          ownerIsESKind = (case currentOwner of None \<Rightarrow> False | Some r \<Rightarrow> group_kind r = ExtSecretGroupKind);
          ownerIsCurrentES = (ownerIsESKind \<and> (case currentOwner of None \<Rightarrow> False
            | Some r \<Rightarrow> owr_Name r = om_Name (es_Meta es)));
          isOwner = (etg_CreationPolicy (esp_Target (es_Spec es)) = CreatePolicyOwner) in
      if ownerIsESKind \<and> \<not> ownerIsCurrentES then
        Inl (ErrSuffix ErrSecretIsOwned (case currentOwner of None \<Rightarrow> [] | Some r \<Rightarrow> owr_Name r))
      else (case (if isOwner then (case setCtrlRef W (es_Meta es) m of
                     Inl e \<Rightarrow> Inl (ErrBoth ErrSecretSetCtrlRef e) | Inr m' \<Rightarrow> Inr m')
                  else Inr m) of
          Inl e \<Rightarrow> Inl e
        | Inr m1 \<Rightarrow> (case (if \<not> isOwner \<and> ownerIsCurrentES then (case removeCtrlRef W (es_Meta es) m1 of
                        Inl e \<Rightarrow> Inl (ErrBoth ErrSecretRemoveCtrlRef e) | Inr m' \<Rightarrow> Inr m')
                      else Inr m1) of
            Inl e \<Rightarrow> Inl e
          | Inr m2 \<Rightarrow> Inr (m2\<lparr>om_Labels :=
              if isOwner then mput EsLabelOwner (owner_label (world W) (es_Meta es)) (om_Labels m2)
              else mdel EsLabelOwner (om_Labels m2)\<rparr>))))"

section \<open>The desired Secret\<close>

definition mark_managed :: "Env \<Rightarrow> K8sSecret \<Rightarrow> K8sSecret" where
  "mark_managed E secret = upd_meta (\<lambda>m. m\<lparr>
     om_Labels := mput EsLabelManaged EsLabelManagedValue (om_Labels m),
     om_Annotations := mput EsAnnotationDataHash (data_hash E (sec_Data secret)) (om_Annotations m)\<rparr>) secret"

definition mutationFunc ::
  "EsEnv \<Rightarrow> ExternalSecret \<Rightarrow> bytes gomap \<Rightarrow> K8sSecret \<Rightarrow> (err + K8sSecret) io" where
  "mutationFunc W es dataMap secret0 =
     (let immutable = etg_Immutable (esp_Target (es_Spec es));
          secret = (if immutable then secret0\<lparr>sec_Immutable := Some True\<rparr> else secret0);
          objectDoesNotExistOrCanBeMutated = (om_UID (sec_Meta secret) = [] \<or> \<not> immutable) in
      do {
        r \<leftarrow> (if objectDoesNotExistOrCanBeMutated then
                (case getManagedDataKeys (world W) secret (om_Name (es_Meta es)) of
                   Inl e \<Rightarrow> ret (Inl e)
                 | Inr keys \<Rightarrow> do {
                     a \<leftarrow> ApplyTemplate W es (upd_data (delete_keys keys) secret) dataMap;
                     ret (case a of
                       Inl e \<Rightarrow> Inl (ErrWrap ''could not apply template'' e)
                     | Inr s \<Rightarrow> Inr s)
                   })
              else ret (Inr secret));
        ret (case r of
          Inl e \<Rightarrow> Inl e
        | Inr s \<Rightarrow> (case applyOwnership W es (sec_Meta s) of
            Inl e \<Rightarrow> Inl e
          | Inr m \<Rightarrow> Inr (mark_managed (world W) (s\<lparr>sec_Meta := m\<rparr>))))
      })"

section \<open>Creating and updating\<close>

text \<open>Semantic equality: maps as maps.\<close>

definition meta_eq :: "ObjectMeta \<Rightarrow> ObjectMeta \<Rightarrow> bool" where
  "meta_eq a b \<longleftrightarrow> map_eq (om_Labels a) (om_Labels b) \<and> map_eq (om_Annotations a) (om_Annotations b)
     \<and> a\<lparr>om_Labels := [], om_Annotations := []\<rparr> = b\<lparr>om_Labels := [], om_Annotations := []\<rparr>"

definition secret_eq :: "K8sSecret \<Rightarrow> K8sSecret \<Rightarrow> bool" where
  "secret_eq a b \<longleftrightarrow> meta_eq (sec_Meta a) (sec_Meta b) \<and> sec_Type a = sec_Type b
     \<and> map_eq (sec_Data a) (sec_Data b) \<and> sec_Immutable a = sec_Immutable b"

definition set_binding :: "string \<Rightarrow> ExternalSecret \<Rightarrow> ExternalSecret" where
  "set_binding name es = es\<lparr>es_Status := (es_Status es)\<lparr>est_Binding := name\<rparr>\<rparr>"

definition createSecret ::
  "EsEnv \<Rightarrow> (K8sSecret \<Rightarrow> (err + K8sSecret) io) \<Rightarrow> ExternalSecret \<Rightarrow> string
   \<Rightarrow> (err option \<times> ExternalSecret) io" where
  "createSecret W mutate es secretName = do {
     r \<leftarrow> mutate \<lparr>sec_Meta = empty_meta\<lparr>om_Name := secretName, om_Namespace := om_Namespace (es_Meta es)\<rparr>,
           sec_Type = [], sec_Data = [], sec_Immutable = None\<rparr>;
     case r of
       Inl e \<Rightarrow> ret (Some e, es)
     | Inr newSecret \<Rightarrow> do {
         w \<leftarrow> es_write W (CAs (fqdnFor (world W) (om_Name (es_Meta es))) (CCreate (OSecret newSecret)));
         case w of
           Some e \<Rightarrow> ret (Some e, es)
         | None \<Rightarrow> do {
             _ \<leftarrow> k_event ''Normal'' ''Created'' ''secret created'';
             ret (None, set_binding (om_Name (sec_Meta newSecret)) es)
           }
       }
   }"

definition update_error :: "string \<Rightarrow> err \<Rightarrow> err" where
  "update_error name e = (if is_conflict e then e
     else ErrWrap (''unable to update secret '' @ name) e)"

text \<open>The part for an existing Secret that is immutable: metadata first, an error for changed data.\<close>

definition update_immutable ::
  "EsEnv \<Rightarrow> string \<Rightarrow> K8sSecret \<Rightarrow> K8sSecret \<Rightarrow> err option io" where
  "update_immutable W fqdn existingSecret updatedSecret =
     (let name = om_Name (sec_Meta existingSecret);
          immutable = Some (ErrWrap (''unable to update secret '' @ name) ErrSecretImmutable) in
      if \<not> meta_eq (sec_Meta existingSecret) (sec_Meta updatedSecret) then
        (let existing' = existingSecret\<lparr>sec_Meta := sec_Meta updatedSecret\<rparr>;
             dataChanged = (\<not> secret_eq existing' updatedSecret) in
         do {
           w \<leftarrow> es_write W (CAs fqdn (CUpdate (OSecret existing')));
           ret (case w of
             Some e \<Rightarrow> Some (update_error (om_Name (sec_Meta existing')) e)
           | None \<Rightarrow> if dataChanged then
               Some (ErrWrap (''unable to update secret '' @ om_Name (sec_Meta existing')) ErrSecretImmutable)
             else None)
         })
      else ret immutable)"

definition updateSecret ::
  "EsEnv \<Rightarrow> K8sSecret \<Rightarrow> (K8sSecret \<Rightarrow> (err + K8sSecret) io) \<Rightarrow> ExternalSecret \<Rightarrow> string
   \<Rightarrow> (err option \<times> ExternalSecret) io" where
  "updateSecret W existingSecret mutate es secretName =
     (let fqdn = fqdnFor (world W) (om_Name (es_Meta es)) in
      if om_UID (sec_Meta existingSecret) = [] then
        ret (Some (ErrMsg (''unable to update secret '' @ secretName @ '': not found'')), es)
      else (let es1 = set_binding secretName es in do {
        r \<leftarrow> mutate existingSecret;
        case r of
          Inl e \<Rightarrow> ret (Some (ErrWrap (''unable to mutate secret '' @ om_Name (sec_Meta existingSecret)) e), es1)
        | Inr updatedSecret \<Rightarrow>
            if secret_eq existingSecret updatedSecret then ret (None, es1)
            else do {
              i \<leftarrow> (if sec_Immutable existingSecret = Some True
                   then update_immutable W fqdn existingSecret updatedSecret else ret None);
              case i of
                Some e \<Rightarrow> ret (Some e, es1)
              | None \<Rightarrow> do {
                  w \<leftarrow> es_write W (CAs fqdn (CUpdate (OSecret updatedSecret)));
                  case w of
                    Some e \<Rightarrow> ret (Some (update_error (om_Name (sec_Meta updatedSecret)) e), es1)
                  | None \<Rightarrow> do {
                      _ \<leftarrow> k_event ''Normal'' ''Updated'' ''secret updated'';
                      ret (None, es1)
                    }
                }
            }
      }))"

section \<open>Deleting\<close>

text \<open>The error of a delete that counts: not finding the object is success.\<close>

definition delete_error :: "err option \<Rightarrow> err option" where
  "delete_error r = (case r of None \<Rightarrow> None | Some e \<Rightarrow> if is_not_found e then None else Some e)"

fun delete_others :: "EsEnv \<Rightarrow> string \<Rightarrow> ObjectMeta list \<Rightarrow> err option io" where
  "delete_others W secretName [] = ret None"
| "delete_others W secretName (m # ms) =
     (if om_Name m \<noteq> secretName then do {
        r \<leftarrow> es_write W (CDelete (OSecretMeta m));
        case delete_error r of
          Some e \<Rightarrow> ret (Some e)
        | None \<Rightarrow> do {
            _ \<leftarrow> k_event ''Normal'' ''Deleted'' ''secret deleted because it was orphaned'';
            delete_others W secretName ms
          }
      } else delete_others W secretName ms)"

definition deleteOrphanedSecrets :: "EsEnv \<Rightarrow> ExternalSecret \<Rightarrow> string \<Rightarrow> err option io" where
  "deleteOrphanedSecrets W es secretName = do {
     r \<leftarrow> es_list_metas W (om_Namespace (es_Meta es)) (owner_label (world W) (es_Meta es));
     case r of
       Inl e \<Rightarrow> ret (Some e)
     | Inr items \<Rightarrow> delete_others W secretName items
   }"

section \<open>The two caches\<close>

text \<open>
  The Secret to continue with, whether the caches are out of step, and an error.  A missing object
  is read as the empty one.
\<close>

definition no_secret :: K8sSecret where
  "no_secret = \<lparr>sec_Meta = empty_meta, sec_Type = [], sec_Data = [], sec_Immutable = None\<rparr>"

definition same_object :: "ObjectMeta \<Rightarrow> ObjectMeta \<Rightarrow> bool" where
  "same_object a b \<longleftrightarrow> om_UID a = om_UID b \<and> om_ResourceVersion a = om_ResourceVersion b"

datatype cache_view = Synced K8sSecret | NotSynced | ReadError err

definition resolveSecretCacheMismatch ::
  "EsEnv \<Rightarrow> EsReconciler \<Rightarrow> string \<Rightarrow> string \<Rightarrow> ObjectMeta \<Rightarrow> K8sSecret \<Rightarrow> cache_view io" where
  "resolveSecretCacheMismatch W R ns name secretPartial existingSecret =
     (if same_object secretPartial (sec_Meta existingSecret) then ret (Synced existingSecret)
      else if \<not> rcl_EnableSecretAPIReadOnCacheMismatch R then ret NotSynced
      else do {
        r \<leftarrow> (if rcl_HasAPIReader R then es_get_direct W ns name else es_get_managed W ns name);
        ret (case r of
          Inl e \<Rightarrow>
            if \<not> is_not_found e then ReadError e
            else if same_object secretPartial (sec_Meta no_secret) then Synced no_secret
            else NotSynced
        | Inr authoritativeSecret \<Rightarrow>
            if same_object secretPartial (sec_Meta authoritativeSecret) then Synced authoritativeSecret
            else NotSynced)
      })"

end
