(* ===== verification/Es_Escape.thy ===== *)
theory Es_Escape
  imports Es_Validators Template_Laws Es_Target
begin

text \<open>
  What a template can do to the Secret it fills.  The target of a template is a path into the whole
  object, so beside data, labels and annotations it reaches the namespace and the type.
\<close>

section \<open>Laws of the libraries\<close>

text \<open>
  The converter of controller-runtime: an object made from unstructured content has the namespace
  and the type the content has.  The owner reference functions change only owner references.
\<close>

definition converter_law :: "EsEnv \<Rightarrow> bool" where
  "converter_law W \<longleftrightarrow> (\<forall>j s s' v. secretFromUnstructured W j s = Inr s' \<longrightarrow>
     (json_at [TokenKey ''metadata'', TokenKey ''namespace''] (JObj j) = JStr v \<longrightarrow> om_Namespace (sec_Meta s') = v)
     \<and> (json_at [TokenKey ''type''] (JObj j) = JStr v \<longrightarrow> sec_Type s' = v))"

definition but_owners :: "ObjectMeta \<Rightarrow> ObjectMeta" where
  "but_owners m = m\<lparr>om_OwnerReferences := []\<rparr>"

definition owner_refs_only :: "EsEnv \<Rightarrow> bool" where
  "owner_refs_only W \<longleftrightarrow> (\<forall>owner m m'. (setCtrlRef W owner m = Inr m' \<or> removeCtrlRef W owner m = Inr m')
     \<longrightarrow> but_owners m' = but_owners m)"

lemma but_owners_eqD:
  "but_owners m = but_owners n \<Longrightarrow> om_Name m = om_Name n \<and> om_Namespace m = om_Namespace n
   \<and> om_Labels m = om_Labels n \<and> om_Annotations m = om_Annotations n \<and> om_UID m = om_UID n
   \<and> om_ManagedFields m = om_ManagedFields n \<and> om_Finalizers m = om_Finalizers n
   \<and> om_DeletionTimestamp m = om_DeletionTimestamp n"
  by (cases m; cases n) (simp add: but_owners_def)

lemma applyOwnership_fields:
  assumes "owner_refs_only W" and "applyOwnership W es m = Inr m'"
  shows "\<exists>ls. but_owners m' = but_owners (m\<lparr>om_Labels := ls\<rparr>)"
proof -
  have set: "but_owners m'' = but_owners m" if "setCtrlRef W o' m = Inr m''" for o' m m''
    using assms(1) that by (auto simp: owner_refs_only_def)
  have rem: "but_owners m'' = but_owners m" if "removeCtrlRef W o' m = Inr m''" for o' m m''
    using assms(1) that by (auto simp: owner_refs_only_def)
  have upd: "but_owners (m''\<lparr>om_Labels := ls\<rparr>) = but_owners (m\<lparr>om_Labels := ls\<rparr>)"
    if "but_owners m'' = but_owners m" for m'' ls
    using that by (cases m; cases m'') (simp add: but_owners_def)
  from assms(2) show ?thesis
    by (auto simp: applyOwnership_def Let_def split: if_splits sum.splits
        dest!: set rem intro!: exI upd)
qed

section \<open>A literal at a path\<close>

lemma literal_sets_path:
  assumes "mapScopeApply W (secret_iface W) lit data target s = Inr s'"
    and "\<not> known_target target" and "parseTargetPath target = Inr toks"
    and "renderText W lit lit data = Inr val" and "yamlParse W val = Inr (JStr v)"
  shows "\<exists>j. json_at toks (JObj j) = JStr v \<and> secretFromUnstructured W j s = Inr s'"
proof -
  have m: "merge_leaf (JStr v) = (\<lambda>_. JStr v)"
    by (rule ext) (simp add: merge_leaf_def split: Json.splits)
  have "(case toks of [TokenKey k] \<Rightarrow> (\<lambda>_. JStr v) | _ \<Rightarrow> merge_leaf (JStr v)) = (\<lambda>_. JStr v)"
    by (simp add: m split: list.splits pathToken.splits)
  with assms have "applyAtPath (secret_iface W) s target toks (\<lambda>_. JStr v) = Inr s'"
    by (auto simp: mapScopeApply_def applyParsedToPath_def split: sum.splits)
  then show ?thesis
    by (auto simp: applyAtPath_def secret_iface_def split: sum.splits Json.splits dest: setAtPath_get)
qed

definition path_template :: "string \<Rightarrow> string \<Rightarrow> EsTemplate" where
  "path_template target lit = \<lparr>et_Type = [], et_EngineVersion = ''v2'',
     et_Metadata = \<lparr>etm_Annotations = [], etm_Labels = [], etm_Finalizers = []\<rparr>,
     et_MergePolicy = [], et_Data = [],
     et_TemplateFrom = [\<lparr>tf_ConfigMap = None, tf_Secret = None, tf_Target = target, tf_Literal = Some lit\<rparr>]\<rparr>"

lemma ApplyTemplate_path:
  assumes "etg_Template (esp_Target (es_Spec es)) = Some (path_template target lit)"
    and "run_state (ApplyTemplate W es s data) h = (Inr s', h')"
  shows "h' = h \<and> (\<exists>s0. mapScopeApply W (secret_iface W) lit data target s0 = Inr s')"
  using assms
  by (auto simp: ApplyTemplate_def path_template_def run_template_def secretEngine_def EngineForVersion_def
      MergeConfigMap_def MergeSecret_def MergeLiteral_def MergeMap_def template_Execute_def Let_def
      split: sum.splits intro: exI)

lemma mutationFunc_new:
  assumes "run_state (mutationFunc W es data secret0) h = (Inr s', h')"
    and "om_UID (sec_Meta secret0) = []" and "om_ManagedFields (sec_Meta secret0) = []"
  shows "\<exists>s0 s m. run_state (ApplyTemplate W es s0 data) h = (Inr s, h')
    \<and> applyOwnership W es (sec_Meta s) = Inr m \<and> s' = mark_managed (world W) (s\<lparr>sec_Meta := m\<rparr>)"
  using assms
  by (force simp: mutationFunc_def Let_def getManagedDataKeys_def run_cases
      split: sum.splits prod.splits if_splits)

definition written_secrets :: "history \<Rightarrow> K8sSecret list" where
  "written_secrets cs = concat (map (\<lambda>c. case c of
     CAs fo (CCreate (OSecret s)) \<Rightarrow> [s] | CAs fo (CUpdate (OSecret s)) \<Rightarrow> [s] | _ \<Rightarrow> []) cs)"

lemma written_secrets_Nil [simp]: "written_secrets [] = []"
  by (simp add: written_secrets_def)

lemma path_targets:
  "\<not> known_target ''type''" "parseTargetPath ''type'' = Inr [TokenKey ''type'']"
  "\<not> known_target ''metadata.namespace''"
  "parseTargetPath ''metadata.namespace'' = Inr [TokenKey ''metadata'', TokenKey ''namespace'']"
  by code_simp+

text \<open>
  C37: A template is not confined to the Secret it fills.  An ExternalSecret without ownership whose
  only template is the literal \<open>v\<close> at the target \<open>metadata.namespace\<close> creates its Secret in the
  namespace \<open>v\<close>, and with the target \<open>type\<close> a Secret of type \<open>v\<close>, a service account token for
  instance; the validating webhook sees nothing privileged in it.
\<close>

theorem template_leaves_namespace:
  assumes "converter_law W" and "owner_refs_only W"
    and "target = ''metadata.namespace'' \<or> target = ''type''"
    and "etg_Template (esp_Target (es_Spec es)) = Some (path_template target lit)"
    and "renderText W lit lit data = Inr val" and "yamlParse W val = Inr (JStr v)"
    and "run_state (createSecret W (mutationFunc W es data) es name) [] = ((None, es'), cs)"
  shows "validatePrivilegedTemplate es = None \<and> written_secrets cs \<noteq> []
    \<and> list_all (\<lambda>s. if target = ''type'' then sec_Type s = v else om_Namespace (sec_Meta s) = v) (written_secrets cs)"
proof -
  let ?new = "no_secret\<lparr>sec_Meta := empty_meta\<lparr>om_Name := name, om_Namespace := om_Namespace (es_Meta es)\<rparr>\<rparr>"
  obtain r h1 where mu: "run_state (mutationFunc W es data ?new) [] = (r, h1)" by fastforce
  then obtain s where r: "r = Inr s" and cs: "written_secrets cs = s # written_secrets h1"
    using assms(7) by (cases r) (auto simp: createSecret_def no_secret_def es_defs k_defs written_secrets_def
        split: option.splits)
  have "om_UID (sec_Meta ?new) = []" "om_ManagedFields (sec_Meta ?new) = []"
    by (simp_all add: empty_meta_def)
  from mutationFunc_new [OF mu [unfolded r] this]
  obtain s0 s1 m where ap: "run_state (ApplyTemplate W es s0 data) [] = (Inr s1, h1)"
    and ow: "applyOwnership W es (sec_Meta s1) = Inr m" and s: "s = mark_managed (world W) (s1\<lparr>sec_Meta := m\<rparr>)"
    by blast
  from ApplyTemplate_path [OF assms(4) ap]
  obtain s2 where h1: "h1 = []" and ms: "mapScopeApply W (secret_iface W) lit data target s2 = Inr s1"
    by blast
  define toks where "toks = (if target = ''type'' then [TokenKey ''type''] else [TokenKey ''metadata'', TokenKey ''namespace''])"
  have kt: "\<not> known_target target" and pt: "parseTargetPath target = Inr toks"
    using assms(3) by (auto simp: toks_def path_targets)
  from literal_sets_path [OF ms kt pt assms(5,6)] obtain j where
    j: "json_at toks (JObj j) = JStr v" "secretFromUnstructured W j s2 = Inr s1" by blast
  have "om_Namespace m = om_Namespace (sec_Meta s1)"
    using applyOwnership_fields [OF assms(2) ow] by (auto dest: but_owners_eqD)
  moreover have "if target = ''type'' then sec_Type s1 = v else om_Namespace (sec_Meta s1) = v"
    using j assms(1,3) by (auto simp: converter_law_def toks_def)
  moreover have "validatePrivilegedTemplate es = None"
    using assms(4) by (simp add: validatePrivilegedTemplate_def path_template_def)
  ultimately show ?thesis
    by (simp add: cs h1 s mark_managed_def upd_meta_def)
qed


definition escape_es :: ExternalSecret where
  "escape_es = sample_es\<lparr>es_Spec := (es_Spec sample_es)\<lparr>esp_Target := sample_es_target\<lparr>
     etg_CreationPolicy := CreatePolicyOrphan,
     etg_Template := Some (path_template ''metadata.namespace'' ''kube-system'')\<rparr>\<rparr>\<rparr>"

lemma sample_converter_law: "converter_law sample_es_env"
  by (auto simp: converter_law_def sample_es_env_def json_secret_def json_field_def json_str_def child_def
      split: Json.splits option.splits)

lemma escape_created:
  "fst (fst (run_state (createSecret sample_es_env (mutationFunc sample_es_env escape_es []) escape_es ''db'') [])) = None"
  by code_simp

theorem template_leaves_namespace_example:
  "\<exists>es' cs s. run_state (createSecret sample_es_env (mutationFunc sample_es_env escape_es []) escape_es ''db'') []
      = ((None, es'), cs) \<and> om_Namespace (es_Meta escape_es) = ''app''
     \<and> s \<in> set (written_secrets cs) \<and> om_Namespace (sec_Meta s) = ''kube-system''"
proof -
  obtain es' cs where run: "run_state (createSecret sample_es_env (mutationFunc sample_es_env escape_es []) escape_es ''db'') []
      = ((None, es'), cs)"
    using escape_created by (metis prod.collapse)
  have ns: "om_Namespace (es_Meta escape_es) = ''app''" by (simp add: escape_es_def sample_es_def sample_meta_def)
  have law: "owner_refs_only sample_es_env" by (simp add: owner_refs_only_def sample_es_env_def)
  have tpl: "etg_Template (esp_Target (es_Spec escape_es)) = Some (path_template ''metadata.namespace'' ''kube-system'')"
    by (simp add: escape_es_def)
  have "renderText sample_es_env ''kube-system'' ''kube-system'' [] = Inr ''kube-system''"
    "yamlParse sample_es_env ''kube-system'' = Inr (JStr ''kube-system'')"
    by (simp_all add: sample_es_env_def)
  from template_leaves_namespace [OF sample_converter_law law disjI1 [OF refl] tpl this run] run ns
  show ?thesis by (cases "written_secrets cs") auto
qed

end
