(* ===== verification/Es_Data.thy ===== *)
theory Es_Data
  imports Client_Manager Secret_Keys
begin

text \<open>
  \<open>externalsecret_controller_secret.go\<close>: what an ExternalSecret's sources give.  \<open>spec.dataFrom\<close>
  is merged in order, then \<open>spec.data\<close> is stored over it; clients come from one client manager,
  the states of generators are queued in one state manager that is committed or rolled back at the
  end.  The variable \<open>err\<close> of the first loop outlives an iteration and is threaded as \<open>stale\<close>.
\<close>

section \<open>Checks of fetched values\<close>

definition validateFetchedSecretValue :: "string \<Rightarrow> string \<Rightarrow> bytes \<Rightarrow> err option" where
  "validateFetchedSecretValue policy key val =
     (if policy \<noteq> NullBytePolicyFail \<or> CHR 0x00 \<notin> set val then None
      else Some (ErrMsg (''fetched secret value for key '' @ go_quote key @ '' contains null bytes; use a text-safe format such as PEM/base64 or leave nullBytePolicy unset for intentional binary data'')))"

fun validate_values :: "string \<Rightarrow> bytes gomap \<Rightarrow> string list \<Rightarrow> err option" where
  "validate_values policy secretMap [] = None"
| "validate_values policy secretMap (key # keys) =
     (case validateFetchedSecretValue policy key (mget_str secretMap key) of
        Some e \<Rightarrow> Some e
      | None \<Rightarrow> validate_values policy secretMap keys)"

definition validateFetchedSecretMap :: "string \<Rightarrow> bytes gomap \<Rightarrow> err option" where
  "validateFetchedSecretMap policy secretMap =
     (if policy \<noteq> NullBytePolicyFail then None
      else validate_values policy secretMap (sort (mkeys secretMap)))"

text \<open>
  What \<open>handleExtractSecrets\<close> and \<open>handleFindAllSecrets\<close> do with a fetched map, the same lines in
  both.
\<close>

definition finish_map ::
  "Env \<Rightarrow> RewriteOp list \<Rightarrow> string \<Rightarrow> string \<Rightarrow> string \<Rightarrow> bytes gomap \<Rightarrow> err + bytes gomap" where
  "finish_map E rewrite conversion decoding nullBytes secretMap =
     (case RewriteMap E rewrite secretMap of
        Inl e \<Rightarrow> Inl (ErrWrap ''error applying rewrite to keys'' e)
      | Inr rewritten \<Rightarrow>
        (case (if length rewrite = 0 then ConvertKeys E conversion rewritten else Inr rewritten) of
           Inl e \<Rightarrow> Inl (ErrWrap (''error applying conversion strategy '' @ conversion @ '' to keys'') e)
         | Inr converted \<Rightarrow>
           (case ValidateKeys E converted of
              (_, Some e) \<Rightarrow> Inl (ErrWrap ''invalid secret keys (TIP: use rewrite or conversionStrategy to change keys)'' e)
            | (validated, None) \<Rightarrow>
              (case DecodeMap decoding validated of
                 Inl e \<Rightarrow> Inl (ErrWrap (''error applying decoding strategy '' @ decoding @ '' to data'') e)
               | Inr decoded \<Rightarrow>
                 (case validateFetchedSecretMap nullBytes decoded of
                    Some e \<Rightarrow> Inl e
                  | None \<Rightarrow> Inr decoded)))))"

section \<open>The sources\<close>

type_synonym managers = "ClientManager \<times> Manager option"

definition generatorStateKey :: "nat \<Rightarrow> string" where
  "generatorStateKey i = show_nat i"

definition toStoreGenSourceRef :: "StoreSourceRef option \<Rightarrow> StoreGeneratorSourceRef option" where
  "toStoreGenSourceRef ref = (case ref of
     None \<Rightarrow> None
   | Some r \<Rightarrow> Some \<lparr>sgr_SecretStoreRef = Some (ssrc_SecretStoreRef r), sgr_GeneratorRef = None\<rparr>)"

definition handleSecretData ::
  "EsEnv \<Rightarrow> ExternalSecret \<Rightarrow> EsData \<Rightarrow> bytes gomap \<Rightarrow> ClientManager
   \<Rightarrow> ((err + bytes gomap) \<times> ClientManager) io" where
  "handleSecretData W es secretRef providerData cm = do {
     (c, cm1) \<leftarrow> cm_Get W cm (esp_SecretStoreRef (es_Spec es)) (om_Namespace (es_Meta es))
                   (toStoreGenSourceRef (ed_SourceRef secretRef));
     case c of
       Inl e \<Rightarrow> ret (Inl e, cm1)
     | Inr client \<Rightarrow> do {
         r \<leftarrow> sc_GetSecret client (DataRemoteRef.truncate (ed_RemoteRef secretRef));
         ret (case r of
           Inl e \<Rightarrow> Inl e
         | Inr secretData \<Rightarrow>
             (case Decode (edr_DecodingStrategy (ed_RemoteRef secretRef)) secretData of
                Inl e \<Rightarrow> Inl (ErrWrap (''error applying decoding strategy ''
                           @ edr_DecodingStrategy (ed_RemoteRef secretRef) @ '' to data'') e)
              | Inr decoded \<Rightarrow>
                  (case validateFetchedSecretValue (edr_NullBytePolicy (ed_RemoteRef secretRef))
                          (ed_SecretKey secretRef) decoded of
                     Some e \<Rightarrow> Inl e
                   | None \<Rightarrow> Inr (mput (ed_SecretKey secretRef) decoded providerData))), cm1)
       }
   }"

definition flag_latest :: "nat \<Rightarrow> Manager option \<Rightarrow> Manager option" where
  "flag_latest i genState = map_option (EnqueueFlagLatestStateForGC (generatorStateKey i)) genState"

definition handleExtractSecrets ::
  "EsEnv \<Rightarrow> ExternalSecret \<Rightarrow> EsDataFrom \<Rightarrow> EsDataRemoteRef \<Rightarrow> nat \<Rightarrow> managers
   \<Rightarrow> ((err + bytes gomap) \<times> managers) io" where
  "handleExtractSecrets W es remoteRef extract i ms = (let (cm, genState) = ms in do {
     (c, cm1) \<leftarrow> cm_Get W cm (esp_SecretStoreRef (es_Spec es)) (om_Namespace (es_Meta es))
                   (edf_SourceRef remoteRef);
     case c of
       Inl e \<Rightarrow> ret (Inl e, cm1, genState)
     | Inr client \<Rightarrow> do {
         r \<leftarrow> esc_GetSecretMap client (DataRemoteRef.truncate extract);
         ret (case r of
           Inl e \<Rightarrow> (Inl e, cm1, genState)
         | Inr secretMap \<Rightarrow>
             (case finish_map (world W) (edf_Rewrite remoteRef) (edr_ConversionStrategy extract)
                     (edr_DecodingStrategy extract) (edr_NullBytePolicy extract) secretMap of
                Inl e \<Rightarrow> (Inl e, cm1, genState)
              | Inr m \<Rightarrow> (Inr m, cm1, flag_latest i genState)))
       }
   })"

definition handleFindAllSecrets ::
  "EsEnv \<Rightarrow> ExternalSecret \<Rightarrow> EsDataFrom \<Rightarrow> EsFind \<Rightarrow> nat \<Rightarrow> managers
   \<Rightarrow> ((err + bytes gomap) \<times> managers) io" where
  "handleFindAllSecrets W es remoteRef finder i ms = (let (cm, genState) = ms in do {
     (c, cm1) \<leftarrow> cm_Get W cm (esp_SecretStoreRef (es_Spec es)) (om_Namespace (es_Meta es))
                   (edf_SourceRef remoteRef);
     case c of
       Inl e \<Rightarrow> ret (Inl e, cm1, genState)
     | Inr client \<Rightarrow> do {
         r \<leftarrow> esc_GetAllSecrets client (FindRef.truncate finder);
         ret (case r of
           Inl e \<Rightarrow> (Inl (ErrWrap ''error getting all secrets'' e), cm1, genState)
         | Inr secretMap \<Rightarrow>
             (case finish_map (world W) (edf_Rewrite remoteRef) (ef_ConversionStrategy finder)
                     (ef_DecodingStrategy finder) (ef_NullBytePolicy finder) secretMap of
                Inl e \<Rightarrow> (Inl e, cm1, genState)
              | Inr m \<Rightarrow> (Inr m, cm1, flag_latest i genState)))
       }
   })"

definition finish_generated ::
  "Env \<Rightarrow> RewriteOp list \<Rightarrow> bytes gomap \<Rightarrow> err + bytes gomap" where
  "finish_generated E rewrite secretMap = (case RewriteMap E rewrite secretMap of
     Inl e \<Rightarrow> Inl (ErrWrap ''error applying rewrite to keys'' e)
   | Inr rewritten \<Rightarrow> (case ValidateKeys E rewritten of
       (_, Some e) \<Rightarrow> Inl (ErrWrap ''invalid secret keys (TIP: use rewrite or conversionStrategy to change keys)'' e)
     | (validated, None) \<Rightarrow> Inr validated))"

definition queue_generated ::
  "string \<Rightarrow> string \<Rightarrow> bytes \<Rightarrow> EsGenerator \<Rightarrow> bytes option \<Rightarrow> GeneratorState option \<Rightarrow> Manager option
   \<Rightarrow> Manager option" where
  "queue_generated key namespace resource impl newState latestState generatorState =
     (case generatorState of
        None \<Rightarrow> None
      | Some g \<Rightarrow>
          Some (EnqueueSetLatest key namespace (Some resource) (Generator.truncate impl) newState
            (if latestState \<noteq> None then EnqueueMoveStateToGC key g else g)))"

definition handleGenerateSecrets ::
  "EsEnv \<Rightarrow> string \<Rightarrow> EsDataFrom \<Rightarrow> GeneratorRef \<Rightarrow> nat \<Rightarrow> managers
   \<Rightarrow> ((err + bytes gomap) \<times> managers) io" where
  "handleGenerateSecrets W namespace remoteRef ref i ms = (let (cm, generatorState) = ms in do {
     g \<leftarrow> es_generator W namespace ref;
     case g of
       Inl e \<Rightarrow> ret (Inl e, ms)
     | Inr (impl, resource) \<Rightarrow> do {
         l \<leftarrow> (case generatorState of
             None \<Rightarrow> ret (Inr None)
           | Some gs \<Rightarrow> GetLatestState (world W) gs (generatorStateKey i));
         case l of
           Inl e \<Rightarrow> ret (Inl (ErrWrap ''unable to get latest state'' e), ms)
         | Inr latestState \<Rightarrow> do {
             r \<leftarrow> egen_Generate impl resource namespace;
             ret (case r of
               Inl e \<Rightarrow> (Inl (ErrWrap ''error using generator'' e), ms)
             | Inr (secretMap, newState) \<Rightarrow>
                 (finish_generated (world W) (edf_Rewrite remoteRef) secretMap,
                  cm, queue_generated (generatorStateKey i) namespace resource impl newState
                        latestState generatorState))
           }
       }
   })"

section \<open>The two loops\<close>

text \<open>One element of \<open>spec.dataFrom\<close>: no source at all leaves \<open>secretMap\<close> nil and \<open>err\<close> as it was.\<close>

definition dataFrom_entry ::
  "EsEnv \<Rightarrow> ExternalSecret \<Rightarrow> nat \<Rightarrow> EsDataFrom \<Rightarrow> err option \<Rightarrow> managers
   \<Rightarrow> ((err + bytes gomap) \<times> managers) io" where
  "dataFrom_entry W es i remoteRef stale ms =
     (let at = ''error processing spec.dataFrom['' @ show_nat i @ '']'';
          wrapped = (\<lambda>what (r, ms'). ((case r of
             Inl e \<Rightarrow> Inl (ErrWrap (at @ what @ '', err'') e) | Inr m \<Rightarrow> Inr m), ms')) in
      case edf_Find remoteRef of
        Some finder \<Rightarrow> do {
          r \<leftarrow> handleFindAllSecrets W es remoteRef finder i ms;
          ret (wrapped ''.find'' r)
        }
      | None \<Rightarrow> (case edf_Extract remoteRef of
          Some extract \<Rightarrow> do {
            r \<leftarrow> handleExtractSecrets W es remoteRef extract i ms;
            ret (wrapped ''.extract'' r)
          }
        | None \<Rightarrow> (case Option.bind (edf_SourceRef remoteRef) sgr_GeneratorRef of
            Some ref \<Rightarrow> do {
              r \<leftarrow> handleGenerateSecrets W (om_Namespace (es_Meta es)) remoteRef ref i ms;
              ret (wrapped ''.sourceRef.generatorRef'' r)
            }
          | None \<Rightarrow> ret ((case stale of None \<Rightarrow> Inr [] | Some e \<Rightarrow> Inl e), ms))))"

definition skips :: "ExternalSecret \<Rightarrow> err \<Rightarrow> bool" where
  "skips es e \<longleftrightarrow> errors_is e NoSecretErr
     \<and> etg_DeletionPolicy (esp_Target (es_Spec es)) \<noteq> DeletionPolicyRetain"

fun dataFrom_loop ::
  "EsEnv \<Rightarrow> ExternalSecret \<Rightarrow> nat \<Rightarrow> EsDataFrom list \<Rightarrow> err option \<Rightarrow> bytes gomap \<Rightarrow> managers
   \<Rightarrow> ((err + bytes gomap) \<times> managers) io" where
  "dataFrom_loop W es i [] stale providerData ms = ret (Inr providerData, ms)"
| "dataFrom_loop W es i (remoteRef # refs) stale providerData ms = do {
     (r, ms1) \<leftarrow> dataFrom_entry W es i remoteRef stale ms;
     case r of
       Inl e \<Rightarrow>
         if skips es e then do {
           _ \<leftarrow> k_event ''Normal'' ''MissingProviderSecret''
                 (''secret does not exist at provider using spec.dataFrom['' @ show_nat i @ '']'');
           dataFrom_loop W es (Suc i) refs (Some e) providerData ms1
         } else ret (Inl e, ms1)
     | Inr secretMap \<Rightarrow>
         dataFrom_loop W es (Suc i) refs None (MergeByteMap providerData secretMap) ms1
   }"

fun data_loop ::
  "EsEnv \<Rightarrow> ExternalSecret \<Rightarrow> nat \<Rightarrow> EsData list \<Rightarrow> bytes gomap \<Rightarrow> ClientManager
   \<Rightarrow> ((err + bytes gomap) \<times> ClientManager) io" where
  "data_loop W es i [] providerData cm = ret (Inr providerData, cm)"
| "data_loop W es i (secretRef # refs) providerData cm = do {
     (r, cm1) \<leftarrow> handleSecretData W es secretRef providerData cm;
     case r of
       Inl e \<Rightarrow>
         if skips es e then do {
           _ \<leftarrow> k_event ''Normal'' ''MissingProviderSecret''
                 (''secret does not exist at provider using spec.dataFrom['' @ show_nat i @ ''] (key=''
                  @ drr_Key (ed_RemoteRef secretRef) @ '')'');
           data_loop W es (Suc i) refs providerData cm1
         } else ret (Inl (ErrWrap (''error processing spec.data['' @ show_nat i @ ''] (key: ''
                  @ drr_Key (ed_RemoteRef secretRef) @ ''), err'') e), cm1)
     | Inr providerData' \<Rightarrow> data_loop W es (Suc i) refs providerData' cm1
   }"

definition fetch_sources ::
  "EsEnv \<Rightarrow> ExternalSecret \<Rightarrow> managers \<Rightarrow> ((err + bytes gomap) \<times> managers) io" where
  "fetch_sources W es ms = do {
     (r, ms1) \<leftarrow> dataFrom_loop W es 0 (esp_DataFrom (es_Spec es)) None [] ms;
     case r of
       Inl e \<Rightarrow> ret (Inl e, ms1)
     | Inr providerData \<Rightarrow> do {
         (r', cm1) \<leftarrow> data_loop W es 0 (esp_Data (es_Spec es)) providerData (fst ms1);
         ret (r', cm1, snd ms1)
       }
   }"

text \<open>The deferred end of the generator states; a failed rollback is only logged.\<close>

definition settle_states ::
  "EsEnv \<Rightarrow> Manager option \<Rightarrow> err + bytes gomap \<Rightarrow> (err + bytes gomap) io" where
  "settle_states W genState r = (case genState of
     None \<Rightarrow> ret r
   | Some g \<Rightarrow>
       if (case r of Inl e \<Rightarrow> \<not> errors_is e NoSecretErr | Inr _ \<Rightarrow> False) then do {
         _ \<leftarrow> Rollback (world W) g;
         ret r
       } else do {
         c \<leftarrow> Commit (world W) g;
         ret (case c of Some commitErr \<Rightarrow> Inl commitErr | None \<Rightarrow> r)
       })"

definition GetProviderSecretData ::
  "EsEnv \<Rightarrow> EsReconciler \<Rightarrow> ExternalSecret \<Rightarrow> (err + bytes gomap) io" where
  "GetProviderSecretData W R es =
     (let cm = NewManager (rcl_ControllerClass R) (rcl_EnableFloodGate R);
          genState = (if rcl_EnableGeneratorState R
            then Some (New (om_Namespace (es_Meta es))
                   \<lparr>sr_Kind = es_Kind es, sr_Namespace = om_Namespace (es_Meta es),
                    sr_Name = om_Name (es_Meta es)\<rparr> (stateOwner W es))
            else None) in
      do {
        (r, cm1, genState1) \<leftarrow> fetch_sources W es (cm, genState);
        r' \<leftarrow> settle_states W genState1 r;
        _ \<leftarrow> cm_Close cm1;
        ret r'
      })"

section \<open>Stores that are not managed\<close>

definition shouldSkipClusterSecretStore :: "EsReconciler \<Rightarrow> ExternalSecret \<Rightarrow> bool" where
  "shouldSkipClusterSecretStore R es \<longleftrightarrow> \<not> rcl_ClusterSecretStoreEnabled R
     \<and> ssr_Kind (esp_SecretStoreRef (es_Spec es)) = ClusterSecretStoreKind"

definition shouldSkipGenerator :: "EsEnv \<Rightarrow> EsReconciler \<Rightarrow> bytes \<Rightarrow> err + bool" where
  "shouldSkipGenerator W R generatorDef = (case generatorClass W generatorDef of
     Inl e \<Rightarrow> Inl e
   | Inr class \<Rightarrow> Inr (class \<noteq> [] \<and> class \<noteq> rcl_ControllerClass R))"

definition ErrUnableToGetGenerator :: err where
  "ErrUnableToGetGenerator = Sentinel ''unable to get generator''"

definition data_refs :: "EsData list \<Rightarrow> SecretStoreRef list" where
  "data_refs refs = concat (map (\<lambda>ref. case ed_SourceRef ref of
     None \<Rightarrow> [] | Some s \<Rightarrow> [ssrc_SecretStoreRef s]) refs)"

text \<open>The loop over \<open>spec.dataFrom\<close> collects stores and checks generators; \<open>Inr None\<close> is the early \<open>true\<close>.\<close>

fun dataFrom_refs ::
  "EsEnv \<Rightarrow> EsReconciler \<Rightarrow> string \<Rightarrow> EsDataFrom list \<Rightarrow> SecretStoreRef list
   \<Rightarrow> (err + SecretStoreRef list option) io" where
  "dataFrom_refs W R namespace [] storeList = ret (Inr (Some storeList))"
| "dataFrom_refs W R namespace (ref # refs) storeList =
     (let storeList' = (case Option.bind (edf_SourceRef ref) sgr_SecretStoreRef of
            None \<Rightarrow> storeList | Some r \<Rightarrow> storeList @ [r]) in
      case Option.bind (edf_SourceRef ref) sgr_GeneratorRef of
        None \<Rightarrow> dataFrom_refs W R namespace refs storeList'
      | Some gref \<Rightarrow> do {
          g \<leftarrow> es_generator W namespace gref;
          case g of
            Inl e \<Rightarrow>
              if is_not_found e \<or> errors_is e ErrUnableToGetGenerator
              then dataFrom_refs W R namespace refs storeList'
              else ret (Inl e)
          | Inr (_, obj) \<Rightarrow> (case shouldSkipGenerator W R obj of
              Inl e \<Rightarrow> ret (Inl e)
            | Inr True \<Rightarrow> ret (Inr None)
            | Inr False \<Rightarrow> dataFrom_refs W R namespace refs storeList')
        })"

text \<open>\<open>namespace\<close> is the loop's variable: a cluster store sets it to the empty string for good.\<close>

fun any_unmanaged ::
  "EsEnv \<Rightarrow> EsReconciler \<Rightarrow> string \<Rightarrow> SecretStoreRef list \<Rightarrow> (err + bool) io" where
  "any_unmanaged W R namespace [] = ret (Inr False)"
| "any_unmanaged W R namespace (ref # refs) =
     (let look = (\<lambda>namespace' get. do {
            r \<leftarrow> get;
            case r of
              Inl e \<Rightarrow> if is_not_found e then any_unmanaged W R namespace' refs else ret (Inl e)
            | Inr store \<Rightarrow>
                if eso_Controller store \<noteq> [] \<and> eso_Controller store \<noteq> rcl_ControllerClass R
                then ret (Inr True)
                else any_unmanaged W R namespace' refs
          }) in
      if ssr_Kind ref = SecretStoreKind \<or> ssr_Kind ref = [] then
        look namespace (es_get_store W namespace (ssr_Name ref))
      else if ssr_Kind ref = ClusterSecretStoreKind then
        look [] (es_get_cstore W (ssr_Name ref))
      else ret (Inl (ErrMsg (''unsupported secret store kind: '' @ ssr_Kind ref))))"

definition shouldSkipUnmanagedStore ::
  "EsEnv \<Rightarrow> string \<Rightarrow> EsReconciler \<Rightarrow> ExternalSecret \<Rightarrow> (err + bool) io" where
  "shouldSkipUnmanagedStore W namespace R es =
     (let storeRef = esp_SecretStoreRef (es_Spec es);
          storeList = (if ssr_Name storeRef \<noteq> [] then [storeRef] else []) @ data_refs (esp_Data (es_Spec es)) in
      do {
        r \<leftarrow> dataFrom_refs W R namespace (esp_DataFrom (es_Spec es)) storeList;
        case r of
          Inl e \<Rightarrow> ret (Inl e)
        | Inr None \<Rightarrow> ret (Inr True)
        | Inr (Some refs) \<Rightarrow> any_unmanaged W R namespace refs
      })"

end
