(* ===== verification/Es_Interfaces.thy ===== *)
theory Es_Interfaces
  imports Es_Data Akeyless_Reads Password Reconcile_Laws
begin

text \<open>
  What the ExternalSecret controller relies on: no registered provider, no client one of them makes
  and no generator writes to the API server or to Akeyless.  The contract is the locale
  \<open>es_sources\<close>; it is discharged for the environments in which the Akeyless provider is the
  registered one, as in this build, and generator references resolve to password generators.
\<close>

section \<open>The contract\<close>

definition es_quiet_client :: "EsSecretsClient \<Rightarrow> bool" where
  "es_quiet_client c \<longleftrightarrow>
     (\<forall>ref. performs quiet (sc_GetSecret c ref)) \<and> (\<forall>ref. performs quiet (esc_GetSecretMap c ref))
     \<and> (\<forall>ref. performs quiet (esc_GetAllSecrets c ref)) \<and> performs quiet (sc_Validate c)
     \<and> performs quiet (sc_Close c)"

definition es_quiet_generator :: "EsGenerator \<Rightarrow> bool" where
  "es_quiet_generator g \<longleftrightarrow> (\<forall>r ns. performs quiet (egen_Generate g r ns))
     \<and> (\<forall>r st ns. performs quiet (gen_Cleanup g r st ns))"

text \<open>Every client a manager holds keeps the contract.\<close>

definition quiet_manager :: "ClientManager \<Rightarrow> bool" where
  "quiet_manager m \<longleftrightarrow> (\<forall>(k, c, s) \<in> set (cm_Clients m). es_quiet_client c)"

lemma mput_subset: "set (mput k v m) \<subseteq> insert (k, v) (set m)"
  by (induction m) (auto split: prod.splits)

lemma mdel_subset: "set (mdel k m) \<subseteq> set m"
  by (auto simp: AList.delete_eq)

lemma quiet_manager_mget:
  "quiet_manager m \<Longrightarrow> mget (cm_Clients m) k = Some (c, s) \<Longrightarrow> es_quiet_client c"
  by (force simp: quiet_manager_def dest: map_of_SomeD)

lemma quiet_manager_mdel: "quiet_manager m \<Longrightarrow> quiet_manager (m\<lparr>cm_Clients := mdel k (cm_Clients m)\<rparr>)"
  using mdel_subset [of k "cm_Clients m"] by (force simp: quiet_manager_def)

lemma quiet_manager_mput:
  "quiet_manager m \<Longrightarrow> es_quiet_client c \<Longrightarrow>
   quiet_manager (m\<lparr>cm_Clients := mput k (c, s) (cm_Clients m)\<rparr>)"
  using mput_subset [of k "(c, s)" "cm_Clients m"] by (force simp: quiet_manager_def)

lemma quiet_NewManager: "quiet_manager (NewManager class floodgate)"
  by (simp add: quiet_manager_def NewManager_def)

locale es_sources =
  fixes W :: EsEnv
  assumes NewClient_quiet: "mget (providers W) k = Some p \<Longrightarrow> performs quiet (epr_NewClient p store ns)"
    and client_quiet: "mget (providers W) k = Some p \<Longrightarrow>
      Inr c \<in> results (epr_NewClient p store ns) \<Longrightarrow> es_quiet_client c"
    and generator_quiet: "generatorRef W h ns ref = Inr (g, raw) \<Longrightarrow> es_quiet_generator g"
begin

lemma provider_registered: "GetProvider W store = Inr p \<Longrightarrow> \<exists>k. mget (providers W) k = Some p"
  by (auto simp: GetProvider_def lookup_backend_def split: sum.splits option.splits)

end

section \<open>The Akeyless provider as a provider of this controller\<close>

definition akeyless_es_client :: "Env \<Rightarrow> AkeylessClient \<Rightarrow> EsSecretsClient" where
  "akeyless_es_client E a = SecretsClient.extend (akeyless_client E a)
     (EsSecretsClient.fields (GetSecretMap E a None) (GetAllSecrets E a None)
       (\<lambda>secret psd. PushSecret E a None secret (PushData.truncate psd)) (DeleteSecret E a None)
       (SecretExists E a None))"

definition akeyless_es_provider :: "Env \<Rightarrow> EsProvider" where
  "akeyless_es_provider E =
     \<lparr>epr_Type = ''*akeyless.Provider'',
      epr_NewClient = (\<lambda>store ns. do {
        r \<leftarrow> NewClient E (GenericStore.truncate store) ns;
        ret (case r of Inl e \<Rightarrow> Inl e | Inr a \<Rightarrow> Inr (akeyless_es_client E a))
      }),
      epr_ValidateStore = (\<lambda>store. case ValidateStore E (GenericStore.truncate store) of
        GoRet r \<Rightarrow> ([], r) | GoPanic \<Rightarrow> ([], Some nil_dereference)),
      epr_Capabilities = ''ReadWrite''\<rparr>"

text \<open>\<open>Generate\<close> and \<open>Cleanup\<close> of the password generator; it keeps no state.\<close>

definition password_generator ::
  "(bytes \<Rightarrow> err + PasswordSpec) \<Rightarrow> generateFunc \<Rightarrow> EsGenerator" where
  "password_generator parseSpec passGen = Generator.extend \<lparr>gen_Cleanup = (\<lambda>r st ns. ret None)\<rparr>
     (EsGenerator.fields (\<lambda>raw ns. ret (case generate parseSpec (Some raw) passGen of
        Inl e \<Rightarrow> Inl e | Inr m \<Rightarrow> Inr (m, None))))"

definition akeyless_world ::
  "(bytes \<Rightarrow> err + PasswordSpec) \<Rightarrow> generateFunc
   \<Rightarrow> (history \<Rightarrow> string \<Rightarrow> GeneratorRef \<Rightarrow> err + bytes) \<Rightarrow> EsEnv \<Rightarrow> EsEnv" where
  "akeyless_world parseSpec passGen resources W = W\<lparr>
     providers := [(''akeyless'', akeyless_es_provider (world W))],
     generatorRef := (\<lambda>h ns ref. case resources h ns ref of
       Inl e \<Rightarrow> Inl e | Inr raw \<Rightarrow> Inr (password_generator parseSpec passGen, raw))\<rparr>"

lemma akeyless_es_client_quiet: "es_quiet_client (akeyless_es_client E a)"
  using akeyless_client_quiet [of E a]
  by (auto simp: es_quiet_client_def quiet_client_def akeyless_es_client_def akeyless_client_def
      SecretsClient.defs EsSecretsClient.defs
      intro: performs_mono [OF performs_GetSecretMap] performs_mono [OF performs_GetAllSecrets] may_read_quiet)

lemma results_es_provider:
  assumes "Inr c \<in> results (epr_NewClient (akeyless_es_provider E) store ns)"
  obtains a where "c = akeyless_es_client E a"
proof -
  obtain h h' where run: "run_state (epr_NewClient (akeyless_es_provider E) store ns) h = (Inr c, h')"
    using assms by (auto simp: results_def)
  obtain r h1 where r: "run_state (NewClient E (GenericStore.truncate store) ns) h = (r, h1)" by fastforce
  with run that show thesis by (cases r) (auto simp: akeyless_es_provider_def)
qed

interpretation akl_es: es_sources "akeyless_world parseSpec passGen resources W"
  for parseSpec passGen resources W
proof (unfold_locales, goal_cases)
  case (1 k p store ns)
  then show ?case
    by (auto simp: akeyless_world_def akeyless_es_provider_def split: if_splits intro!: performs_intros)
next
  case (2 k p c store ns)
  then show ?case
    by (auto simp: akeyless_world_def akeyless_es_client_quiet elim!: results_es_provider split: if_splits)
next
  case (3 h ns ref g raw)
  then show ?case
    by (auto simp: akeyless_world_def password_generator_def es_quiet_generator_def Generator.defs
        EsGenerator.defs split: sum.splits intro: performs_intros)
qed

end
