(* ===== verification/Es_Target_Laws.thy ===== *)
theory Es_Target_Laws
  imports Es_Escape Es_Interfaces
begin

text \<open>
  What an ExternalSecret writes to its target.  With templates that stay within data, labels and
  annotations the target keeps its identity, so what is created and updated is the target itself;
  a Secret another ExternalSecret owns is left alone; writing again what was written is no change.
\<close>

section \<open>Identity\<close>

definition ident :: "ObjectMeta \<Rightarrow> ObjectMeta" where
  "ident m = m\<lparr>om_Labels := [], om_Annotations := [], om_Finalizers := []\<rparr>"

lemma ident_simps [simp]:
  "ident (om_Labels_update f m) = ident m" "ident (om_Annotations_update f m) = ident m"
  "ident (om_Finalizers_update g m) = ident m"
  by (simp_all add: ident_def)

lemma ident_eqD:
  "ident m = ident n \<Longrightarrow> om_Name m = om_Name n \<and> om_Namespace m = om_Namespace n \<and> om_UID m = om_UID n
   \<and> om_OwnerReferences m = om_OwnerReferences n \<and> om_ManagedFields m = om_ManagedFields n"
  by (cases m; cases n) (simp add: ident_def)

definition same_ident :: "K8sSecret \<Rightarrow> K8sSecret \<Rightarrow> bool" where
  "same_ident s s' \<longleftrightarrow> ident (sec_Meta s') = ident (sec_Meta s) \<and> sec_Immutable s' = sec_Immutable s"

lemma same_ident_refl [simp]: "same_ident s s"
  by (simp add: same_ident_def)

lemma same_ident_trans: "same_ident s t \<Longrightarrow> same_ident t u \<Longrightarrow> same_ident s u"
  by (simp add: same_ident_def)

lemma same_ident_upd [simp]:
  "same_ident s (s\<lparr>sec_Data := d\<rparr>)" "same_ident s (s\<lparr>sec_Type := ty\<rparr>)" "same_ident s (upd_data f s)"
  by (simp_all add: same_ident_def upd_data_def)

definition from_secret :: "K8sSecret \<Rightarrow> err + K8sSecret \<Rightarrow> bool" where
  "from_secret s r \<longleftrightarrow> (\<forall>s'. r = Inr s' \<longrightarrow> same_ident s s')"

lemma from_secret_simps [simp]: "from_secret s (Inl e)" "from_secret s (Inr s') \<longleftrightarrow> same_ident s s'"
  by (simp_all add: from_secret_def)

lemma from_secret_trans: "same_ident s t \<Longrightarrow> from_secret t r \<Longrightarrow> from_secret s r"
  by (auto simp: from_secret_def intro: same_ident_trans)

section \<open>Templates within the Secret\<close>

text \<open>
  Converting a Secret to its unstructured form and back with another \<open>data\<close> changes nothing but
  the data.
\<close>

definition converter_keeps :: "EsEnv \<Rightarrow> bool" where
  "converter_keeps W \<longleftrightarrow> (\<forall>s m d s'. secretToUnstructured W s = Inr m \<longrightarrow>
     secretFromUnstructured W (mput ''data'' d m) s = Inr s' \<longrightarrow> same_ident s s')"

definition plain_targets :: "ExternalSecret \<Rightarrow> bool" where
  "plain_targets es \<longleftrightarrow> (case etg_Template (esp_Target (es_Spec es)) of None \<Rightarrow> True
   | Some tpl \<Rightarrow> list_all (\<lambda>tf. known_target (tf_Target tf)) (et_TemplateFrom tpl))"

definition plain_exec :: "K8sSecret exec \<Rightarrow> bool" where
  "plain_exec execute \<longleftrightarrow> (\<forall>tpl data scope target s. known_target target \<longrightarrow>
     from_secret s (execute tpl data scope target s))"

lemma known_targets [simp]:
  "known_target TemplateTargetData" "known_target TemplateTargetLabels" "known_target TemplateTargetAnnotations"
  by code_simp+

lemma from_secret_case:
  assumes "from_secret s r" and "\<And>t. same_ident s t \<Longrightarrow> from_secret t (f t)"
  shows "from_secret s (case r of Inl e \<Rightarrow> Inl (g e) | Inr t \<Rightarrow> f t)"
  using assms by (cases r) (auto intro: from_secret_trans)

lemma setField_plain:
  assumes "converter_keeps W"
  shows "from_secret s (setField (secret_iface W) s ''data'' k v)"
proof (cases "secretToUnstructured W s")
  case (Inr m)
  with assms have "secretFromUnstructured W (mput ''data'' d m) s = Inr s' \<Longrightarrow> same_ident s s'" for d s'
    by (auto simp: converter_keeps_def)
  with Inr show ?thesis
    by (auto simp: setField_def secret_iface_def split: sum.splits Json.splits)
qed (simp add: setField_def secret_iface_def)

lemma applyToTarget_plain:
  assumes "converter_keeps W" and "known_target target"
  shows "from_secret s (applyToTarget W (secret_iface W) k v target s)"
proof -
  from assms(2) consider "ToLower target = ''annotations''" | "ToLower target = ''labels''"
    | "ToLower target = ''data''"
    by (auto simp: known_target_def)
  then show ?thesis
  proof cases
    case 3
    with setField_plain [OF assms(1)] show ?thesis
      by (simp add: applyToTarget_def from_secret_case)
  qed (simp_all add: applyToTarget_def same_ident_def secret_iface_def Let_def)
qed

lemma apply_entries_plain:
  assumes "converter_keeps W" and "known_target target"
  shows "from_secret s (apply_entries W (secret_iface W) src target s)"
  by (induction src arbitrary: s)
    (auto split: prod.splits intro!: from_secret_case applyToTarget_plain assms)

lemma mapScopeApply_plain:
  assumes "converter_keeps W" and "known_target target"
  shows "from_secret s (mapScopeApply W (secret_iface W) tpl data target s)"
  using assms(2) by (auto simp: mapScopeApply_def apply_entries_plain [OF assms] split: sum.splits)

lemma map_scope_all_plain:
  assumes "converter_keeps W" and "known_target target"
  shows "from_secret s (map_scope_all W (secret_iface W) tpl data target s)"
  by (induction tpl arbitrary: s)
    (auto split: prod.splits intro!: from_secret_case [where g = "\<lambda>e. e"] mapScopeApply_plain assms)

lemma valueScopeApply_plain:
  assumes "converter_keeps W" and "known_target target"
  shows "from_secret s (valueScopeApply W (secret_iface W) tpl data target s)"
proof (induction tpl arbitrary: s)
  case (Cons kv tpl)
  then show ?case
    by (cases kv, cases "renderText W (fst kv) (snd kv) data")
      (auto intro!: from_secret_case applyToTarget_plain assms)
qed simp

lemma template_Execute_plain: "converter_keeps W \<Longrightarrow> plain_exec (template_Execute W (secret_iface W))"
  by (simp add: plain_exec_def template_Execute_def map_scope_all_plain valueScopeApply_plain)

lemma merge_items_plain:
  "plain_exec (pa_Exec p) \<Longrightarrow> known_target target \<Longrightarrow>
   from_secret s (merge_items p kind name target source items s)"
  by (induction items arbitrary: s)
    (auto simp: plain_exec_def split: option.splits intro!: from_secret_case [where g = "\<lambda>e. e"])

definition reads_from :: "K8sSecret \<Rightarrow> (err + K8sSecret) io \<Rightarrow> bool" where
  "reads_from s m \<longleftrightarrow> keeps quiet (from_secret s) m"

lemma reads_from_trans: "same_ident s t \<Longrightarrow> reads_from t m \<Longrightarrow> reads_from s m"
  unfolding reads_from_def by (erule keeps_weaken) (rule from_secret_trans)

lemma reads_MergeConfigMap:
  "plain_exec (pa_Exec p) \<Longrightarrow> known_target (tf_Target tf) \<Longrightarrow> reads_from s (MergeConfigMap E p ns tf s)"
  unfolding reads_from_def MergeConfigMap_def k_defs
  by (intro keeps_intros keeps_bind_performs performs_intros)
    (auto simp: merge_items_plain split: sum.splits)

lemma reads_MergeSecret:
  "plain_exec (pa_Exec p) \<Longrightarrow> known_target (tf_Target tf) \<Longrightarrow> reads_from s (MergeSecret E p ns tf s)"
  unfolding reads_from_def MergeSecret_def k_defs
  by (intro keeps_intros keeps_bind_performs performs_intros)
    (auto simp: merge_items_plain split: sum.splits)

lemma reads_bind:
  assumes "reads_from s m" and "\<And>s'. same_ident s s' \<Longrightarrow> reads_from s' (f (Inr s'))"
    and "\<And>e. reads_from s (f (Inl e))"
  shows "reads_from s (State_Monad.bind m f)"
  unfolding reads_from_def
proof (rule keeps_bind [OF assms(1) [unfolded reads_from_def]])
  fix r assume "from_secret s r"
  then show "keeps quiet (from_secret s) (f r)"
    using assms(2,3) reads_from_trans unfolding reads_from_def by (cases r) auto
qed

lemma reads_ret [simp]: "reads_from s (ret r) \<longleftrightarrow> from_secret s r"
  by (auto simp: reads_from_def keeps_def traces_def)

lemma reads_MergeTemplateFrom:
  assumes "plain_exec (pa_Exec p)"
  shows "list_all (\<lambda>tf. known_target (tf_Target tf)) tfs \<Longrightarrow> reads_from s (MergeTemplateFrom E p ns tfs s)"
proof (induction tfs arbitrary: s)
  case (Cons tf tfs)
  then have k: "known_target (tf_Target tf)" and l: "list_all (\<lambda>tf. known_target (tf_Target tf)) tfs" by simp_all
  have lit: "from_secret t (MergeLiteral p tf t)" for t
    using assms k by (simp add: MergeLiteral_def plain_exec_def split: option.splits)
  show ?case
    unfolding MergeTemplateFrom.simps
    by (rule reads_bind [OF reads_MergeConfigMap [OF assms k]], simp_all,
        rule reads_bind [OF reads_MergeSecret [OF assms k]], simp_all)
      (use lit Cons.IH [OF l] in \<open>auto split: sum.splits simp: from_secret_def intro: reads_from_trans\<close>)
qed simp

lemma MergeMap_plain:
  "plain_exec (pa_Exec p) \<Longrightarrow> known_target target \<Longrightarrow> from_secret s (MergeMap p tpl target s)"
  by (auto simp: MergeMap_def plain_exec_def from_secret_def split: sum.splits)


lemma setMetadata_plain: "from_secret s (setMetadata E s es)"
  by (auto simp: setMetadata_def Let_def from_secret_def same_ident_def upd_meta_def
      split: sum.splits option.splits if_splits)

lemma run_template_plain:
  assumes "plain_exec (pa_Exec p)" and "list_all (\<lambda>tf. known_target (tf_Target tf)) (et_TemplateFrom tpl)"
  shows "reads_from s (run_template W p ns tpl s)"
  unfolding run_template_def
  by (rule reads_bind [OF reads_MergeTemplateFrom [OF assms]])
    (auto intro!: from_secret_case MergeMap_plain assms)

lemma ApplyTemplate_plain:
  assumes "converter_keeps W" and "plain_targets es"
  shows "reads_from s (ApplyTemplate W es s data)"
proof -
  have e: "plain_exec execute" if "secretEngine W v = Inr execute" for v execute
    using that template_Execute_plain [OF assms(1)]
    by (auto simp: secretEngine_def EngineForVersion_def split: if_splits)
  have t: "reads_from s (run_template W p ns tpl s')"
    if "plain_exec (pa_Exec p)" and "etg_Template (esp_Target (es_Spec es)) = Some tpl" and "same_ident s s'"
    for p ns tpl s s'
    by (rule reads_from_trans [OF that(3)], rule run_template_plain)
      (use that assms(2) in \<open>simp_all add: plain_targets_def\<close>)
  show ?thesis
  proof (cases "setMetadata (world W) s es")
    case (Inr s0)
    note meta = Inr
    then have "same_ident s s0" using setMetadata_plain [of s "world W" es] by simp
    then have i: "ident (sec_Meta s0) = ident (sec_Meta s)" "sec_Immutable s0 = sec_Immutable s"
      by (simp_all add: same_ident_def)
    show ?thesis
    proof (cases "etg_Template (esp_Target (es_Spec es))")
      case None
      with Inr i show ?thesis by (simp add: ApplyTemplate_def same_ident_def upd_data_def)
    next
      case (Some tpl)
      show ?thesis
      proof (cases "secretEngine W (et_EngineVersion tpl)")
        case Inl
        with Some Inr show ?thesis by (simp add: ApplyTemplate_def)
      next
        case (Inr execute)
        show ?thesis
          unfolding ApplyTemplate_def Let_def
          by (simp only: meta Some Inr sum.case option.case, intro t)
            (auto simp: e [OF Inr] Some i same_ident_def upd_data_def)
      qed
    qed
  qed (simp add: ApplyTemplate_def)
qed


section \<open>The desired Secret\<close>

text \<open>Owned, as the code sees it, by another ExternalSecret.\<close>

definition foreign :: "ExternalSecret \<Rightarrow> ObjectMeta \<Rightarrow> bool" where
  "foreign es m \<longleftrightarrow> (case GetControllerOf m of None \<Rightarrow> False
     | Some r \<Rightarrow> group_kind r = ExtSecretGroupKind \<and> owr_Name r \<noteq> om_Name (es_Meta es))"

lemma applyOwnership_foreign: "foreign es m \<Longrightarrow> \<exists>e. applyOwnership W es m = Inl e \<and> errors_is e ErrSecretIsOwned"
  by (auto simp: applyOwnership_def foreign_def Let_def ErrSecretIsOwned_def split: option.splits)

definition managed_label :: "ObjectMeta \<Rightarrow> bool" where
  "managed_label m \<longleftrightarrow> mget (om_Labels m) EsLabelManaged = Some EsLabelManagedValue"

definition hashed :: "Env \<Rightarrow> K8sSecret \<Rightarrow> bool" where
  "hashed E s \<longleftrightarrow> mget (om_Annotations (sec_Meta s)) EsAnnotationDataHash = Some (data_hash E (sec_Data s))"

definition mutated :: "EsEnv \<Rightarrow> ExternalSecret \<Rightarrow> K8sSecret \<Rightarrow> K8sSecret \<Rightarrow> bool" where
  "mutated W es s s' \<longleftrightarrow> om_Name (sec_Meta s') = om_Name (sec_Meta s)
     \<and> om_Namespace (sec_Meta s') = om_Namespace (sec_Meta s) \<and> om_UID (sec_Meta s') = om_UID (sec_Meta s)
     \<and> managed_label (sec_Meta s') \<and> hashed (world W) s' \<and> \<not> foreign es (sec_Meta s)"

lemma mutated_same_ident: "same_ident s t \<Longrightarrow> mutated W es t u \<Longrightarrow> mutated W es s u"
  by (auto simp: mutated_def same_ident_def foreign_def GetControllerOf_def dest!: ident_eqD)

lemma mutated_finish:
  assumes "owner_refs_only W" and "applyOwnership W es (sec_Meta s) = Inr m"
  shows "mutated W es s (mark_managed (world W) (s\<lparr>sec_Meta := m\<rparr>))"
proof -
  have "\<not> foreign es (sec_Meta s)" using applyOwnership_foreign [of es "sec_Meta s" W] assms(2) by auto
  with applyOwnership_fields [OF assms] show ?thesis
    by (auto simp: mutated_def managed_label_def hashed_def mark_managed_def upd_meta_def mget_mput
        dest: but_owners_eqD)
qed

definition yields :: "(K8sSecret \<Rightarrow> bool) \<Rightarrow> (err + K8sSecret) io \<Rightarrow> bool" where
  "yields Q m \<longleftrightarrow> keeps quiet (\<lambda>r. \<forall>s. r = Inr s \<longrightarrow> Q s) m"

lemma mutationFunc_yields:
  assumes "owner_refs_only W" and "converter_keeps W" and "plain_targets es"
  shows "yields (mutated W es s) (mutationFunc W es data s)"
proof -
  define s1 where "s1 = (if etg_Immutable (esp_Target (es_Spec es)) then s\<lparr>sec_Immutable := Some True\<rparr> else s)"
  have id: "mutated W es t u \<Longrightarrow> same_ident s1 t \<Longrightarrow> mutated W es s u" for t u
    by (auto simp: s1_def mutated_def same_ident_def foreign_def GetControllerOf_def dest!: ident_eqD split: if_splits)
  have fin: "yields (mutated W es s) (ret (case r of Inl e \<Rightarrow> Inl e
      | Inr t \<Rightarrow> (case applyOwnership W es (sec_Meta t) of Inl e \<Rightarrow> Inl e
          | Inr m \<Rightarrow> Inr (mark_managed (world W) (t\<lparr>sec_Meta := m\<rparr>)))))"
    if "from_secret s1 r" for r
    unfolding yields_def
    by (rule keeps_ret) (use that in \<open>auto split: sum.splits intro!: id [OF mutated_finish [OF assms(1)]]\<close>)
  have "reads_from s1 (ApplyTemplate W es (upd_data f s1) data)" for f
    by (rule reads_from_trans [OF _ ApplyTemplate_plain [OF assms(2,3)]]) simp
  then have body: "reads_from s1 (if om_UID (sec_Meta s1) = [] \<or> \<not> etg_Immutable (esp_Target (es_Spec es)) then
        (case getManagedDataKeys (world W) s1 (om_Name (es_Meta es)) of
           Inl e \<Rightarrow> ret (Inl e)
         | Inr keys \<Rightarrow> do {
             a \<leftarrow> ApplyTemplate W es (upd_data (delete_keys keys) s1) data;
             ret (case a of Inl e \<Rightarrow> Inl (ErrWrap ''could not apply template'' e) | Inr s \<Rightarrow> Inr s)
           })
      else ret (Inr s1))"
    unfolding reads_from_def
    by (intro keeps_intros) (auto intro!: keeps_bind keeps_ret split: sum.splits)
  show ?thesis
    unfolding mutationFunc_def Let_def s1_def [symmetric] yields_def
    by (rule keeps_bind [OF body [unfolded reads_from_def]]) (use fin in \<open>simp add: yields_def\<close>)
qed

end
