(* ===== verification/Es_Generic.thy ===== *)
theory Es_Generic
  imports Es_Target Es_Data
begin

text \<open>
  Generic targets, \<open>externalsecret_controller_manifest.go\<close> and the parts of the controller that deal
  with them: instead of a Secret the ExternalSecret writes a ConfigMap or a custom resource, an
  unstructured object.  A failed type assertion is \<open>GoPanic\<close>.
\<close>

section \<open>The target\<close>

definition parse_gv :: "string \<Rightarrow> string \<times> string" where
  "parse_gv apiVersion = (case split_on (CHR ''/'') apiVersion of
     [v] \<Rightarrow> ([], v) | [g, v] \<Rightarrow> (g, v) | _ \<Rightarrow> ([], []))"

definition getTargetGVK :: "ManifestReference \<Rightarrow> GroupVersionKind" where
  "getTargetGVK manifest =
     \<lparr>gvk_Group = fst (parse_gv (mr_APIVersion manifest)),
      gvk_Version = snd (parse_gv (mr_APIVersion manifest)), gvk_Kind = mr_Kind manifest\<rparr>"

definition validateGenericTarget :: "EsReconciler \<Rightarrow> ManifestReference \<Rightarrow> err option" where
  "validateGenericTarget R manifest =
     (if \<not> rcl_AllowGenericTargets R then
        Some (ErrMsg ''generic targets are disabled. Enable with --unsafe-allow-generic-targets flag'')
      else if mr_APIVersion manifest = [] then Some (ErrMsg ''target.manifest.apiVersion is required'')
      else if mr_Kind manifest = [] then Some (ErrMsg ''target.manifest.kind is required'')
      else None)"

definition non_nil :: "Json gomap \<Rightarrow> string \<Rightarrow> Json option" where
  "non_nil content key = (case mget content key of None \<Rightarrow> None | Some JNull \<Rightarrow> None | Some j \<Rightarrow> Some j)"

definition genericTargetContentHash :: "EsEnv \<Rightarrow> Manifest \<Rightarrow> err + string" where
  "genericTargetContentHash W obj = (case non_nil (man_Fields obj) ''spec'' of
     Some spec \<Rightarrow> Inr (ObjectHash (world W) (printAny W spec))
   | None \<Rightarrow> (case non_nil (man_Fields obj) ''data'' of
       Some data \<Rightarrow> Inr (ObjectHash (world W) (printAny W data))
     | None \<Rightarrow> Inl (ErrMsg ''generic target content does not have a spec or data field for content hashing'')))"

definition isGenericTargetValid :: "EsEnv \<Rightarrow> Manifest option \<Rightarrow> ExternalSecret \<Rightarrow> err + bool" where
  "isGenericTargetValid W existingTarget es =
     (if etg_CreationPolicy (esp_Target (es_Spec es)) = CreatePolicyOrphan then Inr True
      else (case existingTarget of
          None \<Rightarrow> Inr False
        | Some m \<Rightarrow>
            if om_UID (man_Meta m) = [] then Inr False
            else if mget_str (om_Labels (man_Meta m)) EsLabelManaged \<noteq> EsLabelManagedValue then Inr False
            else (case genericTargetContentHash W m of
                Inl e \<Rightarrow> Inl (ErrWrap ''failed to hash target'' e)
              | Inr hash \<Rightarrow> Inr (mget_str (om_Annotations (man_Meta m)) EsAnnotationDataHash = hash))))"

section \<open>Reading and writing\<close>

definition getGenericResource ::
  "EsEnv \<Rightarrow> ManifestReference \<Rightarrow> ExternalSecret \<Rightarrow> (err + Manifest) io" where
  "getGenericResource W manifest es = do {
     r \<leftarrow> es_get_manifest W (getTargetGVK manifest) (om_Namespace (es_Meta es)) (target_name es);
     ret (case r of
       Inl e \<Rightarrow> if is_not_found e then Inl e else Inl (ErrWrap ''failed to get target resource'' e)
     | Inr resource \<Rightarrow> Inr resource)
   }"

definition createGenericResource ::
  "EsEnv \<Rightarrow> ManifestReference \<Rightarrow> ExternalSecret \<Rightarrow> Manifest \<Rightarrow> err option io" where
  "createGenericResource W manifest es obj = do {
     r \<leftarrow> es_get_manifest W (getTargetGVK manifest) (om_Namespace (es_Meta es)) (target_name es);
     case r of
       Inl e \<Rightarrow>
         if \<not> is_not_found e then ret (Some (ErrWrap ''failed to check if target resource exists'' e))
         else do {
           w \<leftarrow> es_write W (CCreate (OManifest obj));
           case w of
             Some e' \<Rightarrow> ret (Some (ErrWrap ''failed to create target resource'' e'))
           | None \<Rightarrow> do {
               _ \<leftarrow> k_event ''Normal'' ''Created'' (''Created '' @ mr_Kind manifest @ '' '' @ target_name es);
               ret None
             }
         }
     | Inr _ \<Rightarrow> ret (Some (ErrMsg (''target resource with name '' @ target_name es @ '' already exists'')))
   }"

definition updateGenericResource ::
  "EsEnv \<Rightarrow> ManifestReference \<Rightarrow> ExternalSecret \<Rightarrow> Manifest \<Rightarrow> err option io" where
  "updateGenericResource W manifest es existing = do {
     w \<leftarrow> es_write W (CUpdate (OManifest existing));
     case w of
       Some e \<Rightarrow> ret (Some (ErrWrap ''failed to update target resource'' e))
     | None \<Rightarrow> do {
         _ \<leftarrow> k_event ''Normal'' ''Updated'' (''Updated '' @ mr_Kind manifest @ '' '' @ target_name es);
         ret None
       }
   }"

definition deleteGenericResource :: "EsEnv \<Rightarrow> EsReconciler \<Rightarrow> ExternalSecret \<Rightarrow> err option io" where
  "deleteGenericResource W R es = (case etg_Manifest (esp_Target (es_Spec es)) of
     None \<Rightarrow> ret None
   | Some manifest \<Rightarrow>
       if \<not> rcl_AllowGenericTargets R then ret None
       else do {
         w \<leftarrow> es_write W (CDelete (OManifest \<lparr>man_GVK = getTargetGVK manifest,
               man_Meta = empty_meta\<lparr>om_Namespace := om_Namespace (es_Meta es), om_Name := target_name es\<rparr>,
               man_Fields = []\<rparr>));
         case delete_error w of
           Some e \<Rightarrow> ret (Some (ErrWrap ''failed to delete target resource'' e))
         | None \<Rightarrow> do {
             _ \<leftarrow> k_event ''Normal'' ''Deleted'' (''Deleted '' @ mr_Kind manifest @ '' '' @ target_name es);
             ret None
           }
       })"

section \<open>Rendering\<close>

definition json_strings :: "bytes gomap \<Rightarrow> Json" where
  "json_strings dataMap = JObj (map (\<lambda>(k, v). (k, JStr v)) dataMap)"

definition put_field :: "string \<Rightarrow> Json \<Rightarrow> Manifest \<Rightarrow> Manifest" where
  "put_field key j obj = obj\<lparr>man_Fields := mput key j (man_Fields obj)\<rparr>"

definition createSimpleManifest :: "Manifest \<Rightarrow> bytes gomap \<Rightarrow> Manifest guarded" where
  "createSimpleManifest obj dataMap =
     (if gvk_Kind (man_GVK obj) = ''ConfigMap'' then GoRet (put_field ''data'' (json_strings dataMap) obj)
      else (case (case non_nil (man_Fields obj) ''spec'' of None \<Rightarrow> JObj [] | Some j \<Rightarrow> j) of
          JObj spec \<Rightarrow> GoRet (put_field ''spec'' (JObj (mput ''data'' (json_strings dataMap) spec)) obj)
        | _ \<Rightarrow> GoPanic))"

definition engines :: "EsEnv \<Rightarrow> string \<Rightarrow> err + (K8sSecret exec \<times> Manifest exec)" where
  "engines W version = (case manifestEngine W version of
     Inl e \<Rightarrow> Inl e
   | Inr m \<Rightarrow> (case secretEngine W version of Inl e \<Rightarrow> Inl e | Inr s \<Rightarrow> Inr (s, m)))"

text \<open>One element of \<open>templateFrom\<close>: the literal first, then what a ConfigMap and a Secret hold.\<close>

definition render_collected ::
  "EsEnv \<Rightarrow> Parser \<Rightarrow> Manifest exec \<Rightarrow> string \<Rightarrow> TemplateFrom \<Rightarrow> string \<Rightarrow> Manifest \<Rightarrow> (err + Manifest) io" where
  "render_collected W p execute namespace tplFrom targetPath obj =
     (if tf_ConfigMap tplFrom = None \<and> tf_Secret tplFrom = None then ret (Inr obj)
      else do {
        c \<leftarrow> MergeConfigMap (world W) p namespace tplFrom no_secret;
        case c of
          Inl e \<Rightarrow> ret (Inl (ErrWrap ''failed to merge configmap template'' e))
        | Inr s1 \<Rightarrow> do {
            s \<leftarrow> MergeSecret (world W) p namespace tplFrom s1;
            ret (case s of
              Inl e \<Rightarrow> Inl (ErrWrap ''failed to merge secret template'' e)
            | Inr s2 \<Rightarrow> (case execute (sec_Data s2) (pa_DataMap p) TemplateScopeValues targetPath obj of
                Inl e \<Rightarrow> Inl (ErrWrap (''failed to apply merged templates to path '' @ targetPath) e)
              | Inr obj' \<Rightarrow> Inr obj'))
          }
      })"

definition render_from ::
  "EsEnv \<Rightarrow> Parser \<Rightarrow> Manifest exec \<Rightarrow> string \<Rightarrow> TemplateFrom \<Rightarrow> Manifest \<Rightarrow> (err + Manifest) io" where
  "render_from W p execute namespace tplFrom obj =
     (let targetPath = (if tf_Target tplFrom = [] then TemplateTargetData else tf_Target tplFrom) in
      case (case tf_Literal tplFrom of
              None \<Rightarrow> Inr obj
            | Some literal \<Rightarrow> execute [(literal, literal)] (pa_DataMap p) TemplateScopeKeysAndValues targetPath obj) of
        Inl e \<Rightarrow> ret (Inl (ErrWrap ''failed to execute literal template'' e))
      | Inr obj1 \<Rightarrow> render_collected W p execute namespace tplFrom targetPath obj1)"

definition renderTemplatedManifest ::
  "EsEnv \<Rightarrow> ExternalSecret \<Rightarrow> EsTemplate \<Rightarrow> Manifest \<Rightarrow> bytes gomap \<Rightarrow> (err + Manifest) io" where
  "renderTemplatedManifest W es tpl obj dataMap = (case engines W (et_EngineVersion tpl) of
     Inl e \<Rightarrow> ret (Inl (ErrWrap ''failed to get template engine'' e))
   | Inr (secretExec, execute) \<Rightarrow>
       (let p = \<lparr>pa_Exec = secretExec, pa_DataMap = dataMap, pa_TemplateFromConfigMap = None,
                 pa_TemplateFromSecret = None\<rparr> in
        do {
          r \<leftarrow> fold_io (render_from W p execute (om_Namespace (es_Meta es))) (et_TemplateFrom tpl) obj;
          ret (case r of
            Inl e \<Rightarrow> Inl e
          | Inr obj1 \<Rightarrow>
              if length (et_Data tpl) > 0 then
                (case execute (et_Data tpl) dataMap TemplateScopeValues TemplateTargetData obj1 of
                   Inl e \<Rightarrow> Inl (ErrWrap ''failed to execute template.data'' e)
                 | Inr obj2 \<Rightarrow> Inr obj2)
              else Inr obj1)
        }))"

definition new_manifest :: "ManifestReference \<Rightarrow> ExternalSecret \<Rightarrow> Manifest" where
  "new_manifest manifest es =
     \<lparr>man_GVK = getTargetGVK manifest,
      man_Meta = empty_meta\<lparr>om_Name := target_name es, om_Namespace := om_Namespace (es_Meta es)\<rparr>,
      man_Fields = (if mr_Kind manifest = ''ConfigMap'' \<or> mr_Kind manifest = ''Secret''
        then [(''data'', JObj [])] else [(''spec'', JObj [])])\<rparr>"

definition label_manifest :: "ExternalSecret \<Rightarrow> Manifest \<Rightarrow> Manifest" where
  "label_manifest es obj =
     (let (srcLabels, srcAnnotations) = (case etg_Template (esp_Target (es_Spec es)) of
            None \<Rightarrow> (om_Labels (es_Meta es), om_Annotations (es_Meta es))
          | Some tpl \<Rightarrow> (etm_Labels (et_Metadata tpl), etm_Annotations (et_Metadata tpl))) in
      obj\<lparr>man_Meta := (man_Meta obj)\<lparr>
        om_Labels := mput EsLabelManaged EsLabelManagedValue (mcopy (om_Labels (man_Meta obj)) srcLabels),
        om_Annotations := mcopy (om_Annotations (man_Meta obj)) srcAnnotations\<rparr>\<rparr>)"

text \<open>After rendering: the hash annotation, then the ownership.\<close>

definition finish_manifest :: "EsEnv \<Rightarrow> ExternalSecret \<Rightarrow> Manifest \<Rightarrow> err + Manifest" where
  "finish_manifest W es result = (case genericTargetContentHash W result of
     Inl e \<Rightarrow> Inl (ErrWrap (''failed to hash target '' @ go_quote (etg_Name (esp_Target (es_Spec es)))
                @ '' content'') e)
   | Inr hash \<Rightarrow>
       (case applyOwnership W es ((man_Meta result)\<lparr>om_Annotations :=
                mput EsAnnotationDataHash hash (om_Annotations (man_Meta result))\<rparr>) of
          Inl e \<Rightarrow> Inl e
        | Inr m \<Rightarrow> Inr (result\<lparr>man_Meta := m\<rparr>)))"

definition applyTemplateToManifest ::
  "EsEnv \<Rightarrow> ManifestReference \<Rightarrow> ExternalSecret \<Rightarrow> bytes gomap \<Rightarrow> Manifest option
   \<Rightarrow> (err + Manifest) guarded io" where
  "applyTemplateToManifest W manifest es dataMap existingObj =
     (let obj = label_manifest es (case existingObj of
            Some obj \<Rightarrow> obj | None \<Rightarrow> new_manifest manifest es) in
      case etg_Template (esp_Target (es_Spec es)) of
        None \<Rightarrow> ret (case createSimpleManifest obj dataMap of
            GoPanic \<Rightarrow> GoPanic | GoRet result \<Rightarrow> GoRet (finish_manifest W es result))
      | Some tpl \<Rightarrow> do {
          r \<leftarrow> renderTemplatedManifest W es tpl obj dataMap;
          ret (GoRet (case r of Inl e \<Rightarrow> Inl e | Inr result \<Rightarrow> finish_manifest W es result))
        })"

end
