(* ===== verification/Es_Controller.thy ===== *)
theory Es_Controller
  imports Es_Generic
begin

text \<open>
  The reconciler of ExternalSecret, \<open>externalsecret_controller.go\<close>, split at its early returns.
  The status is written by a deferred function, which the named results of the code let change the
  outcome: \<open>with_secret_status\<close> and \<open>with_generic_status\<close> are the two deferred functions.  The parts
  they enclose return the resource as it is in memory when they end.
\<close>

definition ExternalSecretFinalizer :: string where
  "ExternalSecretFinalizer = ''externalsecrets.external-secrets.io/externalsecret-cleanup''"

definition cacheSyncRetryDelay :: duration where
  "cacheSyncRetryDelay = 200000000"

section \<open>Deletion\<close>

definition cleanupManagedSecrets :: "EsEnv \<Rightarrow> EsReconciler \<Rightarrow> ExternalSecret \<Rightarrow> err option io" where
  "cleanupManagedSecrets W R es =
     (if etg_DeletionPolicy (esp_Target (es_Spec es)) \<noteq> DeletionPolicyDelete then ret None
      else if isGenericTarget es then deleteGenericResource W R es
      else do {
        r \<leftarrow> k_get_secret (world W) (om_Namespace (es_Meta es)) (target_name es);
        case r of
          Inl e \<Rightarrow> ret (if is_not_found e then None else Some e)
        | Inr secret \<Rightarrow>
            if IsControlledBy (sec_Meta secret) (es_Meta es) then do {
              w \<leftarrow> es_write W (CDelete (OSecret secret));
              ret (delete_error w)
            } else ret None
      })"

definition es_removeFinalizer :: "ExternalSecret \<Rightarrow> ExternalSecret" where
  "es_removeFinalizer es = es\<lparr>es_Meta := (es_Meta es)\<lparr>
     om_Finalizers := filter (\<lambda>f. f \<noteq> ExternalSecretFinalizer) (om_Finalizers (es_Meta es))\<rparr>\<rparr>"

definition es_addFinalizer :: "ExternalSecret \<Rightarrow> ExternalSecret" where
  "es_addFinalizer es = es\<lparr>es_Meta := (es_Meta es)\<lparr>
     om_Finalizers := om_Finalizers (es_Meta es) @ [ExternalSecretFinalizer]\<rparr>\<rparr>"

definition releaseInformer :: "EsEnv \<Rightarrow> EsReconciler \<Rightarrow> ExternalSecret \<Rightarrow> unit io" where
  "releaseInformer W R es = (case etg_Manifest (esp_Target (es_Spec es)) of
     None \<Rightarrow> ret ()
   | Some manifest \<Rightarrow>
       if rcl_AllowGenericTargets R then do {
         _ \<leftarrow> es_informer W ''release'' (getTargetGVK manifest) es;
         ret ()
       } else ret ())"

definition reconcileDeleted :: "EsEnv \<Rightarrow> EsReconciler \<Rightarrow> ExternalSecret \<Rightarrow> outcome io" where
  "reconcileDeleted W R es = do {
     c \<leftarrow> cleanupManagedSecrets W R es;
     case c of
       Some e \<Rightarrow> ret (no_requeue, Some e)
     | None \<Rightarrow> do {
         _ \<leftarrow> releaseInformer W R es;
         if ExternalSecretFinalizer \<in> set (om_Finalizers (es_Meta es)) then do {
           (w, _) \<leftarrow> es_write_es W CPatch (es_removeFinalizer es);
           ret (no_requeue, w)
         } else ret (no_requeue, None)
       }
   }"

section \<open>Reports\<close>

definition es_done ::
  "EsEnv \<Rightarrow> EsReconciler \<Rightarrow> ExternalSecret \<Rightarrow> instant \<Rightarrow> string \<Rightarrow> string
   \<Rightarrow> (outcome \<times> ExternalSecret) io" where
  "es_done W R es start reason msg = do {
     es' \<leftarrow> es_markAsDone W es start reason msg;
     t \<leftarrow> es_now W;
     ret ((getRequeueResult R t es', None), es')
   }"

definition es_failed ::
  "EsEnv \<Rightarrow> ExternalSecret \<Rightarrow> string \<Rightarrow> err \<Rightarrow> string \<Rightarrow> err option \<Rightarrow> (outcome \<times> ExternalSecret) io" where
  "es_failed W es msg e reason returned = do {
     es' \<leftarrow> es_markAsFailed W msg e es reason;
     ret ((no_requeue, returned), es')
   }"

section \<open>A Secret as target\<close>

definition es_failSecret ::
  "EsEnv \<Rightarrow> ExternalSecret \<Rightarrow> string \<Rightarrow> err \<Rightarrow> err option \<Rightarrow> (outcome \<times> ExternalSecret) io" where
  "es_failSecret W es msg e returned = es_failed W es msg e ''SecretSyncedError'' returned"

text \<open>What is made of the error of the creation policies.\<close>

definition report_write ::
  "EsEnv \<Rightarrow> EsReconciler \<Rightarrow> instant \<Rightarrow> err option \<Rightarrow> ExternalSecret \<Rightarrow> (outcome \<times> ExternalSecret) io" where
  "report_write W R start r es = (case r of
     None \<Rightarrow> es_done W R es start ''SecretSynced'' ''secret synced''
   | Some e \<Rightarrow>
       if is_conflict e then ret ((requeue_now, None), es)
       else if errors_is e ErrSecretSetCtrlRef then
         es_failSecret W es ''failed to take ownership of target secret'' e None
       else if errors_is e ErrSecretIsOwned then
         es_failSecret W es ''target is owned by another ExternalSecret'' e None
       else if errors_is e ErrSecretImmutable then
         es_failSecret W es ''could not update secret, target is immutable'' e None
       else es_failSecret W es ''could not update secret'' e (Some e))"

definition create_or_update ::
  "EsEnv \<Rightarrow> ExternalSecret \<Rightarrow> K8sSecret \<Rightarrow> string \<Rightarrow> bytes gomap \<Rightarrow> (err option \<times> ExternalSecret) io" where
  "create_or_update W es existingSecret secretName dataMap =
     (if om_UID (sec_Meta existingSecret) = [] then
        createSecret W (mutationFunc W es dataMap) es secretName
      else updateSecret W existingSecret (mutationFunc W es dataMap) es secretName)"

definition applyPolicy ::
  "EsEnv \<Rightarrow> EsReconciler \<Rightarrow> ExternalSecret \<Rightarrow> instant \<Rightarrow> K8sSecret \<Rightarrow> string \<Rightarrow> bytes gomap
   \<Rightarrow> (outcome \<times> ExternalSecret) io" where
  "applyPolicy W R es start existingSecret secretName dataMap =
     (let policy = etg_CreationPolicy (esp_Target (es_Spec es)) in
      if policy = CreatePolicyMerge then
        (if om_UID (sec_Meta existingSecret) \<noteq> [] then do {
           (r, es') \<leftarrow> updateSecret W existingSecret (mutationFunc W es dataMap) es secretName;
           report_write W R start r es'
         } else es_done W R es start ''SecretMissing'' ''secret will not be created due to CreationPolicy=Merge'')
      else if policy = CreatePolicyOrphan then do {
        (r, es') \<leftarrow> create_or_update W es existingSecret secretName dataMap;
        report_write W R start r es'
      } else if policy = CreatePolicyOwner then do {
        d \<leftarrow> deleteOrphanedSecrets W es secretName;
        case d of
          Some e \<Rightarrow> es_failSecret W es ''could not delete orphaned secrets'' e (Some e)
        | None \<Rightarrow> do {
            (r, es') \<leftarrow> create_or_update W es existingSecret secretName dataMap;
            report_write W R start r es'
          }
      } else report_write W R start None es)"

definition deleteTarget ::
  "EsEnv \<Rightarrow> EsReconciler \<Rightarrow> ExternalSecret \<Rightarrow> instant \<Rightarrow> K8sSecret \<Rightarrow> string
   \<Rightarrow> (outcome \<times> ExternalSecret) io" where
  "deleteTarget W R es start existingSecret secretName =
     (let creationPolicy = etg_CreationPolicy (esp_Target (es_Spec es));
          finish = es_done W R es start ''SecretDeleted'' ''secret deleted due to DeletionPolicy=Delete'' in
      if creationPolicy \<noteq> CreatePolicyOwner then
        es_failSecret W es ''could not delete secret'' (ErrMsg (''unable to delete secret '' @ secretName
          @ '': creationPolicy='' @ creationPolicy @ '' is not Owner'')) None
      else if om_UID (sec_Meta existingSecret) \<noteq> [] then do {
        w \<leftarrow> es_write W (CDelete (OSecret existingSecret));
        case delete_error w of
          Some e \<Rightarrow> es_failSecret W es ''could not delete secret'' e (Some e)
        | None \<Rightarrow> do {
            _ \<leftarrow> k_event ''Normal'' ''Deleted'' ''secret deleted due to DeletionPolicy=Delete'';
            finish
          }
      } else finish)"

definition syncTarget ::
  "EsEnv \<Rightarrow> EsReconciler \<Rightarrow> ExternalSecret \<Rightarrow> instant \<Rightarrow> K8sSecret \<Rightarrow> string
   \<Rightarrow> (outcome \<times> ExternalSecret) io" where
  "syncTarget W R es start existingSecret secretName = do {
     d \<leftarrow> GetProviderSecretData W R es;
     case d of
       Inl e \<Rightarrow> es_failSecret W es ''could not get secret data from provider'' e (Some e)
     | Inr dataMap \<Rightarrow>
         if length dataMap = 0 \<and> etg_DeletionPolicy (esp_Target (es_Spec es)) = DeletionPolicyDelete then
           deleteTarget W R es start existingSecret secretName
         else if length dataMap = 0 \<and> etg_DeletionPolicy (esp_Target (es_Spec es)) = DeletionPolicyRetain then
           es_done W R es start ''SecretSynced'' ''secret retained due to DeletionPolicy=Retain''
         else applyPolicy W R es start existingSecret secretName dataMap
   }"

definition with_secret_status ::
  "EsEnv \<Rightarrow> ExternalSecret \<Rightarrow> (outcome \<times> ExternalSecret) io \<Rightarrow> outcome io" where
  "with_secret_status W es body = do {
     ((result, e), es') \<leftarrow> body;
     if es_Status es' = es_Status es then ret (result, e)
     else do {
       w \<leftarrow> es_write W (CStatusUpdate (OES es'));
       ret (case w of
         None \<Rightarrow> (result, e)
       | Some updateErr \<Rightarrow>
           if is_conflict updateErr then (if e = None then (requeue_now, None) else (result, e))
           else if e = None then (result, Some updateErr) else (result, e))
     }
   }"

definition label_partial ::
  "EsEnv \<Rightarrow> ExternalSecret \<Rightarrow> ObjectMeta \<Rightarrow> outcome io" where
  "label_partial W es secretPartial = do {
     w \<leftarrow> es_write W (CAs (fqdnFor (world W) (om_Name (es_Meta es))) (CPatch (OSecretMeta
           (secretPartial\<lparr>om_Labels := mput EsLabelManaged EsLabelManagedValue (om_Labels secretPartial)\<rparr>))));
     ret (case w of Some e \<Rightarrow> (no_requeue, Some e) | None \<Rightarrow> (requeue_now, None))
   }"

definition refreshSecret ::
  "EsEnv \<Rightarrow> EsReconciler \<Rightarrow> ExternalSecret \<Rightarrow> instant \<Rightarrow> K8sSecret \<Rightarrow> outcome guarded io" where
  "refreshSecret W R es start existingSecret = do {
     t \<leftarrow> es_now W;
     case es_shouldRefresh (world W) t es of
       GoPanic \<Rightarrow> ret GoPanic
     | GoRet refresh \<Rightarrow>
         if \<not> refresh \<and> isSecretValid (world W) existingSecret es then do {
           t' \<leftarrow> es_now W;
           ret (GoRet (getRequeueResult R t' es, None))
         } else do {
           r \<leftarrow> with_secret_status W es (syncTarget W R es start existingSecret (target_name es));
           ret (GoRet r)
         }
   }"

definition reconcileSecret ::
  "EsEnv \<Rightarrow> EsReconciler \<Rightarrow> ExternalSecret \<Rightarrow> instant \<Rightarrow> outcome guarded io" where
  "reconcileSecret W R es start =
     (let ns = om_Namespace (es_Meta es); secretName = target_name es in
      do {
        p \<leftarrow> es_get_meta W ns secretName;
        case (case p of Inl e \<Rightarrow> if is_not_found e then Inr empty_meta else Inl e | Inr m \<Rightarrow> Inr m) of
          Inl e \<Rightarrow> ret (GoRet (no_requeue, Some e))
        | Inr secretPartial \<Rightarrow>
            if om_UID secretPartial \<noteq> []
               \<and> mget_str (om_Labels secretPartial) EsLabelManaged \<noteq> EsLabelManagedValue then do {
              r \<leftarrow> label_partial W es secretPartial;
              ret (GoRet r)
            } else do {
              x \<leftarrow> es_get_managed W ns secretName;
              case (case x of Inl e \<Rightarrow> if is_not_found e then Inr no_secret else Inl e | Inr s \<Rightarrow> Inr s) of
                Inl e \<Rightarrow> ret (GoRet (no_requeue, Some e))
              | Inr cached \<Rightarrow> do {
                  v \<leftarrow> resolveSecretCacheMismatch W R ns secretName secretPartial cached;
                  case v of
                    ReadError e \<Rightarrow> ret (GoRet (no_requeue, Some e))
                  | NotSynced \<Rightarrow> ret (GoRet (requeue_after cacheSyncRetryDelay, None))
                  | Synced existingSecret \<Rightarrow> refreshSecret W R es start existingSecret
                }
            }
      })"

section \<open>A generic target\<close>

definition es_failResource ::
  "EsEnv \<Rightarrow> ExternalSecret \<Rightarrow> string \<Rightarrow> err \<Rightarrow> err option \<Rightarrow> (outcome \<times> ExternalSecret) io" where
  "es_failResource W es msg e returned = es_failed W es msg e ''ResourceSyncedError'' returned"

definition ensureInformer :: "EsEnv \<Rightarrow> ManifestReference \<Rightarrow> ExternalSecret \<Rightarrow> unit io" where
  "ensureInformer W manifest es =
     (if etg_CreationPolicy (esp_Target (es_Spec es)) \<noteq> CreatePolicyNone then do {
        _ \<leftarrow> es_informer W ''ensure'' (getTargetGVK manifest) es;
        ret ()
      } else ret ())"

definition report_resource ::
  "EsEnv \<Rightarrow> EsReconciler \<Rightarrow> ManifestReference \<Rightarrow> ExternalSecret \<Rightarrow> instant \<Rightarrow> err option
   \<Rightarrow> (outcome \<times> ExternalSecret) io" where
  "report_resource W R manifest es start r = (case r of
     Some e \<Rightarrow>
       if is_conflict e then ret ((requeue_after second, None), es)
       else es_failResource W es ''could not update secret'' e (Some e)
   | None \<Rightarrow> do {
       _ \<leftarrow> ensureInformer W manifest es;
       es_done W R es start ''ResourceSynced'' ''secret synced''
     })"

definition adopt_version :: "Manifest \<Rightarrow> Manifest \<Rightarrow> Manifest" where
  "adopt_version existing obj = obj\<lparr>man_Meta := (man_Meta obj)\<lparr>
     om_ResourceVersion := om_ResourceVersion (man_Meta existing), om_UID := om_UID (man_Meta existing)\<rparr>\<rparr>"

definition applyGenericPolicy ::
  "EsEnv \<Rightarrow> EsReconciler \<Rightarrow> ManifestReference \<Rightarrow> ExternalSecret \<Rightarrow> instant \<Rightarrow> Manifest option \<Rightarrow> Manifest
   \<Rightarrow> (outcome \<times> ExternalSecret) io" where
  "applyGenericPolicy W R manifest es start existing obj =
     (let policy = etg_CreationPolicy (esp_Target (es_Spec es)) in
      if policy = CreatePolicyMerge then (case existing of
          None \<Rightarrow> es_done W R es start ''ResourceMissing'' ''resource will not be created due to CreationPolicy=Merge''
        | Some ex \<Rightarrow>
            if om_UID (man_Meta ex) = [] then
              es_done W R es start ''ResourceMissing'' ''resource will not be created due to CreationPolicy=Merge''
            else do {
              r \<leftarrow> updateGenericResource W manifest es (adopt_version ex obj);
              report_resource W R manifest es start r
            })
      else if policy = CreatePolicyOrphan \<or> policy = CreatePolicyOwner then do {
        r \<leftarrow> (case existing of
            Some ex \<Rightarrow> updateGenericResource W manifest es (adopt_version ex obj)
          | None \<Rightarrow> createGenericResource W manifest es obj);
        report_resource W R manifest es start r
      } else report_resource W R manifest es start None)"

definition deleteGenericTarget ::
  "EsEnv \<Rightarrow> EsReconciler \<Rightarrow> ExternalSecret \<Rightarrow> instant \<Rightarrow> (outcome \<times> ExternalSecret) io" where
  "deleteGenericTarget W R es start =
     (let creationPolicy = etg_CreationPolicy (esp_Target (es_Spec es)) in
      if creationPolicy \<noteq> CreatePolicyOwner then
        es_failResource W es ''could not delete resource'' (ErrMsg (''unable to delete resource: creationPolicy=''
          @ creationPolicy @ '' is not Owner'')) None
      else do {
        r \<leftarrow> deleteGenericResource W R es;
        case r of
          Some e \<Rightarrow> es_failResource W es ''could not delete resource'' e (Some e)
        | None \<Rightarrow> es_done W R es start ''ResourceDeleted'' ''secret deleted due to DeletionPolicy=Delete''
      })"

definition syncGeneric ::
  "EsEnv \<Rightarrow> EsReconciler \<Rightarrow> ManifestReference \<Rightarrow> ExternalSecret \<Rightarrow> instant \<Rightarrow> Manifest option
   \<Rightarrow> (outcome guarded \<times> ExternalSecret) io" where
  "syncGeneric W R manifest es start existing = do {
     d \<leftarrow> GetProviderSecretData W R es;
     let plain = (\<lambda>m. do { (r, es') \<leftarrow> m; ret (GoRet r, es') });
     case d of
       Inl e \<Rightarrow> plain (es_failResource W es ''could not get secret data from provider'' e (Some e))
     | Inr dataMap \<Rightarrow>
         if length dataMap = 0 \<and> etg_DeletionPolicy (esp_Target (es_Spec es)) = DeletionPolicyDelete then
           plain (deleteGenericTarget W R es start)
         else if length dataMap = 0 \<and> etg_DeletionPolicy (esp_Target (es_Spec es)) = DeletionPolicyRetain then
           plain (es_done W R es start ''ResourceSynced'' ''secret retained due to DeletionPolicy=Retain'')
         else do {
           mo \<leftarrow> applyTemplateToManifest W manifest es dataMap
                 (if etg_CreationPolicy (esp_Target (es_Spec es)) = CreatePolicyMerge then existing else None);
           case mo of
             GoPanic \<Rightarrow> ret (GoPanic, es)
           | GoRet (Inl e) \<Rightarrow> plain (es_failResource W es ''could not apply template to manifest'' e (Some e))
           | GoRet (Inr obj) \<Rightarrow> plain (applyGenericPolicy W R manifest es start existing obj)
         }
   }"

definition refreshGeneric ::
  "EsEnv \<Rightarrow> EsReconciler \<Rightarrow> ManifestReference \<Rightarrow> ExternalSecret \<Rightarrow> instant \<Rightarrow> Manifest option
   \<Rightarrow> (outcome guarded \<times> ExternalSecret) io" where
  "refreshGeneric W R manifest es start existing = (case isGenericTargetValid W existing es of
     Inl e \<Rightarrow> ret (GoRet (no_requeue, Some e), es)
   | Inr valid \<Rightarrow> do {
       t \<leftarrow> es_now W;
       case es_shouldRefresh (world W) t es of
         GoPanic \<Rightarrow> ret (GoPanic, es)
       | GoRet refresh \<Rightarrow>
           if \<not> refresh \<and> valid then do {
             t' \<leftarrow> es_now W;
             ret (GoRet (getRequeueResult R t' es, None), es)
           } else syncGeneric W R manifest es start existing
     })"

definition reconcileGenericTarget ::
  "EsEnv \<Rightarrow> EsReconciler \<Rightarrow> ManifestReference \<Rightarrow> ExternalSecret \<Rightarrow> instant
   \<Rightarrow> (outcome guarded \<times> ExternalSecret) io" where
  "reconcileGenericTarget W R manifest es start =
     (let policy = etg_CreationPolicy (esp_Target (es_Spec es)) in
      if policy = CreatePolicyMerge \<or> policy = CreatePolicyOrphan \<or> policy = CreatePolicyOwner then do {
        r \<leftarrow> getGenericResource W manifest es;
        case r of
          Inl e \<Rightarrow>
            if is_not_found e then refreshGeneric W R manifest es start None
            else do {
              (q, es') \<leftarrow> es_failResource W es ''could not get target resource'' e (Some e);
              ret (GoRet q, es')
            }
        | Inr existing \<Rightarrow> refreshGeneric W R manifest es start (Some existing)
      } else refreshGeneric W R manifest es start None)"

text \<open>The deferred status update of the generic path drops its error; it also runs on a panic.\<close>

definition with_generic_status ::
  "EsEnv \<Rightarrow> ExternalSecret \<Rightarrow> (outcome guarded \<times> ExternalSecret) io \<Rightarrow> outcome guarded io" where
  "with_generic_status W es body = do {
     (r, es') \<leftarrow> body;
     if es_Status es' = es_Status es then ret r
     else do {
       _ \<leftarrow> es_write W (CStatusUpdate (OES es'));
       ret r
     }
   }"

definition reconcileManifest ::
  "EsEnv \<Rightarrow> EsReconciler \<Rightarrow> ManifestReference \<Rightarrow> ExternalSecret \<Rightarrow> instant \<Rightarrow> outcome guarded io" where
  "reconcileManifest W R manifest es start = with_generic_status W es
     (case validateGenericTarget R manifest of
        Some e \<Rightarrow> do {
          es' \<leftarrow> es_markAsFailed W ''invalid generic target'' e es ''SecretSyncedError'';
          ret (GoRet (no_requeue, None), es')
        }
      | None \<Rightarrow> reconcileGenericTarget W R manifest es start)"

section \<open>The reconciler\<close>

definition reconcileManaged ::
  "EsEnv \<Rightarrow> EsReconciler \<Rightarrow> string \<Rightarrow> ExternalSecret \<Rightarrow> instant \<Rightarrow> outcome guarded io" where
  "reconcileManaged W R ns es start =
     (if shouldSkipClusterSecretStore R es then ret (GoRet (no_requeue, None))
      else do {
        s \<leftarrow> shouldSkipUnmanagedStore W ns R es;
        case s of
          Inl e \<Rightarrow> ret (GoRet (no_requeue, Some e))
        | Inr skip \<Rightarrow>
            if skip then ret (GoRet (no_requeue, None))
            else (case etg_Manifest (esp_Target (es_Spec es)) of
                Some manifest \<Rightarrow> reconcileManifest W R manifest es start
              | None \<Rightarrow> reconcileSecret W R es start)
      })"

definition es_Reconcile :: "EsEnv \<Rightarrow> EsReconciler \<Rightarrow> string \<Rightarrow> string \<Rightarrow> outcome guarded io" where
  "es_Reconcile W R ns name = do {
     start \<leftarrow> es_now W;
     g \<leftarrow> es_get W ns name;
     case g of
       Inl e \<Rightarrow> ret (GoRet (no_requeue, if is_not_found e then None else Some e))
     | Inr es \<Rightarrow>
         if om_DeletionTimestamp (es_Meta es) \<noteq> None then do {
           r \<leftarrow> reconcileDeleted W R es;
           ret (GoRet r)
         } else if ExternalSecretFinalizer \<in> set (om_Finalizers (es_Meta es)) then
           reconcileManaged W R ns es start
         else do {
           (w, es') \<leftarrow> es_write_es W CPatch (es_addFinalizer es);
           case w of
             Some e \<Rightarrow> ret (GoRet (no_requeue, Some e))
           | None \<Rightarrow> reconcileManaged W R ns es' start
         }
   }"

end
