(* ===== verification/Es_Data_Laws.thy ===== *)
theory Es_Data_Laws
  imports Es_Interfaces
begin

text \<open>
  What fetching the data of an ExternalSecret does: which calls it makes under the contract
  \<open>es_sources\<close>, and what the two loops return in terms of what each source gave.
\<close>

section \<open>Calls\<close>

text \<open>A generator state written by the state manager.\<close>

fun state_write :: "Call \<Rightarrow> bool" where
  "state_write (CCreate (OState s)) = True"
| "state_write (CUpdate (OState s)) = True"
| "state_write c = False"

definition quiet_item :: "QueueItem \<Rightarrow> bool" where
  "quiet_item item = (case item of
     FlagForGC k \<Rightarrow> True
   | SetLatest k ns r g st \<Rightarrow> (\<forall>r st ns. performs quiet (gen_Cleanup g r st ns)))"

definition quiet_queue :: "bool \<Rightarrow> Manager option \<Rightarrow> bool" where
  "quiet_queue on g = (case g of None \<Rightarrow> True | Some m \<Rightarrow> on \<and> list_all quiet_item (mgr_Queue m))"

definition good_managers :: "bool \<Rightarrow> managers \<Rightarrow> bool" where
  "good_managers on ms \<longleftrightarrow> quiet_manager (fst ms) \<and> quiet_queue on (snd ms)"

lemma good_managers_pair [simp]: "good_managers on (cm, g) \<longleftrightarrow> quiet_manager cm \<and> quiet_queue on g"
  by (simp add: good_managers_def)

lemma quiet_queue_simps [simp]:
  "quiet_queue on None"
  "quiet_queue on (Some (New ns r f)) = on"
  "quiet_queue on (flag_latest i g) = quiet_queue on g"
  by (simp_all add: quiet_queue_def New_def flag_latest_def EnqueueFlagLatestStateForGC_def enqueue_def
      quiet_item_def split: option.splits)

lemma quiet_queue_generated:
  "quiet_queue on g \<Longrightarrow> es_quiet_generator impl \<Longrightarrow> quiet_queue on (queue_generated k ns r impl st l g)"
  by (auto simp: queue_generated_def quiet_queue_def EnqueueSetLatest_def EnqueueMoveStateToGC_def
      enqueue_def quiet_item_def es_quiet_generator_def Generator.defs split: option.splits)

lemma quiet_call [simp]:
  "quiet (CGet k ns n)" "quiet (CList k)" "quiet (CEvent x y z)"
  by (simp_all add: quiet_def)

lemma es_quiet_generatorD: "es_quiet_generator g \<Longrightarrow> performs quiet (egen_Generate g r ns)"
  by (simp add: es_quiet_generator_def)

lemma performs_cm_getStore [performs_intros]: "performs quiet (cm_getStore W ref ns)"
  unfolding cm_getStore_def es_defs by (intro performs_intros) simp_all

lemma performs_cm_shouldProcessSecret [performs_intros]:
  "performs quiet (cm_shouldProcessSecret W store ns)"
  unfolding cm_shouldProcessSecret_def k_defs by (intro performs_intros) simp_all

lemma performs_GetLatestState [performs_intros]: "performs quiet (GetLatestState E m k)"
  unfolding GetLatestState_def GetAllStates_def by (intro performs_intros) simp_all

lemma performs_flag_all_but: "performs (\<lambda>c. quiet c \<or> state_write c) (flag_all_but E l states errs)"
  by (induction E l states errs rule: flag_all_but.induct)
    (auto simp: k_defs intro!: performs_intros)

lemma performs_commit_item: "performs (\<lambda>c. quiet c \<or> state_write c) (commit_item E m item)"
  by (cases item)
    (auto simp: disposeState_def GetAllStates_def k_defs intro!: performs_intros performs_flag_all_but)

lemma performs_rollback_item:
  assumes "quiet_item item"
  shows "performs (\<lambda>c. quiet c \<or> state_write c) (rollback_item E m item)"
proof (cases item)
  case (SetLatest k ns r g st)
  with assms have "performs (\<lambda>c. quiet c \<or> state_write c) (gen_Cleanup g r st ns)"
    by (auto simp: quiet_item_def intro: performs_mono)
  with SetLatest show ?thesis by (auto simp: k_defs intro!: performs_intros)
qed (auto intro: performs_intros)

lemma performs_run_queue:
  "(\<And>item. item \<in> set q \<Longrightarrow> performs P (f item)) \<Longrightarrow> performs P (run_queue f q errs)"
  by (induction q arbitrary: errs) (auto intro!: performs_intros)

lemma performs_settle_states:
  assumes "quiet_queue on g"
  shows "performs (\<lambda>c. quiet c \<or> on \<and> state_write c) (settle_states W g r)"
proof (cases g)
  case None
  then show ?thesis by (simp add: settle_states_def performs_ret)
next
  case (Some m)
  then have m: "on" "list_all quiet_item (mgr_Queue m)" using assms by (simp_all add: quiet_queue_def)
  then have "performs (\<lambda>c. quiet c \<or> state_write c) (Rollback E m)" for E
    unfolding Rollback_def
    by (auto simp: list_all_iff intro!: performs_intros performs_run_queue performs_rollback_item)
  moreover have "performs (\<lambda>c. quiet c \<or> state_write c) (Commit E m)" for E
    unfolding Commit_def by (auto intro!: performs_intros performs_run_queue performs_commit_item)
  ultimately show ?thesis using Some m by (auto simp: settle_states_def intro!: performs_intros)
qed

lemma performs_close_clients:
  "(\<And>k c s. (k, c, s) \<in> set vals \<Longrightarrow> performs quiet (sc_Close c)) \<Longrightarrow>
   performs quiet (close_clients vals errs)"
  by (induction vals errs rule: close_clients.induct) (auto intro!: performs_intros)

lemma performs_cm_Close: "quiet_manager m \<Longrightarrow> performs quiet (cm_Close m)"
  unfolding cm_Close_def quiet_manager_def es_quiet_client_def
  by (auto intro!: performs_intros performs_close_clients)

context es_sources
begin

lemma keeps_getStoredClient:
  assumes "quiet_manager m"
  shows "keeps quiet (\<lambda>(c, m'). quiet_manager m' \<and> (\<forall>x. c = Some x \<longrightarrow> es_quiet_client x))
    (getStoredClient m p store)"
proof (cases "mget (cm_Clients m) (storeKey p)")
  case None
  with assms show ?thesis by (simp add: getStoredClient_def keeps_ret)
next
  case (Some v)
  obtain c s where v: "v = (c, s)" by fastforce
  with Some assms have "es_quiet_client c" by (blast dest: quiet_manager_mget)
  then have "performs quiet (sc_Close c)" by (simp add: es_quiet_client_def)
  with Some v assms \<open>es_quiet_client c\<close> show ?thesis
    by (auto simp: getStoredClient_def quiet_manager_mdel intro!: keeps_intros keeps_bind_performs)
qed

lemma keeps_NewClient:
  assumes "GetProvider W store' = Inr p"
  shows "keeps quiet (\<lambda>r. \<forall>c. r = Inr c \<longrightarrow> es_quiet_client c) (epr_NewClient p store ns)"
proof -
  obtain k where k: "mget (providers W) k = Some p" using provider_registered [OF assms] by blast
  show ?thesis
    unfolding keeps_def traces_def
  proof
    fix h
    obtain r h' where run: "run_state (epr_NewClient p store ns) h = (r, h')" by fastforce
    obtain cs where "h' = cs @ h" "list_all quiet cs"
      using performsE [OF NewClient_quiet [OF k] run] .
    moreover have "r = Inr c \<Longrightarrow> es_quiet_client c" for c
      using client_quiet [OF k] resultsI [OF run] by simp
    ultimately show "\<exists>a cs. run_state (epr_NewClient p store ns) h = (a, cs @ h)
        \<and> list_all quiet cs \<and> (\<forall>c. a = Inr c \<longrightarrow> es_quiet_client c)"
      using run by auto
  qed
qed

definition fetched_ok :: "(err + EsSecretsClient) \<times> ClientManager \<Rightarrow> bool" where
  "fetched_ok = (\<lambda>(r, m). quiet_manager m \<and> (\<forall>c. r = Inr c \<longrightarrow> es_quiet_client c))"

lemma keeps_GetFromStore:
  assumes "quiet_manager m"
  shows "keeps quiet fetched_ok (GetFromStore W m store ns)"
  unfolding GetFromStore_def
  by (intro keeps_intros keeps_bind [OF keeps_getStoredClient [OF assms]] keeps_bind [OF keeps_NewClient])
    (auto simp: fetched_ok_def assms quiet_manager_mput)

lemma keeps_cm_Get:
  assumes "quiet_manager m"
  shows "keeps quiet fetched_ok (cm_Get W m ref ns src)"
  unfolding cm_Get_def
  by (intro keeps_intros keeps_bind_performs [OF performs_cm_getStore]
      keeps_bind_performs [OF performs_cm_shouldProcessSecret] keeps_GetFromStore assms)
    (auto simp: fetched_ok_def assms)

lemma keeps_with_client:
  assumes "quiet_manager cm"
    and "\<And>e cm'. quiet_manager cm' \<Longrightarrow> keeps quiet Q (f (Inl e, cm'))"
    and "\<And>c cm'. quiet_manager cm' \<Longrightarrow> es_quiet_client c \<Longrightarrow> keeps quiet Q (f (Inr c, cm'))"
  shows "keeps quiet Q (State_Monad.bind (cm_Get W cm ref ns src) f)"
proof (rule keeps_bind [OF keeps_cm_Get [OF assms(1)]])
  fix a :: "(err + EsSecretsClient) \<times> ClientManager"
  assume "fetched_ok a"
  then show "keeps quiet Q (f a)"
    using assms(2,3) by (cases a; cases "fst a") (auto simp: fetched_ok_def)
qed

lemma keeps_handleSecretData:
  assumes "quiet_manager cm"
  shows "keeps quiet (\<lambda>(r, cm'). quiet_manager cm') (handleSecretData W es d data cm)"
  unfolding handleSecretData_def
proof (rule keeps_with_client [OF assms], goal_cases)
  case (2 c cm')
  then have "performs quiet (sc_GetSecret c ref)" for ref by (simp add: es_quiet_client_def)
  with 2 show ?case by (auto intro!: keeps_bind_performs keeps_ret split: sum.splits)
qed (simp add: keeps_ret)

lemma keeps_handleExtractSecrets:
  assumes "good_managers on (cm, g)"
  shows "keeps quiet (\<lambda>(r, ms'). good_managers on ms') (handleExtractSecrets W es df x i (cm, g))"
  unfolding handleExtractSecrets_def Let_def prod.case
proof (rule keeps_with_client, goal_cases)
  case (3 c cm')
  then have "performs quiet (esc_GetSecretMap c ref)" for ref by (simp add: es_quiet_client_def)
  with 3 assms show ?case by (auto intro!: keeps_bind_performs keeps_ret split: sum.splits)
qed (use assms in \<open>simp_all add: keeps_ret\<close>)

lemma keeps_handleFindAllSecrets:
  assumes "good_managers on (cm, g)"
  shows "keeps quiet (\<lambda>(r, ms'). good_managers on ms') (handleFindAllSecrets W es df x i (cm, g))"
  unfolding handleFindAllSecrets_def Let_def prod.case
proof (rule keeps_with_client, goal_cases)
  case (3 c cm')
  then have "performs quiet (esc_GetAllSecrets c ref)" for ref by (simp add: es_quiet_client_def)
  with 3 assms show ?case by (auto intro!: keeps_bind_performs keeps_ret split: sum.splits)
qed (use assms in \<open>simp_all add: keeps_ret\<close>)

lemma keeps_es_generator:
  "keeps quiet (\<lambda>r. \<forall>g raw. r = Inr (g, raw) \<longrightarrow> es_quiet_generator g) (es_generator W ns ref)"
  unfolding es_generator_def keeps_def traces_def using generator_quiet by auto

lemma keeps_handleGenerateSecrets:
  assumes "good_managers on (cm, g)"
  shows "keeps quiet (\<lambda>(r, ms'). good_managers on ms') (handleGenerateSecrets W ns df ref i (cm, g))"
  unfolding handleGenerateSecrets_def Let_def prod.case
proof (rule keeps_bind [OF keeps_es_generator], goal_cases)
  case (1 r)
  have "performs quiet (case g of None \<Rightarrow> ret (Inr None)
      | Some gs \<Rightarrow> GetLatestState (world W) gs (generatorStateKey i))"
    by (intro performs_intros)
  then show ?case using assms 1
    by (auto simp: quiet_queue_generated intro!: keeps_ret keeps_bind_performs es_quiet_generatorD
        split: sum.splits prod.splits)
qed

lemma keeps_wrapped:
  assumes "keeps quiet (\<lambda>(r, ms'). good_managers on ms') m"
  shows "keeps quiet (\<lambda>(r, ms'). good_managers on ms')
    (do { r \<leftarrow> m; ret (case r of (r, ms') \<Rightarrow> (f r, ms')) })"
  by (rule keeps_bind [OF assms]) (auto intro!: keeps_ret)

lemma keeps_dataFrom_entry:
  assumes "good_managers on ms"
  shows "keeps quiet (\<lambda>(r, ms'). good_managers on ms') (dataFrom_entry W es i df stale ms)"
  using assms unfolding dataFrom_entry_def Let_def
  by (cases ms) (auto intro!: keeps_intros keeps_wrapped keeps_handleExtractSecrets
      keeps_handleFindAllSecrets keeps_handleGenerateSecrets)

lemma keeps_dataFrom_loop:
  "good_managers on ms \<Longrightarrow>
   keeps quiet (\<lambda>(r, ms'). good_managers on ms') (dataFrom_loop W es i dfs stale data ms)"
proof (induction dfs arbitrary: i stale data ms)
  case Nil
  then show ?case by (simp add: keeps_ret)
next
  case (Cons df dfs)
  show ?case
    unfolding dataFrom_loop.simps
    by (rule keeps_bind [OF keeps_dataFrom_entry [OF Cons.prems]])
      (auto simp: k_event_def intro!: keeps_intros keeps_bind_performs performs_intros Cons.IH
        split: sum.splits)
qed

lemma keeps_data_loop:
  "quiet_manager cm \<Longrightarrow> keeps quiet (\<lambda>(r, cm'). quiet_manager cm') (data_loop W es i ds data cm)"
proof (induction ds arbitrary: i data cm)
  case Nil
  then show ?case by (simp add: keeps_ret)
next
  case (Cons d ds)
  show ?case
    unfolding data_loop.simps
    by (rule keeps_bind [OF keeps_handleSecretData [OF Cons.prems]])
      (auto simp: k_event_def intro!: keeps_intros keeps_bind_performs performs_intros Cons.IH
        split: sum.splits)
qed

lemma keeps_fetch_sources:
  assumes "good_managers on ms"
  shows "keeps quiet (\<lambda>(r, ms'). good_managers on ms') (fetch_sources W es ms)"
  unfolding fetch_sources_def
proof (rule keeps_bind [OF keeps_dataFrom_loop [OF assms]], goal_cases)
  case (1 a)
  then show ?case
    by (auto split: prod.splits sum.splits intro!: keeps_ret keeps_bind [OF keeps_data_loop])
qed

lemma performs_GetProviderSecretData:
  "performs (\<lambda>c. quiet c \<or> rcl_EnableGeneratorState R \<and> state_write c) (GetProviderSecretData W R es)"
  unfolding GetProviderSecretData_def Let_def
proof (rule keeps_performs [where Q = "\<lambda>_. True"], rule keeps_bind [where Q = "\<lambda>(r, ms'). good_managers (rcl_EnableGeneratorState R) ms'"],
    goal_cases)
  case 1
  show ?case
    by (rule keeps_mono [OF keeps_fetch_sources]) (simp_all add: quiet_NewManager)
next
  case (2 a)
  obtain r cm g where a: "a = (r, cm, g)" by (cases a) auto
  with 2 have "quiet_manager cm" "quiet_queue (rcl_EnableGeneratorState R) g" by simp_all
  then show ?case
    unfolding a prod.case
    by (intro keeps_weaken [OF performs_keeps] performs_intros performs_settle_states
        performs_mono [OF performs_cm_Close]) simp_all
qed

end

section \<open>What the loops return\<close>

text \<open>
  The reference: first read the sources one after the other up to an error that is not skipped,
  then put together what they gave, a later source over an earlier one.
\<close>

fun read_dataFrom ::
  "EsEnv \<Rightarrow> ExternalSecret \<Rightarrow> nat \<Rightarrow> EsDataFrom list \<Rightarrow> err option \<Rightarrow> managers
   \<Rightarrow> ((err + bytes gomap) list \<times> managers) io" where
  "read_dataFrom W es i [] stale ms = ret ([], ms)"
| "read_dataFrom W es i (df # dfs) stale ms = do {
     (r, ms1) \<leftarrow> dataFrom_entry W es i df stale ms;
     case r of
       Inl e \<Rightarrow>
         if skips es e then do {
           _ \<leftarrow> k_event ''Normal'' ''MissingProviderSecret''
                 (''secret does not exist at provider using spec.dataFrom['' @ show_nat i @ '']'');
           (rs, ms2) \<leftarrow> read_dataFrom W es (Suc i) dfs (Some e) ms1;
           ret (r # rs, ms2)
         } else ret ([r], ms1)
     | Inr m \<Rightarrow> do {
         (rs, ms2) \<leftarrow> read_dataFrom W es (Suc i) dfs None ms1;
         ret (r # rs, ms2)
       }
   }"

fun read_data ::
  "EsEnv \<Rightarrow> ExternalSecret \<Rightarrow> nat \<Rightarrow> EsData list \<Rightarrow> ClientManager
   \<Rightarrow> ((err + bytes gomap) list \<times> ClientManager) io" where
  "read_data W es i [] cm = ret ([], cm)"
| "read_data W es i (d # ds) cm = do {
     (r, cm1) \<leftarrow> handleSecretData W es d [] cm;
     case r of
       Inl e \<Rightarrow>
         if skips es e then do {
           _ \<leftarrow> k_event ''Normal'' ''MissingProviderSecret''
                 (''secret does not exist at provider using spec.dataFrom['' @ show_nat i @ ''] (key=''
                  @ drr_Key (ed_RemoteRef d) @ '')'');
           (rs, cm2) \<leftarrow> read_data W es (Suc i) ds cm1;
           ret (r # rs, cm2)
         } else ret ([Inl (ErrWrap (''error processing spec.data['' @ show_nat i @ ''] (key: ''
                  @ drr_Key (ed_RemoteRef d) @ ''), err'') e)], cm1)
     | Inr m \<Rightarrow> do {
         (rs, cm2) \<leftarrow> read_data W es (Suc i) ds cm1;
         ret (r # rs, cm2)
       }
   }"

definition fatal :: "ExternalSecret \<Rightarrow> err + bytes gomap \<Rightarrow> err option" where
  "fatal es r = (case r of Inl e \<Rightarrow> if skips es e then None else Some e | Inr m \<Rightarrow> None)"

definition given :: "err + bytes gomap \<Rightarrow> bytes gomap" where
  "given r = (case r of Inl e \<Rightarrow> [] | Inr m \<Rightarrow> m)"

definition read_sources ::
  "EsEnv \<Rightarrow> ExternalSecret \<Rightarrow> managers \<Rightarrow> ((err + bytes gomap) list \<times> managers) io" where
  "read_sources W es ms = do {
     (rs, ms1) \<leftarrow> read_dataFrom W es 0 (esp_DataFrom (es_Spec es)) None ms;
     if first_some (map (fatal es) rs) \<noteq> None then ret (rs, ms1)
     else do {
       (ds, cm1) \<leftarrow> read_data W es 0 (esp_Data (es_Spec es)) (fst ms1);
       ret (rs @ ds, cm1, snd ms1)
     }
   }"

definition merge_from :: "ExternalSecret \<Rightarrow> bytes gomap \<Rightarrow> (err + bytes gomap) list \<Rightarrow> err + bytes gomap" where
  "merge_from es acc rs = (case first_some (map (fatal es) rs) of
     Some e \<Rightarrow> Inl e
   | None \<Rightarrow> Inr (mcopy acc (concat (map given rs))))"

lemma mcopy_append [simp]: "mcopy a (xs @ ys) = mcopy (mcopy a xs) ys"
  by (simp add: mcopy_def)

lemma first_some_append: "first_some (xs @ ys) = (case first_some xs of None \<Rightarrow> first_some ys | Some a \<Rightarrow> Some a)"
  by (induction xs) (auto split: option.splits)

lemma skips_wrap [simp]: "skips es (ErrWrap p e) = skips es e"
  by (simp add: skips_def)

lemma merge_from_simps [simp]:
  "merge_from es acc [] = Inr acc"
  "skips es e \<Longrightarrow> merge_from es acc (Inl e # rs) = merge_from es acc rs"
  "\<not> skips es e \<Longrightarrow> merge_from es acc (Inl e # rs) = Inl e"
  "merge_from es acc (Inr m # rs) = merge_from es (mcopy acc m) rs"
  by (simp_all add: merge_from_def fatal_def given_def split: option.splits)

lemma dataFrom_loop_reads:
  "run_state (dataFrom_loop W es i dfs stale acc ms) h
   = (case run_state (read_dataFrom W es i dfs stale ms) h of ((rs, ms'), h') \<Rightarrow> ((merge_from es acc rs, ms'), h'))"
proof (induction dfs arbitrary: i stale acc ms h)
  case (Cons df dfs)
  obtain r ms1 h1 where r: "run_state (dataFrom_entry W es i df stale ms) h = ((r, ms1), h1)"
    by (metis prod.collapse)
  show ?case
    by (cases r) (auto simp: r Cons.IH k_event_def MergeByteMap_def split: prod.splits)
qed simp

lemma handleSecretData_acc:
  "run_state (handleSecretData W es d acc cm) h
   = (case run_state (handleSecretData W es d [] cm) h of ((r, cm'), h') \<Rightarrow>
        ((case r of Inl e \<Rightarrow> Inl e | Inr m \<Rightarrow> Inr (mcopy acc m), cm'), h'))"
  by (auto simp: handleSecretData_def run_cases split: prod.splits sum.splits option.splits)

lemma data_loop_reads:
  "run_state (data_loop W es i ds acc cm) h
   = (case run_state (read_data W es i ds cm) h of ((rs, cm'), h') \<Rightarrow> ((merge_from es acc rs, cm'), h'))"
proof (induction ds arbitrary: i acc cm h)
  case (Cons d ds)
  obtain r cm1 h1 where r: "run_state (handleSecretData W es d [] cm) h = ((r, cm1), h1)"
    by (metis prod.collapse)
  then have "run_state (handleSecretData W es d acc cm) h
      = ((case r of Inl e \<Rightarrow> Inl e | Inr m \<Rightarrow> Inr (mcopy acc m), cm1), h1)"
    by (simp add: handleSecretData_acc [of W es d acc])
  with r show ?case
    by (cases r) (auto simp: Cons.IH k_event_def split: prod.splits)
qed simp

lemma mget_mcopy_rev: "mget (mcopy [] xs) k = map_of (rev xs) k"
  by (induction xs rule: rev_induct) (auto simp: mget_mput)

lemma fetch_sources_reads:
  "run_state (fetch_sources W es ms) h
   = (case run_state (read_sources W es ms) h of ((rs, ms'), h') \<Rightarrow> ((merge_from es [] rs, ms'), h'))"
proof -
  obtain rs ms1 h1 where r: "run_state (read_dataFrom W es 0 (esp_DataFrom (es_Spec es)) None ms) h = ((rs, ms1), h1)"
    by (metis prod.collapse)
  then have l: "run_state (dataFrom_loop W es 0 (esp_DataFrom (es_Spec es)) None [] ms) h
      = ((merge_from es [] rs, ms1), h1)"
    by (simp add: dataFrom_loop_reads)
  show ?thesis
    by (cases "first_some (map (fatal es) rs)")
      (auto simp: fetch_sources_def read_sources_def r l merge_from_def data_loop_reads first_some_append
        split: prod.splits option.splits)
qed

text \<open>
  C40: What an ExternalSecret's data is.  The two loops return what the reference puts together from
  the answers of the sources, after the same calls: an error that is not skipped, as a missing
  secret is unless the deletion policy is Retain, is returned and nothing else; otherwise every key
  has the value of the last source that gave it, \<open>spec.data\<close> after \<open>spec.dataFrom\<close>.
\<close>

theorem es_data_merged:
  "run_state (fetch_sources W es ms) h
     = (case run_state (read_sources W es ms) h of ((rs, ms'), h') \<Rightarrow> ((merge_from es [] rs, ms'), h'))
   \<and> merge_from es [] rs = (case first_some (map (fatal es) rs) of
       Some e \<Rightarrow> Inl e | None \<Rightarrow> Inr (mcopy [] (concat (map given rs))))
   \<and> mget (mcopy [] (concat (map given rs))) k = map_of (rev (concat (map given rs))) k"
  by (simp add: fetch_sources_reads merge_from_def mget_mcopy_rev)

end
