(* ===== verification/Es_Writes.thy ===== *)
theory Es_Writes
  imports Es_Target_Laws Es_Controller Es_Data_Laws
begin

text \<open>
  Which writes a reconcile of an ExternalSecret with a Secret as target can make, for all registered
  sources that keep the contract \<open>es_sources\<close>.
\<close>

section \<open>Allowed writes\<close>

definition creation :: "ExternalSecret \<Rightarrow> string" where
  "creation es = etg_CreationPolicy (esp_Target (es_Spec es))"

definition at_target :: "ExternalSecret \<Rightarrow> ObjectMeta \<Rightarrow> bool" where
  "at_target es m \<longleftrightarrow> om_Namespace m = om_Namespace (es_Meta es) \<and> om_Name m = target_name es"

definition orphan_of :: "EsEnv \<Rightarrow> ExternalSecret \<Rightarrow> ObjectMeta \<Rightarrow> bool" where
  "orphan_of W es m \<longleftrightarrow> om_Name m \<noteq> target_name es
     \<and> (\<exists>h items. listSecretMetas W h (om_Namespace (es_Meta es)) (owner_label (world W) (es_Meta es)) = Inr items
          \<and> m \<in> set items)"

definition same_spec :: "ExternalSecret \<Rightarrow> ExternalSecret \<Rightarrow> bool" where
  "same_spec es es' \<longleftrightarrow> es_Meta es' = es_Meta es \<and> es_Spec es' = es_Spec es"

fun es_allowed :: "EsEnv \<Rightarrow> ExternalSecret \<Rightarrow> Call \<Rightarrow> bool" where
  "es_allowed W es (CAs fo c) = (fo = fqdnFor (world W) (om_Name (es_Meta es)) \<and>
     (case c of
        CCreate (OSecret s) \<Rightarrow> creation es \<in> {CreatePolicyOwner, CreatePolicyOrphan}
          \<and> at_target es (sec_Meta s) \<and> managed_label (sec_Meta s) \<and> hashed (world W) s
      | CUpdate (OSecret s) \<Rightarrow> creation es \<in> {CreatePolicyOwner, CreatePolicyOrphan, CreatePolicyMerge}
          \<and> at_target es (sec_Meta s) \<and> managed_label (sec_Meta s)
      | CPatch (OSecretMeta m) \<Rightarrow> at_target es m \<and> managed_label m
      | _ \<Rightarrow> False))"
| "es_allowed W es (CDelete ob) = (case ob of
      OSecret s \<Rightarrow> etg_DeletionPolicy (esp_Target (es_Spec es)) = DeletionPolicyDelete
        \<and> creation es = CreatePolicyOwner \<and> at_target es (sec_Meta s)
    | OSecretMeta m \<Rightarrow> creation es = CreatePolicyOwner \<and> orphan_of W es m
    | _ \<Rightarrow> False)"
| "es_allowed W es (CStatusUpdate ob) = (case ob of OES es' \<Rightarrow> same_spec es es' | _ \<Rightarrow> False)"
| "es_allowed W es c = False"

definition es_call :: "EsEnv \<Rightarrow> EsReconciler \<Rightarrow> ExternalSecret \<Rightarrow> Call \<Rightarrow> bool" where
  "es_call W R es c \<longleftrightarrow> quiet c \<or> rcl_EnableGeneratorState R \<and> state_write c \<or> es_allowed W es c"

lemma es_call_quiet [simp]: "quiet c \<Longrightarrow> es_call W R es c"
  by (simp add: es_call_def)

lemma es_call_allowed: "es_allowed W es c \<Longrightarrow> es_call W R es c"
  by (simp add: es_call_def)

lemma same_spec_refl [simp]: "same_spec es es"
  by (simp add: same_spec_def)

lemma same_spec_trans: "same_spec a b \<Longrightarrow> same_spec b c \<Longrightarrow> same_spec a c"
  by (simp add: same_spec_def)

section \<open>Reports\<close>

definition quietly :: "('a \<Rightarrow> bool) \<Rightarrow> 'a io \<Rightarrow> bool" where
  "quietly Q m \<longleftrightarrow> keeps quiet Q m"

lemma quietly_call: "quietly Q m \<Longrightarrow> keeps (es_call W R es) Q m"
  unfolding quietly_def by (erule keeps_mono) simp_all

lemma quietly_markAsDone: "quietly (same_spec es) (es_markAsDone W es start reason msg)"
  unfolding quietly_def es_markAsDone_def es_now_def
  by (intro keeps_intros keeps_bind_performs performs_intros)
    (simp add: same_spec_def SetExternalSecretCondition_def)

lemma quietly_markAsFailed: "quietly (same_spec es) (es_markAsFailed W msg e es reason)"
  unfolding quietly_def es_markAsFailed_def es_now_def k_event_def
  by (intro keeps_intros keeps_bind_performs performs_intros)
    (simp_all add: same_spec_def SetExternalSecretCondition_def)

lemma quietly_done: "quietly (\<lambda>(r, es'). same_spec es es') (es_done W R es start reason msg)"
  unfolding quietly_def es_done_def es_now_def
  by (rule keeps_bind [OF quietly_markAsDone [unfolded quietly_def]])
    (intro keeps_intros keeps_bind_performs performs_intros, simp)

lemma quietly_failed: "quietly (\<lambda>(r, es'). same_spec es es') (es_failed W es msg e reason ret')"
  unfolding quietly_def es_failed_def
  by (rule keeps_bind [OF quietly_markAsFailed [unfolded quietly_def]]) (intro keeps_intros, simp)

lemma quietly_from:
  "same_spec es es' \<Longrightarrow> quietly (\<lambda>(r, e). same_spec es' e) m \<Longrightarrow> quietly (\<lambda>(r, e). same_spec es e) m"
  unfolding quietly_def by (erule keeps_weaken) (auto intro: same_spec_trans)

lemma quietly_report_write:
  "same_spec es es' \<Longrightarrow> quietly (\<lambda>(r, e). same_spec es e) (report_write W R start r es')"
  by (erule quietly_from)
    (auto simp: report_write_def es_failSecret_def quietly_done quietly_failed split: option.splits
      intro!: keeps_ret simp: quietly_def [of _ "ret _"])

section \<open>The target\<close>

lemma keeps_createSecret:
  assumes "creation es \<in> {CreatePolicyOwner, CreatePolicyOrphan}"
    and "\<And>s. yields (mutated W es s) (mutate s)"
  shows "keeps (es_call W R es) (\<lambda>(r, e). same_spec es e) (createSecret W mutate es (target_name es))"
proof -
  let ?new = "\<lparr>sec_Meta = empty_meta\<lparr>om_Name := target_name es, om_Namespace := om_Namespace (es_Meta es)\<rparr>,
     sec_Type = [], sec_Data = [], sec_Immutable = None\<rparr>"
  have m: "keeps (es_call W R es) (\<lambda>r. \<forall>s. r = Inr s \<longrightarrow> mutated W es ?new s) (mutate ?new)"
    using assms(2) unfolding yields_def by (rule keeps_mono) simp_all
  show ?thesis
    unfolding createSecret_def es_defs k_defs
    by (rule keeps_bind [OF m], intro keeps_intros keeps_bind_performs performs_intros)
      (use assms(1) in \<open>auto simp: set_binding_def same_spec_def at_target_def mutated_def
        intro!: es_call_allowed\<close>)
qed


lemma keeps_update_immutable:
  assumes "creation es \<in> {CreatePolicyOwner, CreatePolicyOrphan, CreatePolicyMerge}"
    and "mutated W es ex upd" and "at_target es (sec_Meta ex)"
  shows "keeps (es_call W R es) (\<lambda>_. True) (update_immutable W (fqdnFor (world W) (om_Name (es_Meta es))) ex upd)"
  unfolding update_immutable_def Let_def es_defs k_defs
  by (intro keeps_intros keeps_bind_performs performs_intros)
    (use assms in \<open>auto simp: at_target_def mutated_def intro!: es_call_allowed\<close>)

lemma keeps_updateSecret:
  assumes "creation es \<in> {CreatePolicyOwner, CreatePolicyOrphan, CreatePolicyMerge}"
    and "\<And>s. yields (mutated W es s) (mutate s)" and "om_UID (sec_Meta ex) \<noteq> [] \<Longrightarrow> at_target es (sec_Meta ex)"
  shows "keeps (es_call W R es) (\<lambda>(r, e). same_spec es e) (updateSecret W ex mutate es (target_name es))"
proof (cases "om_UID (sec_Meta ex) = []")
  case False
  then have t: "at_target es (sec_Meta ex)" by (rule assms(3))
  have m: "keeps (es_call W R es) (\<lambda>r. \<forall>s. r = Inr s \<longrightarrow> mutated W es ex s) (mutate ex)"
    using assms(2) unfolding yields_def by (rule keeps_mono) simp_all
  have s: "same_spec es (set_binding (target_name es) es)" by (simp add: same_spec_def set_binding_def)
  have w: "es_call W R es (CAs (fqdnFor (world W) (om_Name (es_Meta es))) (CUpdate (OSecret u)))"
    if "mutated W es ex u" for u
    using that assms(1) t by (auto simp: at_target_def mutated_def intro!: es_call_allowed)
  have u: "performs (es_call W R es) (update_immutable W (fqdnFor (world W) (om_Name (es_Meta es))) ex u)"
    if "mutated W es ex u" for u
    by (rule keeps_performs [OF keeps_update_immutable [OF assms(1) that t]])
  show ?thesis
    unfolding updateSecret_def Let_def es_defs k_defs
    by (rule keeps_if, simp add: False, rule keeps_bind [OF m],
        intro keeps_intros keeps_bind_performs performs_intros) (use s w u in auto)
qed (simp add: updateSecret_def keeps_ret)

text \<open>Deleting orphans deletes orphans only.\<close>

definition orphan_call :: "EsEnv \<Rightarrow> ExternalSecret \<Rightarrow> Call \<Rightarrow> bool" where
  "orphan_call W es c \<longleftrightarrow> quiet c \<or> (\<exists>m. c = CDelete (OSecretMeta m) \<and> orphan_of W es m)"

lemma performs_delete_others:
  "list_all (\<lambda>m. om_Name m \<noteq> target_name es \<longrightarrow> orphan_of W es m) ms \<Longrightarrow>
   performs (orphan_call W es) (delete_others W (target_name es) ms)"
  unfolding orphan_call_def
  by (induction ms) (auto simp: es_defs k_defs intro!: performs_intros)

lemma performs_orphans: "performs (orphan_call W es) (deleteOrphanedSecrets W es (target_name es))"
proof -
  have l: "keeps (orphan_call W es) (\<lambda>r. \<forall>ms. r = Inr ms \<longrightarrow> list_all (\<lambda>m. om_Name m \<noteq> target_name es \<longrightarrow> orphan_of W es m) ms)
      (es_list_metas W (om_Namespace (es_Meta es)) (owner_label (world W) (es_Meta es)))"
    unfolding keeps_def traces_def es_list_metas_def orphan_of_def list_all_iff orphan_call_def by auto
  show ?thesis
    unfolding deleteOrphanedSecrets_def
    by (rule keeps_performs [where Q = "\<lambda>_. True"], rule keeps_bind [OF l])
      (auto split: sum.splits intro!: performs_keeps performs_ret performs_delete_others)
qed

lemma performs_deleteOrphanedSecrets:
  "creation es = CreatePolicyOwner \<Longrightarrow> performs (es_call W R es) (deleteOrphanedSecrets W es (target_name es))"
  by (rule performs_mono [OF performs_orphans]) (auto simp: orphan_call_def intro: es_call_allowed)

lemma keeps_report:
  assumes "keeps (es_call W R es) (\<lambda>(r, e). same_spec es e) m"
  shows "keeps (es_call W R es) (\<lambda>(r, e). same_spec es e) (do { (r, e) \<leftarrow> m; report_write W R start r e })"
  by (rule keeps_bind [OF assms]) (auto split: prod.splits intro: quietly_call quietly_report_write)

lemma keeps_applyPolicy:
  assumes "\<And>s. yields (mutated W es s) (mutationFunc W es data s)"
    and "om_UID (sec_Meta ex) \<noteq> [] \<Longrightarrow> at_target es (sec_Meta ex)"
  shows "keeps (es_call W R es) (\<lambda>(r, e). same_spec es e) (applyPolicy W R es start ex (target_name es) data)"
proof -
  have cu: "keeps (es_call W R es) (\<lambda>(r, e). same_spec es e) (create_or_update W es ex (target_name es) data)"
    if "creation es \<in> {CreatePolicyOwner, CreatePolicyOrphan}"
    unfolding create_or_update_def using that assms
    by (intro keeps_if keeps_createSecret keeps_updateSecret) auto
  have up: "keeps (es_call W R es) (\<lambda>(r, e). same_spec es e)
      (updateSecret W ex (mutationFunc W es data) es (target_name es))"
    if "creation es = CreatePolicyMerge"
    using that assms by (intro keeps_updateSecret) auto
  show ?thesis
    unfolding applyPolicy_def Let_def creation_def [symmetric]
    by (intro keeps_if keeps_report cu up keeps_bind_performs performs_deleteOrphanedSecrets
        quietly_call quietly_done quietly_report_write keeps_case_option)
      (auto intro!: quietly_call quietly_failed keeps_report cu simp: es_failSecret_def)
qed

lemma keeps_deleteTarget:
  assumes "etg_DeletionPolicy (esp_Target (es_Spec es)) = DeletionPolicyDelete"
    and "om_UID (sec_Meta ex) \<noteq> [] \<Longrightarrow> at_target es (sec_Meta ex)"
  shows "keeps (es_call W R es) (\<lambda>(r, e). same_spec es e) (deleteTarget W R es start ex (target_name es))"
proof -
  have "es_call W R es (CDelete (OSecret ex))" if "om_UID (sec_Meta ex) \<noteq> []" "creation es = CreatePolicyOwner"
    using that assms by (auto intro!: es_call_allowed)
  then show ?thesis
    unfolding deleteTarget_def Let_def creation_def [symmetric] es_defs k_defs es_failSecret_def
    by (intro keeps_intros keeps_bind_performs performs_intros quietly_call quietly_failed quietly_done) auto
qed


section \<open>The reconcile\<close>

text \<open>The API server answers a read by name with an object of that name.\<close>

definition answers_named :: "EsEnv \<Rightarrow> bool" where
  "answers_named W \<longleftrightarrow> (\<forall>h ns n m s.
     (getSecretMeta W h ns n = Inr m \<longrightarrow> om_Namespace m = ns \<and> om_Name m = n)
     \<and> (getManagedSecret W h ns n = Inr s \<or> getSecretDirect W h ns n = Inr s \<longrightarrow>
          om_Namespace (sec_Meta s) = ns \<and> om_Name (sec_Meta s) = n))"

definition target_or_none :: "ExternalSecret \<Rightarrow> K8sSecret \<Rightarrow> bool" where
  "target_or_none es s \<longleftrightarrow> om_UID (sec_Meta s) \<noteq> [] \<longrightarrow> at_target es (sec_Meta s)"

lemma target_or_none_no_secret [simp]: "target_or_none es no_secret"
  by (simp add: target_or_none_def no_secret_def empty_meta_def)

context es_sources
begin

lemma performs_data: "performs (es_call W R es) (GetProviderSecretData W R es')"
  by (rule performs_mono [OF performs_GetProviderSecretData]) (auto simp: es_call_def)

lemma keeps_syncTarget:
  assumes "\<And>data s. yields (mutated W es s) (mutationFunc W es data s)" and "target_or_none es ex"
  shows "keeps (es_call W R es) (\<lambda>(r, e). same_spec es e) (syncTarget W R es start ex (target_name es))"
  unfolding syncTarget_def es_failSecret_def
  using assms(2) [unfolded target_or_none_def]
  by (intro keeps_bind_performs performs_data keeps_case_sum keeps_if quietly_call quietly_failed quietly_done
      keeps_deleteTarget keeps_applyPolicy assms(1)) auto

lemma performs_with_status:
  assumes "keeps (es_call W R es) (\<lambda>(r, e). same_spec es e) m"
  shows "performs (es_call W R es) (with_secret_status W es m)"
  unfolding with_secret_status_def es_defs k_defs
  by (rule keeps_performs [where Q = "\<lambda>_. True"], rule keeps_bind [OF assms])
    (auto intro!: performs_keeps performs_intros es_call_allowed split: prod.splits)

lemma performs_refreshSecret:
  assumes "\<And>data s. yields (mutated W es s) (mutationFunc W es data s)" and "target_or_none es ex"
  shows "performs (es_call W R es) (refreshSecret W R es start ex)"
  unfolding refreshSecret_def es_now_def
  by (intro performs_intros performs_with_status keeps_syncTarget assms)
    (auto split: guarded.splits intro!: performs_intros performs_with_status keeps_syncTarget assms)

lemma keeps_resolve:
  assumes "answers_named W" and "target_or_none es cached"
  shows "keeps (es_call W R es) (\<lambda>v. \<forall>s. v = Synced s \<longrightarrow> target_or_none es s)
    (resolveSecretCacheMismatch W R (om_Namespace (es_Meta es)) (target_name es) p cached)"
proof -
  have r: "keeps (es_call W R es) (\<lambda>r. \<forall>s. r = Inr s \<longrightarrow> target_or_none es s)
      (if rcl_HasAPIReader R then es_get_direct W (om_Namespace (es_Meta es)) (target_name es)
       else es_get_managed W (om_Namespace (es_Meta es)) (target_name es))"
    using assms(1) unfolding answers_named_def target_or_none_def at_target_def keeps_def traces_def
      es_get_direct_def es_get_managed_def
    by auto
  show ?thesis
    unfolding resolveSecretCacheMismatch_def
    by (intro keeps_if keeps_ret keeps_bind [OF r]) (use assms(2) in \<open>auto split: sum.splits if_splits\<close>)
qed

lemma performs_label_partial:
  "at_target es p \<Longrightarrow> performs (es_call W R es) (label_partial W es p)"
  unfolding label_partial_def es_defs k_defs
  by (intro performs_intros es_call_allowed)
    (auto simp: at_target_def managed_label_def mget_mput)

lemma performs_reconcileSecret:
  assumes "\<And>data s. yields (mutated W es s) (mutationFunc W es data s)" and "answers_named W"
  shows "performs (es_call W R es) (reconcileSecret W R es start)"
proof -
  let ?ns = "om_Namespace (es_Meta es)" and ?n = "target_name es"
  have p: "keeps (es_call W R es) (\<lambda>r. \<forall>m. r = Inr m \<longrightarrow> at_target es m) (es_get_meta W ?ns ?n)"
    using assms(2) unfolding answers_named_def at_target_def keeps_def traces_def es_get_meta_def by auto
  have x: "keeps (es_call W R es) (\<lambda>r. \<forall>s. r = Inr s \<longrightarrow> target_or_none es s) (es_get_managed W ?ns ?n)"
    using assms(2) unfolding answers_named_def target_or_none_def at_target_def keeps_def traces_def
      es_get_managed_def by auto
  have e: "om_UID empty_meta = []" by (simp add: empty_meta_def)
  have view: "performs (es_call W R es) (case v of ReadError e \<Rightarrow> ret (GoRet (no_requeue, Some e))
      | NotSynced \<Rightarrow> ret (GoRet (requeue_after cacheSyncRetryDelay, None))
      | Synced s \<Rightarrow> refreshSecret W R es start s)" if "\<forall>s. v = Synced s \<longrightarrow> target_or_none es s" for v
    using that by (cases v) (auto intro!: performs_ret performs_refreshSecret assms(1))
  have full: "performs (es_call W R es) (do {
      v \<leftarrow> resolveSecretCacheMismatch W R ?ns ?n m cached;
      case v of ReadError e \<Rightarrow> ret (GoRet (no_requeue, Some e))
      | NotSynced \<Rightarrow> ret (GoRet (requeue_after cacheSyncRetryDelay, None))
      | Synced s \<Rightarrow> refreshSecret W R es start s })" if "target_or_none es cached" for m cached
    by (rule keeps_performs [where Q = "\<lambda>_. True"], rule keeps_bind [OF keeps_resolve [OF assms(2) that]])
      (intro performs_keeps view)
  show ?thesis
    unfolding reconcileSecret_def Let_def
    by (rule keeps_performs [where Q = "\<lambda>_. True"], rule keeps_bind [OF p])
      (auto intro!: performs_keeps performs_intros performs_label_partial keeps_bind [OF x] full
        split: sum.splits if_splits simp: e)
qed

end

text \<open>
  C33: What an ExternalSecret writes.  With the Akeyless provider, password generators and templates
  within data, labels and annotations, a reconcile of an ExternalSecret whose target is a Secret
  creates and updates nothing but that Secret, as its policy allows and with the managed label (and
  the hash of its data, when created); deletes the target only when both policies say so, and other
  Secrets only when they are listed under its owner label; and writes its own status.
\<close>

theorem es_secret_writes:
  assumes "owner_refs_only W" and "converter_keeps W" and "plain_targets es" and "answers_named W"
  shows "performs (es_call (akeyless_world parseSpec passGen resources W) R es)
    (reconcileSecret (akeyless_world parseSpec passGen resources W) R es start)"
proof (rule akl_es.performs_reconcileSecret)
  let ?W = "akeyless_world parseSpec passGen resources W"
  show "answers_named ?W" using assms(4) by (simp add: answers_named_def akeyless_world_def)
  have "owner_refs_only ?W" "converter_keeps ?W"
    using assms(1,2) by (simp_all add: owner_refs_only_def converter_keeps_def akeyless_world_def)
  then show "yields (mutated ?W es s) (mutationFunc ?W es data s)" for data s
    using assms(3) by (rule mutationFunc_yields)
qed


section \<open>An example\<close>

definition stored_meta :: "string \<Rightarrow> string \<Rightarrow> ObjectMeta" where
  "stored_meta ns n = empty_meta\<lparr>om_Namespace := ns, om_Name := n, om_UID := ''uid'',
     om_Labels := [(EsLabelManaged, EsLabelManagedValue)]\<rparr>"

definition stored_secret :: "string \<Rightarrow> string \<Rightarrow> K8sSecret" where
  "stored_secret ns n = \<lparr>sec_Meta = stored_meta ns n, sec_Type = SecretTypeOpaque, sec_Data = [],
     sec_Immutable = None\<rparr>"

definition stored_world :: EsEnv where
  "stored_world = sample_es_env\<lparr>getSecretMeta := (\<lambda>h ns n. Inr (stored_meta ns n)),
     getManagedSecret := (\<lambda>h ns n. Inr (stored_secret ns n)),
     getSecretDirect := (\<lambda>h ns n. Inr (stored_secret ns n))\<rparr>"

lemma stored_world_laws:
  "owner_refs_only stored_world" "converter_keeps stored_world" "answers_named stored_world"
  by (simp_all add: stored_world_def sample_es_env_def owner_refs_only_def converter_keeps_def answers_named_def
      stored_meta_def stored_secret_def same_ident_def json_secret_def secret_json_def json_field_def json_str_def
      empty_meta_def)

definition no_passwords :: generateFunc where
  "no_passwords = (\<lambda>_ _ _ _ _ _ _. Inl (ErrMsg []))"

theorem es_secret_writes_example:
  "performs (es_call (akeyless_world (\<lambda>_. Inl not_found) no_passwords (\<lambda>h ns r. Inl not_found) stored_world)
       sample_es_reconciler sample_es)
    (reconcileSecret (akeyless_world (\<lambda>_. Inl not_found) no_passwords (\<lambda>h ns r. Inl not_found) stored_world)
       sample_es_reconciler sample_es 0)"
proof -
  have "plain_targets sample_es" by (simp add: plain_targets_def sample_es_def sample_es_target_def)
  from es_secret_writes [OF stored_world_laws(1,2) this stored_world_laws(3)] show ?thesis .
qed

end
