(* ===== verification/Es_Refresh_Laws.thy ===== *)
theory Es_Refresh_Laws
  imports Es_Refresh
begin

text \<open>
  What holds of the refresh decisions of ExternalSecrets: one condition per type, when a resource is
  refreshed and requeued, what its recorded version stands for, and which keys a logged change names.
\<close>

section \<open>Conditions\<close>

lemma get_condition_filter:
  "get_condition (filterOutCondition cs ty) ty' = (if ty' = ty then None else get_condition cs ty')"
  by (induction cs) (auto simp: get_condition_def filterOutCondition_def)

lemma get_condition_append:
  "get_condition (cs @ [c]) ty
   = (case get_condition cs ty of Some d \<Rightarrow> Some d | None \<Rightarrow> if cond_Type c = ty then Some c else None)"
  by (induction cs) (auto simp: get_condition_def)

lemma get_condition_type: "get_condition cs ty = Some c \<Longrightarrow> cond_Type c = ty"
  by (auto simp: get_condition_def find_Some_iff)

lemma distinct_filterOut:
  "distinct (map cond_Type cs) \<Longrightarrow>
   distinct (map cond_Type (filterOutCondition cs ty)) \<and> ty \<notin> cond_Type ` set (filterOutCondition cs ty)"
  by (auto simp: filterOutCondition_def distinct_map_filter)

lemma distinct_put_condition:
  assumes "distinct (map cond_Type cs)"
  shows "distinct (map cond_Type (put_condition cs c))"
  using assms distinct_filterOut [OF assms, of "cond_Type c"]
  by (auto simp: put_condition_def split: option.splits)

definition recorded :: "SecretCondition list \<Rightarrow> SecretCondition \<Rightarrow> SecretCondition" where
  "recorded cs c = c\<lparr>cond_LastTransitionTime := (case get_condition cs (cond_Type c) of
     None \<Rightarrow> cond_LastTransitionTime c
   | Some d \<Rightarrow> if cond_Status d = cond_Status c then cond_LastTransitionTime d
               else cond_LastTransitionTime c)\<rparr>"

lemma get_put_condition:
  "get_condition (put_condition cs c) ty
   = (if ty = cond_Type c then Some (recorded cs c) else get_condition cs ty)"
proof (cases "get_condition cs (cond_Type c)")
  case None
  then show ?thesis
    by (auto simp: put_condition_def get_condition_append get_condition_filter recorded_def
        split: option.splits)
next
  case (Some d)
  have "cond_Type d = cond_Type c" using Some by (rule get_condition_type)
  then have "cond_Status d = cond_Status c \<and> cond_Reason d = cond_Reason c
      \<and> cond_Message d = cond_Message c \<Longrightarrow> d = recorded cs c"
    using Some by (simp add: recorded_def)
  then show ?thesis using Some
    by (auto simp: put_condition_def get_condition_append get_condition_filter recorded_def
        split: option.splits)
qed

text \<open>
  Conditions of an ExternalSecret.  Setting a condition keeps one condition per type, leaves
  the conditions of other types alone, and records the new one with the time of the last change of
  its status: as long as the status stays the same the earlier time is kept.
\<close>

theorem es_conditions:
  assumes "distinct (map cond_Type (est_Conditions (es_Status es)))"
  shows "distinct (map cond_Type (est_Conditions (es_Status (SetExternalSecretCondition es c))))
    \<and> (\<forall>ty. get_condition (est_Conditions (es_Status (SetExternalSecretCondition es c))) ty
         = (if ty = cond_Type c then Some (recorded (est_Conditions (es_Status es)) c)
            else get_condition (est_Conditions (es_Status es)) ty))"
  using assms by (simp add: SetExternalSecretCondition_def distinct_put_condition get_put_condition)

theorem es_conditions_example:
  "distinct (map cond_Type (est_Conditions (es_Status (SetExternalSecretCondition sample_es
     (NewExternalSecretCondition 7 ExternalSecretReady ConditionTrue ''SecretSynced'' ''secret synced'')))))"
  by (rule es_conditions [THEN conjunct1]) (simp add: sample_es_def)

section \<open>Refreshing and requeueing\<close>

definition periodic :: "ExternalSecret \<Rightarrow> bool" where
  "periodic es \<longleftrightarrow> esp_RefreshPolicy (es_Spec es) \<noteq> RefreshPolicyCreatedOnce
     \<and> esp_RefreshPolicy (es_Spec es) \<noteq> RefreshPolicyOnChange"

lemma GetResourceVersion_not_Nil [simp]: "GetResourceVersion E m \<noteq> []"
  by (simp add: GetResourceVersion_def)

text \<open>
  Refreshing on time.  A periodic ExternalSecret that was synced at \<open>r\<close> and has not changed
  is refreshed exactly after its interval; a reconcile before the end of the interval comes back
  when it ends, a later one at once, so no refresh is put off by another interval.
\<close>

theorem es_refresh_window:
  assumes "periodic es" and "esp_RefreshInterval (es_Spec es) = Some i" and "0 < i"
    and "est_RefreshTime (es_Status es) = Some r" and "r \<le> t"
    and "est_SyncedResourceVersion (es_Status es) = GetResourceVersion E (es_Meta es)"
  shows "es_shouldRefresh E t es = GoRet (r + i < t)
    \<and> getRequeueResult R t es = (if t < r + i then requeue_after (r + i - t) else requeue_now)"
  using assms
  by (auto simp: es_shouldRefresh_def es_shouldRefreshPeriodic_def periodic_def getRequeueResult_def Let_def
      algebra_simps)

definition sample_synced_es :: ExternalSecret where
  "sample_synced_es = sample_es\<lparr>es_Status := (es_Status sample_es)\<lparr>est_RefreshTime := Some 5,
     est_SyncedResourceVersion := GetResourceVersion sample_env (es_Meta sample_es)\<rparr>\<rparr>"

theorem es_refresh_window_example:
  "getRequeueResult sample_es_reconciler (5 + hour) sample_synced_es = requeue_now"
proof -
  have "periodic sample_synced_es" "esp_RefreshInterval (es_Spec sample_synced_es) = Some hour"
    "(0 :: int) < hour" "est_RefreshTime (es_Status sample_synced_es) = Some 5" "(5 :: int) \<le> 5 + hour"
    "est_SyncedResourceVersion (es_Status sample_synced_es)
       = GetResourceVersion sample_env (es_Meta sample_synced_es)"
    by (simp_all add: periodic_def sample_synced_es_def sample_es_def duration_units)
  from es_refresh_window [OF this, of sample_es_reconciler] show ?thesis by simp
qed

section \<open>The recorded version\<close>

text \<open>
  The two maps of the metadata as printed are told apart when no key holds a colon, a blank or a
  bracket and no value a blank or a bracket.
\<close>

definition plain_entry :: "string \<times> string \<Rightarrow> bool" where
  "plain_entry e \<longleftrightarrow> CHR '':'' \<notin> set (fst e) \<and> CHR '' '' \<notin> set (fst e) \<and> CHR '']'' \<notin> set (fst e)
     \<and> CHR '' '' \<notin> set (snd e) \<and> CHR '']'' \<notin> set (snd e)"

definition plain_meta :: "ObjectMeta \<Rightarrow> bool" where
  "plain_meta m \<longleftrightarrow> list_all plain_entry (om_Labels m) \<and> list_all plain_entry (om_Annotations m)
     \<and> distinct (map fst (om_Labels m)) \<and> distinct (map fst (om_Annotations m))
     \<and> 0 \<le> om_Generation m"

definition entry_text :: "string \<times> string \<Rightarrow> string" where
  "entry_text e = fst e @ CHR '':'' # snd e"

lemma map_text_alt: "map_text m = ''map['' @ join_with '' '' (map entry_text (sort_key fst m)) @ '']''"
  by (simp add: map_text_def entry_text_def [abs_def] case_prod_unfold)

lemma entry_text_inj:
  assumes "plain_entry a" "plain_entry b" "entry_text a = entry_text b"
  shows "a = b"
proof -
  have "fst a = fst b \<and> snd a = snd b"
    by (rule split_at_char [where c = "CHR '':''"]) (use assms in \<open>simp_all add: plain_entry_def entry_text_def\<close>)
  then show ?thesis by (simp add: prod_eq_iff)
qed

lemma map_text_inj:
  assumes "list_all plain_entry a" "list_all plain_entry b"
    and "join_with '' '' (map entry_text (sort_key fst a)) = join_with '' '' (map entry_text (sort_key fst b))"
  shows "sort_key fst a = sort_key fst b"
proof -
  let ?a = "sort_key fst a" and ?b = "sort_key fst b"
  have pl: "x \<in> set ?a \<or> x \<in> set ?b \<Longrightarrow> plain_entry x" for x
    using assms(1,2) by (auto simp: list_all_iff)
  have "map entry_text ?a = map entry_text ?b"
    by (rule join_with_inj [OF _ _ assms(3)]) (use pl in \<open>fastforce simp: entry_text_def plain_entry_def\<close>)+
  moreover have "inj_on entry_text (set ?a \<union> set ?b)"
    by (rule inj_onI) (blast intro: entry_text_inj pl)
  ultimately show ?thesis by (rule map_inj_on)
qed

lemma sort_key_eq_map_eq:
  assumes "sort_key fst a = sort_key fst b" "distinct (map fst a)" "distinct (map fst b)"
  shows "map_eq a b"
proof -
  have "set a = set b" using assms(1) by (metis set_sort)
  then show ?thesis using assms by (simp add: map_eq_set_iff)
qed

lemma no_bracket:
  assumes "list_all plain_entry a"
  shows "CHR '']'' \<notin> set (join_with '' '' (map entry_text (sort_key fst a)))"
proof -
  have "CHR '']'' \<notin> set (entry_text e)" if "e \<in> set a" for e
    using assms that by (auto simp: list_all_iff plain_entry_def entry_text_def)
  then show ?thesis using set_join_with [of "'' ''" "map entry_text (sort_key fst a)"] by auto
qed

lemma meta_text_inj:
  assumes "plain_meta m" "plain_meta n" "meta_text m = meta_text n"
  shows "map_eq (om_Labels m) (om_Labels n) \<and> map_eq (om_Annotations m) (om_Annotations n)"
proof -
  let ?t = "\<lambda>a. join_with '' '' (map entry_text (sort_key fst a))"
  have e: "?t (om_Annotations m) @ CHR '']'' # '' labels:map['' @ ?t (om_Labels m) @ '']}''
      = ?t (om_Annotations n) @ CHR '']'' # '' labels:map['' @ ?t (om_Labels n) @ '']}''"
    using assms(3) by (simp add: meta_text_def map_text_alt)
  have a: "?t (om_Annotations m) = ?t (om_Annotations n)
      \<and> '' labels:map['' @ ?t (om_Labels m) @ '']}'' = '' labels:map['' @ ?t (om_Labels n) @ '']}''"
    by (rule split_at_char [OF _ _ e]) (use assms no_bracket in \<open>simp_all add: plain_meta_def\<close>)
  then have l: "?t (om_Labels m) = ?t (om_Labels n)" by simp
  from map_text_inj [OF _ _ l] map_text_inj [OF _ _ a [THEN conjunct1]] show ?thesis
    using assms(1,2) by (simp add: plain_meta_def sort_key_eq_map_eq)
qed

lemma map_eq_sort:
  assumes "map_eq a b" "distinct (map fst a)" "distinct (map fst b)"
  shows "sort_key fst a = sort_key fst b"
proof (rule map_sorted_distinct_set_unique [where f = fst])
  have s: "set a = set b" using assms by (simp add: map_eq_set_iff)
  then show "inj_on fst (set (sort_key fst a) \<union> set (sort_key fst b))"
    using assms(2) by (simp add: distinct_map)
  show "set (sort_key fst a) = set (sort_key fst b)" using s by simp
qed (use assms in \<open>simp_all add: distinct_map\<close>)

text \<open>
  The recorded version.  With a collision-free hash and metadata whose keys and values hold no
  blanks and brackets, two versions agree exactly when generation, labels and annotations do: a
  change of any of them makes an ExternalSecret due.  Annotations with blanks do collide.
\<close>

theorem es_version_iff:
  assumes "inj (sha3_224 E)" and "plain_meta m" and "plain_meta n"
  shows "GetResourceVersion E m = GetResourceVersion E n \<longleftrightarrow>
     om_Generation m = om_Generation n \<and> map_eq (om_Labels m) (om_Labels n)
     \<and> map_eq (om_Annotations m) (om_Annotations n)"
proof
  assume "GetResourceVersion E m = GetResourceVersion E n"
  then have e: "show_nat (nat (om_Generation m)) @ CHR ''-'' # HashMeta E m
      = show_nat (nat (om_Generation n)) @ CHR ''-'' # HashMeta E n"
    using assms by (simp add: GetResourceVersion_def show_int_def plain_meta_def)
  have "CHR ''-'' \<notin> set (show_nat k)" for k
    using show_nat_digits [of "CHR ''-''" k] by (auto simp: is_digit_char_def)
  from split_at_char [OF this this e]
  have "nat (om_Generation m) = nat (om_Generation n)" and "meta_text m = meta_text n"
    using assms(1) by (auto dest: show_nat_inj simp: HashMeta_def ObjectHash_eq_iff)
  with assms meta_text_inj show "om_Generation m = om_Generation n \<and> map_eq (om_Labels m) (om_Labels n)
     \<and> map_eq (om_Annotations m) (om_Annotations n)"
    by (auto simp: plain_meta_def)
next
  assume "om_Generation m = om_Generation n \<and> map_eq (om_Labels m) (om_Labels n)
     \<and> map_eq (om_Annotations m) (om_Annotations n)"
  with assms have "sort_key fst (om_Labels m) = sort_key fst (om_Labels n)"
    "sort_key fst (om_Annotations m) = sort_key fst (om_Annotations n)" "om_Generation m = om_Generation n"
    by (simp_all add: plain_meta_def map_eq_sort)
  then have "meta_text m = meta_text n" "om_Generation m = om_Generation n"
    by (simp_all add: meta_text_def map_text_def)
  then show "GetResourceVersion E m = GetResourceVersion E n"
    by (simp add: GetResourceVersion_def HashMeta_def)
qed

text \<open>Annotations may hold blanks, and then different annotations can print as the same text.\<close>

definition blank_meta :: ObjectMeta where
  "blank_meta = empty_meta\<lparr>om_Annotations := [(''a'', ''x b:y'')]\<rparr>"

definition split_meta :: ObjectMeta where
  "split_meta = empty_meta\<lparr>om_Annotations := [(''a'', ''x''), (''b'', ''y'')]\<rparr>"

lemma es_version_collides: "GetResourceVersion E blank_meta = GetResourceVersion E split_meta"
proof -
  have "meta_text blank_meta = meta_text split_meta" by code_simp
  then show ?thesis by (simp add: GetResourceVersion_def HashMeta_def blank_meta_def split_meta_def empty_meta_def)
qed

theorem es_version_iff_example:
  "inj (sha3_224 sample_env) \<and> plain_meta sample_meta
   \<and> GetResourceVersion sample_env sample_meta = GetResourceVersion sample_env sample_meta"
proof -
  have i: "inj (sha3_224 sample_env)" by (simp add: sample_env_def)
  have p: "plain_meta sample_meta" by (simp add: plain_meta_def sample_meta_def empty_meta_def)
  from es_version_iff [OF i p p] i p show ?thesis by simp
qed

section \<open>Changed keys\<close>

lemma diff_new_app:
  "diff_new ob nw (a, u, e) =
     (a @ map fst (filter (\<lambda>(k, v). mget ob k = None) nw),
      u @ map fst (filter (\<lambda>(k, v). mget ob k \<noteq> None \<and> mget ob k \<noteq> Some v) nw),
      e @ map fst (filter (\<lambda>(k, v). mget ob k \<noteq> Some v \<and> v = []) nw))"
  by (induction nw arbitrary: a u e) (auto simp: Let_def split: option.splits)

lemma mem_filter_fst:
  "distinct (map fst m) \<Longrightarrow> k \<in> set (map fst (filter (\<lambda>(k, v). P k v) m)) \<longleftrightarrow> (\<exists>v. mget m k = Some v \<and> P k v)"
  by force

text \<open>
  The logged change.  For two data maps the four sorted lists are exactly the keys that are new,
  that have another value, that are gone, and that are new or changed and empty now; a key is in at
  most one of the first three.
\<close>

theorem diff_keys:
  assumes "distinct (map fst oldData)" and "distinct (map fst newData)"
    and "diffSecretDataKeys oldData newData = (added, updated, removed, emptied)"
  shows "set added = dom (mget newData) - dom (mget oldData)
    \<and> set updated = {k \<in> dom (mget newData) \<inter> dom (mget oldData). mget newData k \<noteq> mget oldData k}
    \<and> set removed = dom (mget oldData) - dom (mget newData)
    \<and> set emptied = {k \<in> set added \<union> set updated. mget newData k = Some []}
    \<and> sorted added \<and> sorted updated \<and> sorted removed \<and> sorted emptied"
proof -
  let ?f = "\<lambda>P. sort (map fst (filter (\<lambda>(k, v). P k v) newData))"
  have e: "added = ?f (\<lambda>k v. mget oldData k = None)"
    "updated = ?f (\<lambda>k v. mget oldData k \<noteq> None \<and> mget oldData k \<noteq> Some v)"
    "emptied = ?f (\<lambda>k v. mget oldData k \<noteq> Some v \<and> v = [])"
    "removed = sort (filter (\<lambda>key. mget newData key = None) (mkeys oldData))"
    using assms(3) by (simp_all add: diffSecretDataKeys_def diff_new_app)
  have "set (?f P) = {k. \<exists>v. mget newData k = Some v \<and> P k v}" for P
    using mem_filter_fst [OF assms(2)] by (simp add: set_eq_iff)
  moreover have "set removed = dom (mget oldData) - dom (mget newData)"
    unfolding e(4) by (auto simp: mkeys_def dom_map_of_conv_image_fst map_of_eq_None_iff)
  ultimately show ?thesis unfolding e(1-3) by (auto simp: e(4))
qed

theorem diff_keys_example:
  "diffSecretDataKeys [(''a'', ''1''), (''b'', ''2'')] [(''b'', []), (''c'', ''3'')]
     = ([''c''], [''b''], [''a''], [''b''])
   \<and> set [''b''] = {k \<in> set [''c''] \<union> set [''b'']. mget [(''b'', []), (''c'', ''3'')] k = Some []}"
proof -
  have d: "diffSecretDataKeys [(''a'', ''1''), (''b'', ''2'')] [(''b'', []), (''c'', ''3'')]
     = ([''c''], [''b''], [''a''], [''b''])" by code_simp
  have "distinct (map fst [(''a'', ''1''), (''b'', ''2'')])" "distinct (map fst [(''b'', []), (''c'', ''3'')])"
    by simp_all
  from diff_keys [OF this d] d show ?thesis by blast
qed

end
