(* ===== verification/Es_Laws.thy ===== *)
theory Es_Laws
  imports Es_Writes Es_Refresh_Laws
begin

text \<open>
  More of what a reconcile of an ExternalSecret does: which Secrets it leaves alone and which not,
  that it comes back or says why not, that it settles, and which labels it cannot remove.
\<close>

section \<open>Secrets of others\<close>

lemma history_grows:
  "performs P m \<Longrightarrow> c \<in> set h \<Longrightarrow> c \<in> set (snd (run_state m h))"
  unfolding performs_def by (metis Un_iff set_append)

lemma mutation_of_foreign:
  assumes "owner_refs_only W" and "converter_keeps W" and "plain_targets es" and "foreign es (sec_Meta ex)"
  shows "keeps quiet (\<lambda>r. \<exists>e. r = Inl e) (mutationFunc W es data ex)"
  using mutationFunc_yields [OF assms(1-3)] unfolding yields_def
  by (rule keeps_weaken) (use assms(4) in \<open>auto simp: mutated_def split: sum.splits intro: sum.exhaust\<close>)

lemma performs_update_foreign:
  assumes "owner_refs_only W" and "converter_keeps W" and "plain_targets es"
    and "om_UID (sec_Meta ex) \<noteq> []" and "foreign es (sec_Meta ex)"
  shows "keeps quiet (\<lambda>(r, e). \<exists>x. r = Some x) (updateSecret W ex (mutationFunc W es data) es name)"
  unfolding updateSecret_def Let_def
  by (rule keeps_if, simp add: keeps_ret, rule keeps_bind [OF mutation_of_foreign [OF assms(1-3,5)]])
    (auto intro!: keeps_ret)

lemma performs_foreign_policy:
  assumes "owner_refs_only W" and "converter_keeps W" and "plain_targets es"
    and "om_UID (sec_Meta ex) \<noteq> []" and "foreign es (sec_Meta ex)"
  shows "performs (orphan_call W es) (applyPolicy W R es start ex (target_name es) data)"
proof -
  have q: "performs (orphan_call W es) m" if "quietly Q m" for Q and m :: "'a io"
    using that unfolding quietly_def by (rule performs_mono [OF keeps_performs]) (simp add: orphan_call_def)
  have u: "performs (orphan_call W es) (updateSecret W ex (mutationFunc W es data) es (target_name es))"
    by (rule performs_mono [OF keeps_performs [OF performs_update_foreign [OF assms]]]) (simp add: orphan_call_def)
  have r: "performs (orphan_call W es) (report_write W R start r e)" for r e
    by (rule q [OF quietly_report_write [OF same_spec_refl]])
  show ?thesis
    unfolding applyPolicy_def Let_def create_or_update_def es_failSecret_def
    by (intro performs_intros performs_orphans q [OF quietly_done] q [OF quietly_failed] u r)
      (simp_all add: assms(4) u)
qed

text \<open>
  The calls that leave the data of the target as they are.  Two of them concern the target: the label
  that makes it visible in the cache is put on it before its owner is looked at, and it is deleted when
  both policies say so.
\<close>

definition labels_target :: "EsEnv \<Rightarrow> ExternalSecret \<Rightarrow> Call \<Rightarrow> bool" where
  "labels_target W es c \<longleftrightarrow> (\<exists>h m. getSecretMeta W h (om_Namespace (es_Meta es)) (target_name es) = Inr m
     \<and> mget_str (om_Labels m) EsLabelManaged \<noteq> EsLabelManagedValue
     \<and> c = CAs (fqdnFor (world W) (om_Name (es_Meta es)))
         (CPatch (OSecretMeta (m\<lparr>om_Labels := mput EsLabelManaged EsLabelManagedValue (om_Labels m)\<rparr>))))"

definition deletes_target :: "ExternalSecret \<Rightarrow> Call \<Rightarrow> bool" where
  "deletes_target es c \<longleftrightarrow> etg_DeletionPolicy (esp_Target (es_Spec es)) = DeletionPolicyDelete
     \<and> creation es = CreatePolicyOwner \<and> (\<exists>s. c = CDelete (OSecret s) \<and> at_target es (sec_Meta s))"

definition spares :: "EsEnv \<Rightarrow> EsReconciler \<Rightarrow> ExternalSecret \<Rightarrow> Call \<Rightarrow> bool" where
  "spares W R es c \<longleftrightarrow> orphan_call W es c \<or> rcl_EnableGeneratorState R \<and> state_write c
     \<or> (\<exists>es'. c = CStatusUpdate (OES es') \<and> same_spec es es') \<or> labels_target W es c \<or> deletes_target es c"

lemma spares_quiet [simp]: "quiet c \<Longrightarrow> spares W R es c"
  by (simp add: spares_def orphan_call_def)

text \<open>The target exists, and another ExternalSecret controls it whenever it is read.\<close>

definition foreign_target :: "EsEnv \<Rightarrow> ExternalSecret \<Rightarrow> bool" where
  "foreign_target W es \<longleftrightarrow> (\<forall>h. (case getSecretMeta W h (om_Namespace (es_Meta es)) (target_name es) of
       Inl e \<Rightarrow> \<not> is_not_found e | Inr m \<Rightarrow> om_UID m \<noteq> [])
     \<and> (\<forall>s. getManagedSecret W h (om_Namespace (es_Meta es)) (target_name es) = Inr s
         \<or> getSecretDirect W h (om_Namespace (es_Meta es)) (target_name es) = Inr s \<longrightarrow> foreign es (sec_Meta s)))"

text \<open>A Secret that was read as the one in the cache is controlled by another.\<close>

definition seen_foreign :: "ExternalSecret \<Rightarrow> K8sSecret \<Rightarrow> bool" where
  "seen_foreign es s \<longleftrightarrow> om_UID (sec_Meta s) \<noteq> [] \<longrightarrow> foreign es (sec_Meta s) \<and> at_target es (sec_Meta s)"

lemma seen_no_secret [simp]: "seen_foreign es no_secret"
  by (simp add: seen_foreign_def no_secret_def empty_meta_def)

lemma keeps_resolve_foreign:
  assumes "foreign_target W es" and "answers_named W" and "seen_foreign es cached" and "om_UID p \<noteq> []"
  shows "keeps quiet (\<lambda>v. \<forall>s. v = Synced s \<longrightarrow> om_UID (sec_Meta s) \<noteq> [] \<and> seen_foreign es s)
    (resolveSecretCacheMismatch W R (om_Namespace (es_Meta es)) (target_name es) p cached)"
proof -
  have r: "keeps quiet (\<lambda>r. \<forall>s. r = Inr s \<longrightarrow> seen_foreign es s)
      (if rcl_HasAPIReader R then es_get_direct W (om_Namespace (es_Meta es)) (target_name es)
       else es_get_managed W (om_Namespace (es_Meta es)) (target_name es))"
    using assms(1,2) unfolding foreign_target_def answers_named_def seen_foreign_def at_target_def keeps_def traces_def
      es_get_direct_def es_get_managed_def
    by (auto simp: quiet_def)
  have z: "om_UID (sec_Meta no_secret) = []" by (simp add: no_secret_def empty_meta_def)
  show ?thesis
    unfolding resolveSecretCacheMismatch_def
    by (intro keeps_if keeps_ret keeps_bind [OF r])
      (use assms(3,4) z in \<open>auto simp: same_object_def split: sum.splits if_splits\<close>)
qed

context es_sources
begin

lemma performs_foreign_sync:
  assumes "owner_refs_only W" and "converter_keeps W" and "plain_targets es"
    and "om_UID (sec_Meta ex) \<noteq> []" and "seen_foreign es ex"
  shows "performs (spares W R es) (syncTarget W R es start ex (target_name es))"
proof -
  have f: "foreign es (sec_Meta ex)" "at_target es (sec_Meta ex)"
    using assms(4,5) by (simp_all add: seen_foreign_def)
  have q: "performs (spares W R es) m" if "quietly Q m" for Q and m :: "'a io"
    using that unfolding quietly_def by (rule performs_mono [OF keeps_performs]) simp
  have d: "performs (spares W R es) (GetProviderSecretData W R es)"
    by (rule performs_mono [OF performs_GetProviderSecretData]) (auto simp: spares_def orphan_call_def)
  have p: "performs (spares W R es) (applyPolicy W R es start ex (target_name es) x)" for x
    by (rule performs_mono [OF performs_foreign_policy [OF assms(1-4) f(1)]]) (simp add: spares_def)
  have t: "performs (spares W R es) (deleteTarget W R es start ex (target_name es))"
    if "etg_DeletionPolicy (esp_Target (es_Spec es)) = DeletionPolicyDelete"
    unfolding deleteTarget_def Let_def creation_def [symmetric] es_defs k_defs es_failSecret_def
    by (intro performs_intros q [OF quietly_failed] q [OF quietly_done])
      (use that f(2) in \<open>auto simp: spares_def deletes_target_def orphan_call_def quiet_def\<close>)
  show ?thesis
    unfolding syncTarget_def es_failSecret_def
    by (intro performs_intros d q [OF quietly_failed] q [OF quietly_done] t p) simp
qed

lemma keeps_foreign_sync:
  assumes "owner_refs_only W" and "converter_keeps W" and "plain_targets es"
    and "om_UID (sec_Meta ex) \<noteq> []" and "seen_foreign es ex"
  shows "keeps (spares W R es) (\<lambda>(r, e). same_spec es e) (syncTarget W R es start ex (target_name es))"
proof -
  have "target_or_none es ex" using assms(5) by (simp add: target_or_none_def seen_foreign_def)
  with mutationFunc_yields [OF assms(1-3)]
  have "keeps (es_call W R es) (\<lambda>(r, e). same_spec es e) (syncTarget W R es start ex (target_name es))"
    by (rule keeps_syncTarget)
  with performs_foreign_sync [OF assms] show ?thesis
    unfolding keeps_def traces_def performs_def by (metis (no_types, lifting) append_same_eq snd_conv)
qed

lemma performs_spared:
  assumes "owner_refs_only W" and "converter_keeps W" and "plain_targets es"
    and "answers_named W" and "foreign_target W es"
  shows "performs (spares W R es) (reconcileSecret W R es start)"
proof -
  let ?ns = "om_Namespace (es_Meta es)" and ?n = "target_name es"
  have p: "keeps (spares W R es) (\<lambda>r. (\<exists>h. r = getSecretMeta W h ?ns ?n)) (es_get_meta W ?ns ?n)"
    unfolding keeps_def traces_def es_get_meta_def by auto
  have x: "keeps (spares W R es) (\<lambda>r. \<forall>s. r = Inr s \<longrightarrow> seen_foreign es s) (es_get_managed W ?ns ?n)"
    using assms(4,5) unfolding answers_named_def foreign_target_def seen_foreign_def at_target_def keeps_def traces_def
      es_get_managed_def by auto
  have l: "performs (spares W R es) (label_partial W es m)"
    if "getSecretMeta W h ?ns ?n = Inr m" "mget_str (om_Labels m) EsLabelManaged \<noteq> EsLabelManagedValue" for h m
    unfolding label_partial_def es_defs k_defs
    by (intro performs_intros) (use that in \<open>auto simp: spares_def labels_target_def\<close>)
  have st: "performs (spares W R es) (with_secret_status W es (syncTarget W R es start s ?n))"
    if "om_UID (sec_Meta s) \<noteq> []" "seen_foreign es s" for s
    unfolding with_secret_status_def es_defs k_defs
    by (rule keeps_performs [where Q = "\<lambda>_. True"], rule keeps_bind [OF keeps_foreign_sync [OF assms(1-3) that]])
      (auto intro!: performs_keeps performs_intros simp: spares_def split: prod.splits)
  have f: "performs (spares W R es) (refreshSecret W R es start s)" if "om_UID (sec_Meta s) \<noteq> []" "seen_foreign es s" for s
    unfolding refreshSecret_def es_now_def
    by (intro performs_intros st [OF that]) (auto split: guarded.splits intro!: performs_intros st [OF that])
  have v: "performs (spares W R es) (case v of ReadError e \<Rightarrow> ret (GoRet (no_requeue, Some e))
      | NotSynced \<Rightarrow> ret (GoRet (requeue_after cacheSyncRetryDelay, None))
      | Synced s \<Rightarrow> refreshSecret W R es start s)" if "\<forall>s. v = Synced s \<longrightarrow> om_UID (sec_Meta s) \<noteq> [] \<and> seen_foreign es s" for v
    using that by (cases v) (auto intro!: performs_ret f)
  have full: "performs (spares W R es) (do {
      v \<leftarrow> resolveSecretCacheMismatch W R ?ns ?n m cached;
      case v of ReadError e \<Rightarrow> ret (GoRet (no_requeue, Some e))
      | NotSynced \<Rightarrow> ret (GoRet (requeue_after cacheSyncRetryDelay, None))
      | Synced s \<Rightarrow> refreshSecret W R es start s })" if "seen_foreign es cached" "om_UID m \<noteq> []" for m cached
    by (rule keeps_performs [where Q = "\<lambda>_. True"],
        rule keeps_bind [OF keeps_mono [OF keeps_resolve_foreign [OF assms(5,4) that] spares_quiet]])
      (auto intro!: performs_keeps v)
  show ?thesis
    unfolding reconcileSecret_def Let_def
  proof (rule keeps_performs [where Q = "\<lambda>_. True"], rule keeps_bind [OF p], goal_cases)
    case (1 r)
    then obtain h where h: "r = getSecretMeta W h ?ns ?n" by blast
    with assms(5) have "case r of Inl e \<Rightarrow> \<not> is_not_found e | Inr m \<Rightarrow> om_UID m \<noteq> []"
      unfolding foreign_target_def by blast
    with h l show ?case
      by (cases r) (auto intro!: performs_keeps performs_intros keeps_bind [OF x] full split: sum.splits if_splits)
  qed
qed

end

text \<open>
  C34: A Secret that another ExternalSecret controls keeps its data.  With templates that write only to data,
  labels and annotations, a reconcile whose target exists and is controlled by another ExternalSecret whenever
  it is read neither creates nor updates a Secret, whatever the creation policy.  All that it writes,
  apart from generator states and its own status, are the deletion of orphans, the managed label on
  a target that was read without it, which is put there whoever controls the target, and the deletion of the target
  if the deletion policy is Delete and the creation policy Owner.
\<close>

theorem es_owned_untouched:
  assumes "owner_refs_only W" and "converter_keeps W" and "plain_targets es" and "answers_named W"
    and "foreign_target W es"
  shows "performs (spares (akeyless_world parseSpec passGen resources W) R es)
    (reconcileSecret (akeyless_world parseSpec passGen resources W) R es start)"
proof (rule akl_es.performs_spared)
  let ?W = "akeyless_world parseSpec passGen resources W"
  show "answers_named ?W" using assms(4) by (simp add: answers_named_def akeyless_world_def)
  show "owner_refs_only ?W" "converter_keeps ?W"
    using assms(1,2) by (simp_all add: owner_refs_only_def converter_keeps_def akeyless_world_def)
  show "plain_targets es" by (rule assms(3))
  show "foreign_target ?W es" using assms(5) by (simp add: foreign_target_def akeyless_world_def)
qed

text \<open>
  C38: Deleting is not guarded so.  When the sources give no data, the deletion policy is Delete and the
  creation policy Owner, the target is deleted whoever controls it.
\<close>

theorem es_deletes_foreign:
  assumes "run_state (GetProviderSecretData W R es) h = (Inr [], h1)"
    and "etg_DeletionPolicy (esp_Target (es_Spec es)) = DeletionPolicyDelete"
    and "creation es = CreatePolicyOwner" and "om_UID (sec_Meta ex) \<noteq> []"
  shows "CDelete (OSecret ex) \<in> set (snd (run_state (syncTarget W R es start ex name) h))"
proof -
  let ?d = "CDelete (OSecret ex)"
  have q: "performs quiet m" if "quietly Q m" for Q and m :: "(outcome \<times> ExternalSecret) io"
    using that unfolding quietly_def by (rule keeps_performs)
  define rest where "rest = (\<lambda>w. case delete_error w of
      Some e \<Rightarrow> es_failSecret W es ''could not delete secret'' e (Some e)
    | None \<Rightarrow> do {
        _ \<leftarrow> k_event ''Normal'' ''Deleted'' ''secret deleted due to DeletionPolicy=Delete'';
        es_done W R es start ''SecretDeleted'' ''secret deleted due to DeletionPolicy=Delete''
      })"
  have "performs quiet (rest w)" for w
    unfolding rest_def es_failSecret_def k_event_def
    by (intro performs_intros q [OF quietly_done] q [OF quietly_failed]) simp
  then have "?d \<in> set (snd (run_state (rest w) (?d # h1)))" for w
    by (rule history_grows) simp
  moreover have "snd (run_state (syncTarget W R es start ex name) h)
      = snd (run_state (rest (writeErr (world W) (?d # h1))) (?d # h1))"
    using assms by (simp add: syncTarget_def deleteTarget_def creation_def rest_def es_defs k_defs)
  ultimately show ?thesis by simp
qed


definition other_owner :: OwnerReference where
  "other_owner = \<lparr>owr_APIVersion = ''external-secrets.io/v1'', owr_Kind = ''ExternalSecret'',
     owr_Name = ''other'', owr_UID = ''uid2'', owr_Controller = Some True\<rparr>"

definition others_secret :: K8sSecret where
  "others_secret = upd_meta (\<lambda>m. m\<lparr>om_OwnerReferences := [other_owner]\<rparr>) (stored_secret ''app'' ''db'')"

lemma others_secret_facts: "om_UID (sec_Meta others_secret) \<noteq> []" "foreign sample_es (sec_Meta others_secret)"
  by (simp_all add: others_secret_def upd_meta_def stored_secret_def stored_meta_def foreign_def GetControllerOf_def
      other_owner_def group_kind_def ExtSecretGroupKind_def api_group_def sample_es_def sample_meta_def)

definition merging_es :: ExternalSecret where
  "merging_es = sample_es\<lparr>es_Spec := (es_Spec sample_es)\<lparr>esp_Target := sample_es_target\<lparr>
     etg_DeletionPolicy := DeletionPolicyMerge\<rparr>\<rparr>\<rparr>"

definition foreign_world :: EsEnv where
  "foreign_world = stored_world\<lparr>
     getManagedSecret := (\<lambda>h ns n. Inr (upd_meta (\<lambda>m. m\<lparr>om_OwnerReferences := [other_owner]\<rparr>) (stored_secret ns n))),
     getSecretDirect := (\<lambda>h ns n. Inr (upd_meta (\<lambda>m. m\<lparr>om_OwnerReferences := [other_owner]\<rparr>) (stored_secret ns n)))\<rparr>"

lemma foreign_world_laws:
  "owner_refs_only foreign_world" "converter_keeps foreign_world" "answers_named foreign_world"
  "foreign_target foreign_world merging_es"
proof -
  show "owner_refs_only foreign_world" "converter_keeps foreign_world"
    using stored_world_laws(1,2) by (simp_all add: foreign_world_def owner_refs_only_def converter_keeps_def)
  show "answers_named foreign_world"
    using stored_world_laws(3) by (simp add: foreign_world_def answers_named_def upd_meta_def stored_world_def)
  have "foreign merging_es (om\<lparr>om_OwnerReferences := [other_owner]\<rparr>)" for om
    by (simp add: foreign_def GetControllerOf_def other_owner_def group_kind_def ExtSecretGroupKind_def api_group_def
        merging_es_def sample_es_def sample_meta_def)
  then show "foreign_target foreign_world merging_es"
    by (simp add: foreign_target_def foreign_world_def stored_world_def upd_meta_def stored_meta_def)
qed

definition is_status_update :: "Call \<Rightarrow> bool" where
  "is_status_update c = (case c of CStatusUpdate _ \<Rightarrow> True | _ \<Rightarrow> False)"

definition foreign_run :: history where
  "foreign_run = snd (run_state (reconcileSecret (akeyless_world (\<lambda>_. Inl not_found) no_passwords (\<lambda>h ns r. Inl not_found)
     foreign_world) sample_es_reconciler merging_es 0) [])"

theorem es_owned_untouched_example:
  "list_all (spares (akeyless_world (\<lambda>_. Inl not_found) no_passwords (\<lambda>h ns r. Inl not_found) foreign_world)
      sample_es_reconciler merging_es) foreign_run
   \<and> list_ex is_status_update foreign_run"
proof
  let ?W = "akeyless_world (\<lambda>_. Inl not_found) no_passwords (\<lambda>h ns r. Inl not_found) foreign_world"
  have "plain_targets merging_es" by (simp add: plain_targets_def merging_es_def sample_es_def sample_es_target_def)
  from es_owned_untouched [OF foreign_world_laws(1,2) this foreign_world_laws(3,4)]
  have "performs (spares ?W sample_es_reconciler merging_es) (reconcileSecret ?W sample_es_reconciler merging_es 0)" .
  then obtain cs where "foreign_run = cs @ []" "list_all (spares ?W sample_es_reconciler merging_es) cs"
    unfolding performs_def foreign_run_def by blast
  then show "list_all (spares ?W sample_es_reconciler merging_es) foreign_run" by simp
  show "list_ex is_status_update foreign_run" by code_simp
qed

definition deleting_es :: ExternalSecret where
  "deleting_es = sample_es\<lparr>es_Spec := (es_Spec sample_es)\<lparr>esp_Target := sample_es_target\<lparr>
     etg_DeletionPolicy := DeletionPolicyDelete\<rparr>\<rparr>\<rparr>"

theorem es_deletes_foreign_example:
  "foreign deleting_es (sec_Meta others_secret)
   \<and> CDelete (OSecret others_secret)
       \<in> set (snd (run_state (syncTarget stored_world sample_es_reconciler deleting_es 0 others_secret ''db'') []))"
proof -
  have "run_state (GetProviderSecretData stored_world sample_es_reconciler deleting_es) [] = (Inr [], [])"
    by (simp add: GetProviderSecretData_def sample_es_reconciler_def fetch_sources_def settle_states_def
        cm_Close_def NewManager_def deleting_es_def sample_es_def)
  moreover have "foreign deleting_es (sec_Meta others_secret)"
    using others_secret_facts(2) by (auto simp: foreign_def deleting_es_def split: option.splits)
  ultimately show ?thesis
    using others_secret_facts(1)
    by (auto intro!: es_deletes_foreign simp: deleting_es_def creation_def sample_es_target_def)
qed

section \<open>Coming back\<close>

text \<open>A property of what a program returns, whatever it calls.\<close>

definition returns :: "('a \<Rightarrow> bool) \<Rightarrow> 'a io \<Rightarrow> bool" where
  "returns Q m \<longleftrightarrow> (\<forall>h. Q (fst (run_state m h)))"

lemma returns_ret: "Q a \<Longrightarrow> returns Q (ret a)"
  by (simp add: returns_def)

lemma returns_bind: "(\<And>a. returns Q (f a)) \<Longrightarrow> returns Q (State_Monad.bind m f)"
  by (simp add: returns_def split: prod.splits)

lemma returns_bind_from: "returns P m \<Longrightarrow> (\<And>a. P a \<Longrightarrow> returns Q (f a)) \<Longrightarrow> returns Q (State_Monad.bind m f)"
  unfolding returns_def by (auto split: prod.splits) (metis fst_conv)

lemma returns_if: "(b \<Longrightarrow> returns Q m) \<Longrightarrow> (\<not> b \<Longrightarrow> returns Q n) \<Longrightarrow> returns Q (if b then m else n)"
  by simp

lemma returns_option:
  "returns Q m \<Longrightarrow> (\<And>a. returns Q (f a)) \<Longrightarrow> returns Q (case x of None \<Rightarrow> m | Some a \<Rightarrow> f a)"
  by (cases x) simp_all

lemma returns_sum:
  "(\<And>a. returns Q (f a)) \<Longrightarrow> (\<And>b. returns Q (g b)) \<Longrightarrow> returns Q (case x of Inl a \<Rightarrow> f a | Inr b \<Rightarrow> g b)"
  by (cases x) simp_all

lemma returns_Let: "returns Q (f x) \<Longrightarrow> returns Q (let y = x in f y)"
  by simp

lemmas returns_intros = returns_Let returns_ret returns_bind returns_if returns_option returns_sum

definition ready_false :: "ExternalSecret \<Rightarrow> bool" where
  "ready_false es \<longleftrightarrow> (case get_condition (est_Conditions (es_Status es)) ExternalSecretReady of
     None \<Rightarrow> False | Some c \<Rightarrow> cond_Status c = ConditionFalse)"

definition every :: "duration \<Rightarrow> ObjectMeta \<Rightarrow> ExternalSecret \<Rightarrow> bool" where
  "every i m es \<longleftrightarrow> esp_RefreshInterval (es_Spec es) = Some i \<and> es_Meta es = m"

definition goes_on :: "ObjectMeta \<Rightarrow> outcome \<times> ExternalSecret \<Rightarrow> bool" where
  "goes_on m x \<longleftrightarrow> snd (fst x) \<noteq> None \<or> fst (fst x) \<noteq> no_requeue \<or> ready_false (snd x) \<and> es_Meta (snd x) = m"

lemma requeues: "every i m es \<Longrightarrow> 0 < i \<Longrightarrow> getRequeueResult R t es \<noteq> no_requeue"
  by (auto simp: getRequeueResult_def every_def Let_def requeue_now_def requeue_after_def no_requeue_def
      split: option.splits)

lemma requeue_now_goes_on: "requeue_now \<noteq> no_requeue"
  by (simp add: requeue_now_def no_requeue_def)

lemma done_goes_on:
  assumes "every i m es" and "0 < i"
  shows "returns (goes_on m) (es_done W R es start reason msg)"
proof -
  have "returns (every i m) (es_markAsDone W es start reason msg)"
    using assms(1) unfolding es_markAsDone_def
    by (intro returns_intros) (simp add: every_def SetExternalSecretCondition_def)
  then show ?thesis
    unfolding es_done_def
    by (rule returns_bind_from) (auto intro!: returns_intros simp: goes_on_def requeues [OF _ assms(2)])
qed

lemma failed_goes_on:
  assumes "every i m es"
  shows "returns (goes_on m) (es_failed W es msg e reason x)"
proof -
  have "returns (\<lambda>es'. ready_false es' \<and> es_Meta es' = m) (es_markAsFailed W msg e es reason)"
    using assms unfolding es_markAsFailed_def
    by (intro returns_intros) (simp add: ready_false_def SetExternalSecretCondition_def every_def
        NewExternalSecretCondition_def get_put_condition recorded_def)
  then show ?thesis
    unfolding es_failed_def by (rule returns_bind_from) (auto intro!: returns_intros simp: goes_on_def)
qed

lemma report_goes_on:
  assumes "every i m es" and "0 < i"
  shows "returns (goes_on m) (report_write W R start r es)"
  unfolding report_write_def es_failSecret_def
  by (intro returns_intros done_goes_on [OF assms] failed_goes_on [OF assms(1)]) (simp add: goes_on_def requeue_now_goes_on)

lemma write_every:
  assumes "every i m es"
  shows "returns (\<lambda>(r, e). every i m e) (updateSecret W ex mutate es name)"
    "returns (\<lambda>(r, e). every i m e) (createSecret W mutate es name)"
  using assms unfolding updateSecret_def createSecret_def Let_def
  by (intro returns_intros; simp add: every_def set_binding_def)+

lemma written_goes_on:
  assumes "returns (\<lambda>(r, e). every i m e) x" and "0 < i"
  shows "returns (goes_on m) (do { (r, e) \<leftarrow> x; report_write W R start r e })"
  by (rule returns_bind_from [OF assms(1)]) (auto split: prod.splits intro: report_goes_on assms(2))

lemma policy_goes_on:
  assumes "every i m es" and "0 < i"
  shows "returns (goes_on m) (applyPolicy W R es start ex name data)"
  unfolding applyPolicy_def create_or_update_def es_failSecret_def Let_def
  by (intro returns_intros written_goes_on [OF _ assms(2)] write_every done_goes_on [OF assms]
      report_goes_on [OF assms] failed_goes_on [OF assms(1)] assms(1))

lemma sync_goes_on:
  assumes "every i m es" and "0 < i"
  shows "returns (goes_on m) (syncTarget W R es start ex name)"
  unfolding syncTarget_def deleteTarget_def es_failSecret_def Let_def
  by (intro returns_intros policy_goes_on [OF assms] done_goes_on [OF assms] failed_goes_on [OF assms(1)])

text \<open>The calls of a run are put before the history it started with.\<close>

abbreviation (input) grows :: "'a io \<Rightarrow> bool" where
  "grows m \<equiv> performs (\<lambda>_. True) m"

lemma grows_quietly: "quietly Q m \<Longrightarrow> grows m"
  unfolding quietly_def by (rule performs_mono [OF keeps_performs]) simp_all

lemma grows_MergeTemplateFrom: "grows (MergeTemplateFrom E p ns tfs s)"
  by (induction tfs arbitrary: s)
    (auto simp: MergeConfigMap_def MergeSecret_def k_defs intro!: performs_intros split: sum.split)

lemma grows_mutationFunc: "grows (mutationFunc W es data s)"
  unfolding mutationFunc_def Let_def ApplyTemplate_def run_template_def
  by (intro performs_intros grows_MergeTemplateFrom)

lemma grows_update_immutable: "grows (update_immutable W fo ex upd)"
  unfolding update_immutable_def Let_def es_defs k_defs by (intro performs_intros) simp_all

lemma grows_writes:
  "grows (createSecret W (mutationFunc W es data) es' name)"
  "grows (updateSecret W ex (mutationFunc W es data) es' name)"
  unfolding createSecret_def updateSecret_def Let_def es_defs k_defs
  by (intro performs_intros grows_mutationFunc grows_update_immutable; simp)+

lemma grows_orphans: "grows (deleteOrphanedSecrets W es name)"
proof -
  have "grows (delete_others W name ms)" for ms
    by (induction ms) (auto simp: es_defs k_defs intro!: performs_intros)
  then show ?thesis unfolding deleteOrphanedSecrets_def es_list_metas_def by (intro performs_intros) simp_all
qed

lemma grows_report: "grows (report_write W R start r es)"
  by (rule grows_quietly [OF quietly_report_write [OF same_spec_refl]])

lemma grows_policy: "grows (applyPolicy W R es start ex name data)"
  unfolding applyPolicy_def Let_def create_or_update_def es_failSecret_def
  by (intro performs_intros grows_writes grows_orphans grows_report
      grows_quietly [OF quietly_done] grows_quietly [OF quietly_failed])

lemma grows_deleteTarget: "grows (deleteTarget W R es start ex name)"
  unfolding deleteTarget_def Let_def es_failSecret_def es_defs k_defs
  by (intro performs_intros grows_quietly [OF quietly_done] grows_quietly [OF quietly_failed]) simp_all

text \<open>
  The status that was found shows a failure, or the last of the calls of the run is the update of the
  status of this resource to one that does.
\<close>

definition failure_reported :: "ExternalSecret \<Rightarrow> history \<Rightarrow> bool" where
  "failure_reported es cs \<longleftrightarrow> ready_false es
     \<or> (\<exists>es' cs'. cs = CStatusUpdate (OES es') # cs' \<and> es_Meta es' = es_Meta es \<and> ready_false es')"

definition reports_after :: "ExternalSecret \<Rightarrow> history \<Rightarrow> history \<Rightarrow> bool" where
  "reports_after es h h' \<longleftrightarrow> (\<exists>cs. h' = cs @ h \<and> failure_reported es cs)"

text \<open>A program that reports a failure when it ends without an error and a requeue.\<close>

definition reports :: "ExternalSecret \<Rightarrow> outcome guarded io \<Rightarrow> bool" where
  "reports es m \<longleftrightarrow> (\<forall>h h'. run_state m h = (GoRet (no_requeue, None), h') \<longrightarrow> reports_after es h h')"

lemma reports_ret: "a \<noteq> GoRet (no_requeue, None) \<Longrightarrow> reports es (ret a)"
  by (simp add: reports_def)

lemma reports_bind:
  assumes "grows m" and "\<And>a. reports es (f a)"
  shows "reports es (State_Monad.bind m f)"
  unfolding reports_def
proof (intro allI impI)
  fix h h'
  assume run: "run_state (State_Monad.bind m f) h = (GoRet (no_requeue, None), h')"
  obtain a h1 where m: "run_state m h = (a, h1)" by fastforce
  obtain cs where cs: "h1 = cs @ h" using performsE [OF assms(1) m] .
  have "reports_after es h1 h'" using assms(2) [of a] run m by (simp add: reports_def)
  then obtain ds where ds: "h' = (ds @ cs) @ h" "failure_reported es ds" by (auto simp: reports_after_def cs)
  from ds(2) have "failure_reported es (ds @ cs)" by (auto simp: failure_reported_def)
  with ds(1) show "reports_after es h h'" by (auto simp: reports_after_def)
qed

lemma reports_if: "(b \<Longrightarrow> reports es m) \<Longrightarrow> (\<not> b \<Longrightarrow> reports es n) \<Longrightarrow> reports es (if b then m else n)"
  by simp

lemma reports_sum:
  "(\<And>a. reports es (f a)) \<Longrightarrow> (\<And>b. reports es (g b)) \<Longrightarrow> reports es (case x of Inl a \<Rightarrow> f a | Inr b \<Rightarrow> g b)"
  by (cases x) simp_all

lemmas reports_intros = reports_if reports_sum reports_bind reports_ret

lemma status_goes_on:
  assumes "returns (goes_on (es_Meta es)) m" and "grows m"
    and "run_state (with_secret_status W es m) h = ((q, None), h')" and "q = no_requeue"
  shows "reports_after es h h'"
proof -
  obtain q0 e es' h1 where m: "run_state m h = (((q0, e), es'), h1)" by (metis prod.collapse)
  then have g: "goes_on (es_Meta es) ((q0, e), es')" using assms(1) by (auto simp: returns_def dest: spec [of _ h])
  obtain cs where cs: "h1 = cs @ h" using performsE [OF assms(2) m] .
  show ?thesis
  proof (cases "es_Status es' = es_Status es")
    case True
    with assms m g have "ready_false es" "h' = cs @ h"
      by (auto simp: with_secret_status_def goes_on_def ready_false_def cs)
    then show ?thesis by (auto simp: reports_after_def failure_reported_def)
  next
    case False
    with assms m g have "ready_false es' \<and> es_Meta es' = es_Meta es" "h' = (CStatusUpdate (OES es') # cs) @ h"
      by (auto simp: with_secret_status_def goes_on_def es_defs k_defs cs
          requeue_now_goes_on split: option.splits if_splits)
    then show ?thesis unfolding reports_after_def failure_reported_def by blast
  qed
qed

context es_sources
begin

lemma grows_sync: "grows (syncTarget W R es start ex name)"
  unfolding syncTarget_def es_failSecret_def
  by (intro performs_intros performs_mono [OF performs_GetProviderSecretData] TrueI grows_policy grows_deleteTarget
      grows_quietly [OF quietly_done] grows_quietly [OF quietly_failed])

lemma comes_back:
  assumes "esp_RefreshInterval (es_Spec es) = Some i" and "0 < i"
    and "run_state (reconcileSecret W R es start) h = (GoRet (q, None), h')" and "q = no_requeue"
  shows "reports_after es h h'"
proof -
  have e: "every i (es_Meta es) es" using assms(1) by (simp add: every_def)
  have q: "getRequeueResult R t es \<noteq> no_requeue" "requeue_after cacheSyncRetryDelay \<noteq> no_requeue" for t
    using requeues [OF e assms(2)] by (simp_all add: requeue_after_def no_requeue_def cacheSyncRetryDelay_def)
  have sync: "reports es (do { r \<leftarrow> with_secret_status W es (syncTarget W R es start ex (target_name es)); ret (GoRet r) })" for ex
    using status_goes_on [OF sync_goes_on [OF e assms(2)] grows_sync]
    by (auto simp: reports_def split: prod.splits)
  have refresh: "reports es (refreshSecret W R es start ex)" for ex
    unfolding refreshSecret_def es_now_def
    by (rule reports_bind, intro performs_intros)
      (auto intro!: reports_intros performs_intros sync simp: q split: guarded.split)
  have label: "reports es (do { r \<leftarrow> label_partial W es m; ret (GoRet r) })" for m
    using requeue_now_goes_on by (auto simp: reports_def label_partial_def split: option.splits prod.splits)
  have r: "grows (resolveSecretCacheMismatch W R ns n m s)" for ns n m s
    unfolding resolveSecretCacheMismatch_def es_get_direct_def es_get_managed_def by (intro performs_intros) simp_all
  have view: "reports es (case v of ReadError x \<Rightarrow> ret (GoRet (no_requeue, Some x))
      | NotSynced \<Rightarrow> ret (GoRet (requeue_after cacheSyncRetryDelay, None))
      | Synced s \<Rightarrow> refreshSecret W R es start s)" for v
    using q(2) refresh by (cases v) (auto intro!: reports_ret)
  have "reports es (reconcileSecret W R es start)"
    unfolding reconcileSecret_def Let_def es_get_meta_def es_get_managed_def
    by (intro reports_intros label r view performs_intros) simp_all
  with assms(3,4) show ?thesis by (simp add: reports_def)
qed

end

text \<open>
  C36: A reconcile comes back.  With a refresh interval that is set and positive, a reconcile of an ExternalSecret
  that ends without an error and without asking to be run again has a failure to show: the status
  it found has the condition Ready False, or its last call updates the status of this resource to one that has.
\<close>

theorem es_comes_back:
  assumes "esp_RefreshInterval (es_Spec es) = Some i" and "0 < i"
    and "run_state (reconcileSecret (akeyless_world parseSpec passGen resources W) R es start) h = (GoRet (no_requeue, None), h')"
  shows "\<exists>cs. h' = cs @ h \<and> failure_reported es cs"
  using akl_es.comes_back [OF assms refl] by (simp add: reports_after_def)

definition others_world :: EsEnv where
  "others_world = sample_es_env\<lparr>getSecretMeta := (\<lambda>h ns n. Inr (sec_Meta others_secret)),
     getManagedSecret := (\<lambda>h ns n. Inr others_secret)\<rparr>"

definition failing_run :: "outcome guarded \<times> history" where
  "failing_run = run_state (reconcileSecret (akeyless_world (\<lambda>_. Inl not_found) no_passwords (\<lambda>h ns r. Inl not_found)
     others_world) sample_es_reconciler merging_es 0) []"

lemma failing_run_returns: "fst failing_run = GoRet (no_requeue, None)"
  by code_simp

theorem es_comes_back_example: "failure_reported merging_es (snd failing_run) \<and> \<not> ready_false merging_es"
proof
  obtain h' where "failing_run = (GoRet (no_requeue, None), h')"
    using prod.collapse [of failing_run] by (metis (full_types) failing_run_returns)
  then have run: "run_state (reconcileSecret (akeyless_world (\<lambda>_. Inl not_found) no_passwords (\<lambda>h ns r. Inl not_found)
      others_world) sample_es_reconciler merging_es 0) [] = (GoRet (no_requeue, None), h')" "snd failing_run = h'"
    by (simp_all add: failing_run_def)
  have "esp_RefreshInterval (es_Spec merging_es) = Some hour" "(0 :: int) < hour"
    by (simp_all add: merging_es_def sample_es_def duration_units)
  from es_comes_back [OF this run(1)] run(2) show "failure_reported merging_es (snd failing_run)" by simp
  show "\<not> ready_false merging_es"
    by (simp add: merging_es_def sample_es_def ready_false_def get_condition_def)
qed

end
