(* ===== verification/Client_Manager_Laws.thy ===== *)
theory Client_Manager_Laws
  imports Es_Interfaces
begin

text \<open>
  What the client manager promises.  Its abstract state is the store each provider type is connected
  to; \<open>pool_connect\<close> is what getting a client means there, and \<open>reach\<close> the calls it may cost.
\<close>

section \<open>The abstract pool\<close>

type_synonym pool = "string \<rightharpoonup> EsStore"

definition pool_has :: "string \<Rightarrow> EsStore \<Rightarrow> pool \<Rightarrow> bool" where
  "pool_has ty store p \<longleftrightarrow> (case p ty of None \<Rightarrow> False | Some s \<Rightarrow> same_store s store)"

definition pool_connect :: "string \<Rightarrow> EsStore \<Rightarrow> bool \<Rightarrow> pool \<Rightarrow> pool" where
  "pool_connect ty store made p =
     (if pool_has ty store p then p else p(ty := if made then Some store else None))"

definition connected :: "ClientManager \<Rightarrow> pool" where
  "connected m = (\<lambda>ty. map_option snd (mget (cm_Clients m) ty))"

definition client_in :: "ClientManager \<Rightarrow> string \<Rightarrow> EsSecretsClient option" where
  "client_in m ty = map_option fst (mget (cm_Clients m) ty)"

text \<open>The calls: none for a client in the pool, else the old one is closed before a new one is made.\<close>

definition reach :: "ClientManager \<Rightarrow> EsProvider \<Rightarrow> EsStore \<Rightarrow> string \<Rightarrow> unit io" where
  "reach m p store ns =
     (if pool_has (epr_Type p) store (connected m) then ret ()
      else do {
        _ \<leftarrow> (case client_in m (epr_Type p) of None \<Rightarrow> ret None | Some old \<Rightarrow> sc_Close old);
        _ \<leftarrow> epr_NewClient p store ns;
        ret ()
      })"

lemma connected_clients [simp]:
  "connected (m\<lparr>cm_Clients := mput ty (c, s) xs\<rparr>) = (connected (m\<lparr>cm_Clients := xs\<rparr>))(ty \<mapsto> s)"
  "connected (m\<lparr>cm_Clients := mdel ty xs\<rparr>) = (connected (m\<lparr>cm_Clients := xs\<rparr>))(ty := None)"
  "connected (m\<lparr>cm_Clients := cm_Clients m\<rparr>) = connected m"
  by (simp_all add: connected_def mget_mput mget_mdel fun_eq_iff)

lemma client_in_mput [simp]: "client_in (m\<lparr>cm_Clients := mput ty (c, s) xs\<rparr>) ty = Some c"
  by (simp add: client_in_def mget_mput)

lemma connected_NewManager [simp]: "connected (NewManager class floodgate) = Map.empty"
  by (rule ext) (simp add: connected_def NewManager_def)

section \<open>Refinement\<close>

lemma GetFromStore_refines:
  assumes "GetProvider W store = Inr p" and "run_state (GetFromStore W m store ns) h = ((r, m'), h')"
  shows "connected m' = pool_connect (epr_Type p) store (\<exists>c. r = Inr c) (connected m)"
    and "h' = snd (run_state (reach m p store ns) h)"
    and "r = Inr c \<Longrightarrow> client_in m' (epr_Type p) = Some c"
    and "distinct (map fst (cm_Clients m)) \<Longrightarrow> distinct (map fst (cm_Clients m'))"
proof -
  have *: "connected m' = pool_connect (epr_Type p) store (\<exists>c. r = Inr c) (connected m)
    \<and> h' = snd (run_state (reach m p store ns) h)
    \<and> (\<forall>c. r = Inr c \<longrightarrow> client_in m' (epr_Type p) = Some c)
    \<and> (distinct (map fst (cm_Clients m)) \<longrightarrow> distinct (map fst (cm_Clients m')))"
  proof (cases "mget (cm_Clients m) (epr_Type p)")
    case None
    then have c: "connected m (epr_Type p) = None" "client_in m (epr_Type p) = None"
      by (simp_all add: connected_def client_in_def)
    obtain x h1 where x: "run_state (epr_NewClient p store ns) h = (x, h1)" by fastforce
    from assms None c x show ?thesis
      by (cases x) (auto simp: GetFromStore_def getStoredClient_def storeKey_def pool_connect_def
          pool_has_def reach_def fun_upd_idem distinct_mput)
  next
    case (Some cs)
    obtain old s where cs: "cs = (old, s)" by fastforce
    with Some have c: "connected m (epr_Type p) = Some s" "client_in m (epr_Type p) = Some old"
      by (simp_all add: connected_def client_in_def)
    show ?thesis
    proof (cases "same_store s store")
      case True
      with assms Some cs c show ?thesis
        by (auto simp: GetFromStore_def getStoredClient_def storeKey_def pool_connect_def
            pool_has_def reach_def)
    next
      case False
      obtain y h1 where y: "run_state (sc_Close old) h = (y, h1)" by fastforce
      obtain x h2 where x: "run_state (epr_NewClient p store ns) h1 = (x, h2)" by fastforce
      from assms Some cs c x y False show ?thesis
        by (cases x) (auto simp: GetFromStore_def getStoredClient_def storeKey_def pool_connect_def
            pool_has_def reach_def distinct_mput distinct_mdel)
    qed
  qed
  then show "connected m' = pool_connect (epr_Type p) store (\<exists>c. r = Inr c) (connected m)"
    and "h' = snd (run_state (reach m p store ns) h)"
    and "r = Inr c \<Longrightarrow> client_in m' (epr_Type p) = Some c"
    and "distinct (map fst (cm_Clients m)) \<Longrightarrow> distinct (map fst (cm_Clients m'))"
    by blast+
qed


section \<open>Clients for the right store\<close>

text \<open>Every client in the pool was made by a registered provider for the store it is kept with.\<close>

definition made_for :: "EsEnv \<Rightarrow> string \<Rightarrow> string \<Rightarrow> EsSecretsClient \<Rightarrow> EsStore \<Rightarrow> bool" where
  "made_for W ns ty c s \<longleftrightarrow> (\<exists>k p. mget (providers W) k = Some p \<and> epr_Type p = ty
     \<and> Inr c \<in> results (epr_NewClient p s ns))"

definition pool_ok :: "EsEnv \<Rightarrow> string \<Rightarrow> ClientManager \<Rightarrow> bool" where
  "pool_ok W ns m \<longleftrightarrow> (\<forall>ty c s. mget (cm_Clients m) ty = Some (c, s) \<longrightarrow> made_for W ns ty c s)"

lemma pool_ok_NewManager: "pool_ok W ns (NewManager class floodgate)"
  by (simp add: pool_ok_def NewManager_def)

lemma GetFromStore_ok:
  assumes "pool_ok W ns m" and "run_state (GetFromStore W m store ns) h = ((r, m'), h')"
  shows "pool_ok W ns m' \<and> (\<forall>c. r = Inr c \<longrightarrow> (\<exists>ty s. same_store s store \<and> made_for W ns ty c s))"
proof (cases "GetProvider W store")
  case (Inr p)
  then obtain k where k: "mget (providers W) k = Some p"
    by (auto simp: GetProvider_def lookup_backend_def split: sum.splits option.splits)
  have made: "made_for W ns (epr_Type p) c store"
    if "run_state (epr_NewClient p store ns) g = (Inr c, g')" for c g g'
    using k resultsI [OF that] by (auto simp: made_for_def)
  have same: "same_store store store" by (simp add: same_store_def)
  from assms Inr show ?thesis
    by (auto simp: GetFromStore_def getStoredClient_def storeKey_def run_cases pool_ok_def mget_mput
        mget_mdel split: option.splits sum.splits prod.splits if_splits)
      (use made same in blast)+
qed (use assms in \<open>auto simp: GetFromStore_def\<close>)


section \<open>Stores that may be used\<close>

text \<open>What a condition of a cluster store says about a namespace with these labels.\<close>

definition admits :: "EsEnv \<Rightarrow> string gomap \<Rightarrow> string \<Rightarrow> StoreNamespaceCondition \<Rightarrow> bool" where
  "admits W nsLabels ns c \<longleftrightarrow>
     list_ex (\<lambda>ls. case selectorOf (world W) ls of Inl _ \<Rightarrow> False | Inr f \<Rightarrow> f nsLabels) (condition_selectors c)
     \<or> list_ex (\<lambda>reg. case regexpCompile (world W) reg of Inl _ \<Rightarrow> False | Inr f \<Rightarrow> f ns) (snc_NamespaceRegexes c)"

lemma any_selector_True:
  "any_selector E lss nsLabels = Inr True \<Longrightarrow>
   list_ex (\<lambda>ls. case selectorOf E ls of Inl _ \<Rightarrow> False | Inr f \<Rightarrow> f nsLabels) lss"
  by (induction lss) (auto split: sum.splits if_splits)

lemma any_regexp_True:
  "any_regexp W regs ns = Inr True \<Longrightarrow> list_ex (\<lambda>reg. case regexpCompile (world W) reg of Inl _ \<Rightarrow> False | Inr f \<Rightarrow> f ns) regs"
  by (induction regs) (auto split: sum.splits if_splits)

lemma any_condition_True:
  "any_condition W cs nsLabels ns = Inr True \<Longrightarrow> list_ex (admits W nsLabels ns) cs"
  by (induction cs) (auto simp: admits_def dest: any_selector_True any_regexp_True
      split: sum.splits bool.splits)

definition namespace_admitted :: "EsEnv \<Rightarrow> EsStore \<Rightarrow> string \<Rightarrow> history \<Rightarrow> bool" where
  "namespace_admitted W store ns h \<longleftrightarrow>
     gs_Kind store \<noteq> ClusterSecretStoreKind \<or> eso_SpecConditions store = []
     \<or> (case getNamespace (world W) (CGet ''Namespace'' [] ns # h) ns of
          Inl _ \<Rightarrow> False
        | Inr n \<Rightarrow> list_ex (admits W (ns_Labels n) ns) (eso_SpecConditions store))"

lemma shouldProcessSecret_admitted:
  "run_state (cm_shouldProcessSecret W store ns) h = (Inr True, h') \<Longrightarrow> namespace_admitted W store ns h"
  by (auto simp: cm_shouldProcessSecret_def namespace_admitted_def k_get_namespace_def
      dest: any_condition_True split: if_splits sum.splits)

definition usable :: "ClientManager \<Rightarrow> EsStore \<Rightarrow> bool" where
  "usable m store \<longleftrightarrow> ShouldProcessStore store (cm_ControllerClass m)
     \<and> (cm_EnableFloodgate m \<longrightarrow> (case get_condition (eso_Conditions store) SecretStoreReady of
          None \<Rightarrow> False | Some c \<Rightarrow> cond_Status c = ConditionTrue))"

lemma usable_iff:
  "usable m store \<longleftrightarrow> ShouldProcessStore store (cm_ControllerClass m)
     \<and> (if cm_EnableFloodgate m then assertStoreIsUsable store else None) = None"
  by (auto simp: usable_def assertStoreIsUsable_def Let_def split: option.splits)

lemma cm_Get_split:
  assumes "run_state (cm_Get W m ref ns src) h = ((r, m'), h')"
  shows "(\<exists>e. r = Inl e) \<and> m' = m \<or>
    (\<exists>store h1 h2. run_state (cm_getStore W (effective_ref ref src) ns) h = (Inr store, h1)
       \<and> namespace_admitted W store ns h1 \<and> usable m store
       \<and> run_state (GetFromStore W m store ns) h2 = ((r, m'), h'))"
proof -
  obtain st h1 where g: "run_state (cm_getStore W (effective_ref ref src) ns) h = (st, h1)" by fastforce
  show ?thesis
  proof (cases st)
    case (Inr store)
    obtain ok h2 where s: "run_state (cm_shouldProcessSecret W store ns) h1 = (ok, h2)" by fastforce
    have "namespace_admitted W store ns h1" if "ok = Inr True"
      using s that by (auto intro: shouldProcessSecret_admitted)
    with assms g s Inr show ?thesis
      by (cases ok) (auto simp: cm_Get_def usable_iff run_cases split: if_splits option.splits)
  qed (use assms g in \<open>auto simp: cm_Get_def\<close>)
qed

text \<open>
  Which client an ExternalSecret gets.  A client is handed out only for a store that was read
  under the referenced name and kind, belongs to this controller, is ready when the floodgate is
  on and, if it is a cluster store with conditions, has a condition that admits the namespace; and
  the client was made for that very store, also when it is a reused one.
\<close>

theorem es_client_allowed:
  assumes "pool_ok W ns m" and "run_state (cm_Get W m ref ns src) h = ((r, m'), h')"
  shows "pool_ok W ns m' \<and> (\<forall>c. r = Inr c \<longrightarrow> (\<exists>store h1 ty s.
    run_state (cm_getStore W (effective_ref ref src) ns) h = (Inr store, h1)
    \<and> namespace_admitted W store ns h1 \<and> usable m store
    \<and> same_store s store \<and> made_for W ns ty c s))"
  using cm_Get_split [OF assms(2)] GetFromStore_ok [OF assms(1)] assms(1) by blast

section \<open>Closing\<close>

text \<open>All clients are closed, in the order of the map, whatever they answer.\<close>

fun close_each :: "EsSecretsClient list \<Rightarrow> err option list io" where
  "close_each [] = ret []"
| "close_each (c # cs) = do {
     r \<leftarrow> sc_Close c;
     rs \<leftarrow> close_each cs;
     ret (r # rs)
   }"

lemma close_clients_each:
  "run_state (close_clients vals errs) h
   = (case run_state (close_each (map (fst \<circ> snd) vals)) h of (rs, h') \<Rightarrow>
        (errs @ map err_string (concat (map (case_option [] (\<lambda>e. [e])) rs)), h'))"
  by (induction vals arbitrary: errs h) (auto split: prod.splits option.splits)

text \<open>
  C35: The client manager refines a pool that connects each provider type to at most one store.
  Getting a client is \<open>pool_connect\<close> on the pool: a client for the same store is reused at no call;
  otherwise the old client is closed before the new one is made, a failure leaves the type without a
  connection, and the client returned is the one in the pool.  Closing calls every client once and
  leaves the pool empty.
\<close>

theorem client_manager_refines:
  assumes "GetProvider W store = Inr p"
    and "run_state (GetFromStore W m store ns) h = ((r, m'), h')"
    and "run_state (cm_Close m') h' = ((x, m''), h'')"
  shows "connected m' = pool_connect (epr_Type p) store (\<exists>c. r = Inr c) (connected m)
    \<and> h' = snd (run_state (reach m p store ns) h)
    \<and> (\<forall>c. r = Inr c \<longrightarrow> client_in m' (epr_Type p) = Some c)
    \<and> (distinct (map fst (cm_Clients m)) \<longrightarrow> distinct (map fst (cm_Clients m')))
    \<and> connected m'' = Map.empty
    \<and> h'' = snd (run_state (close_each (map (fst \<circ> snd) (cm_Clients m'))) h')"
proof -
  have "connected m'' = Map.empty"
    and "h'' = snd (run_state (close_each (map (fst \<circ> snd) (cm_Clients m'))) h')"
    using assms(3) by (auto simp: cm_Close_def close_clients_each connected_def fun_eq_iff split: prod.splits)
  with GetFromStore_refines [OF assms(1,2)] show ?thesis by blast
qed

section \<open>A pool with one provider\<close>

definition idle_client :: EsSecretsClient where
  "idle_client = \<lparr>sc_GetSecret = (\<lambda>ref. ret (Inr ''value'')), sc_GetRemoteItemVersion = None,
     sc_Validate = ret (ValidationResultReady, None), sc_Close = ret None,
     esc_GetSecretMap = (\<lambda>ref. ret (Inr [])), esc_GetAllSecrets = (\<lambda>ref. ret (Inr [])),
     esc_PushSecret = (\<lambda>secret psd. ret (GoRet None)), esc_DeleteSecret = (\<lambda>ref. ret (GoRet None)),
     esc_SecretExists = (\<lambda>ref. ret (Inr False))\<rparr>"

definition idle_provider :: EsProvider where
  "idle_provider = \<lparr>epr_Type = ''*idle.Provider'', epr_NewClient = (\<lambda>store ns. ret (Inr idle_client)),
     epr_ValidateStore = (\<lambda>store. ([], None)), epr_Capabilities = ''ReadOnly''\<rparr>"

definition idle_store :: EsStore where
  "idle_store = \<lparr>gs_Kind = SecretStoreKind, gs_Meta = sample_meta, gs_Provider = None,
     eso_Backends = [''idle''], eso_Controller = [], eso_RefreshInterval = 0,
     eso_SpecConditions = [], eso_Conditions = [], eso_Capabilities = []\<rparr>"

definition idle_world :: EsEnv where
  "idle_world = sample_es_env\<lparr>providers := [(''idle'', idle_provider)],
     getEsStore := (\<lambda>h ns n. Inr idle_store)\<rparr>"

definition new_manager :: ClientManager where
  "new_manager = NewManager [] False"

lemmas idle_defs = idle_client_def idle_provider_def idle_store_def idle_world_def new_manager_def

lemma idle_registered: "GetProvider idle_world idle_store = Inr idle_provider"
  by (simp add: idle_defs GetProvider_def lookup_backend_def getProviderName_def)

lemma idle_GetFromStore:
  "run_state (GetFromStore idle_world new_manager idle_store ''app'') []
   = ((Inr idle_client, new_manager\<lparr>cm_Clients := [(''*idle.Provider'', idle_client, idle_store)]\<rparr>), [])"
  by (simp add: GetFromStore_def idle_registered getStoredClient_def storeKey_def)
    (simp add: idle_provider_def new_manager_def NewManager_def storeKey_def)

theorem client_manager_refines_example:
  "connected (new_manager\<lparr>cm_Clients := [(''*idle.Provider'', idle_client, idle_store)]\<rparr>)
     = pool_connect (epr_Type idle_provider) idle_store True Map.empty"
proof -
  let ?m = "new_manager\<lparr>cm_Clients := [(''*idle.Provider'', idle_client, idle_store)]\<rparr>"
  have "run_state (cm_Close ?m) [] = ((None, ?m\<lparr>cm_Clients := []\<rparr>), [])"
    by (simp add: cm_Close_def idle_client_def)
  from client_manager_refines [OF idle_registered idle_GetFromStore this] show ?thesis
    by (simp add: new_manager_def)
qed

theorem es_client_allowed_example:
  "\<exists>store h1 ty s. run_state (cm_getStore idle_world \<lparr>ssr_Name = ''store'', ssr_Kind = []\<rparr> ''app'') []
      = (Inr store, h1) \<and> usable new_manager store \<and> same_store s store
      \<and> made_for idle_world ''app'' ty idle_client s"
proof -
  have ok: "pool_ok idle_world ''app'' new_manager"
    unfolding new_manager_def by (rule pool_ok_NewManager)
  have "fst (fst (run_state (cm_Get idle_world new_manager \<lparr>ssr_Name = ''store'', ssr_Kind = []\<rparr> ''app'' None) []))
      = Inr idle_client"
    by (simp add: cm_Get_def cm_getStore_def effective_ref_def es_get_store_def ShouldProcessStore_def
        cm_shouldProcessSecret_def GetFromStore_def GetProvider_def lookup_backend_def getProviderName_def
        getStoredClient_def storeKey_def idle_defs NewManager_def)
  then obtain m' h' where "run_state (cm_Get idle_world new_manager \<lparr>ssr_Name = ''store'', ssr_Kind = []\<rparr> ''app'' None) []
      = ((Inr idle_client, m'), h')"
    by (metis prod.collapse)
  from es_client_allowed [OF ok this] show ?thesis by (auto simp: effective_ref_def)
qed

end
