(* ===== verification/Ps_Data.thy ===== *)
theory Ps_Data
  imports Client_Manager Secret_Keys
begin

text \<open>
  The parts of \<open>pkg/controllers/pushsecret/pushsecret_controller.go\<close> that make no calls: which
  entries a PushSecret pushes to a store, how \<open>spec.dataTo\<close> is expanded into single entries, the
  record of what was pushed, conditions, refresh and event filter.  The stores that were found are a
  Go map from references to stores.
\<close>

type_synonym store_map = "(PushSecretStoreRef \<times> EsStore) list"

section \<open>Locations and records\<close>

definition statusRef :: "PushSecretData \<Rightarrow> string" where
  "statusRef ref = (if pd_Property ref \<noteq> [] then pd_RemoteKey ref @ ''/'' @ pd_Property ref
     else pd_RemoteKey ref)"

text \<open>No caller passes the nil map as the new one.\<close>

definition merge_store :: "string \<times> PushSecretData gomap \<Rightarrow> SyncedPushSecretsMap \<Rightarrow> SyncedPushSecretsMap" where
  "merge_store kv out = (case kv of (k, v) \<Rightarrow>
     mput k (mcopy (case mget out k of None \<Rightarrow> [] | Some d \<Rightarrow> d) v) out)"

definition mergeSecretState ::
  "SyncedPushSecretsMap \<Rightarrow> SyncedPushSecretsMap \<Rightarrow> SyncedPushSecretsMap" where
  "mergeSecretState newMap old = fold merge_store old newMap"

definition setSecrets :: "SyncedPushSecretsMap \<Rightarrow> PushSecret \<Rightarrow> PushSecret" where
  "setSecrets synced ps = ps\<lparr>ps_Status := (ps_Status ps)\<lparr>pst_SyncedPushSecrets := synced\<rparr>\<rparr>"

definition SetPushSecretCondition :: "PushSecret \<Rightarrow> SecretCondition \<Rightarrow> PushSecret" where
  "SetPushSecretCondition ps condition = ps\<lparr>ps_Status := (ps_Status ps)\<lparr>
     pst_Conditions := put_condition (pst_Conditions (ps_Status ps)) condition\<rparr>\<rparr>"

definition NewPushSecretCondition ::
  "instant \<Rightarrow> string \<Rightarrow> string \<Rightarrow> string \<Rightarrow> string \<Rightarrow> SecretCondition" where
  "NewPushSecretCondition t condType status reason message =
     \<lparr>cond_Type = condType, cond_Status = status, cond_Reason = reason, cond_Message = message,
      cond_LastTransitionTime = t\<rparr>"

section \<open>Indices, events, refresh\<close>

definition index_synced :: "PushSecret \<Rightarrow> string list" where
  "index_synced ps = (if psp_DeletionPolicy (ps_Spec ps) \<noteq> PushSecretDeletionPolicyDelete then []
     else mkeys (pst_SyncedPushSecrets (ps_Status ps)))"

definition index_policy :: "PushSecret \<Rightarrow> string list" where
  "index_policy ps = [psp_DeletionPolicy (ps_Spec ps)]"

definition shouldReconcilePushSecretUpdate :: "ObjectMeta \<Rightarrow> ObjectMeta \<Rightarrow> bool" where
  "shouldReconcilePushSecretUpdate oldObj newObj =
     (if om_Generation oldObj \<noteq> om_Generation newObj then True
      else if \<not> map_eq (om_Labels oldObj) (om_Labels newObj) then True
      else if \<not> map_eq (om_Annotations oldObj) (om_Annotations newObj) then True
      else (om_DeletionTimestamp oldObj \<noteq> None) \<noteq> (om_DeletionTimestamp newObj \<noteq> None))"

definition ps_shouldRefresh :: "Env \<Rightarrow> instant \<Rightarrow> PushSecret \<Rightarrow> bool guarded" where
  "ps_shouldRefresh E t ps =
     (if pst_SyncedResourceVersion (ps_Status ps) \<noteq> GetResourceVersion E (ps_Meta ps) then GoRet True
      else (case psp_RefreshInterval (ps_Spec ps) of
          None \<Rightarrow> GoPanic
        | Some interval \<Rightarrow> GoRet
            (if interval = 0 \<and> pst_SyncedResourceVersion (ps_Status ps) \<noteq> [] then False
             else (case pst_RefreshTime (ps_Status ps) of
                 None \<Rightarrow> True
               | Some refreshTime \<Rightarrow> refreshTime + interval < t))))"

section \<open>Which stores an entry of \<open>spec.dataTo\<close> names\<close>

definition kind_or_default :: "string \<Rightarrow> string" where
  "kind_or_default k = (if k = [] then SecretStoreKind else k)"

definition storeRefExistsInList :: "PushSecretStoreRef \<Rightarrow> PushSecretStoreRef list \<Rightarrow> bool" where
  "storeRefExistsInList ref storeRefs =
     list_ex (\<lambda>sr. psr_Name sr \<noteq> [] \<and> kind_or_default (psr_Kind sr) = kind_or_default (psr_Kind ref)
        \<and> psr_Name sr = psr_Name ref) storeRefs"

definition dataTo_index :: "nat \<Rightarrow> string" where
  "dataTo_index i = ''dataTo['' @ show_nat i @ '']''"

fun validateDataToStoreRefs ::
  "nat \<Rightarrow> PushSecretDataTo list \<Rightarrow> PushSecretStoreRef list \<Rightarrow> err option" where
  "validateDataToStoreRefs i [] storeRefs = None"
| "validateDataToStoreRefs i (d # ds) storeRefs = (case pdt_StoreRef d of
     None \<Rightarrow> Some (ErrMsg (dataTo_index i @ '': storeRef is required''))
   | Some ref \<Rightarrow>
       if psr_Name ref = [] \<and> psr_LabelSelector ref = None then
         Some (ErrMsg (dataTo_index i @ '': storeRef must have name or labelSelector''))
       else if psr_Name ref \<noteq> [] \<and> \<not> storeRefExistsInList ref storeRefs then
         Some (ErrMsg (dataTo_index i @ '': storeRef '' @ go_quote (psr_Name ref)
           @ '' not found in secretStoreRefs''))
       else validateDataToStoreRefs (Suc i) ds storeRefs)"

definition anyStoreMatchesSelector ::
  "string \<Rightarrow> (string gomap \<Rightarrow> bool) \<Rightarrow> store_map \<Rightarrow> bool" where
  "anyStoreMatchesSelector kind matches stores =
     list_ex (\<lambda>(ref, store). psr_Kind ref = kind \<and> matches (om_Labels (gs_Meta store))) stores"

fun validateDataToMatchesResolvedStores ::
  "Env \<Rightarrow> nat \<Rightarrow> PushSecretDataTo list \<Rightarrow> store_map \<Rightarrow> err option" where
  "validateDataToMatchesResolvedStores E i [] stores = None"
| "validateDataToMatchesResolvedStores E i (d # ds) stores =
     (case pdt_StoreRef d of
        None \<Rightarrow> validateDataToMatchesResolvedStores E (Suc i) ds stores
      | Some ref \<Rightarrow> (case psr_LabelSelector ref of
          None \<Rightarrow> validateDataToMatchesResolvedStores E (Suc i) ds stores
        | Some labelSelector \<Rightarrow>
            if psr_Name ref \<noteq> [] then validateDataToMatchesResolvedStores E (Suc i) ds stores
            else (case selectorOf E labelSelector of
                Inl e \<Rightarrow> Some (ErrWrap (dataTo_index i @ '': invalid labelSelector'') e)
              | Inr matches \<Rightarrow>
                  if \<not> anyStoreMatchesSelector (kind_or_default (psr_Kind ref)) matches stores then
                    Some (ErrMsg (dataTo_index i
                      @ '': labelSelector does not match any store in secretStoreRefs''))
                  else validateDataToMatchesResolvedStores E (Suc i) ds stores)))"

definition dataToMatchesStore ::
  "Env \<Rightarrow> PushSecretDataTo \<Rightarrow> string \<Rightarrow> string \<Rightarrow> string gomap \<Rightarrow> err + bool" where
  "dataToMatchesStore E dataTo storeName skind storeLabels = (case pdt_StoreRef dataTo of
     None \<Rightarrow> Inl (ErrMsg ''storeRef is required'')
   | Some ref \<Rightarrow>
       if psr_Name ref \<noteq> [] then
         Inr (psr_Name ref = storeName \<and> kind_or_default (psr_Kind ref) = skind)
       else (case psr_LabelSelector ref of
           None \<Rightarrow> Inr False
         | Some labelSelector \<Rightarrow> (case selectorOf E labelSelector of
             Inl e \<Rightarrow> Inl (ErrWrap ''invalid labelSelector'' e)
           | Inr matches \<Rightarrow>
               Inr (kind_or_default (psr_Kind ref) = skind \<and> matches storeLabels))))"

fun filterDataToForStore ::
  "Env \<Rightarrow> nat \<Rightarrow> PushSecretDataTo list \<Rightarrow> string \<Rightarrow> string \<Rightarrow> string gomap
   \<Rightarrow> err + PushSecretDataTo list" where
  "filterDataToForStore E i [] storeName skind storeLabels = Inr []"
| "filterDataToForStore E i (dataTo # ds) storeName skind storeLabels =
     (case dataToMatchesStore E dataTo storeName skind storeLabels of
        Inl e \<Rightarrow> Inl (ErrWrap (dataTo_index i) e)
      | Inr matches \<Rightarrow> (case filterDataToForStore E (Suc i) ds storeName skind storeLabels of
          Inl e \<Rightarrow> Inl e
        | Inr rest \<Rightarrow> Inr (if matches then dataTo # rest else rest)))"

section \<open>Rewriting keys\<close>

definition matchKeys :: "Env \<Rightarrow> string list \<Rightarrow> string option \<Rightarrow> err + string list" where
  "matchKeys E allKeys match = (case match of
     None \<Rightarrow> Inr allKeys
   | Some regExp \<Rightarrow>
       if regExp = [] then Inr allKeys
       else (case regexpCompile E regExp of
           Inl e \<Rightarrow> Inl (ErrWrap (''failed to compile regexp pattern '' @ go_quote regExp) e)
         | Inr matches \<Rightarrow> Inr (filter matches allKeys)))"

definition compileRewrite :: "Env \<Rightarrow> PushSecretRewrite \<Rightarrow> err + (string \<Rightarrow> err + string)" where
  "compileRewrite E op = (case prw_Regexp op of
     Some r \<Rightarrow> (case regexpCompile E (rx_Source r) of
         Inl e \<Rightarrow> Inl (ErrWrap (''invalid regexp '' @ go_quote (rx_Source r)) e)
       | Inr _ \<Rightarrow> Inr (\<lambda>key. Inr (regexpReplaceAll E (rx_Source r) key (rx_Target r))))
   | None \<Rightarrow> (case prw_Transform op of
       Some tmpl \<Rightarrow> (case templateParse E tmpl of
           Inl e \<Rightarrow> Inl (ErrWrap ''invalid template'' e)
         | Inr execute \<Rightarrow> Inr (\<lambda>key. case execute key of
             Inl e \<Rightarrow> Inl (ErrWrap ''template exec'' e) | Inr s \<Rightarrow> Inr s))
     | None \<Rightarrow> Inr Inr))"

fun rewrite_map ::
  "nat \<Rightarrow> (string \<Rightarrow> err + string) \<Rightarrow> string gomap \<Rightarrow> err + string gomap" where
  "rewrite_map i applyFn [] = Inr []"
| "rewrite_map i applyFn ((origKey, currentKey) # kvs) = (case applyFn currentKey of
     Inl e \<Rightarrow> Inl (ErrWrap (''rewrite['' @ show_nat i @ ''] on key '' @ go_quote currentKey) e)
   | Inr newKey \<Rightarrow> (case rewrite_map i applyFn kvs of
       Inl e \<Rightarrow> Inl e
     | Inr rest \<Rightarrow> Inr ((origKey, newKey) # rest)))"

fun apply_rewrites ::
  "Env \<Rightarrow> nat \<Rightarrow> PushSecretRewrite list \<Rightarrow> string gomap \<Rightarrow> err + string gomap" where
  "apply_rewrites E i [] keyMap = Inr keyMap"
| "apply_rewrites E i (op # ops) keyMap = (case compileRewrite E op of
     Inl e \<Rightarrow> Inl (ErrWrap (''rewrite['' @ show_nat i @ '']'') e)
   | Inr applyFn \<Rightarrow> (case rewrite_map i applyFn keyMap of
       Inl e \<Rightarrow> Inl e
     | Inr newKeyMap \<Rightarrow> apply_rewrites E (Suc i) ops newKeyMap))"

definition rewriteWithKeyMapping ::
  "Env \<Rightarrow> PushSecretRewrite list \<Rightarrow> bytes gomap \<Rightarrow> err + string gomap" where
  "rewriteWithKeyMapping E rewrites data =
     apply_rewrites E 0 rewrites (map (\<lambda>k. (k, k)) (mkeys data))"

section \<open>Expanding \<open>spec.dataTo\<close>\<close>

definition bundleSourceKey :: string where "bundleSourceKey = ''(bundle)''"

text \<open>An expanded entry: the key of the Secret, where it goes, and what is taken from \<open>dataTo\<close>.\<close>

definition expanded_entry :: "PushSecretDataTo \<Rightarrow> string \<Rightarrow> string \<Rightarrow> PushSecretData" where
  "expanded_entry dataTo secretKey remoteKey =
     \<lparr>pd_SecretKey = secretKey, pd_RemoteKey = remoteKey, pd_Property = [],
      psd_Metadata = pdt_Metadata dataTo, psd_ConversionStrategy = PushSecretConversionNone\<rparr>"

definition original_keys :: "string \<Rightarrow> bytes gomap \<Rightarrow> string gomap" where
  "original_keys strategy data =
     fold (\<lambda>origKey. mput (ReverseKey strategy origKey) origKey) (mkeys data) []"

definition per_key_entries ::
  "Env \<Rightarrow> PushSecretDataTo \<Rightarrow> string gomap \<Rightarrow> bytes gomap \<Rightarrow> err + PushSecretData list \<times> string gomap" where
  "per_key_entries E dataTo convertedToOriginal matchedData =
     (case rewriteWithKeyMapping E (pdt_Rewrite dataTo) matchedData of
        Inl e \<Rightarrow> Inl (ErrWrap ''rewrite failed'' e)
      | Inr keyMap \<Rightarrow> (case find (\<lambda>(sourceKey, remoteKey). remoteKey = []) keyMap of
          Some (sourceKey, _) \<Rightarrow>
            Inl (ErrMsg (''empty remote key produced for source key '' @ go_quote sourceKey))
        | None \<Rightarrow> Inr (map (\<lambda>convertedKey. expanded_entry dataTo
              (mget_str convertedToOriginal convertedKey) (mget_str keyMap convertedKey))
            (sort (mkeys keyMap)), keyMap)))"

definition expandSingleDataTo ::
  "Env \<Rightarrow> K8sSecret \<Rightarrow> PushSecretDataTo
   \<Rightarrow> err + PushSecretData list \<times> string gomap \<times> bytes gomap option" where
  "expandSingleDataTo E secret dataTo =
     (if pdt_RemoteKey dataTo \<noteq> [] \<and> length (pdt_Rewrite dataTo) > 0 then
        Inl (ErrMsg ''remoteKey and rewrite are mutually exclusive: rewrite is only supported in per-key mode (without remoteKey)'')
      else (case ReverseKeys (pdt_ConversionStrategy dataTo) (sec_Data secret) of
          Inl e \<Rightarrow> Inl (ErrWrap ''conversion failed'' e)
        | Inr convertedData \<Rightarrow>
          (case matchKeys E (sort (mkeys convertedData)) (pdt_Match dataTo) of
             Inl e \<Rightarrow> Inl (ErrWrap ''match failed'' e)
           | Inr matchedKeys \<Rightarrow>
               if length matchedKeys = 0 then Inr ([], [], None)
               else
                 (let matchedData = map (\<lambda>key. (key, mget_str convertedData key)) matchedKeys in
                  if pdt_RemoteKey dataTo \<noteq> [] then
                    Inr ([expanded_entry dataTo [] (pdt_RemoteKey dataTo)],
                         [(bundleSourceKey, pdt_RemoteKey dataTo)], Some matchedData)
                  else (case per_key_entries E dataTo
                            (original_keys (pdt_ConversionStrategy dataTo) (sec_Data secret)) matchedData of
                      Inl e \<Rightarrow> Inl e
                    | Inr (entries, keyMap) \<Rightarrow> Inr (entries, keyMap, None))))))"

fun registerRemoteKeys :: "nat \<Rightarrow> string gomap \<Rightarrow> string gomap \<Rightarrow> err + string gomap" where
  "registerRemoteKeys index [] seen = Inr seen"
| "registerRemoteKeys index ((sourceKey, remoteKey) # keyMap) seen = (case mget seen remoteKey of
     Some existingSource \<Rightarrow> Inl (ErrMsg (dataTo_index index @ '': duplicate remote key ''
       @ go_quote remoteKey @ '' from source key '' @ go_quote sourceKey @ '' (conflicts with ''
       @ existingSource @ '')''))
   | None \<Rightarrow> registerRemoteKeys index keyMap
       (mput remoteKey (dataTo_index index @ '':'' @ sourceKey) seen))"

definition recordBundleOverrides ::
  "PushSecretData list \<Rightarrow> bytes gomap option \<Rightarrow> bytes gomap gomap \<Rightarrow> bytes gomap gomap" where
  "recordBundleOverrides entries filteredData overrides = (case filteredData of
     None \<Rightarrow> overrides
   | Some d \<Rightarrow> fold (\<lambda>entry. mput (statusRef entry) d) entries overrides)"

fun expand_from ::
  "Env \<Rightarrow> K8sSecret \<Rightarrow> nat \<Rightarrow> PushSecretDataTo list
   \<Rightarrow> PushSecretData list \<times> bytes gomap gomap \<times> string gomap
   \<Rightarrow> err + PushSecretData list \<times> bytes gomap gomap" where
  "expand_from E secret i [] (allData, overrides, seen) = Inr (allData, overrides)"
| "expand_from E secret i (dataTo # ds) (allData, overrides, seen) =
     (case expandSingleDataTo E secret dataTo of
        Inl e \<Rightarrow> Inl (ErrWrap (dataTo_index i) e)
      | Inr (entries, keyMap, filteredData) \<Rightarrow>
          if length entries = 0 then expand_from E secret (Suc i) ds (allData, overrides, seen)
          else (case registerRemoteKeys i keyMap seen of
              Inl e \<Rightarrow> Inl e
            | Inr seen' \<Rightarrow> expand_from E secret (Suc i) ds
                (allData @ entries, recordBundleOverrides entries filteredData overrides, seen')))"

definition expandDataTo ::
  "Env \<Rightarrow> K8sSecret \<Rightarrow> PushSecretDataTo list \<Rightarrow> err + PushSecretData list \<times> bytes gomap gomap" where
  "expandDataTo E secret dataToList = expand_from E secret 0 dataToList ([], [], [])"

section \<open>Merging with \<open>spec.data\<close>\<close>

definition resolveOriginalKey :: "PushSecretData \<Rightarrow> K8sSecret \<Rightarrow> string" where
  "resolveOriginalKey data secret =
     (let key = pd_SecretKey data in
      if psd_ConversionStrategy data = [] \<or> psd_ConversionStrategy data = PushSecretConversionNone then key
      else (case find (\<lambda>origKey. ReverseKey (psd_ConversionStrategy data) origKey = key)
                (mkeys (sec_Data secret)) of
          Some origKey \<Rightarrow> origKey
        | None \<Rightarrow> key))"

definition resolveSourceKeyConflicts ::
  "PushSecretData list \<Rightarrow> PushSecretData list \<Rightarrow> K8sSecret \<Rightarrow> PushSecretData list" where
  "resolveSourceKeyConflicts dataToEntries explicitData secret =
     filter (\<lambda>data. pd_SecretKey data \<notin> set (map (\<lambda>d. resolveOriginalKey d secret) explicitData)) dataToEntries
     @ explicitData"

definition remoteLocation :: "PushSecretData \<Rightarrow> string \<times> string" where
  "remoteLocation data = (pd_RemoteKey data, pd_Property data)"

definition duplicate_error :: "PushSecretData \<Rightarrow> string \<Rightarrow> err" where
  "duplicate_error data existingSource = ErrMsg (''duplicate remote key '' @ go_quote (pd_RemoteKey data)
     @ (if pd_Property data \<noteq> [] then '' with property '' @ go_quote (pd_Property data) else [])
     @ '': source keys '' @ go_quote existingSource @ '' and '' @ go_quote (pd_SecretKey data)
     @ '' both map to the same destination'')"

fun unique_from ::
  "((string \<times> string) \<times> string) list \<Rightarrow> PushSecretData list \<Rightarrow> err option" where
  "unique_from seen [] = None"
| "unique_from seen (data # ds) = (case map_of seen (remoteLocation data) of
     Some existingSource \<Rightarrow> Some (duplicate_error data existingSource)
   | None \<Rightarrow> unique_from (AList.update (remoteLocation data) (pd_SecretKey data) seen) ds)"

definition validateRemoteKeyUniqueness :: "PushSecretData list \<Rightarrow> err option" where
  "validateRemoteKeyUniqueness entries = unique_from [] entries"

definition mergeDataEntries ::
  "PushSecretData list \<Rightarrow> PushSecretData list \<Rightarrow> K8sSecret \<Rightarrow> err + PushSecretData list" where
  "mergeDataEntries dataToEntries explicitData secret =
     (let merged = resolveSourceKeyConflicts dataToEntries explicitData secret in
      case validateRemoteKeyUniqueness merged of Some e \<Rightarrow> Inl e | None \<Rightarrow> Inr merged)"

definition secretKeyExists :: "string \<Rightarrow> bytes gomap \<Rightarrow> bool" where
  "secretKeyExists key data \<longleftrightarrow> key = [] \<or> mget data key \<noteq> None"

text \<open>All entries of one store, from the first filter to the last check.\<close>

definition store_entries ::
  "Env \<Rightarrow> PushSecretSpec \<Rightarrow> K8sSecret \<Rightarrow> string \<Rightarrow> string \<Rightarrow> string gomap
   \<Rightarrow> err + PushSecretData list \<times> bytes gomap gomap" where
  "store_entries E spec secret storeName skind storeLabels =
     (case filterDataToForStore E 0 (psp_DataTo spec) storeName skind storeLabels of
        Inl e \<Rightarrow> Inl (ErrWrap ''failed to filter dataTo'' e)
      | Inr filteredDataTo \<Rightarrow> (case expandDataTo E secret filteredDataTo of
          Inl e \<Rightarrow> Inl (ErrWrap ''failed to expand dataTo'' e)
        | Inr (dataToEntries, bundleOverrides) \<Rightarrow>
            (case mergeDataEntries dataToEntries (psp_Data spec) secret of
               Inl e \<Rightarrow> Inl (ErrWrap ''failed to merge data entries'' e)
             | Inr allData \<Rightarrow> Inr (allData, bundleOverrides))))"

end
