(* ===== verification/Ps_World.thy ===== *)
theory Ps_World
  imports Ps_Data Es_Template
begin

text \<open>
  The world of the controllers for PushSecrets, stores, generator states and the cluster-wide
  resources: the environment of the ExternalSecret controller with the objects these controllers
  read.  Listing by a label selector or a field index is done by the API server or the cache; what
  an index holds is defined with the controller that fills it.  \<open>sameES\<close> and \<open>samePS\<close> are
  \<open>equality.Semantic.DeepEqual\<close>, which controller-runtime's \<open>CreateOrUpdate\<close> uses.
\<close>

record PsEnv =
  esw :: EsEnv
  getPS :: "history \<Rightarrow> string \<Rightarrow> string \<Rightarrow> err + PushSecret"
  answeredPS :: "history \<Rightarrow> PushSecret \<Rightarrow> PushSecret"
  listSecretsBy :: "history \<Rightarrow> string \<Rightarrow> LabelSelector \<Rightarrow> err + K8sSecret list"
  listStoresBy :: "history \<Rightarrow> string \<Rightarrow> LabelSelector \<Rightarrow> err + EsStore list"
  listClusterStoresBy :: "history \<Rightarrow> LabelSelector \<Rightarrow> err + EsStore list"
  psStateOwner :: "PushSecret \<Rightarrow> GeneratorState \<Rightarrow> err + GeneratorState"
  listPSByStore :: "history \<Rightarrow> string \<Rightarrow> string \<Rightarrow> err + PushSecret list"
  listPSByPolicy :: "history \<Rightarrow> string \<Rightarrow> string \<Rightarrow> err + PushSecret list"
  listStores :: "history \<Rightarrow> string \<Rightarrow> err + EsStore list"
  listClusterStores :: "history \<Rightarrow> err + EsStore list"
  answeredStore :: "history \<Rightarrow> EsStore \<Rightarrow> EsStore"
  getState :: "history \<Rightarrow> string \<Rightarrow> string \<Rightarrow> err + GeneratorState"
  answeredState :: "history \<Rightarrow> GeneratorState \<Rightarrow> GeneratorState"
  resourceKind :: "bytes \<Rightarrow> err + string"
  generators :: "Generator gomap"
  getCES :: "history \<Rightarrow> string \<Rightarrow> err + ClusterExternalSecret"
  listCES :: "history \<Rightarrow> err + ClusterExternalSecret list"
  answeredCES :: "history \<Rightarrow> ClusterExternalSecret \<Rightarrow> ClusterExternalSecret"
  getCPS :: "history \<Rightarrow> string \<Rightarrow> err + ClusterPushSecret"
  listCPS :: "history \<Rightarrow> err + ClusterPushSecret list"
  setCesRef :: "ObjectMeta \<Rightarrow> ObjectMeta \<Rightarrow> err + ObjectMeta"
  setCpsRef :: "ObjectMeta \<Rightarrow> ObjectMeta \<Rightarrow> err + ObjectMeta"
  sameES :: "ExternalSecret \<Rightarrow> ExternalSecret \<Rightarrow> bool"
  samePS :: "PushSecret \<Rightarrow> PushSecret \<Rightarrow> bool"

abbreviation envw :: "PsEnv \<Rightarrow> Env" where "envw W \<equiv> world (esw W)"

section \<open>Operations\<close>

definition ps_get :: "PsEnv \<Rightarrow> string \<Rightarrow> string \<Rightarrow> (err + PushSecret) io" where
  "ps_get W ns n = ask (CGet ''PushSecret'' ns n) (\<lambda>h. getPS W h ns n)"

text \<open>An update decodes the server's answer into the resource.\<close>

definition ps_update :: "PsEnv \<Rightarrow> PushSecret \<Rightarrow> (err option \<times> PushSecret) io" where
  "ps_update W ps = ask (CUpdate (OPS ps)) (\<lambda>h. case writeErr (envw W) h of
     Some e \<Rightarrow> (Some e, ps) | None \<Rightarrow> (None, answeredPS W h ps))"

definition ps_write :: "PsEnv \<Rightarrow> Call \<Rightarrow> err option io" where
  "ps_write W c = k_write (envw W) c"

definition ps_now :: "PsEnv \<Rightarrow> instant io" where
  "ps_now W = now (envw W)"

definition ps_list_secrets :: "PsEnv \<Rightarrow> string \<Rightarrow> LabelSelector \<Rightarrow> (err + K8sSecret list) io" where
  "ps_list_secrets W ns sel = ask (CList ''Secret'') (\<lambda>h. listSecretsBy W h ns sel)"

definition ps_list_stores_by :: "PsEnv \<Rightarrow> string \<Rightarrow> LabelSelector \<Rightarrow> (err + EsStore list) io" where
  "ps_list_stores_by W ns sel = ask (CList SecretStoreKind) (\<lambda>h. listStoresBy W h ns sel)"

definition ps_list_cstores_by :: "PsEnv \<Rightarrow> LabelSelector \<Rightarrow> (err + EsStore list) io" where
  "ps_list_cstores_by W sel = ask (CList ClusterSecretStoreKind) (\<lambda>h. listClusterStoresBy W h sel)"

definition ps_list_by_store :: "PsEnv \<Rightarrow> string \<Rightarrow> string \<Rightarrow> (err + PushSecret list) io" where
  "ps_list_by_store W ns key = ask (CList ''PushSecret'') (\<lambda>h. listPSByStore W h ns key)"

definition ps_list_by_policy :: "PsEnv \<Rightarrow> string \<Rightarrow> string \<Rightarrow> (err + PushSecret list) io" where
  "ps_list_by_policy W ns policy = ask (CList ''PushSecret'') (\<lambda>h. listPSByPolicy W h ns policy)"

definition ps_list_stores :: "PsEnv \<Rightarrow> string \<Rightarrow> (err + EsStore list) io" where
  "ps_list_stores W ns = ask (CList SecretStoreKind) (\<lambda>h. listStores W h ns)"

definition ps_list_cstores :: "PsEnv \<Rightarrow> (err + EsStore list) io" where
  "ps_list_cstores W = ask (CList ClusterSecretStoreKind) (listClusterStores W)"

definition store_update :: "PsEnv \<Rightarrow> EsStore \<Rightarrow> (err option \<times> EsStore) io" where
  "store_update W s = ask (CUpdate (OEsStore s)) (\<lambda>h. case writeErr (envw W) h of
     Some e \<Rightarrow> (Some e, s) | None \<Rightarrow> (None, answeredStore W h s))"

definition state_get :: "PsEnv \<Rightarrow> string \<Rightarrow> string \<Rightarrow> (err + GeneratorState) io" where
  "state_get W ns n = ask (CGet ''GeneratorState'' ns n) (\<lambda>h. getState W h ns n)"

definition state_update :: "PsEnv \<Rightarrow> GeneratorState \<Rightarrow> (err option \<times> GeneratorState) io" where
  "state_update W s = ask (CUpdate (OState s)) (\<lambda>h. case writeErr (envw W) h of
     Some e \<Rightarrow> (Some e, s) | None \<Rightarrow> (None, answeredState W h s))"

definition ces_get :: "PsEnv \<Rightarrow> string \<Rightarrow> (err + ClusterExternalSecret) io" where
  "ces_get W n = ask (CGet ''ClusterExternalSecret'' [] n) (\<lambda>h. getCES W h n)"

definition ces_patch ::
  "PsEnv \<Rightarrow> ClusterExternalSecret \<Rightarrow> (err option \<times> ClusterExternalSecret) io" where
  "ces_patch W c = ask (CPatch (OCES c)) (\<lambda>h. case writeErr (envw W) h of
     Some e \<Rightarrow> (Some e, c) | None \<Rightarrow> (None, answeredCES W h c))"

definition ces_list :: "PsEnv \<Rightarrow> (err + ClusterExternalSecret list) io" where
  "ces_list W = ask (CList ''ClusterExternalSecret'') (listCES W)"

definition cps_get :: "PsEnv \<Rightarrow> string \<Rightarrow> (err + ClusterPushSecret) io" where
  "cps_get W n = ask (CGet ''ClusterPushSecret'' [] n) (\<lambda>h. getCPS W h n)"

definition cps_list :: "PsEnv \<Rightarrow> (err + ClusterPushSecret list) io" where
  "cps_list W = ask (CList ''ClusterPushSecret'') (listCPS W)"

lemmas ps_defs [io_simps] =
  ps_get_def ps_update_def ps_write_def ps_now_def ps_list_secrets_def ps_list_stores_by_def
  ps_list_cstores_by_def ps_list_by_store_def ps_list_by_policy_def ps_list_stores_def
  ps_list_cstores_def store_update_def state_get_def state_update_def ces_get_def ces_patch_def ces_list_def
  cps_get_def cps_list_def

section \<open>A sample environment\<close>

definition sample_ps_env :: PsEnv where
  "sample_ps_env =
     \<lparr>esw = sample_es_env,
      getPS = (\<lambda>h ns n. Inl not_found),
      answeredPS = (\<lambda>h ps. ps),
      listSecretsBy = (\<lambda>h ns s. Inr []),
      listStoresBy = (\<lambda>h ns s. Inr []),
      listClusterStoresBy = (\<lambda>h s. Inr []),
      psStateOwner = (\<lambda>ps s. Inr s),
      listPSByStore = (\<lambda>h ns k. Inr []),
      listPSByPolicy = (\<lambda>h ns p. Inr []),
      listStores = (\<lambda>h ns. Inr []),
      listClusterStores = (\<lambda>h. Inr []),
      answeredStore = (\<lambda>h s. s),
      getState = (\<lambda>h ns n. Inl not_found),
      answeredState = (\<lambda>h s. s),
      resourceKind = (\<lambda>b. Inr b),
      generators = [],
      getCES = (\<lambda>h n. Inl not_found),
      listCES = (\<lambda>h. Inr []),
      answeredCES = (\<lambda>h c. c),
      getCPS = (\<lambda>h n. Inl not_found),
      listCPS = (\<lambda>h. Inr []),
      setCesRef = (\<lambda>owner m. Inr m),
      setCpsRef = (\<lambda>owner m. Inr m),
      sameES = (\<lambda>a b. a = b),
      samePS = (\<lambda>a b. a = b)\<rparr>"

definition sample_push_data :: "string \<Rightarrow> string \<Rightarrow> PushSecretData" where
  "sample_push_data secretKey remoteKey = \<lparr>pd_SecretKey = secretKey, pd_RemoteKey = remoteKey,
     pd_Property = [], psd_Metadata = None, psd_ConversionStrategy = PushSecretConversionNone\<rparr>"

definition sample_store_ref :: PushSecretStoreRef where
  "sample_store_ref = \<lparr>psr_Name = ''store'', psr_LabelSelector = None, psr_Kind = SecretStoreKind\<rparr>"

definition sample_ps :: PushSecret where
  "sample_ps = \<lparr>ps_Kind = ''PushSecret'', ps_Meta = sample_meta,
     ps_Spec = \<lparr>psp_RefreshInterval = Some hour, psp_SecretStoreRefs = [sample_store_ref],
       psp_UpdatePolicy = PushSecretUpdatePolicyReplace, psp_DeletionPolicy = PushSecretDeletionPolicyNone,
       psp_Selector = \<lparr>psl_Secret = Some \<lparr>pss_Name = ''source'', pss_Selector = None\<rparr>, psl_GeneratorRef = None\<rparr>,
       psp_Data = [sample_push_data ''password'' ''remote''], psp_DataTo = [], psp_Template = None\<rparr>,
     ps_Status = \<lparr>pst_RefreshTime = None, pst_SyncedResourceVersion = [],
       pst_SyncedPushSecrets = [], pst_Conditions = []\<rparr>\<rparr>"

end
