(* ===== verification/Ps_Controller.thy ===== *)
theory Ps_Controller
  imports Ps_World Es_Data Cache
begin

text \<open>
  The reconciler of PushSecret, \<open>pkg/controllers/pushsecret/pushsecret_controller.go\<close> and
  \<open>pushsecret_controller_template.go\<close>.  All clients of one run come from one client manager, which
  the code passes by pointer and the definitions thread.  A provider may panic; the panic ends the
  run, after the deferred functions.  The parts return the resource as it is in memory when they
  end, which the deferred status patch writes.
\<close>

record PsReconciler =
  psc_ControllerClass :: string
  psc_RequeueInterval :: duration

definition pushSecretFinalizer :: string where
  "pushSecretFinalizer = ''pushsecret.externalsecrets.io/finalizer''"

section \<open>Reports\<close>

definition markAsFailed ::
  "PsEnv \<Rightarrow> string \<Rightarrow> PushSecret \<Rightarrow> SyncedPushSecretsMap option \<Rightarrow> PushSecret io" where
  "markAsFailed W msg ps syncState = do {
     t \<leftarrow> ps_now W;
     let ps1 = SetPushSecretCondition ps
           (NewPushSecretCondition t PushSecretReady ConditionFalse ReasonErrored msg);
     let ps2 = (case syncState of None \<Rightarrow> ps1 | Some synced \<Rightarrow> setSecrets synced ps1);
     _ \<leftarrow> k_event ''Warning'' ReasonErrored msg;
     ret ps2
   }"

definition markAsSourceDeleted :: "PsEnv \<Rightarrow> PushSecret \<Rightarrow> PushSecret io" where
  "markAsSourceDeleted W ps = (let msg = ''source secret deleted; provider secrets cleaned up'' in do {
     t \<leftarrow> ps_now W;
     let ps1 = SetPushSecretCondition ps
           (NewPushSecretCondition t PushSecretReady ConditionFalse ReasonSourceDeleted msg);
     _ \<leftarrow> k_event ''Normal'' ReasonSourceDeleted msg;
     ret ps1
   })"

definition done_message :: "PushSecret \<Rightarrow> string" where
  "done_message ps = ''PushSecret synced successfully''
     @ (if psp_UpdatePolicy (ps_Spec ps) = PushSecretUpdatePolicyIfNotExists
        then ''. Existing secrets in providers unchanged.'' else [])"

definition markAsDone ::
  "PsEnv \<Rightarrow> PushSecret \<Rightarrow> SyncedPushSecretsMap \<Rightarrow> instant \<Rightarrow> PushSecret io" where
  "markAsDone W ps secrets start = do {
     t \<leftarrow> ps_now W;
     let ps1 = setSecrets secrets (SetPushSecretCondition ps
           (NewPushSecretCondition t PushSecretReady ConditionTrue ReasonSynced (done_message ps)));
     let ps2 = ps1\<lparr>ps_Status := (ps_Status ps1)\<lparr>pst_RefreshTime := Some start,
           pst_SyncedResourceVersion := GetResourceVersion (envw W) (ps_Meta ps1)\<rparr>\<rparr>;
     _ \<leftarrow> k_event ''Normal'' ReasonSynced (done_message ps);
     ret ps2
   }"

section \<open>Deleting from providers\<close>

text \<open>What \<open>DeleteSecret\<close> gets of an entry is its remote reference.\<close>

definition remote_ref :: "PushSecretData \<Rightarrow> PushData" where
  "remote_ref data = \<lparr>pd_SecretKey = [], pd_RemoteKey = pd_RemoteKey data, pd_Property = pd_Property data\<rparr>"

definition DeleteSecretFromStore ::
  "EsSecretsClient \<Rightarrow> PushSecretData \<Rightarrow> err option guarded io" where
  "DeleteSecretFromStore client data = esc_DeleteSecret client (remote_ref data)"

fun DeleteAllSecretsFromStore ::
  "EsSecretsClient \<Rightarrow> PushSecretData gomap \<Rightarrow> err option guarded io" where
  "DeleteAllSecretsFromStore client [] = ret (GoRet None)"
| "DeleteAllSecretsFromStore client ((_, v) # data) = do {
     r \<leftarrow> DeleteSecretFromStore client v;
     case r of
       GoRet None \<Rightarrow> DeleteAllSecretsFromStore client data
     | _ \<Rightarrow> ret r
   }"

text \<open>The entries of a store that are not pushed any more are deleted one by one, also from \<open>out\<close>.\<close>

definition drop_entry :: "string \<Rightarrow> string \<Rightarrow> SyncedPushSecretsMap \<Rightarrow> SyncedPushSecretsMap" where
  "drop_entry storeName entry out = (case mget out storeName of
     None \<Rightarrow> out
   | Some d \<Rightarrow> mput storeName (mdel entry d) out)"

fun delete_entries ::
  "EsSecretsClient \<Rightarrow> string \<Rightarrow> PushSecretData gomap \<Rightarrow> PushSecretData gomap \<Rightarrow> SyncedPushSecretsMap
   \<Rightarrow> (err option guarded \<times> SyncedPushSecretsMap) io" where
  "delete_entries client storeName newData [] out = ret (GoRet None, out)"
| "delete_entries client storeName newData ((oldEntry, oldRef) # oldData) out =
     (if mget newData oldEntry \<noteq> None then delete_entries client storeName newData oldData out
      else do {
        r \<leftarrow> DeleteSecretFromStore client oldRef;
        case r of
          GoRet None \<Rightarrow>
            delete_entries client storeName newData oldData (drop_entry storeName oldEntry out)
        | _ \<Rightarrow> ret (r, out)
      })"

text \<open>\<open>strings.Split(storeName, "/")\<close>: the kind and the name; without a slash the index panics.\<close>

definition parse_store_key :: "string \<Rightarrow> SecretStoreRef option" where
  "parse_store_key storeName = (case split_on (CHR ''/'') storeName of
     kind # name # _ \<Rightarrow> Some \<lparr>ssr_Name = name, ssr_Kind = kind\<rparr>
   | _ \<Rightarrow> None)"

fun delete_stores ::
  "PsEnv \<Rightarrow> string \<Rightarrow> SyncedPushSecretsMap \<Rightarrow> SyncedPushSecretsMap \<Rightarrow> SyncedPushSecretsMap
   \<Rightarrow> ClientManager \<Rightarrow> ((err option guarded \<times> SyncedPushSecretsMap) \<times> ClientManager) io" where
  "delete_stores W ns newMap [] out m = ret ((GoRet None, out), m)"
| "delete_stores W ns newMap ((storeName, oldData) # stores) out m =
     (case parse_store_key storeName of
        None \<Rightarrow> ret ((GoPanic, out), m)
      | Some storeRef \<Rightarrow> do {
          (c, m1) \<leftarrow> cm_Get (esw W) m storeRef ns None;
          case c of
            Inl e \<Rightarrow> ret ((GoRet (Some (ErrWrap (''could not get secrets client for store ''
                @ storeName) e)), out), m1)
          | Inr client \<Rightarrow> do {
              (r, out1) \<leftarrow> (case mget newMap storeName of
                  None \<Rightarrow> do {
                    d \<leftarrow> DeleteAllSecretsFromStore client oldData;
                    ret (d, if d = GoRet None then mdel storeName out else out)
                  }
                | Some newData \<Rightarrow> delete_entries client storeName newData oldData out);
              if r = GoRet None then delete_stores W ns newMap stores out1 m1
              else ret ((r, out1), m1)
            }
        })"

definition DeleteSecretFromProviders ::
  "PsEnv \<Rightarrow> PushSecret \<Rightarrow> SyncedPushSecretsMap \<Rightarrow> ClientManager
   \<Rightarrow> ((err option guarded \<times> SyncedPushSecretsMap) \<times> ClientManager) io" where
  "DeleteSecretFromProviders W ps newMap m =
     (let synced = pst_SyncedPushSecrets (ps_Status ps) in
      delete_stores W (om_Namespace (ps_Meta ps)) newMap synced (mergeSecretState newMap synced) m)"

section \<open>Pushing\<close>

record pushEntryParams =
  pep_data :: PushSecretData
  pep_updatePolicy :: string
  pep_originalData :: "bytes gomap"
  pep_dataOverride :: "bytes gomap option"
  pep_storeName :: string

definition pushSecretEntry ::
  "EsSecretsClient \<Rightarrow> K8sSecret \<Rightarrow> pushEntryParams \<Rightarrow> err option guarded io" where
  "pushSecretEntry secretClient storeSecret params =
     (let data = pep_data params;
          sourceData = (case pep_dataOverride params of None \<Rightarrow> pep_originalData params | Some d \<Rightarrow> d) in
      case ReverseKeys (psd_ConversionStrategy data) sourceData of
        Inl e \<Rightarrow> ret (GoRet (Some (ErrMsg (''could not apply conversion strategy to keys: '' @ err_string e))))
      | Inr secretData \<Rightarrow>
          if \<not> secretKeyExists (pd_SecretKey data) secretData then
            ret (GoRet (Some (ErrMsg (''secret key '' @ pd_SecretKey data @ '' does not exist''))))
          else do {
            x \<leftarrow> (if pep_updatePolicy params = PushSecretUpdatePolicyIfNotExists
                 then esc_SecretExists secretClient (remote_ref data) else ret (Inr False));
            case x of
              Inl e \<Rightarrow> ret (GoRet (Some (ErrWrap ''could not verify if secret exists in store'' e)))
            | Inr True \<Rightarrow> ret (GoRet None)
            | Inr False \<Rightarrow> do {
                r \<leftarrow> esc_PushSecret secretClient (storeSecret\<lparr>sec_Data := secretData\<rparr>) data;
                ret (case r of
                  GoRet (Some e) \<Rightarrow> GoRet (Some (ErrMsg (''could not write remote ref ''
                    @ pd_SecretKey data @ '' to target secretstore '' @ pep_storeName params @ '': ''
                    @ err_string e)))
                | _ \<Rightarrow> r)
              }
          })"

definition record_entry ::
  "string \<Rightarrow> PushSecretData \<Rightarrow> SyncedPushSecretsMap \<Rightarrow> SyncedPushSecretsMap" where
  "record_entry skey data out =
     mput skey (mput (statusRef data) data (case mget out skey of None \<Rightarrow> [] | Some d \<Rightarrow> d)) out"

fun push_entries ::
  "EsSecretsClient \<Rightarrow> K8sSecret \<Rightarrow> string \<Rightarrow> bytes gomap gomap \<Rightarrow> string \<Rightarrow> string
   \<Rightarrow> PushSecretData list \<Rightarrow> SyncedPushSecretsMap
   \<Rightarrow> (err option guarded \<times> SyncedPushSecretsMap) io" where
  "push_entries secretClient storeSecret policy overrides storeName skey [] out =
     ret (GoRet None, out)"
| "push_entries secretClient storeSecret policy overrides storeName skey (data # ds) out = do {
     r \<leftarrow> pushSecretEntry secretClient storeSecret
       \<lparr>pep_data = data, pep_updatePolicy = policy, pep_originalData = sec_Data storeSecret,
        pep_dataOverride = mget overrides (statusRef data), pep_storeName = storeName\<rparr>;
     case r of
       GoRet None \<Rightarrow> push_entries secretClient storeSecret policy overrides storeName skey ds
         (record_entry skey data out)
     | _ \<Rightarrow> ret (r, out)
   }"

text \<open>The map key of a store and what is known of it.\<close>

record storeInfo =
  si_Name :: string
  si_Kind :: string
  si_Labels :: "string gomap"

definition store_info :: "PushSecretStoreRef \<Rightarrow> EsStore \<Rightarrow> storeInfo" where
  "store_info ref store = \<lparr>si_Name = om_Name (gs_Meta store), si_Kind = psr_Kind ref,
     si_Labels = om_Labels (gs_Meta store)\<rparr>"

definition store_key :: "storeInfo \<Rightarrow> string" where
  "store_key si = si_Kind si @ ''/'' @ si_Name si"

definition handlePushSecretDataForStore ::
  "PsEnv \<Rightarrow> PushSecret \<Rightarrow> K8sSecret \<Rightarrow> SyncedPushSecretsMap \<Rightarrow> ClientManager \<Rightarrow> storeInfo
   \<Rightarrow> ((err option guarded \<times> SyncedPushSecretsMap) \<times> ClientManager) io" where
  "handlePushSecretDataForStore W ps secret out0 m si =
     (let key = store_key si; out = mput key [] out0 in do {
        (c, m1) \<leftarrow> cm_Get (esw W) m \<lparr>ssr_Name = si_Name si, ssr_Kind = si_Kind si\<rparr>
                     (om_Namespace (ps_Meta ps)) None;
        case c of
          Inl e \<Rightarrow> ret ((GoRet (Some (ErrWrap (''could not get secrets client for store '' @ si_Name si) e)),
              out), m1)
        | Inr secretClient \<Rightarrow>
            (case store_entries (envw W) (ps_Spec ps) secret (si_Name si) (si_Kind si) (si_Labels si) of
               Inl e \<Rightarrow> ret ((GoRet (Some e), out), m1)
             | Inr (allData, bundleOverrides) \<Rightarrow> do {
                 r \<leftarrow> push_entries secretClient secret (psp_UpdatePolicy (ps_Spec ps)) bundleOverrides
                   (si_Name si) key allData out;
                 ret (r, m1)
               })
      })"

fun push_stores ::
  "PsEnv \<Rightarrow> PushSecret \<Rightarrow> K8sSecret \<Rightarrow> store_map \<Rightarrow> SyncedPushSecretsMap \<Rightarrow> ClientManager
   \<Rightarrow> ((err option guarded \<times> SyncedPushSecretsMap) \<times> ClientManager) io" where
  "push_stores W ps secret [] out m = ret ((GoRet None, out), m)"
| "push_stores W ps secret ((ref, store) # stores) out m = do {
     ((r, out1), m1) \<leftarrow> handlePushSecretDataForStore W ps secret out m (store_info ref store);
     if r = GoRet None then push_stores W ps secret stores out1 m1
     else ret ((r, out1), m1)
   }"

definition PushSecretToProviders ::
  "PsEnv \<Rightarrow> store_map \<Rightarrow> PushSecret \<Rightarrow> K8sSecret \<Rightarrow> ClientManager
   \<Rightarrow> ((err option guarded \<times> SyncedPushSecretsMap) \<times> ClientManager) io" where
  "PushSecretToProviders W stores ps secret m = push_stores W ps secret stores [] m"

section \<open>The source\<close>

definition defaultGeneratorStateKey :: string where "defaultGeneratorStateKey = ''__pushsecret''"

definition generated_secret :: "string \<Rightarrow> bytes gomap \<Rightarrow> K8sSecret" where
  "generated_secret namespace secretMap =
     \<lparr>sec_Meta = empty_meta\<lparr>om_Name := ''___generated-secret'', om_Namespace := namespace\<rparr>,
      sec_Type = [], sec_Data = secretMap, sec_Immutable = None\<rparr>"

definition resolveSecretFromGenerator ::
  "PsEnv \<Rightarrow> string \<Rightarrow> GeneratorRef \<Rightarrow> Manager \<Rightarrow> ((err + K8sSecret) \<times> Manager) io" where
  "resolveSecretFromGenerator W namespace ref generatorState = do {
     g \<leftarrow> es_generator (esw W) namespace ref;
     case g of
       Inl e \<Rightarrow> ret (Inl (ErrWrap ''unable to resolve generator'' e), generatorState)
     | Inr (gen, genResource) \<Rightarrow> do {
         p \<leftarrow> GetLatestState (envw W) generatorState defaultGeneratorStateKey;
         case p of
           Inl e \<Rightarrow> ret (Inl (ErrWrap ''unable to get latest state'' e), generatorState)
         | Inr prevState \<Rightarrow> do {
             r \<leftarrow> egen_Generate gen genResource namespace;
             ret (case r of
               Inl e \<Rightarrow> (Inl (ErrWrap ''unable to generate'' e), generatorState)
             | Inr (secretMap, newState) \<Rightarrow>
                 (Inr (generated_secret namespace secretMap),
                  EnqueueSetLatest defaultGeneratorStateKey namespace (Some genResource)
                    (Generator.truncate gen) newState
                    (if prevState \<noteq> None
                     then EnqueueMoveStateToGC defaultGeneratorStateKey generatorState
                     else generatorState)))
           }
       }
   }"

definition generator_ref_text :: "GeneratorRef \<Rightarrow> string" where
  "generator_ref_text ref = ''&{'' @ gr_APIVersion ref @ '' '' @ gr_Kind ref @ '' '' @ gr_Name ref @ ''}''"

definition select_secrets ::
  "PsEnv \<Rightarrow> PushSecret \<Rightarrow> Manager \<Rightarrow> ((err + K8sSecret list) \<times> Manager) io" where
  "select_secrets W ps generatorState =
     (let ns = om_Namespace (ps_Meta ps); selector = psp_Selector (ps_Spec ps);
          by_generator = (\<lambda>ref. do {
            (r, gs) \<leftarrow> resolveSecretFromGenerator W ns ref generatorState;
            ret (case r of
              Inl e \<Rightarrow> Inl (ErrWrap (''could not resolve secret from generator ref ''
                       @ generator_ref_text ref) e)
            | Inr secret \<Rightarrow> Inr [secret], gs)
          });
          none = ret (Inl (ErrMsg ''no secret selector provided''), generatorState) in
      case psl_Secret selector of
        Some s \<Rightarrow>
          if pss_Name s \<noteq> [] then do {
            r \<leftarrow> k_get_secret (envw W) ns (pss_Name s);
            ret (case r of
              Inl e \<Rightarrow> (Inl e, generatorState)
            | Inr secret \<Rightarrow>
                (Inr [secret], EnqueueFlagLatestStateForGC defaultGeneratorStateKey generatorState))
          } else (case psl_GeneratorRef selector of
            Some ref \<Rightarrow> by_generator ref
          | None \<Rightarrow> (case pss_Selector s of
              None \<Rightarrow> none
            | Some labels \<Rightarrow> (case selectorOf (envw W) labels of
                Inl e \<Rightarrow> ret (Inl e, generatorState)
              | Inr _ \<Rightarrow> do {
                  r \<leftarrow> ps_list_secrets W ns labels;
                  ret (r, generatorState)
                })))
      | None \<Rightarrow> (case psl_GeneratorRef selector of
          Some ref \<Rightarrow> by_generator ref
        | None \<Rightarrow> none))"

text \<open>
  The deferred function looks at the variable \<open>err\<close> of the function, which every case shadows: it
  stays nil, and the queue is committed whatever happened.
\<close>

definition resolveSecrets :: "PsEnv \<Rightarrow> PushSecret \<Rightarrow> (err + K8sSecret list) io" where
  "resolveSecrets W ps =
     (let generatorState = New (om_Namespace (ps_Meta ps))
            \<lparr>sr_Kind = ps_Kind ps, sr_Namespace = om_Namespace (ps_Meta ps), sr_Name = om_Name (ps_Meta ps)\<rparr>
            (psStateOwner W ps) in do {
        (r, generatorState') \<leftarrow> select_secrets W ps generatorState;
        _ \<leftarrow> Commit (envw W) generatorState';
        ret r
      })"

section \<open>The stores\<close>

definition getSecretStoreFromName ::
  "PsEnv \<Rightarrow> PushSecretStoreRef \<Rightarrow> string \<Rightarrow> (err + EsStore) io" where
  "getSecretStoreFromName W refStore ns =
     (if psr_Name refStore = [] then ret (Inl (ErrMsg ''refStore Name must be provided''))
      else if psr_Kind refStore = ClusterSecretStoreKind then do {
        r \<leftarrow> es_get_cstore (esw W) (psr_Name refStore);
        ret (case r of
          Inl e \<Rightarrow> Inl (ErrFmt (''could not get ClusterSecretStore '' @ go_quote (psr_Name refStore) @ '', '') e [])
        | Inr store \<Rightarrow> Inr store)
      } else do {
        r \<leftarrow> es_get_store (esw W) ns (psr_Name refStore);
        ret (case r of
          Inl e \<Rightarrow> Inl (ErrFmt (''could not get SecretStore '' @ go_quote (psr_Name refStore) @ '', '') e [])
        | Inr store \<Rightarrow> Inr store)
      })"

definition put_listed :: "string \<Rightarrow> EsStore list \<Rightarrow> store_map \<Rightarrow> store_map" where
  "put_listed kind items stores = fold (\<lambda>v. AList.update
     \<lparr>psr_Name = om_Name (gs_Meta v), psr_LabelSelector = None, psr_Kind = kind\<rparr> v) items stores"

fun collect_stores ::
  "PsEnv \<Rightarrow> string \<Rightarrow> PushSecretStoreRef list \<Rightarrow> store_map \<Rightarrow> (err + store_map) io" where
  "collect_stores W ns [] stores = ret (Inr stores)"
| "collect_stores W ns (refStore # refs) stores = (case psr_LabelSelector refStore of
     Some labels \<Rightarrow> (case selectorOf (envw W) labels of
         Inl e \<Rightarrow> ret (Inl (ErrWrap ''could not convert labels'' e))
       | Inr _ \<Rightarrow>
           if psr_Kind refStore = ClusterSecretStoreKind then do {
             r \<leftarrow> ps_list_cstores_by W labels;
             case r of
               Inl e \<Rightarrow> ret (Inl (ErrWrap ''could not list cluster Secret Stores'' e))
             | Inr items \<Rightarrow> collect_stores W ns refs (put_listed ClusterSecretStoreKind items stores)
           } else do {
             r \<leftarrow> ps_list_stores_by W ns labels;
             case r of
               Inl e \<Rightarrow> ret (Inl (ErrWrap ''could not list Secret Stores'' e))
             | Inr items \<Rightarrow> collect_stores W ns refs (put_listed SecretStoreKind items stores)
           })
   | None \<Rightarrow> do {
       r \<leftarrow> getSecretStoreFromName W refStore ns;
       case r of
         Inl e \<Rightarrow> ret (Inl e)
       | Inr store \<Rightarrow> collect_stores W ns refs (AList.update refStore store stores)
     })"

definition GetSecretStores :: "PsEnv \<Rightarrow> PushSecret \<Rightarrow> (err + store_map) io" where
  "GetSecretStores W ps =
     collect_stores W (om_Namespace (ps_Meta ps)) (psp_SecretStoreRefs (ps_Spec ps)) []"

definition active_stores :: "store_map \<Rightarrow> store_map" where
  "active_stores stores = filter (\<lambda>(ref, store). om_DeletionTimestamp (gs_Meta store) = None) stores"

text \<open>
  \<open>namespace\<close> is the function's parameter, which a cluster store sets to the empty string for good.
  For another kind the object is a nil interface, which the client refuses without a request.
\<close>

fun remove_unmanaged ::
  "PsEnv \<Rightarrow> string \<Rightarrow> string \<Rightarrow> store_map \<Rightarrow> store_map \<Rightarrow> (err + store_map) io" where
  "remove_unmanaged W class namespace [] ss = ret (Inr ss)"
| "remove_unmanaged W class namespace ((ref, _) # todo) ss =
     (let look = (\<lambda>namespace' get. do {
            r \<leftarrow> get;
            case r of
              Inl e \<Rightarrow> ret (Inl e)
            | Inr store \<Rightarrow> remove_unmanaged W class namespace' todo
                (if eso_Controller store \<noteq> [] \<and> eso_Controller store \<noteq> class
                 then AList.delete ref ss else ss)
          }) in
      if psr_Kind ref = SecretStoreKind then
        look namespace (es_get_store (esw W) namespace (psr_Name ref))
      else if psr_Kind ref = ClusterSecretStoreKind then
        look [] (es_get_cstore (esw W) (psr_Name ref))
      else ret (Inl (ErrMsg ''expected pointer, but got invalid kind'')))"

definition removeUnmanagedStores ::
  "PsEnv \<Rightarrow> string \<Rightarrow> PsReconciler \<Rightarrow> store_map \<Rightarrow> (err + store_map) io" where
  "removeUnmanagedStores W namespace R ss = remove_unmanaged W (psc_ControllerClass R) namespace ss ss"

section \<open>The template\<close>

definition setSourceMetadata :: "EsTemplate \<Rightarrow> K8sSecret \<Rightarrow> K8sSecret" where
  "setSourceMetadata tpl secret = upd_meta (\<lambda>m. m\<lparr>
     om_Labels := MergeStringMap (om_Labels m) (etm_Labels (et_Metadata tpl)),
     om_Annotations := MergeStringMap (om_Annotations m) (etm_Annotations (et_Metadata tpl))\<rparr>)
     (secret\<lparr>sec_Type := et_Type tpl\<rparr>)"

definition applyTemplate :: "PsEnv \<Rightarrow> PushSecret \<Rightarrow> K8sSecret \<Rightarrow> (err + K8sSecret) io" where
  "applyTemplate W ps secret = (case psp_Template (ps_Spec ps) of
     None \<Rightarrow> ret (Inr secret)
   | Some tpl \<Rightarrow>
       (let s1 = setSourceMetadata tpl secret in
        case secretEngine (esw W) ''v2'' of
          Inl e \<Rightarrow> ret (Inl e)
        | Inr execute \<Rightarrow> run_template (esw W)
            \<lparr>pa_Exec = execute, pa_DataMap = sec_Data s1, pa_TemplateFromConfigMap = None,
             pa_TemplateFromSecret = None\<rparr> (om_Namespace (ps_Meta ps)) tpl s1))"

section \<open>The reconciler\<close>

type_synonym ps_run = "((outcome guarded \<times> PushSecret) \<times> ClientManager) io"

definition ps_fail ::
  "PsEnv \<Rightarrow> PushSecret \<Rightarrow> ClientManager \<Rightarrow> string \<Rightarrow> SyncedPushSecretsMap option \<Rightarrow> err \<Rightarrow> ps_run" where
  "ps_fail W ps m msg synced e = do {
     ps' \<leftarrow> markAsFailed W msg ps synced;
     ret ((GoRet (no_requeue, Some e), ps'), m)
   }"

definition ps_addFinalizer :: "PushSecret \<Rightarrow> PushSecret" where
  "ps_addFinalizer ps = ps\<lparr>ps_Meta := (ps_Meta ps)\<lparr>
     om_Finalizers := om_Finalizers (ps_Meta ps) @ [pushSecretFinalizer]\<rparr>\<rparr>"

definition ps_removeFinalizer :: "PushSecret \<Rightarrow> PushSecret" where
  "ps_removeFinalizer ps = ps\<lparr>ps_Meta := (ps_Meta ps)\<lparr>
     om_Finalizers := filter (\<lambda>f. f \<noteq> pushSecretFinalizer) (om_Finalizers (ps_Meta ps))\<rparr>\<rparr>"

definition handleSourceSecretDeleted :: "PsEnv \<Rightarrow> PushSecret \<Rightarrow> ClientManager \<Rightarrow> ps_run" where
  "handleSourceSecretDeleted W ps m = do {
     ((r, badState), m1) \<leftarrow> DeleteSecretFromProviders W ps [] m;
     case r of
       GoPanic \<Rightarrow> ret ((GoPanic, ps), m1)
     | GoRet (Some e) \<Rightarrow>
         ps_fail W ps m1 (''failed to cleanup provider secrets: '' @ err_string e) (Some badState) e
     | GoRet None \<Rightarrow> do {
         ps' \<leftarrow> markAsSourceDeleted W (setSecrets [] ps);
         ret ((GoRet (no_requeue, None), ps'), m1)
       }
   }"

text \<open>The loop over the secrets.\<close>

fun sync_secrets ::
  "PsEnv \<Rightarrow> PsReconciler \<Rightarrow> PushSecret \<Rightarrow> store_map \<Rightarrow> instant \<Rightarrow> duration
   \<Rightarrow> K8sSecret list \<Rightarrow> SyncedPushSecretsMap \<Rightarrow> ClientManager \<Rightarrow> ps_run" where
  "sync_secrets W R ps stores start refreshInt [] allSynced m = do {
     ps' \<leftarrow> markAsDone W ps allSynced start;
     ret ((GoRet (requeue_after refreshInt, None), ps'), m)
   }"
| "sync_secrets W R ps stores start refreshInt (secret0 # secrets) allSynced m = do {
     t \<leftarrow> applyTemplate W ps secret0;
     case t of
       Inl e \<Rightarrow> ret ((GoRet (no_requeue, Some e), ps), m)
     | Inr secret \<Rightarrow> do {
         ((r, synced), m1) \<leftarrow> PushSecretToProviders W stores ps secret m;
         case r of
           GoPanic \<Rightarrow> ret ((GoPanic, ps), m1)
         | GoRet (Some e) \<Rightarrow>
             if errors_is e ErrConflict then ret ((GoRet (requeue_now, None), ps), m1)
             else ps_fail W ps m1 (''set secret failed: '' @ err_string e)
               (Some (mergeSecretState synced (pst_SyncedPushSecrets (ps_Status ps)))) e
         | GoRet None \<Rightarrow>
             if psp_DeletionPolicy (ps_Spec ps) = PushSecretDeletionPolicyDelete then do {
               ((d, badSyncState), m2) \<leftarrow> DeleteSecretFromProviders W ps synced m1;
               case d of
                 GoPanic \<Rightarrow> ret ((GoPanic, ps), m2)
               | GoRet (Some e) \<Rightarrow>
                   ps_fail W ps m2 (''Failed to Delete Secrets from Provider: '' @ err_string e)
                     (Some badSyncState) e
               | GoRet None \<Rightarrow> sync_secrets W R ps stores start refreshInt secrets
                   (mergeSecretState allSynced synced) m2
             } else sync_secrets W R ps stores start refreshInt secrets
               (mergeSecretState allSynced synced) m1
       }
   }"

definition source_gone :: "PushSecret \<Rightarrow> err \<Rightarrow> bool" where
  "source_gone ps e \<longleftrightarrow> is_not_found e
     \<and> (case psl_Secret (psp_Selector (ps_Spec ps)) of None \<Rightarrow> False | Some s \<Rightarrow> pss_Name s \<noteq> [])
     \<and> psp_DeletionPolicy (ps_Spec ps) = PushSecretDeletionPolicyDelete
     \<and> length (pst_SyncedPushSecrets (ps_Status ps)) > 0"

definition ps_sync ::
  "PsEnv \<Rightarrow> PsReconciler \<Rightarrow> string \<Rightarrow> PushSecret \<Rightarrow> instant \<Rightarrow> duration \<Rightarrow> ClientManager \<Rightarrow> ps_run" where
  "ps_sync W R ns ps start refreshInt m =
     (case validateDataToStoreRefs 0 (psp_DataTo (ps_Spec ps)) (psp_SecretStoreRefs (ps_Spec ps)) of
        Some e \<Rightarrow> ps_fail W ps m (err_string e) None e
      | None \<Rightarrow> do {
          s \<leftarrow> resolveSecrets W ps;
          case s of
            Inl e \<Rightarrow>
              if source_gone ps e then handleSourceSecretDeleted W ps m
              else ps_fail W ps m ''could not get source secret'' None e
          | Inr secrets \<Rightarrow> do {
              g \<leftarrow> GetSecretStores W ps;
              case g of
                Inl e \<Rightarrow> ps_fail W ps m (err_string e) None e
              | Inr found \<Rightarrow> do {
                  u \<leftarrow> removeUnmanagedStores W ns R (active_stores found);
                  case u of
                    Inl e \<Rightarrow> ps_fail W ps m (err_string e) None e
                  | Inr stores \<Rightarrow>
                      if length stores = 0 then ret ((GoRet (no_requeue, None), ps), m)
                      else (case validateDataToMatchesResolvedStores (envw W) 0 (psp_DataTo (ps_Spec ps)) stores of
                          Some e \<Rightarrow> ps_fail W ps m (err_string e) None e
                        | None \<Rightarrow> sync_secrets W R ps stores start refreshInt secrets [] m)
                }
            }
        })"

definition ps_refresh ::
  "PsEnv \<Rightarrow> PsReconciler \<Rightarrow> string \<Rightarrow> PushSecret \<Rightarrow> instant \<Rightarrow> duration \<Rightarrow> ClientManager \<Rightarrow> ps_run" where
  "ps_refresh W R ns ps start refreshInt m = do {
     t1 \<leftarrow> ps_now W;
     let timeSinceLastRefresh = (case pst_RefreshTime (ps_Status ps) of None \<Rightarrow> 0 | Some t \<Rightarrow> t1 - t);
     t2 \<leftarrow> ps_now W;
     case ps_shouldRefresh (envw W) t2 ps of
       GoPanic \<Rightarrow> ret ((GoPanic, ps), m)
     | GoRet refresh \<Rightarrow>
         if refresh then ps_sync W R ns ps start refreshInt m
         else (case psp_RefreshInterval (ps_Spec ps) of
             None \<Rightarrow> ret ((GoPanic, ps), m)
           | Some interval \<Rightarrow>
               ret ((GoRet (requeue_after (interval - timeSinceLastRefresh + 5 * second), None), ps), m))
   }"

definition ps_reconcile ::
  "PsEnv \<Rightarrow> PsReconciler \<Rightarrow> string \<Rightarrow> PushSecret \<Rightarrow> instant \<Rightarrow> ClientManager \<Rightarrow> ps_run" where
  "ps_reconcile W R ns ps start m =
     (let refreshInt = (case psp_RefreshInterval (ps_Spec ps) of
            None \<Rightarrow> psc_RequeueInterval R | Some d \<Rightarrow> d);
          hasFinalizer = pushSecretFinalizer \<in> set (om_Finalizers (ps_Meta ps));
          failed = (\<lambda>e. GoRet (no_requeue, Some (ErrWrap ''could not update finalizers'' e))) in
      if psp_DeletionPolicy (ps_Spec ps) = PushSecretDeletionPolicyDelete then
        (if om_DeletionTimestamp (ps_Meta ps) = None then
           (if hasFinalizer then ps_refresh W R ns ps start refreshInt m
            else do {
              (w, ps1) \<leftarrow> ps_update W (ps_addFinalizer ps);
              ret ((case w of Some e \<Rightarrow> failed e | None \<Rightarrow> GoRet (requeue_now, None), ps1), m)
            })
         else if hasFinalizer then do {
           ((r, badState), m1) \<leftarrow> DeleteSecretFromProviders W ps [] m;
           case r of
             GoPanic \<Rightarrow> ret ((GoPanic, ps), m1)
           | GoRet (Some e) \<Rightarrow>
               ps_fail W ps m1 (''Failed to Delete Secrets from Provider: '' @ err_string e) (Some badState) e
           | GoRet None \<Rightarrow> do {
               (w, ps1) \<leftarrow> ps_update W (ps_removeFinalizer ps);
               ret ((case w of Some e \<Rightarrow> failed e | None \<Rightarrow> GoRet (no_requeue, None), ps1), m1)
             }
         } else ps_refresh W R ns ps start refreshInt m)
      else if psp_DeletionPolicy (ps_Spec ps) = PushSecretDeletionPolicyNone \<and> hasFinalizer then do {
        (w, ps1) \<leftarrow> ps_update W (ps_removeFinalizer ps);
        case w of
          Some e \<Rightarrow> ret ((failed e, ps1), m)
        | None \<Rightarrow> ps_refresh W R ns ps1 start refreshInt m
      } else ps_refresh W R ns ps start refreshInt m)"

definition ps_Reconcile :: "PsEnv \<Rightarrow> PsReconciler \<Rightarrow> string \<Rightarrow> string \<Rightarrow> outcome guarded io" where
  "ps_Reconcile W R ns name = do {
     start \<leftarrow> ps_now W;
     g \<leftarrow> ps_get W ns name;
     case g of
       Inl e \<Rightarrow>
         if is_not_found e then ret (GoRet (no_requeue, None))
         else do {
           _ \<leftarrow> k_event ''Warning'' ReasonErrored ''unable to get PushSecret'';
           ret (GoRet (no_requeue, Some (ErrWrap ''get resource'' e)))
         }
     | Inr ps \<Rightarrow> do {
         ((r, ps'), m) \<leftarrow> ps_reconcile W R ns ps start (NewManager (psc_ControllerClass R) False);
         _ \<leftarrow> ps_write W (CStatusPatch (OPS ps'));
         _ \<leftarrow> cm_Close m;
         ret r
       }
   }"

end
