(* ===== verification/Ps_Sample.thy ===== *)
theory Ps_Sample
  imports Ps_Controller Client_Manager_Laws
begin

text \<open>
  A world in which the PushSecret controller runs to the end: one store, and a provider that puts every
  request it gets into the history.  The examples and the statements about single faults use it.
\<close>

section \<open>A world with one provider\<close>

text \<open>A store whose provider puts every request it gets into the history.\<close>

definition logging_client :: EsSecretsClient where
  "logging_client = idle_client\<lparr>
     esc_PushSecret := (\<lambda>secret psd. ask (CRest [] (RCreateSecret (pd_RemoteKey psd) [] [] (BodyToken []))) (\<lambda>h. GoRet None)),
     esc_DeleteSecret := (\<lambda>ref. ask (CRest [] (RDeleteItem (pd_RemoteKey ref) (BodyToken []))) (\<lambda>h. GoRet None))\<rparr>"

definition logging_world :: "K8sSecret list \<Rightarrow> PsEnv" where
  "logging_world sources = sample_ps_env\<lparr>
     esw := sample_es_env\<lparr>
       providers := [(''idle'', idle_provider\<lparr>epr_NewClient := (\<lambda>store ns. ret (Inr logging_client))\<rparr>)],
       getEsStore := (\<lambda>h ns n. Inr (idle_store\<lparr>gs_Meta := sample_meta\<lparr>om_Name := ''store''\<rparr>\<rparr>))\<rparr>,
     listSecretsBy := (\<lambda>h ns sel. Inr sources)\<rparr>"

definition source_of :: "string \<Rightarrow> K8sSecret" where
  "source_of key = \<lparr>sec_Meta = sample_meta, sec_Type = [], sec_Data = [(key, ''value'')], sec_Immutable = None\<rparr>"

definition selecting_ps :: PushSecret where
  "selecting_ps = sample_ps\<lparr>
     ps_Meta := sample_meta\<lparr>om_Finalizers := [pushSecretFinalizer]\<rparr>,
     ps_Spec := (ps_Spec sample_ps)\<lparr>psp_DeletionPolicy := PushSecretDeletionPolicyDelete,
       psp_Data := [],
       psp_DataTo := [\<lparr>pdt_StoreRef = Some sample_store_ref, pdt_RemoteKey = [], pdt_Match = None,
         pdt_Rewrite = [], pdt_Metadata = None, pdt_ConversionStrategy = PushSecretConversionNone\<rparr>],
       psp_Selector := \<lparr>psl_Secret = Some \<lparr>pss_Name = [], pss_Selector = Some \<lparr>ls_MatchLabels = [], ls_MatchExpressions = []\<rparr>\<rparr>, psl_GeneratorRef = None\<rparr>\<rparr>,
     ps_Status := (ps_Status sample_ps)\<lparr>pst_SyncedPushSecrets :=
       [(''SecretStore/store'', [(''a'', sample_push_data ''a'' ''a''), (''b'', sample_push_data ''b'' ''b'')])]\<rparr>\<rparr>"

definition sample_reconciler :: PsReconciler where
  "sample_reconciler = \<lparr>psc_ControllerClass = ''default'', psc_RequeueInterval = hour\<rparr>"

text \<open>
  What a reconcile of this resource asks of the provider, in order, and what it reports: the status of
  its conditions and the locations on record.
\<close>

definition selecting_run :: "K8sSecret list \<Rightarrow> Call list \<times> string list \<times> (string \<times> string list) list" where
  "selecting_run sources =
     (case run_state (ps_reconcile (logging_world sources) sample_reconciler ''app'' selecting_ps 5
        (NewManager ''default'' False)) [] of
      (((r, ps), m), h) \<Rightarrow> (rev (filter is_remote_write h), map cond_Status (pst_Conditions (ps_Status ps)),
        map (map_prod id mkeys) (pst_SyncedPushSecrets (ps_Status ps))))"

end
