(* ===== verification/Ps_Laws.thy ===== *)
theory Ps_Laws
  imports Ps_Sample Es_Laws
begin

text \<open>
  What the PushSecret controller does to the providers.  \<open>all_ok f xs h h'\<close> says that from the
  history \<open>h\<close> the calls \<open>f\<close> of all elements succeed one after the other and end in \<open>h'\<close>; the loops of
  the controller are described by the elements they got through.
\<close>

section \<open>Loops that stop at the first failure\<close>

inductive all_ok :: "('a \<Rightarrow> err option guarded io) \<Rightarrow> 'a list \<Rightarrow> history \<Rightarrow> history \<Rightarrow> bool" for f where
  finished: "all_ok f [] h h"
| next_ok: "run_state (f x) h = (GoRet None, h1) \<Longrightarrow> all_ok f xs h1 h' \<Longrightarrow> all_ok f (x # xs) h h'"

inductive_simps all_ok_Nil [simp]: "all_ok f [] h h'"
inductive_simps all_ok_Cons: "all_ok f (x # xs) h h'"

lemma all_ok_append: "all_ok f xs h h1 \<Longrightarrow> all_ok f ys h1 h' \<Longrightarrow> all_ok f (xs @ ys) h h'"
  by (induction rule: all_ok.induct) (auto intro: all_ok.intros)

text \<open>The first failure: what succeeded before it and how it failed.\<close>

definition stops :: "('a \<Rightarrow> err option guarded io) \<Rightarrow> 'a list \<Rightarrow> 'a list \<Rightarrow> err option guarded \<Rightarrow> history
  \<Rightarrow> history \<Rightarrow> bool" where
  "stops f xs okay r h h' \<longleftrightarrow>
     (okay = xs \<and> r = GoRet None \<and> all_ok f xs h h')
     \<or> (\<exists>x rest h1. xs = okay @ x # rest \<and> all_ok f okay h h1 \<and> run_state (f x) h1 = (r, h') \<and> r \<noteq> GoRet None)"

lemma stops_Nil: "stops f [] [] (GoRet None) h h"
  by (simp add: stops_def)

lemma stops_fail: "run_state (f x) h = (r, h') \<Longrightarrow> r \<noteq> GoRet None \<Longrightarrow> stops f (x # xs) [] r h h'"
  unfolding stops_def by (intro disjI2 exI [of _ x] exI [of _ xs] exI [of _ h]) (simp add: all_ok.finished)

lemma stops_Cons:
  "run_state (f x) h = (GoRet None, h1) \<Longrightarrow> stops f xs okay r h1 h' \<Longrightarrow> stops f (x # xs) (x # okay) r h h'"
  unfolding stops_def by (auto intro: all_ok.next_ok)

lemma stops_ok: "stops f xs okay (GoRet None) h h' \<longleftrightarrow> okay = xs \<and> all_ok f xs h h'"
  by (auto simp: stops_def)

lemma guarded_err_cases:
  fixes r :: "err option guarded"
  obtains (ok) "r = GoRet None" | (panic) "r = GoPanic" | (failed) e where "r = GoRet (Some e)"
  by (metis guarded.exhaust option.exhaust)

section \<open>What the loops do\<close>

text \<open>The call for one entry.\<close>

definition push_one ::
  "EsSecretsClient \<Rightarrow> K8sSecret \<Rightarrow> string \<Rightarrow> bytes gomap gomap \<Rightarrow> string \<Rightarrow> PushSecretData
   \<Rightarrow> err option guarded io" where
  "push_one client secret policy overrides storeName data = pushSecretEntry client secret
     \<lparr>pep_data = data, pep_updatePolicy = policy, pep_originalData = sec_Data secret,
      pep_dataOverride = mget overrides (statusRef data), pep_storeName = storeName\<rparr>"

abbreviation delete_one :: "EsSecretsClient \<Rightarrow> string \<times> PushSecretData \<Rightarrow> err option guarded io" where
  "delete_one client \<equiv> \<lambda>(_, d). DeleteSecretFromStore client d"

text \<open>All loops have this form; the record is changed once for every element that succeeded.\<close>

lemma loop_stops:
  assumes "\<And>out h. run_state (loop [] out) h = ((GoRet None, out), h)"
    and "\<And>x xs out h x' h1. run_state (f x) h = (x', h1) \<Longrightarrow> run_state (loop (x # xs) out) h
      = (if x' = GoRet None then run_state (loop xs (g x out)) h1 else ((x', out), h1))"
    and "run_state (loop xs out) h = ((r, out'), h')"
  obtains okay where "stops f xs okay r h h'" and "out' = fold g okay out"
proof -
  have "\<exists>okay. stops f xs okay r h h' \<and> out' = fold g okay out"
    using assms(3)
  proof (induction xs arbitrary: out h)
    case Nil
    with assms(1) show ?case by (auto intro: stops_Nil)
  next
    case (Cons x xs)
    obtain x' h1 where x: "run_state (f x) h = (x', h1)" by fastforce
    show ?case
    proof (cases "x' = GoRet None")
      case True
      with Cons.prems assms(2) [OF x] have "run_state (loop xs (g x out)) h1 = ((r, out'), h')" by simp
      from Cons.IH [OF this] obtain okay where "stops f xs okay r h1 h'" "out' = fold g okay (g x out)"
        by blast
      with x True show ?thesis by (intro exI [of _ "x # okay"]) (simp add: stops_Cons)
    next
      case False
      with Cons.prems assms(2) [OF x] have "r = x' \<and> out' = out \<and> h' = h1" by simp
      with x False show ?thesis by (intro exI [of _ "[]"]) (simp add: stops_fail)
    qed
  qed
  with that show thesis by blast
qed

lemma push_entries_stops:
  assumes "run_state (push_entries client secret policy overrides n k ds out) h = ((r, out'), h')"
  obtains okay where "stops (push_one client secret policy overrides n) ds okay r h h'"
    and "out' = fold (record_entry k) okay out"
proof (rule loop_stops [where loop = "push_entries client secret policy overrides n k"
      and f = "push_one client secret policy overrides n" and g = "record_entry k", OF _ _ assms], goal_cases)
  case (2 x xs out h x' h1)
  then show ?case by (cases x' rule: guarded_err_cases) (simp_all add: push_one_def)
qed (use that in simp_all)

definition obsolete :: "PushSecretData gomap \<Rightarrow> PushSecretData gomap \<Rightarrow> PushSecretData gomap" where
  "obsolete newData oldData = filter (\<lambda>(entry, _). mget newData entry = None) oldData"

lemma delete_entries_obsolete:
  "delete_entries client n newData oldData out = delete_entries client n [] (obsolete newData oldData) out"
proof (induction oldData arbitrary: out)
  case (Cons kd oldData)
  show ?case
  proof (cases kd)
    case (Pair k d)
    have o: "obsolete newData ((k, d) # oldData)
        = (if mget newData k = None then (k, d) # obsolete newData oldData else obsolete newData oldData)"
      by (simp add: obsolete_def)
    show ?thesis unfolding Pair o by (simp add: Cons.IH cong: guarded.case_cong option.case_cong)
  qed
qed (simp add: obsolete_def)

lemma delete_entries_stops:
  assumes "run_state (delete_entries client n newData oldData out) h = ((r, out'), h')"
  obtains okay where "stops (delete_one client) (obsolete newData oldData) okay r h h'"
    and "out' = fold (drop_entry n) (map fst okay) out"
proof (rule loop_stops [where loop = "delete_entries client n []" and f = "delete_one client"
      and g = "\<lambda>kd. drop_entry n (fst kd)", OF _ _ assms [unfolded delete_entries_obsolete [of _ _ newData]]],
      goal_cases)
  case (2 x xs out h x' h1)
  then show ?case by (cases x; cases x' rule: guarded_err_cases) simp_all
next
  case (3 okay)
  with that show ?case by (simp add: fold_map comp_def)
qed simp

lemma DeleteAll_stops:
  assumes "run_state (DeleteAllSecretsFromStore client data) h = (r, h')"
  obtains okay where "stops (delete_one client) data okay r h h'"
proof (rule loop_stops [where loop = "\<lambda>data (out :: unit). do {
      r \<leftarrow> DeleteAllSecretsFromStore client data; ret (r, out) }"
      and f = "delete_one client" and g = "\<lambda>_. id" and xs = data and out = "()" and h = h and r = r
      and out' = "()" and h' = h'], goal_cases)
  case (2 x xs out h x' h1)
  then show ?case by (cases x; cases x' rule: guarded_err_cases) (simp_all add: run_cases split: prod.splits)
qed (use assms that in \<open>simp_all\<close>)

end
