(* ===== verification/Ps_Interfaces.thy ===== *)
theory Ps_Interfaces
  imports Ps_World Es_Data_Laws Client_Manager_Laws Akeyless_Laws
begin

text \<open>
  What the PushSecret controller relies on beyond the contract \<open>es_sources\<close>: a client writes nothing
  to the API server, and in Akeyless only under the remote key of the entry it is given.  The
  contract \<open>push_sources\<close> is discharged for the environments in which the Akeyless provider is the
  registered one.
\<close>

section \<open>The contract\<close>

fun remote_key :: "Call \<Rightarrow> string option" where
  "remote_key (CRest u (RCreateSecret n v tags tok)) = Some n"
| "remote_key (CRest u (RUpdateSecretVal n v tok)) = Some n"
| "remote_key (CRest u (RDeleteItem n tok)) = Some n"
| "remote_key c = None"

lemma remote_write_key: "is_remote_write c \<longleftrightarrow> remote_key c \<noteq> None"
  by (cases c rule: remote_key.cases) simp_all

definition writes_at :: "string set \<Rightarrow> Call \<Rightarrow> bool" where
  "writes_at K c \<longleftrightarrow> \<not> is_k8s_write c \<and> (\<forall>k. remote_key c = Some k \<longrightarrow> k \<in> K)"

lemma quiet_writes_at [simp]: "quiet c \<Longrightarrow> writes_at K c"
  by (auto simp: quiet_def writes_at_def remote_write_key)

text \<open>Pushing deletes no item.\<close>

fun is_item_delete :: "Call \<Rightarrow> bool" where
  "is_item_delete (CRest u (RDeleteItem n tok)) = True"
| "is_item_delete c = False"

definition pushes_at :: "string set \<Rightarrow> Call \<Rightarrow> bool" where
  "pushes_at K c \<longleftrightarrow> writes_at K c \<and> \<not> is_item_delete c"

lemma writes_at_mono: "writes_at K c \<Longrightarrow> K \<subseteq> L \<Longrightarrow> writes_at L c"
  by (auto simp: writes_at_def)

definition pushing_client :: "EsSecretsClient \<Rightarrow> bool" where
  "pushing_client c \<longleftrightarrow> es_quiet_client c
     \<and> (\<forall>s d. performs (pushes_at {pd_RemoteKey d}) (esc_PushSecret c s d))
     \<and> (\<forall>ref. performs (writes_at {pd_RemoteKey ref}) (esc_DeleteSecret c ref))
     \<and> (\<forall>ref. performs quiet (esc_SecretExists c ref))"

locale push_sources = es_sources "esw W" for W :: PsEnv +
  assumes client_pushes: "mget (providers (esw W)) k = Some p \<Longrightarrow>
    Inr c \<in> results (epr_NewClient p store ns) \<Longrightarrow> pushing_client c"
begin

text \<open>A manager whose clients were made by registered providers.\<close>

definition good_cm :: "string \<Rightarrow> ClientManager \<Rightarrow> bool" where
  "good_cm ns m \<longleftrightarrow> quiet_manager m \<and> pool_ok (esw W) ns m"

lemma good_cm_new: "good_cm ns (NewManager class floodgate)"
  by (simp add: good_cm_def quiet_NewManager pool_ok_NewManager)

definition got :: "string \<Rightarrow> (err + EsSecretsClient) \<times> ClientManager \<Rightarrow> bool" where
  "got ns = (\<lambda>(r, m). good_cm ns m \<and> (\<forall>c. r = Inr c \<longrightarrow> pushing_client c))"

lemma keeps_get:
  assumes "good_cm ns m"
  shows "keeps quiet (got ns) (cm_Get (esw W) m ref ns src)"
proof -
  have q: "keeps quiet fetched_ok (cm_Get (esw W) m ref ns src)"
    using assms by (intro keeps_cm_Get) (simp add: good_cm_def)
  have "got ns (r, m')" if "run_state (cm_Get (esw W) m ref ns src) h = ((r, m'), h')"
    and "fetched_ok (r, m')" for r m' h h'
  proof -
    have p: "pool_ok (esw W) ns m" using assms by (simp add: good_cm_def)
    have "pool_ok (esw W) ns m' \<and> (\<forall>c. r = Inr c \<longrightarrow> (\<exists>ty s. Client_Manager_Laws.made_for (esw W) ns ty c s))"
      using cm_Get_split [OF that(1)] GetFromStore_ok [OF p] p by blast
    with that(2) client_pushes show ?thesis
      by (auto simp: got_def good_cm_def fetched_ok_def Client_Manager_Laws.made_for_def)
  qed
  with q show ?thesis
    unfolding keeps_def traces_def by (metis (no_types, lifting) prod.exhaust_sel)
qed

lemma keeps_with_pushing_client:
  assumes "good_cm ns m"
    and "\<And>e m'. good_cm ns m' \<Longrightarrow> keeps P Q (f (Inl e, m'))"
    and "\<And>c m'. good_cm ns m' \<Longrightarrow> pushing_client c \<Longrightarrow> keeps P Q (f (Inr c, m'))"
    and quiet: "\<And>c. quiet c \<Longrightarrow> P c"
  shows "keeps P Q (State_Monad.bind (cm_Get (esw W) m ref ns src) f)"
proof (rule keeps_bind)
  show "keeps P (got ns) (cm_Get (esw W) m ref ns src)"
    by (rule keeps_mono [OF keeps_get [OF assms(1)]]) (simp_all add: quiet)
  fix a :: "(err + EsSecretsClient) \<times> ClientManager"
  assume "got ns a"
  then show "keeps P Q (f a)"
    using assms(2,3) by (cases a; cases "fst a") (auto simp: got_def)
qed

end

section \<open>The Akeyless provider keeps it\<close>

lemma writes_at_rest [simp]:
  "writes_at {n} (CRest u (RCreateSecret n v tags tok))"
  "writes_at {n} (CRest u (RUpdateSecretVal n v tok))"
  "writes_at {n} (CRest u (RDeleteItem n tok))"
  by (simp_all add: writes_at_def)

lemma push_call_pushes_at: "push_call a key c \<Longrightarrow> pushes_at {key} c"
  by (erule push_call.elims(2)) (auto simp: writes_at_def pushes_at_def)

lemma delete_call_writes_at: "delete_call a key c \<Longrightarrow> writes_at {key} c"
  by (erule delete_call.elims(2)) (auto simp: writes_at_def)

lemma akeyless_client_pushes: "pushing_client (akeyless_es_client E a)"
proof -
  have "performs (pushes_at {pd_RemoteKey d}) (PushSecret E a None s (PushData.truncate d))"
    for s :: K8sSecret and d :: PushSecretData
    by (rule performs_mono [OF performs_PushSecret])
      (use push_call_pushes_at in \<open>fastforce simp: PushData.defs\<close>)
  moreover have "performs (writes_at {pd_RemoteKey ref}) (DeleteSecret E a None ref)" for ref
    by (rule performs_mono [OF performs_DeleteSecret delete_call_writes_at])
  moreover have "performs quiet (SecretExists E a None ref)" for ref
    by (rule performs_mono [OF performs_SecretExists may_read_quiet])
  ultimately show ?thesis
    unfolding pushing_client_def
    by (intro conjI akeyless_es_client_quiet)
      (simp_all add: akeyless_es_client_def akeyless_client_def SecretsClient.defs EsSecretsClient.defs)
qed

definition akeyless_push_world ::
  "(bytes \<Rightarrow> err + PasswordSpec) \<Rightarrow> generateFunc
   \<Rightarrow> (history \<Rightarrow> string \<Rightarrow> GeneratorRef \<Rightarrow> err + bytes) \<Rightarrow> PsEnv \<Rightarrow> PsEnv" where
  "akeyless_push_world parseSpec passGen resources W =
     W\<lparr>esw := akeyless_world parseSpec passGen resources (esw W)\<rparr>"

lemma akeyless_sources: "es_sources (esw (akeyless_push_world parseSpec passGen resources W))"
  by (simp add: akeyless_push_world_def akl_es.es_sources_axioms)

interpretation akl_push: push_sources "akeyless_push_world parseSpec passGen resources W"
  for parseSpec passGen resources W
proof (rule push_sources.intro [OF akeyless_sources], unfold_locales, goal_cases)
  case (1 k p c store ns)
  then show ?case
    by (auto simp: akeyless_push_world_def akeyless_world_def akeyless_client_pushes
        elim!: results_es_provider split: if_splits)
qed

end
