(* ===== verification/Ps_Writes.thy ===== *)
theory Ps_Writes
  imports Ps_Laws Ps_Interfaces Es_Writes
begin

text \<open>
  Which writes a reconcile of a PushSecret can make, for all registered providers that keep the
  contract \<open>push_sources\<close>: in Akeyless under the keys it plans to push or has on record, on the API
  server its finalizer, its status and generator states.
\<close>

section \<open>Allowed writes\<close>

text \<open>The remote keys some source can be pushed to, and those the status says were pushed.\<close>

definition planned :: "PsEnv \<Rightarrow> PushSecret \<Rightarrow> string set" where
  "planned W ps = {pd_RemoteKey d | d secret n k labels entries overrides.
     store_entries (envw W) (ps_Spec ps) secret n k labels = Inr (entries, overrides) \<and> d \<in> set entries}"

definition recorded :: "PushSecret \<Rightarrow> string set" where
  "recorded ps = {pd_RemoteKey d | d store data entry.
     (store, data) \<in> set (pst_SyncedPushSecrets (ps_Status ps)) \<and> (entry, d) \<in> set data}"

definition deletes :: "PushSecret \<Rightarrow> bool" where
  "deletes ps \<longleftrightarrow> psp_DeletionPolicy (ps_Spec ps) = PushSecretDeletionPolicyDelete"

definition remote_allowed :: "PsEnv \<Rightarrow> PushSecret \<Rightarrow> Call \<Rightarrow> bool" where
  "remote_allowed W ps c \<longleftrightarrow> pushes_at (planned W ps) c \<or> deletes ps \<and> writes_at (recorded ps) c"

fun finalizer_write :: "PushSecret \<Rightarrow> Call \<Rightarrow> bool" where
  "finalizer_write ps (CUpdate ob) =
     (ob = OPS (ps_addFinalizer ps) \<and> deletes ps \<and> om_DeletionTimestamp (ps_Meta ps) = None
      \<or> ob = OPS (ps_removeFinalizer ps)
        \<and> (om_DeletionTimestamp (ps_Meta ps) \<noteq> None
           \<or> psp_DeletionPolicy (ps_Spec ps) = PushSecretDeletionPolicyNone))"
| "finalizer_write ps c = False"

text \<open>What a synchronisation does, and what a run does around it.\<close>

definition sync_call :: "PsEnv \<Rightarrow> PushSecret \<Rightarrow> Call \<Rightarrow> bool" where
  "sync_call W ps c \<longleftrightarrow> remote_allowed W ps c \<or> state_write c"

definition ps_call :: "PsEnv \<Rightarrow> PushSecret \<Rightarrow> Call \<Rightarrow> bool" where
  "ps_call W ps c \<longleftrightarrow> sync_call W ps c \<or> finalizer_write ps c
     \<or> (\<exists>ps'. c = CStatusPatch (OPS ps') \<and> ps_Spec ps' = ps_Spec ps)"

lemma quiet_pushes_at [simp]: "quiet c \<Longrightarrow> pushes_at K c"
  by (cases c rule: is_item_delete.cases) (auto simp: pushes_at_def quiet_def)

lemma sync_call_quiet [simp]: "quiet c \<Longrightarrow> sync_call W ps c"
  by (simp add: sync_call_def remote_allowed_def)

lemma sync_call_state: "state_write c \<Longrightarrow> sync_call W ps c"
  by (simp add: sync_call_def)

lemma keeps_quiet_call: "keeps quiet Q m \<Longrightarrow> keeps (sync_call W ps) Q m"
  by (erule keeps_mono) simp_all

lemma pushes_at_single: "pushes_at {k} c \<Longrightarrow> k \<in> K \<Longrightarrow> pushes_at K c"
  by (auto simp: pushes_at_def writes_at_def)

lemma writes_at_single: "writes_at {k} c \<Longrightarrow> k \<in> K \<Longrightarrow> writes_at K c"
  by (auto simp: writes_at_def)

section \<open>Entries and stores\<close>

lemma performs_quietly: "performs quiet m \<Longrightarrow> performs (sync_call W ps) m"
  by (erule performs_mono) simp

lemma performs_pushSecretEntry:
  assumes "pushing_client c" and "pd_RemoteKey (pep_data p) \<in> planned W ps"
  shows "performs (sync_call W ps) (pushSecretEntry c secret p)"
proof -
  have e: "performs (sync_call W ps) (esc_SecretExists c ref)" for ref
    using assms(1) unfolding pushing_client_def by (blast intro: performs_quietly)
  have "performs (pushes_at {pd_RemoteKey (pep_data p)}) (esc_PushSecret c s (pep_data p))" for s
    using assms(1) unfolding pushing_client_def by blast
  then have "performs (sync_call W ps) (esc_PushSecret c s (pep_data p))" for s
    by (rule performs_mono)
      (use assms(2) in \<open>auto simp: sync_call_def remote_allowed_def dest: pushes_at_single\<close>)
  with e show ?thesis
    unfolding pushSecretEntry_def Let_def
    by (intro performs_intros) (auto split: sum.splits bool.splits intro!: performs_intros)
qed

lemma performs_push_entries:
  assumes "pushing_client c"
  shows "(\<And>d. d \<in> set ds \<Longrightarrow> pd_RemoteKey d \<in> planned W ps) \<Longrightarrow>
    performs (sync_call W ps) (push_entries c secret policy ovs n key ds out)"
proof (induction ds arbitrary: out)
  case (Cons d ds)
  show ?case
    unfolding push_entries.simps
    by (intro performs_intros performs_pushSecretEntry [OF assms])
      (auto simp: Cons.prems split: guarded.splits option.splits intro!: performs_intros Cons.IH)
qed (simp add: performs_ret)

lemma performs_delete_one:
  assumes "pushing_client c" and "deletes ps" and "pd_RemoteKey d \<in> recorded ps"
  shows "performs (sync_call W ps) (DeleteSecretFromStore c d)"
proof -
  have "performs (writes_at {pd_RemoteKey (remote_ref d)}) (esc_DeleteSecret c (remote_ref d))"
    using assms(1) unfolding pushing_client_def by blast
  then show ?thesis
    unfolding DeleteSecretFromStore_def
    by (rule performs_mono)
      (use assms(2,3) in \<open>auto simp: sync_call_def remote_allowed_def remote_ref_def dest: writes_at_single\<close>)
qed

lemma performs_DeleteAll:
  assumes "pushing_client c" and "deletes ps"
  shows "\<forall>(e, d) \<in> set data. pd_RemoteKey d \<in> recorded ps \<Longrightarrow>
    performs (sync_call W ps) (DeleteAllSecretsFromStore c data)"
proof (induction data)
  case (Cons kv data)
  then show ?case
    by (cases kv) (auto split: guarded.splits option.splits
        intro!: performs_intros performs_delete_one [OF assms])
qed (simp add: performs_ret)

lemma performs_delete_entries:
  assumes "pushing_client c" and "deletes ps"
  shows "\<forall>(e, d) \<in> set data. pd_RemoteKey d \<in> recorded ps \<Longrightarrow>
    performs (sync_call W ps) (delete_entries c n newData data out)"
proof (induction data arbitrary: out)
  case (Cons kv data)
  then show ?case
    by (cases kv) (auto split: guarded.splits option.splits
        intro!: performs_intros performs_delete_one [OF assms])
qed (simp add: performs_ret)

section \<open>Sources, templates and reports\<close>

lemma performs_MergeTemplateFrom: "performs quiet (MergeTemplateFrom E p ns tpls s)"
proof (induction tpls arbitrary: s)
  case (Cons tpl tpls)
  show ?case
    unfolding MergeTemplateFrom.simps MergeConfigMap_def MergeSecret_def k_defs
    by (intro performs_intros Cons.IH) simp_all
qed (simp add: performs_ret)

lemma performs_applyTemplate: "performs quiet (applyTemplate W ps secret)"
  unfolding applyTemplate_def run_template_def Let_def
  by (intro performs_intros performs_MergeTemplateFrom)

lemma performs_collect_stores: "performs quiet (collect_stores W ns refs stores)"
proof (induction refs arbitrary: stores)
  case (Cons ref refs)
  show ?case
    unfolding collect_stores.simps getSecretStoreFromName_def ps_defs es_defs
    by (intro performs_intros Cons.IH) simp_all
qed (simp add: performs_ret)

lemma performs_remove_unmanaged: "performs quiet (remove_unmanaged W class ns todo ss)"
proof (induction todo arbitrary: ns ss)
  case (Cons rs todo)
  show ?case
    by (cases rs) (auto simp: Let_def es_defs intro!: performs_intros Cons.IH)
qed (simp add: performs_ret)

lemma keeps_markAsFailed:
  "keeps quiet (\<lambda>ps'. ps_Spec ps' = ps_Spec ps) (markAsFailed W msg ps synced)"
  unfolding markAsFailed_def Let_def ps_defs k_defs
  by (intro keeps_intros keeps_bind_performs performs_intros)
    (auto simp: SetPushSecretCondition_def setSecrets_def split: option.splits)

lemma keeps_markAsSourceDeleted:
  "keeps quiet (\<lambda>ps'. ps_Spec ps' = ps_Spec ps) (markAsSourceDeleted W ps)"
  unfolding markAsSourceDeleted_def Let_def ps_defs k_defs
  by (intro keeps_intros keeps_bind_performs performs_intros) (simp_all add: SetPushSecretCondition_def)

lemma keeps_markAsDone:
  "keeps quiet (\<lambda>ps'. ps_Spec ps' = ps_Spec ps) (markAsDone W ps synced start)"
  unfolding markAsDone_def Let_def ps_defs k_defs
  by (intro keeps_intros keeps_bind_performs performs_intros)
    (simp_all add: SetPushSecretCondition_def setSecrets_def)

context push_sources
begin

text \<open>A part of the run: the calls allowed for \<open>ps\<close>, ending with a manager in order.\<close>

definition in_order :: "string \<Rightarrow> 'a \<times> ClientManager \<Rightarrow> bool" where
  "in_order ns rm \<longleftrightarrow> good_cm ns (snd rm)"

lemma in_order_pair [simp]: "in_order ns (r, m) \<longleftrightarrow> good_cm ns m"
  by (simp add: in_order_def)

abbreviation (input) part :: "PushSecret \<Rightarrow> string \<Rightarrow> ('a \<times> ClientManager) io \<Rightarrow> bool" where
  "part ps ns m \<equiv> keeps (sync_call W ps) (in_order ns) m"

lemma part_ret: "good_cm ns m \<Longrightarrow> part ps ns (ret (r, m))"
  by (simp add: keeps_ret)

lemma part_delete_stores:
  assumes "deletes ps"
  shows "good_cm ns m \<Longrightarrow>
    \<forall>(s, data) \<in> set stores. \<forall>(e, d) \<in> set data. pd_RemoteKey d \<in> recorded ps \<Longrightarrow>
    part ps ns (delete_stores W ns newMap stores out m)"
proof (induction stores arbitrary: out m)
  case (Cons sd stores)
  obtain s data where sd: "sd = (s, data)" by fastforce
  show ?case
  proof (cases "parse_store_key s")
    case (Some ref)
    have d: "performs (sync_call W ps) (case mget newMap s of
          None \<Rightarrow> do { d \<leftarrow> DeleteAllSecretsFromStore c data;
                       ret (d, if d = GoRet None then mdel s out else out) }
        | Some newData \<Rightarrow> delete_entries c s newData data out)" if "pushing_client c" for c
      using Cons.prems(2) sd
      by (auto split: option.splits intro!: performs_intros performs_DeleteAll performs_delete_entries
          that assms)
    show ?thesis
      unfolding sd delete_stores.simps Some option.case
    proof (rule keeps_with_pushing_client [OF Cons.prems(1)], goal_cases)
      case (2 c m')
      then have rest: "part ps ns (delete_stores W ns newMap stores out' m')" for out'
        using Cons.prems(2) sd by (intro Cons.IH) auto
      with 2 show ?case
        by (auto intro!: keeps_bind_performs [OF d] keeps_if part_ret split: prod.split)
    qed (simp_all add: part_ret)
  qed (simp add: sd part_ret Cons.prems(1))
qed (simp add: part_ret)

lemma part_DeleteSecretFromProviders:
  assumes "deletes ps" and "good_cm (om_Namespace (ps_Meta ps)) m"
  shows "part ps (om_Namespace (ps_Meta ps)) (DeleteSecretFromProviders W ps newMap m)"
  unfolding DeleteSecretFromProviders_def Let_def
  by (rule part_delete_stores [OF assms]) (auto simp: recorded_def)

lemma part_handle:
  assumes "good_cm (om_Namespace (ps_Meta ps)) m"
  shows "part ps (om_Namespace (ps_Meta ps)) (handlePushSecretDataForStore W ps secret out m si)"
  unfolding handlePushSecretDataForStore_def Let_def
proof (rule keeps_with_pushing_client [OF assms], goal_cases)
  case (2 c m')
  have "pd_RemoteKey d \<in> planned W ps"
    if "store_entries (envw W) (ps_Spec ps) secret (si_Name si) (si_Kind si) (si_Labels si) = Inr (ds, ovs)"
      and "d \<in> set ds" for ds ovs d
    using that unfolding planned_def by blast
  with 2 show ?case
    by (auto split: sum.splits intro!: part_ret keeps_bind_performs performs_push_entries)
qed (simp_all add: part_ret)

lemma part_push_stores:
  "good_cm (om_Namespace (ps_Meta ps)) m \<Longrightarrow>
   part ps (om_Namespace (ps_Meta ps)) (push_stores W ps secret stores out m)"
proof (induction stores arbitrary: out m)
  case (Cons rs stores)
  obtain ref store where rs: "rs = (ref, store)" by fastforce
  show ?case
    unfolding rs push_stores.simps
    by (rule keeps_bind [OF part_handle [OF Cons.prems]])
      (auto split: prod.splits intro!: keeps_if part_ret Cons.IH)
qed (simp add: part_ret)

lemma part_PushSecretToProviders:
  "good_cm (om_Namespace (ps_Meta ps)) m \<Longrightarrow>
   part ps (om_Namespace (ps_Meta ps)) (PushSecretToProviders W stores ps secret m)"
  unfolding PushSecretToProviders_def by (rule part_push_stores)

lemma performs_resolveSecrets: "performs (sync_call W ps') (resolveSecrets W ps)"
proof -
  have g: "performs quiet (resolveSecretFromGenerator W ns ref gs)" for ns ref gs
    unfolding resolveSecretFromGenerator_def
    by (rule keeps_performs [where Q = "\<lambda>_. True"], rule keeps_bind [OF keeps_es_generator])
      (auto split: sum.splits intro!: performs_keeps performs_intros es_quiet_generatorD)
  have "performs quiet (select_secrets W ps gs)" for gs
    unfolding select_secrets_def Let_def ps_defs k_defs by (intro performs_intros g) simp_all
  moreover have "performs (sync_call W ps') (Commit E m)" for E m
    unfolding Commit_def
    by (intro performs_intros performs_run_queue performs_mono [OF performs_commit_item])
      (auto intro: sync_call_state)
  ultimately show ?thesis
    unfolding resolveSecrets_def Let_def
    by (intro performs_bind [OF performs_quietly]) (auto intro!: performs_bind performs_ret)
qed

text \<open>A whole run: the resource it ends with has the same specification.\<close>

definition run_ok :: "PushSecret \<Rightarrow> (outcome guarded \<times> PushSecret) \<times> ClientManager \<Rightarrow> bool" where
  "run_ok ps rm \<longleftrightarrow> ps_Spec (snd (fst rm)) = ps_Spec ps \<and> quiet_manager (snd rm)"

lemma run_ok_simp [simp]: "run_ok ps ((r, ps'), m) \<longleftrightarrow> ps_Spec ps' = ps_Spec ps \<and> quiet_manager m"
  by (simp add: run_ok_def)

lemma good_cm_quiet: "good_cm ns m \<Longrightarrow> quiet_manager m"
  by (simp add: good_cm_def)

lemma run_fail:
  "quiet_manager m \<Longrightarrow> keeps (sync_call W ps0) (run_ok ps) (ps_fail W ps m msg synced e)"
  unfolding ps_fail_def
  by (rule keeps_bind [OF keeps_quiet_call [OF keeps_markAsFailed]]) (auto intro: keeps_ret)

lemma run_handleSourceSecretDeleted:
  assumes "deletes ps" and "good_cm (om_Namespace (ps_Meta ps)) m"
  shows "keeps (sync_call W ps) (run_ok ps) (handleSourceSecretDeleted W ps m)"
  unfolding handleSourceSecretDeleted_def
proof (rule keeps_bind [OF part_DeleteSecretFromProviders [OF assms]], goal_cases)
  case (1 a)
  obtain r bad m1 where a: "a = ((r, bad), m1)" by (metis prod.exhaust)
  with 1 have m: "quiet_manager m1" by (simp add: good_cm_quiet)
  show ?case
    unfolding a prod.case
    by (cases r rule: guarded_err_cases)
      (use m in \<open>auto intro!: keeps_ret run_fail keeps_bind [OF keeps_quiet_call [OF keeps_markAsSourceDeleted]]
        simp: setSecrets_def\<close>)
qed

lemma run_sync_secrets:
  "good_cm (om_Namespace (ps_Meta ps)) m \<Longrightarrow>
   keeps (sync_call W ps) (run_ok ps) (sync_secrets W R ps stores start refreshInt secrets all m)"
proof (induction secrets arbitrary: all m)
  case Nil
  then show ?case
    by (auto intro!: keeps_ret keeps_bind [OF keeps_quiet_call [OF keeps_markAsDone]] simp: good_cm_quiet)
next
  case (Cons secret0 secrets)
  let ?ns = "om_Namespace (ps_Meta ps)"
  have deleted: "keeps (sync_call W ps) (run_ok ps) (do {
        ((d, bad), m2) \<leftarrow> DeleteSecretFromProviders W ps synced m1;
        case d of
          GoPanic \<Rightarrow> ret ((GoPanic, ps), m2)
        | GoRet (Some e) \<Rightarrow>
            ps_fail W ps m2 (''Failed to Delete Secrets from Provider: '' @ err_string e) (Some bad) e
        | GoRet None \<Rightarrow> sync_secrets W R ps stores start refreshInt secrets (mergeSecretState all synced) m2
      })" if "deletes ps" "good_cm ?ns m1" for synced m1
  proof (rule keeps_bind [OF part_DeleteSecretFromProviders [OF that]], goal_cases)
    case (1 a)
    obtain d bad m2 where a: "a = ((d, bad), m2)" by (metis prod.exhaust)
    with 1 have "good_cm ?ns m2" by simp
    then show ?case
      unfolding a prod.case
      by (cases d rule: guarded_err_cases) (auto intro!: keeps_ret run_fail Cons.IH simp: good_cm_quiet)
  qed
  have pushed: "keeps (sync_call W ps) (run_ok ps) (do {
        ((r, synced), m1) \<leftarrow> PushSecretToProviders W stores ps secret m;
        case r of
          GoPanic \<Rightarrow> ret ((GoPanic, ps), m1)
        | GoRet (Some e) \<Rightarrow>
            if errors_is e ErrConflict then ret ((GoRet (requeue_now, None), ps), m1)
            else ps_fail W ps m1 (''set secret failed: '' @ err_string e)
              (Some (mergeSecretState synced (pst_SyncedPushSecrets (ps_Status ps)))) e
        | GoRet None \<Rightarrow>
            if psp_DeletionPolicy (ps_Spec ps) = PushSecretDeletionPolicyDelete then do {
              ((d, badSyncState), m2) \<leftarrow> DeleteSecretFromProviders W ps synced m1;
              case d of
                GoPanic \<Rightarrow> ret ((GoPanic, ps), m2)
              | GoRet (Some e) \<Rightarrow>
                  ps_fail W ps m2 (''Failed to Delete Secrets from Provider: '' @ err_string e)
                    (Some badSyncState) e
              | GoRet None \<Rightarrow> sync_secrets W R ps stores start refreshInt secrets
                  (mergeSecretState all synced) m2
            } else sync_secrets W R ps stores start refreshInt secrets (mergeSecretState all synced) m1
      })" for secret
  proof (rule keeps_bind [OF part_PushSecretToProviders [OF Cons.prems]], goal_cases)
    case (1 a)
    obtain r synced m1 where a: "a = ((r, synced), m1)" by (metis prod.exhaust)
    with 1 have m: "good_cm ?ns m1" by simp
    show ?case
      unfolding a prod.case
      by (cases r rule: guarded_err_cases)
        (use m deleted [unfolded deletes_def, OF _ m] in
          \<open>auto intro!: keeps_ret keeps_if run_fail Cons.IH simp: good_cm_quiet\<close>)
  qed
  show ?case
    unfolding sync_secrets.simps
    by (rule keeps_bind_performs [OF performs_quietly [OF performs_applyTemplate]])
      (use Cons.prems in \<open>auto split: sum.split intro!: keeps_ret pushed dest: good_cm_quiet\<close>)
qed

lemma run_ps_sync:
  assumes "good_cm (om_Namespace (ps_Meta ps)) m"
  shows "keeps (sync_call W ps) (run_ok ps) (ps_sync W R ns ps start refreshInt m)"
  unfolding ps_sync_def Let_def GetSecretStores_def removeUnmanagedStores_def
  using good_cm_quiet [OF assms] assms
  by (intro keeps_case_option keeps_case_sum keeps_if keeps_ret run_fail run_sync_secrets
      run_handleSourceSecretDeleted keeps_bind_performs [OF performs_resolveSecrets]
      keeps_bind_performs [OF performs_quietly [OF performs_collect_stores]]
      keeps_bind_performs [OF performs_quietly [OF performs_remove_unmanaged]])
    (simp_all add: source_gone_def deletes_def)

lemma run_ps_refresh:
  assumes "good_cm (om_Namespace (ps_Meta ps)) m"
  shows "keeps (sync_call W ps) (run_ok ps) (ps_refresh W R ns ps start refreshInt m)"
  unfolding ps_refresh_def Let_def ps_defs
  using good_cm_quiet [OF assms]
  by (intro keeps_bind_performs [OF performs_now])
    (auto split: guarded.split option.split intro!: keeps_ret run_ps_sync assms)

end

lemma ps_call_sync: "sync_call W ps c \<Longrightarrow> ps_call W ps c"
  by (simp add: ps_call_def)

lemma ps_call_quiet [simp]: "quiet c \<Longrightarrow> ps_call W ps c"
  by (simp add: ps_call_sync)

lemma sync_call_cong:
  "ps_Spec ps' = ps_Spec ps \<Longrightarrow> ps_Status ps' = ps_Status ps \<Longrightarrow> sync_call W ps' c = sync_call W ps c"
  by (simp add: sync_call_def remote_allowed_def planned_def recorded_def deletes_def)

text \<open>The server answers an update of a PushSecret with the same specification, status and name.\<close>

definition keeps_resource :: "PsEnv \<Rightarrow> bool" where
  "keeps_resource W \<longleftrightarrow> (\<forall>h ps. ps_Spec (answeredPS W h ps) = ps_Spec ps
     \<and> ps_Status (answeredPS W h ps) = ps_Status ps
     \<and> om_DeletionTimestamp (ps_Meta (answeredPS W h ps)) = om_DeletionTimestamp (ps_Meta ps))"

text \<open>The run from the event to the end: the resource is the one that was read.\<close>

definition ps_allowed :: "PsEnv \<Rightarrow> string \<Rightarrow> string \<Rightarrow> Call \<Rightarrow> bool" where
  "ps_allowed W ns name c \<longleftrightarrow> quiet c \<or> (\<exists>h ps. getPS W h ns name = Inr ps \<and> ps_call W ps c)"

context push_sources
begin

lemma run_update:
  assumes "keeps_resource W" and "finalizer_write ps (CUpdate (OPS ps'))"
    and "ps_Spec ps' = ps_Spec ps" "ps_Status ps' = ps_Status ps"
  shows "keeps (ps_call W ps) (\<lambda>r. ps_Spec (snd r) = ps_Spec ps \<and> ps_Status (snd r) = ps_Status ps)
    (ps_update W ps')"
  using assms unfolding ps_update_def keeps_def traces_def keeps_resource_def
  by (auto simp: ps_call_def split: option.split)

lemma run_refresh_call:
  assumes "ps_Spec ps' = ps_Spec ps" and "ps_Status ps' = ps_Status ps"
  shows "keeps (ps_call W ps) (run_ok ps) (ps_refresh W R ns ps' start refreshInt (NewManager class b))"
proof (rule keeps_mono [OF run_ps_refresh [OF good_cm_new]])
  show "ps_call W ps c" if "sync_call W ps' c" for c
    using that assms by (simp add: ps_call_sync sync_call_cong [OF assms])
  show "run_ok ps a" if "run_ok ps' a" for a
    using that assms by (simp add: run_ok_def)
qed

lemma run_finalize:
  assumes "deletes ps" and "om_DeletionTimestamp (ps_Meta ps) \<noteq> None" and "keeps_resource W"
  shows "keeps (ps_call W ps) (run_ok ps) (do {
      ((r, badState), m1) \<leftarrow> DeleteSecretFromProviders W ps [] (NewManager class b);
      case r of
        GoPanic \<Rightarrow> ret ((GoPanic, ps), m1)
      | GoRet (Some e) \<Rightarrow>
          ps_fail W ps m1 (''Failed to Delete Secrets from Provider: '' @ err_string e) (Some badState) e
      | GoRet None \<Rightarrow> do {
          (w, ps1) \<leftarrow> ps_update W (ps_removeFinalizer ps);
          ret ((case w of Some e \<Rightarrow> f e | None \<Rightarrow> GoRet (no_requeue, None), ps1), m1)
        }
    })"
proof (rule keeps_bind [OF keeps_mono [OF part_DeleteSecretFromProviders [OF assms(1) good_cm_new] ps_call_sync]],
    assumption, assumption, goal_cases)
  case (1 a)
  obtain r bad m1 where a: "a = ((r, bad), m1)" by (metis prod.exhaust)
  with 1 have m: "quiet_manager m1" by (simp add: good_cm_quiet)
  show ?case
    unfolding a prod.case
    by (cases r rule: guarded_err_cases)
      (use m assms in \<open>auto intro!: keeps_ret keeps_bind [OF run_update] keeps_mono [OF run_fail ps_call_sync]
        simp: ps_removeFinalizer_def split: prod.split\<close>)
qed

lemma run_ps_reconcile:
  assumes "keeps_resource W"
  shows "keeps (ps_call W ps) (run_ok ps) (ps_reconcile W R ns ps start (NewManager class b))"
  unfolding ps_reconcile_def Let_def
  by (intro keeps_if run_refresh_call run_finalize refl)
    (auto intro!: keeps_ret keeps_bind [OF run_update] run_refresh_call assms
      simp: deletes_def ps_addFinalizer_def ps_removeFinalizer_def quiet_NewManager split: prod.split option.split)

lemma keeps_ps_get:
  "keeps (ps_allowed W ns name) (\<lambda>r. \<forall>ps. r = Inr ps \<longrightarrow> (\<exists>h. getPS W h ns name = Inr ps)) (ps_get W ns name)"
  unfolding ps_get_def keeps_def traces_def by (auto simp: ps_allowed_def)

lemma performs_ps_Reconcile:
  assumes "keeps_resource W"
  shows "performs (ps_allowed W ns name) (ps_Reconcile W R ns name)"
proof -
  have run: "performs (ps_allowed W ns name) (do {
      ((r, ps'), m) \<leftarrow> ps_reconcile W R ns ps start (NewManager (psc_ControllerClass R) False);
      _ \<leftarrow> ps_write W (CStatusPatch (OPS ps'));
      _ \<leftarrow> cm_Close m;
      ret r
    })" if "getPS W h ns name = Inr ps" for h ps start
  proof (rule keeps_performs [where Q = "\<lambda>_. True"], rule keeps_bind [where Q = "run_ok ps"], goal_cases)
    case 1
    show ?case
      by (rule keeps_mono [OF run_ps_reconcile [OF assms]]) (use that in \<open>auto simp: ps_allowed_def\<close>)
  next
    case (2 a)
    obtain r ps' m where a: "a = ((r, ps'), m)" by (metis prod.exhaust)
    have w: "ps_allowed W ns name (CStatusPatch (OPS ps'))"
      using that 2 by (auto simp: ps_allowed_def ps_call_def a)
    have "performs quiet (cm_Close m)" using 2 by (simp add: performs_cm_Close a)
    then have "performs (ps_allowed W ns name) (cm_Close m)"
      by (rule performs_mono) (simp add: ps_allowed_def)
    with w show ?case
      unfolding a prod.case ps_defs k_defs
      by (auto intro!: performs_keeps performs_intros)
  qed
  have ended: "performs (ps_allowed W ns name) (k_event ty reason msg)" for ty reason msg
    unfolding k_event_def by (rule performs_ask) (simp add: ps_allowed_def)
  show ?thesis
    unfolding ps_Reconcile_def
  proof (rule keeps_performs [where Q = "\<lambda>_. True"], unfold ps_now_def, rule keeps_bind_performs [OF performs_now],
      rule keeps_bind [OF keeps_ps_get], rule performs_keeps, goal_cases)
    case (1 start r)
    then show ?case using run by (cases r) (auto intro!: performs_bind [OF ended] performs_ret)
  qed
qed

end

text \<open>What follows from the bound.\<close>

lemma ps_call_no_secret: "ps_call W ps c \<Longrightarrow> \<not> is_secret_write c"
  by (cases c rule: is_secret_write.cases)
    (auto simp: ps_call_def sync_call_def remote_allowed_def pushes_at_def writes_at_def)

lemma resolved_subset:
  "set (resolveSourceKeyConflicts ds es secret) \<subseteq> set ds \<union> set es"
  by (auto simp: resolveSourceKeyConflicts_def)

lemma planned_data:
  assumes "psp_DataTo (ps_Spec ps) = []"
  shows "planned W ps \<subseteq> pd_RemoteKey ` set (psp_Data (ps_Spec ps))"
  using assms
  by (auto simp: planned_def store_entries_def expandDataTo_def mergeDataEntries_def Let_def
      split: option.splits dest!: subsetD [OF resolved_subset])

section \<open>With the Akeyless provider\<close>

text \<open>
  C19: What a PushSecret writes.  With the Akeyless provider and password generators, every write of a
  reconcile of a PushSecret is one of these: in Akeyless, a create or update under a remote key that
  the entries of the resource give for some source and store; only if the deletion policy is Delete,
  a change or deletion under a remote key recorded in its status; on the API server, its own
  finalizer (set only under policy Delete and while not being deleted), its own status with the
  specification unchanged, and generator states.
\<close>

theorem ps_writes:
  assumes "keeps_resource W"
  shows "performs (ps_allowed (akeyless_push_world parseSpec passGen resources W) ns name)
    (ps_Reconcile (akeyless_push_world parseSpec passGen resources W) R ns name)"
  by (rule akl_push.performs_ps_Reconcile)
    (use assms in \<open>simp add: keeps_resource_def akeyless_push_world_def\<close>)

theorem ps_writes_example:
  "performs (ps_allowed (akeyless_push_world (\<lambda>_. Inl not_found) no_passwords (\<lambda>h ns r. Inl not_found)
       sample_ps_env) ''ns'' ''ps'')
    (ps_Reconcile (akeyless_push_world (\<lambda>_. Inl not_found) no_passwords (\<lambda>h ns r. Inl not_found) sample_ps_env)
       \<lparr>psc_ControllerClass = ''default'', psc_RequeueInterval = hour\<rparr> ''ns'' ''ps'')"
  by (rule ps_writes) (simp add: keeps_resource_def sample_ps_env_def)

end
