(* ===== verification/Ps_Deletion.thy ===== *)
theory Ps_Deletion
  imports Ps_Writes Es_Laws
begin

text \<open>
  When the PushSecret controller deletes: what it forgets it has deleted, and the finalizer goes only
  after everything on record is gone.  All statements hold for any providers.
\<close>

section \<open>Locations on record\<close>

definition recorded_at :: "SyncedPushSecretsMap \<Rightarrow> string \<Rightarrow> string \<Rightarrow> PushSecretData option" where
  "recorded_at synced store entry = (case mget synced store of None \<Rightarrow> None | Some d \<Rightarrow> mget d entry)"

text \<open>Decoded maps have distinct keys.\<close>

definition proper :: "SyncedPushSecretsMap \<Rightarrow> bool" where
  "proper synced \<longleftrightarrow> distinct (map fst synced) \<and> (\<forall>(s, d) \<in> set synced. distinct (map fst d))"

lemma stops_subset: "stops f xs okay r h h' \<Longrightarrow> set okay \<subseteq> set xs"
  by (auto simp: stops_def)

lemma mget_merge_store:
  "mget (merge_store (k, v) out) s
     = (if s = k then Some (mcopy (case mget out k of None \<Rightarrow> [] | Some d \<Rightarrow> d) v) else mget out s)"
  by (simp add: merge_store_def mget_mput)

lemma mcopy_present: "mget (mcopy dst src) k \<noteq> None \<longleftrightarrow> mget dst k \<noteq> None \<or> mget src k \<noteq> None"
proof (induction src arbitrary: dst)
  case (Cons kv src)
  obtain k' v where kv: "kv = (k', v)" by fastforce
  show ?case
    unfolding kv mcopy_Cons Cons.IH by (auto simp: mget_mput)
qed simp

lemma recorded_merge_store:
  "recorded_at (merge_store (k, v) out) s e \<noteq> None
     \<longleftrightarrow> recorded_at out s e \<noteq> None \<or> s = k \<and> mget v e \<noteq> None"
  using mcopy_present [of "case mget out k of None \<Rightarrow> [] | Some d \<Rightarrow> d" v e]
  by (auto simp: recorded_at_def mget_merge_store split: option.splits if_splits)

lemma recorded_merge:
  "recorded_at (mergeSecretState new old) s e \<noteq> None
     \<longleftrightarrow> recorded_at new s e \<noteq> None \<or> (\<exists>v. (s, v) \<in> set old \<and> mget v e \<noteq> None)"
  unfolding mergeSecretState_def
proof (induction old arbitrary: new)
  case (Cons kv old)
  obtain k v where kv: "kv = (k, v)" by fastforce
  show ?case
    unfolding kv fold_simps Cons.IH recorded_merge_store by auto
qed simp

lemma recorded_merge_new:
  "recorded_at new s e \<noteq> None \<Longrightarrow> recorded_at (mergeSecretState new old) s e \<noteq> None"
  by (simp only: recorded_merge) blast

lemma recorded_merge_old:
  "recorded_at old s e \<noteq> None \<Longrightarrow> recorded_at (mergeSecretState new old) s e \<noteq> None"
  by (simp only: recorded_merge) (auto simp: recorded_at_def dest: map_of_SomeD split: option.splits)

section \<open>Deleting what is obsolete\<close>

lemma mget_drop_entries:
  "mget (fold (drop_entry n) ks out) s =
     (if s = n then map_option (fold mdel ks) (mget out n) else mget out s)"
  by (induction ks arbitrary: out)
    (auto simp: drop_entry_def mget_mput option.map_id [unfolded id_def] option.map_comp comp_def id_def
      split: option.splits)

lemma mget_fold_mdel: "mget (fold mdel ks m) k = (if k \<in> set ks then None else mget m k)"
  by (induction ks arbitrary: m) (auto simp: mget_mdel)

lemma recorded_drop_entries:
  "recorded_at (fold (drop_entry n) ks out) s e
     = (if s = n \<and> e \<in> set ks then None else recorded_at out s e)"
  by (simp add: recorded_at_def mget_drop_entries mget_fold_mdel split: option.split)

lemma recorded_mdel: "recorded_at (mdel n out) s e = (if s = n then None else recorded_at out s e)"
  by (simp add: recorded_at_def mget_mdel)

text \<open>The work for one store, the client given.\<close>

definition delete_store ::
  "EsSecretsClient \<Rightarrow> SyncedPushSecretsMap \<Rightarrow> string \<Rightarrow> PushSecretData gomap \<Rightarrow> SyncedPushSecretsMap
   \<Rightarrow> (err option guarded \<times> SyncedPushSecretsMap) io" where
  "delete_store client newMap storeName oldData out = (case mget newMap storeName of
     None \<Rightarrow> do {
       d \<leftarrow> DeleteAllSecretsFromStore client oldData;
       ret (d, if d = GoRet None then mdel storeName out else out)
     }
   | Some newData \<Rightarrow> delete_entries client storeName newData oldData out)"

text \<open>What has to be deleted from one store: everything on record, or what the new record does not have.\<close>

definition unwanted :: "SyncedPushSecretsMap \<Rightarrow> string \<Rightarrow> PushSecretData gomap \<Rightarrow> PushSecretData gomap" where
  "unwanted newMap storeName oldData = (case mget newMap storeName of
     None \<Rightarrow> oldData
   | Some newData \<Rightarrow> filter (\<lambda>(entry, _). mget newData entry = None) oldData)"

lemma unwanted_iff: "(e, d) \<in> set (unwanted newMap s data) \<longleftrightarrow> (e, d) \<in> set data \<and> recorded_at newMap s e = None"
  by (auto simp: unwanted_def recorded_at_def split: option.splits)

lemma delete_store_okay:
  assumes "run_state (delete_store client newMap s data out) h = ((r, out'), h')" and "distinct (map fst data)"
  obtains okay where "stops (delete_one client) (unwanted newMap s data) okay r h h'"
    and "\<And>s' e. s' \<noteq> s \<Longrightarrow> recorded_at out' s' e = recorded_at out s' e"
    and "\<And>e d. (e, d) \<in> set data \<Longrightarrow> recorded_at out s e \<noteq> None \<Longrightarrow> recorded_at out' s e = None \<Longrightarrow> (e, d) \<in> set okay"
proof (cases "mget newMap s")
  case None
  with assms(1) have run: "run_state (DeleteAllSecretsFromStore client data) h = (r, h')"
    and out': "out' = (if r = GoRet None then mdel s out else out)"
    by (auto simp: delete_store_def run_cases split: prod.splits)
  obtain okay where st: "stops (delete_one client) data okay r h h'" using DeleteAll_stops [OF run] .
  show thesis
    by (rule that [of okay]) (use st out' None in \<open>auto simp: unwanted_def recorded_mdel stops_ok split: if_splits\<close>)
next
  case (Some newData)
  with assms(1) have run: "run_state (delete_entries client s newData data out) h = ((r, out'), h')"
    by (simp add: delete_store_def)
  obtain okay where st: "stops (delete_one client) (obsolete newData data) okay r h h'"
    and out': "out' = fold (drop_entry s) (map fst okay) out"
    using delete_entries_stops [OF run] .
  have "(e, d) \<in> set okay" if d: "(e, d) \<in> set data" and e: "e \<in> fst ` set okay" for e d
  proof -
    from e obtain d' where d': "(e, d') \<in> set okay" by auto
    then have "(e, d') \<in> set data" using stops_subset [OF st] by (auto simp: obsolete_def)
    with d assms(2) have "d' = d" by (auto dest: eq_key_imp_eq_value)
    with d' show ?thesis by simp
  qed
  with st out' Some show thesis
    by (intro that [of okay]) (auto simp: unwanted_def obsolete_def recorded_drop_entries split: if_splits)
qed

section \<open>What a clean-up deletes\<close>

text \<open>
  \<open>deleting W ns newMap stores m h gone complete m' h'\<close>: from manager \<open>m\<close> and history \<open>h\<close> the stores are gone
  through in order; each gives a client of its own manager state, and the unwanted entries of the store are
  deleted with it, in order, up to the first that is refused.  \<open>gone\<close> are the stores and entries whose
  deletion the provider accepted, \<open>complete\<close> tells whether none was refused.
\<close>

inductive deleting :: "PsEnv \<Rightarrow> string \<Rightarrow> SyncedPushSecretsMap \<Rightarrow> SyncedPushSecretsMap \<Rightarrow> ClientManager \<Rightarrow> history
  \<Rightarrow> (string \<times> PushSecretData) list \<Rightarrow> bool \<Rightarrow> ClientManager \<Rightarrow> history \<Rightarrow> bool" for W ns newMap where
  deleting_Nil: "deleting W ns newMap [] m h [] True m h"
| deleting_unparsed: "parse_store_key s = None \<Longrightarrow> deleting W ns newMap ((s, data) # stores) m h [] False m h"
| deleting_no_client: "parse_store_key s = Some ref \<Longrightarrow>
    run_state (cm_Get (esw W) m ref ns None) h = ((Inl e, m1), h1) \<Longrightarrow>
    deleting W ns newMap ((s, data) # stores) m h [] False m1 h1"
| deleting_refused: "parse_store_key s = Some ref \<Longrightarrow>
    run_state (cm_Get (esw W) m ref ns None) h = ((Inr client, m1), h1) \<Longrightarrow>
    unwanted newMap s data = okay @ (e, d) # rest \<Longrightarrow> all_ok (delete_one client) okay h1 h2 \<Longrightarrow>
    run_state (DeleteSecretFromStore client d) h2 = (r, h3) \<Longrightarrow> r \<noteq> GoRet None \<Longrightarrow>
    deleting W ns newMap ((s, data) # stores) m h (map (\<lambda>(e, d). (s, d)) okay) False m1 h3"
| deleting_next: "parse_store_key s = Some ref \<Longrightarrow>
    run_state (cm_Get (esw W) m ref ns None) h = ((Inr client, m1), h1) \<Longrightarrow>
    all_ok (delete_one client) (unwanted newMap s data) h1 h2 \<Longrightarrow>
    deleting W ns newMap stores m1 h2 gone complete m' h' \<Longrightarrow>
    deleting W ns newMap ((s, data) # stores) m h
      (map (\<lambda>(e, d). (s, d)) (unwanted newMap s data) @ gone) complete m' h'"

text \<open>The next store of the loop.\<close>

lemma delete_stores_Cons:
  "delete_stores W ns newMap ((s, data) # stores) out m = (case parse_store_key s of
     None \<Rightarrow> ret ((GoPanic, out), m)
   | Some ref \<Rightarrow> do {
       (c, m1) \<leftarrow> cm_Get (esw W) m ref ns None;
       case c of
         Inl e \<Rightarrow> ret ((GoRet (Some (ErrWrap (''could not get secrets client for store '' @ s) e)), out), m1)
       | Inr client \<Rightarrow> do {
           (r, out1) \<leftarrow> delete_store client newMap s data out;
           if r = GoRet None then delete_stores W ns newMap stores out1 m1 else ret ((r, out1), m1)
         }
     })"
  unfolding delete_store_def delete_stores.simps(2) ..

lemma delete_stores_step:
  assumes "run_state (delete_stores W ns newMap ((s, data) # stores) out m) h = (((r, out'), m'), h')"
  obtains (failed) "r \<noteq> GoRet None" "out' = out"
  | (reached) ref client m1 r1 out1 h1 h2 where "parse_store_key s = Some ref"
      "run_state (cm_Get (esw W) m ref ns None) h = ((Inr client, m1), h1)"
      "run_state (delete_store client newMap s data out) h1 = ((r1, out1), h2)"
      "if r1 = GoRet None then run_state (delete_stores W ns newMap stores out1 m1) h2 = (((r, out'), m'), h')
       else r = r1 \<and> out' = out1"
proof (cases "parse_store_key s")
  case None
  with assms failed show thesis by (auto simp: delete_stores_Cons simp del: delete_stores.simps)
next
  case (Some ref)
  obtain c m1 h1 where g: "run_state (cm_Get (esw W) m ref ns None) h = ((c, m1), h1)" by (metis prod.exhaust)
  show thesis
  proof (cases c)
    case (Inl e)
    with assms Some g failed show thesis by (auto simp: delete_stores_Cons simp del: delete_stores.simps)
  next
    case (Inr client)
    obtain r1 out1 h2 where d: "run_state (delete_store client newMap s data out) h1 = ((r1, out1), h2)"
      by (metis prod.exhaust)
    show thesis
      by (rule reached [OF Some g [unfolded Inr] d])
        (use assms Some g Inr d in \<open>simp add: delete_stores_Cons del: delete_stores.simps split: if_splits\<close>)
  qed
qed

lemma delete_stores_frame:
  "run_state (delete_stores W ns newMap stores out m) h = (((r, out'), m'), h') \<Longrightarrow>
   proper stores \<Longrightarrow> s \<notin> fst ` set stores \<Longrightarrow> recorded_at out' s e = recorded_at out s e"
proof (induction stores arbitrary: out m h)
  case (Cons sd stores)
  obtain s0 data where sd: "sd = (s0, data)" by fastforce
  with Cons.prems have p: "distinct (map fst data)" "proper stores" "s \<noteq> s0" "s \<notin> fst ` set stores"
    by (auto simp: proper_def)
  show ?case using Cons.prems(1) [unfolded sd]
  proof (cases rule: delete_stores_step)
    case (reached ref client m1 r1 out1 h1 h2)
    have "recorded_at out1 s e = recorded_at out s e"
      using delete_store_okay [OF reached(3) p(1)] p(3) by metis
    with Cons.IH [OF _ p(2,4)] reached(4) show ?thesis by (auto split: if_splits)
  qed simp
qed simp

text \<open>A store is cleaned up: what left the record was deleted, and if all went well nothing unwanted is left.\<close>

definition forgets :: "SyncedPushSecretsMap \<Rightarrow> SyncedPushSecretsMap \<Rightarrow> SyncedPushSecretsMap
    \<Rightarrow> (string \<times> PushSecretData) list \<Rightarrow> bool" where
  "forgets stores out out' gone \<longleftrightarrow> (\<forall>s data e d. (s, data) \<in> set stores \<longrightarrow> (e, d) \<in> set data \<longrightarrow>
     recorded_at out s e \<noteq> None \<longrightarrow> recorded_at out' s e = None \<longrightarrow> (s, d) \<in> set gone)"

lemma forgets_same: "forgets stores out out gone"
  unfolding forgets_def by blast

lemma forgets_Cons:
  assumes "\<And>e d. (e, d) \<in> set data \<Longrightarrow> recorded_at out s e \<noteq> None \<Longrightarrow> recorded_at out' s e = None \<Longrightarrow> (e, d) \<in> set okay"
    and "forgets stores out out' gone"
  shows "forgets ((s, data) # stores) out out' (map (\<lambda>(e, d). (s, d)) okay @ gone)"
proof -
  have "(s, d) \<in> set (map (\<lambda>(e, d). (s, d)) okay)" if "(e, d) \<in> set okay" for e d using that by force
  with assms show ?thesis unfolding forgets_def by (auto simp del: not_None_eq) blast+
qed

lemma forgets_from:
  assumes "forgets stores out1 out' gone" and "\<And>s e. s \<in> fst ` set stores \<Longrightarrow> recorded_at out1 s e = recorded_at out s e"
  shows "forgets stores out out' gone"
  using assms unfolding forgets_def by (metis fst_conv image_eqI)

lemma delete_stores_deleting:
  "run_state (delete_stores W ns newMap stores out m) h = (((r, out'), m'), h') \<Longrightarrow> proper stores \<Longrightarrow>
   \<exists>gone. deleting W ns newMap stores m h gone (r = GoRet None) m' h' \<and> forgets stores out out' gone"
proof (induction stores arbitrary: out m h)
  case Nil
  then show ?case by (auto simp: forgets_def intro: deleting_Nil)
next
  case (Cons sd stores)
  obtain s data where sd: "sd = (s, data)" by fastforce
  with Cons.prems(2) have p: "distinct (map fst data)" "proper stores" "s \<notin> fst ` set stores"
    by (auto simp: proper_def)
  show ?case
  proof (cases "parse_store_key s")
    case None
    with Cons.prems(1) sd have "r = GoPanic" "out' = out" "m' = m" "h' = h"
      by (simp_all add: delete_stores_Cons del: delete_stores.simps)
    with deleting_unparsed [OF None] show ?thesis unfolding sd by (metis forgets_same guarded.distinct(1))
  next
    case (Some ref)
    obtain c m1 h1 where g: "run_state (cm_Get (esw W) m ref ns None) h = ((c, m1), h1)" by (metis prod.exhaust)
    show ?thesis
    proof (cases c)
      case (Inl e)
      with Cons.prems(1) sd Some g have "r \<noteq> GoRet None" "out' = out" "m' = m1" "h' = h1"
        by (auto simp: delete_stores_Cons simp del: delete_stores.simps)
      with deleting_no_client [OF Some g [unfolded Inl]] show ?thesis unfolding sd by (metis forgets_same)
    next
      case (Inr client)
      note g = g [unfolded Inr]
      obtain r1 out1 h2 where d: "run_state (delete_store client newMap s data out) h1 = ((r1, out1), h2)"
        by (metis prod.exhaust)
      obtain okay where st: "stops (delete_one client) (unwanted newMap s data) okay r1 h1 h2"
        and frame: "\<And>s' e. s' \<noteq> s \<Longrightarrow> recorded_at out1 s' e = recorded_at out s' e"
        and lost: "\<And>e d. (e, d) \<in> set data \<Longrightarrow> recorded_at out s e \<noteq> None \<Longrightarrow> recorded_at out1 s e = None
          \<Longrightarrow> (e, d) \<in> set okay"
        using delete_store_okay [OF d p(1)] by metis
      have other: "recorded_at out1 s' e = recorded_at out s' e" if "s' \<in> fst ` set stores" for s' e
        using frame p(3) that by metis
      show ?thesis
      proof (cases "r1 = GoRet None")
        case True
        with Cons.prems(1) sd Some g d
        have rest: "run_state (delete_stores W ns newMap stores out1 m1) h2 = (((r, out'), m'), h')"
          by (simp add: delete_stores_Cons del: delete_stores.simps)
        from Cons.IH [OF rest p(2)] obtain gone
          where gone: "deleting W ns newMap stores m1 h2 gone (r = GoRet None) m' h'" "forgets stores out1 out' gone"
          by blast
        from st True have ok: "okay = unwanted newMap s data" "all_ok (delete_one client) (unwanted newMap s data) h1 h2"
          by (simp_all add: stops_ok)
        have "recorded_at out' s e = recorded_at out1 s e" for e
          by (rule delete_stores_frame [OF rest p(2,3)])
        then have "forgets ((s, data) # stores) out out' (map (\<lambda>(e, d). (s, d)) (unwanted newMap s data) @ gone)"
          by (intro forgets_Cons forgets_from [OF gone(2) other]) (use lost ok(1) in auto)
        with deleting_next [OF Some g ok(2) gone(1)] show ?thesis unfolding sd by blast
      next
        case False
        with Cons.prems(1) sd Some g d have same: "r = r1" "out' = out1" "m' = m1" "h' = h2"
          by (simp_all add: delete_stores_Cons del: delete_stores.simps)
        from st False obtain e0 d0 rest h3 where f: "unwanted newMap s data = okay @ (e0, d0) # rest"
          "all_ok (delete_one client) okay h1 h3" "run_state (DeleteSecretFromStore client d0) h3 = (r1, h2)"
          by (auto simp: stops_def)
        have "forgets ((s, data) # stores) out out1 (map (\<lambda>(e, d). (s, d)) okay @ [])"
          by (intro forgets_Cons forgets_from [OF forgets_same other]) (use lost in auto)
        with deleting_refused [OF Some g f False] False same show ?thesis unfolding sd by auto
      qed
    qed
  qed
qed

lemma deleting_complete:
  "deleting W ns newMap stores m h gone complete m' h' \<Longrightarrow> complete \<Longrightarrow>
   (s, data) \<in> set stores \<Longrightarrow> (e, d) \<in> set data \<Longrightarrow> recorded_at newMap s e = None \<Longrightarrow> (s, d) \<in> set gone"
proof (induction rule: deleting.induct)
  case (deleting_next s0 ref m h client m1 h1 data0 h2 stores gone complete m' h')
  show ?case
  proof (cases "(s, data) = (s0, data0)")
    case True
    with deleting_next have "(e, d) \<in> set (unwanted newMap s0 data0)" by (simp add: unwanted_iff)
    with True show ?thesis by force
  next
    case False
    with deleting_next show ?thesis by auto
  qed
qed simp_all

text \<open>The entries that the clean-up started with \<open>m\<close> at \<open>h\<close> deletes.\<close>

definition deletions :: "PsEnv \<Rightarrow> PushSecret \<Rightarrow> SyncedPushSecretsMap \<Rightarrow> ClientManager \<Rightarrow> history
    \<Rightarrow> (string \<times> PushSecretData) set" where
  "deletions W ps newMap m h = {(s, d). \<exists>gone complete m' h'.
     deleting W (om_Namespace (ps_Meta ps)) newMap (pst_SyncedPushSecrets (ps_Status ps)) m h gone complete m' h'
     \<and> (s, d) \<in> set gone}"

lemma DeleteSecretFromProviders_effect:
  assumes "run_state (DeleteSecretFromProviders W ps newMap m) h = (((r, out'), m'), h')"
    and "proper (pst_SyncedPushSecrets (ps_Status ps))"
    and "recorded_at (pst_SyncedPushSecrets (ps_Status ps)) s e = Some d"
  shows "recorded_at out' s e \<noteq> None \<or> (s, d) \<in> deletions W ps newMap m h"
    and "r = GoRet None \<Longrightarrow> recorded_at newMap s e \<noteq> None \<or> (s, d) \<in> deletions W ps newMap m h"
proof -
  let ?old = "pst_SyncedPushSecrets (ps_Status ps)"
  obtain data where l: "(s, data) \<in> set ?old" "(e, d) \<in> set data"
    using assms(3) by (auto simp: recorded_at_def dest: map_of_SomeD split: option.splits)
  have kept: "recorded_at (mergeSecretState newMap ?old) s e \<noteq> None"
    using assms(3) by (intro recorded_merge_old) simp
  obtain gone where gone: "deleting W (om_Namespace (ps_Meta ps)) newMap ?old m h gone (r = GoRet None) m' h'"
    "forgets ?old (mergeSecretState newMap ?old) out' gone"
    using delete_stores_deleting [OF assms(1) [unfolded DeleteSecretFromProviders_def Let_def] assms(2)] by blast
  have "recorded_at out' s e \<noteq> None \<or> (s, d) \<in> set gone"
    using gone(2) l kept unfolding forgets_def by blast
  with gone(1) show "recorded_at out' s e \<noteq> None \<or> (s, d) \<in> deletions W ps newMap m h"
    unfolding deletions_def by blast
  show "recorded_at newMap s e \<noteq> None \<or> (s, d) \<in> deletions W ps newMap m h" if "r = GoRet None"
    using deleting_complete [OF gone(1) that l] gone(1) unfolding deletions_def by blast
qed

section \<open>The clean-ups of a run\<close>

text \<open>
  Where a reconcile of a PushSecret under policy Delete starts a clean-up, and what the record is compared
  with: \<open>loop_cleanup\<close> in the loop over the source Secrets, after each was pushed; \<open>sync_cleanup\<close> there or
  because the source is gone; \<open>cleanup\<close> in a whole reconcile from \<open>m\<close> and \<open>h\<close>, also because the resource is
  being deleted.  The clean-up starts with manager \<open>m1\<close> at history \<open>h1\<close>.
\<close>

inductive loop_cleanup :: "PsEnv \<Rightarrow> PushSecret \<Rightarrow> store_map \<Rightarrow> K8sSecret list \<Rightarrow> ClientManager \<Rightarrow> history
  \<Rightarrow> SyncedPushSecretsMap \<Rightarrow> ClientManager \<Rightarrow> history \<Rightarrow> bool" for W ps stores where
  loop_here: "run_state (applyTemplate W ps secret0) h = (Inr secret, h1) \<Longrightarrow>
    run_state (PushSecretToProviders W stores ps secret m) h1 = (((GoRet None, synced), m1), h2) \<Longrightarrow>
    loop_cleanup W ps stores (secret0 # secrets) m h synced m1 h2"
| loop_later: "run_state (applyTemplate W ps secret0) h = (Inr secret, h1) \<Longrightarrow>
    run_state (PushSecretToProviders W stores ps secret m) h1 = (((GoRet None, synced), m1), h2) \<Longrightarrow>
    run_state (DeleteSecretFromProviders W ps synced m1) h2 = (((GoRet None, bad), m2), h3) \<Longrightarrow>
    loop_cleanup W ps stores secrets m2 h3 newMap m' h' \<Longrightarrow>
    loop_cleanup W ps stores (secret0 # secrets) m h newMap m' h'"

definition sync_cleanup :: "PsEnv \<Rightarrow> PsReconciler \<Rightarrow> string \<Rightarrow> PushSecret \<Rightarrow> ClientManager \<Rightarrow> history
    \<Rightarrow> SyncedPushSecretsMap \<Rightarrow> ClientManager \<Rightarrow> history \<Rightarrow> bool" where
  "sync_cleanup W R ns ps m h newMap m1 h1 \<longleftrightarrow>
     (\<exists>e. run_state (resolveSecrets W ps) h = (Inl e, h1) \<and> source_gone ps e \<and> newMap = [] \<and> m1 = m)
     \<or> (\<exists>secrets g1 found g2 stores g3. run_state (resolveSecrets W ps) h = (Inr secrets, g1)
         \<and> run_state (GetSecretStores W ps) g1 = (Inr found, g2)
         \<and> run_state (removeUnmanagedStores W ns R (active_stores found)) g2 = (Inr stores, g3)
         \<and> loop_cleanup W ps stores secrets m g3 newMap m1 h1)"

definition cleanup :: "PsEnv \<Rightarrow> PsReconciler \<Rightarrow> string \<Rightarrow> PushSecret \<Rightarrow> ClientManager \<Rightarrow> history
    \<Rightarrow> SyncedPushSecretsMap \<Rightarrow> ClientManager \<Rightarrow> history \<Rightarrow> bool" where
  "cleanup W R ns ps m h newMap m1 h1 \<longleftrightarrow>
     (if om_DeletionTimestamp (ps_Meta ps) \<noteq> None \<and> pushSecretFinalizer \<in> set (om_Finalizers (ps_Meta ps))
      then newMap = [] \<and> m1 = m \<and> h1 = h
      else ps_shouldRefresh (envw W) (clock (envw W) h) ps = GoRet True \<and> sync_cleanup W R ns ps m h newMap m1 h1)"

section \<open>Nothing is forgotten\<close>

text \<open>What is on record of \<open>ps\<close> is in the new record or was deleted.\<close>

definition covers :: "(string \<times> PushSecretData) set \<Rightarrow> PushSecret \<Rightarrow> SyncedPushSecretsMap \<Rightarrow> bool" where
  "covers D ps synced \<longleftrightarrow> (\<forall>s e d. recorded_at (pst_SyncedPushSecrets (ps_Status ps)) s e = Some d \<longrightarrow>
     recorded_at synced s e \<noteq> None \<or> (s, d) \<in> D)"

lemma covers_same [simp]: "covers D ps (pst_SyncedPushSecrets (ps_Status ps))"
  by (auto simp: covers_def)

lemma covers_merge_new: "covers D ps synced \<Longrightarrow> covers D ps (mergeSecretState synced other)"
  unfolding covers_def by (meson recorded_merge_new)

lemma covers_merge_old: "covers D ps synced \<Longrightarrow> covers D ps (mergeSecretState other synced)"
  unfolding covers_def by (meson recorded_merge_old)

definition finds_source :: "PsEnv \<Rightarrow> PushSecret \<Rightarrow> bool" where
  "finds_source W ps \<longleftrightarrow> (\<forall>h s labels. psl_Secret (psp_Selector (ps_Spec ps)) = Some s \<longrightarrow> pss_Name s = [] \<longrightarrow>
     pss_Selector s = Some labels \<longrightarrow> listSecretsBy W h (om_Namespace (ps_Meta ps)) labels \<noteq> Inr [])"

definition run_covers :: "(string \<times> PushSecretData) set \<Rightarrow> PushSecret \<Rightarrow> (outcome guarded \<times> PushSecret) \<times> ClientManager \<Rightarrow> bool" where
  "run_covers D ps rm \<longleftrightarrow> covers D ps (pst_SyncedPushSecrets (ps_Status (snd (fst rm))))"

lemma run_covers_simp [simp]:
  "run_covers D ps ((r, ps'), m) \<longleftrightarrow> covers D ps (pst_SyncedPushSecrets (ps_Status ps'))"
  by (simp add: run_covers_def)

lemma run_covers_same [simp]: "run_covers D ps ((r, ps), m)"
  by (simp add: covers_same)

lemma returns_select: "finds_source W ps \<Longrightarrow> returns (\<lambda>r. r \<noteq> Inr []) (resolveSecrets W ps)"
proof -
  assume f: "finds_source W ps"
  have "returns (\<lambda>(r, gs). r \<noteq> Inr []) (select_secrets W ps gs)" for gs
    unfolding select_secrets_def Let_def
  proof (cases "psl_Secret (psp_Selector (ps_Spec ps))", goal_cases)
    case 1
    then show ?case
      by (auto split: option.splits sum.splits intro!: returns_ret returns_bind)
  next
    case (2 s)
    have l: "returns (\<lambda>r. r \<noteq> Inr []) (ps_list_secrets W (om_Namespace (ps_Meta ps)) labels)"
      if "pss_Name s = []" "pss_Selector s = Some labels" for labels
      using f 2 that by (auto simp: finds_source_def ps_list_secrets_def returns_def)
    show ?case
    proof (cases "pss_Name s = [] \<and> psl_GeneratorRef (psp_Selector (ps_Spec ps)) = None")
      case True
      with 2 show ?thesis
        by (auto split: option.splits sum.splits intro!: returns_ret returns_bind_from [OF l])
    next
      case False
      with 2 show ?thesis
        by (auto split: option.splits sum.splits intro!: returns_ret returns_bind)
    qed
  qed
  then show ?thesis
    unfolding resolveSecrets_def Let_def
    by (rule returns_bind_from) (auto intro!: returns_bind returns_ret)
qed

text \<open>The result of a program started at a given history.\<close>

definition ends :: "('a \<Rightarrow> bool) \<Rightarrow> history \<Rightarrow> 'a io \<Rightarrow> bool" where
  "ends Q h m \<longleftrightarrow> Q (fst (run_state m h))"

lemma ends_ret: "Q a \<Longrightarrow> ends Q h (ret a)"
  by (simp add: ends_def)

lemma ends_bind: "(\<And>a g. run_state m h = (a, g) \<Longrightarrow> ends Q g (f a)) \<Longrightarrow> ends Q h (State_Monad.bind m f)"
  by (cases "run_state m h") (simp add: ends_def)

lemma returns_ends: "returns Q m \<Longrightarrow> ends Q h m"
  by (simp add: returns_def ends_def)

lemma ends_now: "ends Q h (f (clock (envw W) h)) \<Longrightarrow> ends Q h (State_Monad.bind (ps_now W) f)"
  by (simp add: ends_def ps_now_def)

lemma returns_fail:
  assumes "case synced of None \<Rightarrow> covers D ps0 (pst_SyncedPushSecrets (ps_Status ps)) | Some s \<Rightarrow> covers D ps0 s"
  shows "returns (run_covers D ps0) (ps_fail W ps m msg synced e)"
proof -
  have "returns (\<lambda>ps'. covers D ps0 (pst_SyncedPushSecrets (ps_Status ps'))) (markAsFailed W msg ps synced)"
    unfolding markAsFailed_def Let_def
    by (intro returns_intros) (use assms in \<open>auto simp: SetPushSecretCondition_def setSecrets_def split: option.splits\<close>)
  then show ?thesis
    unfolding ps_fail_def by (rule returns_bind_from) (simp add: returns_ret)
qed

lemma returns_failed_same: "returns (run_covers D ps) (ps_fail W ps m msg None e)"
  by (rule returns_fail) simp

lemma clean_covers:
  assumes "run_state (DeleteSecretFromProviders W ps newMap m) h = (((r, out), m'), h')"
    and "proper (pst_SyncedPushSecrets (ps_Status ps))" and "deletions W ps newMap m h \<subseteq> D"
  shows "covers D ps out" and "r = GoRet None \<Longrightarrow> covers D ps newMap"
  using DeleteSecretFromProviders_effect [OF assms(1,2)] assms(3) unfolding covers_def by blast+

lemma returns_done:
  assumes "covers D ps synced"
  shows "returns (\<lambda>ps'. covers D ps (pst_SyncedPushSecrets (ps_Status ps'))) (markAsDone W ps synced start)"
  unfolding markAsDone_def Let_def
  by (intro returns_intros) (use assms in \<open>simp add: SetPushSecretCondition_def setSecrets_def\<close>)

lemma ends_source_deleted:
  assumes "proper (pst_SyncedPushSecrets (ps_Status ps))" and "deletions W ps [] m h \<subseteq> D"
  shows "ends (run_covers D ps) h (handleSourceSecretDeleted W ps m)"
proof -
  have d: "returns (\<lambda>ps'. covers D ps (pst_SyncedPushSecrets (ps_Status ps')))
      (markAsSourceDeleted W (setSecrets [] ps))" if "covers D ps []"
    unfolding markAsSourceDeleted_def Let_def
    by (intro returns_intros) (use that in \<open>simp add: SetPushSecretCondition_def setSecrets_def\<close>)
  show ?thesis
    unfolding handleSourceSecretDeleted_def
  proof (rule ends_bind, goal_cases)
    case (1 a g)
    obtain r out m1 where a: "a = ((r, out), m1)" by (metis prod.exhaust)
    note c = clean_covers [OF 1 [unfolded a] assms]
    show ?case
      unfolding a prod.case
      by (cases r rule: guarded_err_cases)
        (auto intro!: returns_ends returns_ret returns_fail returns_bind_from [OF d] c)
  qed
qed

lemma ends_sync_secrets:
  assumes "deletes ps" and "proper (pst_SyncedPushSecrets (ps_Status ps))"
  shows "secrets \<noteq> [] \<or> covers D ps all \<Longrightarrow>
    (\<And>newMap m1 h1. loop_cleanup W ps stores secrets m h newMap m1 h1 \<Longrightarrow> deletions W ps newMap m1 h1 \<subseteq> D) \<Longrightarrow>
    ends (run_covers D ps) h (sync_secrets W R ps stores start refreshInt secrets all m)"
proof (induction secrets arbitrary: all m h)
  case Nil
  then show ?case by (auto intro!: returns_ends returns_ret returns_bind_from [OF returns_done])
next
  case (Cons secret0 secrets)
  show ?case
    unfolding sync_secrets.simps
  proof (rule ends_bind, goal_cases)
    case (1 t g)
    note templated = this
    show ?case
    proof (cases t)
      case (Inl e)
      then show ?thesis by (simp add: ends_ret)
    next
      case (Inr secret)
      show ?thesis
        unfolding Inr sum.case
      proof (rule ends_bind, goal_cases)
        case (1 a g1)
        obtain r synced m1 where a: "a = ((r, synced), m1)" by (metis prod.exhaust)
        note pushed = 1 [unfolded a]
        show ?case
        proof (cases r rule: guarded_err_cases)
          case ok
          have D: "deletions W ps synced m1 g1 \<subseteq> D"
            by (rule Cons.prems(2), rule loop_here) (use templated Inr pushed ok in auto)
          have rest: "ends (run_covers D ps) g2
              ((\<lambda>((d, badSyncState), m2). case d of
                 GoPanic \<Rightarrow> ret ((GoPanic, ps), m2)
               | GoRet (Some e) \<Rightarrow>
                   ps_fail W ps m2 (''Failed to Delete Secrets from Provider: '' @ err_string e) (Some badSyncState) e
               | GoRet None \<Rightarrow> sync_secrets W R ps stores start refreshInt secrets (mergeSecretState all synced) m2) dm)"
            if "run_state (DeleteSecretFromProviders W ps synced m1) g1 = (dm, g2)" for dm g2
          proof -
            obtain x bad m2 where d: "dm = ((x, bad), m2)" by (metis prod.exhaust)
            note run = that [unfolded d]
            note c = clean_covers [OF run assms(2) D]
            show ?thesis
            proof (cases x rule: guarded_err_cases)
              case ok
              have "ends (run_covers D ps) g2 (sync_secrets W R ps stores start refreshInt secrets (mergeSecretState all synced) m2)"
              proof (rule Cons.IH)
                show "secrets \<noteq> [] \<or> covers D ps (mergeSecretState all synced)"
                  using c(2) [OF ok] by (simp add: covers_merge_old)
                show "deletions W ps newMap m' h' \<subseteq> D" if "loop_cleanup W ps stores secrets m2 g2 newMap m' h'"
                  for newMap m' h'
                  by (rule Cons.prems(2), rule loop_later [OF _ _ _ that])
                    (use templated Inr pushed run ok \<open>r = GoRet None\<close> in auto)
              qed
              with ok d show ?thesis by simp
            next
              case panic
              with d show ?thesis by (simp add: ends_ret)
            next
              case (failed e)
              with d c show ?thesis by (auto intro!: returns_ends returns_fail)
            qed
          qed
          show ?thesis
            unfolding a ok prod.case guarded.case option.case assms(1) [unfolded deletes_def]
            by (simp only: simp_thms if_True) (rule ends_bind, rule rest)
        next
          case panic
          then show ?thesis by (simp add: a ends_ret)
        next
          case (failed e)
          then show ?thesis
            by (auto simp: a intro!: returns_ends returns_ret returns_fail covers_merge_old)
        qed
      qed
    qed
  qed
qed

lemma ends_ps_sync:
  assumes "deletes ps" and "proper (pst_SyncedPushSecrets (ps_Status ps))" and "finds_source W ps"
    and "\<And>newMap m1 h1. sync_cleanup W R ns ps m h newMap m1 h1 \<Longrightarrow> deletions W ps newMap m1 h1 \<subseteq> D"
  shows "ends (run_covers D ps) h (ps_sync W R ns ps start refreshInt m)"
proof -
  note failed = returns_ends [OF returns_failed_same]
  have "ends (run_covers D ps) h (do {
          s \<leftarrow> resolveSecrets W ps;
          case s of
            Inl e \<Rightarrow>
              if source_gone ps e then handleSourceSecretDeleted W ps m
              else ps_fail W ps m ''could not get source secret'' None e
          | Inr secrets \<Rightarrow> do {
              g \<leftarrow> GetSecretStores W ps;
              case g of
                Inl e \<Rightarrow> ps_fail W ps m (err_string e) None e
              | Inr found \<Rightarrow> do {
                  u \<leftarrow> removeUnmanagedStores W ns R (active_stores found);
                  case u of
                    Inl e \<Rightarrow> ps_fail W ps m (err_string e) None e
                  | Inr stores \<Rightarrow>
                      if length stores = 0 then ret ((GoRet (no_requeue, None), ps), m)
                      else (case validateDataToMatchesResolvedStores (envw W) 0 (psp_DataTo (ps_Spec ps)) stores of
                          Some e \<Rightarrow> ps_fail W ps m (err_string e) None e
                        | None \<Rightarrow> sync_secrets W R ps stores start refreshInt secrets [] m)
                }
            }
        })"
  proof (rule ends_bind, goal_cases)
    case (1 s g)
    note resolved = this
    show ?case
    proof (cases s)
      case (Inl e)
      with resolved show ?thesis
        by (auto intro!: failed ends_source_deleted assms(2,4) simp: sync_cleanup_def)
    next
      case (Inr secrets)
      have some: "secrets \<noteq> []"
        using returns_select [OF assms(3)] resolved Inr unfolding returns_def by (metis fst_conv)
      show ?thesis
        unfolding Inr sum.case
      proof (rule ends_bind, goal_cases)
        case (1 f g1)
        note found = this
        show ?case
        proof (cases f)
          case (Inl e)
          then show ?thesis by (simp add: failed)
        next
          case (Inr found')
          show ?thesis
            unfolding Inr sum.case
          proof (rule ends_bind, goal_cases)
            case (1 u g2)
            show ?case
            proof (cases u)
              case (Inl e)
              then show ?thesis by (simp add: failed)
            next
              case u: (Inr stores)
              have "ends (run_covers D ps) g2 (sync_secrets W R ps stores start refreshInt secrets [] m)"
                by (rule ends_sync_secrets [OF assms(1,2)], simp add: some, rule assms(4))
                  (use resolved found 1 u Inr \<open>s = Inr secrets\<close> in \<open>auto simp: sync_cleanup_def\<close>)
              then show ?thesis
                unfolding u by (auto intro!: ends_ret failed split: option.split)
            qed
          qed
        qed
      qed
    qed
  qed
  then show ?thesis
    unfolding ps_sync_def
    by (cases "validateDataToStoreRefs 0 (psp_DataTo (ps_Spec ps)) (psp_SecretStoreRefs (ps_Spec ps))")
      (simp_all only: option.case failed)
qed

text \<open>
  C20: The record loses nothing silently.  Under deletion policy Delete, when the record is a map, the server
  answers updates with what was sent and a label selector does not come back empty, every location on
  record before a reconcile is on record after it, or it is among the deletions that the provider of its
  store accepted in one of the clean-ups this very run started, with the manager and the history that the
  run had reached there, whatever failed on the way.
\<close>

theorem ps_record_covers:
  assumes "deletes ps" and "proper (pst_SyncedPushSecrets (ps_Status ps))"
    and "keeps_resource W" and "finds_source W ps"
    and "run_state (ps_reconcile W R ns ps start m) h = (((r, ps'), m'), h')"
    and "recorded_at (pst_SyncedPushSecrets (ps_Status ps)) s e = Some d"
  shows "recorded_at (pst_SyncedPushSecrets (ps_Status ps')) s e \<noteq> None
    \<or> (\<exists>newMap m1 h1. cleanup W R ns ps m h newMap m1 h1 \<and> (s, d) \<in> deletions W ps newMap m1 h1)"
proof -
  let ?D = "{(s, d). \<exists>newMap m1 h1. cleanup W R ns ps m h newMap m1 h1 \<and> (s, d) \<in> deletions W ps newMap m1 h1}"
  have D: "cleanup W R ns ps m h newMap m1 h1 \<Longrightarrow> deletions W ps newMap m1 h1 \<subseteq> ?D" for newMap m1 h1 by blast
  have upd: "returns (\<lambda>wp. covers ?D ps (pst_SyncedPushSecrets (ps_Status (snd wp)))) (ps_update W ps')"
    if "covers ?D ps (pst_SyncedPushSecrets (ps_Status ps'))" for ps'
    using that assms(3) by (auto simp: ps_update_def returns_def keeps_resource_def split: option.split)
  have refresh: "ends (run_covers ?D ps) h (ps_refresh W R ns ps start refreshInt m)"
    if "om_DeletionTimestamp (ps_Meta ps) = None \<or> pushSecretFinalizer \<notin> set (om_Finalizers (ps_Meta ps))" for refreshInt
  proof -
    have "ends (run_covers ?D ps) h (ps_sync W R ns ps start refreshInt m)"
      if "ps_shouldRefresh (envw W) (clock (envw W) h) ps = GoRet True"
      by (rule ends_ps_sync [OF assms(1,2,4)], rule D)
        (use that \<open>_ \<or> _\<close> in \<open>auto simp: cleanup_def\<close>)
    then show ?thesis
      unfolding ps_refresh_def Let_def
      by (intro ends_now) (auto split: guarded.split option.split intro!: ends_ret)
  qed
  have "ends (run_covers ?D ps) h (ps_reconcile W R ns ps start m)"
  proof (cases "om_DeletionTimestamp (ps_Meta ps) \<noteq> None \<and> pushSecretFinalizer \<in> set (om_Finalizers (ps_Meta ps))")
    case True
    then have clean: "deletions W ps [] m h \<subseteq> ?D" by (intro D) (simp add: cleanup_def)
    have rest: "ends (run_covers ?D ps) g ((\<lambda>((r, badState), m1). case r of
             GoPanic \<Rightarrow> ret ((GoPanic, ps), m1)
           | GoRet (Some e) \<Rightarrow>
               ps_fail W ps m1 (''Failed to Delete Secrets from Provider: '' @ err_string e) (Some badState) e
           | GoRet None \<Rightarrow> do {
               (w, ps1) \<leftarrow> ps_update W (ps_removeFinalizer ps);
               ret ((case w of Some e \<Rightarrow> GoRet (no_requeue, Some (ErrWrap ''could not update finalizers'' e))
                 | None \<Rightarrow> GoRet (no_requeue, None), ps1), m1)
             }) a)" if "run_state (DeleteSecretFromProviders W ps [] m) h = (a, g)" for a g
    proof -
      obtain x out m1 where a: "a = ((x, out), m1)" by (metis prod.exhaust)
      note c = clean_covers [OF that [unfolded a] assms(2) clean]
      show ?thesis
        unfolding a prod.case
        by (cases x rule: guarded_err_cases)
          (auto intro!: returns_ends returns_ret returns_fail c returns_bind_from [OF upd]
            simp: ps_removeFinalizer_def split: prod.split)
    qed
    have "ps_reconcile W R ns ps start m = State_Monad.bind (DeleteSecretFromProviders W ps [] m) (\<lambda>((r, badState), m1). case r of
             GoPanic \<Rightarrow> ret ((GoPanic, ps), m1)
           | GoRet (Some e) \<Rightarrow>
               ps_fail W ps m1 (''Failed to Delete Secrets from Provider: '' @ err_string e) (Some badState) e
           | GoRet None \<Rightarrow> do {
               (w, ps1) \<leftarrow> ps_update W (ps_removeFinalizer ps);
               ret ((case w of Some e \<Rightarrow> GoRet (no_requeue, Some (ErrWrap ''could not update finalizers'' e))
                 | None \<Rightarrow> GoRet (no_requeue, None), ps1), m1)
             })"
      using True assms(1) by (auto simp: ps_reconcile_def deletes_def Let_def)
    then show ?thesis by (simp only:) (rule ends_bind, rule rest)
  next
    case False
    then show ?thesis
      unfolding ps_reconcile_def Let_def using assms(1) [unfolded deletes_def] refresh
      by (auto simp: ps_addFinalizer_def intro!: returns_ends returns_bind_from [OF upd] returns_ret split: prod.split)
  qed
  with assms(5,6) show ?thesis by (auto simp: ends_def covers_def simp del: not_None_eq)
qed

text \<open>The sample resource: of its two locations on record the source has one, the other is deleted.\<close>

definition covering_run :: "((outcome guarded \<times> PushSecret) \<times> ClientManager) \<times> history" where
  "covering_run = run_state (ps_reconcile (logging_world [source_of ''a'']) sample_reconciler ''app'' selecting_ps 5
     (NewManager ''default'' False)) []"

theorem ps_record_covers_example:
  "\<exists>newMap m1 h1. cleanup (logging_world [source_of ''a'']) sample_reconciler ''app'' selecting_ps
      (NewManager ''default'' False) [] newMap m1 h1
    \<and> (''SecretStore/store'', sample_push_data ''b'' ''b'')
      \<in> deletions (logging_world [source_of ''a'']) selecting_ps newMap m1 h1"
proof -
  obtain r ps' m' h' where run: "covering_run = (((r, ps'), m'), h')" by (metis prod.exhaust)
  have "recorded_at (pst_SyncedPushSecrets (ps_Status (snd (fst (fst covering_run))))) ''SecretStore/store'' ''b'' = None"
    by code_simp
  moreover have "recorded_at (pst_SyncedPushSecrets (ps_Status selecting_ps)) ''SecretStore/store'' ''b''
      = Some (sample_push_data ''b'' ''b'')"
    by code_simp
  ultimately show ?thesis
    using ps_record_covers [OF _ _ _ _ run [unfolded covering_run_def], of "''SecretStore/store''" "''b''" "sample_push_data ''b'' ''b''"]
    by (simp add: run deletes_def proper_def keeps_resource_def finds_source_def selecting_ps_def logging_world_def
        sample_ps_env_def)
qed

end
