(* ===== verification/Ps_Finalizer.thy ===== *)
theory Ps_Finalizer
  imports Ps_Deletion
begin

text \<open>
  The finalizer of a PushSecret: it is removed exactly after everything on record was deleted.
\<close>

section \<open>Everything on record is gone\<close>

text \<open>
  \<open>purged W ns stores m h m' h'\<close>: from the history \<open>h\<close> the manager \<open>m\<close> gave a client for every store,
  and every entry of the store was deleted with it.
\<close>

inductive purged :: "PsEnv \<Rightarrow> string \<Rightarrow> SyncedPushSecretsMap \<Rightarrow> ClientManager \<Rightarrow> history
  \<Rightarrow> ClientManager \<Rightarrow> history \<Rightarrow> bool" for W ns where
  purged_Nil: "purged W ns [] m h m h"
| purged_Cons: "parse_store_key s = Some ref \<Longrightarrow>
    run_state (cm_Get (esw W) m ref ns None) h = ((Inr client, m1), h1) \<Longrightarrow>
    all_ok (delete_one client) data h1 h2 \<Longrightarrow> purged W ns stores m1 h2 m' h' \<Longrightarrow>
    purged W ns ((s, data) # stores) m h m' h'"

inductive_simps purged_Nil_iff [simp]: "purged W ns [] m h m' h'"
inductive_cases purged_ConsE: "purged W ns ((s, data) # stores) m h m' h'"

lemma all_ok_step: "all_ok f (xs @ x # ys) h h' \<Longrightarrow> all_ok f xs h h1 \<Longrightarrow>
  \<exists>h2. run_state (f x) h1 = (GoRet None, h2)"
proof (induction xs arbitrary: h)
  case (Cons y xs)
  then show ?case by (auto simp: all_ok_Cons)
qed (auto simp: all_ok_Cons)

lemma stops_not_ok: "stops f xs okay r h h1 \<Longrightarrow> r \<noteq> GoRet None \<Longrightarrow> \<not> all_ok f xs h h'"
  by (auto simp: stops_def dest!: all_ok_step)

lemma all_ok_unique: "all_ok f xs h h1 \<Longrightarrow> all_ok f xs h h2 \<Longrightarrow> h1 = h2"
  by (induction arbitrary: h2 rule: all_ok.induct) (auto simp: all_ok_Cons)

lemma delete_stores_purged:
  "run_state (delete_stores W ns [] stores out m) h = (((r, out'), m'), h') \<Longrightarrow>
   (if r = GoRet None then purged W ns stores m h m' h'
    else \<nexists>m1 h1. purged W ns stores m h m1 h1)"
proof (induction stores arbitrary: out m h)
  case (Cons sd stores)
  obtain s data where sd: "sd = (s, data)" by fastforce
  show ?case
  proof (cases "parse_store_key s")
    case None
    with Cons.prems show ?thesis by (auto simp: sd elim: purged_ConsE)
  next
    case (Some ref)
    obtain c m1 h1 where g: "run_state (cm_Get (esw W) m ref ns None) h = ((c, m1), h1)" by (metis prod.exhaust)
    show ?thesis
    proof (cases c)
      case (Inl e)
      with Cons.prems Some g show ?thesis by (auto simp: sd elim!: purged_ConsE)
    next
      case (Inr client)
      obtain r1 h2 where d: "run_state (DeleteAllSecretsFromStore client data) h1 = (r1, h2)" by fastforce
      obtain okay where st: "stops (delete_one client) data okay r1 h1 h2" using DeleteAll_stops [OF d] .
      show ?thesis
      proof (cases "r1 = GoRet None")
        case True
        with Cons.prems Some g Inr d
        have rest: "run_state (delete_stores W ns [] stores (mdel s out) m1) h2 = (((r, out'), m'), h')"
          by (simp add: sd)
        have ok: "all_ok (delete_one client) data h1 h2" using st True by (simp add: stops_ok)
        have "purged W ns ((s, data) # stores) m h m2 h3 \<longleftrightarrow> purged W ns stores m1 h2 m2 h3" for m2 h3
          using Some g Inr ok by (auto elim!: purged_ConsE intro: purged_Cons dest: all_ok_unique)
        with Cons.IH [OF rest] show ?thesis by (simp add: sd)
      next
        case False
        with Cons.prems Some g Inr d have "r = r1" by (auto simp: sd)
        with False Some g Inr stops_not_ok [OF st] show ?thesis by (auto simp: sd elim!: purged_ConsE)
      qed
    qed
  qed
qed (auto intro: purged_Nil)

text \<open>
  C21: The finalizer goes last.  When a PushSecret with policy Delete is being deleted and still has the
  finalizer, the update that removes the finalizer is asked for exactly if every store on record gave
  a client and every entry recorded for it was deleted, and it comes after all of that; otherwise the
  run panics or ends with an error, and the resource keeps its finalizer.
\<close>

theorem ps_finalizer_guard:
  assumes "deletes ps" and "om_DeletionTimestamp (ps_Meta ps) \<noteq> None"
    and "pushSecretFinalizer \<in> set (om_Finalizers (ps_Meta ps))"
    and "run_state (ps_reconcile W R ns ps start m) h = (((r, ps'), m'), h')"
  shows "(\<exists>h1. purged W (om_Namespace (ps_Meta ps)) (pst_SyncedPushSecrets (ps_Status ps)) m h m' h1
            \<and> h' = CUpdate (OPS (ps_removeFinalizer ps)) # h1)
    \<or> (\<nexists>m1 h1. purged W (om_Namespace (ps_Meta ps)) (pst_SyncedPushSecrets (ps_Status ps)) m h m1 h1)
      \<and> ps_Meta ps' = ps_Meta ps \<and> (\<forall>q. r \<noteq> GoRet (q, None))"
proof -
  let ?ns = "om_Namespace (ps_Meta ps)"
  obtain r1 bad m1 h1 where d: "run_state (DeleteSecretFromProviders W ps [] m) h = (((r1, bad), m1), h1)"
    by (metis prod.exhaust)
  note p = delete_stores_purged [OF d [unfolded DeleteSecretFromProviders_def Let_def]]
  have run: "run_state (ps_reconcile W R ns ps start m) h = run_state (case r1 of
      GoPanic \<Rightarrow> ret ((GoPanic, ps), m1)
    | GoRet (Some e) \<Rightarrow>
        ps_fail W ps m1 (''Failed to Delete Secrets from Provider: '' @ err_string e) (Some bad) e
    | GoRet None \<Rightarrow> do {
        (w, ps1) \<leftarrow> ps_update W (ps_removeFinalizer ps);
        ret ((case w of Some e \<Rightarrow> GoRet (no_requeue, Some (ErrWrap ''could not update finalizers'' e))
          | None \<Rightarrow> GoRet (no_requeue, None), ps1), m1)
      }) h1"
    using assms(1-3) d by (simp add: ps_reconcile_def deletes_def Let_def del: not_None_eq)
  show ?thesis
  proof (cases r1 rule: guarded_err_cases)
    case ok
    with run assms(4) p show ?thesis by (auto simp: ps_update_def split: prod.splits)
  next
    case panic
    with run assms(4) p show ?thesis by auto
  next
    case (failed e)
    with run assms(4) p show ?thesis
      by (auto simp: ps_fail_def markAsFailed_def ps_defs k_defs Let_def now_def SetPushSecretCondition_def setSecrets_def)
  qed
qed

text \<open>The sample resource, being deleted.\<close>

definition deleted_ps :: PushSecret where
  "deleted_ps = selecting_ps\<lparr>ps_Meta := (ps_Meta selecting_ps)\<lparr>om_DeletionTimestamp := Some 1\<rparr>\<rparr>"

definition deleted_run :: "((outcome guarded \<times> PushSecret) \<times> ClientManager) \<times> history" where
  "deleted_run = run_state (ps_reconcile (logging_world []) sample_reconciler ''app'' deleted_ps 5
     (NewManager ''default'' False)) []"

theorem ps_finalizer_guard_example:
  "\<exists>h1. purged (logging_world []) ''app'' (pst_SyncedPushSecrets (ps_Status selecting_ps))
      (NewManager ''default'' False) [] (snd (fst deleted_run)) h1
    \<and> snd deleted_run = CUpdate (OPS (ps_removeFinalizer deleted_ps)) # h1"
proof -
  have d: "deletes deleted_ps" "om_DeletionTimestamp (ps_Meta deleted_ps) \<noteq> None"
    "pushSecretFinalizer \<in> set (om_Finalizers (ps_Meta deleted_ps))"
    by (simp_all add: deletes_def deleted_ps_def selecting_ps_def)
  obtain r ps' m' h' where run: "deleted_run = (((r, ps'), m'), h')" by (metis prod.exhaust)
  have "(case fst (fst (fst deleted_run)) of GoRet (q, None) \<Rightarrow> True | _ \<Rightarrow> False)" by code_simp
  then have "\<exists>q. r = GoRet (q, None)" by (auto simp: run split: guarded.splits option.splits)
  with ps_finalizer_guard [OF d run [unfolded deleted_run_def]] show ?thesis
    by (auto simp: run deleted_ps_def selecting_ps_def sample_meta_def)
qed

end
