(* ===== verification/Ps_Push.thy ===== *)
theory Ps_Push
  imports Ps_Deletion
begin

text \<open>
  What the PushSecret controller pushes: which entries of \<open>spec.data\<close> and \<open>spec.dataTo\<close> remain and when
  they are refused, and that the record which pushing returns is what was pushed.
\<close>

section \<open>The entries of a store\<close>

lemma unique_from_iff:
  "unique_from seen ds = None \<longleftrightarrow>
     distinct (map remoteLocation ds) \<and> set (map remoteLocation ds) \<inter> fst ` set seen = {}"
proof (induction ds arbitrary: seen)
  case (Cons d ds)
  have seen: "map_of seen (remoteLocation d) = None \<longleftrightarrow> remoteLocation d \<notin> fst ` set seen"
    by (simp add: map_of_eq_None_iff)
  have keys: "fst ` set (AList.update (remoteLocation d) v seen) = insert (remoteLocation d) (fst ` set seen)" for v
    by (simp add: dom_update)
  show ?case
    by (cases "map_of seen (remoteLocation d)") (use seen in \<open>auto simp: Cons.IH keys\<close>)
qed simp

text \<open>The entry of \<open>dataTo\<close> gives way to an explicit one for the same key of the source.\<close>

definition yields_to :: "PushSecretData list \<Rightarrow> K8sSecret \<Rightarrow> PushSecretData \<Rightarrow> bool" where
  "yields_to explicitData secret data \<longleftrightarrow>
     (\<exists>d \<in> set explicitData. resolveOriginalKey d secret = pd_SecretKey data)"

lemma merged_iff:
  "mergeDataEntries expanded explicitData secret = Inr merged \<longleftrightarrow>
     merged = filter (\<lambda>d. \<not> yields_to explicitData secret d) expanded @ explicitData
     \<and> distinct (map remoteLocation merged)"
proof -
  have "resolveSourceKeyConflicts expanded explicitData secret
      = filter (\<lambda>d. \<not> yields_to explicitData secret d) expanded @ explicitData"
    by (force simp: resolveSourceKeyConflicts_def yields_to_def intro!: filter_cong)
  moreover have "unique_from [] ds = None \<longleftrightarrow> distinct (map remoteLocation ds)" for ds
    by (simp add: unique_from_iff)
  ultimately show ?thesis
    by (fastforce simp: mergeDataEntries_def Let_def validateRemoteKeyUniqueness_def simp del: map_append
        filter_append split: option.splits)
qed

text \<open>
  C23: How explicit and expanded entries are merged.  The result is the expanded entries that yield to
  no explicit one, in order, followed by all explicit ones, and merging fails exactly if two entries of the
  result have the same remote key and property.
\<close>

theorem ps_entries_merged:
  "mergeDataEntries expanded explicitData secret = Inr merged \<longleftrightarrow>
     merged = filter (\<lambda>d. \<not> yields_to explicitData secret d) expanded @ explicitData
     \<and> distinct (map (\<lambda>d. (pd_RemoteKey d, pd_Property d)) merged)"
  by (simp add: merged_iff remoteLocation_def [abs_def])

definition entry_at :: "string \<Rightarrow> string \<Rightarrow> string \<Rightarrow> PushSecretData" where
  "entry_at secretKey remoteKey property = \<lparr>pd_SecretKey = secretKey, pd_RemoteKey = remoteKey,
     pd_Property = property, psd_Metadata = None, psd_ConversionStrategy = PushSecretConversionNone\<rparr>"

text \<open>
  The record tells fewer locations apart than the check.  The remote key \<open>k/p\<close> and the property \<open>p\<close> of
  the remote key \<open>k\<close> are different destinations and pass the check side by side, but both are on record
  as \<open>k/p\<close>: of the two only the one that was pushed last can be deleted later.
\<close>

theorem ps_record_ambiguous:
  "mergeDataEntries [] [entry_at a (k @ ''/'' @ c # p) [], entry_at b k (c # p)] secret
     = Inr [entry_at a (k @ ''/'' @ c # p) [], entry_at b k (c # p)]
   \<and> fold (record_entry s) [entry_at a (k @ ''/'' @ c # p) [], entry_at b k (c # p)] []
     = [(s, [(k @ ''/'' @ c # p, entry_at b k (c # p))])]"
  by (simp add: merged_iff remoteLocation_def record_entry_def statusRef_def entry_at_def)

section \<open>What is pushed is recorded\<close>

definition entries_of :: "PsEnv \<Rightarrow> PushSecret \<Rightarrow> K8sSecret \<Rightarrow> storeInfo \<Rightarrow> err + PushSecretData list \<times> bytes gomap gomap" where
  "entries_of W ps secret si = store_entries (envw W) (ps_Spec ps) secret (si_Name si) (si_Kind si) (si_Labels si)"

text \<open>
  From \<open>h\<close> to \<open>h'\<close> the provider took an entry: it was pushed without an error, with the data that the
  conversion strategy gives, or the policy leaves existing secrets alone and the provider said it exists.
\<close>

definition took :: "EsSecretsClient \<Rightarrow> K8sSecret \<Rightarrow> string \<Rightarrow> bytes gomap gomap \<Rightarrow> PushSecretData
    \<Rightarrow> history \<Rightarrow> history \<Rightarrow> bool" where
  "took client secret policy overrides d h h' \<longleftrightarrow>
     (\<exists>data. ReverseKeys (psd_ConversionStrategy d)
         (case mget overrides (statusRef d) of None \<Rightarrow> sec_Data secret | Some o' \<Rightarrow> o') = Inr data
       \<and> secretKeyExists (pd_SecretKey d) data
       \<and> (policy = PushSecretUpdatePolicyIfNotExists
            \<and> run_state (esc_SecretExists client (remote_ref d)) h = (Inr True, h')
          \<or> (\<exists>h1. (if policy = PushSecretUpdatePolicyIfNotExists
                    then run_state (esc_SecretExists client (remote_ref d)) h = (Inr False, h1) else h1 = h)
               \<and> run_state (esc_PushSecret client (secret\<lparr>sec_Data := data\<rparr>) d) h1 = (GoRet None, h'))))"

lemma push_one_took:
  "run_state (push_one client secret policy overrides n d) h = (GoRet None, h') \<longleftrightarrow>
   took client secret policy overrides d h h'"
  unfolding push_one_def pushSecretEntry_def took_def Let_def
  by (auto simp: run_cases split: sum.splits if_splits bool.splits prod.splits guarded.splits option.splits)

text \<open>
  \<open>pushing W ps secret stores m h log complete m' h'\<close>: from manager \<open>m\<close> and history \<open>h\<close> the stores are gone
  through in order; each gives a client and its entries, and the provider takes them with it in order, up to
  the first that fails.  \<open>log\<close> are the record keys and entries that were taken, \<open>complete\<close> tells whether
  nothing failed.
\<close>

inductive took_all :: "EsSecretsClient \<Rightarrow> K8sSecret \<Rightarrow> string \<Rightarrow> bytes gomap gomap \<Rightarrow> PushSecretData list
    \<Rightarrow> history \<Rightarrow> history \<Rightarrow> bool" for client secret policy overrides where
  took_Nil: "took_all client secret policy overrides [] h h"
| took_Cons: "took client secret policy overrides d h h1 \<Longrightarrow> took_all client secret policy overrides ds h1 h' \<Longrightarrow>
    took_all client secret policy overrides (d # ds) h h'"

definition info_of :: "PushSecretStoreRef \<times> EsStore \<Rightarrow> storeInfo" where
  "info_of rs = store_info (fst rs) (snd rs)"

definition key_of :: "PushSecretStoreRef \<times> EsStore \<Rightarrow> string" where
  "key_of rs = store_key (info_of rs)"

definition client_for :: "PsEnv \<Rightarrow> PushSecret \<Rightarrow> storeInfo \<Rightarrow> ClientManager
    \<Rightarrow> ((err + EsSecretsClient) \<times> ClientManager) io" where
  "client_for W ps si m =
     cm_Get (esw W) m \<lparr>ssr_Name = si_Name si, ssr_Kind = si_Kind si\<rparr> (om_Namespace (ps_Meta ps)) None"

inductive pushing :: "PsEnv \<Rightarrow> PushSecret \<Rightarrow> K8sSecret \<Rightarrow> store_map \<Rightarrow> ClientManager \<Rightarrow> history
    \<Rightarrow> (string \<times> PushSecretData) list \<Rightarrow> bool \<Rightarrow> ClientManager \<Rightarrow> history \<Rightarrow> bool" for W ps secret where
  pushing_Nil: "pushing W ps secret [] m h [] True m h"
| pushing_no_client: "run_state (client_for W ps (info_of rs) m) h = ((Inl e, m1), h1) \<Longrightarrow>
    pushing W ps secret (rs # stores) m h [] False m1 h1"
| pushing_no_entries: "run_state (client_for W ps (info_of rs) m) h = ((Inr client, m1), h1) \<Longrightarrow>
    entries_of W ps secret (info_of rs) = Inl e \<Longrightarrow> pushing W ps secret (rs # stores) m h [] False m1 h1"
| pushing_failed: "run_state (client_for W ps (info_of rs) m) h = ((Inr client, m1), h1) \<Longrightarrow>
    entries_of W ps secret (info_of rs) = Inr (okay @ d # rest, overrides) \<Longrightarrow>
    took_all client secret (psp_UpdatePolicy (ps_Spec ps)) overrides okay h1 h2 \<Longrightarrow>
    (\<nexists>h3. took client secret (psp_UpdatePolicy (ps_Spec ps)) overrides d h2 h3) \<Longrightarrow>
    run_state (push_one client secret (psp_UpdatePolicy (ps_Spec ps)) overrides n d) h2 = (r, h3) \<Longrightarrow>
    pushing W ps secret (rs # stores) m h (map (Pair (key_of rs)) okay) False m1 h3"
| pushing_next: "run_state (client_for W ps (info_of rs) m) h = ((Inr client, m1), h1) \<Longrightarrow>
    entries_of W ps secret (info_of rs) = Inr (ds, overrides) \<Longrightarrow>
    took_all client secret (psp_UpdatePolicy (ps_Spec ps)) overrides ds h1 h2 \<Longrightarrow>
    pushing W ps secret stores m1 h2 log complete m' h' \<Longrightarrow>
    pushing W ps secret (rs # stores) m h (map (Pair (key_of rs)) ds @ log) complete m' h'"

lemma all_ok_took: "all_ok (push_one client secret policy overrides n) ds h h' \<Longrightarrow>
  took_all client secret policy overrides ds h h'"
  by (induction rule: all_ok.induct) (auto simp: push_one_took intro: took_all.intros)

section \<open>The record of a log\<close>

text \<open>The entry that was taken last for a location.\<close>

definition last_taken :: "(string \<times> PushSecretData) list \<Rightarrow> string \<Rightarrow> string \<Rightarrow> PushSecretData option" where
  "last_taken log s e = map_of (map (\<lambda>(k, d). ((k, statusRef d), d)) (rev log)) (s, e)"

lemma last_taken_Nil [simp]: "last_taken [] s e = None"
  by (simp add: last_taken_def)

lemma last_taken_append:
  "last_taken (xs @ ys) s e = (case last_taken ys s e of None \<Rightarrow> last_taken xs s e | Some d \<Rightarrow> Some d)"
  by (simp add: last_taken_def map_add_def split: option.split)

lemma last_taken_one: "last_taken [(k, d)] s e = (if s = k \<and> e = statusRef d then Some d else None)"
  by (simp add: last_taken_def)

lemma last_taken_other: "s \<noteq> k \<Longrightarrow> last_taken (map (Pair k) ds) s e = None"
  by (auto simp: last_taken_def map_of_eq_None_iff)

lemma recorded_record_entry:
  "recorded_at (record_entry k d out) s e = (if s = k \<and> e = statusRef d then Some d else recorded_at out s e)"
  by (auto simp: recorded_at_def record_entry_def mget_mput split: option.splits)

lemma recorded_fold:
  "recorded_at (fold (record_entry k) ds out) s e
     = (case last_taken (map (Pair k) ds) s e of None \<Rightarrow> recorded_at out s e | Some d \<Rightarrow> Some d)"
proof (induction ds arbitrary: out)
  case (Cons d ds)
  have "last_taken (map (Pair k) (d # ds)) s e = (case last_taken (map (Pair k) ds) s e of
      None \<Rightarrow> if s = k \<and> e = statusRef d then Some d else None | Some d \<Rightarrow> Some d)"
    using last_taken_append [of "[(k, d)]" "map (Pair k) ds"] by (simp add: last_taken_one split: option.split)
  then show ?case by (simp add: Cons.IH recorded_record_entry split: option.split)
qed simp

lemma recorded_reset: "recorded_at (mput k [] out) s e = (if s = k then None else recorded_at out s e)"
  by (simp add: recorded_at_def mget_mput)

text \<open>One store: its part of the log and of the record.\<close>

definition store_log :: "PsEnv \<Rightarrow> PushSecret \<Rightarrow> K8sSecret \<Rightarrow> PushSecretStoreRef \<times> EsStore \<Rightarrow> ClientManager \<Rightarrow> history
    \<Rightarrow> PushSecretData list \<Rightarrow> bool \<Rightarrow> ClientManager \<Rightarrow> history \<Rightarrow> bool" where
  "store_log W ps secret rs m h okay complete m1 h1 \<longleftrightarrow>
     (\<forall>stores log b m' h'. (if complete then pushing W ps secret stores m1 h1 log b m' h' \<longrightarrow>
         pushing W ps secret (rs # stores) m h (map (Pair (key_of rs)) okay @ log) b m' h'
       else pushing W ps secret (rs # stores) m h (map (Pair (key_of rs)) okay) False m1 h1))"

lemma handle_log:
  assumes "run_state (handlePushSecretDataForStore W ps secret out m (info_of rs)) h = (((r, out'), m'), h')"
  obtains okay where "store_log W ps secret rs m h okay (r = GoRet None) m' h'"
    and "out' = fold (record_entry (key_of rs)) okay (mput (key_of rs) [] out)"
proof -
  let ?si = "info_of rs" and ?policy = "psp_UpdatePolicy (ps_Spec ps)"
  obtain c m1 h1 where g: "run_state (client_for W ps ?si m) h = ((c, m1), h1)" by (metis prod.exhaust)
  note g' = g [unfolded client_for_def]
  show thesis
  proof (cases c)
    case (Inl e)
    with assms g' have "r \<noteq> GoRet None" "out' = mput (key_of rs) [] out" "m' = m1" "h' = h1"
      by (auto simp: handlePushSecretDataForStore_def Let_def key_of_def)
    with pushing_no_client [OF g [unfolded Inl]] show thesis by (intro that [of "[]"]) (simp_all add: store_log_def)
  next
    case (Inr client)
    note g = g [unfolded Inr]
    show thesis
    proof (cases "entries_of W ps secret ?si")
      case (Inl e)
      with assms g' \<open>c = Inr client\<close> have "r \<noteq> GoRet None" "out' = mput (key_of rs) [] out" "m' = m1" "h' = h1"
        by (auto simp: handlePushSecretDataForStore_def Let_def key_of_def entries_of_def)
      with pushing_no_entries [OF g Inl] show thesis by (intro that [of "[]"]) (simp_all add: store_log_def)
    next
      case e: (Inr dso)
      obtain ds overrides where dso: "dso = (ds, overrides)" by fastforce
      from assms g' Inr e dso
      have run: "run_state (push_entries client secret ?policy overrides (si_Name ?si) (key_of rs) ds
          (mput (key_of rs) [] out)) h1 = ((r, out'), h')" and m': "m' = m1"
        by (auto simp: handlePushSecretDataForStore_def Let_def key_of_def entries_of_def run_cases split: prod.splits)
      obtain okay where st: "stops (push_one client secret ?policy overrides (si_Name ?si)) ds okay r h1 h'"
        and out': "out' = fold (record_entry (key_of rs)) okay (mput (key_of rs) [] out)"
        using push_entries_stops [OF run] .
      show thesis
      proof (rule that [OF _ out'])
        show "store_log W ps secret rs m h okay (r = GoRet None) m' h'"
        proof (cases "r = GoRet None")
          case True
          with st have "okay = ds" "took_all client secret ?policy overrides ds h1 h'"
            by (auto simp: stops_ok all_ok_took)
          with pushing_next [OF g e [unfolded dso]] True m' show ?thesis by (simp add: store_log_def)
        next
          case False
          with st obtain d rest h2 where f: "ds = okay @ d # rest" "took_all client secret ?policy overrides okay h1 h2"
            "run_state (push_one client secret ?policy overrides (si_Name ?si) d) h2 = (r, h')"
            unfolding stops_def by (metis all_ok_took)
          moreover have "\<nexists>h3. took client secret ?policy overrides d h2 h3"
            using f(3) False by (simp flip: push_one_took [where n = "si_Name ?si"])
          ultimately show ?thesis
            using pushing_failed [OF g e [unfolded dso f(1)] f(2) _ f(3)] False m' by (simp add: store_log_def)
        qed
      qed
    qed
  qed
qed

lemma push_stores_Cons:
  "push_stores W ps secret (rs # stores) out m = do {
     ((r, out1), m1) \<leftarrow> handlePushSecretDataForStore W ps secret out m (info_of rs);
     if r = GoRet None then push_stores W ps secret stores out1 m1 else ret ((r, out1), m1)
   }"
  by (cases rs) (simp add: info_of_def)

lemma push_stores_log:
  assumes "run_state (push_stores W ps secret stores out m) h = (((r, out'), m'), h')"
    and "distinct (map key_of stores)" and "\<And>rs e. rs \<in> set stores \<Longrightarrow> recorded_at out (key_of rs) e = None"
  shows "\<exists>log. pushing W ps secret stores m h log (r = GoRet None) m' h'
    \<and> (\<forall>s e. recorded_at out' s e = (case last_taken log s e of None \<Rightarrow> recorded_at out s e | Some d \<Rightarrow> Some d))"
  using assms
proof (induction stores arbitrary: out m h)
  case Nil
  then show ?case by (auto intro: pushing_Nil)
next
  case (Cons rs stores)
  obtain r1 out1 m1 h1 where hd: "run_state (handlePushSecretDataForStore W ps secret out m (info_of rs)) h
      = (((r1, out1), m1), h1)" by (metis prod.exhaust)
  obtain okay where log1: "store_log W ps secret rs m h okay (r1 = GoRet None) m1 h1"
    and out1: "out1 = fold (record_entry (key_of rs)) okay (mput (key_of rs) [] out)"
    using handle_log [OF hd] .
  let ?log = "map (Pair (key_of rs)) okay"
  have rec1: "recorded_at out1 s e = (case last_taken ?log s e of None \<Rightarrow> recorded_at out s e | Some d \<Rightarrow> Some d)" for s e
    using Cons.prems(3) [of rs e]
    by (cases "s = key_of rs") (auto simp: out1 recorded_fold recorded_reset last_taken_other split: option.split)
  show ?case
  proof (cases "r1 = GoRet None")
    case True
    with Cons.prems(1) hd
    have rest: "run_state (push_stores W ps secret stores out1 m1) h1 = (((r, out'), m'), h')"
      by (simp add: push_stores_Cons)
    have "recorded_at out1 (key_of rs') e = None" if "rs' \<in> set stores" for rs' e
    proof -
      have "key_of rs' \<noteq> key_of rs" using Cons.prems(2) that by (metis image_eqI list.set_map distinct.simps(2) list.map(2))
      with that Cons.prems(3) show ?thesis by (simp add: rec1 last_taken_other)
    qed
    with Cons.IH [OF rest] Cons.prems(2) obtain log where "pushing W ps secret stores m1 h1 log (r = GoRet None) m' h'"
      and rec: "\<And>s e. recorded_at out' s e = (case last_taken log s e of None \<Rightarrow> recorded_at out1 s e | Some d \<Rightarrow> Some d)"
      by auto
    with log1 True have "pushing W ps secret (rs # stores) m h (?log @ log) (r = GoRet None) m' h'"
      by (simp add: store_log_def)
    moreover have "recorded_at out' s e = (case last_taken (?log @ log) s e of None \<Rightarrow> recorded_at out s e | Some d \<Rightarrow> Some d)" for s e
      by (simp add: rec rec1 last_taken_append split: option.split)
    ultimately show ?thesis by blast
  next
    case False
    with Cons.prems(1) hd have "r = r1" "out' = out1" "m' = m1" "h' = h1" by (simp_all add: push_stores_Cons)
    with log1 rec1 False show ?thesis by (intro exI [of _ ?log]) (simp add: store_log_def)
  qed
qed

lemma pushing_all:
  "pushing W ps secret stores m h log complete m' h' \<Longrightarrow> complete \<Longrightarrow> rs \<in> set stores \<Longrightarrow>
   \<exists>ds overrides. entries_of W ps secret (info_of rs) = Inr (ds, overrides) \<and> Pair (key_of rs) ` set ds \<subseteq> set log"
  by (induction rule: pushing.induct) fastforce+

text \<open>
  C22: The record is what was pushed.  However pushing a source to stores with distinct keys ends, the record it
  returns has for every location exactly the entry that was last taken there in this run: \<open>log\<close> lists the
  entries which, one store after the other, with the client that the manager as it stands gave for the store,
  the provider took, up to the first failure.  The run ends well exactly if nothing failed, and then the log
  has every entry that \<open>store_entries\<close> gives for every store.
\<close>

theorem ps_pushes_recorded:
  assumes "run_state (PushSecretToProviders W stores ps secret m) h = (((r, synced), m'), h')"
    and "distinct (map key_of stores)"
  shows "\<exists>log. pushing W ps secret stores m h log (r = GoRet None) m' h'
    \<and> recorded_at synced = last_taken log
    \<and> (r = GoRet None \<longrightarrow> (\<forall>rs \<in> set stores. \<exists>ds overrides.
        entries_of W ps secret (info_of rs) = Inr (ds, overrides) \<and> Pair (key_of rs) ` set ds \<subseteq> set log))"
proof -
  note run = assms(1) [unfolded PushSecretToProviders_def]
  have none: "recorded_at [] s e = None" for s e by (simp add: recorded_at_def)
  obtain log where log: "pushing W ps secret stores m h log (r = GoRet None) m' h'"
    "\<And>s e. recorded_at synced s e = last_taken log s e"
    using push_stores_log [OF run assms(2) none] by (metis none option.case_eq_if option.collapse)
  then have "recorded_at synced = last_taken log" by (intro ext) auto
  with log(1) pushing_all [OF log(1)] show ?thesis by blast
qed

definition sample_stores :: store_map where
  "sample_stores = [(sample_store_ref, idle_store\<lparr>gs_Meta := sample_meta\<lparr>om_Name := ''store''\<rparr>\<rparr>)]"

definition pushed_run :: "((err option guarded \<times> SyncedPushSecretsMap) \<times> ClientManager) \<times> history" where
  "pushed_run = run_state (PushSecretToProviders (logging_world []) sample_stores selecting_ps (source_of ''a'')
     (NewManager ''default'' False)) []"

theorem ps_pushes_recorded_example:
  "\<exists>log m' h'. pushing (logging_world []) selecting_ps (source_of ''a'') sample_stores
      (NewManager ''default'' False) [] log True m' h'
    \<and> last_taken log (key_of (hd sample_stores)) ''a'' \<noteq> None"
proof -
  obtain r synced m' h' where run: "pushed_run = (((r, synced), m'), h')" by (metis prod.exhaust)
  have "fst (fst (fst pushed_run)) = GoRet None" by code_simp
  then have ok: "r = GoRet None" by (simp add: run)
  have "recorded_at (snd (fst (fst pushed_run))) (key_of (hd sample_stores)) ''a'' \<noteq> None" by code_simp
  then have rec: "recorded_at synced (key_of (hd sample_stores)) ''a'' \<noteq> None" by (simp add: run)
  have "distinct (map key_of sample_stores)" by (simp add: sample_stores_def)
  from ps_pushes_recorded [OF run [unfolded pushed_run_def] this] obtain log
    where "pushing (logging_world []) selecting_ps (source_of ''a'') sample_stores
        (NewManager ''default'' False) [] log (r = GoRet None) m' h'"
      and "recorded_at synced = last_taken log" by blast
  with ok rec show ?thesis by auto
qed

end
