(* ===== verification/Ps_Faults.thy ===== *)
theory Ps_Faults
  imports Ps_Push
begin

text \<open>
  Faults of the PushSecret controller that the model shows: several source Secrets, no source Secret, and
  errors whose kind is lost.
\<close>

section \<open>Several sources, no source\<close>

text \<open>
  What is deleted is compared with one source at a time.  With policy Delete and a selector that finds
  two Secrets, pushing the first deletes what the second had pushed and the other way round: the run
  ends without the key of the first Secret in the provider, and reports that both are synced.  When
  the selector finds no Secret, the run deletes nothing, reports that all is synced and empties the
  record, so neither a later reconcile nor the finalizer deletes the secrets of the provider.
\<close>

theorem ps_selector_faults:
  "selecting_run [source_of ''a'', source_of ''b''] =
     ([CRest [] (RCreateSecret ''a'' [] [] (BodyToken [])), CRest [] (RDeleteItem ''b'' (BodyToken [])),
       CRest [] (RCreateSecret ''b'' [] [] (BodyToken [])), CRest [] (RDeleteItem ''a'' (BodyToken []))],
      [ConditionTrue], [(''SecretStore/store'', [''a'', ''b''])])
   \<and> selecting_run [] = ([], [ConditionTrue], [])"
proof (rule conjI)
  show "selecting_run [source_of ''a'', source_of ''b''] =
     ([CRest [] (RCreateSecret ''a'' [] [] (BodyToken [])), CRest [] (RDeleteItem ''b'' (BodyToken [])),
       CRest [] (RCreateSecret ''b'' [] [] (BodyToken [])), CRest [] (RDeleteItem ''a'' (BodyToken []))],
      [ConditionTrue], [(''SecretStore/store'', [''a'', ''b''])])"
    by code_simp
  show "selecting_run [] = ([], [ConditionTrue], [])" by code_simp
qed

section \<open>Locks\<close>

text \<open>
  A conflict of locks is not recognised.  The error of a provider's \<open>PushSecret\<close> is formatted into a new
  one, so that the reconcile never sees \<open>ErrConflict\<close> in it and reports a failure instead of coming
  back at once.
\<close>

theorem ps_conflict_unseen:
  assumes "pep_updatePolicy p \<noteq> PushSecretUpdatePolicyIfNotExists"
    and "run_state (pushSecretEntry c secret p) h = (GoRet (Some e), h')"
  shows "\<not> errors_is e ErrConflict"
  using assms
  by (auto simp: pushSecretEntry_def Let_def ErrConflict_def run_cases split: sum.splits if_splits prod.splits
      guarded.splits option.splits)

theorem ps_conflict_unseen_example:
  "\<not> errors_is (ErrMsg ''secret key x does not exist'') ErrConflict"
  by (rule ps_conflict_unseen [where c = logging_client and secret = "source_of ''a''" and h = "[]" and h' = "[]"
        and p = "\<lparr>pep_data = sample_push_data ''x'' ''y'', pep_updatePolicy = PushSecretUpdatePolicyReplace,
          pep_originalData = [], pep_dataOverride = None, pep_storeName = []\<rparr>"])
    code_simp+

end
