(* ===== verification/Ces_Controller.thy ===== *)
theory Ces_Controller
  imports Ps_World Es_Target Resolvers
begin

text \<open>
  The reconciler of ClusterExternalSecret, \<open>pkg/controllers/clusterexternalsecret\<close>: an
  ExternalSecret in every selected namespace, and a finalizer of its own on each such namespace.
  The namespaces that failed are a Go map from names to errors, which the functions that fill it
  return.  \<open>CreateOrUpdate\<close> is controller-runtime's: read, change, and create or update unless
  nothing changed.
\<close>

section \<open>Failures and conditions\<close>

type_synonym failures = "err gomap"

definition toNamespaceFailures :: "failures \<Rightarrow> NamespaceFailure list" where
  "toNamespaceFailures failed = sort_key nf_Namespace
     (map (\<lambda>(namespace, e). \<lparr>nf_Namespace = namespace, nf_Reason = err_string e\<rparr>) failed)"

definition NewClusterExternalSecretCondition :: "failures \<Rightarrow> CesCondition" where
  "NewClusterExternalSecretCondition failed =
     (if length failed = 0 then \<lparr>cec_Type = ''Ready'', cec_Status = ConditionTrue, cec_Message = []\<rparr>
      else \<lparr>cec_Type = ''Ready'', cec_Status = ConditionFalse, cec_Message = ''one or more namespaces failed''\<rparr>)"

definition upd_ces_status ::
  "(ClusterExternalSecretStatus \<Rightarrow> ClusterExternalSecretStatus) \<Rightarrow> ClusterExternalSecret
   \<Rightarrow> ClusterExternalSecret" where
  "upd_ces_status f ces = ces\<lparr>ces_Status := f (ces_Status ces)\<rparr>"

definition SetClusterExternalSecretCondition ::
  "CesCondition \<Rightarrow> ClusterExternalSecret \<Rightarrow> ClusterExternalSecret" where
  "SetClusterExternalSecretCondition condition = upd_ces_status (\<lambda>s. s\<lparr>cet_Conditions :=
     filter (\<lambda>c. cec_Type c \<noteq> cec_Type condition) (cet_Conditions s) @ [condition]\<rparr>)"

definition report_failures :: "failures \<Rightarrow> ClusterExternalSecret \<Rightarrow> ClusterExternalSecret" where
  "report_failures failed ces = upd_ces_status (\<lambda>s. s\<lparr>cet_FailedNamespaces := toNamespaceFailures failed\<rparr>)
     (SetClusterExternalSecretCondition (NewClusterExternalSecretCondition failed) ces)"

definition getRemovedNamespaces :: "K8sNamespace list \<Rightarrow> string list \<Rightarrow> string list" where
  "getRemovedNamespaces currentNSs provisionedNSs =
     filter (\<lambda>ns. ns \<notin> set (map ns_Name currentNSs)) provisionedNSs"

section \<open>Finalizers of namespaces\<close>

definition buildCESFinalizer :: "string \<Rightarrow> string" where
  "buildCESFinalizer cesName = ''externalsecrets.external-secrets.io/ces-'' @ cesName"

definition updateNamespaceRemoveFinalizer :: "PsEnv \<Rightarrow> string \<Rightarrow> string \<Rightarrow> err option io" where
  "updateNamespaceRemoveFinalizer W namespaceName finalizer = do {
     g \<leftarrow> k_get_namespace (envw W) namespaceName;
     case g of
       Inl e \<Rightarrow> ret (if is_not_found e then None
           else Some (ErrWrap (''failed to get latest namespace '' @ namespaceName) e))
     | Inr namespace \<Rightarrow>
         if finalizer \<in> set (ns_Finalizers namespace) then do {
           w \<leftarrow> ps_write W (CUpdate (ONamespace
             (namespace\<lparr>ns_Finalizers := filter (\<lambda>f. f \<noteq> finalizer) (ns_Finalizers namespace)\<rparr>)));
           ret (case w of
             None \<Rightarrow> None
           | Some e \<Rightarrow> if is_not_found e then None
               else Some (ErrWrap (''failed to remove finalizer from namespace '' @ namespaceName) e))
         } else ret None
   }"

definition removeNamespaceFinalizer :: "PsEnv \<Rightarrow> K8sNamespace \<Rightarrow> string \<Rightarrow> err option io" where
  "removeNamespaceFinalizer W namespace cesName =
     (let finalizer = buildCESFinalizer cesName in
      if finalizer \<notin> set (ns_Finalizers namespace) then ret None
      else updateNamespaceRemoveFinalizer W (ns_Name namespace) finalizer)"

definition addNamespaceFinalizer :: "PsEnv \<Rightarrow> string \<Rightarrow> string \<Rightarrow> err option io" where
  "addNamespaceFinalizer W namespaceName finalizer = do {
     g \<leftarrow> k_get_namespace (envw W) namespaceName;
     case g of
       Inl e \<Rightarrow> ret (Some (ErrWrap ''could not get latest namespace'' e))
     | Inr namespace \<Rightarrow>
         if finalizer \<in> set (ns_Finalizers namespace) then ret None
         else do {
           w \<leftarrow> ps_write W (CUpdate (ONamespace
             (namespace\<lparr>ns_Finalizers := ns_Finalizers namespace @ [finalizer]\<rparr>)));
           ret (case w of
             None \<Rightarrow> None
           | Some e \<Rightarrow> if is_conflict e then Some e
               else Some (ErrWrap ''could not add namespace finalizer'' e))
         }
   }"

definition ensureNamespaceFinalizer :: "PsEnv \<Rightarrow> K8sNamespace \<Rightarrow> string \<Rightarrow> err option io" where
  "ensureNamespaceFinalizer W namespace cesName =
     (let finalizer = buildCESFinalizer cesName in
      if finalizer \<in> set (ns_Finalizers namespace) then ret None
      else addNamespaceFinalizer W (ns_Name namespace) finalizer)"

section \<open>The ExternalSecret of a namespace\<close>

definition ClusterExtSecretGroupKind :: string where
  "ClusterExtSecretGroupKind = ''ClusterExternalSecret.external-secrets.io''"

definition isExternalSecretOwnedBy :: "ExternalSecret \<Rightarrow> string \<Rightarrow> bool" where
  "isExternalSecretOwnedBy es cesName = (case GetControllerOf (es_Meta es) of
     None \<Rightarrow> False
   | Some owner \<Rightarrow> group_kind owner = ClusterExtSecretGroupKind \<and> owr_Name owner = cesName)"

definition deleteExternalSecret :: "PsEnv \<Rightarrow> string \<Rightarrow> string \<Rightarrow> string \<Rightarrow> err option io" where
  "deleteExternalSecret W esName cesName namespace = do {
     g \<leftarrow> es_get (esw W) namespace esName;
     case g of
       Inl e \<Rightarrow> ret (if is_not_found e then None else Some e)
     | Inr existingES \<Rightarrow>
         if \<not> isExternalSecretOwnedBy existingES cesName then ret None
         else do {
           w \<leftarrow> ps_write W (CDelete (OES existingES));
           ret (case w of
             None \<Rightarrow> None
           | Some e \<Rightarrow> Some (ErrWrap ''external secret in non matching namespace could not be deleted'' e))
         }
   }"

definition CesForceSync :: string where "CesForceSync = ''external-secrets.io/force-sync''"

text \<open>
  The function given to \<open>CreateOrUpdate\<close>.  The annotations are the map of the specification itself,
  which it changes in the same way for every namespace.
\<close>

definition child_annotations :: "ClusterExternalSecret \<Rightarrow> string gomap" where
  "child_annotations ces =
     (let annotations = chm_Annotations (cep_ExternalSecretMetadata (ces_Spec ces)) in
      case mget (om_Annotations (ces_Meta ces)) CesForceSync of
        Some value \<Rightarrow> mput CesForceSync value annotations
      | None \<Rightarrow> mdel CesForceSync annotations)"

definition mutate_child ::
  "PsEnv \<Rightarrow> ClusterExternalSecret \<Rightarrow> ExternalSecret \<Rightarrow> err + ExternalSecret" where
  "mutate_child W ces es =
     (case setCesRef W (ces_Meta ces) ((es_Meta es)\<lparr>
             om_Labels := chm_Labels (cep_ExternalSecretMetadata (ces_Spec ces)),
             om_Annotations := child_annotations ces\<rparr>) of
        Inl e \<Rightarrow> Inl (ErrFmt ''could not set the controller owner reference '' e [])
      | Inr m \<Rightarrow> Inr (es\<lparr>es_Meta := m, es_Spec := cep_ExternalSecretSpec (ces_Spec ces)\<rparr>))"

definition empty_es :: "string \<Rightarrow> string \<Rightarrow> EsSpec \<Rightarrow> ExternalSecret" where
  "empty_es namespace name spec = \<lparr>es_Kind = [], es_Meta = empty_meta\<lparr>om_Namespace := namespace, om_Name := name\<rparr>,
     es_Spec = spec, es_Status = \<lparr>est_RefreshTime = None, est_SyncedResourceVersion = [], est_Conditions = [],
       est_Binding = []\<rparr>\<rparr>"

definition createOrUpdateExternalSecret ::
  "PsEnv \<Rightarrow> ClusterExternalSecret \<Rightarrow> K8sNamespace \<Rightarrow> string \<Rightarrow> err option io" where
  "createOrUpdateExternalSecret W ces namespace esName =
     (let wrapped = map_option (ErrWrap ''could not create or update ExternalSecret'') in do {
        f \<leftarrow> ensureNamespaceFinalizer W namespace (om_Name (ces_Meta ces));
        case f of
          Some e \<Rightarrow> ret (Some e)
        | None \<Rightarrow> do {
            g \<leftarrow> es_get (esw W) (ns_Name namespace) esName;
            case g of
              Inl e \<Rightarrow>
                if \<not> is_not_found e then ret (wrapped (Some e))
                else (case mutate_child W ces
                    (empty_es (ns_Name namespace) esName (cep_ExternalSecretSpec (ces_Spec ces))) of
                    Inl m \<Rightarrow> ret (wrapped (Some m))
                  | Inr es \<Rightarrow> do {
                      w \<leftarrow> ps_write W (CCreate (OES es));
                      ret (wrapped w)
                    })
            | Inr existing \<Rightarrow> (case mutate_child W ces existing of
                Inl m \<Rightarrow> ret (wrapped (Some m))
              | Inr es \<Rightarrow>
                  if sameES W existing es then ret None
                  else do {
                    w \<leftarrow> ps_write W (CUpdate (OES es));
                    ret (wrapped w)
                  })
          }
      })"

section \<open>Deletion\<close>

definition cleanupNamespaceResources ::
  "PsEnv \<Rightarrow> ClusterExternalSecret \<Rightarrow> string \<Rightarrow> string \<Rightarrow> err option io" where
  "cleanupNamespaceResources W ces namespaceName esName = do {
     g \<leftarrow> k_get_namespace (envw W) namespaceName;
     case g of
       Inl e \<Rightarrow> ret (if is_not_found e then None
           else Some (ErrWrap (''failed to get namespace '' @ namespaceName) e))
     | Inr namespace \<Rightarrow> do {
         r \<leftarrow> removeNamespaceFinalizer W namespace (om_Name (ces_Meta ces));
         case r of
           Some e \<Rightarrow> ret (Some e)
         | None \<Rightarrow> do {
             d \<leftarrow> deleteExternalSecret W esName (om_Name (ces_Meta ces)) namespaceName;
             ret (map_option (ErrWrap (''failed to delete ExternalSecret in namespace '' @ namespaceName)) d)
           }
       }
   }"

definition getExternalSecretName :: "ClusterExternalSecret \<Rightarrow> string" where
  "getExternalSecretName ces = (if cet_ExternalSecretName (ces_Status ces) \<noteq> []
     then cet_ExternalSecretName (ces_Status ces) else om_Name (ces_Meta ces))"

fun cleanup_namespaces ::
  "PsEnv \<Rightarrow> ClusterExternalSecret \<Rightarrow> string \<Rightarrow> string list \<Rightarrow> err option \<Rightarrow> err option io" where
  "cleanup_namespaces W ces esName [] acc = ret acc"
| "cleanup_namespaces W ces esName (ns # nss) acc = do {
     r \<leftarrow> cleanupNamespaceResources W ces ns esName;
     cleanup_namespaces W ces esName nss (case r of
       None \<Rightarrow> acc
     | Some e \<Rightarrow> Some (ErrJoin (case acc of None \<Rightarrow> [e] | Some a \<Rightarrow> [a, e])))
   }"

definition cleanupExternalSecrets :: "PsEnv \<Rightarrow> ClusterExternalSecret \<Rightarrow> err option io" where
  "cleanupExternalSecrets W ces = cleanup_namespaces W ces (getExternalSecretName ces)
     (cet_ProvisionedNamespaces (ces_Status ces)) None"

section \<open>The namespaces\<close>

text \<open>Deleting in a list of namespaces: the failures and the last error.\<close>

fun delete_in ::
  "PsEnv \<Rightarrow> string \<Rightarrow> string \<Rightarrow> string list \<Rightarrow> failures \<Rightarrow> err option \<Rightarrow> (failures \<times> err option) io" where
  "delete_in W esName cesName [] failed lastErr = ret (failed, lastErr)"
| "delete_in W esName cesName (ns # nss) failed lastErr = do {
     r \<leftarrow> deleteExternalSecret W esName cesName ns;
     case r of
       None \<Rightarrow> delete_in W esName cesName nss failed lastErr
     | Some e \<Rightarrow> delete_in W esName cesName nss (mput ns e failed) (Some e)
   }"

definition removeOldSecrets ::
  "PsEnv \<Rightarrow> ClusterExternalSecret \<Rightarrow> string \<Rightarrow> (err option \<times> ClusterExternalSecret) io" where
  "removeOldSecrets W ces prevName = do {
     (failed, lastErr) \<leftarrow> delete_in W prevName (om_Name (ces_Meta ces))
       (cet_ProvisionedNamespaces (ces_Status ces)) [] None;
     ret (if length failed > 0 then (lastErr, report_failures failed ces) else (None, ces))
   }"

definition deleteOutdatedExternalSecrets ::
  "PsEnv \<Rightarrow> K8sNamespace list \<Rightarrow> string \<Rightarrow> string \<Rightarrow> string list \<Rightarrow> failures io" where
  "deleteOutdatedExternalSecrets W namespaces esName cesName provisioned = do {
     (failed, _) \<leftarrow> delete_in W esName cesName (getRemovedNamespaces namespaces provisioned) [] None;
     ret failed
   }"

text \<open>One namespace: \<open>Inr True\<close> when it is provisioned, \<open>Inr False\<close> when it is being deleted.\<close>

definition provision ::
  "PsEnv \<Rightarrow> ClusterExternalSecret \<Rightarrow> string \<Rightarrow> K8sNamespace \<Rightarrow> (err + bool) io" where
  "provision W ces esName namespace =
     (if ns_DeletionTimestamp namespace \<noteq> None then do {
        _ \<leftarrow> removeNamespaceFinalizer W namespace (om_Name (ces_Meta ces));
        ret (Inr False)
      } else do {
        g \<leftarrow> es_get (esw W) (ns_Name namespace) esName;
        let go = (do {
          r \<leftarrow> createOrUpdateExternalSecret W ces namespace esName;
          ret (case r of Some e \<Rightarrow> Inl e | None \<Rightarrow> Inr True)
        });
        case g of
          Inl e \<Rightarrow> if is_not_found e then go else ret (Inl e)
        | Inr existingES \<Rightarrow>
            if isExternalSecretOwnedBy existingES (om_Name (ces_Meta ces)) then go
            else ret (Inl (ErrMsg ''external secret already exists in namespace''))
      })"

fun gatherProvisionedNamespaces ::
  "PsEnv \<Rightarrow> ClusterExternalSecret \<Rightarrow> string \<Rightarrow> K8sNamespace list \<Rightarrow> failures \<Rightarrow> string list
   \<Rightarrow> (failures \<times> string list) io" where
  "gatherProvisionedNamespaces W ces esName [] failed provisioned = ret (failed, provisioned)"
| "gatherProvisionedNamespaces W ces esName (namespace # nss) failed provisioned = do {
     r \<leftarrow> provision W ces esName namespace;
     case r of
       Inl e \<Rightarrow> gatherProvisionedNamespaces W ces esName nss (mput (ns_Name namespace) e failed) provisioned
     | Inr done \<Rightarrow> gatherProvisionedNamespaces W ces esName nss failed
         (if done then provisioned @ [ns_Name namespace] else provisioned)
   }"

section \<open>The reconciler\<close>

definition ClusterExternalSecretFinalizer :: string where
  "ClusterExternalSecretFinalizer = ''externalsecrets.external-secrets.io/clusterexternalsecret-cleanup''"

definition ces_selectors :: "ClusterExternalSecret \<Rightarrow> LabelSelector list" where
  "ces_selectors ces = (case cep_NamespaceSelector (ces_Spec ces) of None \<Rightarrow> [] | Some s \<Rightarrow> [s])
     @ cep_NamespaceSelectors (ces_Spec ces)"

definition ces_name :: "ClusterExternalSecret \<Rightarrow> string" where
  "ces_name ces = (if cep_ExternalSecretName (ces_Spec ces) = [] then om_Name (ces_Meta ces)
     else cep_ExternalSecretName (ces_Spec ces))"

definition ces_refresh :: "duration \<Rightarrow> ClusterExternalSecret \<Rightarrow> duration" where
  "ces_refresh RequeueInterval ces = (case cep_RefreshInterval (ces_Spec ces) of
     None \<Rightarrow> RequeueInterval | Some d \<Rightarrow> d)"

definition provision_all ::
  "PsEnv \<Rightarrow> duration \<Rightarrow> ClusterExternalSecret \<Rightarrow> string \<Rightarrow> K8sNamespace list
   \<Rightarrow> (outcome \<times> ClusterExternalSecret) io" where
  "provision_all W refreshInt ces esName namespaces = do {
     failed0 \<leftarrow> deleteOutdatedExternalSecrets W namespaces esName (om_Name (ces_Meta ces))
       (cet_ProvisionedNamespaces (ces_Status ces));
     (failed, provisioned) \<leftarrow> gatherProvisionedNamespaces W ces esName namespaces failed0 [];
     let ces' = upd_ces_status (\<lambda>s. s\<lparr>cet_ProvisionedNamespaces := sort provisioned\<rparr>)
           (report_failures failed ces);
     ret (case find (\<lambda>(_, e). is_conflict e) failed of
       Some (_, e) \<Rightarrow> ((no_requeue, Some (ErrWrap ''conflict detected, will retry'' e)), ces')
     | None \<Rightarrow> ((requeue_after refreshInt, None), ces'))
   }"

definition ces_reconcile ::
  "PsEnv \<Rightarrow> duration \<Rightarrow> ClusterExternalSecret \<Rightarrow> (outcome \<times> ClusterExternalSecret) io" where
  "ces_reconcile W RequeueInterval ces =
     (let esName = ces_name ces; prevName = cet_ExternalSecretName (ces_Status ces) in do {
        (o1, ces1) \<leftarrow> (if prevName \<noteq> [] \<and> prevName \<noteq> esName then removeOldSecrets W ces prevName
                       else ret (None, ces));
        case o1 of
          Some e \<Rightarrow> ret ((no_requeue, Some e), ces1)
        | None \<Rightarrow>
            (let ces2 = upd_ces_status (\<lambda>s. s\<lparr>cet_ExternalSecretName := esName\<rparr>) ces1 in do {
               n \<leftarrow> GetTargetNamespaces (envw W) (cep_Namespaces (ces_Spec ces)) (ces_selectors ces);
               case n of
                 Inl e \<Rightarrow> ret ((no_requeue, Some e), report_failures [(''unknown'', e)] ces2)
               | Inr namespaces \<Rightarrow>
                   provision_all W (ces_refresh RequeueInterval ces) ces2 esName namespaces
             })
      })"

definition ces_finalizers :: "(string list \<Rightarrow> string list) \<Rightarrow> ClusterExternalSecret \<Rightarrow> ClusterExternalSecret" where
  "ces_finalizers f ces = ces\<lparr>ces_Meta := (ces_Meta ces)\<lparr>om_Finalizers := f (om_Finalizers (ces_Meta ces))\<rparr>\<rparr>"

definition ces_delete :: "PsEnv \<Rightarrow> ClusterExternalSecret \<Rightarrow> outcome io" where
  "ces_delete W ces = do {
     c \<leftarrow> cleanupExternalSecrets W ces;
     case c of
       Some e \<Rightarrow> ret (no_requeue, Some e)
     | None \<Rightarrow>
         if ClusterExternalSecretFinalizer \<in> set (om_Finalizers (ces_Meta ces)) then do {
           (w, _) \<leftarrow> ces_patch W (ces_finalizers (filter (\<lambda>f. f \<noteq> ClusterExternalSecretFinalizer)) ces);
           ret (no_requeue, w)
         } else ret (no_requeue, None)
   }"

definition ces_Reconcile :: "PsEnv \<Rightarrow> duration \<Rightarrow> string \<Rightarrow> outcome io" where
  "ces_Reconcile W RequeueInterval name = do {
     g \<leftarrow> ces_get W name;
     case g of
       Inl e \<Rightarrow> ret (no_requeue, ignore_not_found e)
     | Inr ces \<Rightarrow>
         if om_DeletionTimestamp (ces_Meta ces) \<noteq> None then ces_delete W ces
         else if ClusterExternalSecretFinalizer \<notin> set (om_Finalizers (ces_Meta ces)) then do {
           (w, _) \<leftarrow> ces_patch W (ces_finalizers (\<lambda>fs. fs @ [ClusterExternalSecretFinalizer]) ces);
           ret (no_requeue, w)
         } else do {
           (r, ces') \<leftarrow> ces_reconcile W RequeueInterval ces;
           _ \<leftarrow> ps_write W (CStatusPatch (OCES ces'));
           ret r
         }
   }"

section \<open>Events of namespaces\<close>

fun any_matches :: "Env \<Rightarrow> LabelSelector list \<Rightarrow> string gomap \<Rightarrow> bool" where
  "any_matches E [] nsLabels = False"
| "any_matches E (s # ss) nsLabels = (case selectorOf E s of
     Inl _ \<Rightarrow> any_matches E ss nsLabels
   | Inr matches \<Rightarrow> if matches nsLabels then True else any_matches E ss nsLabels)"

definition queueRequestsForItem ::
  "PsEnv \<Rightarrow> ClusterExternalSecret list \<Rightarrow> K8sNamespace \<Rightarrow> (string \<times> string) list" where
  "queueRequestsForItem W items namespace =
     map (\<lambda>ces. (om_Name (ces_Meta ces), om_Namespace (ces_Meta ces)))
       (filter (\<lambda>ces. any_matches (envw W) (ces_selectors ces) (ns_Labels namespace)
          \<or> ns_Name namespace \<in> set (cep_Namespaces (ces_Spec ces))) items)"

definition ces_findObjectsForNamespace :: "PsEnv \<Rightarrow> K8sNamespace \<Rightarrow> (string \<times> string) list io" where
  "ces_findObjectsForNamespace W namespace = do {
     r \<leftarrow> ces_list W;
     ret (case r of Inl _ \<Rightarrow> [] | Inr items \<Rightarrow> queueRequestsForItem W items namespace)
   }"

end
