(* ===== verification/Ces_Laws.thy ===== *)
theory Ces_Laws
  imports Ces_Controller Es_Laws
begin

text \<open>
  What the reconciler of ClusterExternalSecret writes, what its status says, and which namespaces it
  never comes back to.
\<close>

section \<open>Allowed writes\<close>

text \<open>
  \<open>SetControllerReference\<close> and reads by name, as documented: it refuses an object that another controller
  has, and what counts as another one is told by group, kind and name, not by the UID.
\<close>

definition cesref_law :: "PsEnv \<Rightarrow> bool" where
  "cesref_law W \<longleftrightarrow> (\<forall>owner m m'. setCesRef W owner m = Inr m' \<longrightarrow> but_owners m' = but_owners m
     \<and> (\<exists>r. GetControllerOf m' = Some r \<and> group_kind r = ClusterExtSecretGroupKind \<and> owr_Name r = om_Name owner
          \<and> owr_UID r = om_UID owner)
     \<and> (\<forall>r. GetControllerOf m = Some r \<longrightarrow> group_kind r = ClusterExtSecretGroupKind \<and> owr_Name r = om_Name owner))"

definition es_named :: "PsEnv \<Rightarrow> bool" where
  "es_named W \<longleftrightarrow> (\<forall>h ns n es. getES (esw W) h ns n = Inr es \<longrightarrow>
     om_Namespace (es_Meta es) = ns \<and> om_Name (es_Meta es) = n)"

text \<open>Selected by one of the selectors or names, in some answer of the server, and not being deleted.\<close>

definition targeted :: "PsEnv \<Rightarrow> ClusterExternalSecret \<Rightarrow> K8sNamespace \<Rightarrow> bool" where
  "targeted W ces n \<longleftrightarrow> (\<exists>h items sel matches. listNamespaces (envw W) h = Inr items \<and> n \<in> set items
     \<and> sel \<in> set (map name_selector (cep_Namespaces (ces_Spec ces)) @ ces_selectors ces)
     \<and> selectorOf (envw W) sel = Inr matches \<and> matches (ns_Labels n))"

definition child_of :: "PsEnv \<Rightarrow> ClusterExternalSecret \<Rightarrow> ExternalSecret \<Rightarrow> bool" where
  "child_of W ces es \<longleftrightarrow> es_Spec es = cep_ExternalSecretSpec (ces_Spec ces)
     \<and> om_Name (es_Meta es) = ces_name ces
     \<and> om_Labels (es_Meta es) = chm_Labels (cep_ExternalSecretMetadata (ces_Spec ces))
     \<and> isExternalSecretOwnedBy es (om_Name (ces_Meta ces)) \<and> IsControlledBy (es_Meta es) (ces_Meta ces)
     \<and> (\<exists>n. targeted W ces n \<and> ns_DeletionTimestamp n = None \<and> ns_Name n = om_Namespace (es_Meta es))"

text \<open>
  The finalizer of the resource is removed from a namespace that has it, or put on a namespace that is
  selected and not being deleted.
\<close>

definition finalizer_of_namespace :: "PsEnv \<Rightarrow> ClusterExternalSecret \<Rightarrow> K8sNamespace \<Rightarrow> bool" where
  "finalizer_of_namespace W ces n' \<longleftrightarrow> (\<exists>h q n f. getNamespace (envw W) h q = Inr n
     \<and> f = buildCESFinalizer (om_Name (ces_Meta ces))
     \<and> (f \<in> set (ns_Finalizers n) \<and> n' = n\<lparr>ns_Finalizers := filter (\<lambda>g. g \<noteq> f) (ns_Finalizers n)\<rparr>
        \<or> f \<notin> set (ns_Finalizers n) \<and> n' = n\<lparr>ns_Finalizers := ns_Finalizers n @ [f]\<rparr>
          \<and> (\<exists>t. targeted W ces t \<and> ns_DeletionTimestamp t = None \<and> ns_Name t = q)))"

text \<open>The ExternalSecret that is replaced has no controller, or one of that group, kind and name.\<close>

definition unowned :: "PsEnv \<Rightarrow> ClusterExternalSecret \<Rightarrow> ExternalSecret \<Rightarrow> bool" where
  "unowned W ces es \<longleftrightarrow> (\<exists>h old. getES (esw W) h (om_Namespace (es_Meta es)) (om_Name (es_Meta es)) = Inr old
     \<and> (GetControllerOf (es_Meta old) = None \<or> isExternalSecretOwnedBy old (om_Name (ces_Meta ces))))"

text \<open>The finalizer of the resource itself: put on it, or taken off when it is being deleted.\<close>

definition own_finalizer :: "ClusterExternalSecret \<Rightarrow> ClusterExternalSecret \<Rightarrow> bool" where
  "own_finalizer ces ces' \<longleftrightarrow> (if om_DeletionTimestamp (ces_Meta ces) = None
     then ces' = ces_finalizers (\<lambda>fs. fs @ [ClusterExternalSecretFinalizer]) ces
       \<and> ClusterExternalSecretFinalizer \<notin> set (om_Finalizers (ces_Meta ces))
     else ces' = ces_finalizers (filter (\<lambda>f. f \<noteq> ClusterExternalSecretFinalizer)) ces)"

definition child_name :: "ClusterExternalSecret \<Rightarrow> string \<Rightarrow> bool" where
  "child_name ces n \<longleftrightarrow> n = ces_name ces \<or> n = cet_ExternalSecretName (ces_Status ces) \<or> n = om_Name (ces_Meta ces)"

fun ces_write :: "PsEnv \<Rightarrow> ClusterExternalSecret \<Rightarrow> Call \<Rightarrow> bool" where
  "ces_write W ces (CCreate ob) = (case ob of OES es \<Rightarrow> child_of W ces es | _ \<Rightarrow> False)"
| "ces_write W ces (CUpdate ob) = (case ob of
      OES es \<Rightarrow> child_of W ces es \<and> unowned W ces es
    | ONamespace n \<Rightarrow> finalizer_of_namespace W ces n
    | _ \<Rightarrow> False)"
| "ces_write W ces (CDelete ob) = (case ob of
      OES es \<Rightarrow> isExternalSecretOwnedBy es (om_Name (ces_Meta ces)) \<and> child_name ces (om_Name (es_Meta es))
        \<and> om_Namespace (es_Meta es) \<in> set (cet_ProvisionedNamespaces (ces_Status ces))
    | _ \<Rightarrow> False)"
| "ces_write W ces (CPatch ob) = (\<exists>ces'. ob = OCES ces' \<and> own_finalizer ces ces')"
| "ces_write W ces (CStatusPatch ob) =
     (\<exists>ces'. ob = OCES ces' \<and> ces_Spec ces' = ces_Spec ces \<and> ces_Meta ces' = ces_Meta ces)"
| "ces_write W ces c = False"

definition ces_call :: "PsEnv \<Rightarrow> ClusterExternalSecret \<Rightarrow> Call \<Rightarrow> bool" where
  "ces_call W ces c \<longleftrightarrow> quiet c \<or> ces_write W ces c"

lemma ces_call_quiet [simp]: "quiet c \<Longrightarrow> ces_call W ces c"
  by (simp add: ces_call_def)

lemma ces_call_write: "ces_write W ces c \<Longrightarrow> ces_call W ces c"
  by (simp add: ces_call_def)

text \<open>Reads return what the server answered.\<close>

lemma keeps_get_namespace:
  "keeps (ces_call W ces) (\<lambda>r. \<forall>n. r = Inr n \<longrightarrow> (\<exists>h. getNamespace (envw W) h q = Inr n)) (k_get_namespace (envw W) q)"
  unfolding keeps_def traces_def k_defs by auto

lemma keeps_es_get:
  "keeps (ces_call W ces) (\<lambda>r. \<forall>es. r = Inr es \<longrightarrow> (\<exists>h. getES (esw W) h ns n = Inr es)) (es_get (esw W) ns n)"
  unfolding keeps_def traces_def es_defs by auto

lemma finalizer_writes:
  assumes "getNamespace (envw W) h q = Inr n" and "f = buildCESFinalizer (om_Name (ces_Meta ces))"
  shows "f \<in> set (ns_Finalizers n) \<Longrightarrow>
      finalizer_of_namespace W ces (n\<lparr>ns_Finalizers := filter (\<lambda>g. g \<noteq> f) (ns_Finalizers n)\<rparr>)"
    and "f \<notin> set (ns_Finalizers n) \<Longrightarrow> targeted W ces t \<Longrightarrow> ns_DeletionTimestamp t = None \<Longrightarrow> ns_Name t = q \<Longrightarrow>
      finalizer_of_namespace W ces (n\<lparr>ns_Finalizers := ns_Finalizers n @ [f]\<rparr>)"
  using assms unfolding finalizer_of_namespace_def by blast+

lemma performs_remove_finalizer:
  "performs (ces_call W ces) (removeNamespaceFinalizer W n (om_Name (ces_Meta ces)))"
proof -
  have "performs (ces_call W ces) (updateNamespaceRemoveFinalizer W q (buildCESFinalizer (om_Name (ces_Meta ces))))" for q
    unfolding updateNamespaceRemoveFinalizer_def
  proof (rule keeps_performs [where Q = "\<lambda>_. True"], rule keeps_bind [OF keeps_get_namespace], goal_cases)
    case (1 r)
    then show ?case
      by (cases r) (auto simp: ps_defs k_defs
          intro!: performs_keeps performs_intros ces_call_write intro: finalizer_writes(1) [OF _ refl])
  qed
  then show ?thesis unfolding removeNamespaceFinalizer_def Let_def by (auto intro: performs_ret)
qed

lemma performs_ensure_finalizer:
  assumes "targeted W ces n" and "ns_DeletionTimestamp n = None"
  shows "performs (ces_call W ces) (ensureNamespaceFinalizer W n (om_Name (ces_Meta ces)))"
proof -
  have "performs (ces_call W ces) (addNamespaceFinalizer W (ns_Name n) (buildCESFinalizer (om_Name (ces_Meta ces))))"
    unfolding addNamespaceFinalizer_def
  proof (rule keeps_performs [where Q = "\<lambda>_. True"], rule keeps_bind [OF keeps_get_namespace], goal_cases)
    case (1 r)
    then show ?case
      by (cases r) (auto simp: ps_defs k_defs intro!: performs_keeps performs_intros ces_call_write
          intro: finalizer_writes(2) [OF _ refl _ assms refl])
  qed
  then show ?thesis unfolding ensureNamespaceFinalizer_def Let_def by (auto intro: performs_ret)
qed

lemma performs_delete_child:
  assumes "es_named W" and "child_name ces n" and "ns \<in> set (cet_ProvisionedNamespaces (ces_Status ces))"
  shows "performs (ces_call W ces) (deleteExternalSecret W n (om_Name (ces_Meta ces)) ns)"
  unfolding deleteExternalSecret_def
proof (rule keeps_performs [where Q = "\<lambda>_. True"], rule keeps_bind [OF keeps_es_get], goal_cases)
  case (1 r)
  with assms show ?case
    by (cases r) (auto simp: ps_defs k_defs es_named_def intro!: performs_keeps performs_intros ces_call_write)
qed

lemma performs_delete_in:
  assumes "es_named W" and "child_name ces n"
  shows "set nss \<subseteq> set (cet_ProvisionedNamespaces (ces_Status ces)) \<Longrightarrow>
    performs (ces_call W ces) (delete_in W n (om_Name (ces_Meta ces)) nss failed e)"
  by (induction nss arbitrary: failed e)
    (auto intro!: performs_intros performs_delete_child [OF assms])

text \<open>The child, from the old one or from nothing.\<close>

lemma mutate_child_is_child:
  assumes "cesref_law W" and "mutate_child W ces es = Inr es'" and "om_Name (es_Meta es) = ces_name ces"
    and "targeted W ces n" "ns_DeletionTimestamp n = None" "ns_Name n = om_Namespace (es_Meta es)"
  shows "child_of W ces es'" and "om_Namespace (es_Meta es') = om_Namespace (es_Meta es)"
    and "om_Name (es_Meta es') = om_Name (es_Meta es)"
    and "GetControllerOf (es_Meta es) = None \<or> isExternalSecretOwnedBy es (om_Name (ces_Meta ces))"
proof -
  let ?m = "(es_Meta es)\<lparr>om_Labels := chm_Labels (cep_ExternalSecretMetadata (ces_Spec ces)),
    om_Annotations := child_annotations ces\<rparr>"
  obtain m where m: "setCesRef W (ces_Meta ces) ?m = Inr m"
    and es': "es' = es\<lparr>es_Meta := m, es_Spec := cep_ExternalSecretSpec (ces_Spec ces)\<rparr>"
    using assms(2) by (auto simp: mutate_child_def split: sum.splits)
  with assms(1) obtain r where r: "GetControllerOf m = Some r" "group_kind r = ClusterExtSecretGroupKind"
      "owr_Name r = om_Name (ces_Meta ces)" "owr_UID r = om_UID (ces_Meta ces)" and b: "but_owners m = but_owners ?m"
    and c: "\<forall>r. GetControllerOf ?m = Some r \<longrightarrow> group_kind r = ClusterExtSecretGroupKind \<and> owr_Name r = om_Name (ces_Meta ces)"
    unfolding cesref_law_def by blast
  note f = but_owners_eqD [OF b]
  show "om_Namespace (es_Meta es') = om_Namespace (es_Meta es)" "om_Name (es_Meta es') = om_Name (es_Meta es)"
    using f by (simp_all add: es')
  have same: "GetControllerOf ?m = GetControllerOf (es_Meta es)" by (simp add: GetControllerOf_def)
  show "GetControllerOf (es_Meta es) = None \<or> isExternalSecretOwnedBy es (om_Name (ces_Meta ces))"
    using c unfolding same by (cases "GetControllerOf (es_Meta es)") (simp_all add: isExternalSecretOwnedBy_def)
  show "child_of W ces es'"
    using f r assms(3-6) by (auto simp: child_of_def es' isExternalSecretOwnedBy_def IsControlledBy_def)
qed

lemma mutate_child_cong:
  "ces_Spec ces' = ces_Spec ces \<Longrightarrow> ces_Meta ces' = ces_Meta ces \<Longrightarrow> mutate_child W ces' = mutate_child W ces"
  by (simp add: mutate_child_def child_annotations_def fun_eq_iff cong: sum.case_cong)

lemma performs_createOrUpdate:
  assumes laws: "cesref_law W" "es_named W" and same: "ces_Spec ces' = ces_Spec ces" "ces_Meta ces' = ces_Meta ces"
    and n: "targeted W ces n" "ns_DeletionTimestamp n = None"
  shows "performs (ces_call W ces) (createOrUpdateExternalSecret W ces' n (ces_name ces))"
proof -
  have create: "child_of W ces es" if "mutate_child W ces (empty_es (ns_Name n) (ces_name ces)
      (cep_ExternalSecretSpec (ces_Spec ces))) = Inr es" for es
    using mutate_child_is_child(1) [OF laws(1) that _ n] by (simp add: empty_es_def empty_meta_def)
  have upd: "child_of W ces es \<and> unowned W ces es"
    if "getES (esw W) h (ns_Name n) (ces_name ces) = Inr old" "mutate_child W ces old = Inr es" for h old es
  proof -
    have o: "om_Name (es_Meta old) = ces_name ces" "ns_Name n = om_Namespace (es_Meta old)"
      using laws(2) that(1) by (simp_all add: es_named_def)
    note m = mutate_child_is_child [OF laws(1) that(2) o(1) n o(2)]
    from that(1) m o show ?thesis unfolding unowned_def by auto
  qed
  show ?thesis
    unfolding createOrUpdateExternalSecret_def Let_def same mutate_child_cong [OF same]
  proof (rule performs_bind [OF performs_ensure_finalizer [OF n]], rule performs_case_option, rule_tac [2] performs_ret,
      rule keeps_performs [where Q = "\<lambda>_. True"], rule keeps_bind [OF keeps_es_get], goal_cases)
    case (1 f r)
    then show ?case
      by (cases r) (auto simp: ps_defs k_defs split: sum.split
          intro!: performs_keeps performs_intros ces_call_write dest: create upd)
  qed
qed

lemma report_same [simp]:
  "ces_Spec (upd_ces_status f ces) = ces_Spec ces" "ces_Meta (upd_ces_status f ces) = ces_Meta ces"
  "ces_Spec (report_failures failed ces) = ces_Spec ces" "ces_Meta (report_failures failed ces) = ces_Meta ces"
  by (simp_all add: upd_ces_status_def report_failures_def SetClusterExternalSecretCondition_def)

lemma provisioned_simps [simp]:
  "cet_ProvisionedNamespaces (ces_Status (report_failures failed ces)) = cet_ProvisionedNamespaces (ces_Status ces)"
  "ces_Status (upd_ces_status f ces) = f (ces_Status ces)"
  by (simp_all add: report_failures_def upd_ces_status_def SetClusterExternalSecretCondition_def)

lemma add_new_subset: "set (add_new acc ns) \<subseteq> set acc \<union> set ns"
  by (induction acc ns rule: add_new.induct) auto

lemma keeps_target_namespaces:
  "set sels \<subseteq> set (map name_selector (cep_Namespaces (ces_Spec ces)) @ ces_selectors ces) \<Longrightarrow>
   \<forall>n \<in> set acc. targeted W ces n \<Longrightarrow>
   keeps (ces_call W ces) (\<lambda>r. \<forall>ns. r = Inr ns \<longrightarrow> (\<forall>n \<in> set ns. targeted W ces n))
     (target_namespaces (envw W) sels acc)"
proof (induction sels arbitrary: acc)
  case (Cons sel sels)
  show ?case
  proof (cases "selectorOf (envw W) sel")
    case (Inr matches)
    have l: "keeps (ces_call W ces) (\<lambda>r. \<forall>items. r = Inr items \<longrightarrow> (\<exists>h. listNamespaces (envw W) h = Inr items))
        (k_list_namespaces (envw W))"
      unfolding keeps_def traces_def k_defs by auto
    have t: "targeted W ces n" if "listNamespaces (envw W) h = Inr items" "n \<in> set items" "matches (ns_Labels n)"
      for h items n
      using that Cons.prems(1) Inr unfolding targeted_def by (auto simp del: set_append)
    show ?thesis
      unfolding target_namespaces.simps Inr sum.case
    proof (rule keeps_bind [OF l], goal_cases)
      case (1 r)
      show ?case
      proof (cases r)
        case (Inr items)
        with 1 obtain h where h: "listNamespaces (envw W) h = Inr items" by blast
        have "\<forall>n \<in> set (add_new acc (filter (\<lambda>n. matches (ns_Labels n)) items)). targeted W ces n"
          using add_new_subset [of acc "filter (\<lambda>n. matches (ns_Labels n)) items"] Cons.prems(2) t [OF h] by auto
        with Inr Cons.IH Cons.prems(1) show ?thesis by simp
      qed (simp add: keeps_ret)
    qed
  qed (simp add: keeps_ret)
qed (simp add: keeps_ret)

lemma performs_provision:
  assumes "cesref_law W" "es_named W" and "ces_Spec ces' = ces_Spec ces" "ces_Meta ces' = ces_Meta ces"
    and "targeted W ces n"
  shows "performs (ces_call W ces) (provision W ces' (ces_name ces) n)"
  unfolding provision_def Let_def assms(4)
  by (intro performs_intros performs_remove_finalizer performs_createOrUpdate assms)
    (auto simp: es_defs intro!: performs_intros performs_createOrUpdate assms)

lemma performs_gather:
  assumes "cesref_law W" "es_named W" and "ces_Spec ces' = ces_Spec ces" "ces_Meta ces' = ces_Meta ces"
  shows "\<forall>n \<in> set ns. targeted W ces n \<Longrightarrow>
    performs (ces_call W ces) (gatherProvisionedNamespaces W ces' (ces_name ces) ns failed prov)"
  by (induction ns arbitrary: failed prov) (auto intro!: performs_intros performs_provision assms)

lemma keeps_provision_all:
  assumes "cesref_law W" "es_named W" and "ces_Spec ces' = ces_Spec ces" "ces_Meta ces' = ces_Meta ces"
    and "\<forall>n \<in> set ns. targeted W ces n"
    and "cet_ProvisionedNamespaces (ces_Status ces') = cet_ProvisionedNamespaces (ces_Status ces)"
  shows "keeps (ces_call W ces) (\<lambda>(r, c). ces_Spec c = ces_Spec ces \<and> ces_Meta c = ces_Meta ces)
    (provision_all W i ces' (ces_name ces) ns)"
proof -
  have d: "performs (ces_call W ces) (deleteOutdatedExternalSecrets W ns (ces_name ces) (om_Name (ces_Meta ces))
      (cet_ProvisionedNamespaces (ces_Status ces)))"
    unfolding deleteOutdatedExternalSecrets_def
    by (auto intro!: performs_intros performs_delete_in assms simp: child_name_def getRemovedNamespaces_def)
  show ?thesis
    unfolding provision_all_def Let_def assms(4,6)
    by (rule keeps_bind_performs [OF d])
      (use assms(3,4) in \<open>auto intro!: keeps_bind_performs performs_gather assms keeps_ret split: option.splits\<close>)
qed

lemma keeps_ces_reconcile:
  assumes "cesref_law W" "es_named W"
  shows "keeps (ces_call W ces) (\<lambda>(r, c). ces_Spec c = ces_Spec ces \<and> ces_Meta c = ces_Meta ces)
    (ces_reconcile W i ces)"
proof -
  have old: "keeps (ces_call W ces) (\<lambda>(e, c). ces_Spec c = ces_Spec ces \<and> ces_Meta c = ces_Meta ces
        \<and> cet_ProvisionedNamespaces (ces_Status c) = cet_ProvisionedNamespaces (ces_Status ces))
      (if cet_ExternalSecretName (ces_Status ces) \<noteq> [] \<and> cet_ExternalSecretName (ces_Status ces) \<noteq> ces_name ces
       then removeOldSecrets W ces (cet_ExternalSecretName (ces_Status ces)) else ret (None, ces))"
    unfolding removeOldSecrets_def
    by (auto intro!: keeps_if keeps_ret keeps_bind_performs performs_delete_in assms
        simp: child_name_def split: if_splits)
  show ?thesis
    unfolding ces_reconcile_def Let_def
  proof (rule keeps_bind [OF old], goal_cases)
    case (1 a)
    obtain e c where a: "a = (e, c)" by fastforce
    with 1 have c: "ces_Spec c = ces_Spec ces" "ces_Meta c = ces_Meta ces"
        "cet_ProvisionedNamespaces (ces_Status c) = cet_ProvisionedNamespaces (ces_Status ces)" by simp_all
    have t: "keeps (ces_call W ces) (\<lambda>r. \<forall>ns. r = Inr ns \<longrightarrow> (\<forall>n \<in> set ns. targeted W ces n))
        (GetTargetNamespaces (envw W) (cep_Namespaces (ces_Spec ces)) (ces_selectors ces))"
      unfolding GetTargetNamespaces_def by (rule keeps_target_namespaces) auto
    show ?case
      unfolding a prod.case
      by (auto split: option.split sum.split intro!: keeps_ret keeps_bind [OF t] keeps_provision_all assms
          simp: c upd_ces_status_def)
  qed
qed

lemma performs_ces_delete:
  assumes "es_named W" and "om_DeletionTimestamp (ces_Meta ces) \<noteq> None"
  shows "performs (ces_call W ces) (ces_delete W ces)"
proof -
  have n: "child_name ces (getExternalSecretName ces)" by (simp add: getExternalSecretName_def child_name_def)
  have c: "performs (ces_call W ces) (cleanupNamespaceResources W ces ns (getExternalSecretName ces))"
    if "ns \<in> set (cet_ProvisionedNamespaces (ces_Status ces))" for ns
    unfolding cleanupNamespaceResources_def k_defs
    by (auto intro!: performs_intros performs_remove_finalizer performs_delete_child assms n that
        split: sum.split option.split)
  have "set nss \<subseteq> set (cet_ProvisionedNamespaces (ces_Status ces)) \<Longrightarrow>
      performs (ces_call W ces) (cleanup_namespaces W ces (getExternalSecretName ces) nss acc)" for nss acc
    by (induction nss arbitrary: acc) (auto intro!: performs_intros c)
  then show ?thesis
    unfolding ces_delete_def cleanupExternalSecrets_def using assms(2)
    by (auto simp: ps_defs own_finalizer_def intro!: performs_intros ces_call_write)
qed

text \<open>
  C29: What a ClusterExternalSecret writes.  Apart from its status and its own finalizer, which it puts on itself
  and takes off when it is being deleted, a reconcile creates and updates only ExternalSecrets of its name
  and specification, controlled by it, in a namespace it selects that is not being deleted, and none that
  a controller of another group, kind or name has, the UID not being looked at; deletes only
  ExternalSecrets with a controller of its kind and name, of a name it uses and in a namespace it has
  provisioned; and changes nothing of a namespace but its own finalizer there, which it adds only to
  a namespace it selects.
\<close>

theorem ces_writes:
  assumes "cesref_law W" and "es_named W"
  shows "performs (\<lambda>c. quiet c \<or> (\<exists>h ces. getCES W h name = Inr ces \<and> ces_write W ces c)) (ces_Reconcile W i name)"
    (is "performs ?P _")
proof -
  have lift: "performs ?P m" if "getCES W h name = Inr ces" "performs (ces_call W ces) m" for h ces and m :: "'a io"
    by (rule performs_mono [OF that(2)]) (use that(1) in \<open>auto simp: ces_call_def\<close>)
  have g: "keeps ?P (\<lambda>r. \<forall>ces. r = Inr ces \<longrightarrow> (\<exists>h. getCES W h name = Inr ces)) (ces_get W name)"
    unfolding keeps_def traces_def ps_defs by auto
  show ?thesis
    unfolding ces_Reconcile_def
  proof (rule keeps_performs [where Q = "\<lambda>_. True"], rule keeps_bind [OF g], rule performs_keeps, goal_cases)
    case (1 r)
    show ?case
    proof (cases r)
      case (Inr ces)
      with 1 obtain h where h: "getCES W h name = Inr ces" by blast
      have run: "performs (ces_call W ces) (do {
          (r, ces') \<leftarrow> ces_reconcile W i ces;
          _ \<leftarrow> ps_write W (CStatusPatch (OCES ces'));
          ret r })"
        by (rule keeps_performs [where Q = "\<lambda>_. True"], rule keeps_bind [OF keeps_ces_reconcile [OF assms]])
          (auto simp: ps_defs k_defs intro!: performs_keeps performs_intros ces_call_write)
      have "performs (ces_call W ces) (ces_patch W ces')" if "own_finalizer ces ces'" for ces'
        unfolding ps_defs using that by (intro performs_ask ces_call_write) auto
      then have add: "performs (ces_call W ces) (do { (w, _) \<leftarrow> ces_patch W ces'; ret (no_requeue, w) })"
        if "own_finalizer ces ces'" for ces'
        using that by (auto intro!: performs_bind performs_ret)
      show ?thesis
        unfolding Inr sum.case
        by (intro performs_if lift [OF h] performs_ces_delete assms(2) run add) (simp_all add: own_finalizer_def)
    qed (simp add: performs_ret)
  qed
qed

section \<open>A namespace that is not selected any more\<close>

fun touches :: "string \<Rightarrow> Call \<Rightarrow> bool" where
  "touches ns (CUpdate (ONamespace n)) = (ns_Name n = ns)"
| "touches ns c = False"

lemma quiet_untouched: "quiet c \<Longrightarrow> \<not> touches ns c"
  by (cases "(ns, c)" rule: touches.cases) (auto simp: quiet_def)

definition namespaces_named :: "PsEnv \<Rightarrow> bool" where
  "namespaces_named W \<longleftrightarrow> (\<forall>h q n. getNamespace (envw W) h q = Inr n \<longrightarrow> ns_Name n = q)"

abbreviation (input) leaves :: "string \<Rightarrow> 'a io \<Rightarrow> bool" where
  "leaves ns m \<equiv> performs (\<lambda>c. \<not> touches ns c) m"

lemma leaves_finalizers:
  assumes "namespaces_named W" and "ns_Name n \<noteq> ns"
  shows "leaves ns (removeNamespaceFinalizer W n ces)" and "leaves ns (ensureNamespaceFinalizer W n ces)"
proof -
  have g: "keeps (\<lambda>c. \<not> touches ns c) (\<lambda>r. \<forall>n'. r = Inr n' \<longrightarrow> ns_Name n' \<noteq> ns) (k_get_namespace (envw W) (ns_Name n))"
    using assms unfolding keeps_def traces_def k_defs namespaces_named_def by auto
  have "leaves ns (updateNamespaceRemoveFinalizer W (ns_Name n) f)"
    and "leaves ns (addNamespaceFinalizer W (ns_Name n) f)" for f
    unfolding updateNamespaceRemoveFinalizer_def addNamespaceFinalizer_def
    by (rule keeps_performs [where Q = "\<lambda>_. True"], rule keeps_bind [OF g], rule performs_keeps,
        rule performs_case_sum, rule performs_ret, force simp: ps_defs k_defs intro!: performs_intros)+
  then show "leaves ns (removeNamespaceFinalizer W n ces)" and "leaves ns (ensureNamespaceFinalizer W n ces)"
    unfolding removeNamespaceFinalizer_def ensureNamespaceFinalizer_def Let_def by (auto intro: performs_ret)
qed

lemma leaves_delete: "leaves ns (deleteExternalSecret W esName cesName q)"
  unfolding deleteExternalSecret_def ps_defs k_defs es_defs by (intro performs_intros) simp_all

lemma leaves_delete_in: "leaves ns (delete_in W esName cesName nss failed e)"
  by (induction nss arbitrary: failed e) (auto intro!: performs_intros leaves_delete)

lemma leaves_provision:
  assumes "namespaces_named W" and "ns_Name n \<noteq> ns"
  shows "leaves ns (provision W ces esName n)"
proof -
  have "leaves ns (createOrUpdateExternalSecret W ces n esName)"
    unfolding createOrUpdateExternalSecret_def Let_def ps_defs k_defs es_defs
    by (intro performs_intros leaves_finalizers [OF assms]) simp_all
  then show ?thesis
    unfolding provision_def Let_def es_defs
    by (intro performs_intros leaves_finalizers [OF assms]) simp_all
qed

lemma keeps_gather:
  assumes "namespaces_named W"
  shows "\<forall>n \<in> set nss. ns_Name n \<noteq> ns \<Longrightarrow> ns \<notin> set prov \<Longrightarrow>
    keeps (\<lambda>c. \<not> touches ns c) (\<lambda>(failed, prov'). ns \<notin> set prov') (gatherProvisionedNamespaces W ces esName nss failed prov)"
  by (induction nss arbitrary: failed prov)
    (auto intro!: keeps_ret keeps_bind_performs leaves_provision [OF assms] split: sum.split)

lemma leaves_old:
  "keeps (\<lambda>c. \<not> touches ns c) (\<lambda>(e, c). cet_ProvisionedNamespaces (ces_Status c) = cet_ProvisionedNamespaces (ces_Status ces))
    (removeOldSecrets W ces n)"
  unfolding removeOldSecrets_def
  by (auto intro!: keeps_bind_performs leaves_delete_in keeps_ret
      simp: report_failures_def upd_ces_status_def SetClusterExternalSecretCondition_def split: if_splits)

text \<open>The namespace is not provisioned any more, or the run failed before it got to that.\<close>

definition drops :: "string \<Rightarrow> ClusterExternalSecret \<Rightarrow> outcome \<times> ClusterExternalSecret \<Rightarrow> bool" where
  "drops ns ces rc \<longleftrightarrow> ns \<notin> set (cet_ProvisionedNamespaces (ces_Status (snd rc)))
     \<or> cet_ProvisionedNamespaces (ces_Status (snd rc)) = cet_ProvisionedNamespaces (ces_Status ces)
       \<and> snd (fst rc) \<noteq> None"

lemma untargeted_reconcile:
  assumes "namespaces_named W" and "\<forall>n. targeted W ces n \<longrightarrow> ns_Name n \<noteq> ns"
  shows "keeps (\<lambda>c. \<not> touches ns c) (drops ns ces) (ces_reconcile W i ces)"
proof -
  have old: "keeps (\<lambda>c. \<not> touches ns c)
      (\<lambda>(e, c). cet_ProvisionedNamespaces (ces_Status c) = cet_ProvisionedNamespaces (ces_Status ces))
      (if cet_ExternalSecretName (ces_Status ces) \<noteq> [] \<and> cet_ExternalSecretName (ces_Status ces) \<noteq> ces_name ces
       then removeOldSecrets W ces (cet_ExternalSecretName (ces_Status ces)) else ret (None, ces))"
    by (intro keeps_if leaves_old keeps_ret) simp
  have t: "keeps (\<lambda>c. \<not> touches ns c) (\<lambda>r. \<forall>nss. r = Inr nss \<longrightarrow> (\<forall>n \<in> set nss. ns_Name n \<noteq> ns))
      (GetTargetNamespaces (envw W) (cep_Namespaces (ces_Spec ces)) (ces_selectors ces))"
  proof -
    have "performs quiet (target_namespaces E sels acc)" for E sels acc
      by (induction sels arbitrary: acc) (auto simp: k_defs intro!: performs_intros split: sum.split)
    then have "keeps (\<lambda>c. \<not> touches ns c) (\<lambda>_. True)
        (GetTargetNamespaces (envw W) (cep_Namespaces (ces_Spec ces)) (ces_selectors ces))"
      unfolding GetTargetNamespaces_def
      by (intro performs_keeps performs_mono [OF _ quiet_untouched])
    moreover have "keeps (ces_call W ces) (\<lambda>r. \<forall>ns. r = Inr ns \<longrightarrow> (\<forall>n \<in> set ns. targeted W ces n))
        (GetTargetNamespaces (envw W) (cep_Namespaces (ces_Spec ces)) (ces_selectors ces))"
      unfolding GetTargetNamespaces_def by (rule keeps_target_namespaces) auto
    ultimately show ?thesis
      using assms(2) unfolding keeps_def traces_def by (metis append_same_eq prod.inject)
  qed
  have all: "keeps (\<lambda>c. \<not> touches ns c) (\<lambda>(r, c). ns \<notin> set (cet_ProvisionedNamespaces (ces_Status c)))
      (provision_all W i' c esName nss)" if "\<forall>n \<in> set nss. ns_Name n \<noteq> ns" for i' c esName nss
    unfolding provision_all_def deleteOutdatedExternalSecrets_def Let_def
    by (rule keeps_bind_performs)
      (auto intro!: performs_bind performs_ret leaves_delete_in keeps_ret
        keeps_bind [OF keeps_gather [OF assms(1) that]] split: option.splits)
  show ?thesis
    unfolding ces_reconcile_def Let_def
  proof (rule keeps_bind [OF old], goal_cases)
    case (1 a)
    obtain e c where a: "a = (e, c)" by fastforce
    have all': "keeps (\<lambda>c. \<not> touches ns c) (drops ns ces) (provision_all W i' c' esName nss)"
      if "\<forall>n \<in> set nss. ns_Name n \<noteq> ns" for i' c' esName nss
      by (rule keeps_weaken [OF all [OF that]]) (auto simp: drops_def)
    show ?case
      using 1 unfolding a prod.case
      by (auto split: option.split sum.split intro!: keeps_ret keeps_bind [OF t] all' simp: drops_def [of _ _ "(_, _)"]; blast)
  qed
qed

text \<open>
  C31: A namespace that is no longer selected keeps the finalizer.  For such a namespace a reconcile that comes to
  its end drops the namespace from the provisioned ones without having updated it, and for a namespace that is not
  among the provisioned ones the deletion of the ClusterExternalSecret updates it neither: the
  finalizer that was put on it while it was selected stays, and it cannot be deleted.
\<close>

theorem ces_leaks_finalizer:
  assumes "namespaces_named W" and "\<forall>n. targeted W ces n \<longrightarrow> ns_Name n \<noteq> ns"
  shows "keeps (\<lambda>c. \<not> touches ns c) (drops ns ces) (ces_reconcile W i ces)
    \<and> (\<forall>ces'. ns \<notin> set (cet_ProvisionedNamespaces (ces_Status ces')) \<longrightarrow>
        performs (\<lambda>c. \<not> touches ns c) (ces_delete W ces'))"
proof (rule conjI [OF untargeted_reconcile [OF assms]], intro allI impI)
  fix ces' :: ClusterExternalSecret
  assume ns: "ns \<notin> set (cet_ProvisionedNamespaces (ces_Status ces'))"
  have c: "leaves ns (cleanupNamespaceResources W ces' q esName)" if "q \<noteq> ns" for q esName
  proof -
    have g: "keeps (\<lambda>c. \<not> touches ns c) (\<lambda>r. \<forall>n'. r = Inr n' \<longrightarrow> ns_Name n' \<noteq> ns) (k_get_namespace (envw W) q)"
      using assms(1) that unfolding keeps_def traces_def k_defs namespaces_named_def by auto
    show ?thesis
      unfolding cleanupNamespaceResources_def
      by (rule keeps_performs [where Q = "\<lambda>_. True"], rule keeps_bind [OF g])
        (auto split: sum.split option.split
          intro!: performs_keeps performs_intros leaves_delete leaves_finalizers [OF assms(1)])
  qed
  have "ns \<notin> set nss \<Longrightarrow> leaves ns (cleanup_namespaces W ces' esName nss acc)" for nss acc esName
    by (induction nss arbitrary: acc) (auto intro!: performs_intros c)
  with ns show "leaves ns (ces_delete W ces')"
    unfolding ces_delete_def cleanupExternalSecrets_def ps_defs by (auto intro!: performs_intros)
qed

section \<open>What the status says\<close>

text \<open>Names \<open>A\<close> provisioned and \<open>B\<close> failed among the namespaces \<open>nss\<close>, each at most once.\<close>

definition accounts :: "K8sNamespace list \<Rightarrow> failures \<Rightarrow> string list \<Rightarrow> failures \<times> string list \<Rightarrow> bool" where
  "accounts nss failed prov fp \<longleftrightarrow> (\<exists>A B. set (snd fp) = set prov \<union> A \<and> fst ` set (fst fp) = fst ` set failed \<union> B
     \<and> A \<inter> B = {} \<and> A \<union> B \<subseteq> ns_Name ` set nss
     \<and> (\<forall>n \<in> set nss. ns_DeletionTimestamp n = None \<longrightarrow> ns_Name n \<in> A \<union> B))"

lemma returns_provision:
  "returns (\<lambda>r. ns_DeletionTimestamp n = None \<longrightarrow> r \<noteq> Inr False) (provision W ces esName n)"
  unfolding provision_def Let_def
  by (intro returns_intros) (auto split: sum.split option.split intro!: returns_intros)

lemma returns_mono: "returns Q m \<Longrightarrow> (\<And>a. Q a \<Longrightarrow> R a) \<Longrightarrow> returns R m"
  by (simp add: returns_def)

lemma returns_gather:
  "distinct (map ns_Name nss) \<Longrightarrow>
   returns (accounts nss failed prov) (gatherProvisionedNamespaces W ces esName nss failed prov)"
proof (induction nss arbitrary: failed prov)
  case (Cons n nss)
  have failed: "accounts (n # nss) failed prov fp" if "accounts nss (mput (ns_Name n) e failed) prov fp" for fp e
  proof -
    from that obtain A B where "set (snd fp) = set prov \<union> A"
      "fst ` set (fst fp) = ({ns_Name n} \<union> fst ` set failed) \<union> B" "A \<inter> B = {}" "A \<union> B \<subseteq> ns_Name ` set nss"
      "\<forall>n \<in> set nss. ns_DeletionTimestamp n = None \<longrightarrow> ns_Name n \<in> A \<union> B"
      unfolding accounts_def dom_update by blast
    with Cons.prems show ?thesis
      unfolding accounts_def by (intro exI [of _ A] exI [of _ "insert (ns_Name n) B"]) auto
  qed
  have provd: "accounts (n # nss) failed prov fp" if "accounts nss failed (prov @ [ns_Name n]) fp" for fp
  proof -
    from that obtain A B where "set (snd fp) = set (prov @ [ns_Name n]) \<union> A"
      "fst ` set (fst fp) = fst ` set failed \<union> B" "A \<inter> B = {}" "A \<union> B \<subseteq> ns_Name ` set nss"
      "\<forall>n \<in> set nss. ns_DeletionTimestamp n = None \<longrightarrow> ns_Name n \<in> A \<union> B"
      unfolding accounts_def by blast
    with Cons.prems show ?thesis
      unfolding accounts_def by (intro exI [of _ "insert (ns_Name n) A"] exI [of _ B]) auto
  qed
  have gone: "accounts (n # nss) failed prov fp" if "accounts nss failed prov fp" "ns_DeletionTimestamp n \<noteq> None" for fp
  proof -
    from that(1) obtain A B where "set (snd fp) = set prov \<union> A" "fst ` set (fst fp) = fst ` set failed \<union> B"
      "A \<inter> B = {}" "A \<union> B \<subseteq> ns_Name ` set nss"
      "\<forall>n \<in> set nss. ns_DeletionTimestamp n = None \<longrightarrow> ns_Name n \<in> A \<union> B"
      unfolding accounts_def by blast
    with that(2) show ?thesis
      unfolding accounts_def by (intro exI [of _ A] exI [of _ B]) auto
  qed
  have rest: "returns (accounts nss f p) (gatherProvisionedNamespaces W ces esName nss f p)" for f p
    using Cons by simp
  show ?case
    unfolding gatherProvisionedNamespaces.simps
  proof (rule returns_bind_from [OF returns_provision [where n = n]], goal_cases)
    case (1 r)
    consider e where "r = Inl e" | "r = Inr True" | "r = Inr False" by (cases r) auto
    then show ?case
    proof cases
      case (1 e)
      then show ?thesis by (simp add: returns_mono [OF rest failed])
    next
      case 2
      then show ?thesis by (simp add: returns_mono [OF rest provd])
    next
      case 3
      with 1 have "ns_DeletionTimestamp n \<noteq> None" by blast
      with 3 show ?thesis by (simp add: returns_mono [OF rest gone])
    qed
  qed
qed (auto simp: accounts_def intro: returns_ret)

lemma returns_delete_in:
  "fst ` set failed \<subseteq> K \<Longrightarrow> set nss \<subseteq> K \<Longrightarrow>
   returns (\<lambda>fe. fst ` set (fst fe) \<subseteq> K) (delete_in W esName cesName nss failed e)"
proof (induction nss arbitrary: failed e)
  case (Cons ns nss)
  have "returns (\<lambda>fe. fst ` set (fst fe) \<subseteq> K) (delete_in W esName cesName nss (mput ns x failed) e')" for x e'
    by (rule Cons.IH) (use Cons.prems in \<open>simp_all add: dom_update\<close>)
  moreover have "returns (\<lambda>fe. fst ` set (fst fe) \<subseteq> K) (delete_in W esName cesName nss failed e)"
    by (rule Cons.IH) (use Cons.prems in simp_all)
  ultimately show ?case
    unfolding delete_in.simps by (intro returns_bind returns_option)
qed (simp add: returns_ret)

definition failed_names :: "ClusterExternalSecret \<Rightarrow> string list" where
  "failed_names ces = map nf_Namespace (cet_FailedNamespaces (ces_Status ces))"

lemma failed_names_report: "set (failed_names (report_failures failed ces)) = fst ` set failed
   \<and> sorted (failed_names (report_failures failed ces))"
  by (auto simp: failed_names_def report_failures_def upd_ces_status_def toNamespaceFailures_def image_image
      intro!: image_cong split: prod.splits)

definition ready :: "ClusterExternalSecret \<Rightarrow> bool" where
  "ready ces \<longleftrightarrow> filter (\<lambda>c. cec_Type c = ''Ready'') (cet_Conditions (ces_Status ces)) =
     [\<lparr>cec_Type = ''Ready'', cec_Status = ConditionTrue, cec_Message = []\<rparr>]"

lemma ready_report: "ready (report_failures failed ces) \<longleftrightarrow> failed = []"
  by (auto simp: ready_def report_failures_def upd_ces_status_def SetClusterExternalSecretCondition_def
      NewClusterExternalSecretCondition_def filter_filter)

text \<open>
  The namespaces \<open>nss\<close> in the status: live ones provisioned or failed and none both, both lists sorted.
\<close>

definition accounted :: "K8sNamespace list \<Rightarrow> ClusterExternalSecret \<Rightarrow> bool" where
  "accounted nss c \<longleftrightarrow> sorted (cet_ProvisionedNamespaces (ces_Status c)) \<and> sorted (failed_names c)
      \<and> set (cet_ProvisionedNamespaces (ces_Status c)) \<subseteq> ns_Name ` set nss
      \<and> set (cet_ProvisionedNamespaces (ces_Status c)) \<inter> set (failed_names c) = {}
      \<and> (\<forall>n \<in> set nss. ns_DeletionTimestamp n = None \<longrightarrow>
           ns_Name n \<in> set (cet_ProvisionedNamespaces (ces_Status c)) \<union> set (failed_names c))
      \<and> (ready c \<longleftrightarrow> failed_names c = [])"

text \<open>
  C30: The status accounts for every namespace.  After provisioning the namespaces \<open>nss\<close>, each of them that is not being
  deleted is listed either as provisioned or as failed and none as both, both lists are sorted,
  only namespaces of \<open>nss\<close> count as provisioned, and the resource is Ready exactly if none failed.
\<close>

theorem ces_status_accounts:
  assumes "distinct (map ns_Name nss)"
  shows "returns (\<lambda>(r, c). accounted nss c) (provision_all W i ces esName nss)"
proof -
  have old: "returns (\<lambda>failed0. fst ` set failed0 \<inter> ns_Name ` set nss = {})
      (deleteOutdatedExternalSecrets W nss esName cesName prov)" for cesName prov
    unfolding deleteOutdatedExternalSecrets_def
  proof (rule returns_bind_from [OF returns_delete_in [where K = "- ns_Name ` set nss"]], goal_cases)
    case (3 a)
    then have "fst ` set (fst a) \<inter> ns_Name ` set nss = {}" by blast
    then show ?case by (cases a) (simp add: returns_ret)
  qed (auto simp: getRemovedNamespaces_def)
  have q: "accounted nss (upd_ces_status (\<lambda>s. s\<lparr>cet_ProvisionedNamespaces := sort prov\<rparr>) (report_failures failed c))"
    if "accounts nss failed0 [] (failed, prov)" "fst ` set failed0 \<inter> ns_Name ` set nss = {}" for failed0 failed prov c
  proof -
    let ?c = "upd_ces_status (\<lambda>s. s\<lparr>cet_ProvisionedNamespaces := sort prov\<rparr>) (report_failures failed c)"
    have f: "failed_names ?c = failed_names (report_failures failed c)" "ready ?c = ready (report_failures failed c)"
      by (simp_all add: failed_names_def ready_def)
    have e: "failed = [] \<longleftrightarrow> failed_names (report_failures failed c) = []"
      using failed_names_report [of failed c] by (metis empty_is_image set_empty2)
    from that(1) obtain A B where "set prov = A" "fst ` set failed = fst ` set failed0 \<union> B" "A \<inter> B = {}"
      "A \<union> B \<subseteq> ns_Name ` set nss" "\<forall>n \<in> set nss. ns_DeletionTimestamp n = None \<longrightarrow> ns_Name n \<in> A \<union> B"
      unfolding accounts_def by auto
    with that(2) failed_names_report [of failed c] e show ?thesis
      by (auto simp: accounted_def f ready_report)
  qed
  show ?thesis
    unfolding provision_all_def Let_def
    by (rule returns_bind_from [OF old], rule returns_bind_from [OF returns_gather [OF assms]])
      (use q in \<open>auto intro!: returns_ret split: option.splits\<close>)
qed

section \<open>Examples\<close>

definition sample_owner :: "ObjectMeta \<Rightarrow> OwnerReference" where
  "sample_owner owner = \<lparr>owr_APIVersion = ''external-secrets.io/v1'', owr_Kind = ''ClusterExternalSecret'',
     owr_Name = om_Name owner, owr_UID = om_UID owner, owr_Controller = Some True\<rparr>"

definition sample_ces :: ClusterExternalSecret where
  "sample_ces = \<lparr>ces_Meta = sample_meta,
     ces_Spec = \<lparr>cep_ExternalSecretSpec = es_Spec sample_es, cep_ExternalSecretName = [],
       cep_ExternalSecretMetadata = \<lparr>chm_Annotations = [], chm_Labels = []\<rparr>, cep_NamespaceSelector = None,
       cep_NamespaceSelectors = [], cep_Namespaces = [''other''], cep_RefreshInterval = None\<rparr>,
     ces_Status = \<lparr>cet_ExternalSecretName = [], cet_FailedNamespaces = [], cet_ProvisionedNamespaces = [''app''],
       cet_Conditions = []\<rparr>\<rparr>"

definition sample_namespace :: K8sNamespace where
  "sample_namespace = \<lparr>ns_Name = ''other'', ns_Labels = [], ns_Finalizers = [], ns_DeletionTimestamp = None\<rparr>"

text \<open>
  A cluster with a ClusterExternalSecret, the namespace \<open>other\<close> that it selects, and in every namespace an
  ExternalSecret whose controller has its kind and name, but an older UID.
\<close>

definition provisioning_ces :: ClusterExternalSecret where
  "provisioning_ces = sample_ces\<lparr>ces_Meta := sample_meta\<lparr>om_UID := ''u-1'',
     om_Finalizers := [ClusterExternalSecretFinalizer]\<rparr>\<rparr>"

definition take_ref :: "ObjectMeta \<Rightarrow> ObjectMeta \<Rightarrow> err + ObjectMeta" where
  "take_ref owner m = (case GetControllerOf m of
       None \<Rightarrow> Inr (m\<lparr>om_OwnerReferences := [sample_owner owner]\<rparr>)
     | Some r \<Rightarrow> if group_kind r = ClusterExtSecretGroupKind \<and> owr_Name r = om_Name owner
         then Inr (m\<lparr>om_OwnerReferences := [sample_owner owner]\<rparr>) else Inl (ErrMsg ''already owned''))"

definition owning_world :: PsEnv where
  "owning_world = sample_ps_env\<lparr>
     esw := sample_es_env\<lparr>
       world := sample_env\<lparr>listNamespaces := (\<lambda>h. Inr [sample_namespace]), getNamespace := (\<lambda>h n. Inr sample_namespace)\<rparr>,
       getES := (\<lambda>h ns n. Inr (sample_es\<lparr>es_Meta := sample_meta\<lparr>om_Namespace := ns, om_Name := n,
         om_OwnerReferences := [(sample_owner sample_meta)\<lparr>owr_UID := ''u-0''\<rparr>]\<rparr>\<rparr>))\<rparr>,
     getCES := (\<lambda>h n. Inr provisioning_ces),
     setCesRef := take_ref\<rparr>"

lemma owning_world_laws: "cesref_law owning_world" "es_named owning_world"
proof -
  have set: "setCesRef owning_world = take_ref" by (simp add: owning_world_def)
  have kind: "group_kind (sample_owner m) = ClusterExtSecretGroupKind" for m by (simp add: sample_owner_def) code_simp
  have m': "m' = m\<lparr>om_OwnerReferences := [sample_owner owner]\<rparr>
      \<and> (\<forall>r. GetControllerOf m = Some r \<longrightarrow> group_kind r = ClusterExtSecretGroupKind \<and> owr_Name r = om_Name owner)"
    if "take_ref owner m = Inr m'" for owner m m'
    using that by (auto simp: take_ref_def split: option.splits if_splits)
  have ctl: "GetControllerOf (m\<lparr>om_OwnerReferences := [sample_owner owner]\<rparr>) = Some (sample_owner owner)" for m owner
    by (simp add: GetControllerOf_def sample_owner_def)
  have names: "owr_Name (sample_owner owner) = om_Name owner" "owr_UID (sample_owner owner) = om_UID owner" for owner
    by (simp_all add: sample_owner_def)
  show "cesref_law owning_world"
    unfolding cesref_law_def set
  proof (intro allI impI)
    fix owner m m'
    assume "take_ref owner m = Inr m'"
    from m' [OF this] show "but_owners m' = but_owners m
      \<and> (\<exists>r. GetControllerOf m' = Some r \<and> group_kind r = ClusterExtSecretGroupKind \<and> owr_Name r = om_Name owner
          \<and> owr_UID r = om_UID owner)
      \<and> (\<forall>r. GetControllerOf m = Some r \<longrightarrow> group_kind r = ClusterExtSecretGroupKind \<and> owr_Name r = om_Name owner)"
      using ctl kind names by (simp add: but_owners_def)
  qed
  show "es_named owning_world" by (auto simp: es_named_def owning_world_def)
qed

definition provisioning_run :: history where
  "provisioning_run = snd (run_state (ces_Reconcile owning_world hour ''db'') [])"

definition updates_es :: "Call \<Rightarrow> bool" where
  "updates_es c = (case c of CUpdate (OES es) \<Rightarrow> owr_UID (hd (om_OwnerReferences (es_Meta es))) = ''u-1'' | _ \<Rightarrow> False)"

definition deletes_es :: "Call \<Rightarrow> bool" where
  "deletes_es c = (case c of CDelete (OES es) \<Rightarrow> om_Namespace (es_Meta es) = ''app'' | _ \<Rightarrow> False)"

definition adds_finalizer :: "Call \<Rightarrow> bool" where
  "adds_finalizer c = (case c of CUpdate (ONamespace n) \<Rightarrow> ns_Finalizers n = [buildCESFinalizer ''db''] | _ \<Rightarrow> False)"

theorem ces_writes_example:
  "list_all (\<lambda>c. quiet c \<or> ces_write owning_world provisioning_ces c) provisioning_run
   \<and> list_ex updates_es provisioning_run \<and> list_ex deletes_es provisioning_run \<and> list_ex adds_finalizer provisioning_run"
proof (intro conjI)
  let ?P = "\<lambda>c. quiet c \<or> (\<exists>h ces. getCES owning_world h ''db'' = Inr ces \<and> ces_write owning_world ces c)"
  have "performs ?P (ces_Reconcile owning_world hour ''db'')" by (rule ces_writes [OF owning_world_laws])
  then obtain cs where "provisioning_run = cs @ []" "list_all ?P cs"
    unfolding performs_def provisioning_run_def by blast
  then have "list_all ?P provisioning_run" by simp
  moreover have "?P = (\<lambda>c. quiet c \<or> ces_write owning_world provisioning_ces c)"
    by (simp add: owning_world_def fun_eq_iff)
  ultimately show "list_all (\<lambda>c. quiet c \<or> ces_write owning_world provisioning_ces c) provisioning_run" by simp
  show "list_ex updates_es provisioning_run" by code_simp
  show "list_ex deletes_es provisioning_run" by code_simp
  show "list_ex adds_finalizer provisioning_run" by code_simp
qed

theorem ces_leaks_finalizer_example:
  "drops ''app'' sample_ces (fst (run_state (ces_reconcile sample_ps_env hour sample_ces) []))"
proof -
  have "namespaces_named sample_ps_env" "\<forall>n. targeted sample_ps_env sample_ces n \<longrightarrow> ns_Name n \<noteq> ''app''"
    by (simp_all add: namespaces_named_def targeted_def sample_ps_env_def sample_es_env_def sample_env_def)
  from ces_leaks_finalizer [OF this, of hour] show ?thesis
    unfolding keeps_def traces_def by (metis fst_conv)
qed

theorem ces_status_accounts_example:
  "accounted [sample_namespace] (snd (fst (run_state (provision_all sample_ps_env hour sample_ces ''db'' [sample_namespace]) [])))"
proof -
  have "distinct (map ns_Name [sample_namespace])" by simp
  from ces_status_accounts [OF this, of sample_ps_env hour sample_ces "''db''"] show ?thesis
    by (simp add: returns_def split_beta)
qed

end
