(* ===== verification/Cps_Controller.thy ===== *)
theory Cps_Controller
  imports Ces_Controller
begin

text \<open>
  The reconciler of ClusterPushSecret, \<open>pkg/controllers/clusterpushsecret\<close>: a PushSecret in every
  selected namespace.  What it shares with the controller of ClusterExternalSecrets, the removed
  namespaces and the list of failures, is used from there.
\<close>

section \<open>Conditions\<close>

text \<open>The zero time, which a condition without a transition time carries.\<close>

definition zero_time :: instant where "zero_time = - 62135596800 * second"

definition NewClusterPushSecretCondition :: "failures \<Rightarrow> SecretCondition" where
  "NewClusterPushSecretCondition failed =
     \<lparr>cond_Type = PushSecretReady,
      cond_Status = (if length failed = 0 then ConditionTrue else ConditionFalse),
      cond_Reason = [],
      cond_Message = (if length failed = 0 then [] else ''one or more namespaces failed''),
      cond_LastTransitionTime = zero_time\<rparr>"

definition upd_cps_status ::
  "(ClusterPushSecretStatus \<Rightarrow> ClusterPushSecretStatus) \<Rightarrow> ClusterPushSecret \<Rightarrow> ClusterPushSecret" where
  "upd_cps_status f cps = cps\<lparr>cps_Status := f (cps_Status cps)\<rparr>"

definition SetClusterPushSecretCondition :: "SecretCondition \<Rightarrow> ClusterPushSecret \<Rightarrow> ClusterPushSecret" where
  "SetClusterPushSecretCondition condition = upd_cps_status (\<lambda>s. s\<lparr>cpt_Conditions :=
     filterOutCondition (cpt_Conditions s) (cond_Type condition) @ [condition]\<rparr>)"

definition setClusterPushSecretCondition :: "SecretCondition \<Rightarrow> ClusterPushSecret \<Rightarrow> ClusterPushSecret" where
  "setClusterPushSecretCondition condition =
     upd_cps_status (\<lambda>s. s\<lparr>cpt_Conditions := put_condition (cpt_Conditions s) condition\<rparr>)"

definition cps_markAsFailed :: "PsEnv \<Rightarrow> string \<Rightarrow> ClusterPushSecret \<Rightarrow> ClusterPushSecret io" where
  "cps_markAsFailed W msg cps = do {
     t \<leftarrow> ps_now W;
     let cps' = setClusterPushSecretCondition
           (NewPushSecretCondition t PushSecretReady ConditionFalse ReasonErrored msg) cps;
     _ \<leftarrow> k_event ''Warning'' ReasonErrored msg;
     ret cps'
   }"

section \<open>The PushSecret of a namespace\<close>

definition isPushSecretOwnedBy :: "PushSecret \<Rightarrow> string \<Rightarrow> bool" where
  "isPushSecretOwnedBy ps cesName = (case GetControllerOf (ps_Meta ps) of
     None \<Rightarrow> False
   | Some owner \<Rightarrow> owr_APIVersion owner = ''external-secrets.io/v1alpha1''
       \<and> owr_Kind owner = ''ClusterPushSecret'' \<and> owr_Name owner = cesName)"

definition deletePushSecret :: "PsEnv \<Rightarrow> string \<Rightarrow> string \<Rightarrow> string \<Rightarrow> err option io" where
  "deletePushSecret W esName cesName namespace = do {
     g \<leftarrow> ps_get W namespace esName;
     case g of
       Inl e \<Rightarrow> ret (if is_not_found e then None else Some e)
     | Inr existingPs \<Rightarrow>
         if \<not> isPushSecretOwnedBy existingPs cesName then ret None
         else do {
           w \<leftarrow> ps_write W (CDelete (OPS existingPs));
           ret (case w of
             None \<Rightarrow> None
           | Some e \<Rightarrow> Some (ErrWrap ''external secret in non matching namespace could not be deleted'' e))
         }
   }"

definition mutate_push_child ::
  "PsEnv \<Rightarrow> ClusterPushSecret \<Rightarrow> PushSecret \<Rightarrow> err + PushSecret" where
  "mutate_push_child W cps ps =
     (case setCpsRef W (cps_Meta cps) ((ps_Meta ps)\<lparr>
             om_Labels := chm_Labels (cpp_PushSecretMetadata (cps_Spec cps)),
             om_Annotations := chm_Annotations (cpp_PushSecretMetadata (cps_Spec cps))\<rparr>) of
        Inl e \<Rightarrow> Inl (ErrFmt ''could not set the controller owner reference '' e [])
      | Inr m \<Rightarrow> Inr (ps\<lparr>ps_Meta := m, ps_Spec := cpp_PushSecretSpec (cps_Spec cps)\<rparr>))"

definition empty_ps :: "string \<Rightarrow> string \<Rightarrow> PushSecretSpec \<Rightarrow> PushSecret" where
  "empty_ps namespace name spec = \<lparr>ps_Kind = [], ps_Meta = empty_meta\<lparr>om_Namespace := namespace, om_Name := name\<rparr>,
     ps_Spec = spec, ps_Status = \<lparr>pst_RefreshTime = None, pst_SyncedResourceVersion = [],
       pst_SyncedPushSecrets = [], pst_Conditions = []\<rparr>\<rparr>"

definition createOrUpdatePushSecret ::
  "PsEnv \<Rightarrow> ClusterPushSecret \<Rightarrow> K8sNamespace \<Rightarrow> string \<Rightarrow> err option io" where
  "createOrUpdatePushSecret W cps namespace esName =
     (let wrapped = map_option (ErrWrap ''could not create or update push secret'') in do {
        g \<leftarrow> ps_get W (ns_Name namespace) esName;
        case g of
          Inl e \<Rightarrow>
            if \<not> is_not_found e then ret (wrapped (Some e))
            else (case mutate_push_child W cps
                (empty_ps (ns_Name namespace) esName (cpp_PushSecretSpec (cps_Spec cps))) of
                Inl m \<Rightarrow> ret (wrapped (Some m))
              | Inr ps \<Rightarrow> do {
                  w \<leftarrow> ps_write W (CCreate (OPS ps));
                  ret (wrapped w)
                })
        | Inr existing \<Rightarrow> (case mutate_push_child W cps existing of
            Inl m \<Rightarrow> ret (wrapped (Some m))
          | Inr ps \<Rightarrow>
              if samePS W existing ps then ret None
              else do {
                w \<leftarrow> ps_write W (CUpdate (OPS ps));
                ret (wrapped w)
              })
      })"

section \<open>The namespaces\<close>

fun delete_ps_in ::
  "PsEnv \<Rightarrow> string \<Rightarrow> string \<Rightarrow> string list \<Rightarrow> failures \<Rightarrow> err option \<Rightarrow> (failures \<times> err option) io" where
  "delete_ps_in W esName cesName [] failed lastErr = ret (failed, lastErr)"
| "delete_ps_in W esName cesName (ns # nss) failed lastErr = do {
     r \<leftarrow> deletePushSecret W esName cesName ns;
     case r of
       None \<Rightarrow> delete_ps_in W esName cesName nss failed lastErr
     | Some e \<Rightarrow> delete_ps_in W esName cesName nss (mput ns e failed) (Some e)
   }"

definition deleteOldPushSecrets ::
  "PsEnv \<Rightarrow> ClusterPushSecret \<Rightarrow> string \<Rightarrow> (err option \<times> ClusterPushSecret) io" where
  "deleteOldPushSecrets W cps esName =
     (let prevName = cpt_PushSecretName (cps_Status cps) in
      if prevName = esName then ret (None, cps)
      else do {
        (failed, lastErr) \<leftarrow> delete_ps_in W prevName (om_Name (cps_Meta cps))
          (cpt_ProvisionedNamespaces (cps_Status cps)) [] None;
        if length failed > 0 then do {
          cps' \<leftarrow> cps_markAsFailed W ''failed to delete push secret'' cps;
          ret (lastErr, upd_cps_status (\<lambda>s. s\<lparr>cpt_FailedNamespaces := toNamespaceFailures failed\<rparr>) cps')
        } else ret (None, cps)
      })"

definition provision_ps ::
  "PsEnv \<Rightarrow> ClusterPushSecret \<Rightarrow> string \<Rightarrow> K8sNamespace \<Rightarrow> err option io" where
  "provision_ps W cps esName namespace = do {
     g \<leftarrow> ps_get W (ns_Name namespace) esName;
     case g of
       Inl e \<Rightarrow> if is_not_found e then createOrUpdatePushSecret W cps namespace esName else ret (Some e)
     | Inr pushSecret \<Rightarrow>
         if isPushSecretOwnedBy pushSecret (om_Name (cps_Meta cps))
         then createOrUpdatePushSecret W cps namespace esName
         else ret (Some (ErrMsg ''push secret already exists in namespace''))
   }"

fun updateProvisionedNamespaces ::
  "PsEnv \<Rightarrow> ClusterPushSecret \<Rightarrow> string \<Rightarrow> K8sNamespace list \<Rightarrow> failures \<Rightarrow> string list
   \<Rightarrow> (failures \<times> string list) io" where
  "updateProvisionedNamespaces W cps esName [] failed provisioned = ret (failed, provisioned)"
| "updateProvisionedNamespaces W cps esName (namespace # nss) failed provisioned = do {
     r \<leftarrow> provision_ps W cps esName namespace;
     case r of
       Some e \<Rightarrow> updateProvisionedNamespaces W cps esName nss (mput (ns_Name namespace) e failed) provisioned
     | None \<Rightarrow> updateProvisionedNamespaces W cps esName nss failed (provisioned @ [ns_Name namespace])
   }"

section \<open>The reconciler\<close>

definition cps_name :: "ClusterPushSecret \<Rightarrow> string" where
  "cps_name cps = (if cpp_PushSecretName (cps_Spec cps) = [] then om_Name (cps_Meta cps)
     else cpp_PushSecretName (cps_Spec cps))"

definition cps_provision_all ::
  "PsEnv \<Rightarrow> duration \<Rightarrow> ClusterPushSecret \<Rightarrow> string \<Rightarrow> K8sNamespace list
   \<Rightarrow> (outcome \<times> ClusterPushSecret) io" where
  "cps_provision_all W refreshInt cps esName namespaces = do {
     (failed0, _) \<leftarrow> delete_ps_in W esName (om_Name (cps_Meta cps))
       (getRemovedNamespaces namespaces (cpt_ProvisionedNamespaces (cps_Status cps))) [] None;
     (failed, provisioned) \<leftarrow> updateProvisionedNamespaces W cps esName namespaces failed0 [];
     ret ((requeue_after refreshInt, None),
       upd_cps_status (\<lambda>s. s\<lparr>cpt_FailedNamespaces := toNamespaceFailures failed,
           cpt_ProvisionedNamespaces := sort provisioned\<rparr>)
         (SetClusterPushSecretCondition (NewClusterPushSecretCondition failed) cps))
   }"

definition cps_reconcile ::
  "PsEnv \<Rightarrow> duration \<Rightarrow> ClusterPushSecret \<Rightarrow> (outcome \<times> ClusterPushSecret) io" where
  "cps_reconcile W RequeueInterval cps =
     (let refreshInt = (case cpp_RefreshInterval (cps_Spec cps) of None \<Rightarrow> RequeueInterval | Some d \<Rightarrow> d);
          esName = cps_name cps in do {
        (o1, cps1) \<leftarrow> deleteOldPushSecrets W cps esName;
        case o1 of
          Some e \<Rightarrow> ret ((no_requeue, Some e), cps1)
        | None \<Rightarrow>
            (let cps2 = upd_cps_status (\<lambda>s. s\<lparr>cpt_PushSecretName := esName\<rparr>) cps1 in do {
               n \<leftarrow> GetTargetNamespaces (envw W) [] (cpp_NamespaceSelectors (cps_Spec cps));
               case n of
                 Inl e \<Rightarrow> do {
                   cps3 \<leftarrow> cps_markAsFailed W ''failed to get target Namespaces'' cps2;
                   ret ((no_requeue, Some e), cps3)
                 }
               | Inr namespaces \<Rightarrow> cps_provision_all W refreshInt cps2 esName namespaces
             })
      })"

definition cps_Reconcile :: "PsEnv \<Rightarrow> duration \<Rightarrow> string \<Rightarrow> outcome io" where
  "cps_Reconcile W RequeueInterval name = do {
     g \<leftarrow> cps_get W name;
     case g of
       Inl e \<Rightarrow> ret (no_requeue, ignore_not_found e)
     | Inr cps \<Rightarrow>
         if om_DeletionTimestamp (cps_Meta cps) \<noteq> None then ret (no_requeue, None)
         else do {
           (r, cps') \<leftarrow> cps_reconcile W RequeueInterval cps;
           _ \<leftarrow> ps_write W (CStatusPatch (OCPS cps'));
           ret r
         }
   }"

definition cps_findObjectsForNamespace :: "PsEnv \<Rightarrow> K8sNamespace \<Rightarrow> (string \<times> string) list io" where
  "cps_findObjectsForNamespace W namespace = do {
     r \<leftarrow> cps_list W;
     ret (case r of
       Inl _ \<Rightarrow> []
     | Inr items \<Rightarrow> map (\<lambda>cps. (om_Name (cps_Meta cps), om_Namespace (cps_Meta cps)))
         (filter (\<lambda>cps. any_matches (envw W) (cpp_NamespaceSelectors (cps_Spec cps)) (ns_Labels namespace))
           items))
   }"

end
