(* ===== verification/Ss_Controller.thy ===== *)
theory Ss_Controller
  imports Ps_World
begin

text \<open>
  The reconcilers of SecretStore and ClusterSecretStore:
  \<open>pkg/controllers/secretstore/common.go\<close>, \<open>util.go\<close>, \<open>secretstore_controller.go\<close> and
  \<open>clustersecretstore_controller.go\<close>.  A store is validated through a client of its provider; a
  finalizer holds it while PushSecrets that delete what they pushed refer to it.  The store is passed
  by pointer, so the parts return it as it is in memory; the deferred function writes its status.
\<close>

record SsReconciler =
  ssc_ControllerClass :: string
  ssc_RequeueInterval :: duration
  ssc_PushSecretEnabled :: bool

definition secretStoreFinalizer :: string where
  "secretStoreFinalizer = ''secretstore.externalsecrets.io/finalizer''"

definition errValidationUnknown :: err where
  "errValidationUnknown = Sentinel ''could not determine validation status''"

section \<open>References from PushSecrets\<close>

definition storeMatchesRef :: "Env \<Rightarrow> EsStore \<Rightarrow> PushSecretStoreRef \<Rightarrow> bool" where
  "storeMatchesRef E store ref =
     (if psr_Kind ref = gs_Kind store \<or> (psr_Kind ref = []
           \<and> (gs_Kind store = SecretStoreKind \<or> gs_Kind store = ClusterSecretStoreKind)) then
        (if psr_Name ref = om_Name (gs_Meta store) then True
         else (case psr_LabelSelector ref of
             None \<Rightarrow> False
           | Some labels \<Rightarrow> (case selectorOf E labels of
               Inl _ \<Rightarrow> False
             | Inr matches \<Rightarrow> matches (om_Labels (gs_Meta store)))))
      else False)"

definition synced_key :: "EsStore \<Rightarrow> string" where
  "synced_key store = gs_Kind store @ ''/'' @ om_Name (gs_Meta store)"

definition shouldReconcileSecretStoreForPushSecret :: "Env \<Rightarrow> EsStore \<Rightarrow> PushSecret \<Rightarrow> bool" where
  "shouldReconcileSecretStoreForPushSecret E store ps =
     (if mget (pst_SyncedPushSecrets (ps_Status ps)) (synced_key store) \<noteq> None then True
      else list_ex (storeMatchesRef E store) (psp_SecretStoreRefs (ps_Spec ps)))"

text \<open>The namespace the PushSecrets of a store are looked for in; empty for all.\<close>

definition list_namespace :: "EsStore \<Rightarrow> string" where
  "list_namespace store = (if gs_Kind store = SecretStoreKind then om_Namespace (gs_Meta store) else [])"

definition hasSyncedPushSecrets :: "PsEnv \<Rightarrow> EsStore \<Rightarrow> (err + bool) io" where
  "hasSyncedPushSecrets W store = do {
     r \<leftarrow> ps_list_by_store W (list_namespace store) (synced_key store);
     ret (case r of Inl e \<Rightarrow> Inl e | Inr items \<Rightarrow> Inr (length items > 0))
   }"

definition hasUnsyncedPushSecretRefs :: "PsEnv \<Rightarrow> EsStore \<Rightarrow> (err + bool) io" where
  "hasUnsyncedPushSecretRefs W store = do {
     r \<leftarrow> ps_list_by_policy W (list_namespace store) PushSecretDeletionPolicyDelete;
     ret (case r of
       Inl e \<Rightarrow> Inl e
     | Inr items \<Rightarrow> Inr (list_ex (\<lambda>ps. list_ex (storeMatchesRef (envw W) store)
           (psp_SecretStoreRefs (ps_Spec ps))) items))
   }"

definition hasPushSecretsWithDeletePolicy :: "PsEnv \<Rightarrow> EsStore \<Rightarrow> (err + bool) io" where
  "hasPushSecretsWithDeletePolicy W store = do {
     r \<leftarrow> hasSyncedPushSecrets W store;
     case r of
       Inl e \<Rightarrow> ret (Inl (ErrWrap ''failed to check for synced push secrets'' e))
     | Inr True \<Rightarrow> ret (Inr True)
     | Inr False \<Rightarrow> do {
         u \<leftarrow> hasUnsyncedPushSecretRefs W store;
         ret (case u of
           Inl e \<Rightarrow> Inl (ErrWrap ''failed to check for unsynced push secret refs'' e)
         | Inr found \<Rightarrow> Inr found)
       }
   }"

definition findStoresForPushSecret :: "PsEnv \<Rightarrow> PushSecret \<Rightarrow> bool \<Rightarrow> (string \<times> string) list io" where
  "findStoresForPushSecret W ps isClusterScoped = do {
     r \<leftarrow> (if isClusterScoped then ps_list_cstores W
          else ps_list_stores W (om_Namespace (ps_Meta ps)));
     ret (case r of
       Inl _ \<Rightarrow> []
     | Inr stores \<Rightarrow> map (\<lambda>store. (om_Name (gs_Meta store),
           if isClusterScoped then [] else om_Namespace (gs_Meta store)))
         (filter (\<lambda>store. shouldReconcileSecretStoreForPushSecret (envw W) store ps) stores))
   }"

section \<open>The finalizer\<close>

definition set_finalizers :: "string list \<Rightarrow> EsStore \<Rightarrow> EsStore" where
  "set_finalizers fs store = store\<lparr>gs_Meta := (gs_Meta store)\<lparr>om_Finalizers := fs\<rparr>\<rparr>"

definition AddFinalizer :: "EsStore \<Rightarrow> bool \<times> EsStore" where
  "AddFinalizer store = (let fs = om_Finalizers (gs_Meta store) in
     if secretStoreFinalizer \<in> set fs then (False, store)
     else (True, set_finalizers (fs @ [secretStoreFinalizer]) store))"

definition RemoveFinalizer :: "EsStore \<Rightarrow> bool \<times> EsStore" where
  "RemoveFinalizer store = (let fs = om_Finalizers (gs_Meta store) in
     if secretStoreFinalizer \<in> set fs
     then (True, set_finalizers (filter (\<lambda>f. f \<noteq> secretStoreFinalizer) fs) store)
     else (False, store))"

definition handleFinalizer :: "PsEnv \<Rightarrow> EsStore \<Rightarrow> (err + bool \<times> EsStore) io" where
  "handleFinalizer W store = do {
     r \<leftarrow> hasPushSecretsWithDeletePolicy W store;
     ret (case r of
       Inl e \<Rightarrow> Inl (ErrWrap ''failed to check PushSecrets'' e)
     | Inr hasPushSecrets \<Rightarrow> Inr
         (if om_DeletionTimestamp (gs_Meta store) \<noteq> None then
            (if hasPushSecrets then (False, store) else RemoveFinalizer store)
          else if hasPushSecrets then AddFinalizer store
          else RemoveFinalizer store))
   }"

section \<open>Validation\<close>

definition SetStoreCondition :: "EsStore \<Rightarrow> SecretCondition \<Rightarrow> EsStore" where
  "SetStoreCondition store condition =
     store\<lparr>eso_Conditions := put_condition (eso_Conditions store) condition\<rparr>"

definition store_condition ::
  "PsEnv \<Rightarrow> EsStore \<Rightarrow> string \<Rightarrow> string \<Rightarrow> string \<Rightarrow> EsStore io" where
  "store_condition W store status reason message = do {
     t \<leftarrow> ps_now W;
     ret (SetStoreCondition store \<lparr>cond_Type = SecretStoreReady, cond_Status = status,
       cond_Reason = reason, cond_Message = message, cond_LastTransitionTime = t\<rparr>)
   }"

definition check_client :: "PsEnv \<Rightarrow> EsStore \<Rightarrow> EsSecretsClient \<Rightarrow> (err option \<times> EsStore) io" where
  "check_client W store cl = do {
     (validationResult, verr) \<leftarrow> sc_Validate cl;
     case verr of
       None \<Rightarrow> ret (None, store)
     | Some e \<Rightarrow>
         if validationResult = ValidationResultUnknown then do {
           store' \<leftarrow> store_condition W store ConditionTrue ''ValidationUnknown''
             ''could not determine validation status'';
           _ \<leftarrow> k_event ''Warning'' ''ValidationUnknown'' (err_string e);
           ret (Some errValidationUnknown, store')
         } else do {
           store' \<leftarrow> store_condition W store ConditionFalse ''InvalidProviderConfig'' ''unable to validate store'';
           _ \<leftarrow> k_event ''Warning'' ''InvalidProviderConfig'' (err_string e);
           ret (Some (ErrWrap ''could not validate provider'' e), store')
         }
   }"

definition ss_validateStore ::
  "PsEnv \<Rightarrow> string \<Rightarrow> string \<Rightarrow> EsStore \<Rightarrow> (err option \<times> EsStore) io" where
  "ss_validateStore W namespace controllerClass store = do {
     (c, m) \<leftarrow> GetFromStore (esw W) (NewManager controllerClass False) store namespace;
     r \<leftarrow> (case c of
         Inl e \<Rightarrow> do {
           store' \<leftarrow> store_condition W store ConditionFalse ''InvalidProviderConfig'' ''unable to create client'';
           _ \<leftarrow> k_event ''Warning'' ''InvalidProviderConfig'' (err_string e);
           ret (Some (ErrWrap ''could not get provider client'' e), store')
         }
       | Inr cl \<Rightarrow> check_client W store cl);
     _ \<leftarrow> cm_Close m;
     ret r
   }"

section \<open>The reconciler\<close>

definition warn_maintenance :: "EsStore \<Rightarrow> string \<Rightarrow> unit io" where
  "warn_maintenance store isMaintained =
     (if mget (om_Annotations (gs_Meta store)) ''external-secrets.io/ignore-maintenance-checks'' \<noteq> None
      then ret ()
      else if isMaintained = ''NotMaintained'' then k_event ''Warning'' ''StoreUnmaintained''
        (''store isn'' @ [CHR 0x27] @ ''t currently maintained. Please plan and prepare accordingly.'')
      else if isMaintained = ''Deprecated'' then k_event ''Warning'' ''StoreDeprecated''
        ''store is deprecated and will be removed on the next minor release. Please plan and prepare accordingly.''
      else ret ())"

text \<open>What follows a validation without an error.\<close>

definition store_valid :: "PsEnv \<Rightarrow> EsStore \<Rightarrow> duration \<Rightarrow> (outcome \<times> EsStore) io" where
  "store_valid W store requeueInterval = (case GetProvider (esw W) store of
     Inl e \<Rightarrow> ret ((no_requeue, Some e), store)
   | Inr storeProvider \<Rightarrow> (case GetMaintenanceStatus (esw W) store of
       Inl e \<Rightarrow> ret ((no_requeue, Some e), store)
     | Inr isMaintained \<Rightarrow> do {
         _ \<leftarrow> warn_maintenance store isMaintained;
         let store1 = store\<lparr>eso_Capabilities := epr_Capabilities storeProvider\<rparr>;
         _ \<leftarrow> k_event ''Normal'' ''Valid'' ''store validated'';
         store2 \<leftarrow> store_condition W store1 ConditionTrue ''Valid'' ''store validated'';
         ret ((requeue_after requeueInterval, None), store2)
       }))"

definition validate_and_report ::
  "PsEnv \<Rightarrow> SsReconciler \<Rightarrow> string \<Rightarrow> EsStore \<Rightarrow> duration \<Rightarrow> (outcome \<times> EsStore) io" where
  "validate_and_report W R namespace store requeueInterval = do {
     (verr, store1) \<leftarrow> ss_validateStore W namespace (ssc_ControllerClass R) store;
     case verr of
       Some e \<Rightarrow>
         if errors_is e errValidationUnknown then ret ((requeue_after requeueInterval, None), store1)
         else ret ((no_requeue, Some e), store1)
     | None \<Rightarrow> store_valid W store1 requeueInterval
   }"

definition get_current :: "PsEnv \<Rightarrow> string \<Rightarrow> string \<Rightarrow> string \<Rightarrow> (err + EsStore) io" where
  "get_current W kind namespace name = (if kind = ClusterSecretStoreKind then es_get_cstore (esw W) name
     else es_get_store (esw W) namespace name)"

text \<open>The deferred patch is left out when the store is gone or was replaced; its error is logged.\<close>

definition with_store_status ::
  "PsEnv \<Rightarrow> string \<Rightarrow> string \<Rightarrow> EsStore \<Rightarrow> (outcome \<times> EsStore) io \<Rightarrow> outcome io" where
  "with_store_status W namespace name store body = do {
     (r, store') \<leftarrow> body;
     g \<leftarrow> get_current W (gs_Kind store) namespace name;
     case g of
       Inl _ \<Rightarrow> ret r
     | Inr current \<Rightarrow>
         if om_UID (gs_Meta current) \<noteq> om_UID (gs_Meta store) then ret r
         else do {
           _ \<leftarrow> ps_write W (CStatusPatch (OEsStore store'));
           ret r
         }
   }"

definition requeue_interval :: "SsReconciler \<Rightarrow> EsStore \<Rightarrow> duration" where
  "requeue_interval R store = (if eso_RefreshInterval store \<noteq> 0 then second * eso_RefreshInterval store
     else ssc_RequeueInterval R)"

definition ss_reconcile :: "PsEnv \<Rightarrow> SsReconciler \<Rightarrow> string \<Rightarrow> string \<Rightarrow> EsStore \<Rightarrow> outcome io" where
  "ss_reconcile W R namespace name ss =
     (if \<not> ShouldProcessStore ss (ssc_ControllerClass R) then ret (no_requeue, None)
      else do {
        f \<leftarrow> (if ssc_PushSecretEnabled R then handleFinalizer W ss else ret (Inr (False, ss)));
        case f of
          Inl e \<Rightarrow> ret (no_requeue, Some e)
        | Inr (finalizersUpdated, ss1) \<Rightarrow> do {
            (w, ss2) \<leftarrow> (if finalizersUpdated then store_update W ss1 else ret (None, ss1));
            case w of
              Some e \<Rightarrow> ret (no_requeue, Some e)
            | None \<Rightarrow> with_store_status W namespace name ss2
                (validate_and_report W R namespace ss2 (requeue_interval R ss2))
          }
      })"

definition ss_Reconcile :: "PsEnv \<Rightarrow> SsReconciler \<Rightarrow> string \<Rightarrow> string \<Rightarrow> outcome io" where
  "ss_Reconcile W R namespace name = do {
     r \<leftarrow> es_get_store (esw W) namespace name;
     case r of
       Inl e \<Rightarrow> ret (no_requeue, ignore_not_found e)
     | Inr ss \<Rightarrow> ss_reconcile W R namespace name ss
   }"

definition css_Reconcile :: "PsEnv \<Rightarrow> SsReconciler \<Rightarrow> string \<Rightarrow> outcome io" where
  "css_Reconcile W R name = do {
     r \<leftarrow> es_get_cstore (esw W) name;
     case r of
       Inl e \<Rightarrow> ret (no_requeue, ignore_not_found e)
     | Inr css \<Rightarrow> ss_reconcile W R [] name css
   }"

end
