(* ===== verification/Ss_Laws.thy ===== *)
theory Ss_Laws
  imports Ss_Controller Ps_Writes
begin

text \<open>
  What a reconcile of a SecretStore or ClusterSecretStore writes, and that the store is held while a
  PushSecret still has something to delete through it.
\<close>

section \<open>Validation and status\<close>

definition same_meta :: "EsStore \<Rightarrow> EsStore \<Rightarrow> bool" where
  "same_meta store store' \<longleftrightarrow> gs_Meta store' = gs_Meta store \<and> gs_Kind store' = gs_Kind store"

lemma keeps_store_condition:
  "same_meta store0 store \<Longrightarrow> keeps quiet (same_meta store0) (store_condition W store a b c)"
  unfolding store_condition_def ps_now_def
  by (intro keeps_bind_performs keeps_intros performs_intros)
    (simp add: same_meta_def SetStoreCondition_def)

lemma keeps_quiet_event: "keeps quiet (\<lambda>_. True) (k_event a b c)"
  unfolding k_event_def by (intro keeps_intros) (simp_all add: quiet_def)

context push_sources
begin

lemma keeps_check_client:
  assumes "es_quiet_client cl"
  shows "keeps quiet (\<lambda>r. same_meta store (snd r)) (check_client W store cl)"
proof -
  have v: "performs quiet (sc_Validate cl)" using assms by (simp add: es_quiet_client_def)
  show ?thesis
    unfolding check_client_def
    by (intro keeps_bind_performs [OF v] keeps_intros keeps_bind [OF keeps_store_condition]
        keeps_bind [OF keeps_quiet_event]) (simp_all add: same_meta_def)
qed

lemma keeps_validateStore:
  "keeps quiet (\<lambda>r. same_meta store (snd r)) (ss_validateStore W ns class store)"
  unfolding ss_validateStore_def
proof (rule keeps_bind [OF keeps_GetFromStore [OF quiet_NewManager]], goal_cases)
  case (1 x)
  show ?case
  proof (cases x)
    case (Pair c m)
    with 1 have m: "quiet_manager m" and c: "\<And>cl. c = Inr cl \<Longrightarrow> es_quiet_client cl"
      by (simp_all add: fetched_ok_def)
    show ?thesis
      unfolding Pair
      by (simp only: prod.case, rule keeps_bind [where Q = "\<lambda>r. same_meta store (snd r)"],
          intro keeps_intros keeps_bind [OF keeps_store_condition] keeps_bind [OF keeps_quiet_event])
        (auto simp: same_meta_def c intro!: keeps_check_client [unfolded same_meta_def] keeps_bind_performs
          performs_cm_Close m keeps_intros)
  qed
qed

lemma keeps_store_valid: "keeps quiet (\<lambda>r. same_meta store (snd r)) (store_valid W store d)"
  unfolding store_valid_def warn_maintenance_def
  by (intro keeps_intros keeps_bind [OF keeps_store_condition] keeps_bind [OF keeps_quiet_event]
      keeps_bind [where Q = "\<lambda>_. True"] keeps_quiet_event) (simp_all add: same_meta_def)

lemma keeps_validate_and_report:
  "keeps quiet (\<lambda>r. same_meta store (snd r)) (validate_and_report W R ns store d)"
  unfolding validate_and_report_def
proof (rule keeps_bind [OF keeps_validateStore], goal_cases)
  case (1 a)
  then show ?case
    by (cases a) (auto simp: same_meta_def
        intro!: keeps_intros keeps_store_valid [THEN keeps_weaken] split: option.split)
qed

end

section \<open>Which stores are held\<close>

definition with_finalizer_of :: "EsStore \<Rightarrow> EsStore" where
  "with_finalizer_of store = snd (AddFinalizer store)"

definition without_finalizer_of :: "EsStore \<Rightarrow> EsStore" where
  "without_finalizer_of store = snd (RemoveFinalizer store)"

text \<open>Some PushSecret was found that pushed to the store or is to delete what it pushes to it; or none was.\<close>

definition needed :: "PsEnv \<Rightarrow> EsStore \<Rightarrow> bool" where
  "needed W store \<longleftrightarrow>
     (\<exists>h items. listPSByStore W h (list_namespace store) (synced_key store) = Inr items \<and> items \<noteq> [])
     \<or> (\<exists>h items. listPSByPolicy W h (list_namespace store) PushSecretDeletionPolicyDelete = Inr items
          \<and> (\<exists>ps \<in> set items. list_ex (storeMatchesRef (envw W) store) (psp_SecretStoreRefs (ps_Spec ps))))"

definition unneeded :: "PsEnv \<Rightarrow> EsStore \<Rightarrow> bool" where
  "unneeded W store \<longleftrightarrow>
     (\<exists>h. listPSByStore W h (list_namespace store) (synced_key store) = Inr [])
     \<and> (\<exists>h items. listPSByPolicy W h (list_namespace store) PushSecretDeletionPolicyDelete = Inr items
          \<and> \<not> (\<exists>ps \<in> set items. list_ex (storeMatchesRef (envw W) store) (psp_SecretStoreRefs (ps_Spec ps))))"

lemma keeps_needed:
  "keeps quiet (\<lambda>r. \<forall>b. r = Inr b \<longrightarrow> (if b then needed W store else unneeded W store))
     (hasPushSecretsWithDeletePolicy W store)"
  unfolding keeps_def
proof (rule tracesI)
  fix h
  let ?c = "CList ''PushSecret''"
  have q: "quiet ?c" by (simp add: quiet_def)
  show "\<exists>a cs. run_state (hasPushSecretsWithDeletePolicy W store) h = (a, cs @ h)
      \<and> list_all quiet cs \<and> (\<forall>b. a = Inr b \<longrightarrow> (if b then needed W store else unneeded W store))"
  proof (cases "listPSByStore W (?c # h) (list_namespace store) (synced_key store)")
    case (Inl e)
    with q show ?thesis
      by (intro exI [of _ "Inl (ErrWrap ''failed to check for synced push secrets'' e)"] exI [of _ "[?c]"])
        (simp add: hasPushSecretsWithDeletePolicy_def hasSyncedPushSecrets_def ps_list_by_store_def)
  next
    case (Inr items)
    note synced = Inr
    show ?thesis
    proof (cases items)
      case (Cons ps pss)
      with synced have "needed W store" unfolding needed_def by blast
      with q synced Cons show ?thesis
        by (intro exI [of _ "Inr True"] exI [of _ "[?c]"])
          (simp add: hasPushSecretsWithDeletePolicy_def hasSyncedPushSecrets_def ps_list_by_store_def)
    next
      case Nil
      define b where "b refs \<longleftrightarrow> list_ex (\<lambda>ps. list_ex (storeMatchesRef (envw W) store)
        (psp_SecretStoreRefs (ps_Spec ps))) refs" for refs :: "PushSecret list"
      have run: "run_state (hasPushSecretsWithDeletePolicy W store) h =
          (case listPSByPolicy W (?c # ?c # h) (list_namespace store) PushSecretDeletionPolicyDelete of
             Inl e \<Rightarrow> Inl (ErrWrap ''failed to check for unsynced push secret refs'' e)
           | Inr refs \<Rightarrow> Inr (b refs), ?c # ?c # h)"
        using synced Nil
        by (simp add: hasPushSecretsWithDeletePolicy_def hasSyncedPushSecrets_def ps_list_by_store_def
            hasUnsyncedPushSecretRefs_def ps_list_by_policy_def b_def split: sum.split)
      have "if b refs then needed W store else unneeded W store"
        if "listPSByPolicy W (?c # ?c # h) (list_namespace store) PushSecretDeletionPolicyDelete = Inr refs" for refs
        using that synced Nil unfolding needed_def unneeded_def b_def by (auto simp: list_ex_iff)
      with q run show ?thesis
        by (intro exI [of _ "fst (run_state (hasPushSecretsWithDeletePolicy W store) h)"] exI [of _ "[?c, ?c]"])
          (auto split: sum.splits)
    qed
  qed
qed

definition holds_store :: "EsStore \<Rightarrow> bool" where
  "holds_store store \<longleftrightarrow> secretStoreFinalizer \<in> set (om_Finalizers (gs_Meta store))"

definition fin_step :: "PsEnv \<Rightarrow> EsStore \<Rightarrow> EsStore \<Rightarrow> bool" where
  "fin_step W ss s \<longleftrightarrow>
     needed W ss \<and> om_DeletionTimestamp (gs_Meta ss) = None \<and> \<not> holds_store ss \<and> s = with_finalizer_of ss
     \<or> unneeded W ss \<and> holds_store ss \<and> s = without_finalizer_of ss"

lemma keeps_handleFinalizer:
  "keeps quiet (\<lambda>r. \<forall>u s. r = Inr (u, s) \<longrightarrow> (if u then fin_step W ss s else s = ss)) (handleFinalizer W ss)"
  unfolding handleFinalizer_def
  by (rule keeps_bind [OF keeps_needed], rule keeps_ret)
    (auto simp: fin_step_def holds_store_def with_finalizer_of_def without_finalizer_of_def AddFinalizer_def
      RemoveFinalizer_def Let_def split: sum.splits if_splits)

section \<open>The writes of a run\<close>

text \<open>
  The finalizer of a store that is needed and not being deleted, taken off one that is not needed; the
  status of the store itself.
\<close>

definition ss_write :: "PsEnv \<Rightarrow> SsReconciler \<Rightarrow> EsStore \<Rightarrow> Call \<Rightarrow> bool" where
  "ss_write W R ss c \<longleftrightarrow> ShouldProcessStore ss (ssc_ControllerClass R)
     \<and> ((\<exists>s. c = CUpdate (OEsStore s) \<and> ssc_PushSecretEnabled R \<and> fin_step W ss s)
        \<or> (\<exists>s. c = CStatusPatch (OEsStore s) \<and> om_UID (gs_Meta s) = om_UID (gs_Meta ss)))"

definition ss_call :: "PsEnv \<Rightarrow> SsReconciler \<Rightarrow> EsStore \<Rightarrow> Call \<Rightarrow> bool" where
  "ss_call W R ss c \<longleftrightarrow> quiet c \<or> ss_write W R ss c"

text \<open>An update keeps the UID of the store.\<close>

definition keeps_uid :: "PsEnv \<Rightarrow> bool" where
  "keeps_uid W \<longleftrightarrow> (\<forall>h s. om_UID (gs_Meta (answeredStore W h s)) = om_UID (gs_Meta s))"

lemma fin_step_uid: "fin_step W ss s \<Longrightarrow> om_UID (gs_Meta s) = om_UID (gs_Meta ss)"
  by (auto simp: fin_step_def with_finalizer_of_def without_finalizer_of_def AddFinalizer_def RemoveFinalizer_def
      set_finalizers_def Let_def)

lemma performs_get_current: "performs quiet (get_current W kind ns name)"
  unfolding get_current_def es_get_store_def es_get_cstore_def
  by (intro performs_intros) (simp_all add: quiet_def)

context push_sources
begin

lemma performs_with_status:
  assumes "ShouldProcessStore ss (ssc_ControllerClass R)" and "om_UID (gs_Meta s) = om_UID (gs_Meta ss)"
  shows "performs (ss_call W R ss) (with_store_status W ns name s (validate_and_report W R ns s d))"
  unfolding with_store_status_def
proof (rule keeps_performs [where Q = "\<lambda>_. True"], rule keeps_bind [where Q = "\<lambda>r. same_meta s (snd r)"], goal_cases)
  case 1
  show ?case
    by (rule keeps_mono [OF keeps_validate_and_report, where P' = "ss_call W R ss"]) (auto simp: ss_call_def)
next
  case (2 a)
  then have "om_UID (gs_Meta (snd a)) = om_UID (gs_Meta ss)" using assms(2) by (simp add: same_meta_def)
  with assms(1) show ?case
    by (cases a) (auto simp: ps_write_def k_write_def ss_call_def ss_write_def
        intro!: performs_keeps [OF performs_mono [OF performs_get_current]]
          keeps_bind [where Q = "\<lambda>_. True"] keeps_intros split: sum.split)
qed

lemma performs_ss_reconcile:
  assumes "keeps_uid W"
  shows "performs (ss_call W R ss) (ss_reconcile W R ns name ss)"
proof (cases "ShouldProcessStore ss (ssc_ControllerClass R)")
  case False
  then show ?thesis by (simp add: ss_reconcile_def performs_intros)
next
  case True
  define D where "D u s \<longleftrightarrow> (if u then ssc_PushSecretEnabled R \<and> fin_step W ss s else s = ss)" for u s
  have f: "keeps (ss_call W R ss) (\<lambda>r. \<forall>u s. r = Inr (u, s) \<longrightarrow> D u s)
      (if ssc_PushSecretEnabled R then handleFinalizer W ss else ret (Inr (False, ss)))"
    by (intro keeps_intros keeps_mono [OF keeps_handleFinalizer]) (auto simp: ss_call_def D_def)
  have u: "keeps (ss_call W R ss) (\<lambda>r. om_UID (gs_Meta (snd r)) = om_UID (gs_Meta ss))
      (if u then store_update W s else ret (None, s))" if "D u s" for u s
    using that assms True unfolding store_update_def keeps_uid_def D_def
    by (auto simp: keeps_def traces_def ss_call_def ss_write_def fin_step_uid split: option.split)
  have v: "keeps (ss_call W R ss) (\<lambda>_. True) (case w of Some e \<Rightarrow> ret (no_requeue, Some e)
      | None \<Rightarrow> with_store_status W ns name s (validate_and_report W R ns s (requeue_interval R s)))"
    if "om_UID (gs_Meta s) = om_UID (gs_Meta ss)" for w :: "err option" and s
    by (intro keeps_intros performs_keeps performs_with_status [OF True that]) simp_all
  have w: "keeps (ss_call W R ss) (\<lambda>_. True) (do {
      (w, ss2) \<leftarrow> (if u then store_update W s else ret (None, s));
      case w of Some e \<Rightarrow> ret (no_requeue, Some e)
      | None \<Rightarrow> with_store_status W ns name ss2 (validate_and_report W R ns ss2 (requeue_interval R ss2))
    })" if "D u s" for u s
    by (rule keeps_bind [OF u [OF that]], simp only: split_beta, rule v)
  have x: "keeps (ss_call W R ss) (\<lambda>_. True) (case f of Inl e \<Rightarrow> ret (no_requeue, Some e)
      | Inr (u, s) \<Rightarrow> do {
          (w, ss2) \<leftarrow> (if u then store_update W s else ret (None, s));
          case w of Some e \<Rightarrow> ret (no_requeue, Some e)
          | None \<Rightarrow> with_store_status W ns name ss2 (validate_and_report W R ns ss2 (requeue_interval R ss2))
        })" if "\<forall>u s. f = Inr (u, s) \<longrightarrow> D u s" for f :: "err + bool \<times> EsStore"
  proof (cases f)
    case (Inr us)
    obtain u s where "us = (u, s)" by fastforce
    with that Inr w [of u s] show ?thesis by (simp only: sum.case prod.case)
  qed (simp add: keeps_intros)
  show ?thesis
    by (rule keeps_performs [where Q = "\<lambda>_. True"], unfold ss_reconcile_def, simp only: True not_True_eq_False if_False)
      (rule keeps_bind [OF f x])
qed

end

text \<open>
  A reconcile of a store makes no other write than taking on or off its finalizer and patching
  its status.  The finalizer is put only on a store that is not being deleted and for which some
  PushSecret was found, and taken off only after no PushSecret was found that pushed to the store or
  deletes what it pushes to it; the status that is patched is that of the store that was read.
\<close>

theorem ss_writes:
  assumes "keeps_uid W"
  shows "performs (\<lambda>c. quiet c \<or> ss_write (akeyless_push_world parseSpec passGen resources W) R ss c)
    (ss_reconcile (akeyless_push_world parseSpec passGen resources W) R ns name ss)"
  by (rule akl_push.performs_ss_reconcile [unfolded ss_call_def [abs_def]])
    (use assms in \<open>simp add: keeps_uid_def akeyless_push_world_def\<close>)

theorem ss_writes_example:
  "performs (\<lambda>c. quiet c \<or> ss_write (akeyless_push_world (\<lambda>_. Inl not_found) no_passwords (\<lambda>h ns r. Inl not_found) sample_ps_env)
       \<lparr>ssc_ControllerClass = [], ssc_RequeueInterval = hour, ssc_PushSecretEnabled = True\<rparr> idle_store c)
    (ss_reconcile (akeyless_push_world (\<lambda>_. Inl not_found) no_passwords (\<lambda>h ns r. Inl not_found) sample_ps_env)
       \<lparr>ssc_ControllerClass = [], ssc_RequeueInterval = hour, ssc_PushSecretEnabled = True\<rparr> ''app'' ''store'' idle_store)"
  by (rule ss_writes) (simp add: keeps_uid_def sample_ps_env_def)

section \<open>A store is held while PushSecrets need it\<close>

text \<open>Both indexes find the resource, as \<open>SetupWithManager\<close> of the PushSecret controller fills them.\<close>

definition indexed :: "PsEnv \<Rightarrow> PushSecret \<Rightarrow> bool" where
  "indexed W ps \<longleftrightarrow> (\<forall>ns. ns = [] \<or> ns = om_Namespace (ps_Meta ps) \<longrightarrow>
     (\<forall>h key items. key \<in> set (index_synced ps) \<longrightarrow> listPSByStore W h ns key = Inr items \<longrightarrow> ps \<in> set items)
     \<and> (\<forall>h policy items. policy \<in> set (index_policy ps) \<longrightarrow> listPSByPolicy W h ns policy = Inr items \<longrightarrow> ps \<in> set items))"

lemma indexed_needed:
  assumes "indexed W ps" and "deletes ps"
    and "gs_Kind ss = SecretStoreKind \<longrightarrow> om_Namespace (gs_Meta ss) = om_Namespace (ps_Meta ps)"
    and "shouldReconcileSecretStoreForPushSecret (envw W) ss ps"
  shows "\<not> unneeded W ss"
proof
  assume "unneeded W ss"
  then obtain h h' items where s: "listPSByStore W h (list_namespace ss) (synced_key ss) = Inr []"
    and p: "listPSByPolicy W h' (list_namespace ss) PushSecretDeletionPolicyDelete = Inr items"
    and none: "\<not> (\<exists>ps \<in> set items. list_ex (storeMatchesRef (envw W) ss) (psp_SecretStoreRefs (ps_Spec ps)))"
    by (auto simp: unneeded_def)
  have ns: "list_namespace ss = [] \<or> list_namespace ss = om_Namespace (ps_Meta ps)"
    using assms(3) by (auto simp: list_namespace_def)
  have "ps \<in> set items"
    using assms(1,2) ns p unfolding indexed_def deletes_def index_policy_def by auto
  with none have "\<not> list_ex (storeMatchesRef (envw W) ss) (psp_SecretStoreRefs (ps_Spec ps))" by blast
  with assms(4) have "mget (pst_SyncedPushSecrets (ps_Status ps)) (synced_key ss) \<noteq> None"
    by (simp add: shouldReconcileSecretStoreForPushSecret_def split: if_splits)
  then have "synced_key ss \<in> set (index_synced ps)"
    using assms(2) by (force simp: index_synced_def deletes_def mkeys_def dest: map_of_SomeD)
  with assms(1) ns s have "ps \<in> set []" unfolding indexed_def by blast
  then show False by simp
qed

text \<open>
  C24: A PushSecret with policy Delete holds its stores: while it has something on record for a store, or
  refers to it, no reconcile of the store writes it without the finalizer, also when the store is being
  deleted, so the provider can still be reached when the PushSecret is deleted.
\<close>

theorem store_held:
  assumes "indexed W ps" and "deletes ps" and "keeps_uid W"
    and "gs_Kind ss = SecretStoreKind \<longrightarrow> om_Namespace (gs_Meta ss) = om_Namespace (ps_Meta ps)"
    and "shouldReconcileSecretStoreForPushSecret (envw W) ss ps"
  shows "performs (\<lambda>c. \<nexists>s. c = CUpdate (OEsStore s) \<and> \<not> holds_store s)
    (ss_reconcile (akeyless_push_world parseSpec passGen resources W) R ns name ss)"
proof -
  let ?W = "akeyless_push_world parseSpec passGen resources W"
  have u: "\<not> unneeded ?W ss"
    by (rule indexed_needed [of _ ps])
      (use assms in \<open>simp_all add: indexed_def akeyless_push_world_def akeyless_world_def\<close>)
  have "holds_store s" if "fin_step ?W ss s" for s
    using that u by (auto simp: fin_step_def with_finalizer_of_def AddFinalizer_def holds_store_def
        set_finalizers_def Let_def)
  then show ?thesis
    by (intro performs_mono [OF akl_push.performs_ss_reconcile])
      (use assms(3) in \<open>auto simp: ss_call_def ss_write_def quiet_def keeps_uid_def akeyless_push_world_def\<close>)
qed

text \<open>A store that is being deleted, with a resource that pushed to it.\<close>

definition holding_store :: EsStore where
  "holding_store = idle_store\<lparr>gs_Kind := SecretStoreKind,
     gs_Meta := sample_meta\<lparr>om_Name := ''store'', om_DeletionTimestamp := Some 1, om_Finalizers := [secretStoreFinalizer]\<rparr>\<rparr>"

definition holding_world :: PsEnv where
  "holding_world = sample_ps_env\<lparr>listPSByStore := \<lambda>h ns k. Inr [selecting_ps], listPSByPolicy := \<lambda>h ns p. Inr [selecting_ps]\<rparr>"

theorem store_held_example:
  "performs (\<lambda>c. \<nexists>s. c = CUpdate (OEsStore s) \<and> \<not> holds_store s)
    (ss_reconcile (akeyless_push_world (\<lambda>_. Inl not_found) no_passwords (\<lambda>h ns r. Inl not_found) holding_world)
      \<lparr>ssc_ControllerClass = [], ssc_RequeueInterval = hour, ssc_PushSecretEnabled = True\<rparr> ''app'' ''store'' holding_store)"
  by (rule store_held [of _ selecting_ps])
    (simp_all add: indexed_def holding_world_def deletes_def selecting_ps_def keeps_uid_def sample_ps_env_def
      shouldReconcileSecretStoreForPushSecret_def synced_key_def holding_store_def idle_store_def)

end
