(* ===== verification/Gs_Controller.thy ===== *)
theory Gs_Controller
  imports Ps_World
begin

text \<open>
  The reconciler of GeneratorState, \<open>pkg/controllers/generatorstate\<close>: the finalizer that makes the
  generator clean up, and the garbage collection of states that are past their deadline.  Conditions
  are only set in memory; the parts return the state as it is there.
\<close>

definition generatorStateFinalizer :: string where
  "generatorStateFinalizer = ''generatorstate.externalsecrets.io/finalizer''"

definition SetGeneratorStateCondition :: "GeneratorState \<Rightarrow> SecretCondition \<Rightarrow> GeneratorState" where
  "SetGeneratorStateCondition gs condition =
     gs\<lparr>gst_Conditions := put_condition (gst_Conditions gs) condition\<rparr>"

definition gs_condition ::
  "PsEnv \<Rightarrow> GeneratorState \<Rightarrow> string \<Rightarrow> string \<Rightarrow> string \<Rightarrow> GeneratorState io" where
  "gs_condition W gs status reason message = do {
     t \<leftarrow> ps_now W;
     ret (SetGeneratorStateCondition gs \<lparr>cond_Type = ''Ready'', cond_Status = status,
       cond_Reason = reason, cond_Message = message, cond_LastTransitionTime = t\<rparr>)
   }"

definition gs_markAsFailed :: "PsEnv \<Rightarrow> string \<Rightarrow> err \<Rightarrow> GeneratorState \<Rightarrow> GeneratorState io" where
  "gs_markAsFailed W msg e gs = gs_condition W gs ConditionFalse ''Error'' (msg @ '': '' @ err_string e)"

definition gs_markSuccess :: "PsEnv \<Rightarrow> string \<Rightarrow> GeneratorState \<Rightarrow> GeneratorState io" where
  "gs_markSuccess W msg gs = gs_condition W gs ConditionTrue ''Created'' msg"

definition getGenerator :: "PsEnv \<Rightarrow> bytes \<Rightarrow> err + Generator" where
  "getGenerator W resource = (case resourceKind W resource of
     Inl e \<Rightarrow> Inl (ErrWrap ''unable to unmarshal resource'' e)
   | Inr kind \<Rightarrow> (case mget (generators W) kind of
       None \<Rightarrow> Inl (ErrMsg ''generator not found'')
     | Some gen \<Rightarrow> Inr gen))"

definition gs_finalizers :: "(string list \<Rightarrow> string list) \<Rightarrow> GeneratorState \<Rightarrow> GeneratorState" where
  "gs_finalizers f gs = gs\<lparr>gst_Meta := (gst_Meta gs)\<lparr>om_Finalizers := f (om_Finalizers (gst_Meta gs))\<rparr>\<rparr>"

text \<open>Without a resource the pointer that is followed to its raw JSON is nil.\<close>

definition cleanup_state :: "PsEnv \<Rightarrow> GeneratorState \<Rightarrow> ((err + bool) guarded \<times> GeneratorState) io" where
  "cleanup_state W gs = (case gst_Resource gs of
     None \<Rightarrow> ret (GoPanic, gs)
   | Some raw \<Rightarrow> (case getGenerator W raw of
       Inl e \<Rightarrow> do {
         gs' \<leftarrow> gs_markAsFailed W ''could not get generator'' e gs;
         ret (GoRet (Inl (ErrWrap ''could not get generator'' e)), gs')
       }
     | Inr gen \<Rightarrow> do {
         c \<leftarrow> gen_Cleanup gen (Some raw) (gst_State gs) (om_Namespace (gst_Meta gs));
         case c of
           Some e \<Rightarrow> do {
             gs' \<leftarrow> gs_markAsFailed W ''could not cleanup generator state'' e gs;
             ret (GoRet (Inl (ErrWrap ''could not cleanup generator state'' e)), gs')
           }
         | None \<Rightarrow> do {
             (w, gs') \<leftarrow> state_update W (gs_finalizers (filter (\<lambda>f. f \<noteq> generatorStateFinalizer)) gs);
             ret (GoRet (case w of
               Some e \<Rightarrow> Inl (ErrWrap ''could not update finalizers'' e) | None \<Rightarrow> Inr False), gs')
           }
       }))"

definition gs_handleFinalizer ::
  "PsEnv \<Rightarrow> GeneratorState \<Rightarrow> ((err + bool) guarded \<times> GeneratorState) io" where
  "gs_handleFinalizer W gs =
     (let hasFinalizer = generatorStateFinalizer \<in> set (om_Finalizers (gst_Meta gs)) in
      if om_DeletionTimestamp (gst_Meta gs) = None then
        (if hasFinalizer then ret (GoRet (Inr False), gs)
         else do {
           (w, gs') \<leftarrow> state_update W (gs_finalizers (\<lambda>fs. fs @ [generatorStateFinalizer]) gs);
           ret (GoRet (case w of
             Some e \<Rightarrow> Inl (ErrWrap ''could not update finalizers'' e) | None \<Rightarrow> Inr True), gs')
         })
      else if hasFinalizer then cleanup_state W gs
      else ret (GoRet (Inr False), gs))"

definition gs_collect :: "PsEnv \<Rightarrow> GeneratorState \<Rightarrow> (outcome \<times> GeneratorState) io" where
  "gs_collect W gs = (case gst_GarbageCollectionDeadline gs of
     None \<Rightarrow> do {
       gs' \<leftarrow> gs_markSuccess W ''GeneratorState created'' gs;
       ret ((no_requeue, None), gs')
     }
   | Some deadline \<Rightarrow> do {
       t \<leftarrow> ps_now W;
       if deadline < t then
         (if om_DeletionTimestamp (gst_Meta gs) \<noteq> None then ret ((no_requeue, None), gs)
          else do {
            w \<leftarrow> ps_write W (CDelete (OState gs));
            case w of
              Some e \<Rightarrow> do {
                gs' \<leftarrow> gs_markAsFailed W ''could not delete GeneratorState'' e gs;
                ret ((no_requeue, Some (ErrWrap ''could not delete GeneratorState'' e)), gs')
              }
            | None \<Rightarrow> do {
                gs' \<leftarrow> gs_markSuccess W ''Reached gc deadline'' gs;
                ret ((no_requeue, None), gs')
              }
          })
       else do {
         t' \<leftarrow> ps_now W;
         ret ((requeue_after (deadline - t'), None), gs)
       }
     })"

definition gs_Reconcile :: "PsEnv \<Rightarrow> string \<Rightarrow> string \<Rightarrow> outcome guarded io" where
  "gs_Reconcile W ns name = do {
     r \<leftarrow> state_get W ns name;
     case r of
       Inl e \<Rightarrow> ret (GoRet (no_requeue, ignore_not_found e))
     | Inr gs \<Rightarrow> do {
         (f, gs1) \<leftarrow> gs_handleFinalizer W gs;
         case f of
           GoPanic \<Rightarrow> ret GoPanic
         | GoRet (Inl e) \<Rightarrow> ret (GoRet (no_requeue, Some e))
         | GoRet (Inr True) \<Rightarrow> ret (GoRet (requeue_now, None))
         | GoRet (Inr False) \<Rightarrow> do {
             (r', _) \<leftarrow> gs_collect W gs1;
             ret (GoRet r')
           }
       }
   }"

end
