(* ===== verification/Gs_Laws.thy ===== *)
theory Gs_Laws
  imports Gs_Controller Ps_Laws
begin

text \<open>
  The life of a GeneratorState: it is held by a finalizer, deleted after its deadline, and let go only
  after its generator has cleaned up.
\<close>

section \<open>A run in full\<close>

definition held :: "GeneratorState \<Rightarrow> GeneratorState" where
  "held gs = gs_finalizers (\<lambda>fs. fs @ [generatorStateFinalizer]) gs"

definition released :: "GeneratorState \<Rightarrow> GeneratorState" where
  "released gs = gs_finalizers (filter (\<lambda>f. f \<noteq> generatorStateFinalizer)) gs"

definition deleting :: "GeneratorState \<Rightarrow> bool" where
  "deleting gs \<longleftrightarrow> om_DeletionTimestamp (gst_Meta gs) \<noteq> None"

definition holds_state :: "GeneratorState \<Rightarrow> bool" where
  "holds_state gs \<longleftrightarrow> generatorStateFinalizer \<in> set (om_Finalizers (gst_Meta gs))"

definition expired :: "PsEnv \<Rightarrow> GeneratorState \<Rightarrow> history \<Rightarrow> bool" where
  "expired W gs h \<longleftrightarrow> (\<exists>deadline. gst_GarbageCollectionDeadline gs = Some deadline \<and> deadline < clock (envw W) h)"

text \<open>The generator of the state was asked to clean up from \<open>h\<close>, ended in \<open>h1\<close> and answered \<open>e\<close>.\<close>

definition cleaned :: "PsEnv \<Rightarrow> GeneratorState \<Rightarrow> history \<Rightarrow> err option \<Rightarrow> history \<Rightarrow> bool" where
  "cleaned W gs h e h1 \<longleftrightarrow> (\<exists>raw gen. gst_Resource gs = Some raw \<and> getGenerator W raw = Inr gen
     \<and> run_state (gen_Cleanup gen (Some raw) (gst_State gs) (om_Namespace (gst_Meta gs))) h = (e, h1))"

text \<open>An update does not bring an object back that is being deleted.\<close>

definition stays_deleting :: "PsEnv \<Rightarrow> bool" where
  "stays_deleting W \<longleftrightarrow> (\<forall>h s. deleting s \<longrightarrow> deleting (answeredState W h s))"

text \<open>
  The ways a run can go from the state it read: it takes hold of the state, deletes it after the
  deadline, has nothing to do, or the state is being deleted and its generator does not clean up, is
  not found, or has cleaned up and the state is let go.
\<close>

definition reports :: "outcome \<Rightarrow> outcome guarded \<Rightarrow> bool" where
  "reports ok r \<longleftrightarrow> r = GoRet ok \<or> (\<exists>e. r = GoRet (no_requeue, Some e))"

inductive gs_course ::
  "PsEnv \<Rightarrow> GeneratorState \<Rightarrow> history \<Rightarrow> outcome guarded \<Rightarrow> history \<Rightarrow> bool" for W gs h where
  hold: "\<not> deleting gs \<Longrightarrow> \<not> holds_state gs \<Longrightarrow> reports (requeue_now, None) r \<Longrightarrow>
    gs_course W gs h r (CUpdate (OState (held gs)) # h)"
| collect: "\<not> deleting gs \<Longrightarrow> holds_state gs \<Longrightarrow> expired W gs h \<Longrightarrow> reports (no_requeue, None) r \<Longrightarrow>
    gs_course W gs h r (CDelete (OState gs) # h)"
| idle: "deleting gs \<noteq> holds_state gs \<Longrightarrow> \<not> deleting gs \<longrightarrow> \<not> expired W gs h \<Longrightarrow>
    gs_course W gs h (GoRet (q, None)) h"
| unclean: "deleting gs \<Longrightarrow> holds_state gs \<Longrightarrow> cleaned W gs h (Some e) h1 \<Longrightarrow>
    gs_course W gs h (GoRet (no_requeue, Some (ErrWrap ''could not cleanup generator state'' e))) h1"
| unknown: "deleting gs \<Longrightarrow> holds_state gs \<Longrightarrow> \<forall>e h1. \<not> cleaned W gs h e h1 \<Longrightarrow>
    r = GoPanic \<or> (\<exists>e. r = GoRet (no_requeue, Some e)) \<Longrightarrow> gs_course W gs h r h"
| release: "deleting gs \<Longrightarrow> holds_state gs \<Longrightarrow> cleaned W gs h None h1 \<Longrightarrow> reports (q, None) r \<Longrightarrow>
    gs_course W gs h r (CUpdate (OState (released gs)) # h1)"

section \<open>The parts\<close>

lemma now_run: "run_state (ps_now W) h = (clock (envw W) h, h)"
  by (simp add: ps_now_def now_def)

definition gs_marked :: "PsEnv \<Rightarrow> GeneratorState \<Rightarrow> string \<Rightarrow> string \<Rightarrow> string \<Rightarrow> history \<Rightarrow> GeneratorState" where
  "gs_marked W gs a b c h = fst (run_state (gs_condition W gs a b c) h)"

lemma gs_condition_run: "run_state (gs_condition W gs a b c) h = (gs_marked W gs a b c h, h)"
  by (simp add: gs_marked_def gs_condition_def now_run)

lemmas gs_runs = gs_markAsFailed_def gs_markSuccess_def gs_condition_run now_run

text \<open>The collection deletes what is expired and not yet being deleted, and does nothing else.\<close>

lemma gs_collect_run:
  assumes "run_state (gs_collect W gs) h = ((r, gs'), h')"
  shows "if expired W gs h \<and> \<not> deleting gs then h' = CDelete (OState gs) # h \<and> reports (no_requeue, None) (GoRet r)
    else h' = h \<and> (\<exists>q. r = (q, None))"
proof (cases "gst_GarbageCollectionDeadline gs")
  case None
  with assms show ?thesis
    by (auto simp: gs_collect_def gs_runs expired_def)
next
  case (Some deadline)
  with assms show ?thesis
    by (auto simp: gs_collect_def gs_runs expired_def deleting_def reports_def ps_write_def k_write_def
        split: if_splits option.splits)
qed

text \<open>A state that is being deleted and held is cleaned up or not.\<close>

lemma cleanup_state_run:
  assumes "run_state (cleanup_state W gs) h = ((f, gs1), h1)"
  obtains (unknown) "\<forall>e h2. \<not> cleaned W gs h e h2" "h1 = h" "f = GoPanic \<or> (\<exists>e. f = GoRet (Inl e))"
  | (unclean) e where "cleaned W gs h (Some e) h1" "f = GoRet (Inl (ErrWrap ''could not cleanup generator state'' e))"
  | (failed) h2 e where "cleaned W gs h None h2" "h1 = CUpdate (OState (released gs)) # h2" "f = GoRet (Inl e)"
  | (released) h2 h3 where "cleaned W gs h None h2" "h1 = CUpdate (OState (released gs)) # h2" "f = GoRet (Inr False)"
      "gs1 = answeredState W h3 (released gs)"
proof (cases "gst_Resource gs")
  case None
  with assms show thesis by (intro unknown) (auto simp: cleanup_state_def cleaned_def)
next
  case (Some raw)
  show thesis
  proof (cases "getGenerator W raw")
    case (Inl e)
    with Some assms show thesis
      by (intro unknown) (simp_all add: cleanup_state_def cleaned_def gs_runs, blast)
  next
    case (Inr gen)
    obtain c h2 where c: "run_state (gen_Cleanup gen (Some raw) (gst_State gs) (om_Namespace (gst_Meta gs))) h = (c, h2)"
      by fastforce
    with Some Inr have cl: "cleaned W gs h c h2" by (simp add: cleaned_def)
    show thesis
    proof (cases c)
      case None
      let ?h = "CUpdate (OState (released gs)) # h2"
      show thesis
      proof (cases "writeErr (envw W) ?h")
        case None
        with assms Some Inr c \<open>c = None\<close> show thesis
          by (intro released [OF cl [unfolded \<open>c = None\<close>], of ?h])
            (auto simp: cleanup_state_def state_update_def released_def)
      next
        case (Some e)
        with assms \<open>gst_Resource gs = Some raw\<close> Inr c \<open>c = None\<close> show thesis
          by (intro failed [OF cl [unfolded \<open>c = None\<close>], of "ErrWrap ''could not update finalizers'' e"])
            (auto simp: cleanup_state_def state_update_def released_def)
      qed
    next
      case (Some e)
      with assms \<open>gst_Resource gs = Some raw\<close> Inr c cl show thesis
        by (intro unclean [of e]) (simp_all add: cleanup_state_def gs_runs)
    qed
  qed
qed

section \<open>The run\<close>

lemma released_deleting: "deleting (released gs) \<longleftrightarrow> deleting gs"
  by (simp add: deleting_def released_def gs_finalizers_def)

text \<open>
  C25: The life of a GeneratorState.  Every run on a state it could read takes one of the courses of
  \<open>gs_course\<close>: a state is deleted only after its deadline, its finalizer is taken off only after
  its generator has cleaned up without an error, and a run that could not clean up reports it.
\<close>

theorem gs_lifecycle:
  assumes "stays_deleting W"
    and "getState W (CGet ''GeneratorState'' ns name # h) ns name = Inr gs"
    and "run_state (gs_Reconcile W ns name) h = (r, h')"
  shows "gs_course W gs (CGet ''GeneratorState'' ns name # h) r h'"
proof -
  let ?h = "CGet ''GeneratorState'' ns name # h"
  have run: "run_state (do {
      (f, gs1) \<leftarrow> gs_handleFinalizer W gs;
      case f of GoPanic \<Rightarrow> ret GoPanic
      | GoRet (Inl e) \<Rightarrow> ret (GoRet (no_requeue, Some e))
      | GoRet (Inr True) \<Rightarrow> ret (GoRet (requeue_now, None))
      | GoRet (Inr False) \<Rightarrow> do { (r', _) \<leftarrow> gs_collect W gs1; ret (GoRet r') } }) ?h = (r, h')"
    using assms(2,3) by (simp add: gs_Reconcile_def state_get_def)
  consider (hold) "\<not> deleting gs" "\<not> holds_state gs" | (same) "deleting gs \<noteq> holds_state gs"
    | (clean) "deleting gs" "holds_state gs" by blast
  then show ?thesis
  proof cases
    case hold
    with run show ?thesis
      by (auto simp: gs_handleFinalizer_def deleting_def holds_state_def held_def reports_def state_update_def
          split: option.splits intro!: gs_course.hold [unfolded held_def])
  next
    case same
    then have "run_state (gs_handleFinalizer W gs) ?h = ((GoRet (Inr False), gs), ?h)"
      by (auto simp: gs_handleFinalizer_def deleting_def holds_state_def)
    with run obtain r' gs' where c: "run_state (gs_collect W gs) ?h = ((r', gs'), h')" "r = GoRet r'"
      by (auto split: prod.splits)
    from gs_collect_run [OF c(1)] same c(2) show ?thesis
      by (auto split: if_splits intro: gs_course.collect gs_course.idle)
  next
    case clean
    then have f: "run_state (gs_handleFinalizer W gs) ?h = run_state (cleanup_state W gs) ?h"
      by (auto simp: gs_handleFinalizer_def deleting_def holds_state_def Let_def)
    obtain f gs1 h1 where c: "run_state (cleanup_state W gs) ?h = ((f, gs1), h1)" by (metis prod.exhaust)
    show ?thesis
      using c
    proof (cases rule: cleanup_state_run)
      case unknown
      with run f c have "r = GoPanic \<or> (\<exists>e. r = GoRet (no_requeue, Some e))" "h' = ?h" by auto
      with gs_course.unknown [OF clean unknown(1)] show ?thesis by simp
    next
      case (unclean e)
      with run f c clean show ?thesis by (auto intro: gs_course.unclean)
    next
      case (failed h2 e)
      with run f c clean show ?thesis by (auto simp: reports_def intro: gs_course.release)
    next
      case (released h2 h3)
      obtain r' gs' h4 where g: "run_state (gs_collect W gs1) h1 = ((r', gs'), h4)" by (metis prod.exhaust)
      from released assms(1) clean(1) have "deleting gs1" by (simp add: stays_deleting_def released_deleting)
      with gs_collect_run [OF g] have "h4 = h1" "\<exists>q. r' = (q, None)" by (auto split: if_splits)
      with run f c g released clean show ?thesis by (auto simp: reports_def intro: gs_course.release)
    qed
  qed
qed

text \<open>A state that is being deleted and whose generator cleans up.\<close>

definition gone_state :: GeneratorState where
  "gone_state = \<lparr>gst_Meta = sample_meta\<lparr>om_DeletionTimestamp := Some 1, om_Finalizers := [generatorStateFinalizer]\<rparr>,
     gst_GenerateName = [], gst_Resource = Some ''{}'', gst_State = ''state'', gst_GarbageCollectionDeadline = None, gst_Conditions = []\<rparr>"

definition cleaning_world :: PsEnv where
  "cleaning_world = sample_ps_env\<lparr>getState := \<lambda>h ns n. Inr gone_state, answeredState := \<lambda>h s. s,
     resourceKind := \<lambda>raw. Inr ''Password'', generators := [(''Password'', \<lparr>gen_Cleanup = \<lambda>raw st ns. ret None\<rparr>)]\<rparr>"

theorem gs_lifecycle_example:
  "gs_course cleaning_world gone_state [CGet ''GeneratorState'' ''app'' ''db'']
     (fst (run_state (gs_Reconcile cleaning_world ''app'' ''db'') []))
     (snd (run_state (gs_Reconcile cleaning_world ''app'' ''db'') []))"
  by (rule gs_lifecycle) (simp_all add: stays_deleting_def cleaning_world_def)

end
