(* ===== verification/Informers.thy ===== *)
theory Informers
  imports Es_Generic
begin

text \<open>
  \<open>pkg/controllers/externalsecret/informer_manager.go\<close>: informers for the kinds of generic targets,
  each kept while an ExternalSecret uses it.  The manager's map is an association list from the
  printed kind; the cache that makes and removes informers answers with an error or none, which the
  operations take as arguments.  Every operation holds the manager's lock, so any interleaving of
  reconciles is a sequence of whole operations, the steps of \<open>im_step\<close>.
\<close>

section \<open>The manager\<close>

type_synonym nsname = "string \<times> string"

text \<open>An informer is known by the kind it was made for; the users are a set, kept without repetition.\<close>

record informerEntry =
  ie_Informer :: GroupVersionKind
  ie_ExternalSecrets :: "nsname list"

record InformerManager =
  im_Informers :: "informerEntry gomap"
  im_Queue :: bool

definition NewInformerManager :: InformerManager where
  "NewInformerManager = \<lparr>im_Informers = [], im_Queue = False\<rparr>"

definition gvk_String :: "GroupVersionKind \<Rightarrow> string" where
  "gvk_String gvk = gvk_Group gvk @ ''/'' @ gvk_Version gvk @ '', Kind='' @ gvk_Kind gvk"

definition add_user :: "nsname \<Rightarrow> nsname list \<Rightarrow> nsname list" where
  "add_user es users = (if es \<in> set users then users else users @ [es])"

definition EnsureInformer ::
  "GroupVersionKind \<Rightarrow> nsname \<Rightarrow> err option \<Rightarrow> err option \<Rightarrow> InformerManager
   \<Rightarrow> (err + bool) \<times> InformerManager" where
  "EnsureInformer gvk es getErr handlerErr m =
     (let key = gvk_String gvk in
      case mget (im_Informers m) key of
        Some entry \<Rightarrow> (Inr False, m\<lparr>im_Informers := mput key
          (entry\<lparr>ie_ExternalSecrets := add_user es (ie_ExternalSecrets entry)\<rparr>) (im_Informers m)\<rparr>)
      | None \<Rightarrow>
          if \<not> im_Queue m then (Inl (ErrMsg ''queue not initialized, call SetQueue first''), m)
          else (case getErr of
              Some e \<Rightarrow> (Inl (ErrWrap (''failed to get informer for '' @ key) e), m)
            | None \<Rightarrow> (case handlerErr of
                Some e \<Rightarrow> (Inl (ErrWrap (''failed to add event handler for '' @ key) e), m)
              | None \<Rightarrow> (Inr True, m\<lparr>im_Informers := mput key
                  \<lparr>ie_Informer = gvk, ie_ExternalSecrets = [es]\<rparr> (im_Informers m)\<rparr>))))"

text \<open>The result says whether the cache was asked to remove the informer; its error is only logged.\<close>

definition ReleaseInformer ::
  "GroupVersionKind \<Rightarrow> nsname \<Rightarrow> InformerManager \<Rightarrow> bool \<times> InformerManager" where
  "ReleaseInformer gvk es m =
     (let key = gvk_String gvk in
      case mget (im_Informers m) key of
        None \<Rightarrow> (False, m)
      | Some entry \<Rightarrow>
          (let users = removeAll es (ie_ExternalSecrets entry) in
           if length users = 0 then (True, m\<lparr>im_Informers := mdel key (im_Informers m)\<rparr>)
           else (False, m\<lparr>im_Informers := mput key (entry\<lparr>ie_ExternalSecrets := users\<rparr>) (im_Informers m)\<rparr>)))"

definition IsManaged :: "InformerManager \<Rightarrow> GroupVersionKind \<Rightarrow> bool" where
  "IsManaged m gvk \<longleftrightarrow> mget (im_Informers m) (gvk_String gvk) \<noteq> None"

definition GetInformer :: "InformerManager \<Rightarrow> GroupVersionKind \<Rightarrow> GroupVersionKind option" where
  "GetInformer m gvk = map_option ie_Informer (mget (im_Informers m) (gvk_String gvk))"

definition SetQueue :: "InformerManager \<Rightarrow> err option \<times> InformerManager" where
  "SetQueue m = (if im_Queue m then (Some (ErrMsg ''queue already set''), m)
     else (None, m\<lparr>im_Queue := True\<rparr>))"

section \<open>Events\<close>

definition resource_index :: "GroupVersionKind \<Rightarrow> string \<Rightarrow> string" where
  "resource_index gvk name = gvk_Group gvk @ ''/'' @ gvk_Version gvk @ ''/'' @ gvk_Kind gvk @ ''/'' @ name"

definition indexTargetResource :: "EsReconciler \<Rightarrow> ExternalSecret \<Rightarrow> string list" where
  "indexTargetResource R es = (case etg_Manifest (esp_Target (es_Spec es)) of
     None \<Rightarrow> []
   | Some manifest \<Rightarrow>
       if rcl_AllowGenericTargets R then [resource_index (getTargetGVK manifest) (target_name es)] else [])"

text \<open>What the handler is given: an object with metadata, or anything else.\<close>

definition event_requests ::
  "GroupVersionKind \<Rightarrow> (string \<Rightarrow> string \<Rightarrow> err + ExternalSecret list) \<Rightarrow> ObjectMeta option
   \<Rightarrow> (string \<times> string) list" where
  "event_requests gvk listIndexed obj = (case obj of
     None \<Rightarrow> []
   | Some m \<Rightarrow>
       if mget (om_Labels m) EsLabelManaged \<noteq> Some EsLabelManagedValue then []
       else (case listIndexed (om_Namespace m) (resource_index gvk (om_Name m)) of
           Inl _ \<Rightarrow> []
         | Inr items \<Rightarrow> map (\<lambda>es. (om_Name (es_Meta es), om_Namespace (es_Meta es))) items))"

section \<open>Steps\<close>

text \<open>
  The manager beside the informers that run in the cache.  A refused removal leaves the informer
  running, and so does an event handler that cannot be added.
\<close>

datatype im_op =
    OpEnsure GroupVersionKind nsname "err option" "err option"
  | OpRelease GroupVersionKind nsname "err option"
  | OpSetQueue

definition started :: "GroupVersionKind \<Rightarrow> err option \<Rightarrow> InformerManager \<Rightarrow> string set \<Rightarrow> string set" where
  "started gvk getErr m running =
     (if IsManaged m gvk \<or> \<not> im_Queue m \<or> getErr \<noteq> None then running
      else insert (gvk_String gvk) running)"

inductive im_step :: "InformerManager \<times> string set \<Rightarrow> im_op \<Rightarrow> InformerManager \<times> string set \<Rightarrow> bool" where
  ensure: "im_step (m, running) (OpEnsure gvk es getErr handlerErr)
     (snd (EnsureInformer gvk es getErr handlerErr m), started gvk getErr m running)"
| release: "im_step (m, running) (OpRelease gvk es removeErr)
     (snd (ReleaseInformer gvk es m),
      if fst (ReleaseInformer gvk es m) \<and> removeErr = None then running - {gvk_String gvk} else running)"
| queue: "im_step (m, running) OpSetQueue (snd (SetQueue m), running)"

inductive im_reach :: "im_op list \<Rightarrow> InformerManager \<times> string set \<Rightarrow> bool" where
  start: "im_reach [] (NewInformerManager, {})"
| step: "im_reach ops s \<Longrightarrow> im_step s op s' \<Longrightarrow> im_reach (ops @ [op]) s'"

inductive_cases im_stepE: "im_step s op s'"

section \<open>The users of a kind\<close>

text \<open>
  The specification: a queue and, for every kind, the set of its users.  Asking for a kind that is
  not used fails without a queue or when the cache does not give an informer.
\<close>

type_synonym uses = "bool \<times> (string \<Rightarrow> nsname set)"

fun uses_op :: "im_op \<Rightarrow> uses \<Rightarrow> uses" where
  "uses_op (OpEnsure gvk es getErr handlerErr) (queue, u) =
     (queue, if u (gvk_String gvk) \<noteq> {} \<or> queue \<and> getErr = None \<and> handlerErr = None
       then u(gvk_String gvk := insert es (u (gvk_String gvk))) else u)"
| "uses_op (OpRelease gvk es removeErr) (queue, u) = (queue, u(gvk_String gvk := u (gvk_String gvk) - {es}))"
| "uses_op OpSetQueue (queue, u) = (True, u)"

definition users_of :: "InformerManager \<Rightarrow> string \<Rightarrow> nsname set" where
  "users_of m key = (case mget (im_Informers m) key of None \<Rightarrow> {} | Some e \<Rightarrow> set (ie_ExternalSecrets e))"

definition uses :: "InformerManager \<Rightarrow> uses" where
  "uses m = (im_Queue m, users_of m)"

text \<open>Every entry has a user and is kept under the name of its informer; every tracked informer runs.\<close>

definition im_inv :: "InformerManager \<times> string set \<Rightarrow> bool" where
  "im_inv s \<longleftrightarrow> (case s of (m, running) \<Rightarrow> \<forall>key e. mget (im_Informers m) key = Some e \<longrightarrow>
     ie_ExternalSecrets e \<noteq> [] \<and> gvk_String (ie_Informer e) = key \<and> key \<in> running)"

lemma im_invD:
  "im_inv (m, running) \<Longrightarrow> mget (im_Informers m) key = Some e \<Longrightarrow>
   ie_ExternalSecrets e \<noteq> [] \<and> gvk_String (ie_Informer e) = key \<and> key \<in> running"
  by (simp add: im_inv_def)

lemma set_add_user [simp]: "set (add_user es users) = insert es (set users)"
  by (auto simp: add_user_def)

lemma add_user_Nil [simp]: "add_user es users \<noteq> []"
  by (simp add: add_user_def, metis empty_iff list.set(1))

lemma users_of_put [simp]:
  "users_of (m\<lparr>im_Informers := mput key e is\<rparr>) = (users_of (m\<lparr>im_Informers := is\<rparr>))
     (key := set (ie_ExternalSecrets e))"
  by (rule ext) (simp add: users_of_def mget_mput)

lemma users_of_del [simp]:
  "users_of (m\<lparr>im_Informers := mdel key is\<rparr>) = (users_of (m\<lparr>im_Informers := is\<rparr>))(key := {})"
  by (rule ext) (simp add: users_of_def mget_mdel)

lemma users_of_self [simp]:
  "users_of (m\<lparr>im_Informers := im_Informers m\<rparr>) = users_of m"
  "users_of (m\<lparr>im_Queue := q\<rparr>) = users_of m"
  by (simp_all add: users_of_def fun_eq_iff)

lemma im_invI:
  "(\<And>key e. mget (im_Informers m) key = Some e \<Longrightarrow>
     ie_ExternalSecrets e \<noteq> [] \<and> gvk_String (ie_Informer e) = key \<and> key \<in> running) \<Longrightarrow> im_inv (m, running)"
  unfolding im_inv_def prod.case by blast

lemma im_inv_put:
  "im_inv (m, running) \<Longrightarrow> running \<subseteq> running' \<Longrightarrow> ie_ExternalSecrets e \<noteq> [] \<Longrightarrow> gvk_String (ie_Informer e) = key \<Longrightarrow>
   key \<in> running' \<Longrightarrow> im_inv (m\<lparr>im_Informers := mput key e (im_Informers m)\<rparr>, running')"
  by (rule im_invI) (auto simp: mget_mput dest: im_invD split: if_splits)

lemma im_inv_del:
  "im_inv (m, running) \<Longrightarrow> im_inv (m\<lparr>im_Informers := mdel key (im_Informers m)\<rparr>, running - {key})"
  "im_inv (m, running) \<Longrightarrow> im_inv (m\<lparr>im_Informers := mdel key (im_Informers m)\<rparr>, running)"
  by (rule im_invI; force simp: mget_mdel dest: im_invD split: if_splits)+

lemma im_inv_mono: "im_inv (m, running) \<Longrightarrow> running \<subseteq> running' \<Longrightarrow> im_inv (m, running')"
  by (rule im_invI) (auto dest: im_invD)

lemma ensure_inv:
  assumes "im_inv (m, running)"
  shows "im_inv (snd (EnsureInformer gvk es getErr handlerErr m), started gvk getErr m running)"
proof (cases "mget (im_Informers m) (gvk_String gvk)")
  case None
  with assms show ?thesis
    by (auto simp: EnsureInformer_def started_def IsManaged_def Let_def intro!: im_inv_put
        intro: im_inv_mono split: option.split)
next
  case (Some e)
  with assms show ?thesis
    by (auto simp: EnsureInformer_def started_def IsManaged_def Let_def intro!: im_inv_put dest: im_invD)
qed

lemma release_inv:
  assumes "im_inv (m, running)"
  shows "im_inv (snd (ReleaseInformer gvk es m),
    if fst (ReleaseInformer gvk es m) \<and> removeErr = None then running - {gvk_String gvk} else running)"
proof (cases "mget (im_Informers m) (gvk_String gvk)")
  case (Some e)
  note put = im_inv_put [OF assms subset_refl] and entry = im_invD [OF assms Some]
  show ?thesis
  proof (cases "removeAll es (ie_ExternalSecrets e) = []")
    case True
    with Some im_inv_del [OF assms] show ?thesis by (simp add: ReleaseInformer_def Let_def)
  next
    case False
    with Some put entry show ?thesis by (simp add: ReleaseInformer_def Let_def)
  qed
qed (use assms in \<open>simp add: ReleaseInformer_def\<close>)

lemma im_step_inv: "im_step s op s' \<Longrightarrow> im_inv s \<Longrightarrow> im_inv s'"
proof (induction rule: im_step.induct)
  case (queue m running)
  then show ?case by (simp add: SetQueue_def im_inv_def)
qed (use ensure_inv release_inv in blast)+

lemma im_reach_inv: "im_reach ops s \<Longrightarrow> im_inv s"
proof (induction rule: im_reach.induct)
  case start
  then show ?case by (simp add: im_inv_def NewInformerManager_def)
qed (rule im_step_inv)

lemma users_of_entry: "mget (im_Informers m) key = Some e \<Longrightarrow> users_of m key = set (ie_ExternalSecrets e)"
  by (simp add: users_of_def)

lemma users_of_none: "mget (im_Informers m) key = None \<Longrightarrow> users_of m key = {}"
  by (simp add: users_of_def)

lemma ensure_uses:
  assumes "im_inv (m, running)"
  shows "uses (snd (EnsureInformer gvk es getErr handlerErr m))
     = uses_op (OpEnsure gvk es getErr handlerErr) (uses m)"
proof (cases "mget (im_Informers m) (gvk_String gvk)")
  case None
  then show ?thesis
    by (simp add: uses_def EnsureInformer_def Let_def users_of_none split: option.split)
next
  case (Some e)
  with im_invD [OF assms Some] have "users_of m (gvk_String gvk) \<noteq> {}" by (simp add: users_of_entry)
  with Some show ?thesis by (simp add: uses_def EnsureInformer_def Let_def users_of_entry)
qed

lemma release_uses:
  "uses (snd (ReleaseInformer gvk es m)) = uses_op (OpRelease gvk es removeErr) (uses m)"
proof (cases "mget (im_Informers m) (gvk_String gvk)")
  case None
  then have "users_of m (gvk_String gvk) - {es} = users_of m (gvk_String gvk)"
    by (simp add: users_of_none)
  with None show ?thesis by (simp add: uses_def ReleaseInformer_def)
next
  case (Some e)
  then have rest: "users_of m (gvk_String gvk) - {es} = set (removeAll es (ie_ExternalSecrets e))"
    by (simp add: users_of_entry)
  show ?thesis
  proof (cases "removeAll es (ie_ExternalSecrets e) = []")
    case True
    then have "set (removeAll es (ie_ExternalSecrets e)) = {}" by (simp only: list.set)
    with True Some show ?thesis
      by (simp add: uses_def ReleaseInformer_def Let_def rest del: set_removeAll Diff_eq_empty_iff)
  next
    case False
    with rest Some show ?thesis by (simp add: uses_def ReleaseInformer_def Let_def del: set_removeAll)
  qed
qed

lemma im_step_refines: "im_step s op s' \<Longrightarrow> im_inv s \<Longrightarrow> uses (fst s') = uses_op op (uses (fst s))"
proof (induction rule: im_step.induct)
  case (queue m running)
  then show ?case by (simp add: uses_def SetQueue_def)
qed (simp_all only: fst_conv ensure_uses release_uses)

text \<open>
  C32: The informer manager implements the table of users.  After any sequence of operations of any
  reconciles, with any answers of the cache, its users are those the table has after the same
  operations; a kind is managed exactly while it has users, and then its informer is the one of
  that kind and runs.
\<close>

theorem informers_refine:
  assumes "im_reach ops (m, running)"
  shows "uses m = fold uses_op ops (False, \<lambda>_. {})
    \<and> (IsManaged m gvk \<longleftrightarrow> users_of m (gvk_String gvk) \<noteq> {})
    \<and> (IsManaged m gvk \<longrightarrow> (\<exists>g. GetInformer m gvk = Some g \<and> gvk_String g = gvk_String gvk)
      \<and> gvk_String gvk \<in> running)"
proof (intro conjI)
  have "uses (fst s) = fold uses_op ops (False, \<lambda>_. {})" if "im_reach ops s" for ops s
    using that
  proof (induction rule: im_reach.induct)
    case start
    then show ?case by (auto simp: uses_def users_of_def NewInformerManager_def)
  next
    case (step ops s op s')
    from im_step_refines [OF step.hyps(2) im_reach_inv [OF step.hyps(1)]] step.IH show ?case by simp
  qed
  from this [OF assms] show "uses m = fold uses_op ops (False, \<lambda>_. {})" by simp
  note inv = im_reach_inv [OF assms]
  show "IsManaged m gvk \<longleftrightarrow> users_of m (gvk_String gvk) \<noteq> {}"
    using inv by (auto simp: IsManaged_def users_of_def split: option.splits dest: im_invD)
  show "IsManaged m gvk \<longrightarrow> (\<exists>g. GetInformer m gvk = Some g \<and> gvk_String g = gvk_String gvk)
      \<and> gvk_String gvk \<in> running"
    using inv by (auto simp: IsManaged_def GetInformer_def dest: im_invD)
qed

definition sample_gvk :: GroupVersionKind where
  "sample_gvk = \<lparr>gvk_Group = [], gvk_Version = ''v1'', gvk_Kind = ''ConfigMap''\<rparr>"

lemma sample_reach:
  "im_reach [OpSetQueue, OpEnsure sample_gvk (''ns'', ''a'') None None]
     (\<lparr>im_Informers = [(''/v1, Kind=ConfigMap'', \<lparr>ie_Informer = sample_gvk, ie_ExternalSecrets = [(''ns'', ''a'')]\<rparr>)],
       im_Queue = True\<rparr>, {''/v1, Kind=ConfigMap''})"
proof -
  let ?m = "\<lparr>im_Informers = [], im_Queue = True\<rparr>"
  have "im_reach [OpSetQueue] (?m, {})"
    using im_reach.step [OF im_reach.start im_step.queue] by (simp add: NewInformerManager_def SetQueue_def)
  from im_reach.step [OF this im_step.ensure, of sample_gvk "(''ns'', ''a'')" None None] show ?thesis
    by (simp add: EnsureInformer_def started_def IsManaged_def gvk_String_def sample_gvk_def)
qed

theorem informers_refine_example:
  "users_of \<lparr>im_Informers = [(''/v1, Kind=ConfigMap'', \<lparr>ie_Informer = sample_gvk, ie_ExternalSecrets = [(''ns'', ''a'')]\<rparr>)],
       im_Queue = True\<rparr> (gvk_String sample_gvk) \<noteq> {}"
  using informers_refine [OF sample_reach, of sample_gvk]
  by (simp add: IsManaged_def gvk_String_def sample_gvk_def)

end
