(* ===== verification/Secret_Settles.thy ===== *)
theory Secret_Settles
  imports Secret_Laws
begin

text \<open>
  A synchronised AkeylessSecret settles: reading back what a successful run wrote, the next run has
  nothing to write, so the watch on the resource does not keep the reconciler running.
\<close>

section \<open>The status of a success\<close>

definition synced_status :: "AkeylessSecret \<Rightarrow> bool" where
  "synced_status a \<longleftrightarrow> ss_RefreshTime (as_Status a) \<noteq> None
     \<and> ss_SyncedGeneration (as_Status a) = om_Generation (as_Meta a)"

definition stamped :: "Call \<Rightarrow> bool" where
  "stamped c \<longleftrightarrow> (\<forall>a. c = CStatusUpdate (OAS a) \<longrightarrow> ready_true (ss_Conditions (as_Status a)) \<longrightarrow> synced_status a)"

lemma stamped_not_ready: "\<not> ready_status c \<Longrightarrow> stamped c"
  by (auto simp: stamped_def)

lemma quiet_stamped [simp]: "quiet c \<Longrightarrow> stamped c"
  by (rule stamped_not_ready) (rule quiet_kinds)

lemma performs_fail_stamped [performs_intros]: "performs stamped (failStatus E a e)"
  by (rule performs_mono [OF performs_failStatus]) (auto intro: stamped_not_ready dest: fail_kinds)

lemma performs_recordSynced_stamped [performs_intros]: "performs stamped (recordSynced E a versions)"
  unfolding recordSynced_def markReady_def setCondition_def Let_def k_defs
  by (rule traces_performs, intro trace_intros) (auto simp: stamped_def synced_status_def)

lemma performs_applyFetched_stamped [performs_intros]: "performs stamped (applyFetched E a tn oh d versions)"
  unfolding applyFetched_def Let_def by (intro performs_intros) (simp_all add: stamped_def)

context secrets_provider
begin

lemma performs_client_then:
  assumes "\<And>e. performs stamped (f (Inl e))" and "\<And>c. quiet_client c \<Longrightarrow> performs stamped (f (Inr c))"
  shows "performs stamped (State_Monad.bind (pr_NewClient P store ns) f)"
proof (rule performs_bind_results [OF performs_mono [OF NewClient_quiet quiet_stamped]])
  fix a
  assume "a \<in> results (pr_NewClient P store ns)"
  with assms client_quiet show "performs stamped (f a)" by (cases a) blast+
qed

lemma performs_syncSecret_stamped: "performs stamped (syncSecret E P a tn oh)"
  unfolding syncSecret_def
  by (intro performs_intros performs_client_then performs_mono [OF performs_ResolveStore_quiet]
      performs_mono [OF performs_fetchSecretData])
    (auto simp: quiet_client_def intro!: performs_intros elim: performs_mono)

lemma performs_checkRemoteVersions_stamped: "performs stamped (checkRemoteVersions E P a)"
proof -
  have v: "performs stamped (f n)" if "quiet_client c" "sc_GetRemoteItemVersion c = Some f" for c f n
    using that unfolding quiet_client_def by (intro performs_mono [OF _ quiet_stamped]) blast
  have c: "performs stamped (sc_Close c)" if "quiet_client c" for c
    using that unfolding quiet_client_def by (intro performs_mono [OF _ quiet_stamped]) blast
  show ?thesis
    unfolding checkRemoteVersions_def
    by (intro performs_bind [OF performs_mono [OF performs_ResolveStore_quiet]] performs_case_sum performs_case_prod
        performs_client_then performs_ret)
      (auto intro!: performs_intros performs_observeVersions v c)
qed

lemma performs_Reconcile_stamped: "performs stamped (Reconcile E P ns name)"
  unfolding Reconcile_def reconcileLive_def reconcileExisting_def Let_def k_get_as_def k_write_as_def
    k_get_secret_def
  by (intro performs_intros performs_syncSecret_stamped performs_checkRemoteVersions_stamped
      performs_mono [OF performs_EnsureStoreReady_quiet]) (erule quiet_stamped | simp add: stamped_def)+

end

section \<open>The next run\<close>

text \<open>
  From \<open>h\<close> on the clock stays within the interval that began with the refresh time of the status, the
  store is ready, and the Secret is there with the hash of its data.
\<close>

definition settled :: "Env \<Rightarrow> AkeylessSecret \<Rightarrow> history \<Rightarrow> bool" where
  "settled E a h \<longleftrightarrow>
     (\<forall>rt cs. ss_RefreshTime (as_Status a) = Some rt \<longrightarrow>
        rt \<le> clock E (cs @ h) \<and> clock E (cs @ h) \<le> rt + interval (refreshConfig a))
     \<and> (\<forall>cs. fst (run_state (EnsureStoreReady E (om_Namespace (as_Meta a)) (asp_StoreRef (as_Spec a))) (cs @ h)) = None)
     \<and> (\<forall>cs. \<exists>s. getSecretObj E (cs @ h) (om_Namespace (as_Meta a)) (targetNameOf a) = Inr s
          \<and> IsManagedSecretValid E (Some s))"

lemma synced_not_due:
  assumes "synced_status a" and "om_Generation (as_Meta a) \<noteq> 0"
    and "\<not> ForceSyncPending (om_Annotations (as_Meta a)) (ss_RefreshTime (as_Status a))"
    and "settled E a h"
  shows "\<not> shouldSync (clock E (cs @ h)) a"
proof -
  obtain rt where rt: "ss_RefreshTime (as_Status a) = Some rt" using assms(1) by (auto simp: synced_status_def)
  with assms(4) have "rt \<le> clock E (cs @ h)" "clock E (cs @ h) \<le> rt + interval (refreshConfig a)"
    by (simp_all add: settled_def)
  with assms(1-3) rt have "\<not> shouldSyncPeriodic (clock E (cs @ h)) (refreshConfig a)"
    by (simp add: shouldSyncPeriodic_def refreshConfig_def synced_status_def)
  with assms(1-3) rt show ?thesis
    by (simp add: shouldSync_def ShouldSync_def refreshConfig_def synced_status_def)
qed

lemma existing_not_due:
  assumes "run_state (EnsureStoreReady E (om_Namespace (as_Meta b)) (asp_StoreRef (as_Spec b))) h = (None, h1)"
    and "\<not> shouldSync (clock E h1) b" and "IsManagedSecretValid E (Some s)"
    and "policyOf b \<noteq> SyncPolicyOnRemoteChange" "policyOf b \<noteq> SyncPolicyOnWebhook"
  shows "run_state (reconcileExisting E P b (Some s)) h = ((requeue_after (requeueAfter (clock E h1) b), None), h1)"
  using assms by (simp add: reconcileExisting_def Let_def now_def)

text \<open>
  C3: Termination of the loop over the watch.  Take a status with a true Ready condition that a run has
  written, under the policy Periodic, CreatedOnce or OnSpecChange (the others look at remote versions).
  Whatever resource has this status, specification and generation, a nonzero one, when it is read again with
  its finalizer and not being deleted, as long as the interval since the recorded refresh time has not
  passed, no synchronisation is forced, the store is ready and the Secret is intact, the next run writes
  nothing and ends without an error.  It asks to be run again after the rest of the interval, counted
  from the recorded refresh time to the end of the run, or, when nothing is left of it, after a whole interval.
\<close>

theorem sync_settles:
  assumes "run_state (Reconcile E (akeyless_provider E) ns name) h = (out, cs @ h)"
    and "CStatusUpdate (OAS a) \<in> set cs" and "ready_true (ss_Conditions (as_Status a))"
    and "asp_SyncPolicy (as_Spec a) \<in> {SyncPolicyPeriodic, SyncPolicyCreatedOnce, SyncPolicyOnSpecChange}"
    and "getAS E (CGet ''AkeylessSecret'' ns name # h2) ns name = Inr b"
    and "as_Status b = as_Status a" "as_Spec b = as_Spec a" "om_Generation (as_Meta b) = om_Generation (as_Meta a)"
    and "om_DeletionTimestamp (as_Meta b) = None" "finalizer \<in> set (om_Finalizers (as_Meta b))"
    and "om_Generation (as_Meta b) \<noteq> 0"
    and "\<not> ForceSyncPending (om_Annotations (as_Meta b)) (ss_RefreshTime (as_Status b))"
    and "settled E b h2"
  shows "\<exists>ds rt delay. run_state (Reconcile E (akeyless_provider E) ns name) h2
      = ((requeue_after delay, None), ds @ h2) \<and> list_all quiet ds
    \<and> ss_RefreshTime (as_Status a) = Some rt
    \<and> delay = (if clock E (ds @ h2) < rt + interval (refreshConfig b)
               then rt + interval (refreshConfig b) - clock E (ds @ h2) else interval (refreshConfig b))"
proof -
  have "list_all stamped cs"
    using performsE [OF akl.performs_Reconcile_stamped assms(1)] by auto
  with assms(2,3,6,8) have sy: "synced_status b"
    by (auto simp: list_all_iff stamped_def synced_status_def)
  have due: "\<not> shouldSync (clock E (ds @ h2)) b" for ds
    by (rule synced_not_due [OF sy assms(11-13)])
  let ?g = "[CGet ''Secret'' (om_Namespace (as_Meta b)) (targetNameOf b), CGet ''AkeylessSecret'' ns name]"
  obtain s where s: "getSecretObj E (?g @ h2) (om_Namespace (as_Meta b)) (targetNameOf b) = Inr s"
      "IsManagedSecretValid E (Some s)"
    using assms(13) unfolding settled_def by blast
  obtain r ds where r: "run_state (EnsureStoreReady E (om_Namespace (as_Meta b)) (asp_StoreRef (as_Spec b))) (?g @ h2)
      = (r, ds @ ?g @ h2)" "list_all quiet ds"
    by (metis performsE [OF performs_EnsureStoreReady_quiet] prod.exhaust)
  moreover have "r = None" using assms(13) r(1) unfolding settled_def by (metis fst_conv)
  moreover have "policyOf b \<noteq> SyncPolicyOnRemoteChange" "policyOf b \<noteq> SyncPolicyOnWebhook"
    using assms(4,7) by (auto simp: policyOf_def)
  moreover have "with_finalizer (as_Meta b) = as_Meta b"
    using assms(10) by (simp add: with_finalizer_def)
  ultimately have "run_state (Reconcile E (akeyless_provider E) ns name) h2
      = ((requeue_after (requeueAfter (clock E (ds @ ?g @ h2)) b), None), ds @ ?g @ h2)"
    using assms(5,9) s due [of "ds @ ?g"]
    by (simp add: Reconcile_def reconcileLive_def k_get_as_def k_get_secret_def existing_not_due)
  moreover obtain rt where "ss_RefreshTime (as_Status b) = Some rt" using sy by (auto simp: synced_status_def)
  ultimately show ?thesis
    using r(2) assms(6)
    by (intro exI [of _ "ds @ ?g"] exI [of _ rt] exI [of _ "requeueAfter (clock E (ds @ ?g @ h2)) b"])
      (auto simp: quiet_def requeueAfter_def RequeueAfter_def refreshConfig_def Let_def)
qed

text \<open>A resource without mappings under the policy Periodic, whose Secret is there, before and after its first run.\<close>

definition new_as :: AkeylessSecret where
  "new_as = sample_as\<lparr>as_Meta := sample_meta\<lparr>om_Finalizers := [finalizer]\<rparr>,
     as_Spec := (as_Spec sample_as)\<lparr>asp_SyncPolicy := SyncPolicyPeriodic, asp_Data := []\<rparr>\<rparr>"

definition synced_as :: AkeylessSecret where
  "synced_as = new_as\<lparr>as_Status := \<lparr>ss_RefreshTime = Some 100, ss_SyncedGeneration = 1, ss_RemoteVersions = [],
     ss_Conditions = [\<lparr>cond_Type = SecretConditionReady, cond_Status = ConditionTrue,
       cond_Reason = ReasonSecretSynced, cond_Message = ''secret synced'', cond_LastTransitionTime = 100\<rparr>]\<rparr>\<rparr>"

definition creds_secret :: K8sSecret where
  "creds_secret = sample_secret\<lparr>sec_Data := [(''id'', ''p-1''), (''type'', ''api_key''), (''param'', ''k'')]\<rparr>"

definition ready_store :: AkeylessSecretStore where
  "ready_store = sample_store\<lparr>ast_Conditions := [\<lparr>cond_Type = StoreConditionReady, cond_Status = ConditionTrue,
     cond_Reason = [], cond_Message = [], cond_LastTransitionTime = 0\<rparr>]\<rparr>"

definition settling_env :: Env where
  "settling_env = sample_env\<lparr>clock := \<lambda>h. 100,
     getAS := \<lambda>h ns n. Inr (if length h = 1 then new_as else synced_as),
     getStore := \<lambda>h ns n. Inr ready_store,
     getSecretObj := \<lambda>h ns n. Inr (if n = ''creds'' then creds_secret else refreshedSecret sample_env sample_secret [])\<rparr>"

definition first_run :: "outcome \<times> history" where
  "first_run = run_state (Reconcile settling_env (akeyless_provider settling_env) ''app'' ''db'') []"

lemma first_run_status: "CStatusUpdate (OAS synced_as) \<in> set (snd first_run)"
  by code_simp

lemma settling_env_answers [simp]:
  "clock settling_env h = 100"
  "getStore settling_env h ns n = Inr ready_store"
  "getSecretObj settling_env h (om_Namespace (as_Meta synced_as)) (targetNameOf synced_as)
     = Inr (refreshedSecret sample_env sample_secret [])"
  "IsManagedSecretValid settling_env (Some (refreshedSecret sample_env sample_secret []))"
  by (simp_all add: settling_env_def synced_as_def new_as_def sample_as_def targetNameOf_def sample_target_def
      sample_meta_def IsManagedSecretValid_def refreshedSecret_def data_hash_def ObjectHash_def mget_str_mput)

lemma synced_as_fields [simp]:
  "ss_RefreshTime (as_Status synced_as) = Some 100"
  "ssr_Kind (asp_StoreRef (as_Spec synced_as)) = []"
  by (simp_all add: synced_as_def new_as_def sample_as_def)

lemma synced_as_interval: "interval (refreshConfig synced_as) = hour"
  by (simp add: interval_def refreshConfig_def synced_as_def new_as_def sample_as_def defaultSyncInterval_def
      normalizedPolicy_def)

lemma synced_as_settled: "settled settling_env synced_as h"
proof -
  have "storeIsReady (ast_Conditions ready_store)"
    by (simp add: ready_store_def storeIsReady_def)
  then show ?thesis
    by (simp add: settled_def synced_as_interval EnsureStoreReady_def storeKind_def IsNamespacedStoreReady_def
        k_get_store_def less_imp_le)
qed

theorem sync_settles_example:
  "\<exists>ds. run_state (Reconcile settling_env (akeyless_provider settling_env) ''app'' ''db'') (snd first_run)
     = ((requeue_after hour, None), ds @ snd first_run) \<and> list_all quiet ds"
proof -
  have "\<exists>ds rt delay. run_state (Reconcile settling_env (akeyless_provider settling_env) ''app'' ''db'') (snd first_run)
      = ((requeue_after delay, None), ds @ snd first_run) \<and> list_all quiet ds
    \<and> ss_RefreshTime (as_Status synced_as) = Some rt
    \<and> delay = (if clock settling_env (ds @ snd first_run) < rt + interval (refreshConfig synced_as)
               then rt + interval (refreshConfig synced_as) - clock settling_env (ds @ snd first_run)
               else interval (refreshConfig synced_as))"
  proof (rule sync_settles [where out = "fst first_run" and cs = "snd first_run" and h = "[]", OF _ first_run_status])
    show "run_state (Reconcile settling_env (akeyless_provider settling_env) ''app'' ''db'') []
        = (fst first_run, snd first_run @ [])"
      by (simp add: first_run_def)
    have "snd first_run \<noteq> []" using first_run_status by auto
    then show "getAS settling_env (CGet ''AkeylessSecret'' ''app'' ''db'' # snd first_run) ''app'' ''db'' = Inr synced_as"
      by (simp add: settling_env_def)
    show "settled settling_env synced_as (snd first_run)" by (rule synced_as_settled)
  qed (simp_all add: synced_as_def new_as_def ready_true_def sample_as_def sample_meta_def empty_meta_def
      ForceSyncPending_def)
  then show ?thesis by (auto simp: synced_as_interval)
qed

end
