(* ===== verification/Crd_Controller.thy ===== *)
theory Crd_Controller
  imports Resolvers Akeyless_Api Store
begin

text \<open>
  The controllers that keep the certificate of the webhooks: \<open>pkg/controllers/crds\<close> makes and renews
  it in a Secret and writes the CA into the conversion webhook of CustomResourceDefinitions, and
  \<open>pkg/controllers/webhookconfig\<close> writes it into the ValidatingWebhookConfiguration.  What
  \<open>crypto/x509\<close>, \<open>crypto/rsa\<close>, \<open>crypto/tls\<close> and \<open>encoding/pem\<close> do are fields of \<open>CrdEnv\<close>; a parsed
  certificate or key is its DER encoding.  Reading randomness is a call, so no two keys made have to
  be the same.
\<close>

section \<open>The environment\<close>

type_synonym Certificate = bytes
type_synonym PrivateKey = bytes

record CertTemplate =
  ct_SerialNumber :: int
  ct_CommonName :: string
  ct_Organization :: "string list"
  ct_DNSNames :: "string list"
  ct_NotBefore :: instant
  ct_NotAfter :: instant
  ct_KeyUsage :: "string list"
  ct_ExtKeyUsage :: "string list"
  ct_IsCA :: bool

text \<open>
  \<open>pemBlock\<close> is \<open>pem.Decode\<close>, the bytes of the first block and what follows it; \<open>createCertificate\<close> has no
  parent for a self-signed certificate.
\<close>

record CrdEnv =
  crw :: Env
  getCRD :: "history \<Rightarrow> string \<Rightarrow> string \<Rightarrow> err + CustomResourceDefinition"
  getVWC :: "history \<Rightarrow> string \<Rightarrow> string \<Rightarrow> err + ValidatingWebhookConfiguration"
  answeredSecret :: "history \<Rightarrow> K8sSecret \<Rightarrow> K8sSecret"
  pemBlock :: "bytes \<Rightarrow> (bytes \<times> bytes) option"
  pemEncodeBlock :: "string \<Rightarrow> bytes \<Rightarrow> err + bytes"
  parseCert :: "bytes \<Rightarrow> err + Certificate"
  parseKey :: "bytes \<Rightarrow> err + PrivateKey"
  marshalKey :: "PrivateKey \<Rightarrow> bytes"
  x509KeyPair :: "bytes \<Rightarrow> bytes \<Rightarrow> err option"
  verifyCert :: "Certificate \<Rightarrow> string \<Rightarrow> Certificate list \<Rightarrow> instant \<Rightarrow> err option"
  generateKey :: "history \<Rightarrow> err + PrivateKey"
  createCertificate :: "history \<Rightarrow> CertTemplate \<Rightarrow> Certificate option \<Rightarrow> PrivateKey \<Rightarrow> PrivateKey \<Rightarrow> err + bytes"
  statFile :: "history \<Rightarrow> string \<Rightarrow> err option"
  joinPath :: "string \<Rightarrow> string \<Rightarrow> string"

definition crd_get :: "CrdEnv \<Rightarrow> string \<Rightarrow> string \<Rightarrow> (err + CustomResourceDefinition) io" where
  "crd_get W ns n = ask (CGet ''CustomResourceDefinition'' ns n) (\<lambda>h. getCRD W h ns n)"

definition vwc_get :: "CrdEnv \<Rightarrow> string \<Rightarrow> string \<Rightarrow> (err + ValidatingWebhookConfiguration) io" where
  "vwc_get W ns n = ask (CGet ''ValidatingWebhookConfiguration'' ns n) (\<lambda>h. getVWC W h ns n)"

definition secret_update :: "CrdEnv \<Rightarrow> K8sSecret \<Rightarrow> (err option \<times> K8sSecret) io" where
  "secret_update W s = ask (CUpdate (OSecret s)) (\<lambda>h. case writeErr (crw W) h of
     Some e \<Rightarrow> (Some e, s) | None \<Rightarrow> (None, answeredSecret W h s))"

definition random_source :: string where "random_source = ''crypto/rand''"

definition GenerateKey :: "CrdEnv \<Rightarrow> (err + PrivateKey) io" where
  "GenerateKey W = ask (CReadFile random_source) (generateKey W)"

definition CreateCertificate ::
  "CrdEnv \<Rightarrow> CertTemplate \<Rightarrow> Certificate option \<Rightarrow> PrivateKey \<Rightarrow> PrivateKey \<Rightarrow> (err + bytes) io" where
  "CreateCertificate W templ parent pub priv =
     ask (CReadFile random_source) (\<lambda>h. createCertificate W h templ parent pub priv)"

section \<open>The reconciler\<close>

definition certName :: string where "certName = ''tls.crt''"
definition keyName :: string where "keyName = ''tls.key''"
definition caCertName :: string where "caCertName = ''ca.crt''"
definition caKeyName :: string where "caKeyName = ''ca.key''"

definition certValidityDuration :: duration where "certValidityDuration = 10 * 365 * 24 * hour"
definition LookaheadInterval :: duration where "LookaheadInterval = 90 * 24 * hour"

record CrdReconciler =
  crr_SvcName :: string
  crr_SvcNamespace :: string
  crr_SecretName :: string
  crr_SecretNamespace :: string
  crr_CrdResources :: "string list"
  crr_dnsName :: string
  crr_CAName :: string
  crr_CAChainName :: string
  crr_CAOrganization :: string
  crr_RequeueInterval :: duration
  crr_leaderElected :: bool
  crr_readyStatusMap :: "bool gomap"

record CrdOpts =
  cro_SvcName :: string
  cro_SvcNamespace :: string
  cro_SecretName :: string
  cro_SecretNamespace :: string
  cro_Resources :: "string list"

definition crd_New :: "duration \<Rightarrow> CrdOpts \<Rightarrow> CrdReconciler" where
  "crd_New interval opts = \<lparr>
     crr_SvcName = cro_SvcName opts, crr_SvcNamespace = cro_SvcNamespace opts,
     crr_SecretName = cro_SecretName opts, crr_SecretNamespace = cro_SecretNamespace opts,
     crr_CrdResources = cro_Resources opts, crr_dnsName = [],
     crr_CAName = ''external-secrets'', crr_CAChainName = [], crr_CAOrganization = ''external-secrets'',
     crr_RequeueInterval = interval, crr_leaderElected = False, crr_readyStatusMap = []\<rparr>"

text \<open>\<open>None\<close> is the nil pointer.\<close>

record KeyPairArtifacts =
  kpa_Cert :: Certificate
  kpa_Key :: PrivateKey
  kpa_CertPEM :: bytes
  kpa_KeyPEM :: bytes

section \<open>Injecting into a CustomResourceDefinition\<close>

definition unexpected_conversion :: err where
  "unexpected_conversion = ErrMsg ''unexpected crd conversion webhook config''"

text \<open>The client configuration of the conversion webhook, when every pointer to it is set.\<close>

definition set_client_config ::
  "CustomResourceDefinition \<Rightarrow> CustomResourceConversion \<Rightarrow> WebhookClientConfig \<Rightarrow> CustomResourceDefinition" where
  "set_client_config crd conv cc = crd\<lparr>crd_Conversion := Some (conv\<lparr>crc_Webhook := Some (Some cc)\<rparr>)\<rparr>"

definition injectService ::
  "CustomResourceDefinition \<Rightarrow> string \<Rightarrow> string \<Rightarrow> err + CustomResourceDefinition" where
  "injectService crd svcName svcNamespace = (case crd_Conversion crd of
     None \<Rightarrow> Inl unexpected_conversion
   | Some conv \<Rightarrow>
       if crc_Strategy conv = NoneConverter then Inr crd
       else (case crc_Webhook conv of
         Some (Some cc) \<Rightarrow> (case wcc_Service cc of
             None \<Rightarrow> Inl unexpected_conversion
           | Some svc \<Rightarrow> Inr (set_client_config crd conv
               (cc\<lparr>wcc_Service := Some (svc\<lparr>svr_Namespace := svcNamespace, svr_Name := svcName\<rparr>)\<rparr>)))
       | _ \<Rightarrow> Inl unexpected_conversion))"

definition injectCert ::
  "CustomResourceDefinition \<Rightarrow> bytes \<Rightarrow> err + CustomResourceDefinition" where
  "injectCert crd certPem = (case crd_Conversion crd of
     None \<Rightarrow> Inl unexpected_conversion
   | Some conv \<Rightarrow>
       if crc_Strategy conv = NoneConverter then Inr crd
       else (case crc_Webhook conv of
         Some (Some cc) \<Rightarrow> Inr (set_client_config crd conv (cc\<lparr>wcc_CABundle := certPem\<rparr>))
       | _ \<Rightarrow> Inl unexpected_conversion))"

section \<open>Validity\<close>

definition populateSecret :: "bytes \<Rightarrow> bytes \<Rightarrow> KeyPairArtifacts \<Rightarrow> K8sSecret \<Rightarrow> K8sSecret" where
  "populateSecret cert key caArtifacts secret = secret\<lparr>sec_Data :=
     mput keyName key (mput certName cert (mput caKeyName (kpa_KeyPEM caArtifacts)
       (mput caCertName (kpa_CertPEM caArtifacts) (sec_Data secret))))\<rparr>"

definition verify_chain ::
  "CrdEnv \<Rightarrow> bytes \<Rightarrow> Certificate list \<Rightarrow> string \<Rightarrow> instant \<Rightarrow> bool \<times> err option" where
  "verify_chain W der pool dnsName at = (case parseCert W der of
     Inl e \<Rightarrow> (False, Some e)
   | Inr crt \<Rightarrow> (case verifyCert W crt dnsName pool at of
       Some e \<Rightarrow> (False, Some e)
     | None \<Rightarrow> (True, None)))"

text \<open>What follows the first block is taken for another one, without a check that there is one.\<close>

definition ValidCert ::
  "CrdEnv \<Rightarrow> bytes \<Rightarrow> bytes \<Rightarrow> bytes \<Rightarrow> string \<Rightarrow> instant \<Rightarrow> (bool \<times> err option) guarded" where
  "ValidCert W caCert cert key dnsName at =
     (if length caCert = 0 \<or> length cert = 0 \<or> length key = 0 then GoRet (False, Some (ErrMsg ''empty cert''))
      else (case pemBlock W caCert of
        None \<Rightarrow> GoRet (False, Some (ErrMsg ''bad CA cert''))
      | Some (caDer, _) \<Rightarrow> (case parseCert W caDer of
          Inl e \<Rightarrow> GoRet (False, Some e)
        | Inr cac \<Rightarrow> (case x509KeyPair W cert key of
            Some e \<Rightarrow> GoRet (False, Some e)
          | None \<Rightarrow> (case pemBlock W cert of
              None \<Rightarrow> GoRet (False, None)
            | Some (b, rest) \<Rightarrow>
                if length rest > 0 then (case pemBlock W rest of
                    None \<Rightarrow> GoPanic
                  | Some (intermediate, _) \<Rightarrow> (case parseCert W intermediate of
                      Inl e \<Rightarrow> GoRet (False, Some e)
                    | Inr chained \<Rightarrow> GoRet (verify_chain W b [cac, chained] dnsName at)))
                else GoRet (verify_chain W b [cac] dnsName at))))))"

definition lookaheadTime :: "CrdEnv \<Rightarrow> instant io" where
  "lookaheadTime W = do { t \<leftarrow> now (crw W); ret (t + LookaheadInterval) }"

text \<open>An error counts as not valid.\<close>

definition no_error :: "(bool \<times> err option) guarded \<Rightarrow> bool guarded" where
  "no_error r = (case r of GoPanic \<Rightarrow> GoPanic | GoRet (valid, e) \<Rightarrow> GoRet (if e \<noteq> None then False else valid))"

definition validServerCert :: "CrdEnv \<Rightarrow> CrdReconciler \<Rightarrow> bytes \<Rightarrow> bytes \<Rightarrow> bytes \<Rightarrow> bool guarded io" where
  "validServerCert W R caCert cert key = do {
     at \<leftarrow> lookaheadTime W;
     ret (no_error (ValidCert W caCert cert key (crr_dnsName R) at))
   }"

definition validCACert :: "CrdEnv \<Rightarrow> CrdReconciler \<Rightarrow> bytes \<Rightarrow> bytes \<Rightarrow> bool guarded io" where
  "validCACert W R cert key = do {
     at \<leftarrow> lookaheadTime W;
     ret (no_error (ValidCert W cert cert key (crr_CAName R) at))
   }"

section \<open>Making certificates\<close>

definition pemEncode :: "CrdEnv \<Rightarrow> bytes \<Rightarrow> PrivateKey \<Rightarrow> err + bytes \<times> bytes" where
  "pemEncode W certificateDER key = (case pemEncodeBlock W ''CERTIFICATE'' certificateDER of
     Inl e \<Rightarrow> Inl e
   | Inr cert \<Rightarrow> (case pemEncodeBlock W ''RSA PRIVATE KEY'' (marshalKey W key) of
       Inl e \<Rightarrow> Inl e
     | Inr k \<Rightarrow> Inr (cert, k)))"

text \<open>What the three functions that make certificates share: a new key, the certificate, their PEM forms.\<close>

definition issue ::
  "CrdEnv \<Rightarrow> CertTemplate \<Rightarrow> (Certificate \<times> PrivateKey) option
   \<Rightarrow> (err + PrivateKey \<times> bytes \<times> bytes \<times> bytes) io" where
  "issue W templ ca = do {
     k \<leftarrow> GenerateKey W;
     case k of
       Inl e \<Rightarrow> ret (Inl e)
     | Inr key \<Rightarrow> do {
         d \<leftarrow> (case ca of
             None \<Rightarrow> CreateCertificate W templ None key key
           | Some (caCert, caKey) \<Rightarrow> CreateCertificate W templ (Some caCert) key caKey);
         ret (case d of
           Inl e \<Rightarrow> Inl e
         | Inr der \<Rightarrow> (case pemEncode W der key of
             Inl e \<Rightarrow> Inl e
           | Inr (certPEM, keyPEM) \<Rightarrow> Inr (key, der, certPEM, keyPEM)))
       }
   }"

definition artifacts_of ::
  "CrdEnv \<Rightarrow> err + PrivateKey \<times> bytes \<times> bytes \<times> bytes \<Rightarrow> err + KeyPairArtifacts" where
  "artifacts_of W r = (case r of
     Inl e \<Rightarrow> Inl e
   | Inr (key, der, certPEM, keyPEM) \<Rightarrow> (case parseCert W der of
       Inl e \<Rightarrow> Inl e
     | Inr cert \<Rightarrow> Inr \<lparr>kpa_Cert = cert, kpa_Key = key, kpa_CertPEM = certPEM, kpa_KeyPEM = keyPEM\<rparr>))"

definition ca_template :: "int \<Rightarrow> string \<Rightarrow> string \<Rightarrow> instant \<Rightarrow> instant \<Rightarrow> CertTemplate" where
  "ca_template serial name organization begin end = \<lparr>
     ct_SerialNumber = serial, ct_CommonName = name, ct_Organization = [organization], ct_DNSNames = [name],
     ct_NotBefore = begin, ct_NotAfter = end,
     ct_KeyUsage = [''DigitalSignature'', ''KeyEncipherment'', ''CertSign''], ct_ExtKeyUsage = [], ct_IsCA = True\<rparr>"

definition CreateCACert ::
  "CrdEnv \<Rightarrow> CrdReconciler \<Rightarrow> instant \<Rightarrow> instant \<Rightarrow> (err + KeyPairArtifacts) io" where
  "CreateCACert W R begin end = do {
     r \<leftarrow> issue W (ca_template 0 (crr_CAName R) (crr_CAOrganization R) begin end) None;
     ret (artifacts_of W r)
   }"

definition CreateCAChain ::
  "CrdEnv \<Rightarrow> CrdReconciler \<Rightarrow> KeyPairArtifacts \<Rightarrow> instant \<Rightarrow> instant \<Rightarrow> (err + KeyPairArtifacts) io" where
  "CreateCAChain W R ca begin end = do {
     r \<leftarrow> issue W (ca_template 2 (crr_CAChainName R) (crr_CAOrganization R) begin end)
       (Some (kpa_Cert ca, kpa_Key ca));
     ret (artifacts_of W r)
   }"

definition server_template :: "string \<Rightarrow> instant \<Rightarrow> instant \<Rightarrow> CertTemplate" where
  "server_template dnsName begin end = \<lparr>
     ct_SerialNumber = 1, ct_CommonName = dnsName, ct_Organization = [], ct_DNSNames = [dnsName],
     ct_NotBefore = begin, ct_NotAfter = end,
     ct_KeyUsage = [''DigitalSignature'', ''KeyEncipherment''], ct_ExtKeyUsage = [''ServerAuth''],
     ct_IsCA = False\<rparr>"

text \<open>The nil pointer is followed after the key was made.\<close>

definition CreateCertPEM ::
  "CrdEnv \<Rightarrow> CrdReconciler \<Rightarrow> KeyPairArtifacts option \<Rightarrow> instant \<Rightarrow> instant
   \<Rightarrow> (err + bytes \<times> bytes) guarded io" where
  "CreateCertPEM W R ca begin end = (case ca of
     None \<Rightarrow> do {
       k \<leftarrow> GenerateKey W;
       ret (case k of Inl e \<Rightarrow> GoRet (Inl e) | Inr _ \<Rightarrow> GoPanic)
     }
   | Some a \<Rightarrow> do {
       r \<leftarrow> issue W (server_template (crr_dnsName R) begin end) (Some (kpa_Cert a, kpa_Key a));
       ret (GoRet (case r of Inl e \<Rightarrow> Inl e | Inr (key, der, certPEM, keyPEM) \<Rightarrow> Inr (certPEM, keyPEM)))
     })"

text \<open>A key that is not a PEM block gives the nil pointer and no error.\<close>

definition buildArtifactsFromSecret :: "CrdEnv \<Rightarrow> K8sSecret \<Rightarrow> err + KeyPairArtifacts option" where
  "buildArtifactsFromSecret W secret = (case mget (sec_Data secret) caCertName of
     None \<Rightarrow> Inl (ErrMsg (''cert secret is not well-formed, missing '' @ caCertName))
   | Some caPem \<Rightarrow> (case mget (sec_Data secret) caKeyName of
       None \<Rightarrow> Inl (ErrMsg (''cert secret is not well-formed, missing '' @ caKeyName))
     | Some keyPem \<Rightarrow> (case pemBlock W caPem of
         None \<Rightarrow> Inl (ErrMsg ''bad CA cert'')
       | Some (caDer, _) \<Rightarrow> (case parseCert W caDer of
           Inl e \<Rightarrow> Inl e
         | Inr caCert \<Rightarrow> (case pemBlock W keyPem of
             None \<Rightarrow> Inr None
           | Some (keyDer, _) \<Rightarrow> (case parseKey W keyDer of
               Inl e \<Rightarrow> Inl e
             | Inr key \<Rightarrow> Inr (Some \<lparr>kpa_Cert = caCert, kpa_Key = key, kpa_CertPEM = caPem,
                 kpa_KeyPEM = keyPem\<rparr>)))))))"

text \<open>The artifacts are not nil here: \<open>CreateCertPEM\<close> has used them.\<close>

definition writeSecret ::
  "CrdEnv \<Rightarrow> bytes \<Rightarrow> bytes \<Rightarrow> KeyPairArtifacts \<Rightarrow> K8sSecret \<Rightarrow> (err option \<times> K8sSecret) io" where
  "writeSecret W cert key caArtifacts secret = secret_update W (populateSecret cert key caArtifacts secret)"

definition refreshCerts ::
  "CrdEnv \<Rightarrow> CrdReconciler \<Rightarrow> bool \<Rightarrow> K8sSecret \<Rightarrow> (err option guarded \<times> K8sSecret) io" where
  "refreshCerts W R refreshCA secret = do {
     t \<leftarrow> now (crw W);
     let begin = t - hour;
     let end = t + certValidityDuration;
     ca \<leftarrow> (if refreshCA then do { a \<leftarrow> CreateCACert W R begin end; ret (map_sum id Some a) }
            else ret (buildArtifactsFromSecret W secret));
     case ca of
       Inl e \<Rightarrow> ret (GoRet (Some e), secret)
     | Inr caArtifacts \<Rightarrow> do {
         c \<leftarrow> CreateCertPEM W R caArtifacts begin end;
         case c of
           GoPanic \<Rightarrow> ret (GoPanic, secret)
         | GoRet (Inl e) \<Rightarrow> ret (GoRet (Some e), secret)
         | GoRet (Inr (cert, key)) \<Rightarrow> (case caArtifacts of
             None \<Rightarrow> ret (GoPanic, secret)
           | Some a \<Rightarrow> do {
               (w, secret') \<leftarrow> writeSecret W cert key a secret;
               ret (GoRet w, secret')
             })
       }
   }"

text \<open>The result is true whenever there is no error.\<close>

definition refreshed :: "err option guarded \<times> K8sSecret \<Rightarrow> (err + bool) guarded \<times> K8sSecret" where
  "refreshed r = (case r of
     (GoPanic, s) \<Rightarrow> (GoPanic, s)
   | (GoRet (Some e), s) \<Rightarrow> (GoRet (Inl e), s)
   | (GoRet None, s) \<Rightarrow> (GoRet (Inr True), s))"

definition refreshCertIfNeeded ::
  "CrdEnv \<Rightarrow> CrdReconciler \<Rightarrow> K8sSecret \<Rightarrow> ((err + bool) guarded \<times> K8sSecret) io" where
  "refreshCertIfNeeded W R secret =
     (let d = sec_Data secret in do {
        ca \<leftarrow> (if d = [] then ret (GoRet False) else validCACert W R (mget_str d caCertName) (mget_str d caKeyName));
        case ca of
          GoPanic \<Rightarrow> ret (GoPanic, secret)
        | GoRet False \<Rightarrow> do { r \<leftarrow> refreshCerts W R True secret; ret (refreshed r) }
        | GoRet True \<Rightarrow> do {
            v \<leftarrow> validServerCert W R (mget_str d caCertName) (mget_str d certName) (mget_str d keyName);
            case v of
              GoPanic \<Rightarrow> ret (GoPanic, secret)
            | GoRet False \<Rightarrow> do { r \<leftarrow> refreshCerts W R False secret; ret (refreshed r) }
            | GoRet True \<Rightarrow> ret (GoRet (Inr True), secret)
          }
      })"

section \<open>Reconcile\<close>

definition service_dns_name :: "CrdReconciler \<Rightarrow> string" where
  "service_dns_name R = crr_SvcName R @ ''.'' @ crr_SvcNamespace R @ ''.svc''"

text \<open>The CA is taken from the Secret as it is in memory after the refresh.\<close>

definition inject_ca :: "CrdEnv \<Rightarrow> K8sSecret \<Rightarrow> CustomResourceDefinition \<Rightarrow> (err + CustomResourceDefinition) guarded" where
  "inject_ca W secret crd = (case buildArtifactsFromSecret W secret of
     Inl e \<Rightarrow> GoRet (Inl e)
   | Inr None \<Rightarrow> GoPanic
   | Inr (Some artifacts) \<Rightarrow> GoRet (injectCert crd (kpa_CertPEM artifacts)))"

definition write_crd ::
  "CrdEnv \<Rightarrow> CustomResourceDefinition \<Rightarrow> CustomResourceDefinition \<Rightarrow> err option io" where
  "write_crd W before updated = (if updated \<noteq> before then k_write (crw W) (CUpdate (OCRD updated)) else ret None)"

definition updateCRD ::
  "CrdEnv \<Rightarrow> CrdReconciler \<Rightarrow> string \<Rightarrow> string \<Rightarrow> (err option guarded \<times> CrdReconciler) io" where
  "updateCRD W R ns name = do {
     g \<leftarrow> k_get_secret (crw W) (crr_SecretNamespace R) (crr_SecretName R);
     case g of
       Inl e \<Rightarrow> ret (GoRet (Some e), R)
     | Inr secret \<Rightarrow> do {
         c \<leftarrow> crd_get W ns name;
         case c of
           Inl e \<Rightarrow> ret (GoRet (Some e), R)
         | Inr before \<Rightarrow> (case injectService before (crr_SvcName R) (crr_SvcNamespace R) of
             Inl e \<Rightarrow> ret (GoRet (Some e), R)
           | Inr updated \<Rightarrow>
               (let R' = R\<lparr>crr_dnsName := service_dns_name R\<rparr> in do {
                  (need, secret') \<leftarrow> refreshCertIfNeeded W R' secret;
                  case need of
                    GoPanic \<Rightarrow> ret (GoPanic, R')
                  | GoRet (Inl e) \<Rightarrow> ret (GoRet (Some e), R')
                  | GoRet (Inr n) \<Rightarrow>
                      (case (if n then inject_ca W secret' updated else GoRet (Inr updated)) of
                         GoPanic \<Rightarrow> ret (GoPanic, R')
                       | GoRet (Inl e) \<Rightarrow> ret (GoRet (Some e), R')
                       | GoRet (Inr updated') \<Rightarrow> do {
                           w \<leftarrow> write_crd W before updated';
                           ret (GoRet w, R')
                         })
                }))
       }
   }"

definition set_ready :: "string \<Rightarrow> bool \<Rightarrow> CrdReconciler \<Rightarrow> CrdReconciler" where
  "set_ready name b R = R\<lparr>crr_readyStatusMap := mput name b (crr_readyStatusMap R)\<rparr>"

definition crd_Reconcile ::
  "CrdEnv \<Rightarrow> CrdReconciler \<Rightarrow> string \<Rightarrow> string \<Rightarrow> (outcome guarded \<times> CrdReconciler) io" where
  "crd_Reconcile W R ns name =
     (if name \<in> set (crr_CrdResources R) then do {
        (r, R') \<leftarrow> updateCRD W R ns name;
        case r of
          GoPanic \<Rightarrow> ret (GoPanic, R')
        | GoRet (Some e) \<Rightarrow> ret (GoRet (no_requeue, Some e), set_ready name False R')
        | GoRet None \<Rightarrow> ret (GoRet (requeue_after (crr_RequeueInterval R'), None), set_ready name True R')
      }
      else ret (GoRet (requeue_after (crr_RequeueInterval R), None), R))"

section \<open>Readiness\<close>

definition resource_ready :: "bool gomap \<Rightarrow> string \<Rightarrow> bool" where
  "resource_ready m res = (case mget m res of None \<Rightarrow> False | Some b \<Rightarrow> b)"

fun check_resources :: "bool gomap \<Rightarrow> string list \<Rightarrow> err option" where
  "check_resources m [] = None"
| "check_resources m (res # rs) =
     (if \<not> resource_ready m res then Some (ErrMsg (''resource not ready: '' @ res)) else check_resources m rs)"

definition checkCRDs :: "CrdReconciler \<Rightarrow> err option" where
  "checkCRDs R = check_resources (crr_readyStatusMap R) (crr_CrdResources R)"

text \<open>\<open>elected\<close> says whether the channel of the manager is closed by now.\<close>

definition crd_ReadyCheck :: "CrdEnv \<Rightarrow> bool \<Rightarrow> CrdReconciler \<Rightarrow> (err option \<times> CrdReconciler) io" where
  "crd_ReadyCheck W elected R =
     (if \<not> crr_leaderElected R \<and> \<not> elected then ret (None, R)
      else (let R' = R\<lparr>crr_leaderElected := True\<rparr> in
        case checkCRDs R' of
          Some e \<Rightarrow> ret (Some e, R')
        | None \<Rightarrow> do {
            e \<leftarrow> CheckEndpointSlicesReady (crw W) (crr_SvcName R') (crr_SvcNamespace R');
            ret (e, R')
          }))"

section \<open>Certificates in files\<close>

record CertInfo =
  ci_CertDir :: string
  ci_CertName :: string
  ci_KeyName :: string
  ci_CAName :: string

definition cert_file :: "CrdEnv \<Rightarrow> string \<Rightarrow> string \<Rightarrow> (err + bytes) io" where
  "cert_file W dir name = ask (CReadFile (joinPath W dir name)) (readFile (crw W))"

definition CheckCerts :: "CrdEnv \<Rightarrow> CertInfo \<Rightarrow> string \<Rightarrow> instant \<Rightarrow> err option guarded io" where
  "CheckCerts W c dnsName at = do {
     s \<leftarrow> State (\<lambda>h. (statFile W h (joinPath W (ci_CertDir c) (ci_CertName c)), h));
     case s of
       Some e \<Rightarrow> ret (GoRet (Some e))
     | None \<Rightarrow> do {
         ca \<leftarrow> cert_file W (ci_CertDir c) (ci_CAName c);
         case ca of
           Inl e \<Rightarrow> ret (GoRet (Some e))
         | Inr caPem \<Rightarrow> do {
             cert \<leftarrow> cert_file W (ci_CertDir c) (ci_CertName c);
             case cert of
               Inl e \<Rightarrow> ret (GoRet (Some e))
             | Inr certPem \<Rightarrow> do {
                 key \<leftarrow> cert_file W (ci_CertDir c) (ci_KeyName c);
                 ret (case key of
                   Inl e \<Rightarrow> GoRet (Some e)
                 | Inr keyPem \<Rightarrow> (case ValidCert W caPem certPem keyPem dnsName at of
                     GoPanic \<Rightarrow> GoPanic
                   | GoRet (ok, Some e) \<Rightarrow> GoRet (Some e)
                   | GoRet (ok, None) \<Rightarrow> GoRet (if ok then None else Some (ErrMsg ''certificate is not valid''))))
               }
           }
       }
   }"

section \<open>The webhook configuration\<close>

definition WellKnownLabelKey :: string where "WellKnownLabelKey = ''external-secrets.io/component''"
definition WellKnownLabelValueWebhook :: string where "WellKnownLabelValueWebhook = ''webhook''"

record WhReconciler =
  whr_RequeueDuration :: duration
  whr_SvcName :: string
  whr_SvcNamespace :: string
  whr_SecretName :: string
  whr_SecretNamespace :: string
  whr_leaderElected :: bool
  whr_webhookReady :: bool

record WhOpts =
  who_SvcName :: string
  who_SvcNamespace :: string
  who_SecretName :: string
  who_SecretNamespace :: string
  who_RequeueInterval :: duration

definition wh_New :: "WhOpts \<Rightarrow> WhReconciler" where
  "wh_New opts = \<lparr>whr_RequeueDuration = who_RequeueInterval opts, whr_SvcName = who_SvcName opts,
     whr_SvcNamespace = who_SvcNamespace opts, whr_SecretName = who_SecretName opts,
     whr_SecretNamespace = who_SecretNamespace opts, whr_leaderElected = False, whr_webhookReady = False\<rparr>"

text \<open>A webhook that is reached by URL has no service; following the pointer panics.\<close>

fun inject_webhooks :: "string \<Rightarrow> string \<Rightarrow> bytes \<Rightarrow> ValidatingWebhook list \<Rightarrow> ValidatingWebhook list guarded" where
  "inject_webhooks svcName svcNamespace certData [] = GoRet []"
| "inject_webhooks svcName svcNamespace certData (w # ws) =
     (if \<not> HasSuffix (vw_Name w) ''external-secrets.io'' then
        (case inject_webhooks svcName svcNamespace certData ws of
           GoPanic \<Rightarrow> GoPanic | GoRet ws' \<Rightarrow> GoRet (w # ws'))
      else (case wcc_Service (vw_ClientConfig w) of
        None \<Rightarrow> GoPanic
      | Some svc \<Rightarrow> (case inject_webhooks svcName svcNamespace certData ws of
          GoPanic \<Rightarrow> GoPanic
        | GoRet ws' \<Rightarrow> GoRet (w\<lparr>vw_ClientConfig := (vw_ClientConfig w)\<lparr>
            wcc_Service := Some (svc\<lparr>svr_Name := svcName, svr_Namespace := svcNamespace\<rparr>),
            wcc_CABundle := certData\<rparr>\<rparr> # ws'))))"

definition wh_updateConfig ::
  "CrdEnv \<Rightarrow> WhReconciler \<Rightarrow> ValidatingWebhookConfiguration \<Rightarrow> err option guarded io" where
  "wh_updateConfig W R cfg = do {
     g \<leftarrow> k_get_secret (crw W) (whr_SecretNamespace R) (whr_SecretName R);
     case g of
       Inl e \<Rightarrow> ret (GoRet (Some e))
     | Inr secret \<Rightarrow> (case mget (sec_Data secret) caCertName of
         None \<Rightarrow> ret (GoRet (Some (ErrMsg ''ca cert not yet ready'')))
       | Some crt \<Rightarrow> (case inject_webhooks (whr_SvcName R) (whr_SvcNamespace R) crt (vwc_Webhooks cfg) of
           GoPanic \<Rightarrow> ret GoPanic
         | GoRet webhooks \<Rightarrow>
             (let cfg' = cfg\<lparr>vwc_Webhooks := webhooks\<rparr> in
              if cfg' \<noteq> cfg then do {
                w \<leftarrow> k_write (crw W) (CUpdate (OVWC cfg'));
                ret (GoRet w)
              } else ret (GoRet None))))
   }"

definition wh_Reconcile ::
  "CrdEnv \<Rightarrow> WhReconciler \<Rightarrow> string \<Rightarrow> string \<Rightarrow> (outcome guarded \<times> WhReconciler) io" where
  "wh_Reconcile W R ns name = do {
     g \<leftarrow> vwc_get W ns name;
     case g of
       Inl e \<Rightarrow> ret (GoRet (no_requeue, if is_not_found e then None else Some e), R)
     | Inr cfg \<Rightarrow>
         if mget_str (om_Labels (vwc_Meta cfg)) WellKnownLabelKey \<noteq> WellKnownLabelValueWebhook
         then ret (GoRet (no_requeue, None), R)
         else do {
           r \<leftarrow> wh_updateConfig W R cfg;
           case r of
             GoPanic \<Rightarrow> ret (GoPanic, R)
           | GoRet (Some e) \<Rightarrow> do {
               _ \<leftarrow> k_event ''Warning'' ''UpdateFailed'' (err_string e);
               ret (GoRet (requeue_after minute, Some e), R)
             }
           | GoRet None \<Rightarrow> ret (GoRet (requeue_after (whr_RequeueDuration R), None), R\<lparr>whr_webhookReady := True\<rparr>)
         }
   }"

definition wh_ReadyCheck :: "CrdEnv \<Rightarrow> bool \<Rightarrow> WhReconciler \<Rightarrow> (err option \<times> WhReconciler) io" where
  "wh_ReadyCheck W elected R =
     (if \<not> whr_leaderElected R \<and> \<not> elected then ret (None, R)
      else (let R' = R\<lparr>whr_leaderElected := True\<rparr> in
        if \<not> whr_webhookReady R' then ret (Some (ErrMsg ''webhook not ready''), R')
        else do {
          e \<leftarrow> CheckEndpointSlicesReady (crw W) (whr_SvcName R') (whr_SvcNamespace R');
          ret (e, R')
        }))"

end
