(* ===== verification/Crd_Laws.thy ===== *)
theory Crd_Laws
  imports Crd_Controller Reconcile_Laws
begin

text \<open>
  What the certificate controllers write: the Secret is renewed only when something in it is not valid
  ninety days ahead, the CA is kept while it is valid, and what is made is accepted by the checks for
  almost ten years.  A certificate with anything behind its first block makes the reconciler panic.
\<close>

section \<open>Validity of a Secret\<close>

definition ca_ok :: "CrdEnv \<Rightarrow> CrdReconciler \<Rightarrow> K8sSecret \<Rightarrow> instant \<Rightarrow> bool" where
  "ca_ok W R s t \<longleftrightarrow> ValidCert W (mget_str (sec_Data s) caCertName) (mget_str (sec_Data s) caCertName)
     (mget_str (sec_Data s) caKeyName) (crr_CAName R) (t + LookaheadInterval) = GoRet (True, None)"

definition server_ok :: "CrdEnv \<Rightarrow> CrdReconciler \<Rightarrow> K8sSecret \<Rightarrow> instant \<Rightarrow> bool" where
  "server_ok W R s t \<longleftrightarrow> ValidCert W (mget_str (sec_Data s) caCertName) (mget_str (sec_Data s) certName)
     (mget_str (sec_Data s) keyName) (service_dns_name R) (t + LookaheadInterval) = GoRet (True, None)"

lemma verify_chain_cases:
  obtains "verify_chain W b pool n t = (True, None)" | e where "verify_chain W b pool n t = (False, Some e)"
  by (cases "parseCert W b"; simp add: verify_chain_def) (metis option.simps(4,5) option.exhaust)

lemma no_error_True: "no_error r = GoRet True \<longleftrightarrow> r = GoRet (True, None)"
  by (auto simp: no_error_def split: guarded.splits)

lemma ValidCert_empty: "ValidCert W [] c k n t \<noteq> GoRet (True, None)"
  by (simp add: ValidCert_def)

section \<open>Parts that write nothing\<close>

lemma performs_GenerateKey [performs_intros]: "performs quiet (GenerateKey W)"
  unfolding GenerateKey_def by (intro performs_intros) (simp add: quiet_def)

lemma performs_CreateCertificate [performs_intros]: "performs quiet (CreateCertificate W t p k k')"
  unfolding CreateCertificate_def by (intro performs_intros) (simp add: quiet_def)

lemma performs_issue [performs_intros]: "performs quiet (issue W templ ca)"
  unfolding issue_def by (intro performs_intros)

lemma performs_CreateCACert [performs_intros]: "performs quiet (CreateCACert W R begin end)"
  unfolding CreateCACert_def by (intro performs_intros)

lemma performs_CreateCertPEM [performs_intros]: "performs quiet (CreateCertPEM W R ca begin end)"
  unfolding CreateCertPEM_def by (intro performs_intros)

section \<open>Making and writing certificates\<close>

text \<open>
  The artifacts of the CA a refresh uses: new ones, or those of the Secret; then a server certificate
  is made with them.
\<close>

definition ca_made ::
  "CrdEnv \<Rightarrow> CrdReconciler \<Rightarrow> bool \<Rightarrow> K8sSecret \<Rightarrow> history \<Rightarrow> KeyPairArtifacts \<Rightarrow> history \<Rightarrow> bool" where
  "ca_made W R refreshCA s h a h1 \<longleftrightarrow> (let t = clock (crw W) h in
     if refreshCA then run_state (CreateCACert W R (t - hour) (t + certValidityDuration)) h = (Inr a, h1)
     else buildArtifactsFromSecret W s = Inr (Some a) \<and> h1 = h)"

definition certs_made ::
  "CrdEnv \<Rightarrow> CrdReconciler \<Rightarrow> bool \<Rightarrow> K8sSecret \<Rightarrow> history \<Rightarrow> K8sSecret \<Rightarrow> history \<Rightarrow> bool" where
  "certs_made W R refreshCA s h s' h2 \<longleftrightarrow> (\<exists>a h1 cert key. ca_made W R refreshCA s h a h1
     \<and> run_state (CreateCertPEM W R (Some a) (clock (crw W) h - hour) (clock (crw W) h + certValidityDuration)) h1
         = (GoRet (Inr (cert, key)), h2)
     \<and> s' = populateSecret cert key a s)"

text \<open>A refresh fails without a write, or it makes certificates and writes them.\<close>

lemma refreshCerts_run:
  assumes "run_state (refreshCerts W R refreshCA s) h = ((r, s'), h')"
  obtains (failed) cs where "h' = cs @ h" "list_all quiet cs" "r \<noteq> GoRet None" "s' = s"
  | (written) s1 cs where "certs_made W R refreshCA s h s1 (cs @ h)" "list_all quiet cs"
      "h' = CUpdate (OSecret s1) # cs @ h"
      "case writeErr (crw W) h' of Some e \<Rightarrow> r = GoRet (Some e) | None \<Rightarrow> r = GoRet None \<and> s' = answeredSecret W h' s1"
proof -
  define t where "t = clock (crw W) h"
  define ca where "ca = (if refreshCA then do { a \<leftarrow> CreateCACert W R (t - hour) (t + certValidityDuration); ret (map_sum id Some a) }
      else ret (buildArtifactsFromSecret W s))"
  obtain x h1 where x: "run_state ca h = (x, h1)" by fastforce
  have "performs quiet ca" unfolding ca_def by (intro performs_intros)
  then obtain cs where cs: "h1 = cs @ h" "list_all quiet cs" using performsE [OF _ x] by blast
  have run: "run_state (refreshCerts W R refreshCA s) h = run_state (case x of
       Inl e \<Rightarrow> ret (GoRet (Some e), s)
     | Inr caArtifacts \<Rightarrow> do {
         c \<leftarrow> CreateCertPEM W R caArtifacts (t - hour) (t + certValidityDuration);
         case c of
           GoPanic \<Rightarrow> ret (GoPanic, s)
         | GoRet (Inl e) \<Rightarrow> ret (GoRet (Some e), s)
         | GoRet (Inr (cert, key)) \<Rightarrow> (case caArtifacts of
             None \<Rightarrow> ret (GoPanic, s)
           | Some a \<Rightarrow> do { (w, secret') \<leftarrow> writeSecret W cert key a s; ret (GoRet w, secret') })
       }) h1"
    using x unfolding refreshCerts_def Let_def ca_def t_def by simp
  show thesis
  proof (cases x)
    case (Inl e)
    with run assms cs failed show ?thesis by simp
  next
    case (Inr o1)
    obtain c h2 where c: "run_state (CreateCertPEM W R o1 (t - hour) (t + certValidityDuration)) h1 = (c, h2)"
      by fastforce
    obtain ds where ds: "h2 = ds @ h1" "list_all quiet ds" using performsE [OF performs_CreateCertPEM c] .
    show ?thesis
    proof (cases "\<exists>cert key a. c = GoRet (Inr (cert, key)) \<and> o1 = Some a")
      case False
      with run assms Inr c ds cs show ?thesis
        by (intro failed [of "ds @ cs"]) (auto split: guarded.splits sum.splits option.splits)
    next
      case True
      then obtain cert key a where ok: "c = GoRet (Inr (cert, key))" "o1 = Some a" by blast
      have "ca_made W R refreshCA s h a h1"
        using x Inr ok(2) unfolding ca_made_def ca_def t_def [symmetric] Let_def
        by (auto split: if_splits prod.splits sum.splits simp: map_sum_def)
      with c ok ds cs have made: "certs_made W R refreshCA s h (populateSecret cert key a s) ((ds @ cs) @ h)"
        unfolding certs_made_def t_def by auto
      with run assms Inr c ok ds cs show ?thesis
        by (intro written [OF made])
          (auto simp: writeSecret_def secret_update_def split: option.splits prod.splits)
    qed
  qed
qed

lemma validCACert_run:
  "run_state (validCACert W R c k) h
   = (no_error (ValidCert W c c k (crr_CAName R) (clock (crw W) h + LookaheadInterval)), h)"
  by (simp add: validCACert_def lookaheadTime_def)

lemma validServerCert_run:
  "run_state (validServerCert W R ca c k) h
   = (no_error (ValidCert W ca c k (crr_dnsName R) (clock (crw W) h + LookaheadInterval)), h)"
  by (simp add: validServerCert_def lookaheadTime_def)

text \<open>What is still valid is left alone; a panic of a check ends the run; otherwise there is a refresh.\<close>

lemma refreshCertIfNeeded_run:
  assumes "run_state (refreshCertIfNeeded W R s) h = ((r, s'), h')"
    and "crr_dnsName R = service_dns_name R"
  obtains (valid) "ca_ok W R s (clock (crw W) h)" "server_ok W R s (clock (crw W) h)" "h' = h" "r = GoRet (Inr True)" "s' = s"
  | (panic) "h' = h" "r = GoPanic"
  | (refresh) x where "run_state (refreshCerts W R (\<not> ca_ok W R s (clock (crw W) h)) s) h = (x, h')"
      "(r, s') = refreshed x" "\<not> (ca_ok W R s (clock (crw W) h) \<and> server_ok W R s (clock (crw W) h))"
proof -
  define d where "d = sec_Data s"
  define ca where "ca = (if d = [] then GoRet False else no_error (ValidCert W (mget_str d caCertName)
    (mget_str d caCertName) (mget_str d caKeyName) (crr_CAName R) (clock (crw W) h + LookaheadInterval)))"
  define v where "v = no_error (ValidCert W (mget_str d caCertName)
    (mget_str d certName) (mget_str d keyName) (crr_dnsName R) (clock (crw W) h + LookaheadInterval))"
  have ca: "ca_ok W R s (clock (crw W) h) \<longleftrightarrow> ca = GoRet True"
    by (auto simp: ca_ok_def ca_def no_error_True d_def mget_str_def ValidCert_empty)
  have v: "server_ok W R s (clock (crw W) h) \<longleftrightarrow> v = GoRet True"
    using assms(2) by (simp add: server_ok_def v_def no_error_True d_def)
  have run: "run_state (refreshCertIfNeeded W R s) h = run_state (case ca of
      GoPanic \<Rightarrow> ret (GoPanic, s)
    | GoRet False \<Rightarrow> do { r \<leftarrow> refreshCerts W R True s; ret (refreshed r) }
    | GoRet True \<Rightarrow> (case v of
        GoPanic \<Rightarrow> ret (GoPanic, s)
      | GoRet False \<Rightarrow> do { r \<leftarrow> refreshCerts W R False s; ret (refreshed r) }
      | GoRet True \<Rightarrow> ret (GoRet (Inr True), s))) h"
    unfolding refreshCertIfNeeded_def Let_def d_def [symmetric]
    by (cases "d = []") (simp_all add: validCACert_run validServerCert_run ca_def v_def split: guarded.split bool.split)
  show thesis
  proof (cases ca)
    case GoPanic
    with run assms(1) show ?thesis by (intro panic) simp_all
  next
    case (GoRet b)
    show ?thesis
    proof (cases b)
      case False
      obtain x h2 where x: "run_state (refreshCerts W R True s) h = (x, h2)" by fastforce
      from False GoRet have "\<not> ca_ok W R s (clock (crw W) h)" using ca by simp
      with run assms(1) GoRet False x show ?thesis by (intro refresh) simp_all
    next
      case True
      with GoRet have c: "ca_ok W R s (clock (crw W) h)" using ca by simp
      show ?thesis
      proof (cases v)
        case GoPanic
        with run assms(1) GoRet True \<open>ca = GoRet b\<close> show ?thesis by (intro panic) simp_all
      next
        case (GoRet b')
        obtain x h2 where x: "run_state (refreshCerts W R False s) h = (x, h2)" by fastforce
        have vb: "server_ok W R s (clock (crw W) h) \<longleftrightarrow> b'" using v GoRet by simp
        show ?thesis
        proof (cases b')
          case True
          with run assms(1) GoRet \<open>b\<close> \<open>ca = GoRet b\<close> c vb show ?thesis by (intro valid) simp_all
        next
          case False
          with run assms(1) GoRet \<open>b\<close> \<open>ca = GoRet b\<close> c vb x show ?thesis by (intro refresh) simp_all
        qed
      qed
    qed
  qed
qed

section \<open>The writes of a run\<close>

lemma buildArtifacts_PEM:
  assumes "buildArtifactsFromSecret W s = Inr (Some a)"
  shows "mget (sec_Data s) caCertName = Some (kpa_CertPEM a)" "mget (sec_Data s) caKeyName = Some (kpa_KeyPEM a)"
  using assms by (auto simp: buildArtifactsFromSecret_def split: option.splits sum.splits)

text \<open>
  The Secret that replaces \<open>s\<close>: something in \<open>s\<close> was not valid; only the four entries change, and those of
  the CA only if the CA was not valid.
\<close>

definition renewed :: "CrdEnv \<Rightarrow> CrdReconciler \<Rightarrow> K8sSecret \<Rightarrow> instant \<Rightarrow> K8sSecret \<Rightarrow> bool" where
  "renewed W R s t s1 \<longleftrightarrow> \<not> (ca_ok W R s t \<and> server_ok W R s t)
     \<and> (\<exists>a cert key. s1 = populateSecret cert key a s
          \<and> (ca_ok W R s t \<longrightarrow> mget (sec_Data s) caCertName = Some (kpa_CertPEM a)
              \<and> mget (sec_Data s) caKeyName = Some (kpa_KeyPEM a)))"

lemma certs_made_renewed:
  assumes "certs_made W R (\<not> ca_ok W R s t) s h s1 h1" and "\<not> (ca_ok W R s t \<and> server_ok W R s t)"
  shows "renewed W R s t s1"
proof -
  obtain a h2 cert key where a: "ca_made W R (\<not> ca_ok W R s t) s h a h2" and s1: "s1 = populateSecret cert key a s"
    using assms(1) by (auto simp: certs_made_def)
  from a have "ca_ok W R s t \<longrightarrow> buildArtifactsFromSecret W s = Inr (Some a)"
    by (auto simp: ca_made_def Let_def)
  with s1 assms(2) show ?thesis unfolding renewed_def using buildArtifacts_PEM by blast
qed

text \<open>The definition with the service and the CA of a Secret that is valid or was renewed.\<close>

definition trusts ::
  "CrdEnv \<Rightarrow> CrdReconciler \<Rightarrow> K8sSecret \<Rightarrow> instant \<Rightarrow> CustomResourceDefinition \<Rightarrow> CustomResourceDefinition \<Rightarrow> bool" where
  "trusts W R s t c0 c \<longleftrightarrow> (\<exists>c1 s1 ca. injectService c0 (crr_SvcName R) (crr_SvcNamespace R) = Inr c1
     \<and> mget (sec_Data s1) caCertName = Some ca \<and> injectCert c1 ca = Inr c
     \<and> (s1 = s \<and> ca_ok W R s t \<and> server_ok W R s t
        \<or> (\<exists>s2 h. renewed W R s t s2 \<and> writeErr (crw W) (CUpdate (OSecret s2) # h) = None
             \<and> s1 = answeredSecret W (CUpdate (OSecret s2) # h) s2)))"

definition crd_write ::
  "CrdEnv \<Rightarrow> CrdReconciler \<Rightarrow> K8sSecret \<Rightarrow> instant \<Rightarrow> CustomResourceDefinition \<Rightarrow> Call \<Rightarrow> bool" where
  "crd_write W R s t c0 call \<longleftrightarrow> (\<exists>s1. call = CUpdate (OSecret s1) \<and> renewed W R s t s1)
     \<or> (\<exists>c. call = CUpdate (OCRD c) \<and> c \<noteq> c0 \<and> trusts W R s t c0 c)"

text \<open>The Secret in memory after the refresh: valid as it was, or renewed and accepted.\<close>

lemma refreshCertIfNeeded_writes:
  assumes "run_state (refreshCertIfNeeded W R s) h = ((r, s'), h')" and "crr_dnsName R = service_dns_name R"
    and t: "t = clock (crw W) h"
  shows "(\<exists>cs. h' = cs @ h \<and> list_all (\<lambda>c. quiet c \<or> crd_write W R s t c0 c) cs)
    \<and> (\<forall>n. r = GoRet (Inr n) \<longrightarrow> n \<and> (s' = s \<and> ca_ok W R s t \<and> server_ok W R s t
        \<or> (\<exists>s2 h. renewed W R s t s2 \<and> writeErr (crw W) (CUpdate (OSecret s2) # h) = None
             \<and> s' = answeredSecret W (CUpdate (OSecret s2) # h) s2)))"
  using assms(1,2)
proof (cases rule: refreshCertIfNeeded_run)
  case (refresh x)
  obtain r0 s0 where x: "x = (r0, s0)" by fastforce
  note run = refresh(1) [unfolded x]
  from run show ?thesis
  proof (cases rule: refreshCerts_run)
    case (failed cs)
    then have "list_all (\<lambda>c. quiet c \<or> crd_write W R s t c0 c) cs" by (simp add: list_all_iff)
    with failed refresh(2) x show ?thesis
      by (cases r0 rule: guarded.exhaust) (auto simp: refreshed_def split: option.splits)
  next
    case (written s1 cs)
    from written(1) have rn: "renewed W R s t s1"
      using refresh(3) unfolding t by (rule certs_made_renewed)
    then have "list_all (\<lambda>c. quiet c \<or> crd_write W R s t c0 c) (CUpdate (OSecret s1) # cs)"
      using written(2) by (auto simp: list_all_iff crd_write_def)
    then have "\<exists>cs. h' = cs @ h \<and> list_all (\<lambda>c. quiet c \<or> crd_write W R s t c0 c) cs"
      using written(3) by (intro exI [of _ "CUpdate (OSecret s1) # cs"]) simp
    moreover have "n \<and> (\<exists>s2 h. renewed W R s t s2 \<and> writeErr (crw W) (CUpdate (OSecret s2) # h) = None
        \<and> s' = answeredSecret W (CUpdate (OSecret s2) # h) s2)" if "r = GoRet (Inr n)" for n
    proof (cases "writeErr (crw W) h'")
      case None
      with written(4) have "r0 = GoRet None" "s0 = answeredSecret W h' s1" by simp_all
      with refresh(2) x that None rn written(3) show ?thesis
        by (auto simp: refreshed_def)
    next
      case (Some e)
      with written(4) refresh(2) x that show ?thesis by (simp add: refreshed_def)
    qed
    ultimately show ?thesis by blast
  qed
qed (use t in simp_all)

text \<open>
  C26: The certificate of the webhooks.  A run writes the Secret only if the CA or the server certificate in
  it is not valid ninety days ahead, and replaces the CA only if the CA itself is not; it writes the
  definition only to set the service and the CA, and the CA is that of a Secret whose certificates
  are valid or that was written with new ones in the same run.  When the run ends well, the definition
  that the API server has is one with such a CA.
\<close>

theorem crd_writes:
  assumes "getSecretObj (crw W) (CGet ''Secret'' (crr_SecretNamespace R) (crr_SecretName R) # h)
      (crr_SecretNamespace R) (crr_SecretName R) = Inr s"
    and "h1 = CGet ''CustomResourceDefinition'' ns name # CGet ''Secret'' (crr_SecretNamespace R) (crr_SecretName R) # h"
    and "getCRD W h1 ns name = Inr c0"
    and "run_state (updateCRD W R ns name) h = ((r, R'), h')"
  shows "(\<exists>cs. h' = cs @ h1 \<and> list_all (\<lambda>c. quiet c \<or> crd_write W R s (clock (crw W) h1) c0 c) cs)
    \<and> (r = GoRet None \<longrightarrow> (\<exists>c. trusts W R s (clock (crw W) h1) c0 c \<and> (c = c0 \<or> hd h' = CUpdate (OCRD c))))"
proof (cases "injectService c0 (crr_SvcName R) (crr_SvcNamespace R)")
  case (Inl e)
  with assms show ?thesis
    by (auto simp: updateCRD_def k_get_secret_def crd_get_def)
next
  case (Inr c1)
  let ?R = "R\<lparr>crr_dnsName := service_dns_name R\<rparr>" and ?t = "clock (crw W) h1"
  have same: "ca_ok W ?R s ?t = ca_ok W R s ?t" "server_ok W ?R s ?t = server_ok W R s ?t"
      "renewed W ?R s ?t = renewed W R s ?t" "crd_write W ?R s ?t c0 = crd_write W R s ?t c0"
    by (auto simp: ca_ok_def server_ok_def renewed_def crd_write_def trusts_def service_dns_name_def fun_eq_iff)
  obtain need s' h2 where n: "run_state (refreshCertIfNeeded W ?R s) h1 = ((need, s'), h2)" by (metis prod.exhaust)
  have dns: "crr_dnsName ?R = service_dns_name ?R" by (simp add: service_dns_name_def)
  note w = refreshCertIfNeeded_writes [OF n dns refl, of c0, unfolded same]
  obtain cs where cs: "h2 = cs @ h1" "list_all (\<lambda>c. quiet c \<or> crd_write W R s ?t c0 c) cs"
    using w by blast
  have run: "run_state (case need of
      GoPanic \<Rightarrow> ret (GoPanic, ?R)
    | GoRet (Inl e) \<Rightarrow> ret (GoRet (Some e), ?R)
    | GoRet (Inr b) \<Rightarrow> (case (if b then inject_ca W s' c1 else GoRet (Inr c1)) of
        GoPanic \<Rightarrow> ret (GoPanic, ?R)
      | GoRet (Inl e) \<Rightarrow> ret (GoRet (Some e), ?R)
      | GoRet (Inr c) \<Rightarrow> do { w \<leftarrow> write_crd W c0 c; ret (GoRet w, ?R) })) h2 = ((r, R'), h')"
    using assms Inr n by (simp add: updateCRD_def k_get_secret_def crd_get_def Let_def)
  show ?thesis
  proof (cases "need = GoRet (Inr True) \<and> (\<exists>c. inject_ca W s' c1 = GoRet (Inr c))")
    case False
    have "h' = h2 \<and> r \<noteq> GoRet None"
    proof (cases need)
      case (GoRet x)
      note need = this
      show ?thesis
      proof (cases x)
        case (Inl e)
        with run need show ?thesis by auto
      next
        case (Inr n)
        with w need have n by blast
        with False need Inr have "inject_ca W s' c1 = GoPanic \<or> (\<exists>e. inject_ca W s' c1 = GoRet (Inl e))"
          by (metis guarded.exhaust sum.exhaust)
        with run need Inr \<open>n\<close> show ?thesis by auto
      qed
    qed (use run in auto)
    with cs show ?thesis by blast
  next
    case True
    then obtain c where need: "need = GoRet (Inr True)" and c: "inject_ca W s' c1 = GoRet (Inr c)" by blast
    then obtain a where a: "buildArtifactsFromSecret W s' = Inr (Some a)" "injectCert c1 (kpa_CertPEM a) = Inr c"
      by (auto simp: inject_ca_def split: sum.splits option.splits)
    have tr: "trusts W R s ?t c0 c"
      using Inr a(2) buildArtifacts_PEM(1) [OF a(1)] mp [OF spec [OF conjunct2 [OF w], of True] need] unfolding trusts_def
      by (intro exI [of _ c1] exI [of _ s'] exI [of _ "kpa_CertPEM a"]) simp
    from run need c have h': "run_state (do { w \<leftarrow> write_crd W c0 c; ret (GoRet w, ?R) }) h2 = ((r, R'), h')"
      by simp
    show ?thesis
    proof (cases "c = c0")
      case True
      with h' cs tr show ?thesis by (auto simp: write_crd_def)
    next
      case False
      with h' have "h' = CUpdate (OCRD c) # h2" by (auto simp: write_crd_def k_write_def)
      moreover have "crd_write W R s ?t c0 (CUpdate (OCRD c))" using tr False by (simp add: crd_write_def)
      ultimately show ?thesis using cs tr by (intro conjI exI [of _ "CUpdate (OCRD c) # cs"] impI exI [of _ c]) auto
    qed
  qed
qed

section \<open>How long certificates last\<close>

text \<open>A certificate holds its dates in whole seconds.\<close>

definition in_window :: "CertTemplate \<Rightarrow> instant \<Rightarrow> bool" where
  "in_window templ at \<longleftrightarrow> ct_NotBefore templ \<le> at \<and> at \<le> ct_NotAfter templ div second * second"

lemma whole_second:
  fixes t e :: int
  assumes "t + second \<le> e"
  shows "t \<le> e div second * second"
proof -
  have "e mod second < second" by (rule pos_mod_bound) (simp add: duration_units)
  moreover have "e div second * second + e mod second = e" by simp
  ultimately show ?thesis using assms by linarith
qed

text \<open>A name that is verified as a host name: no address, no pattern, no other characters.\<close>

definition host_char :: "char \<Rightarrow> bool" where
  "host_char c \<longleftrightarrow> is_digit_char c \<or> (97 \<le> (of_char c :: nat) \<and> (of_char c :: nat) \<le> 122) \<or> c \<in> {CHR ''-'', CHR ''.''}"

definition plain_host :: "string \<Rightarrow> bool" where
  "plain_host n \<longleftrightarrow> list_all host_char n \<and> list_ex (\<lambda>c. host_char c \<and> \<not> is_digit_char c \<and> c \<noteq> CHR ''.'') n"

text \<open>The check asks for server authentication, which a certificate without extended usages allows.\<close>

definition allows_server :: "CertTemplate \<Rightarrow> bool" where
  "allows_server templ \<longleftrightarrow> ct_ExtKeyUsage templ = [] \<or> ''ServerAuth'' \<in> set (ct_ExtKeyUsage templ)"

text \<open>
  What is used of \<open>encoding/pem\<close>: decoding gives back what was encoded and leaves nothing.  Of
  \<open>crypto/x509\<close> and \<open>crypto/tls\<close>: a certificate that was made parses and goes with its key.  A self-signed
  CA certificate is verified for the host names it was made for, within its dates, when it is itself the
  root; a certificate that it signed is verified under it if the CA may sign certificates.  Both need, all
  along the chain, an extended key usage for server authentication or none, as \<open>VerifyOptions\<close> without
  key usages asks for.
\<close>

definition pem_laws :: "CrdEnv \<Rightarrow> bool" where
  "pem_laws W \<longleftrightarrow> (\<forall>ty b p. pemEncodeBlock W ty b = Inr p \<longrightarrow> p \<noteq> [] \<and> pemBlock W p = Some (b, []))"

definition pair_laws :: "CrdEnv \<Rightarrow> bool" where
  "pair_laws W \<longleftrightarrow> (\<forall>h templ ca k priv der p q. createCertificate W h templ ca k priv = Inr der \<longrightarrow>
     (\<exists>crt. parseCert W der = Inr crt)
     \<and> (pemEncode W der k = Inr (p, q) \<longrightarrow> x509KeyPair W p q = None))"

definition self_signed :: "CrdEnv \<Rightarrow> CertTemplate \<Rightarrow> PrivateKey \<Rightarrow> bytes \<Rightarrow> Certificate \<Rightarrow> bool" where
  "self_signed W templ k der crt \<longleftrightarrow> ct_IsCA templ
     \<and> (\<exists>h. createCertificate W h templ None k k = Inr der) \<and> parseCert W der = Inr crt"

definition verify_laws :: "CrdEnv \<Rightarrow> bool" where
  "verify_laws W \<longleftrightarrow> (\<forall>catempl cakey cader cacrt at. self_signed W catempl cakey cader cacrt \<longrightarrow> in_window catempl at \<longrightarrow>
     allows_server catempl \<longrightarrow>
     (\<forall>n \<in> set (ct_DNSNames catempl). plain_host n \<longrightarrow> verifyCert W cacrt n [cacrt] at = None)
     \<and> (\<forall>h templ k der crt. ''CertSign'' \<in> set (ct_KeyUsage catempl) \<longrightarrow>
          createCertificate W h templ (Some cacrt) k cakey = Inr der \<longrightarrow> parseCert W der = Inr crt \<longrightarrow>
          in_window templ at \<longrightarrow> allows_server templ \<longrightarrow>
          (\<forall>n \<in> set (ct_DNSNames templ). plain_host n \<longrightarrow> verifyCert W crt n [cacrt] at = None)))"

definition x509_laws :: "CrdEnv \<Rightarrow> bool" where
  "x509_laws W \<longleftrightarrow> pem_laws W \<and> pair_laws W \<and> verify_laws W"

lemma ValidCert_one_block:
  assumes "ca \<noteq> []" "cert \<noteq> []" "key \<noteq> []" "pemBlock W ca = Some (caDer, rest)" "parseCert W caDer = Inr cac"
    and "x509KeyPair W cert key = None" "pemBlock W cert = Some (der, [])" "parseCert W der = Inr crt"
    and "verifyCert W crt n [cac] at = None"
  shows "ValidCert W ca cert key n at = GoRet (True, None)"
  using assms by (simp add: ValidCert_def verify_chain_def)

text \<open>What \<open>issue\<close> gives, when it gives something.\<close>

lemma issue_run:
  assumes "run_state (issue W templ ca) h = (Inr (key, der, certPEM, keyPEM), h')"
  obtains h1 where "pemEncode W der key = Inr (certPEM, keyPEM)"
    "case ca of None \<Rightarrow> createCertificate W h1 templ None key key = Inr der
      | Some (c, k) \<Rightarrow> createCertificate W h1 templ (Some c) key k = Inr der"
  using assms unfolding issue_def GenerateKey_def CreateCertificate_def
  by (auto split: sum.splits option.splits prod.splits)

lemma CreateCACert_run:
  assumes "run_state (CreateCACert W R b e) h = (Inr a, h')"
  obtains der where "self_signed W (ca_template 0 (crr_CAName R) (crr_CAOrganization R) b e) (kpa_Key a) der (kpa_Cert a)"
    "pemEncode W der (kpa_Key a) = Inr (kpa_CertPEM a, kpa_KeyPEM a)"
proof -
  let ?templ = "ca_template 0 (crr_CAName R) (crr_CAOrganization R) b e"
  obtain x h1 where i: "run_state (issue W ?templ None) h = (x, h1)" by fastforce
  with assms obtain key der p q where x: "x = Inr (key, der, p, q)"
    by (cases x) (auto simp: CreateCACert_def artifacts_of_def)
  with assms i have a: "kpa_Key a = key" "kpa_CertPEM a = p" "kpa_KeyPEM a = q" "parseCert W der = Inr (kpa_Cert a)"
    by (auto simp: CreateCACert_def artifacts_of_def split: sum.splits)
  from i [unfolded x] obtain h2 where "pemEncode W der key = Inr (p, q)" "createCertificate W h2 ?templ None key key = Inr der"
    by (rule issue_run) simp
  with a show thesis by (intro that [of der]) (auto simp: self_signed_def ca_template_def)
qed

lemma CreateCertPEM_run:
  assumes "run_state (CreateCertPEM W R (Some a) b e) h = (GoRet (Inr (cert, key)), h')"
  obtains h1 k der where "createCertificate W h1 (server_template (crr_dnsName R) b e) (Some (kpa_Cert a)) k (kpa_Key a) = Inr der"
    "pemEncode W der k = Inr (cert, key)"
proof -
  let ?templ = "server_template (crr_dnsName R) b e"
  obtain x h1 where i: "run_state (issue W ?templ (Some (kpa_Cert a, kpa_Key a))) h = (x, h1)" by fastforce
  with assms obtain k der where "x = Inr (k, der, cert, key)"
    by (cases x) (auto simp: CreateCertPEM_def)
  from i [unfolded this] obtain h2 where "pemEncode W der k = Inr (cert, key)"
      "createCertificate W h2 ?templ (Some (kpa_Cert a)) k (kpa_Key a) = Inr der"
    by (rule issue_run) simp
  with that show thesis by blast
qed

lemma pemEncode_blocks:
  assumes "pem_laws W" and "pemEncode W der key = Inr (p, q)"
  shows "p \<noteq> []" "q \<noteq> []" "pemBlock W p = Some (der, [])"
  using assms by (auto simp: pemEncode_def pem_laws_def split: sum.splits)

lemma populateSecret_entries [simp]:
  "mget_str (sec_Data (populateSecret cert key a s)) caCertName = kpa_CertPEM a"
  "mget_str (sec_Data (populateSecret cert key a s)) caKeyName = kpa_KeyPEM a"
  "mget_str (sec_Data (populateSecret cert key a s)) certName = cert"
  "mget_str (sec_Data (populateSecret cert key a s)) keyName = key"
  by (simp_all add: populateSecret_def mget_str_mput caCertName_def caKeyName_def certName_def keyName_def)

lemma made_certs_valid:
  assumes "x509_laws W" and "certs_made W R True s h s1 h1" and "crr_dnsName R = service_dns_name R"
    and "clock (crw W) h \<le> u" and "u + LookaheadInterval + second \<le> clock (crw W) h + certValidityDuration"
    and "plain_host (crr_CAName R)" and "plain_host (service_dns_name R)"
  shows "ca_ok W R s1 u \<and> server_ok W R s1 u"
proof -
  let ?b = "clock (crw W) h - hour" and ?e = "clock (crw W) h + certValidityDuration"
  obtain a h2 cert key where a: "run_state (CreateCACert W R ?b ?e) h = (Inr a, h2)"
    and c: "run_state (CreateCertPEM W R (Some a) ?b ?e) h2 = (GoRet (Inr (cert, key)), h1)"
    and s1: "s1 = populateSecret cert key a s"
    using assms(2) by (auto simp: certs_made_def ca_made_def Let_def)
  obtain cader where ca: "self_signed W (ca_template 0 (crr_CAName R) (crr_CAOrganization R) ?b ?e) (kpa_Key a) cader (kpa_Cert a)"
    "pemEncode W cader (kpa_Key a) = Inr (kpa_CertPEM a, kpa_KeyPEM a)" using CreateCACert_run [OF a] .
  obtain h3 k der where sv: "createCertificate W h3 (server_template (crr_dnsName R) ?b ?e) (Some (kpa_Cert a)) k (kpa_Key a) = Inr der"
    "pemEncode W der k = Inr (cert, key)" using CreateCertPEM_run [OF c] .
  have laws: "pem_laws W" "pair_laws W" "verify_laws W" using assms(1) by (simp_all add: x509_laws_def)
  obtain crt where crt: "parseCert W der = Inr crt" using laws(2) sv(1) unfolding pair_laws_def by blast
  have at: "in_window (ca_template 0 (crr_CAName R) (crr_CAOrganization R) ?b ?e) (u + LookaheadInterval)"
    "in_window (server_template (crr_dnsName R) ?b ?e) (u + LookaheadInterval)"
    using assms(4) whole_second [OF assms(5)]
    by (simp_all add: in_window_def ca_template_def server_template_def LookaheadInterval_def duration_units)
  have usage: "allows_server (ca_template 0 (crr_CAName R) (crr_CAOrganization R) ?b ?e)"
    "''CertSign'' \<in> set (ct_KeyUsage (ca_template 0 (crr_CAName R) (crr_CAOrganization R) ?b ?e))"
    "allows_server (server_template (crr_dnsName R) ?b ?e)"
    by (simp_all add: allows_server_def ca_template_def server_template_def)
  have names: "crr_CAName R \<in> set (ct_DNSNames (ca_template 0 (crr_CAName R) (crr_CAOrganization R) ?b ?e))"
    "crr_dnsName R \<in> set (ct_DNSNames (server_template (crr_dnsName R) ?b ?e))"
    by (simp_all add: ca_template_def server_template_def)
  have "x509KeyPair W (kpa_CertPEM a) (kpa_KeyPEM a) = None"
    using laws(2) ca unfolding pair_laws_def self_signed_def by blast
  moreover have "x509KeyPair W cert key = None" using laws(2) sv unfolding pair_laws_def by blast
  moreover have "verifyCert W (kpa_Cert a) (crr_CAName R) [kpa_Cert a] (u + LookaheadInterval) = None"
    using laws(3) ca(1) at(1) usage(1) names(1) assms(6) unfolding verify_laws_def by blast
  moreover have "verifyCert W crt (crr_dnsName R) [kpa_Cert a] (u + LookaheadInterval) = None"
    using laws(3) ca(1) at usage sv(1) crt names(2) assms(3,7) unfolding verify_laws_def by metis
  moreover have "parseCert W cader = Inr (kpa_Cert a)" using ca(1) by (simp add: self_signed_def)
  ultimately show ?thesis
    using pemEncode_blocks [OF laws(1) ca(2)] pemEncode_blocks [OF laws(1) sv(2)] crt assms(3)
    unfolding ca_ok_def server_ok_def s1 populateSecret_entries by (simp add: ValidCert_one_block)
qed

lemma refreshCertIfNeeded_valid:
  assumes "ca_ok W R s (clock (crw W) h)" "server_ok W R s (clock (crw W) h)"
    and "crr_dnsName R = service_dns_name R"
  shows "run_state (refreshCertIfNeeded W R s) h = ((GoRet (Inr True), s), h)"
proof -
  have "sec_Data s \<noteq> []" using assms(1) by (auto simp: ca_ok_def mget_str_def ValidCert_empty)
  with assms show ?thesis
    by (simp add: refreshCertIfNeeded_def Let_def validCACert_run validServerCert_run ca_ok_def server_ok_def no_error_def)
qed

text \<open>
  C27: Ten years less ninety days.  When a Secret without a CA that is valid ninety days ahead was refreshed,
  that is with a new CA, then the Secret that was written is left as it is by every later check up to ten
  years, less the ninety days of looking ahead and the second that dates are cut to, after that time: it
  passes both checks and no call is made.  This needs of the names only that they are plain host names, and
  it rests on the key usages of both certificates: the CA may sign, the server certificate may authenticate
  a server.
\<close>

theorem crd_renewal_period:
  assumes "x509_laws W" and "crr_dnsName R = service_dns_name R"
    and "\<not> ca_ok W R s (clock (crw W) h)"
    and "run_state (refreshCertIfNeeded W R s) h = ((GoRet (Inr b), s'), CUpdate (OSecret s1) # h1)"
    and "sec_Data s2 = sec_Data s1"
    and "clock (crw W) h \<le> clock (crw W) h2"
    and "clock (crw W) h2 + second \<le> clock (crw W) h + certValidityDuration - LookaheadInterval"
    and "plain_host (crr_CAName R)" and "plain_host (service_dns_name R)"
  shows "run_state (refreshCertIfNeeded W R s2) h2 = ((GoRet (Inr True), s2), h2)"
  using assms(4,2)
proof (cases rule: refreshCertIfNeeded_run)
  case (refresh x)
  obtain r0 s0 where x: "x = (r0, s0)" by fastforce
  have r0: "r0 = GoRet None"
    using refresh(2) x by (cases r0) (auto simp: refreshed_def split: option.splits)
  have run: "run_state (refreshCerts W R True s) h = ((r0, s0), CUpdate (OSecret s1) # h1)"
    using refresh(1) x assms(3) by simp
  have "certs_made W R True s h s1 h1"
    using run
  proof (cases rule: refreshCerts_run)
    case (written s3 cs)
    then show ?thesis by simp
  qed (use r0 in simp)
  then have "ca_ok W R s1 (clock (crw W) h2) \<and> server_ok W R s1 (clock (crw W) h2)"
    by (rule made_certs_valid [OF assms(1)]) (use assms(2,6-9) in simp_all)
  then have "ca_ok W R s2 (clock (crw W) h2)" "server_ok W R s2 (clock (crw W) h2)"
    using assms(5) by (simp_all add: ca_ok_def server_ok_def)
  then show ?thesis using assms(2) by (rule refreshCertIfNeeded_valid)
qed (use assms(3) in simp_all)

section \<open>Text behind a certificate\<close>

text \<open>
  C28: What follows the first block of a certificate is decoded without looking whether it is a block: with
  any other text there, a blank line say, and a valid CA the check panics, and with it every run of the
  controller, so the Secret is never repaired.
\<close>

theorem crd_trailing_text_panics:
  assumes "getSecretObj (crw W) (CGet ''Secret'' (crr_SecretNamespace R) (crr_SecretName R) # h)
      (crr_SecretNamespace R) (crr_SecretName R) = Inr s"
    and "h1 = CGet ''CustomResourceDefinition'' ns name # CGet ''Secret'' (crr_SecretNamespace R) (crr_SecretName R) # h"
    and "getCRD W h1 ns name = Inr c0" "injectService c0 (crr_SvcName R) (crr_SvcNamespace R) = Inr c1"
    and "name \<in> set (crr_CrdResources R)"
    and "ca_ok W R s (clock (crw W) h1)"
    and "x509KeyPair W (mget_str (sec_Data s) certName) (mget_str (sec_Data s) keyName) = None"
    and "mget_str (sec_Data s) certName \<noteq> []" "mget_str (sec_Data s) keyName \<noteq> []"
    and "pemBlock W (mget_str (sec_Data s) certName) = Some (b, rest)" "rest \<noteq> []" "pemBlock W rest = None"
  shows "fst (fst (run_state (crd_Reconcile W R ns name) h)) = GoPanic"
proof -
  let ?R = "R\<lparr>crr_dnsName := service_dns_name R\<rparr>"
  have d: "sec_Data s \<noteq> []" using assms(6) by (auto simp: ca_ok_def mget_str_def ValidCert_empty)
  have ca: "ValidCert W (mget_str (sec_Data s) caCertName) (mget_str (sec_Data s) caCertName)
     (mget_str (sec_Data s) caKeyName) (crr_CAName R) (clock (crw W) h1 + LookaheadInterval) = GoRet (True, None)"
    using assms(6) by (simp add: ca_ok_def)
  then have "mget_str (sec_Data s) caCertName \<noteq> []" by (auto simp: ValidCert_empty)
  with ca obtain x where "pemBlock W (mget_str (sec_Data s) caCertName) = Some x"
      "\<exists>crt. parseCert W (fst x) = Inr crt"
    by (auto simp: ValidCert_def split: if_splits option.splits sum.splits prod.splits)
  then have sv: "ValidCert W (mget_str (sec_Data s) caCertName) (mget_str (sec_Data s) certName)
     (mget_str (sec_Data s) keyName) (service_dns_name R) (clock (crw W) h1 + LookaheadInterval) = GoPanic"
    using assms(7-12) \<open>mget_str (sec_Data s) caCertName \<noteq> []\<close>
    by (cases x) (auto simp: ValidCert_def)
  have "run_state (refreshCertIfNeeded W ?R s) h1 = ((GoPanic, s), h1)"
    using d ca sv by (simp add: refreshCertIfNeeded_def Let_def validCACert_run validServerCert_run no_error_def)
  with assms(1-5) show ?thesis
    by (simp add: crd_Reconcile_def updateCRD_def k_get_secret_def crd_get_def Let_def)
qed

section \<open>The webhook configuration\<close>

text \<open>
  Injecting panics exactly for a webhook of the operator that is reached by URL; it changes nothing the
  second time, so the next run of the controller writes nothing.
\<close>

lemma inject_webhooks_panic:
  "inject_webhooks n ns ca ws = GoPanic \<longleftrightarrow>
     (\<exists>w \<in> set ws. HasSuffix (vw_Name w) ''external-secrets.io'' \<and> wcc_Service (vw_ClientConfig w) = None)"
  by (induction ws) (auto split: option.splits guarded.splits)

lemma inject_webhooks_idem:
  "inject_webhooks n ns ca ws = GoRet ws' \<Longrightarrow> inject_webhooks n ns ca ws' = GoRet ws'"
  by (induction ws arbitrary: ws') (auto split: if_splits option.splits guarded.splits)

lemma wh_settles:
  assumes "getSecretObj (crw W) (CGet ''Secret'' (whr_SecretNamespace R) (whr_SecretName R) # h)
      (whr_SecretNamespace R) (whr_SecretName R) = Inr s"
    and "mget (sec_Data s) caCertName = Some ca"
    and "inject_webhooks (whr_SvcName R) (whr_SvcNamespace R) ca ws = GoRet (vwc_Webhooks cfg)"
  shows "run_state (wh_updateConfig W R cfg) h
    = (GoRet None, CGet ''Secret'' (whr_SecretNamespace R) (whr_SecretName R) # h)"
  using assms inject_webhooks_idem [OF assms(3)] by (simp add: wh_updateConfig_def k_get_secret_def)

section \<open>A sample environment\<close>

text \<open>
  A block is put between a dash and a hash sign.  A certificate tells only whether it may sign others,
  authenticate a server, or both, and a certificate is verified by these.
\<close>

definition sample_crd :: CustomResourceDefinition where
  "sample_crd = \<lparr>crd_Meta = sample_meta, crd_Conversion = Some \<lparr>crc_Strategy = ''Webhook'', crc_Webhook =
     Some (Some \<lparr>wcc_Service = Some \<lparr>svr_Name = ''svc'', svr_Namespace = ''app''\<rparr>, wcc_CABundle = []\<rparr>)\<rparr>\<rparr>"

definition sample_crd_env :: CrdEnv where
  "sample_crd_env = \<lparr>crw = sample_env\<lparr>getSecretObj := \<lambda>h ns n. Inr sample_secret\<rparr>,
     getCRD = \<lambda>h ns n. Inr sample_crd, getVWC = \<lambda>h ns n. Inl not_found, answeredSecret = \<lambda>h s. s,
     pemBlock = \<lambda>p. if p \<noteq> [] \<and> hd p = CHR ''-''
       then Some (takeWhile (\<lambda>c. c \<noteq> CHR ''#'') (tl p), tl (dropWhile (\<lambda>c. c \<noteq> CHR ''#'') (tl p))) else None,
     pemEncodeBlock = \<lambda>ty b. if CHR ''#'' \<in> set b then Inl not_found else Inr (''-'' @ b @ ''#''),
     parseCert = Inr, parseKey = Inr, marshalKey = id, x509KeyPair = \<lambda>c k. None,
     verifyCert = \<lambda>c n pool at. if CHR ''a'' \<in> set c \<and> (c \<in> set pool \<or> list_ex (\<lambda>ca. CHR ''s'' \<in> set ca) pool)
       then None else Some not_found,
     generateKey = \<lambda>h. Inr ''key'',
     createCertificate = \<lambda>h templ ca k priv. Inr ((if ''CertSign'' \<in> set (ct_KeyUsage templ) then ''s'' else [])
       @ (if allows_server templ then ''a'' else [])), statFile = \<lambda>h f. None, joinPath = (@)\<rparr>"

definition sample_crd_reconciler :: CrdReconciler where
  "sample_crd_reconciler = (crd_New hour \<lparr>cro_SvcName = ''svc'', cro_SvcNamespace = ''app'', cro_SecretName = ''tls'',
     cro_SecretNamespace = ''app'', cro_Resources = [''crd'']\<rparr>)\<lparr>crr_dnsName := ''svc.app.svc''\<rparr>"

definition made_secret :: K8sSecret where
  "made_secret = populateSecret ''-a#'' ''-key#''
     \<lparr>kpa_Cert = ''sa'', kpa_Key = ''key'', kpa_CertPEM = ''-sa#'', kpa_KeyPEM = ''-key#''\<rparr> sample_secret"

lemma sample_dropWhile: "CHR ''#'' \<notin> set b \<Longrightarrow> dropWhile (\<lambda>c. c \<noteq> CHR ''#'') (b @ ''#'') = ''#''"
  by (induction b) auto

lemma sample_takeWhile: "CHR ''#'' \<notin> set b \<Longrightarrow> takeWhile (\<lambda>c. c \<noteq> CHR ''#'') (b @ ''#'') = b"
  by (induction b) auto

lemma sample_verifies: "verify_laws sample_crd_env"
  unfolding verify_laws_def self_signed_def
proof (intro allI impI conjI ballI; elim conjE exE)
  fix catempl cakey cader cacrt at n h
  assume "allows_server catempl" "createCertificate sample_crd_env h catempl None cakey cakey = Inr cader"
    "parseCert sample_crd_env cader = Inr cacrt"
  then show "verifyCert sample_crd_env cacrt n [cacrt] at = None"
    by (auto simp: sample_crd_env_def)
next
  fix catempl cakey cader cacrt at h templ k der crt n h'
  assume "''CertSign'' \<in> set (ct_KeyUsage catempl)" "allows_server templ"
    "createCertificate sample_crd_env h' catempl None cakey cakey = Inr cader"
    "parseCert sample_crd_env cader = Inr cacrt" "parseCert sample_crd_env der = Inr crt"
    "createCertificate sample_crd_env h templ (Some cacrt) k cakey = Inr der"
  then show "verifyCert sample_crd_env crt n [cacrt] at = None"
    by (auto simp: sample_crd_env_def)
qed

lemma sample_x509: "x509_laws sample_crd_env"
  using sample_verifies
  by (simp add: x509_laws_def pem_laws_def pair_laws_def sample_crd_env_def sample_dropWhile sample_takeWhile)

theorem crd_renewal_period_example:
  "run_state (refreshCertIfNeeded sample_crd_env sample_crd_reconciler made_secret) []
   = ((GoRet (Inr True), made_secret), [])"
proof (rule crd_renewal_period [OF sample_x509, where s = sample_secret and h = "[]" and b = True and s' = made_secret
      and ?s1.0 = made_secret])
  show "run_state (refreshCertIfNeeded sample_crd_env sample_crd_reconciler sample_secret) [] =
      ((GoRet (Inr True), made_secret), CUpdate (OSecret made_secret) # replicate 4 (CReadFile random_source))"
    by code_simp
  show "plain_host (crr_CAName sample_crd_reconciler)" by code_simp
  show "plain_host (service_dns_name sample_crd_reconciler)" by code_simp
  show "clock (crw sample_crd_env) [] + second \<le> clock (crw sample_crd_env) [] + certValidityDuration - LookaheadInterval"
    by (simp add: certValidityDuration_def LookaheadInterval_def duration_units)
qed (simp_all add: sample_crd_reconciler_def crd_New_def service_dns_name_def ca_ok_def sample_secret_def
    mget_str_def ValidCert_empty)

definition sample_crd_run :: "(err option guarded \<times> CrdReconciler) \<times> history" where
  "sample_crd_run = run_state (updateCRD sample_crd_env sample_crd_reconciler [] ''crd'') []"

definition sample_crd_reads :: history where
  "sample_crd_reads = [CGet ''CustomResourceDefinition'' [] ''crd'', CGet ''Secret'' ''app'' ''tls'']"

theorem crd_writes_example:
  "\<exists>c. trusts sample_crd_env sample_crd_reconciler sample_secret (clock (crw sample_crd_env) sample_crd_reads) sample_crd c
     \<and> (c = sample_crd \<or> hd (snd sample_crd_run) = CUpdate (OCRD c))"
proof -
  obtain r R' h' where run: "sample_crd_run = ((r, R'), h')" by (metis prod.exhaust)
  have "fst (fst sample_crd_run) = GoRet None" by code_simp
  moreover have "getSecretObj (crw sample_crd_env) (CGet ''Secret'' (crr_SecretNamespace sample_crd_reconciler)
      (crr_SecretName sample_crd_reconciler) # []) (crr_SecretNamespace sample_crd_reconciler)
      (crr_SecretName sample_crd_reconciler) = Inr sample_secret" by (simp add: sample_crd_env_def)
  moreover have "sample_crd_reads = CGet ''CustomResourceDefinition'' [] ''crd'' # CGet ''Secret''
      (crr_SecretNamespace sample_crd_reconciler) (crr_SecretName sample_crd_reconciler) # []"
    by (simp add: sample_crd_reads_def sample_crd_reconciler_def crd_New_def)
  moreover have "getCRD sample_crd_env sample_crd_reads [] ''crd'' = Inr sample_crd" by (simp add: sample_crd_env_def)
  ultimately show ?thesis
    using crd_writes [where W = sample_crd_env and R = sample_crd_reconciler and h = "[]" and ?h1.0 = sample_crd_reads
        and s = sample_secret and ns = "[]" and name = "''crd''" and r = r and R' = R' and h' = h' and ?c0.0 = sample_crd]
    by (simp add: run [unfolded sample_crd_run_def] run)
qed

text \<open>The Secret with a blank line behind the server certificate.\<close>

definition edited_secret :: K8sSecret where
  "edited_secret = made_secret\<lparr>sec_Data := mput certName ''-cert#
'' (sec_Data made_secret)\<rparr>"

theorem crd_trailing_text_panics_example:
  "fst (fst (run_state (crd_Reconcile (sample_crd_env\<lparr>crw := sample_env\<lparr>getSecretObj := \<lambda>h ns n. Inr edited_secret\<rparr>\<rparr>)
     sample_crd_reconciler [] ''crd'') [])) = GoPanic"
  by (rule crd_trailing_text_panics [OF _ refl, where s = edited_secret and b = "''cert''" and rest = "[CHR 0x0A]"])
    code_simp+

end
