(* ===== verification/Spec2Isabelle.thy ===== *)
theory Spec2Isabelle
  imports Secret_Laws Dynamic_Laws Store_Laws Akeyless_Laws Webhook_Laws Keys_Laws Cache
    State_Manager Password Es_Laws Client_Manager_Laws Ps_Writes Ps_Finalizer Ps_Push Ps_Faults
    Ces_Laws Cps_Controller Ss_Laws Gs_Laws Informers Secret_Settles Crd_Laws
begin

text \<open>
  The Akeyless secrets operator: a Kubernetes operator that keeps Kubernetes Secrets in step with
  secrets held by Akeyless.  The program is a fork of the External Secrets Operator; this
  development models the code that is the operator's own, the runtime it rests on, and the inherited
  controllers that run beside it.

  \<^bold>\<open>Parts and how they interact.\<close>  A user declares a store (\<open>AkeylessSecretStore\<close>, or the cluster
  wide one), which says how to reach and authenticate with a gateway, and resources that name a
  store and remote items.  The store reconcilers (theory \<open>Store\<close>, \<open>pkg/controllers/akeylessstore\<close>)
  validate a store and record a condition.  The reconcilers of AkeylessSecret
  (\<open>Secret_Controller\<close>, \<open>pkg/controllers/akeylesssecret\<close>) and AkeylessDynamicSecret
  (\<open>Dynamic_Controller\<close>, \<open>pkg/controllers/akeylessdynamicsecret\<close>) decide whether a
  synchronisation is due (\<open>Refresh\<close>, \<open>pkg/akeyless/sync/refresh.go\<close>), find the store and adapt it
  (\<open>Adapter\<close>, \<open>pkg/akeyless/adapter\<close>), make a client of the provider, fetch, apply the Secret
  (\<open>Managed_Secret\<close>, \<open>pkg/akeyless/sync/secret.go\<close>), restart workloads (\<open>Rollout\<close>,
  \<open>pkg/akeyless/sync/rollout.go\<close>) and record the outcome in the status.  The provider
  (\<open>Akeyless_Client\<close>, \<open>Akeyless_Api\<close>, \<open>Akeyless_Auth\<close>, \<open>providers/v1/akeyless\<close>) caches clients
  (\<open>Cache\<close>, \<open>runtime/cache\<close>), gets tokens and sends requests.  The webhook (\<open>Webhook\<close>,
  \<open>pkg/akeyless/webhook\<close>) marks the resources that refer to a changed item, so that their next
  reconcile fetches.  \<open>Secret_Keys\<close> and \<open>Resolvers\<close> are \<open>runtime/esutils\<close>; \<open>State_Manager\<close> is
  \<open>runtime/statemanager\<close>; \<open>Password\<close> is \<open>generators/v1/password\<close>.

  \<^bold>\<open>The inherited controllers.\<close>  An ExternalSecret (\<open>Es_Types\<close>) names stores, generators, a target and
  templates.  Its reconciler (\<open>Es_Controller\<close>, \<open>pkg/controllers/externalsecret\<close>) decides whether a refresh
  is due (\<open>Es_Refresh\<close>), gets clients from a client manager (\<open>Client_Manager\<close>,
  \<open>pkg/controllers/secretstore/client_manager.go\<close>), merges what the sources give (\<open>Es_Data\<close>), fills the
  target through templates (\<open>Es_Template\<close>, \<open>pkg/controllers/templating\<close>; \<open>Template_Engine\<close>,
  \<open>runtime/template\<close>) and creates, updates or deletes it (\<open>Es_Target\<close>; \<open>Es_Generic\<close> for objects that
  are not Secrets).  \<open>Es_Validators\<close> is the validating webhook.  \<open>EsEnv\<close> (\<open>Es_World\<close>) extends the
  environment by their objects, the provider registry and the template libraries.  \<open>Informers\<close> is its
  informer manager (\<open>informer_manager.go\<close>).

  A PushSecret (\<open>Ps_Types\<close>) goes the other way: its reconciler (\<open>Ps_Controller\<close>, \<open>pkg/controllers/pushsecret\<close>)
  reads Secrets or a generator, works out the entries each store is to hold (\<open>Ps_Data\<close>), pushes them,
  records in the status what was pushed, and deletes what is on record and no longer wanted.  A
  ClusterExternalSecret (\<open>Ces_Controller\<close>, \<open>pkg/controllers/clusterexternalsecret\<close>) and a
  ClusterPushSecret (\<open>Cps_Controller\<close>, \<open>pkg/controllers/clusterpushsecret\<close>) keep one ExternalSecret or
  PushSecret in every selected namespace.  \<open>Ss_Controller\<close> (\<open>pkg/controllers/secretstore\<close>) validates
  SecretStores and holds them by a finalizer while PushSecrets refer to them; \<open>Gs_Controller\<close>
  (\<open>pkg/controllers/generatorstate\<close>) cleans up after generators.  \<open>PsEnv\<close> (\<open>Ps_World\<close>) extends \<open>EsEnv\<close> by
  their objects.  \<open>Crd_Controller\<close> (\<open>pkg/controllers/crds\<close>, \<open>pkg/controllers/webhookconfig\<close>) makes and
  renews the certificate of the webhooks and writes its CA into CustomResourceDefinitions (\<open>Crd_Types\<close>)
  and webhook configurations.

  \<^bold>\<open>State and effects.\<close>  The program keeps its state outside itself, in the API server, the
  gateway and a cache.  Theory \<open>Kube\<close> records each request as a \<open>Call\<close>; effectful code is a state
  monad over the list of calls made, and the environment \<open>Env\<close> answers each call by a function of
  that list.  So an answer may depend on everything before it, and a theorem for every environment
  covers every server, every fault and every interleaving with other writers.  Go errors are the
  datatype \<open>err\<close> of \<open>Prelude\<close>, a fallible function returns a sum, a nil dereference that can happen
  is the value \<open>GoPanic\<close>.  Go maps are association lists; their order stands for the order in which
  Go ranges, which it leaves open.

  \<^bold>\<open>Library.\<close>  \<open>Go_Strings\<close>, \<open>Go_Time\<close> and \<open>Go_Encoding\<close> model what the code uses of the Go
  standard library, with round trips for RFC 3339 timestamps, base64 and UTF-8.  \<open>performs\<close>
  (\<open>Kube\<close>) and \<open>traces\<close> (\<open>Traces\<close>) are a Hoare logic over calls with one rule per construct; \<open>steps\<close>
  (\<open>Step_Logic\<close>) is the one in which a call is judged together with the calls before it, so that a write
  can be tied to the answer of an earlier read, and \<open>Write_Laws\<close> says in it which writes are allowed.
  The locale \<open>secrets_provider\<close> (\<open>Provider_Interface\<close>) is the contract between the reconcilers and
  a provider, interpreted by \<open>akl\<close> on the Akeyless provider (\<open>Akeyless_Reads\<close>); the locale
  \<open>reconciler\<close> (\<open>Reconcile_Laws\<close>) extends it by what both reconcilers share and is interpreted by
  \<open>as_run\<close> (\<open>Secret_Laws\<close>) and \<open>dyn_run\<close> (\<open>Dynamic_Laws\<close>).  The locale \<open>es_sources\<close>
  (\<open>Es_Interfaces\<close>) is what the ExternalSecret reconciler relies on from registered providers, clients and
  generators, interpreted by \<open>akl_es\<close> on the Akeyless provider and the password generator.
  \<open>push_sources\<close> (\<open>Ps_Interfaces\<close>) is what the PushSecret reconciler relies on besides, interpreted by
  \<open>akl_push\<close>.

  \<^bold>\<open>What is shown.\<close>  \<open>Secret_Laws\<close> and \<open>Dynamic_Laws\<close>: which calls a reconcile makes, on which objects as
  they were read, in which order and with which outcome.  \<open>Refresh\<close>: polling is neither early nor starved.
  \<open>Managed_Secret\<close>: what is applied, when it counts as valid and when drift is noticed.  \<open>Store_Laws\<close>: what
  \<open>ValidateStore\<close> accepts, and that a store is reported ready exactly after its gateway was dialled.  \<open>Akeyless_Laws\<close>: confinement of reads and writes, the client cache, pushes and
  deletes.  \<open>Webhook_Laws\<close>: who is marked, and when a mark has an effect.  \<open>Keys_Laws\<close>: rewriting,
  converting and decoding.  \<open>Cache\<close>: locks exclude each other.  \<open>Client_Manager_Laws\<close>: the client
  manager refines a pool of connections, and hands out a client only for a store that may be used.
  \<open>Es_Data_Laws\<close>: what the sources of an ExternalSecret give together.  \<open>Es_Writes\<close> and \<open>Es_Laws\<close>: what
  a reconcile of an ExternalSecret writes, which targets it leaves alone and what it still does to them,
  and that it comes back or shows a failure.
  \<open>Template_Laws\<close>: paths; \<open>Es_Escape\<close>: what a path can reach.  \<open>Ps_Writes\<close>: what a PushSecret writes.
  \<open>Ps_Deletion\<close>, \<open>Ps_Finalizer\<close>: the record of what was pushed forgets nothing that was not deleted
  in the run itself, and the finalizer goes after everything on record.  \<open>Ps_Push\<close>: which entries are pushed,
  and that the record is the log of the pushes that were taken.  \<open>Ps_Faults\<close>: selectors of several or no Secrets, errors that lose their
  kind.  \<open>Ces_Laws\<close>: what a ClusterExternalSecret writes, what its status accounts for, and the
  namespaces it leaves behind.  \<open>Ss_Laws\<close>: stores are held while PushSecrets need them.  \<open>Gs_Laws\<close>: the
  life of a GeneratorState.  \<open>Secret_Settles\<close>: a synchronised AkeylessSecret is left alone by the next
  run.  \<open>Crd_Laws\<close>: when the certificate is renewed, and how long it lasts.  \<open>Informers\<close>: the
  informer manager refines a relation of users.  Several theorems state behaviour
  the code does not intend; they are listed as findings of the manifest.

  \<^bold>\<open>Parameters.\<close>  The API server, the gateway, the Akeyless SDK, the cloud identity SDKs, the LRU
  cache, SHA-3, JSON, gjson, regular expressions, URL parsing, X.509, RSA, PEM, Unicode tables and the
  password library are fields of \<open>Env\<close> or arguments; what a theorem needs of one is a hypothesis
  (\<open>verify_laws\<close> asks of X.509 that the CA may sign and that the chain allows server authentication;
  \<open>cesref_law\<close> that \<open>SetControllerReference\<close> tells controllers apart by group, kind and name).
  Logging, metrics and manager set-up have no effect in the model.

  \<^bold>\<open>Bounds.\<close>  No fuel is used: every loop ranges over a list or has a measure.  A year has four
  digits where a timestamp is printed; the garbage collection grace period is its default.

  \<^bold>\<open>Not modelled.\<close>  The
  providers and generators of other vendors, which are glue to their SDKs; generated deep copies and
  client sets; process start-up, metrics and logging.  The text templates themselves and YAML are
  parameters: what the code does around them is modelled.
\<close>

end
